(* ===== verification/Prelude.thy ===== *)
theory Prelude
  imports Main
begin

text \<open>
  What every component of the operator shares: Go errors and the shape of a Go call that
  may fail and changes the world, the string functions of Go's standard library the
  sources use, fixed-width counters, and the lemma collections of the development.
\<close>

named_theorems go_simps \<open>unfolding of Go calls, returns and error checks\<close>
named_theorems frame_simps \<open>what an operation leaves unchanged\<close>

section \<open>Errors and calls\<close>

text \<open>
  A Go error value. Two things are observed of an error: \<open>apierrors.IsNotFound\<close> and
  \<open>Error()\<close>, the message.
\<close>

datatype go_error = GoErr (IsNotFound: bool) (Error: string)

type_synonym 'a res = "go_error + 'a"

text \<open>
  A Go call returning \<open>(x, err)\<close> in a world \<open>'s\<close> it may change; \<open>Inl\<close> is a non-nil error.
\<close>

type_synonym ('a, 's) op = "'s \<Rightarrow> 'a res \<times> 's"

text \<open>\<open>fmt.Errorf\<close> without and with \<open>%w\<close>: wrapping keeps what \<open>errors.As\<close> finds inside.\<close>

definition Errorf :: "string \<Rightarrow> go_error" where
  "Errorf m = GoErr False m"

definition Wrapf :: "string \<Rightarrow> go_error \<Rightarrow> go_error" where
  "Wrapf m e = GoErr (IsNotFound e) (m @ Error e)"

definition ret :: "'a \<Rightarrow> ('a, 's) op" where
  "ret x s = (Inr x, s)"

definition fail :: "go_error \<Rightarrow> ('a, 's) op" where
  "fail e s = (Inl e, s)"

text \<open>
  \<open>x, err := m(); if err != nil { return h(err) }; k(x)\<close>: run \<open>m\<close>, go on with \<open>h\<close> on an
  error and with \<open>k\<close> otherwise.
\<close>

definition attempt ::
  "('a, 's) op \<Rightarrow> (go_error \<Rightarrow> ('b, 's) op) \<Rightarrow> ('a \<Rightarrow> ('b, 's) op) \<Rightarrow> ('b, 's) op" where
  "attempt m h k s = (case m s of (Inl e, s') \<Rightarrow> h e s' | (Inr x, s') \<Rightarrow> k x s')"

text \<open>\<open>if err := m(); err != nil { return wrap(err) }\<close> with \<open>m\<close> and \<open>k\<close> the only paths.\<close>

definition andthen :: "(unit, 's) op \<Rightarrow> ('b, 's) op \<Rightarrow> ('b, 's) op" where
  "andthen m k = attempt m fail (\<lambda>_. k)"

text \<open>A statement that cannot fail: \<open>do_(f); k\<close>.\<close>

definition effect :: "('s \<Rightarrow> 's) \<Rightarrow> ('b, 's) op \<Rightarrow> ('b, 's) op" where
  "effect f k s = k (f s)"

text \<open>\<open>defer f()\<close>: \<open>f\<close> runs after the body on every path.\<close>

definition deferred :: "('s \<Rightarrow> 's) \<Rightarrow> ('b, 's) op \<Rightarrow> ('b, 's) op" where
  "deferred f m s = (case m s of (r, s') \<Rightarrow> (r, f s'))"

lemma Error_Errorf [simp]: "Error (Errorf m) = m" "IsNotFound (Errorf m) = False"
  by (simp_all add: Errorf_def)

lemma Error_Wrapf [simp]: "Error (Wrapf m e) = m @ Error e" "IsNotFound (Wrapf m e) = IsNotFound e"
  by (simp_all add: Wrapf_def)

lemma ret_apply [simp]: "ret x s = (Inr x, s)"
  by (simp add: ret_def)

lemma fail_apply [simp]: "fail e s = (Inl e, s)"
  by (simp add: fail_def)

lemma attempt_Inl [simp]: "m s = (Inl e, s') \<Longrightarrow> attempt m h k s = h e s'"
  by (simp add: attempt_def)

lemma attempt_Inr [simp]: "m s = (Inr x, s') \<Longrightarrow> attempt m h k s = k x s'"
  by (simp add: attempt_def)

lemma attempt_ret [simp]: "attempt (ret x) h k = k x"
  by (rule ext) simp

lemma attempt_fail [simp]: "attempt (fail e) h k = h e"
  by (rule ext) simp

lemma andthen_apply [simp]:
  "m s = (Inr u, s') \<Longrightarrow> andthen m k s = k s'"
  "m s = (Inl e, s') \<Longrightarrow> andthen m k s = (Inl e, s')"
  by (simp_all add: andthen_def)

lemma andthen_ret [simp]: "andthen (ret ()) k = k"
  by (rule ext) simp

lemma effect_apply [simp]: "effect f k s = k (f s)"
  by (simp add: effect_def)

lemma deferred_apply [simp]: "m s = (r, s') \<Longrightarrow> deferred f m s = (r, f s')"
  by (simp add: deferred_def)

text \<open>Case analysis on a call: the rule behind every proof about an error path.\<close>

lemma attempt_cases [consumes 1, case_names error ok]:
  assumes "attempt m h k s = (r, t)"
  obtains (error) e s' where "m s = (Inl e, s')" "h e s' = (r, t)"
    | (ok) x s' where "m s = (Inr x, s')" "k x s' = (r, t)"
  using assms by (auto simp: attempt_def split: prod.splits sum.splits)

text \<open>
  A property of the world that the call and both continuations keep is kept by the whole;
  the generic step of every "no path touches \<open>X\<close>" proof.
\<close>

lemma attempt_preserves:
  assumes "P s" and "\<And>r s'. m s = (r, s') \<Longrightarrow> P s'"
    and "\<And>e s'. P s' \<Longrightarrow> P (snd (h e s'))" and "\<And>x s'. P s' \<Longrightarrow> P (snd (k x s'))"
  shows "P (snd (attempt m h k s))"
  using assms by (auto simp: attempt_def split: prod.splits sum.splits)

section \<open>Strings\<close>

text \<open>
  Go strings are byte strings; \<open>string\<close> is a list of bytes. \<open>strings.ToUpper\<close> is modelled
  on ASCII: a byte of a multi-byte character is left alone (Go maps such letters too).
\<close>

definition upper_char :: "char \<Rightarrow> char" where
  "upper_char c = (let n = (of_char c :: nat) in
     if 97 \<le> n \<and> n \<le> 122 then char_of (n - 32) else c)"

definition ToUpper :: "string \<Rightarrow> string" where
  "ToUpper s = List.map upper_char s"

text \<open>\<open>strings.ReplaceAll\<close> for a one-byte pattern.\<close>

definition ReplaceAll :: "string \<Rightarrow> char \<Rightarrow> string \<Rightarrow> string" where
  "ReplaceAll s old new = concat (List.map (\<lambda>c. if c = old then new else [c]) s)"

text \<open>\<open>strings.SplitN(s, sep, 2)\<close> for a non-empty separator: one part, or two.\<close>

fun SplitN2 :: "string \<Rightarrow> string \<Rightarrow> string list" where
  "SplitN2 [] sep = [[]]"
| "SplitN2 (c # cs) sep =
     (if take (length sep) (c # cs) = sep then [[], drop (length sep) (c # cs)]
      else (case SplitN2 cs sep of [] \<Rightarrow> [[c]] | p # ps \<Rightarrow> (c # p) # ps))"

fun Join :: "string list \<Rightarrow> string \<Rightarrow> string" where
  "Join [] sep = []"
| "Join [x] sep = x"
| "Join (x # y # zs) sep = x @ sep @ Join (y # zs) sep"

text \<open>\<open>%d\<close>\<close>

fun digits_of :: "nat \<Rightarrow> string" where
  "digits_of n = (if n < 10 then [char_of (48 + n)] else digits_of (n div 10) @ [char_of (48 + n mod 10)])"

declare digits_of.simps [simp del]

definition show_int :: "int \<Rightarrow> string" where
  "show_int i = (if i < 0 then CHR ''-'' # digits_of (nat (- i)) else digits_of (nat i))"

definition show_bool :: "bool \<Rightarrow> string" where
  "show_bool b = (if b then ''true'' else ''false'')"

text \<open>
  \<open>%q\<close> (\<open>strconv.Quote\<close>) on ASCII; bytes of printable multi-byte characters are kept.
\<close>

definition hex_digit :: "nat \<Rightarrow> char" where
  "hex_digit n = (if n < 10 then char_of (48 + n) else char_of (87 + n))"

definition quote_char :: "char \<Rightarrow> string" where
  "quote_char c = (let n = (of_char c :: nat); bs = char_of (92::nat) in
     if n = 34 then [bs, c]
     else if n = 92 then [bs, bs]
     else if n = 7 then [bs, CHR ''a'']
     else if n = 8 then [bs, CHR ''b'']
     else if n = 9 then [bs, CHR ''t'']
     else if n = 10 then [bs, CHR ''n'']
     else if n = 11 then [bs, CHR ''v'']
     else if n = 12 then [bs, CHR ''f'']
     else if n = 13 then [bs, CHR ''r'']
     else if n < 32 \<or> n = 127 then [bs, CHR ''x'', hex_digit (n div 16), hex_digit (n mod 16)]
     else [c])"

definition go_quote :: "string \<Rightarrow> string" where
  "go_quote s = [char_of (34::nat)] @ concat (List.map quote_char s) @ [char_of (34::nat)]"

lemma length_ToUpper [simp]: "length (ToUpper s) = length s"
  by (simp add: ToUpper_def)

lemma ToUpper_append [simp]: "ToUpper (s @ t) = ToUpper s @ ToUpper t"
  by (simp add: ToUpper_def)

lemma ToUpper_Nil [simp]: "ToUpper [] = []"
  by (simp add: ToUpper_def)

lemma upper_char_idem [simp]: "upper_char (upper_char c) = upper_char c"
  by (auto simp: upper_char_def Let_def)

lemma ToUpper_idem [simp]: "ToUpper (ToUpper s) = ToUpper s"
  by (simp add: ToUpper_def)

lemma ReplaceAll_Nil [simp]: "ReplaceAll [] a b = []"
  by (simp add: ReplaceAll_def)

lemma ReplaceAll_Cons [simp]:
  "ReplaceAll (c # cs) a b = (if c = a then b else [c]) @ ReplaceAll cs a b"
  by (simp add: ReplaceAll_def)

lemma ReplaceAll_append [simp]: "ReplaceAll (s @ t) a b = ReplaceAll s a b @ ReplaceAll t a b"
  by (simp add: ReplaceAll_def)

lemma ReplaceAll_absent: "a \<notin> set s \<Longrightarrow> ReplaceAll s a b = s"
  by (induction s) auto

lemma SplitN2_not_Nil [simp]: "SplitN2 s sep \<noteq> []"
  by (induction s sep rule: SplitN2.induct) (auto split: list.splits)

lemma SplitN2_length: "length (SplitN2 s sep) \<le> 2"
  by (induction s sep rule: SplitN2.induct) (auto split: list.splits)

lemma SplitN2_two: "SplitN2 s sep = [p, r] \<Longrightarrow> s = p @ sep @ r"
proof (induction s sep arbitrary: p rule: SplitN2.induct)
  case (1 sep)
  then show ?case by simp
next
  case (2 c cs sep)
  show ?case
  proof (cases "take (length sep) (c # cs) = sep")
    case True
    then have "c # cs = sep @ drop (length sep) (c # cs)" by (metis append_take_drop_id)
    with True "2.prems" show ?thesis by auto
  next
    case False
    with "2.prems" obtain p' where "p = c # p'" "SplitN2 cs sep = [p', r]"
      by (auto split: list.splits if_splits)
    with "2.IH" False show ?thesis by simp
  qed
qed

text \<open>The number a decimal text denotes.\<close>

fun number :: "string \<Rightarrow> nat" where
  "number [] = 0"
| "number (c # cs) = (of_char c - 48) * 10 ^ length cs + number cs"

lemma number_append: "number (a @ b) = number a * 10 ^ length b + number b"
  by (induction a) (simp_all add: algebra_simps power_add)

lemma number_digits_of: "number (digits_of n) = n"
proof (induction n rule: digits_of.induct)
  case (1 n)
  show ?case
  proof (cases "n < 10")
    case True
    then show ?thesis by (simp add: digits_of.simps [of n])
  next
    case False
    with 1 show ?thesis by (simp add: digits_of.simps [of n] number_append)
  qed
qed

lemma digits_of_inject [simp]: "digits_of m = digits_of n \<longleftrightarrow> m = n"
  using number_digits_of by metis

lemma show_int_inject: "0 \<le> i \<Longrightarrow> 0 \<le> j \<Longrightarrow> show_int i = show_int j \<longleftrightarrow> i = j"
  by (simp add: show_int_def nat_eq_iff)

section \<open>Machine integers\<close>

text \<open>A counter field of type \<open>int32\<close>: \<open>x++\<close> wraps around at \<open>2^31\<close>.\<close>

definition wrap32 :: "int \<Rightarrow> int" where
  "wrap32 x = (x + 2 ^ 31) mod 2 ^ 32 - 2 ^ 31"

definition wrap64 :: "int \<Rightarrow> int" where
  "wrap64 x = (x + 2 ^ 63) mod 2 ^ 64 - 2 ^ 63"

text \<open>\<open>time.Time.Sub\<close>: a difference of times saturates at the bounds of \<open>int64\<close>.\<close>

definition saturate64 :: "int \<Rightarrow> int" where
  "saturate64 x = max (- (2 ^ 63)) (min (2 ^ 63 - 1) x)"

lemma wrap32_id: "- (2 ^ 31) \<le> x \<Longrightarrow> x < 2 ^ 31 \<Longrightarrow> wrap32 x = x"
  by (simp add: wrap32_def)

lemma wrap64_id: "- (2 ^ 63) \<le> x \<Longrightarrow> x < 2 ^ 63 \<Longrightarrow> wrap64 x = x"
  by (simp add: wrap64_def)

text \<open>Go's \<open>/\<close> truncates towards zero.\<close>

definition go_div :: "int \<Rightarrow> int \<Rightarrow> int" where
  "go_div a b = sgn a * sgn b * (\<bar>a\<bar> div \<bar>b\<bar>)"

lemma go_div_pos: "0 \<le> a \<Longrightarrow> 0 < b \<Longrightarrow> go_div a b = a div b"
  by (cases "a = 0") (simp_all add: go_div_def)

end
