(* ===== verification/Quoting.thy ===== *)
theory Quoting
  imports Prelude
begin

text \<open>
  \<open>internal/sql/quotename.go\<close>: how identifiers, string literals and permission targets
  are put into T-SQL text, and the permission whitelist. The second half gives a lexer
  for the T-SQL the operator emits (keywords, bracketed identifiers, string literals,
  punctuation) as the specification of quoting: reading back a quoted value gives the
  value and leaves the rest of the statement alone.
\<close>

section \<open>The quoting functions\<close>

definition QuoteName :: "string \<Rightarrow> string" where
  "QuoteName name = (let escaped = ReplaceAll name (CHR '']'') '']]'' in ''['' @ escaped @ '']'')"

definition QuoteString :: "string \<Rightarrow> string" where
  "QuoteString val = (let escaped = ReplaceAll val (CHR 0x27) [CHR 0x27, CHR 0x27]
     in [CHR ''N'', CHR 0x27] @ escaped @ [CHR 0x27])"

definition QuotePermissionTarget :: "string \<Rightarrow> string" where
  "QuotePermissionTarget target =
     (case SplitN2 target ''::'' of
        scope0 # name # _ \<Rightarrow>
          (let scope = ToUpper scope0 in
           case SplitN2 name ''.'' of
             a # b # _ \<Rightarrow> scope @ ''::'' @ QuoteName a @ ''.'' @ QuoteName b
           | _ \<Rightarrow> scope @ ''::'' @ QuoteName name)
      | [p] \<Rightarrow> ToUpper p
      | [] \<Rightarrow> [])"

definition valid_permissions :: "string list" where
  "valid_permissions =
     [''SELECT'', ''INSERT'', ''UPDATE'', ''DELETE'',
      ''EXECUTE'', ''ALTER'', ''CONTROL'', ''REFERENCES'',
      ''VIEW DEFINITION'', ''CREATE TABLE'', ''CREATE VIEW'',
      ''CREATE PROCEDURE'', ''CREATE FUNCTION'', ''CREATE SCHEMA'']"

definition IsValidPermission :: "string \<Rightarrow> bool" where
  "IsValidPermission perm \<longleftrightarrow> ToUpper perm \<in> set valid_permissions"

section \<open>A lexer for the emitted T-SQL\<close>

text \<open>
  Inside a delimited token a doubled closing delimiter stands for itself and a single one
  ends the token.
\<close>

fun lex_delim :: "char \<Rightarrow> string \<Rightarrow> (string \<times> string) option" where
  "lex_delim q [] = None"
| "lex_delim q (c # cs) =
     (if c = q then
        (case cs of
           [] \<Rightarrow> Some ([], [])
         | d # ds \<Rightarrow>
             if d = q then map_option (apfst (Cons q)) (lex_delim q ds) else Some ([], cs))
      else map_option (apfst (Cons c)) (lex_delim q cs))"

datatype token = Word string | Ident string | Lit string | Sym char

definition is_space :: "char \<Rightarrow> bool" where
  "is_space c \<longleftrightarrow> (let n = (of_char c :: nat) in n = 32 \<or> (9 \<le> n \<and> n \<le> 13))"

definition is_wordchar :: "char \<Rightarrow> bool" where
  "is_wordchar c \<longleftrightarrow> (let n = (of_char c :: nat) in
     (65 \<le> n \<and> n \<le> 90) \<or> (97 \<le> n \<and> n \<le> 122) \<or> (48 \<le> n \<and> n \<le> 57)
     \<or> n = 95 \<or> n = 64 \<or> n = 35 \<or> n = 36 \<or> 128 \<le> n)"

lemma lex_delim_shorter: "lex_delim q cs = Some (t, r) \<Longrightarrow> length r < length cs"
proof (induction q cs arbitrary: t r rule: lex_delim.induct)
  case (1 q)
  then show ?case by simp
next
  case (2 q c cs)
  then show ?case by (fastforce split: if_splits list.splits)
qed

function (sequential) tokenize :: "string \<Rightarrow> token list option" where
  "tokenize [] = Some []"
| "tokenize (c # cs) =
     (if is_space c then tokenize cs
      else if c = CHR ''['' then
        (case lex_delim (CHR '']'') cs of
           None \<Rightarrow> None
         | Some (t, r) \<Rightarrow> map_option (Cons (Ident t)) (tokenize r))
      else if c = CHR 0x27 then
        (case lex_delim (CHR 0x27) cs of
           None \<Rightarrow> None
         | Some (t, r) \<Rightarrow> map_option (Cons (Lit t)) (tokenize r))
      else if c = CHR ''N'' \<and> take 1 cs = [CHR 0x27] then
        (case lex_delim (CHR 0x27) (tl cs) of
           None \<Rightarrow> None
         | Some (t, r) \<Rightarrow> map_option (Cons (Lit t)) (tokenize r))
      else if is_wordchar c then
        map_option (Cons (Word (c # takeWhile is_wordchar cs))) (tokenize (dropWhile is_wordchar cs))
      else map_option (Cons (Sym c)) (tokenize cs))"
  by pat_completeness auto
termination
proof (relation "measure length", goal_cases)
  case 1
  show ?case by simp
next
  case (2 c cs)
  show ?case by simp
next
  case (3 c cs x t r)
  then show ?case by (auto dest: lex_delim_shorter)
next
  case (4 c cs x t r)
  then show ?case by (auto dest: lex_delim_shorter)
next
  case (5 c cs x t r)
  then have "length r < length (tl cs)" by (auto dest: lex_delim_shorter)
  then show ?case by (cases cs) auto
next
  case (6 c cs)
  show ?case by (simp add: length_dropWhile_le less_Suc_eq_le)
next
  case (7 c cs)
  show ?case by simp
qed

declare tokenize.simps(2) [simp del]

text \<open>Two starts of the rest of a statement that leave a delimited token alone.\<close>

definition starts_with :: "char \<Rightarrow> string \<Rightarrow> bool" where
  "starts_with c s \<longleftrightarrow> (case s of [] \<Rightarrow> False | d # _ \<Rightarrow> d = c)"

lemma starts_with_simps [simp]:
  "\<not> starts_with c []" "starts_with c (d # s) \<longleftrightarrow> d = c"
  by (simp_all add: starts_with_def)

lemma starts_with_append [simp]:
  "starts_with c (s @ t) \<longleftrightarrow> (if s = [] then starts_with c t else starts_with c s)"
  by (cases s) simp_all

lemma lex_delim_ReplaceAll:
  "\<not> starts_with q rest \<Longrightarrow> lex_delim q (ReplaceAll s q [q, q] @ q # rest) = Some (s, rest)"
  by (induction s) (auto split: list.splits)

lemma starts_with_QuoteName [simp]: "starts_with c (QuoteName s) \<longleftrightarrow> c = CHR ''[''"
  by (auto simp: QuoteName_def)

lemma starts_with_QuoteString [simp]: "starts_with c (QuoteString s) \<longleftrightarrow> c = CHR ''N''"
  by (auto simp: QuoteString_def)

lemma QuoteName_not_Nil [simp]: "QuoteName s \<noteq> []" "QuoteString s \<noteq> []"
  by (simp_all add: QuoteName_def QuoteString_def)

lemma wordchar_not_special [simp]:
  "is_wordchar c \<Longrightarrow> \<not> is_space c" "is_wordchar c \<Longrightarrow> c \<noteq> CHR ''[''" "is_wordchar c \<Longrightarrow> c \<noteq> CHR 0x27"
  by (auto simp: is_wordchar_def is_space_def Let_def)

lemma tokenize_space [simp]: "is_space c \<Longrightarrow> tokenize (c # cs) = tokenize cs"
  by (simp add: tokenize.simps(2))

lemma tokenize_wordchar:
  assumes c: "is_wordchar c" and q: "\<not> (c = CHR ''N'' \<and> starts_with (CHR 0x27) cs)"
  shows "tokenize (c # cs) =
     map_option (Cons (Word (c # takeWhile is_wordchar cs))) (tokenize (dropWhile is_wordchar cs))"
proof -
  have "\<not> (c = CHR ''N'' \<and> take 1 cs = [CHR 0x27])"
    using q by (cases cs) auto
  then show ?thesis
    by (simp only: tokenize.simps(2) wordchar_not_special [OF c] c if_False if_True simp_thms)
qed

lemma tokenize_sym:
  "\<not> is_wordchar c \<Longrightarrow> \<not> is_space c \<Longrightarrow> c \<noteq> CHR ''['' \<Longrightarrow> c \<noteq> CHR 0x27 \<Longrightarrow>
   tokenize (c # cs) = map_option (Cons (Sym c)) (tokenize cs)"
  by (auto simp: tokenize.simps(2) is_wordchar_def)

lemma tokenize_bracket:
  "tokenize (CHR ''['' # cs) =
     (case lex_delim (CHR '']'') cs of None \<Rightarrow> None | Some (t, r) \<Rightarrow> map_option (Cons (Ident t)) (tokenize r))"
  by (simp add: tokenize.simps(2) is_space_def)

lemma tokenize_N_quote:
  "tokenize (CHR ''N'' # CHR 0x27 # cs) =
     (case lex_delim (CHR 0x27) cs of None \<Rightarrow> None | Some (t, r) \<Rightarrow> map_option (Cons (Lit t)) (tokenize r))"
  by (simp add: tokenize.simps(2) is_space_def)

lemma tokenize_QuoteName [simp]:
  assumes "\<not> starts_with (CHR '']'') rest"
  shows "tokenize (QuoteName s @ rest) = map_option (Cons (Ident s)) (tokenize rest)"
  using lex_delim_ReplaceAll [OF assms, of s]
  by (simp add: QuoteName_def tokenize_bracket)

lemma tokenize_QuoteString [simp]:
  assumes "\<not> starts_with (CHR 0x27) rest"
  shows "tokenize (QuoteString s @ rest) = map_option (Cons (Lit s)) (tokenize rest)"
  using lex_delim_ReplaceAll [OF assms, of s]
  by (simp add: QuoteString_def tokenize_N_quote)

lemma tokenize_QuoteName_end [simp]: "tokenize (QuoteName s) = Some [Ident s]"
  using tokenize_QuoteName [of "[]" s] by simp

lemma tokenize_QuoteString_end [simp]: "tokenize (QuoteString s) = Some [Lit s]"
  using tokenize_QuoteString [of "[]" s] by simp

text \<open>An unquoted argument that is a plain word lexes as that word.\<close>

definition plain_word :: "string \<Rightarrow> bool" where
  "plain_word w \<longleftrightarrow> w \<noteq> [] \<and> (\<forall>c \<in> set w. is_wordchar c)"

definition word_ends :: "string \<Rightarrow> bool" where
  "word_ends s \<longleftrightarrow> (case s of [] \<Rightarrow> True | c # _ \<Rightarrow> \<not> is_wordchar c \<and> c \<noteq> CHR 0x27)"

lemma takeWhile_word_ends:
  assumes "\<forall>c \<in> set w. P c" and "rest = [] \<or> \<not> P (hd rest)"
  shows "takeWhile P (w @ rest) = w" "dropWhile P (w @ rest) = rest"
  using assms by (induction w) (auto simp: takeWhile_eq_Nil_iff dropWhile_eq_self_iff)

lemma tokenize_word:
  assumes w: "plain_word w" and e: "word_ends rest"
  shows "tokenize (w @ rest) = map_option (Cons (Word w)) (tokenize rest)"
proof -
  from w obtain c cs where wc: "w = c # cs" "is_wordchar c" "\<forall>d \<in> set cs. is_wordchar d"
    unfolding plain_word_def by (cases w) auto
  have stop: "rest = [] \<or> \<not> is_wordchar (hd rest)"
    using e by (auto simp: word_ends_def split: list.splits)
  have "\<not> starts_with (CHR 0x27) (cs @ rest)"
    using wc(3) e by (cases cs; cases rest) (auto simp: word_ends_def)
  then have "tokenize (c # cs @ rest) =
      map_option (Cons (Word (c # takeWhile is_wordchar (cs @ rest)))) (tokenize (dropWhile is_wordchar (cs @ rest)))"
    using tokenize_wordchar [OF wc(2)] by blast
  then show ?thesis
    unfolding wc(1) takeWhile_word_ends [OF wc(3) stop] by simp
qed

section \<open>What the quoting functions guarantee\<close>

lemma QuoteName_inj: "QuoteName s = QuoteName t \<Longrightarrow> s = t"
  by (metis tokenize_QuoteName_end(1) option.inject list.inject token.inject(2))

lemma IsValidPermission_upper [simp]: "IsValidPermission (ToUpper p) = IsValidPermission p"
  by (simp add: IsValidPermission_def)

end
