(* ===== verification/SQL_Interface.thy ===== *)
theory SQL_Interface
  imports Prelude
begin

text \<open>
  \<open>internal/sql/interface.go\<close>: the data exchanged with a SQL Server and the interface
  \<open>SQLClient\<close>. A Go interface value is a table of methods over the state of the object
  behind it; it is modelled as a record of calls over a state \<open>'c\<close>, one record per
  section of the interface. \<open>context.Context\<close> arguments (timeouts, cancellation) are left
  out: a call cut off by its context is one that returns an error.
\<close>

section \<open>Data\<close>

record AGReplicaConfig =
  rc_ServerName :: string
  rc_EndpointURL :: string
  rc_AvailabilityMode :: string
  rc_FailoverMode :: string
  rc_SeedingMode :: string
  rc_SecondaryRole :: string

record AGConfig =
  ac_Name :: string
  ac_Replicas :: "AGReplicaConfig list"
  ac_Databases :: "string list"
  ac_AutomatedBackupPreference :: string
  ac_DBFailover :: bool
  ac_ClusterType :: string

record AGListenerIPConfig =
  lip_IP :: string
  lip_SubnetMask :: string

record AGListenerConfig =
  lc_Name :: string
  lc_Port :: int
  lc_IPAddresses :: "AGListenerIPConfig list"

record AGReplicaState =
  rs_ServerName :: string
  rs_Role :: string
  rs_SynchronizationState :: string
  rs_Connected :: bool

record AGDatabaseState =
  ds_Name :: string
  ds_SynchronizationState :: string
  ds_Joined :: bool

record AGStatus =
  ags_Name :: string
  ags_PrimaryReplica :: string
  ags_Replicas :: "AGReplicaState list"
  ags_Databases :: "AGDatabaseState list"

record PermissionState =
  ps_Permission :: string
  ps_Target :: string
  ps_State :: string

section \<open>The interface\<close>

record 'c DatabaseOps =
  DatabaseExists :: "string \<Rightarrow> (bool, 'c) op"
  CreateDatabase :: "string \<Rightarrow> string option \<Rightarrow> (unit, 'c) op"
  DropDatabase :: "string \<Rightarrow> (unit, 'c) op"
  GetDatabaseOwner :: "string \<Rightarrow> (string, 'c) op"
  SetDatabaseOwner :: "string \<Rightarrow> string \<Rightarrow> (unit, 'c) op"
  GetDatabaseCollation :: "string \<Rightarrow> (string, 'c) op"
  GetDatabaseRecoveryModel :: "string \<Rightarrow> (string, 'c) op"
  SetDatabaseRecoveryModel :: "string \<Rightarrow> string \<Rightarrow> (unit, 'c) op"
  GetDatabaseCompatibilityLevel :: "string \<Rightarrow> (int, 'c) op"
  SetDatabaseCompatibilityLevel :: "string \<Rightarrow> int \<Rightarrow> (unit, 'c) op"
  GetDatabaseOption :: "string \<Rightarrow> string \<Rightarrow> (bool, 'c) op"
  SetDatabaseOption :: "string \<Rightarrow> string \<Rightarrow> bool \<Rightarrow> (unit, 'c) op"

record 'c LoginOps =
  LoginExists :: "string \<Rightarrow> (bool, 'c) op"
  CreateLogin :: "string \<Rightarrow> string \<Rightarrow> (unit, 'c) op"
  DropLogin :: "string \<Rightarrow> (unit, 'c) op"
  UpdateLoginPassword :: "string \<Rightarrow> string \<Rightarrow> (unit, 'c) op"
  GetLoginDefaultDatabase :: "string \<Rightarrow> (string, 'c) op"
  SetLoginDefaultDatabase :: "string \<Rightarrow> string \<Rightarrow> (unit, 'c) op"
  GetLoginServerRoles :: "string \<Rightarrow> (string list, 'c) op"
  AddLoginToServerRole :: "string \<Rightarrow> string \<Rightarrow> (unit, 'c) op"
  RemoveLoginFromServerRole :: "string \<Rightarrow> string \<Rightarrow> (unit, 'c) op"
  LoginHasUsers :: "string \<Rightarrow> (bool, 'c) op"

record 'c UserOps =
  UserExists :: "string \<Rightarrow> string \<Rightarrow> (bool, 'c) op"
  CreateUser :: "string \<Rightarrow> string \<Rightarrow> string \<Rightarrow> (unit, 'c) op"
  DropUser :: "string \<Rightarrow> string \<Rightarrow> (unit, 'c) op"
  GetUserDatabaseRoles :: "string \<Rightarrow> string \<Rightarrow> (string list, 'c) op"
  AddUserToDatabaseRole :: "string \<Rightarrow> string \<Rightarrow> string \<Rightarrow> (unit, 'c) op"
  RemoveUserFromDatabaseRole :: "string \<Rightarrow> string \<Rightarrow> string \<Rightarrow> (unit, 'c) op"
  UserOwnsObjects :: "string \<Rightarrow> string \<Rightarrow> (bool, 'c) op"

record 'c SchemaOps =
  SchemaExists :: "string \<Rightarrow> string \<Rightarrow> (bool, 'c) op"
  CreateSchema :: "string \<Rightarrow> string \<Rightarrow> string option \<Rightarrow> (unit, 'c) op"
  DropSchema :: "string \<Rightarrow> string \<Rightarrow> (unit, 'c) op"
  GetSchemaOwner :: "string \<Rightarrow> string \<Rightarrow> (string, 'c) op"
  SetSchemaOwner :: "string \<Rightarrow> string \<Rightarrow> string \<Rightarrow> (unit, 'c) op"
  SchemaHasObjects :: "string \<Rightarrow> string \<Rightarrow> (bool, 'c) op"

record 'c PermissionOps =
  GetPermissions :: "string \<Rightarrow> string \<Rightarrow> (PermissionState list, 'c) op"
  GrantPermission :: "string \<Rightarrow> string \<Rightarrow> string \<Rightarrow> string \<Rightarrow> (unit, 'c) op"
  DenyPermission :: "string \<Rightarrow> string \<Rightarrow> string \<Rightarrow> string \<Rightarrow> (unit, 'c) op"
  RevokePermission :: "string \<Rightarrow> string \<Rightarrow> string \<Rightarrow> string \<Rightarrow> (unit, 'c) op"

record 'c BackupOps =
  BackupDatabase :: "string \<Rightarrow> string \<Rightarrow> string \<Rightarrow> bool \<Rightarrow> (unit, 'c) op"
  RestoreDatabase :: "string \<Rightarrow> string \<Rightarrow> (unit, 'c) op"
  RestoreDatabasePIT :: "string \<Rightarrow> string \<Rightarrow> string \<Rightarrow> string \<Rightarrow> (unit, 'c) op"
  RestoreDatabaseWithMove :: "string \<Rightarrow> string \<Rightarrow> (string \<times> string) list \<Rightarrow> (unit, 'c) op"

record 'c AGOps =
  AGExists :: "string \<Rightarrow> (bool, 'c) op"
  CreateAG :: "AGConfig \<Rightarrow> (unit, 'c) op"
  GetAGStatus :: "string \<Rightarrow> (AGStatus, 'c) op"
  AddDatabaseToAG :: "string \<Rightarrow> string \<Rightarrow> (unit, 'c) op"
  RemoveDatabaseFromAG :: "string \<Rightarrow> string \<Rightarrow> (unit, 'c) op"
  JoinAG :: "string \<Rightarrow> string \<Rightarrow> (unit, 'c) op"
  GrantAGCreateDatabase :: "string \<Rightarrow> (unit, 'c) op"
  AddListenerToAG :: "string \<Rightarrow> AGListenerConfig \<Rightarrow> (unit, 'c) op"
  DropAG :: "string \<Rightarrow> (unit, 'c) op"
  FailoverAG :: "string \<Rightarrow> (unit, 'c) op"
  ForceFailoverAG :: "string \<Rightarrow> (unit, 'c) op"
  GetAGReplicaRole :: "string \<Rightarrow> string \<Rightarrow> (string, 'c) op"
  SetAGRoleSecondary :: "string \<Rightarrow> (unit, 'c) op"
  GetLastHardenedLSN :: "string \<Rightarrow> (int, 'c) op"
  CreateHADREndpoint :: "int \<Rightarrow> (unit, 'c) op"
  HADREndpointExists :: "(bool, 'c) op"

record 'c CertificateOps =
  CreateMasterKey :: "string \<Rightarrow> (unit, 'c) op"
  MasterKeyExists :: "(bool, 'c) op"
  CreateCertificate :: "string \<Rightarrow> string \<Rightarrow> string \<Rightarrow> (unit, 'c) op"
  CertificateExists :: "string \<Rightarrow> (bool, 'c) op"
  BackupCertificate :: "string \<Rightarrow> string \<Rightarrow> string \<Rightarrow> string \<Rightarrow> (unit, 'c) op"
  CreateCertificateFromBackup :: "string \<Rightarrow> string \<Rightarrow> string \<Rightarrow> string \<Rightarrow> (unit, 'c) op"
  GetCertificateBinary :: "string \<Rightarrow> (nat list, 'c) op"
  CreateCertificateFromBinary :: "string \<Rightarrow> nat list \<Rightarrow> (unit, 'c) op"
  CreateLoginFromCertificate :: "string \<Rightarrow> string \<Rightarrow> (unit, 'c) op"
  GrantEndpointConnect :: "string \<Rightarrow> string \<Rightarrow> (unit, 'c) op"
  CreateHADREndpointWithCert :: "int \<Rightarrow> string \<Rightarrow> (unit, 'c) op"

record 'c SQLClient =
  dbs :: "'c DatabaseOps"
  logins :: "'c LoginOps"
  users :: "'c UserOps"
  schemas :: "'c SchemaOps"
  perms :: "'c PermissionOps"
  backups :: "'c BackupOps"
  ags :: "'c AGOps"
  certs :: "'c CertificateOps"
  GetServerVersion :: "(string, 'c) op"
  GetServerEdition :: "(string, 'c) op"
  CloseClient :: "'c \<Rightarrow> 'c"
  Ping :: "(unit, 'c) op"

text \<open>
  \<open>ClientFactory(host, port, username, password, tlsEnabled)\<close>. The factory opens no
  connection (\<open>sql.Open\<close> does not dial), so it changes no state.
\<close>

type_synonym 'c ClientFactory =
  "string \<Rightarrow> int \<Rightarrow> string \<Rightarrow> string \<Rightarrow> bool \<Rightarrow> 'c SQLClient res"

end
