(* ===== verification/Mock_Client.thy ===== *)
theory Mock_Client
  imports SQL_Interface
begin

text \<open>
  \<open>internal/sql/mock_client.go\<close>: the in-memory SQL Server the operator's own tests run
  against, a complete implementation of \<open>SQLClient\<close>. Its state, every operation, and what
  an operation keeps of the state. Each method holds the mutex for its whole body, so a
  method is one atomic step. Pointers to entries are only handed out to tests
  (\<open>GetMockUser\<close>, \<open>GetMockAG\<close>), so entries are values here.
\<close>

section \<open>State\<close>

record MockDatabase =
  md_Name :: string
  md_Collation :: string
  md_Owner :: string
  md_RecoveryModel :: string
  md_CompatibilityLevel :: int
  md_Options :: "(string \<rightharpoonup> bool) option" \<comment> \<open>\<open>None\<close> is the nil map\<close>

record MockLogin =
  ml_Name :: string
  ml_Password :: string
  ml_DefaultDatabase :: string
  ml_ServerRoles :: "string list"

record MockUser =
  mu_DBName :: string
  mu_UserName :: string
  mu_LoginName :: string
  mu_Roles :: "string list"
  mu_OwnsObjects :: bool

record MockSchema =
  ms_DBName :: string
  ms_SchemaName :: string
  ms_Owner :: string
  ms_HasObjects :: bool

record MockPermission =
  mp_Permission :: string
  mp_Target :: string
  mp_State :: string

record MockAG =
  ma_Name :: string
  ma_PrimaryReplica :: string
  ma_Replicas :: "AGReplicaState list"
  ma_Databases :: "AGDatabaseState list"
  ma_HasListener :: bool

text \<open>
  A key missing from \<open>permissions\<close> or \<open>calls\<close> reads as the nil slice and as 0, which is all
  the code observes of it.
\<close>

record MockClient =
  databases :: "string \<rightharpoonup> MockDatabase"
  mlogins :: "string \<rightharpoonup> MockLogin"
  musers :: "string \<rightharpoonup> MockUser"
  mschemas :: "string \<rightharpoonup> MockSchema"
  permissions :: "string \<Rightarrow> MockPermission list"
  mags :: "string \<rightharpoonup> MockAG"
  calls :: "string \<Rightarrow> nat"
  ConnectError :: "go_error option"
  MethodErrors :: "string \<rightharpoonup> go_error"
  MockLSN :: int

definition NewMockClient :: MockClient where
  "NewMockClient =
     \<lparr>databases = Map.empty, mlogins = Map.empty, musers = Map.empty, mschemas = Map.empty,
      permissions = (\<lambda>_. []), mags = Map.empty, calls = (\<lambda>_. 0), ConnectError = None,
      MethodErrors = Map.empty, MockLSN = 0\<rparr>"

section \<open>Bookkeeping and error injection\<close>

definition track :: "string \<Rightarrow> MockClient \<Rightarrow> MockClient" where
  "track m s = s\<lparr>calls := (calls s)(m := calls s m + 1)\<rparr>"

definition WasCalled :: "MockClient \<Rightarrow> string \<Rightarrow> bool" where
  "WasCalled s m \<longleftrightarrow> calls s m > 0"

definition CallCount :: "MockClient \<Rightarrow> string \<Rightarrow> nat" where
  "CallCount s m = calls s m"

definition ResetCalls :: "MockClient \<Rightarrow> MockClient" where
  "ResetCalls s = s\<lparr>calls := (\<lambda>_. 0)\<rparr>"

definition checkConnect :: "MockClient \<Rightarrow> go_error option" where
  "checkConnect s = ConnectError s"

definition checkMethodError :: "MockClient \<Rightarrow> string \<Rightarrow> go_error option" where
  "checkMethodError s m = MethodErrors s m"

definition SetMethodError :: "string \<Rightarrow> go_error option \<Rightarrow> MockClient \<Rightarrow> MockClient" where
  "SetMethodError m err s = s\<lparr>MethodErrors := (MethodErrors s)(m := err)\<rparr>"

text \<open>
  The two preambles of the methods: \<open>track\<close>, then \<open>checkConnect\<close>; most methods that
  change state then \<open>checkMethodError\<close>.
\<close>

definition connected :: "string \<Rightarrow> ('a, MockClient) op \<Rightarrow> ('a, MockClient) op" where
  "connected m k s0 =
     (let s = track m s0 in case checkConnect s of Some e \<Rightarrow> (Inl e, s) | None \<Rightarrow> k s)"

definition guarded :: "string \<Rightarrow> ('a, MockClient) op \<Rightarrow> ('a, MockClient) op" where
  "guarded m k =
     connected m (\<lambda>s. case checkMethodError s m of Some e \<Rightarrow> (Inl e, s) | None \<Rightarrow> k s)"

definition userKey :: "string \<Rightarrow> string \<Rightarrow> string" where
  "userKey dbName userName = dbName @ ''/'' @ userName"

definition schemaKey :: "string \<Rightarrow> string \<Rightarrow> string" where
  "schemaKey dbName schemaName = dbName @ ''/'' @ schemaName"

definition permKey :: "string \<Rightarrow> string \<Rightarrow> string" where
  "permKey dbName userName = dbName @ ''/'' @ userName"

definition db_not_found :: "string \<Rightarrow> go_error" where
  "db_not_found name = Errorf (''database '' @ go_quote name @ '' not found'')"

definition login_not_found :: "string \<Rightarrow> go_error" where
  "login_not_found name = Errorf (''login '' @ go_quote name @ '' not found'')"

definition user_not_found :: "string \<Rightarrow> string \<Rightarrow> go_error" where
  "user_not_found dbName userName =
     Errorf (''user '' @ go_quote userName @ '' not found in database '' @ go_quote dbName)"

definition schema_not_found :: "string \<Rightarrow> string \<Rightarrow> go_error" where
  "schema_not_found dbName schemaName =
     Errorf (''schema '' @ go_quote schemaName @ '' not found in database '' @ go_quote dbName)"

definition ag_not_found :: "string \<Rightarrow> go_error" where
  "ag_not_found agName = Errorf (''availability group '' @ go_quote agName @ '' not found'')"

definition SetUserOwnsObjects :: "string \<Rightarrow> string \<Rightarrow> bool \<Rightarrow> MockClient \<Rightarrow> MockClient" where
  "SetUserOwnsObjects dbName userName owns s =
     (case musers s (userKey dbName userName) of
        None \<Rightarrow> s
      | Some u \<Rightarrow> s\<lparr>musers := (musers s)(userKey dbName userName \<mapsto> u\<lparr>mu_OwnsObjects := owns\<rparr>)\<rparr>)"

definition SetSchemaHasObjects :: "string \<Rightarrow> string \<Rightarrow> bool \<Rightarrow> MockClient \<Rightarrow> MockClient" where
  "SetSchemaHasObjects dbName schemaName has s =
     (case mschemas s (schemaKey dbName schemaName) of
        None \<Rightarrow> s
      | Some sc \<Rightarrow> s\<lparr>mschemas := (mschemas s)(schemaKey dbName schemaName \<mapsto> sc\<lparr>ms_HasObjects := has\<rparr>)\<rparr>)"

definition SetDatabaseCollation :: "string \<Rightarrow> string \<Rightarrow> MockClient \<Rightarrow> MockClient" where
  "SetDatabaseCollation name collation s =
     (case databases s name of
        None \<Rightarrow> s
      | Some db \<Rightarrow> s\<lparr>databases := (databases s)(name \<mapsto> db\<lparr>md_Collation := collation\<rparr>)\<rparr>)"

section \<open>Database operations\<close>

definition Mock_DatabaseExists :: "string \<Rightarrow> (bool, MockClient) op" where
  "Mock_DatabaseExists name = connected ''DatabaseExists'' (\<lambda>s. (Inr (databases s name \<noteq> None), s))"

definition Mock_CreateDatabase :: "string \<Rightarrow> string option \<Rightarrow> (unit, MockClient) op" where
  "Mock_CreateDatabase name collation = guarded ''CreateDatabase'' (\<lambda>s.
     let col = (case collation of Some c \<Rightarrow> c | None \<Rightarrow> [])
     in (Inr (), s\<lparr>databases := (databases s)(name \<mapsto>
          \<lparr>md_Name = name, md_Collation = col, md_Owner = ''dbo'', md_RecoveryModel = [],
           md_CompatibilityLevel = 0, md_Options = None\<rparr>)\<rparr>))"

definition Mock_DropDatabase :: "string \<Rightarrow> (unit, MockClient) op" where
  "Mock_DropDatabase name = guarded ''DropDatabase'' (\<lambda>s.
     (Inr (), s\<lparr>databases := (databases s)(name := None)\<rparr>))"

definition Mock_GetDatabaseOwner :: "string \<Rightarrow> (string, MockClient) op" where
  "Mock_GetDatabaseOwner name = connected ''GetDatabaseOwner'' (\<lambda>s.
     case databases s name of None \<Rightarrow> (Inl (db_not_found name), s) | Some db \<Rightarrow> (Inr (md_Owner db), s))"

definition Mock_SetDatabaseOwner :: "string \<Rightarrow> string \<Rightarrow> (unit, MockClient) op" where
  "Mock_SetDatabaseOwner dbName owner = guarded ''SetDatabaseOwner'' (\<lambda>s.
     case databases s dbName of
       None \<Rightarrow> (Inl (db_not_found dbName), s)
     | Some db \<Rightarrow> (Inr (), s\<lparr>databases := (databases s)(dbName \<mapsto> db\<lparr>md_Owner := owner\<rparr>)\<rparr>))"

definition Mock_GetDatabaseCollation :: "string \<Rightarrow> (string, MockClient) op" where
  "Mock_GetDatabaseCollation name = connected ''GetDatabaseCollation'' (\<lambda>s.
     case databases s name of None \<Rightarrow> (Inl (db_not_found name), s) | Some db \<Rightarrow> (Inr (md_Collation db), s))"

definition Mock_GetDatabaseRecoveryModel :: "string \<Rightarrow> (string, MockClient) op" where
  "Mock_GetDatabaseRecoveryModel name = guarded ''GetDatabaseRecoveryModel'' (\<lambda>s.
     case databases s name of
       None \<Rightarrow> (Inl (db_not_found name), s)
     | Some db \<Rightarrow> (Inr (if md_RecoveryModel db = [] then ''FULL'' else md_RecoveryModel db), s))"

definition Mock_SetDatabaseRecoveryModel :: "string \<Rightarrow> string \<Rightarrow> (unit, MockClient) op" where
  "Mock_SetDatabaseRecoveryModel name model = guarded ''SetDatabaseRecoveryModel'' (\<lambda>s.
     case databases s name of
       None \<Rightarrow> (Inl (db_not_found name), s)
     | Some db \<Rightarrow> (Inr (), s\<lparr>databases := (databases s)(name \<mapsto> db\<lparr>md_RecoveryModel := model\<rparr>)\<rparr>))"

definition Mock_GetDatabaseCompatibilityLevel :: "string \<Rightarrow> (int, MockClient) op" where
  "Mock_GetDatabaseCompatibilityLevel name = guarded ''GetDatabaseCompatibilityLevel'' (\<lambda>s.
     case databases s name of
       None \<Rightarrow> (Inl (db_not_found name), s)
     | Some db \<Rightarrow> (Inr (if md_CompatibilityLevel db = 0 then 160 else md_CompatibilityLevel db), s))"

definition Mock_SetDatabaseCompatibilityLevel :: "string \<Rightarrow> int \<Rightarrow> (unit, MockClient) op" where
  "Mock_SetDatabaseCompatibilityLevel name level = guarded ''SetDatabaseCompatibilityLevel'' (\<lambda>s.
     case databases s name of
       None \<Rightarrow> (Inl (db_not_found name), s)
     | Some db \<Rightarrow> (Inr (), s\<lparr>databases := (databases s)(name \<mapsto> db\<lparr>md_CompatibilityLevel := level\<rparr>)\<rparr>))"

definition Mock_GetDatabaseOption :: "string \<Rightarrow> string \<Rightarrow> (bool, MockClient) op" where
  "Mock_GetDatabaseOption name option = guarded ''GetDatabaseOption'' (\<lambda>s.
     case databases s name of
       None \<Rightarrow> (Inl (db_not_found name), s)
     | Some db \<Rightarrow>
         (case md_Options db of
            None \<Rightarrow> (Inr False, s)
          | Some opts \<Rightarrow> (Inr (case opts option of Some b \<Rightarrow> b | None \<Rightarrow> False), s)))"

definition Mock_SetDatabaseOption :: "string \<Rightarrow> string \<Rightarrow> bool \<Rightarrow> (unit, MockClient) op" where
  "Mock_SetDatabaseOption name option val = guarded ''SetDatabaseOption'' (\<lambda>s.
     case databases s name of
       None \<Rightarrow> (Inl (db_not_found name), s)
     | Some db \<Rightarrow>
         (let opts = (case md_Options db of Some os \<Rightarrow> os | None \<Rightarrow> Map.empty)
          in (Inr (), s\<lparr>databases := (databases s)(name \<mapsto> db\<lparr>md_Options := Some (opts(option \<mapsto> val))\<rparr>)\<rparr>)))"

section \<open>Login operations\<close>

definition Mock_LoginExists :: "string \<Rightarrow> (bool, MockClient) op" where
  "Mock_LoginExists name = connected ''LoginExists'' (\<lambda>s. (Inr (mlogins s name \<noteq> None), s))"

definition Mock_CreateLogin :: "string \<Rightarrow> string \<Rightarrow> (unit, MockClient) op" where
  "Mock_CreateLogin name password = guarded ''CreateLogin'' (\<lambda>s.
     (Inr (), s\<lparr>mlogins := (mlogins s)(name \<mapsto>
        \<lparr>ml_Name = name, ml_Password = password, ml_DefaultDatabase = [], ml_ServerRoles = []\<rparr>)\<rparr>))"

definition Mock_DropLogin :: "string \<Rightarrow> (unit, MockClient) op" where
  "Mock_DropLogin name = guarded ''DropLogin'' (\<lambda>s.
     (Inr (), s\<lparr>mlogins := (mlogins s)(name := None)\<rparr>))"

definition Mock_UpdateLoginPassword :: "string \<Rightarrow> string \<Rightarrow> (unit, MockClient) op" where
  "Mock_UpdateLoginPassword name password = guarded ''UpdateLoginPassword'' (\<lambda>s.
     case mlogins s name of
       None \<Rightarrow> (Inl (login_not_found name), s)
     | Some l \<Rightarrow> (Inr (), s\<lparr>mlogins := (mlogins s)(name \<mapsto> l\<lparr>ml_Password := password\<rparr>)\<rparr>))"

definition Mock_GetLoginDefaultDatabase :: "string \<Rightarrow> (string, MockClient) op" where
  "Mock_GetLoginDefaultDatabase name = connected ''GetLoginDefaultDatabase'' (\<lambda>s.
     case mlogins s name of
       None \<Rightarrow> (Inl (login_not_found name), s)
     | Some l \<Rightarrow> (Inr (ml_DefaultDatabase l), s))"

definition Mock_SetLoginDefaultDatabase :: "string \<Rightarrow> string \<Rightarrow> (unit, MockClient) op" where
  "Mock_SetLoginDefaultDatabase name dbName = connected ''SetLoginDefaultDatabase'' (\<lambda>s.
     case mlogins s name of
       None \<Rightarrow> (Inl (login_not_found name), s)
     | Some l \<Rightarrow> (Inr (), s\<lparr>mlogins := (mlogins s)(name \<mapsto> l\<lparr>ml_DefaultDatabase := dbName\<rparr>)\<rparr>))"

definition Mock_GetLoginServerRoles :: "string \<Rightarrow> (string list, MockClient) op" where
  "Mock_GetLoginServerRoles name = connected ''GetLoginServerRoles'' (\<lambda>s.
     case mlogins s name of
       None \<Rightarrow> (Inl (login_not_found name), s)
     | Some l \<Rightarrow> (Inr (ml_ServerRoles l), s))"

definition Mock_AddLoginToServerRole :: "string \<Rightarrow> string \<Rightarrow> (unit, MockClient) op" where
  "Mock_AddLoginToServerRole login role = connected ''AddLoginToServerRole'' (\<lambda>s.
     case mlogins s login of
       None \<Rightarrow> (Inl (login_not_found login), s)
     | Some l \<Rightarrow>
         (if role \<in> set (ml_ServerRoles l) then (Inr (), s)
          else (Inr (), s\<lparr>mlogins := (mlogins s)(login \<mapsto> l\<lparr>ml_ServerRoles := ml_ServerRoles l @ [role]\<rparr>)\<rparr>)))"

definition Mock_RemoveLoginFromServerRole :: "string \<Rightarrow> string \<Rightarrow> (unit, MockClient) op" where
  "Mock_RemoveLoginFromServerRole login role = connected ''RemoveLoginFromServerRole'' (\<lambda>s.
     case mlogins s login of
       None \<Rightarrow> (Inl (login_not_found login), s)
     | Some l \<Rightarrow>
         (let filtered = filter (\<lambda>r. r \<noteq> role) (ml_ServerRoles l)
          in (Inr (), s\<lparr>mlogins := (mlogins s)(login \<mapsto> l\<lparr>ml_ServerRoles := filtered\<rparr>)\<rparr>)))"

text \<open>\<open>LoginHasUsers\<close> looks for an entry of \<open>users\<close> with this login.\<close>

definition Mock_LoginHasUsers :: "string \<Rightarrow> (bool, MockClient) op" where
  "Mock_LoginHasUsers loginName = connected ''LoginHasUsers'' (\<lambda>s.
     (Inr (\<exists>u \<in> ran (musers s). mu_LoginName u = loginName), s))"

section \<open>Database user operations\<close>

definition Mock_UserExists :: "string \<Rightarrow> string \<Rightarrow> (bool, MockClient) op" where
  "Mock_UserExists dbName userName = connected ''UserExists'' (\<lambda>s.
     (Inr (musers s (userKey dbName userName) \<noteq> None), s))"

definition Mock_CreateUser :: "string \<Rightarrow> string \<Rightarrow> string \<Rightarrow> (unit, MockClient) op" where
  "Mock_CreateUser dbName userName loginName = guarded ''CreateUser'' (\<lambda>s.
     (Inr (), s\<lparr>musers := (musers s)(userKey dbName userName \<mapsto>
        \<lparr>mu_DBName = dbName, mu_UserName = userName, mu_LoginName = loginName,
         mu_Roles = [], mu_OwnsObjects = False\<rparr>)\<rparr>))"

definition Mock_DropUser :: "string \<Rightarrow> string \<Rightarrow> (unit, MockClient) op" where
  "Mock_DropUser dbName userName = guarded ''DropUser'' (\<lambda>s.
     (Inr (), s\<lparr>musers := (musers s)(userKey dbName userName := None)\<rparr>))"

definition Mock_GetUserDatabaseRoles :: "string \<Rightarrow> string \<Rightarrow> (string list, MockClient) op" where
  "Mock_GetUserDatabaseRoles dbName userName = connected ''GetUserDatabaseRoles'' (\<lambda>s.
     case musers s (userKey dbName userName) of
       None \<Rightarrow> (Inl (user_not_found dbName userName), s)
     | Some u \<Rightarrow> (Inr (mu_Roles u), s))"

definition Mock_AddUserToDatabaseRole :: "string \<Rightarrow> string \<Rightarrow> string \<Rightarrow> (unit, MockClient) op" where
  "Mock_AddUserToDatabaseRole dbName userName role = guarded ''AddUserToDatabaseRole'' (\<lambda>s.
     case musers s (userKey dbName userName) of
       None \<Rightarrow> (Inl (user_not_found dbName userName), s)
     | Some u \<Rightarrow>
         (if role \<in> set (mu_Roles u) then (Inr (), s)
          else (Inr (), s\<lparr>musers := (musers s)(userKey dbName userName \<mapsto>
                  u\<lparr>mu_Roles := mu_Roles u @ [role]\<rparr>)\<rparr>)))"

definition Mock_RemoveUserFromDatabaseRole :: "string \<Rightarrow> string \<Rightarrow> string \<Rightarrow> (unit, MockClient) op" where
  "Mock_RemoveUserFromDatabaseRole dbName userName role = connected ''RemoveUserFromDatabaseRole'' (\<lambda>s.
     case musers s (userKey dbName userName) of
       None \<Rightarrow> (Inl (user_not_found dbName userName), s)
     | Some u \<Rightarrow>
         (let filtered = filter (\<lambda>r. r \<noteq> role) (mu_Roles u)
          in (Inr (), s\<lparr>musers := (musers s)(userKey dbName userName \<mapsto> u\<lparr>mu_Roles := filtered\<rparr>)\<rparr>)))"

definition Mock_UserOwnsObjects :: "string \<Rightarrow> string \<Rightarrow> (bool, MockClient) op" where
  "Mock_UserOwnsObjects dbName userName = connected ''UserOwnsObjects'' (\<lambda>s.
     case musers s (userKey dbName userName) of
       None \<Rightarrow> (Inr False, s)
     | Some u \<Rightarrow> (Inr (mu_OwnsObjects u), s))"

section \<open>Schema operations\<close>

definition Mock_SchemaExists :: "string \<Rightarrow> string \<Rightarrow> (bool, MockClient) op" where
  "Mock_SchemaExists dbName schemaName = connected ''SchemaExists'' (\<lambda>s.
     (Inr (mschemas s (schemaKey dbName schemaName) \<noteq> None), s))"

definition Mock_CreateSchema :: "string \<Rightarrow> string \<Rightarrow> string option \<Rightarrow> (unit, MockClient) op" where
  "Mock_CreateSchema dbName schemaName owner = guarded ''CreateSchema'' (\<lambda>s.
     let o0 = (case owner of Some w \<Rightarrow> if w \<noteq> [] then w else ''dbo'' | None \<Rightarrow> ''dbo'')
     in (Inr (), s\<lparr>mschemas := (mschemas s)(schemaKey dbName schemaName \<mapsto>
          \<lparr>ms_DBName = dbName, ms_SchemaName = schemaName, ms_Owner = o0, ms_HasObjects = False\<rparr>)\<rparr>))"

definition Mock_DropSchema :: "string \<Rightarrow> string \<Rightarrow> (unit, MockClient) op" where
  "Mock_DropSchema dbName schemaName = guarded ''DropSchema'' (\<lambda>s.
     (Inr (), s\<lparr>mschemas := (mschemas s)(schemaKey dbName schemaName := None)\<rparr>))"

definition Mock_GetSchemaOwner :: "string \<Rightarrow> string \<Rightarrow> (string, MockClient) op" where
  "Mock_GetSchemaOwner dbName schemaName = guarded ''GetSchemaOwner'' (\<lambda>s.
     case mschemas s (schemaKey dbName schemaName) of
       None \<Rightarrow> (Inl (schema_not_found dbName schemaName), s)
     | Some sc \<Rightarrow> (Inr (ms_Owner sc), s))"

definition Mock_SetSchemaOwner :: "string \<Rightarrow> string \<Rightarrow> string \<Rightarrow> (unit, MockClient) op" where
  "Mock_SetSchemaOwner dbName schemaName owner = guarded ''SetSchemaOwner'' (\<lambda>s.
     case mschemas s (schemaKey dbName schemaName) of
       None \<Rightarrow> (Inl (schema_not_found dbName schemaName), s)
     | Some sc \<Rightarrow> (Inr (), s\<lparr>mschemas := (mschemas s)(schemaKey dbName schemaName \<mapsto> sc\<lparr>ms_Owner := owner\<rparr>)\<rparr>))"

definition Mock_SchemaHasObjects :: "string \<Rightarrow> string \<Rightarrow> (bool, MockClient) op" where
  "Mock_SchemaHasObjects dbName schemaName = connected ''SchemaHasObjects'' (\<lambda>s.
     case mschemas s (schemaKey dbName schemaName) of
       None \<Rightarrow> (Inr False, s)
     | Some sc \<Rightarrow> (Inr (ms_HasObjects sc), s))"

section \<open>Permission operations\<close>

definition removePermLocked :: "string \<Rightarrow> string \<Rightarrow> string \<Rightarrow> MockClient \<Rightarrow> MockClient" where
  "removePermLocked key permission target s =
     (let filtered = filter (\<lambda>p. \<not> (mp_Permission p = permission \<and> mp_Target p = target)) (permissions s key)
      in s\<lparr>permissions := (permissions s)(key := filtered)\<rparr>)"

definition Mock_GetPermissions :: "string \<Rightarrow> string \<Rightarrow> (PermissionState list, MockClient) op" where
  "Mock_GetPermissions dbName userName = connected ''GetPermissions'' (\<lambda>s.
     (Inr (List.map (\<lambda>p. \<lparr>ps_Permission = mp_Permission p, ps_Target = mp_Target p, ps_State = mp_State p\<rparr>)
        (permissions s (permKey dbName userName))), s))"

definition append_perm :: "string \<Rightarrow> MockPermission \<Rightarrow> MockClient \<Rightarrow> MockClient" where
  "append_perm key p s = s\<lparr>permissions := (permissions s)(key := permissions s key @ [p])\<rparr>"

definition Mock_GrantPermission ::
  "string \<Rightarrow> string \<Rightarrow> string \<Rightarrow> string \<Rightarrow> (unit, MockClient) op" where
  "Mock_GrantPermission dbName permission target userName = guarded ''GrantPermission'' (\<lambda>s.
     let key = permKey dbName userName;
         s = removePermLocked key permission target s
     in (Inr (), append_perm key
           \<lparr>mp_Permission = permission, mp_Target = target, mp_State = ''GRANT''\<rparr> s))"

definition Mock_DenyPermission ::
  "string \<Rightarrow> string \<Rightarrow> string \<Rightarrow> string \<Rightarrow> (unit, MockClient) op" where
  "Mock_DenyPermission dbName permission target userName = guarded ''DenyPermission'' (\<lambda>s.
     let key = permKey dbName userName;
         s = removePermLocked key permission target s
     in (Inr (), append_perm key
           \<lparr>mp_Permission = permission, mp_Target = target, mp_State = ''DENY''\<rparr> s))"

definition Mock_RevokePermission ::
  "string \<Rightarrow> string \<Rightarrow> string \<Rightarrow> string \<Rightarrow> (unit, MockClient) op" where
  "Mock_RevokePermission dbName permission target userName = guarded ''RevokePermission'' (\<lambda>s.
     let key = permKey dbName userName
     in (Inr (), removePermLocked key permission target s))"

section \<open>Availability group operations\<close>

definition Mock_AGExists :: "string \<Rightarrow> (bool, MockClient) op" where
  "Mock_AGExists agName = connected ''AGExists'' (\<lambda>s. (Inr (mags s agName \<noteq> None), s))"

text \<open>The first replica of the configuration starts as primary, the others as secondaries.\<close>

definition initial_replicas :: "AGReplicaConfig list \<Rightarrow> AGReplicaState list" where
  "initial_replicas rcs =
     List.map (\<lambda>(i, r). \<lparr>rs_ServerName = rc_ServerName r,
                     rs_Role = (if i = 0 then ''PRIMARY'' else ''SECONDARY''),
                     rs_SynchronizationState = ''SYNCHRONIZED'', rs_Connected = True\<rparr>)
       (List.enumerate 0 rcs)"

definition joined_database :: "string \<Rightarrow> AGDatabaseState" where
  "joined_database db = \<lparr>ds_Name = db, ds_SynchronizationState = ''SYNCHRONIZED'', ds_Joined = True\<rparr>"

definition Mock_CreateAG :: "AGConfig \<Rightarrow> (unit, MockClient) op" where
  "Mock_CreateAG config = guarded ''CreateAG'' (\<lambda>s.
     let primary = (case ac_Replicas config of [] \<Rightarrow> [] | r # _ \<Rightarrow> rc_ServerName r)
     in (Inr (), s\<lparr>mags := (mags s)(ac_Name config \<mapsto>
          \<lparr>ma_Name = ac_Name config, ma_PrimaryReplica = primary,
           ma_Replicas = initial_replicas (ac_Replicas config),
           ma_Databases = List.map joined_database (ac_Databases config),
           ma_HasListener = False\<rparr>)\<rparr>))"

definition Mock_GetAGStatus :: "string \<Rightarrow> (AGStatus, MockClient) op" where
  "Mock_GetAGStatus agName = guarded ''GetAGStatus'' (\<lambda>s.
     case mags s agName of
       None \<Rightarrow> (Inl (ag_not_found agName), s)
     | Some ag \<Rightarrow> (Inr \<lparr>ags_Name = ma_Name ag, ags_PrimaryReplica = ma_PrimaryReplica ag,
                      ags_Replicas = ma_Replicas ag, ags_Databases = ma_Databases ag\<rparr>, s))"

text \<open>\<open>if ag, ok := m.ags[agName]; ok { ... }\<close>: update the entry if it is there.\<close>

definition update_ag :: "string \<Rightarrow> (MockAG \<Rightarrow> MockAG) \<Rightarrow> MockClient \<Rightarrow> MockClient" where
  "update_ag agName f s =
     (case mags s agName of None \<Rightarrow> s | Some ag \<Rightarrow> s\<lparr>mags := (mags s)(agName \<mapsto> f ag)\<rparr>)"

definition Mock_AddDatabaseToAG :: "string \<Rightarrow> string \<Rightarrow> (unit, MockClient) op" where
  "Mock_AddDatabaseToAG agName dbName = guarded ''AddDatabaseToAG'' (\<lambda>s.
     (Inr (), update_ag agName (\<lambda>ag. ag\<lparr>ma_Databases := ma_Databases ag @ [joined_database dbName]\<rparr>) s))"

definition Mock_RemoveDatabaseFromAG :: "string \<Rightarrow> string \<Rightarrow> (unit, MockClient) op" where
  "Mock_RemoveDatabaseFromAG agName dbName = guarded ''RemoveDatabaseFromAG'' (\<lambda>s.
     (Inr (), update_ag agName (\<lambda>ag. ag\<lparr>ma_Databases := filter (\<lambda>db. ds_Name db \<noteq> dbName) (ma_Databases ag)\<rparr>) s))"

definition Mock_JoinAG :: "string \<Rightarrow> string \<Rightarrow> (unit, MockClient) op" where
  "Mock_JoinAG agName clusterType = guarded ''JoinAG'' (\<lambda>s. (Inr (), s))"

definition Mock_GrantAGCreateDatabase :: "string \<Rightarrow> (unit, MockClient) op" where
  "Mock_GrantAGCreateDatabase agName = guarded ''GrantAGCreateDatabase'' (\<lambda>s. (Inr (), s))"

definition Mock_AddListenerToAG :: "string \<Rightarrow> AGListenerConfig \<Rightarrow> (unit, MockClient) op" where
  "Mock_AddListenerToAG agName listener = guarded ''AddListenerToAG'' (\<lambda>s.
     (Inr (), update_ag agName (\<lambda>ag. ag\<lparr>ma_HasListener := True\<rparr>) s))"

text \<open>
  Failover promotes the first secondary after demoting the first primary, if there is a
  secondary at all.
\<close>

fun demote_first :: "AGReplicaState list \<Rightarrow> AGReplicaState list" where
  "demote_first [] = []"
| "demote_first (r # rs) =
     (if rs_Role r = ''PRIMARY'' then r\<lparr>rs_Role := ''SECONDARY''\<rparr> # rs else r # demote_first rs)"

fun first_secondary :: "AGReplicaState list \<Rightarrow> nat option" where
  "first_secondary [] = None"
| "first_secondary (r # rs) =
     (if rs_Role r = ''SECONDARY'' then Some 0 else map_option Suc (first_secondary rs))"

definition failover_ag :: "MockAG \<Rightarrow> MockAG" where
  "failover_ag ag =
     (case first_secondary (ma_Replicas ag) of
        None \<Rightarrow> ag
      | Some i \<Rightarrow>
          (let rs = demote_first (ma_Replicas ag)
           in ag\<lparr>ma_Replicas := rs[i := (rs ! i)\<lparr>rs_Role := ''PRIMARY''\<rparr>],
                 ma_PrimaryReplica := rs_ServerName (rs ! i)\<rparr>))"

definition Mock_FailoverAG :: "string \<Rightarrow> (unit, MockClient) op" where
  "Mock_FailoverAG agName = guarded ''FailoverAG'' (\<lambda>s. (Inr (), update_ag agName failover_ag s))"

definition Mock_ForceFailoverAG :: "string \<Rightarrow> (unit, MockClient) op" where
  "Mock_ForceFailoverAG agName = guarded ''ForceFailoverAG'' (\<lambda>s. (Inr (), update_ag agName failover_ag s))"

definition replica_not_found :: "string \<Rightarrow> string \<Rightarrow> go_error" where
  "replica_not_found serverName agName =
     Errorf (''replica '' @ serverName @ '' not found in AG '' @ agName)"

definition Mock_GetAGReplicaRole :: "string \<Rightarrow> string \<Rightarrow> (string, MockClient) op" where
  "Mock_GetAGReplicaRole agName serverName = guarded ''GetAGReplicaRole'' (\<lambda>s.
     case mags s agName of
       None \<Rightarrow> (Inl (replica_not_found serverName agName), s)
     | Some ag \<Rightarrow>
         (case find (\<lambda>r. rs_ServerName r = serverName) (ma_Replicas ag) of
            None \<Rightarrow> (Inl (replica_not_found serverName agName), s)
          | Some r \<Rightarrow> (Inr (rs_Role r), s)))"

definition demote_all :: "MockAG \<Rightarrow> MockAG" where
  "demote_all ag = ag\<lparr>ma_Replicas :=
     List.map (\<lambda>r. if rs_Role r = ''PRIMARY'' then r\<lparr>rs_Role := ''SECONDARY''\<rparr> else r) (ma_Replicas ag)\<rparr>"

definition Mock_SetAGRoleSecondary :: "string \<Rightarrow> (unit, MockClient) op" where
  "Mock_SetAGRoleSecondary agName = guarded ''SetAGRoleSecondary'' (\<lambda>s. (Inr (), update_ag agName demote_all s))"

definition Mock_GetLastHardenedLSN :: "string \<Rightarrow> (int, MockClient) op" where
  "Mock_GetLastHardenedLSN agName = guarded ''GetLastHardenedLSN'' (\<lambda>s. (Inr (MockLSN s), s))"

definition Mock_DropAG :: "string \<Rightarrow> (unit, MockClient) op" where
  "Mock_DropAG agName = guarded ''DropAG'' (\<lambda>s. (Inr (), s\<lparr>mags := (mags s)(agName := None)\<rparr>))"

definition Mock_CreateHADREndpoint :: "int \<Rightarrow> (unit, MockClient) op" where
  "Mock_CreateHADREndpoint port = guarded ''CreateHADREndpoint'' (\<lambda>s. (Inr (), s))"

definition Mock_HADREndpointExists :: "(bool, MockClient) op" where
  "Mock_HADREndpointExists = connected ''HADREndpointExists'' (\<lambda>s. (Inr (WasCalled s ''CreateHADREndpoint''), s))"

section \<open>Certificates, backups, server\<close>

definition Mock_CreateMasterKey :: "string \<Rightarrow> (unit, MockClient) op" where
  "Mock_CreateMasterKey password = guarded ''CreateMasterKey'' (\<lambda>s. (Inr (), s))"

definition Mock_MasterKeyExists :: "(bool, MockClient) op" where
  "Mock_MasterKeyExists = connected ''MasterKeyExists'' (\<lambda>s. (Inr (WasCalled s ''CreateMasterKey''), s))"

definition Mock_CreateCertificate :: "string \<Rightarrow> string \<Rightarrow> string \<Rightarrow> (unit, MockClient) op" where
  "Mock_CreateCertificate certName subject expiry = guarded ''CreateCertificate'' (\<lambda>s. (Inr (), s))"

definition Mock_CertificateExists :: "string \<Rightarrow> (bool, MockClient) op" where
  "Mock_CertificateExists certName = connected ''CertificateExists'' (\<lambda>s. (Inr (WasCalled s ''CreateCertificate''), s))"

definition Mock_BackupCertificate :: "string \<Rightarrow> string \<Rightarrow> string \<Rightarrow> string \<Rightarrow> (unit, MockClient) op" where
  "Mock_BackupCertificate certName certPath keyPath pw = guarded ''BackupCertificate'' (\<lambda>s. (Inr (), s))"

definition Mock_CreateCertificateFromBackup ::
  "string \<Rightarrow> string \<Rightarrow> string \<Rightarrow> string \<Rightarrow> (unit, MockClient) op" where
  "Mock_CreateCertificateFromBackup certName certPath keyPath pw =
     guarded ''CreateCertificateFromBackup'' (\<lambda>s. (Inr (), s))"

definition Mock_GetCertificateBinary :: "string \<Rightarrow> (nat list, MockClient) op" where
  "Mock_GetCertificateBinary certName = guarded ''GetCertificateBinary'' (\<lambda>s. (Inr [48, 130], s))"

definition Mock_CreateCertificateFromBinary :: "string \<Rightarrow> nat list \<Rightarrow> (unit, MockClient) op" where
  "Mock_CreateCertificateFromBinary certName der = guarded ''CreateCertificateFromBinary'' (\<lambda>s. (Inr (), s))"

definition Mock_CreateLoginFromCertificate :: "string \<Rightarrow> string \<Rightarrow> (unit, MockClient) op" where
  "Mock_CreateLoginFromCertificate loginName certName = guarded ''CreateLoginFromCertificate'' (\<lambda>s. (Inr (), s))"

definition Mock_GrantEndpointConnect :: "string \<Rightarrow> string \<Rightarrow> (unit, MockClient) op" where
  "Mock_GrantEndpointConnect endpoint loginName = guarded ''GrantEndpointConnect'' (\<lambda>s. (Inr (), s))"

definition Mock_CreateHADREndpointWithCert :: "int \<Rightarrow> string \<Rightarrow> (unit, MockClient) op" where
  "Mock_CreateHADREndpointWithCert port certName = guarded ''CreateHADREndpointWithCert'' (\<lambda>s. (Inr (), s))"

definition Mock_BackupDatabase :: "string \<Rightarrow> string \<Rightarrow> string \<Rightarrow> bool \<Rightarrow> (unit, MockClient) op" where
  "Mock_BackupDatabase dbName destination backupType compression = guarded ''BackupDatabase'' (\<lambda>s. (Inr (), s))"

definition Mock_RestoreDatabase :: "string \<Rightarrow> string \<Rightarrow> (unit, MockClient) op" where
  "Mock_RestoreDatabase dbName source = guarded ''RestoreDatabase'' (\<lambda>s. (Inr (), s))"

definition Mock_RestoreDatabasePIT :: "string \<Rightarrow> string \<Rightarrow> string \<Rightarrow> string \<Rightarrow> (unit, MockClient) op" where
  "Mock_RestoreDatabasePIT dbName fullSource logSource stopAt = guarded ''RestoreDatabasePIT'' (\<lambda>s. (Inr (), s))"

definition Mock_RestoreDatabaseWithMove :: "string \<Rightarrow> string \<Rightarrow> (string \<times> string) list \<Rightarrow> (unit, MockClient) op" where
  "Mock_RestoreDatabaseWithMove dbName source withMove = guarded ''RestoreDatabaseWithMove'' (\<lambda>s. (Inr (), s))"

definition Mock_GetServerVersion :: "(string, MockClient) op" where
  "Mock_GetServerVersion = guarded ''GetServerVersion'' (\<lambda>s. (Inr ''2022 (16.0.4135.4)'', s))"

definition Mock_GetServerEdition :: "(string, MockClient) op" where
  "Mock_GetServerEdition = guarded ''GetServerEdition'' (\<lambda>s. (Inr ''Developer Edition (64-bit)'', s))"

definition Mock_Close :: "MockClient \<Rightarrow> MockClient" where
  "Mock_Close s = track ''Close'' s"

definition Mock_Ping :: "(unit, MockClient) op" where
  "Mock_Ping s0 = (let s = track ''Ping'' s0 in
     case checkConnect s of Some e \<Rightarrow> (Inl e, s) | None \<Rightarrow> (Inr (), s))"

section \<open>The mock as a \<open>SQLClient\<close>\<close>

definition mock_client :: "MockClient SQLClient" where
  "mock_client =
     \<lparr>dbs = \<lparr>DatabaseExists = Mock_DatabaseExists, CreateDatabase = Mock_CreateDatabase,
        DropDatabase = Mock_DropDatabase, GetDatabaseOwner = Mock_GetDatabaseOwner,
        SetDatabaseOwner = Mock_SetDatabaseOwner, GetDatabaseCollation = Mock_GetDatabaseCollation,
        GetDatabaseRecoveryModel = Mock_GetDatabaseRecoveryModel,
        SetDatabaseRecoveryModel = Mock_SetDatabaseRecoveryModel,
        GetDatabaseCompatibilityLevel = Mock_GetDatabaseCompatibilityLevel,
        SetDatabaseCompatibilityLevel = Mock_SetDatabaseCompatibilityLevel,
        GetDatabaseOption = Mock_GetDatabaseOption, SetDatabaseOption = Mock_SetDatabaseOption\<rparr>,
      logins = \<lparr>LoginExists = Mock_LoginExists, CreateLogin = Mock_CreateLogin,
        DropLogin = Mock_DropLogin, UpdateLoginPassword = Mock_UpdateLoginPassword,
        GetLoginDefaultDatabase = Mock_GetLoginDefaultDatabase,
        SetLoginDefaultDatabase = Mock_SetLoginDefaultDatabase,
        GetLoginServerRoles = Mock_GetLoginServerRoles,
        AddLoginToServerRole = Mock_AddLoginToServerRole,
        RemoveLoginFromServerRole = Mock_RemoveLoginFromServerRole, LoginHasUsers = Mock_LoginHasUsers\<rparr>,
      users = \<lparr>UserExists = Mock_UserExists, CreateUser = Mock_CreateUser, DropUser = Mock_DropUser,
        GetUserDatabaseRoles = Mock_GetUserDatabaseRoles,
        AddUserToDatabaseRole = Mock_AddUserToDatabaseRole,
        RemoveUserFromDatabaseRole = Mock_RemoveUserFromDatabaseRole,
        UserOwnsObjects = Mock_UserOwnsObjects\<rparr>,
      schemas = \<lparr>SchemaExists = Mock_SchemaExists, CreateSchema = Mock_CreateSchema,
        DropSchema = Mock_DropSchema, GetSchemaOwner = Mock_GetSchemaOwner,
        SetSchemaOwner = Mock_SetSchemaOwner, SchemaHasObjects = Mock_SchemaHasObjects\<rparr>,
      perms = \<lparr>GetPermissions = Mock_GetPermissions, GrantPermission = Mock_GrantPermission,
        DenyPermission = Mock_DenyPermission, RevokePermission = Mock_RevokePermission\<rparr>,
      backups = \<lparr>BackupDatabase = Mock_BackupDatabase, RestoreDatabase = Mock_RestoreDatabase,
        RestoreDatabasePIT = Mock_RestoreDatabasePIT,
        RestoreDatabaseWithMove = Mock_RestoreDatabaseWithMove\<rparr>,
      ags = \<lparr>AGExists = Mock_AGExists, CreateAG = Mock_CreateAG, GetAGStatus = Mock_GetAGStatus,
        AddDatabaseToAG = Mock_AddDatabaseToAG, RemoveDatabaseFromAG = Mock_RemoveDatabaseFromAG,
        JoinAG = Mock_JoinAG, GrantAGCreateDatabase = Mock_GrantAGCreateDatabase,
        AddListenerToAG = Mock_AddListenerToAG, DropAG = Mock_DropAG, FailoverAG = Mock_FailoverAG,
        ForceFailoverAG = Mock_ForceFailoverAG, GetAGReplicaRole = Mock_GetAGReplicaRole,
        SetAGRoleSecondary = Mock_SetAGRoleSecondary, GetLastHardenedLSN = Mock_GetLastHardenedLSN,
        CreateHADREndpoint = Mock_CreateHADREndpoint, HADREndpointExists = Mock_HADREndpointExists\<rparr>,
      certs = \<lparr>CreateMasterKey = Mock_CreateMasterKey, MasterKeyExists = Mock_MasterKeyExists,
        CreateCertificate = Mock_CreateCertificate, CertificateExists = Mock_CertificateExists,
        BackupCertificate = Mock_BackupCertificate,
        CreateCertificateFromBackup = Mock_CreateCertificateFromBackup,
        GetCertificateBinary = Mock_GetCertificateBinary,
        CreateCertificateFromBinary = Mock_CreateCertificateFromBinary,
        CreateLoginFromCertificate = Mock_CreateLoginFromCertificate,
        GrantEndpointConnect = Mock_GrantEndpointConnect,
        CreateHADREndpointWithCert = Mock_CreateHADREndpointWithCert\<rparr>,
      GetServerVersion = Mock_GetServerVersion, GetServerEdition = Mock_GetServerEdition,
      CloseClient = Mock_Close, Ping = Mock_Ping\<rparr>"

end
