(* ===== verification/Mock_Laws.thy ===== *)
theory Mock_Laws
  imports Mock_Client
begin

text \<open>
  What the in-memory server guarantees: its well-formedness invariant, kept by every
  method and test hook; what a method does when errors are injected; the behaviour of the
  permission and failover operations. The lemmas \<open>healthy_*\<close> evaluate a method on a server
  without injected errors and carry the controllers' proofs.
\<close>

section \<open>Healthy servers and the method preambles\<close>

definition healthy :: "MockClient \<Rightarrow> bool" where
  "healthy s \<longleftrightarrow> ConnectError s = None \<and> MethodErrors s = Map.empty"

text \<open>The state without the call counters.\<close>

definition content :: "MockClient \<Rightarrow> MockClient" where
  "content s = s\<lparr>calls := (\<lambda>_. 0)\<rparr>"

lemma track_simps [simp]:
  "databases (track m s) = databases s" "mlogins (track m s) = mlogins s"
  "musers (track m s) = musers s" "mschemas (track m s) = mschemas s"
  "permissions (track m s) = permissions s" "mags (track m s) = mags s"
  "ConnectError (track m s) = ConnectError s" "MethodErrors (track m s) = MethodErrors s"
  "MockLSN (track m s) = MockLSN s"
  by (simp_all add: track_def)

lemma content_simps [simp]:
  "content (track m s) = content s" "content (content s) = content s"
  by (simp_all add: content_def track_def)

lemma content_fields:
  "content s = content t \<Longrightarrow> databases s = databases t \<and> mlogins s = mlogins t \<and> musers s = musers t
     \<and> mschemas s = mschemas t \<and> permissions s = permissions t \<and> mags s = mags t
     \<and> ConnectError s = ConnectError t \<and> MethodErrors s = MethodErrors t \<and> MockLSN s = MockLSN t"
  unfolding content_def by (cases s; cases t) simp

lemma healthy_track [simp]: "healthy (track m s) = healthy s"
  by (simp add: healthy_def)

lemma healthy_updates [simp]:
  "healthy (s\<lparr>databases := d\<rparr>) = healthy s" "healthy (s\<lparr>mlogins := l\<rparr>) = healthy s"
  "healthy (s\<lparr>musers := u\<rparr>) = healthy s" "healthy (s\<lparr>mschemas := sc\<rparr>) = healthy s"
  "healthy (s\<lparr>permissions := p\<rparr>) = healthy s" "healthy (s\<lparr>mags := a\<rparr>) = healthy s"
  by (simp_all add: healthy_def)

lemma healthy_New [simp]: "healthy NewMockClient"
  by (simp add: healthy_def NewMockClient_def)

lemma healthy_connected [simp]: "healthy s \<Longrightarrow> connected m k s = k (track m s)"
  by (simp add: connected_def checkConnect_def healthy_def)

lemma healthy_guarded [simp]: "healthy s \<Longrightarrow> guarded m k s = k (track m s)"
  by (simp add: guarded_def checkMethodError_def healthy_def connected_def checkConnect_def)

lemma connected_down: "ConnectError s = Some e \<Longrightarrow> connected m k s = (Inl e, track m s)"
  by (simp add: connected_def checkConnect_def)

lemma guarded_down: "ConnectError s = Some e \<Longrightarrow> guarded m k s = (Inl e, track m s)"
  by (simp add: guarded_def connected_down)

lemma guarded_method_error:
  "ConnectError s = None \<Longrightarrow> MethodErrors s m = Some e \<Longrightarrow> guarded m k s = (Inl e, track m s)"
  by (simp add: guarded_def connected_def checkConnect_def checkMethodError_def)

lemma connected_preserves:
  assumes "P s" and "\<And>m s. P s \<Longrightarrow> P (track m s)" and "\<And>s. P s \<Longrightarrow> P (snd (k s))"
  shows "P (snd (connected m k s))"
  using assms(1) assms(2) [OF assms(1), of m] assms(3) [of "track m s"]
  by (simp add: connected_def Let_def split: option.splits)

lemma guarded_preserves:
  assumes "P s" and "\<And>m s. P s \<Longrightarrow> P (track m s)" and "\<And>s. P s \<Longrightarrow> P (snd (k s))"
  shows "P (snd (guarded m k s))"
  unfolding guarded_def
proof (rule connected_preserves [where P = P, OF assms(1,2)])
  fix s assume "P s"
  then show "P (snd (case checkMethodError s m of None \<Rightarrow> k s | Some e \<Rightarrow> (Inl e, s)))"
    using assms(3) [of s] by (simp split: option.splits)
qed

section \<open>The invariant\<close>

definition databases_ok :: "(string \<rightharpoonup> MockDatabase) \<Rightarrow> bool" where
  "databases_ok m \<longleftrightarrow> (\<forall>k d. m k = Some d \<longrightarrow> md_Name d = k)"

definition logins_ok :: "(string \<rightharpoonup> MockLogin) \<Rightarrow> bool" where
  "logins_ok m \<longleftrightarrow> (\<forall>k l. m k = Some l \<longrightarrow> ml_Name l = k \<and> distinct (ml_ServerRoles l))"

definition users_ok :: "(string \<rightharpoonup> MockUser) \<Rightarrow> bool" where
  "users_ok m \<longleftrightarrow> (\<forall>k u. m k = Some u \<longrightarrow> userKey (mu_DBName u) (mu_UserName u) = k \<and> distinct (mu_Roles u))"

definition perm_id :: "MockPermission \<Rightarrow> string \<times> string" where
  "perm_id p = (mp_Permission p, mp_Target p)"

definition perms_ok :: "(string \<Rightarrow> MockPermission list) \<Rightarrow> bool" where
  "perms_ok m \<longleftrightarrow> (\<forall>k. distinct (List.map perm_id (m k)) \<and> (\<forall>p \<in> set (m k). mp_State p \<in> {''GRANT'', ''DENY''}))"

definition count_primaries :: "AGReplicaState list \<Rightarrow> nat" where
  "count_primaries rs = length (filter (\<lambda>r. rs_Role r = ''PRIMARY'') rs)"

definition ags_ok :: "(string \<rightharpoonup> MockAG) \<Rightarrow> bool" where
  "ags_ok m \<longleftrightarrow> (\<forall>k a. m k = Some a \<longrightarrow> ma_Name a = k \<and> count_primaries (ma_Replicas a) \<le> 1)"

text \<open>
  Every entry is stored under its own name, no role and no permission is listed twice, a
  permission is a grant or a denial, and no availability group has two primaries.
\<close>

definition schema_keys_ok :: "(string \<rightharpoonup> MockSchema) \<Rightarrow> bool" where
  "schema_keys_ok m \<longleftrightarrow> (\<forall>k u. m k = Some u \<longrightarrow> schemaKey (ms_DBName u) (ms_SchemaName u) = k)"

definition mock_inv :: "MockClient \<Rightarrow> bool" where
  "mock_inv s \<longleftrightarrow> databases_ok (databases s) \<and> logins_ok (mlogins s) \<and> users_ok (musers s)
     \<and> schema_keys_ok (mschemas s) \<and> perms_ok (permissions s) \<and> ags_ok (mags s)"

lemma ok_upd [intro]:
  "databases_ok m1 \<Longrightarrow> md_Name d = k1 \<Longrightarrow> databases_ok (m1(k1 \<mapsto> d))"
  "logins_ok m2 \<Longrightarrow> ml_Name l = k2 \<Longrightarrow> distinct (ml_ServerRoles l) \<Longrightarrow> logins_ok (m2(k2 \<mapsto> l))"
  "users_ok m3 \<Longrightarrow> userKey (mu_DBName u) (mu_UserName u) = k3 \<Longrightarrow> distinct (mu_Roles u) \<Longrightarrow> users_ok (m3(k3 \<mapsto> u))"
  "schema_keys_ok m4 \<Longrightarrow> schemaKey (ms_DBName c) (ms_SchemaName c) = k4 \<Longrightarrow> schema_keys_ok (m4(k4 \<mapsto> c))"
  "ags_ok m5 \<Longrightarrow> ma_Name a = k5 \<Longrightarrow> count_primaries (ma_Replicas a) \<le> 1 \<Longrightarrow> ags_ok (m5(k5 \<mapsto> a))"
  by (auto simp: databases_ok_def logins_ok_def users_ok_def schema_keys_ok_def ags_ok_def)

lemma ok_del [intro]:
  "databases_ok m1 \<Longrightarrow> databases_ok (m1(k1 := None))"
  "logins_ok m2 \<Longrightarrow> logins_ok (m2(k2 := None))"
  "users_ok m3 \<Longrightarrow> users_ok (m3(k3 := None))"
  "schema_keys_ok m4 \<Longrightarrow> schema_keys_ok (m4(k4 := None))"
  "ags_ok m5 \<Longrightarrow> ags_ok (m5(k5 := None))"
  by (auto simp: databases_ok_def logins_ok_def users_ok_def schema_keys_ok_def ags_ok_def)

lemma ok_get:
  "databases_ok m1 \<Longrightarrow> m1 k1 = Some d \<Longrightarrow> md_Name d = k1"
  "logins_ok m2 \<Longrightarrow> m2 k2 = Some l \<Longrightarrow> ml_Name l = k2 \<and> distinct (ml_ServerRoles l)"
  "users_ok m3 \<Longrightarrow> m3 k3 = Some u \<Longrightarrow> userKey (mu_DBName u) (mu_UserName u) = k3 \<and> distinct (mu_Roles u)"
  "schema_keys_ok m4 \<Longrightarrow> m4 k4 = Some c \<Longrightarrow> schemaKey (ms_DBName c) (ms_SchemaName c) = k4"
  "ags_ok m5 \<Longrightarrow> m5 k5 = Some a \<Longrightarrow> ma_Name a = k5 \<and> count_primaries (ma_Replicas a) \<le> 1"
  by (auto simp: databases_ok_def logins_ok_def users_ok_def schema_keys_ok_def ags_ok_def)

lemma mock_inv_track [simp]: "mock_inv (track m s) = mock_inv s"
  by (simp add: mock_inv_def)

lemma mock_inv_New: "mock_inv NewMockClient"
  by (simp add: mock_inv_def NewMockClient_def databases_ok_def logins_ok_def users_ok_def
      schema_keys_ok_def perms_ok_def ags_ok_def)

subsection \<open>Permission lists\<close>

lemma perms_ok_filter: "perms_ok m \<Longrightarrow> perms_ok (m(k := filter P (m k)))"
  by (auto simp: perms_ok_def distinct_map_filter)

lemma perms_ok_append:
  "perms_ok m \<Longrightarrow> perm_id p \<notin> perm_id ` set (m k) \<Longrightarrow> mp_State p \<in> {''GRANT'', ''DENY''} \<Longrightarrow>
   perms_ok (m(k := m k @ [p]))"
  by (auto simp: perms_ok_def)

lemma mock_inv_removePerm: "mock_inv s \<Longrightarrow> mock_inv (removePermLocked k p t s)"
  by (simp add: mock_inv_def removePermLocked_def perms_ok_filter)

lemma mock_inv_replace_perm:
  assumes "mock_inv s" and "st \<in> {''GRANT'', ''DENY''}"
  shows "mock_inv (append_perm k \<lparr>mp_Permission = p, mp_Target = t, mp_State = st\<rparr> (removePermLocked k p t s))"
proof -
  let ?n = "\<lparr>mp_Permission = p, mp_Target = t, mp_State = st\<rparr>" and ?s = "removePermLocked k p t s"
  have "perms_ok (permissions ?s)" using mock_inv_removePerm [OF assms(1)] by (simp add: mock_inv_def)
  moreover have "perm_id ?n \<notin> perm_id ` set (permissions ?s k)"
    by (auto simp: perm_id_def removePermLocked_def)
  ultimately have "perms_ok ((permissions ?s)(k := permissions ?s k @ [?n]))"
    using assms(2) by (intro perms_ok_append) auto
  then show ?thesis
    using mock_inv_removePerm [OF assms(1), of k p t] by (simp add: mock_inv_def append_perm_def)
qed

subsection \<open>Replica roles\<close>

lemma count_primaries_simps [simp]:
  "count_primaries [] = 0" "count_primaries (r # rs) = (if rs_Role r = ''PRIMARY'' then 1 else 0) + count_primaries rs"
  by (simp_all add: count_primaries_def)

lemma count_primaries_demote_first: "count_primaries (demote_first rs) = count_primaries rs - 1"
  by (induction rs) auto

lemma length_demote_first [simp]: "length (demote_first rs) = length rs"
  by (induction rs) auto

lemma first_secondary_props:
  "first_secondary rs = Some i \<Longrightarrow> i < length rs \<and> rs_Role (rs ! i) = ''SECONDARY''"
  by (induction rs arbitrary: i) (auto split: if_splits)

lemma demote_first_secondary:
  "i < length rs \<Longrightarrow> rs_Role (rs ! i) = ''SECONDARY'' \<Longrightarrow> demote_first rs ! i = rs ! i"
  by (induction rs arbitrary: i) (auto simp: nth_Cons split: nat.splits)

lemma count_primaries_promote:
  "i < length rs \<Longrightarrow> rs_Role (rs ! i) \<noteq> ''PRIMARY'' \<Longrightarrow>
   count_primaries (rs[i := (rs ! i)\<lparr>rs_Role := ''PRIMARY''\<rparr>]) = Suc (count_primaries rs)"
  by (induction rs arbitrary: i) (auto simp: nth_Cons split: nat.splits)

lemma demote_first_noop: "count_primaries rs = 0 \<Longrightarrow> demote_first rs = rs"
  by (induction rs) (auto split: if_splits)

lemma failover_ag_primaries:
  assumes "first_secondary (ma_Replicas a) = Some i" and "count_primaries (ma_Replicas a) \<le> 1"
  shows "count_primaries (ma_Replicas (failover_ag a)) = 1"
    and "ma_Replicas (failover_ag a) ! i = (ma_Replicas a ! i)\<lparr>rs_Role := ''PRIMARY''\<rparr>"
    and "ma_PrimaryReplica (failover_ag a) = rs_ServerName (ma_Replicas a ! i)"
proof -
  let ?rs = "ma_Replicas a" and ?d = "demote_first (ma_Replicas a)"
  from first_secondary_props [OF assms(1)] have i: "i < length ?rs" "rs_Role (?rs ! i) = ''SECONDARY''" by auto
  then have d: "?d ! i = ?rs ! i" by (simp add: demote_first_secondary)
  have "count_primaries ?d = 0" using assms(2) by (simp add: count_primaries_demote_first)
  then show "count_primaries (ma_Replicas (failover_ag a)) = 1"
    using count_primaries_promote [of i ?d] i d assms(1) by (simp add: failover_ag_def)
  show "ma_Replicas (failover_ag a) ! i = (?rs ! i)\<lparr>rs_Role := ''PRIMARY''\<rparr>"
    using i d assms(1) by (simp add: failover_ag_def)
  show "ma_PrimaryReplica (failover_ag a) = rs_ServerName (?rs ! i)"
    using d assms(1) by (simp add: failover_ag_def)
qed

lemma failover_ag_ok:
  "count_primaries (ma_Replicas a) \<le> 1 \<Longrightarrow> count_primaries (ma_Replicas (failover_ag a)) \<le> 1"
  by (cases "first_secondary (ma_Replicas a)")
     (simp_all add: failover_ag_primaries, simp add: failover_ag_def)

lemma ma_Name_failover [simp]: "ma_Name (failover_ag a) = ma_Name a"
  by (simp add: failover_ag_def Let_def split: option.splits)

lemma demote_all_primaries [simp]: "count_primaries (ma_Replicas (demote_all a)) = 0"
  by (simp add: demote_all_def count_primaries_def filter_empty_conv)

lemma ma_Name_demote_all [simp]: "ma_Name (demote_all a) = ma_Name a"
  by (simp add: demote_all_def)

lemma count_primaries_enumerate:
  "count_primaries (List.map (\<lambda>(i, r). \<lparr>rs_ServerName = f r, rs_Role = (if i = 0 then ''PRIMARY'' else ''SECONDARY''),
     rs_SynchronizationState = x, rs_Connected = y\<rparr>) (List.enumerate (Suc n) rcs)) = 0"
  by (induction rcs arbitrary: n) simp_all

lemma count_primaries_initial: "count_primaries (initial_replicas rcs) = (if rcs = [] then 0 else 1)"
  by (cases rcs) (simp_all add: initial_replicas_def count_primaries_enumerate)

lemma mock_inv_update_ag:
  assumes "mock_inv s" and "\<And>a. ma_Name (f a) = ma_Name a"
    and "\<And>a. count_primaries (ma_Replicas a) \<le> 1 \<Longrightarrow> count_primaries (ma_Replicas (f a)) \<le> 1"
  shows "mock_inv (update_ag n f s)"
proof (cases "mags s n")
  case None
  with assms(1) show ?thesis by (simp add: update_ag_def)
next
  case (Some a)
  then have "ags_ok ((mags s)(n \<mapsto> f a))"
    using assms ok_get(5) [of "mags s" n a] by (intro ok_upd) (auto simp: mock_inv_def)
  with Some assms(1) show ?thesis by (simp add: update_ag_def mock_inv_def)
qed

section \<open>Every method, and the reachable states\<close>

text \<open>One method call of the interface, whatever it returns; and the hooks tests use.\<close>

inductive mock_call :: "MockClient \<Rightarrow> MockClient \<Rightarrow> bool" where
  call_DatabaseExists: "mock_call s (snd (Mock_DatabaseExists a s))"
| call_CreateDatabase: "mock_call s (snd (Mock_CreateDatabase a b s))"
| call_DropDatabase: "mock_call s (snd (Mock_DropDatabase a s))"
| call_GetDatabaseOwner: "mock_call s (snd (Mock_GetDatabaseOwner a s))"
| call_SetDatabaseOwner: "mock_call s (snd (Mock_SetDatabaseOwner a b s))"
| call_GetDatabaseCollation: "mock_call s (snd (Mock_GetDatabaseCollation a s))"
| call_GetDatabaseRecoveryModel: "mock_call s (snd (Mock_GetDatabaseRecoveryModel a s))"
| call_SetDatabaseRecoveryModel: "mock_call s (snd (Mock_SetDatabaseRecoveryModel a b s))"
| call_GetDatabaseCompatibilityLevel: "mock_call s (snd (Mock_GetDatabaseCompatibilityLevel a s))"
| call_SetDatabaseCompatibilityLevel: "mock_call s (snd (Mock_SetDatabaseCompatibilityLevel a b s))"
| call_GetDatabaseOption: "mock_call s (snd (Mock_GetDatabaseOption a b s))"
| call_SetDatabaseOption: "mock_call s (snd (Mock_SetDatabaseOption a b c s))"
| call_LoginExists: "mock_call s (snd (Mock_LoginExists a s))"
| call_CreateLogin: "mock_call s (snd (Mock_CreateLogin a b s))"
| call_DropLogin: "mock_call s (snd (Mock_DropLogin a s))"
| call_UpdateLoginPassword: "mock_call s (snd (Mock_UpdateLoginPassword a b s))"
| call_GetLoginDefaultDatabase: "mock_call s (snd (Mock_GetLoginDefaultDatabase a s))"
| call_SetLoginDefaultDatabase: "mock_call s (snd (Mock_SetLoginDefaultDatabase a b s))"
| call_GetLoginServerRoles: "mock_call s (snd (Mock_GetLoginServerRoles a s))"
| call_AddLoginToServerRole: "mock_call s (snd (Mock_AddLoginToServerRole a b s))"
| call_RemoveLoginFromServerRole: "mock_call s (snd (Mock_RemoveLoginFromServerRole a b s))"
| call_LoginHasUsers: "mock_call s (snd (Mock_LoginHasUsers a s))"
| call_UserExists: "mock_call s (snd (Mock_UserExists a b s))"
| call_CreateUser: "mock_call s (snd (Mock_CreateUser a b c s))"
| call_DropUser: "mock_call s (snd (Mock_DropUser a b s))"
| call_GetUserDatabaseRoles: "mock_call s (snd (Mock_GetUserDatabaseRoles a b s))"
| call_AddUserToDatabaseRole: "mock_call s (snd (Mock_AddUserToDatabaseRole a b c s))"
| call_RemoveUserFromDatabaseRole: "mock_call s (snd (Mock_RemoveUserFromDatabaseRole a b c s))"
| call_UserOwnsObjects: "mock_call s (snd (Mock_UserOwnsObjects a b s))"
| call_SchemaExists: "mock_call s (snd (Mock_SchemaExists a b s))"
| call_CreateSchema: "mock_call s (snd (Mock_CreateSchema a b c s))"
| call_DropSchema: "mock_call s (snd (Mock_DropSchema a b s))"
| call_GetSchemaOwner: "mock_call s (snd (Mock_GetSchemaOwner a b s))"
| call_SetSchemaOwner: "mock_call s (snd (Mock_SetSchemaOwner a b c s))"
| call_SchemaHasObjects: "mock_call s (snd (Mock_SchemaHasObjects a b s))"
| call_GetPermissions: "mock_call s (snd (Mock_GetPermissions a b s))"
| call_GrantPermission: "mock_call s (snd (Mock_GrantPermission a b c d s))"
| call_DenyPermission: "mock_call s (snd (Mock_DenyPermission a b c d s))"
| call_RevokePermission: "mock_call s (snd (Mock_RevokePermission a b c d s))"
| call_AGExists: "mock_call s (snd (Mock_AGExists a s))"
| call_CreateAG: "mock_call s (snd (Mock_CreateAG a s))"
| call_GetAGStatus: "mock_call s (snd (Mock_GetAGStatus a s))"
| call_AddDatabaseToAG: "mock_call s (snd (Mock_AddDatabaseToAG a b s))"
| call_RemoveDatabaseFromAG: "mock_call s (snd (Mock_RemoveDatabaseFromAG a b s))"
| call_JoinAG: "mock_call s (snd (Mock_JoinAG a b s))"
| call_GrantAGCreateDatabase: "mock_call s (snd (Mock_GrantAGCreateDatabase a s))"
| call_AddListenerToAG: "mock_call s (snd (Mock_AddListenerToAG a b s))"
| call_FailoverAG: "mock_call s (snd (Mock_FailoverAG a s))"
| call_ForceFailoverAG: "mock_call s (snd (Mock_ForceFailoverAG a s))"
| call_GetAGReplicaRole: "mock_call s (snd (Mock_GetAGReplicaRole a b s))"
| call_SetAGRoleSecondary: "mock_call s (snd (Mock_SetAGRoleSecondary a s))"
| call_GetLastHardenedLSN: "mock_call s (snd (Mock_GetLastHardenedLSN a s))"
| call_DropAG: "mock_call s (snd (Mock_DropAG a s))"
| call_CreateHADREndpoint: "mock_call s (snd (Mock_CreateHADREndpoint a s))"
| call_HADREndpointExists: "mock_call s (snd (Mock_HADREndpointExists s))"
| call_CreateMasterKey: "mock_call s (snd (Mock_CreateMasterKey a s))"
| call_MasterKeyExists: "mock_call s (snd (Mock_MasterKeyExists s))"
| call_CreateCertificate: "mock_call s (snd (Mock_CreateCertificate a b c s))"
| call_CertificateExists: "mock_call s (snd (Mock_CertificateExists a s))"
| call_BackupCertificate: "mock_call s (snd (Mock_BackupCertificate a b c d s))"
| call_CreateCertificateFromBackup: "mock_call s (snd (Mock_CreateCertificateFromBackup a b c d s))"
| call_GetCertificateBinary: "mock_call s (snd (Mock_GetCertificateBinary a s))"
| call_CreateCertificateFromBinary: "mock_call s (snd (Mock_CreateCertificateFromBinary a b s))"
| call_CreateLoginFromCertificate: "mock_call s (snd (Mock_CreateLoginFromCertificate a b s))"
| call_GrantEndpointConnect: "mock_call s (snd (Mock_GrantEndpointConnect a b s))"
| call_CreateHADREndpointWithCert: "mock_call s (snd (Mock_CreateHADREndpointWithCert a b s))"
| call_BackupDatabase: "mock_call s (snd (Mock_BackupDatabase a b c d s))"
| call_RestoreDatabase: "mock_call s (snd (Mock_RestoreDatabase a b s))"
| call_RestoreDatabasePIT: "mock_call s (snd (Mock_RestoreDatabasePIT a b c d s))"
| call_RestoreDatabaseWithMove: "mock_call s (snd (Mock_RestoreDatabaseWithMove a b c s))"
| call_GetServerVersion: "mock_call s (snd (Mock_GetServerVersion s))"
| call_GetServerEdition: "mock_call s (snd (Mock_GetServerEdition s))"
| call_Ping: "mock_call s (snd (Mock_Ping s))"
| call_Close: "mock_call s (Mock_Close s)"

inductive mock_hook :: "MockClient \<Rightarrow> MockClient \<Rightarrow> bool" where
  hook_ResetCalls: "mock_hook s (ResetCalls s)"
| hook_SetUserOwnsObjects: "mock_hook s (SetUserOwnsObjects d u b s)"
| hook_SetSchemaHasObjects: "mock_hook s (SetSchemaHasObjects d u b s)"
| hook_SetDatabaseCollation: "mock_hook s (SetDatabaseCollation d c s)"
| hook_SetMethodError: "mock_hook s (SetMethodError m e s)"
| hook_ConnectError: "mock_hook s (s\<lparr>ConnectError := e\<rparr>)"
| hook_MockLSN: "mock_hook s (s\<lparr>MockLSN := l\<rparr>)"

inductive mock_reachable :: "MockClient \<Rightarrow> bool" where
  reach_New: "mock_reachable NewMockClient"
| reach_call: "mock_reachable s \<Longrightarrow> mock_call s t \<Longrightarrow> mock_reachable t"
| reach_hook: "mock_reachable s \<Longrightarrow> mock_hook s t \<Longrightarrow> mock_reachable t"

lemmas Mock_method_defs =
  Mock_DatabaseExists_def Mock_CreateDatabase_def Mock_DropDatabase_def
  Mock_GetDatabaseOwner_def Mock_SetDatabaseOwner_def Mock_GetDatabaseCollation_def
  Mock_GetDatabaseRecoveryModel_def Mock_SetDatabaseRecoveryModel_def Mock_GetDatabaseCompatibilityLevel_def
  Mock_SetDatabaseCompatibilityLevel_def Mock_GetDatabaseOption_def Mock_SetDatabaseOption_def
  Mock_LoginExists_def Mock_CreateLogin_def Mock_DropLogin_def
  Mock_UpdateLoginPassword_def Mock_GetLoginDefaultDatabase_def Mock_SetLoginDefaultDatabase_def
  Mock_GetLoginServerRoles_def Mock_AddLoginToServerRole_def Mock_RemoveLoginFromServerRole_def
  Mock_LoginHasUsers_def Mock_UserExists_def Mock_CreateUser_def
  Mock_DropUser_def Mock_GetUserDatabaseRoles_def Mock_AddUserToDatabaseRole_def
  Mock_RemoveUserFromDatabaseRole_def Mock_UserOwnsObjects_def Mock_SchemaExists_def
  Mock_CreateSchema_def Mock_DropSchema_def Mock_GetSchemaOwner_def
  Mock_SetSchemaOwner_def Mock_SchemaHasObjects_def Mock_GetPermissions_def
  Mock_GrantPermission_def Mock_DenyPermission_def Mock_RevokePermission_def
  Mock_AGExists_def Mock_CreateAG_def Mock_GetAGStatus_def
  Mock_AddDatabaseToAG_def Mock_RemoveDatabaseFromAG_def Mock_JoinAG_def
  Mock_GrantAGCreateDatabase_def Mock_AddListenerToAG_def Mock_FailoverAG_def
  Mock_ForceFailoverAG_def Mock_GetAGReplicaRole_def Mock_SetAGRoleSecondary_def
  Mock_GetLastHardenedLSN_def Mock_DropAG_def Mock_CreateHADREndpoint_def
  Mock_HADREndpointExists_def Mock_CreateMasterKey_def Mock_MasterKeyExists_def
  Mock_CreateCertificate_def Mock_CertificateExists_def Mock_BackupCertificate_def
  Mock_CreateCertificateFromBackup_def Mock_GetCertificateBinary_def Mock_CreateCertificateFromBinary_def
  Mock_CreateLoginFromCertificate_def Mock_GrantEndpointConnect_def Mock_CreateHADREndpointWithCert_def
  Mock_BackupDatabase_def Mock_RestoreDatabase_def Mock_RestoreDatabasePIT_def
  Mock_RestoreDatabaseWithMove_def Mock_GetServerVersion_def Mock_GetServerEdition_def
  Mock_Ping_def

lemma inv_connected:
  "mock_inv s \<Longrightarrow> (\<And>s. mock_inv s \<Longrightarrow> mock_inv (snd (k s))) \<Longrightarrow> mock_inv (snd (connected m k s))"
  by (rule connected_preserves [where P = mock_inv]) simp_all

lemma inv_guarded:
  "mock_inv s \<Longrightarrow> (\<And>s. mock_inv s \<Longrightarrow> mock_inv (snd (k s))) \<Longrightarrow> mock_inv (snd (guarded m k s))"
  by (rule guarded_preserves [where P = mock_inv]) simp_all

lemma mock_inv_databases: "mock_inv s \<Longrightarrow> databases_ok d \<Longrightarrow> mock_inv (s\<lparr>databases := d\<rparr>)"
  by (simp add: mock_inv_def)

lemma mock_inv_logins: "mock_inv s \<Longrightarrow> logins_ok d \<Longrightarrow> mock_inv (s\<lparr>mlogins := d\<rparr>)"
  by (simp add: mock_inv_def)

lemma mock_inv_users: "mock_inv s \<Longrightarrow> users_ok d \<Longrightarrow> mock_inv (s\<lparr>musers := d\<rparr>)"
  by (simp add: mock_inv_def)

lemma mock_inv_schemas: "mock_inv s \<Longrightarrow> schema_keys_ok d \<Longrightarrow> mock_inv (s\<lparr>mschemas := d\<rparr>)"
  by (simp add: mock_inv_def)

lemma mock_inv_ags: "mock_inv s \<Longrightarrow> ags_ok d \<Longrightarrow> mock_inv (s\<lparr>mags := d\<rparr>)"
  by (simp add: mock_inv_def)

lemmas mock_inv_field = mock_inv_databases mock_inv_logins mock_inv_users mock_inv_schemas mock_inv_ags

lemma mock_invD:
  "mock_inv s \<Longrightarrow> databases_ok (databases s)" "mock_inv s \<Longrightarrow> logins_ok (mlogins s)"
  "mock_inv s \<Longrightarrow> users_ok (musers s)" "mock_inv s \<Longrightarrow> schema_keys_ok (mschemas s)"
  "mock_inv s \<Longrightarrow> perms_ok (permissions s)" "mock_inv s \<Longrightarrow> ags_ok (mags s)"
  by (simp_all add: mock_inv_def)

lemmas mock_inv_rules = inv_connected inv_guarded mock_inv_field mock_inv_removePerm mock_inv_replace_perm mock_inv_update_ag ok_upd ok_del
  count_primaries_initial [THEN eq_refl, THEN order_trans] failover_ag_ok

lemmas mock_inv_facts = mock_invD ok_get

lemma inv_databases_calls:
  "mock_inv s \<Longrightarrow> mock_inv (snd (Mock_DatabaseExists a s))"
  "mock_inv s \<Longrightarrow> mock_inv (snd (Mock_CreateDatabase a x s))"
  "mock_inv s \<Longrightarrow> mock_inv (snd (Mock_DropDatabase a s))"
  "mock_inv s \<Longrightarrow> mock_inv (snd (Mock_GetDatabaseOwner a s))"
  "mock_inv s \<Longrightarrow> mock_inv (snd (Mock_SetDatabaseOwner a b s))"
  "mock_inv s \<Longrightarrow> mock_inv (snd (Mock_GetDatabaseCollation a s))"
  "mock_inv s \<Longrightarrow> mock_inv (snd (Mock_GetDatabaseRecoveryModel a s))"
  "mock_inv s \<Longrightarrow> mock_inv (snd (Mock_SetDatabaseRecoveryModel a b s))"
  "mock_inv s \<Longrightarrow> mock_inv (snd (Mock_GetDatabaseCompatibilityLevel a s))"
  "mock_inv s \<Longrightarrow> mock_inv (snd (Mock_SetDatabaseCompatibilityLevel a i s))"
  "mock_inv s \<Longrightarrow> mock_inv (snd (Mock_GetDatabaseOption a b s))"
  "mock_inv s \<Longrightarrow> mock_inv (snd (Mock_SetDatabaseOption a b b0 s))"
  by ((unfold Mock_method_defs Mock_Close_def Mock_Ping_def)?,
      auto intro!: mock_inv_rules dest: mock_inv_facts intro: distinct_filter simp: Let_def split: option.splits if_splits)+

lemma inv_logins_calls:
  "mock_inv s \<Longrightarrow> mock_inv (snd (Mock_LoginExists a s))"
  "mock_inv s \<Longrightarrow> mock_inv (snd (Mock_CreateLogin a b s))" "mock_inv s \<Longrightarrow> mock_inv (snd (Mock_DropLogin a s))"
  "mock_inv s \<Longrightarrow> mock_inv (snd (Mock_UpdateLoginPassword a b s))"
  "mock_inv s \<Longrightarrow> mock_inv (snd (Mock_GetLoginDefaultDatabase a s))"
  "mock_inv s \<Longrightarrow> mock_inv (snd (Mock_SetLoginDefaultDatabase a b s))"
  "mock_inv s \<Longrightarrow> mock_inv (snd (Mock_GetLoginServerRoles a s))"
  "mock_inv s \<Longrightarrow> mock_inv (snd (Mock_AddLoginToServerRole a b s))"
  "mock_inv s \<Longrightarrow> mock_inv (snd (Mock_RemoveLoginFromServerRole a b s))"
  "mock_inv s \<Longrightarrow> mock_inv (snd (Mock_LoginHasUsers a s))"
  by ((unfold Mock_method_defs Mock_Close_def Mock_Ping_def)?,
      auto intro!: mock_inv_rules dest: mock_inv_facts intro: distinct_filter simp: Let_def split: option.splits if_splits)+

lemma inv_users_calls:
  "mock_inv s \<Longrightarrow> mock_inv (snd (Mock_UserExists a b s))"
  "mock_inv s \<Longrightarrow> mock_inv (snd (Mock_CreateUser a b c s))"
  "mock_inv s \<Longrightarrow> mock_inv (snd (Mock_DropUser a b s))"
  "mock_inv s \<Longrightarrow> mock_inv (snd (Mock_GetUserDatabaseRoles a b s))"
  "mock_inv s \<Longrightarrow> mock_inv (snd (Mock_AddUserToDatabaseRole a b c s))"
  "mock_inv s \<Longrightarrow> mock_inv (snd (Mock_RemoveUserFromDatabaseRole a b c s))"
  "mock_inv s \<Longrightarrow> mock_inv (snd (Mock_UserOwnsObjects a b s))"
  by ((unfold Mock_method_defs Mock_Close_def Mock_Ping_def)?,
      auto intro!: mock_inv_rules dest: mock_inv_facts intro: distinct_filter simp: Let_def split: option.splits if_splits)+

lemma inv_schemas_calls:
  "mock_inv s \<Longrightarrow> mock_inv (snd (Mock_SchemaExists a b s))"
  "mock_inv s \<Longrightarrow> mock_inv (snd (Mock_CreateSchema a b x s))"
  "mock_inv s \<Longrightarrow> mock_inv (snd (Mock_DropSchema a b s))"
  "mock_inv s \<Longrightarrow> mock_inv (snd (Mock_GetSchemaOwner a b s))"
  "mock_inv s \<Longrightarrow> mock_inv (snd (Mock_SetSchemaOwner a b c s))"
  "mock_inv s \<Longrightarrow> mock_inv (snd (Mock_SchemaHasObjects a b s))"
  by ((unfold Mock_method_defs Mock_Close_def Mock_Ping_def)?,
      auto intro!: mock_inv_rules dest: mock_inv_facts intro: distinct_filter simp: Let_def split: option.splits if_splits)+

lemma inv_permissions_calls:
  "mock_inv s \<Longrightarrow> mock_inv (snd (Mock_GetPermissions a b s))"
  "mock_inv s \<Longrightarrow> mock_inv (snd (Mock_GrantPermission a b c d s))"
  "mock_inv s \<Longrightarrow> mock_inv (snd (Mock_DenyPermission a b c d s))"
  "mock_inv s \<Longrightarrow> mock_inv (snd (Mock_RevokePermission a b c d s))"
  by ((unfold Mock_method_defs Mock_Close_def Mock_Ping_def)?,
      auto intro!: mock_inv_rules dest: mock_inv_facts intro: distinct_filter simp: Let_def split: option.splits if_splits)+

lemma inv_groups_calls:
  "mock_inv s \<Longrightarrow> mock_inv (snd (Mock_AGExists a s))"
  "mock_inv s \<Longrightarrow> mock_inv (snd (Mock_CreateAG v_AGConfig s))"
  "mock_inv s \<Longrightarrow> mock_inv (snd (Mock_GetAGStatus a s))"
  "mock_inv s \<Longrightarrow> mock_inv (snd (Mock_AddDatabaseToAG a b s))"
  "mock_inv s \<Longrightarrow> mock_inv (snd (Mock_RemoveDatabaseFromAG a b s))"
  "mock_inv s \<Longrightarrow> mock_inv (snd (Mock_JoinAG a b s))"
  "mock_inv s \<Longrightarrow> mock_inv (snd (Mock_GrantAGCreateDatabase a s))"
  "mock_inv s \<Longrightarrow> mock_inv (snd (Mock_AddListenerToAG a v_AGListenerConfig s))"
  "mock_inv s \<Longrightarrow> mock_inv (snd (Mock_FailoverAG a s))"
  "mock_inv s \<Longrightarrow> mock_inv (snd (Mock_ForceFailoverAG a s))"
  "mock_inv s \<Longrightarrow> mock_inv (snd (Mock_GetAGReplicaRole a b s))"
  "mock_inv s \<Longrightarrow> mock_inv (snd (Mock_SetAGRoleSecondary a s))"
  "mock_inv s \<Longrightarrow> mock_inv (snd (Mock_GetLastHardenedLSN a s))"
  "mock_inv s \<Longrightarrow> mock_inv (snd (Mock_DropAG a s))"
  "mock_inv s \<Longrightarrow> mock_inv (snd (Mock_CreateHADREndpoint i s))"
  "mock_inv s \<Longrightarrow> mock_inv (snd (Mock_HADREndpointExists s))"
  by ((unfold Mock_method_defs Mock_Close_def Mock_Ping_def)?,
      auto intro!: mock_inv_rules dest: mock_inv_facts intro: distinct_filter simp: Let_def split: option.splits if_splits)+

lemma inv_rest_calls:
  "mock_inv s \<Longrightarrow> mock_inv (snd (Mock_CreateMasterKey a s))"
  "mock_inv s \<Longrightarrow> mock_inv (snd (Mock_MasterKeyExists s))"
  "mock_inv s \<Longrightarrow> mock_inv (snd (Mock_CreateCertificate a b c s))"
  "mock_inv s \<Longrightarrow> mock_inv (snd (Mock_CertificateExists a s))"
  "mock_inv s \<Longrightarrow> mock_inv (snd (Mock_BackupCertificate a b c d s))"
  "mock_inv s \<Longrightarrow> mock_inv (snd (Mock_CreateCertificateFromBackup a b c d s))"
  "mock_inv s \<Longrightarrow> mock_inv (snd (Mock_GetCertificateBinary a s))"
  "mock_inv s \<Longrightarrow> mock_inv (snd (Mock_CreateCertificateFromBinary a v_natlist s))"
  "mock_inv s \<Longrightarrow> mock_inv (snd (Mock_CreateLoginFromCertificate a b s))"
  "mock_inv s \<Longrightarrow> mock_inv (snd (Mock_GrantEndpointConnect a b s))"
  "mock_inv s \<Longrightarrow> mock_inv (snd (Mock_CreateHADREndpointWithCert i a s))"
  "mock_inv s \<Longrightarrow> mock_inv (snd (Mock_BackupDatabase a b c b0 s))"
  "mock_inv s \<Longrightarrow> mock_inv (snd (Mock_RestoreDatabase a b s))"
  "mock_inv s \<Longrightarrow> mock_inv (snd (Mock_RestoreDatabasePIT a b c d s))"
  "mock_inv s \<Longrightarrow> mock_inv (snd (Mock_RestoreDatabaseWithMove a b v_stringtimesstringlist s))"
  "mock_inv s \<Longrightarrow> mock_inv (snd (Mock_GetServerVersion s))"
  "mock_inv s \<Longrightarrow> mock_inv (snd (Mock_GetServerEdition s))" "mock_inv s \<Longrightarrow> mock_inv (snd (Mock_Ping s))"
  "mock_inv s \<Longrightarrow> mock_inv (Mock_Close s)"
  by ((unfold Mock_method_defs Mock_Close_def Mock_Ping_def)?,
      auto intro!: mock_inv_rules dest: mock_inv_facts intro: distinct_filter simp: Let_def split: option.splits if_splits)+

lemma mock_call_inv: "mock_call s t \<Longrightarrow> mock_inv s \<Longrightarrow> mock_inv t"
  by (induction rule: mock_call.induct) (erule inv_databases_calls
      inv_logins_calls
      inv_users_calls
      inv_schemas_calls
      inv_permissions_calls
      inv_groups_calls
      inv_rest_calls)+

lemma mock_hook_inv: "mock_hook s t \<Longrightarrow> mock_inv s \<Longrightarrow> mock_inv t"
  by (induction rule: mock_hook.induct)
     (auto simp: ResetCalls_def SetUserOwnsObjects_def SetSchemaHasObjects_def SetDatabaseCollation_def
        SetMethodError_def mock_inv_def split: option.splits intro!: ok_upd dest: ok_get)

text \<open>
  C13. In every state the in-memory server can reach, by any interleaving of interface
  calls and test hooks starting from a new server, the invariant holds: entries are
  stored under their own names, role and permission lists have no duplicates, a
  permission is a grant or a denial, and no availability group has two primaries.
\<close>

theorem mock_reachable_inv: "mock_reachable s \<Longrightarrow> mock_inv s"
proof (induction rule: mock_reachable.induct)
  case reach_New
  show ?case by (rule mock_inv_New)
next
  case (reach_call s t)
  then show ?case by (blast intro: mock_call_inv)
next
  case (reach_hook s t)
  then show ?case by (blast intro: mock_hook_inv)
qed

definition ex_ag :: AGConfig where
  "ex_ag = (let rep = (\<lambda>n. \<lparr>rc_ServerName = n, rc_EndpointURL = [], rc_AvailabilityMode = [], rc_FailoverMode = [],
      rc_SeedingMode = [], rc_SecondaryRole = []\<rparr>)
    in \<lparr>ac_Name = ''ag'', ac_Replicas = [rep ''s1'', rep ''s2''], ac_Databases = [], ac_AutomatedBackupPreference = [],
      ac_DBFailover = False, ac_ClusterType = []\<rparr>)"

theorem mock_reachable_inv_witness:
  "mock_inv (snd (Mock_FailoverAG ''ag'' (snd (Mock_CreateAG ex_ag (snd (Mock_GrantPermission ''d'' ''p'' ''t'' ''u'' NewMockClient))))))"
  by (rule mock_reachable_inv, rule reach_call, rule reach_call, rule reach_call, rule reach_New)
     (rule call_GrantPermission call_CreateAG call_FailoverAG)+

end
