(* ===== verification/API_Types.thy ===== *)
theory API_Types
  imports Prelude
begin

text \<open>
  \<open>api/v1alpha1/*_types.go\<close>: the custom resources, field by field. Pointers are options,
  named string types (deletion policies, phases, modes) stay strings as in Go, so values
  outside the documented ones are representable. Object metadata is reduced to what the
  controllers read. A time is a number of nanoseconds.
\<close>

section \<open>Shared types\<close>

record ServerReference =
  Host :: string
  Port :: "int option"
  CredentialsSecret :: string \<comment> \<open>\<open>SecretReference.Name\<close>\<close>
  TLS :: "bool option"
  SQLServerRef :: "string option"

definition Finalizer :: string where
  "Finalizer = ''mssql.popul.io/finalizer''"

definition DeletionPolicyDelete :: string where
  "DeletionPolicyDelete = ''Delete''"

definition DeletionPolicyRetain :: string where
  "DeletionPolicyRetain = ''Retain''"

definition ConditionReady :: string where
  "ConditionReady = ''Ready''"

text \<open>\<open>metav1.ConditionStatus\<close> and \<open>metav1.Condition\<close>, without the transition time.\<close>

datatype ConditionStatus = ConditionTrue | ConditionFalse | ConditionUnknown

record Condition =
  c_Type :: string
  c_Status :: ConditionStatus
  c_Reason :: string
  c_Message :: string
  c_ObservedGeneration :: int

text \<open>A custom resource: metadata, specification and status.\<close>

record ('spec, 'status) CR =
  cr_Name :: string
  cr_Namespace :: string
  cr_Generation :: int
  cr_Finalizers :: "string list"
  cr_Deleting :: bool \<comment> \<open>\<open>DeletionTimestamp != nil\<close>\<close>
  cr_Annotations :: "string \<rightharpoonup> string"
  cr_Labels :: "string \<rightharpoonup> string"
  cr_CreationTimestamp :: int
  Spec :: 'spec
  Status :: 'status

record CommonStatus =
  Conditions :: "Condition list"
  ObservedGeneration :: int

section \<open>Database, Login, DatabaseUser, Schema, Permission\<close>

record DatabaseOption =
  do_Name :: string
  do_Value :: bool

record DatabaseSpec =
  db_Server :: ServerReference
  db_DatabaseName :: string
  db_Collation :: "string option"
  db_Owner :: "string option"
  db_RecoveryModel :: "string option"
  db_CompatibilityLevel :: "int option"
  db_Options :: "DatabaseOption list"
  db_DeletionPolicy :: "string option"

type_synonym DatabaseStatus = CommonStatus
type_synonym Database = "(DatabaseSpec, DatabaseStatus) CR"

record LoginSpec =
  l_Server :: ServerReference
  l_LoginName :: string
  l_PasswordSecret :: string
  l_DefaultDatabase :: "string option"
  l_ServerRoles :: "string list"
  l_DeletionPolicy :: "string option"

record LoginStatus = CommonStatus +
  PasswordSecretResourceVersion :: string

type_synonym Login = "(LoginSpec, LoginStatus) CR"

record DatabaseUserSpec =
  u_Server :: ServerReference
  u_DatabaseName :: string
  u_UserName :: string
  u_LoginRef :: string
  u_DatabaseRoles :: "string list"

type_synonym DatabaseUserStatus = CommonStatus
type_synonym DatabaseUser = "(DatabaseUserSpec, DatabaseUserStatus) CR"

record SchemaSpec =
  sch_Server :: ServerReference
  sch_DatabaseName :: string
  sch_SchemaName :: string
  sch_Owner :: "string option"
  sch_DeletionPolicy :: "string option"

type_synonym SchemaStatus = CommonStatus
type_synonym Schema = "(SchemaSpec, SchemaStatus) CR"

record PermissionEntry =
  pe_Permission :: string
  pe_On :: string

record PermissionSpec =
  p_Server :: ServerReference
  p_DatabaseName :: string
  p_UserName :: string
  p_Grants :: "PermissionEntry list"
  p_Denies :: "PermissionEntry list"

type_synonym PermissionStatus = CommonStatus
type_synonym Permission = "(PermissionSpec, PermissionStatus) CR"

section \<open>Backup, Restore, ScheduledBackup\<close>

record BackupSpec =
  b_Server :: ServerReference
  b_DatabaseName :: string
  b_Type :: string
  b_Destination :: string
  b_Compression :: "bool option"

text \<open>The status of the one-shot resources (Backup, Restore, AGFailover).\<close>

record OneShotStatus = CommonStatus +
  Phase :: string
  StartTime :: "int option"
  CompletionTime :: "int option"

type_synonym BackupStatus = OneShotStatus
type_synonym Backup = "(BackupSpec, BackupStatus) CR"

record FileMapping =
  LogicalName :: string
  PhysicalPath :: string

record RestoreSpec =
  r_Server :: ServerReference
  r_DatabaseName :: string
  r_Source :: string
  r_StopAt :: "string option"
  r_LogSource :: "string option"
  r_WithMove :: "FileMapping list"

type_synonym RestoreStatus = OneShotStatus
type_synonym Restore = "(RestoreSpec, RestoreStatus) CR"

record RetentionPolicy =
  MaxCount :: "int option"
  MaxAge :: "string option"

record ScheduledBackupSpec =
  sb_Server :: ServerReference
  sb_DatabaseName :: string
  sb_Schedule :: string
  sb_Type :: string
  sb_Compression :: "bool option"
  sb_DestinationTemplate :: string
  sb_Retention :: "RetentionPolicy option"
  sb_Suspend :: "bool option"

record ScheduledBackupHistory =
  h_BackupName :: string
  h_StartTime :: "int option"
  h_CompletionTime :: "int option"
  h_Phase :: string
  h_Destination :: string

record ScheduledBackupStatus = CommonStatus +
  LastScheduleTime :: "int option"
  NextScheduleTime :: "int option"
  LastSuccessfulBackup :: string
  ActiveBackup :: string
  History :: "ScheduledBackupHistory list"
  TotalBackups :: int
  SuccessfulBackups :: int
  FailedBackups :: int

type_synonym ScheduledBackup = "(ScheduledBackupSpec, ScheduledBackupStatus) CR"

section \<open>AvailabilityGroup, AGFailover\<close>

record AGReplicaSpec =
  rep_ServerName :: string
  rep_EndpointURL :: string
  rep_AvailabilityMode :: string
  rep_FailoverMode :: string
  rep_SeedingMode :: string
  rep_SecondaryRole :: string
  rep_Server :: ServerReference

record AGListenerIP =
  ip_IP :: string
  ip_SubnetMask :: string

record AGListenerSpec =
  li_Name :: string
  li_Port :: "int option"
  li_IPAddresses :: "AGListenerIP list"

record AvailabilityGroupSpec =
  ag_AGName :: string
  ag_Replicas :: "AGReplicaSpec list"
  ag_Databases :: "string list" \<comment> \<open>the names of the \<open>AGDatabaseSpec\<close>s\<close>
  ag_Listener :: "AGListenerSpec option"
  ag_AutomatedBackupPreference :: "string option"
  ag_DBFailover :: "bool option"
  ag_ClusterType :: "string option"
  ag_AutoFailover :: "bool option"
  ag_HealthCheckInterval :: "string option"
  ag_FailoverCooldown :: "string option"

record AGReplicaStatus =
  ars_ServerName :: string
  ars_Role :: string
  ars_SynchronizationState :: string
  ars_Connected :: bool

record AGDatabaseStatus =
  ads_Name :: string
  ads_SynchronizationState :: string
  ads_Joined :: bool

record AvailabilityGroupStatus = CommonStatus +
  PrimaryReplica :: string
  st_Replicas :: "AGReplicaStatus list"
  st_Databases :: "AGDatabaseStatus list"
  LastAutoFailoverTime :: "int option"
  AutoFailoverCount :: int
  LastFencingTime :: "int option"
  FencingCount :: int
  ConsecutiveFencingCount :: int
  LastFencedReplica :: string

type_synonym AvailabilityGroup = "(AvailabilityGroupSpec, AvailabilityGroupStatus) CR"

record AGFailoverSpec =
  fo_AGName :: string
  fo_TargetReplica :: string
  fo_Server :: ServerReference
  fo_Force :: "bool option"

record AGFailoverStatus = OneShotStatus +
  PreviousPrimary :: string
  NewPrimary :: string

type_synonym AGFailover = "(AGFailoverSpec, AGFailoverStatus) CR"

section \<open>SQLServer\<close>

text \<open>
  The pod settings that are only compared and passed on (tolerations, affinity, spread constraints, and
  of the resources all but the memory limit, which is in bytes) are kept in serialised form; the node
  selector is the list of its entries in key order.
\<close>

record CertManagerIssuerRef =
  iss_Name :: string
  iss_Kind :: "string option"
  iss_Group :: "string option"

record CertificateSpec =
  cs_Mode :: "string option"
  cs_IssuerRef :: "CertManagerIssuerRef option"
  cs_Duration :: "string option"
  cs_RenewBefore :: "string option"

record ManagedAGSpec =
  mag_AGName :: "string option"
  mag_AvailabilityMode :: "string option"
  mag_AutoFailover :: "bool option"
  mag_HealthCheckInterval :: "string option"
  mag_FailoverCooldown :: "string option"
  mag_Databases :: "string list"

record ResourceRequirements =
  res_MemoryLimit :: "int option"
  res_Other :: string

record InstanceSpec =
  inst_Image :: "string option"
  inst_SAPasswordSecret :: string
  inst_AcceptEULA :: bool
  inst_Edition :: "string option"
  inst_Replicas :: "int option"
  inst_StorageSize :: "string option"
  inst_StorageClassName :: "string option"
  inst_Resources :: "ResourceRequirements option"
  inst_ServiceType :: "string option"
  inst_NodeSelector :: "(string \<times> string) list"
  inst_Tolerations :: "string list"
  inst_Affinity :: "string option"
  inst_TopologySpreadConstraints :: "string list"
  inst_Config :: "string option"
  inst_Certificates :: "CertificateSpec option"
  inst_AvailabilityGroup :: "ManagedAGSpec option"

record AzureADAuth =
  az_ClientID :: string
  az_TenantID :: string
  az_ClientSecretRef :: "(string \<times> string option) option"

record SQLServerSpec =
  srv_Host :: string
  srv_Port :: "int option"
  srv_AuthMethod :: string
  srv_CredentialsSecret :: "(string \<times> string option) option" \<comment> \<open>name and namespace\<close>
  srv_AzureAD :: "AzureADAuth option"
  srv_ManagedIdentity :: "string option option" \<comment> \<open>its client id\<close>
  srv_TLS :: "bool option"
  srv_MaxConnections :: "int option"
  srv_ConnectionTimeout :: "int option"
  srv_Instance :: "InstanceSpec option"

record SQLServerStatus = CommonStatus +
  srv_st_ServerVersion :: string
  srv_st_Edition :: string
  srv_st_LastConnectedTime :: "int option"
  srv_st_Host :: string
  srv_st_ReadyReplicas :: "int option"
  srv_st_PrimaryReplica :: string
  srv_st_CertificatesReady :: "bool option"

type_synonym SQLServer = "(SQLServerSpec, SQLServerStatus) CR"

section \<open>Reasons of status conditions and events\<close>

definition ReasonReady :: string where "ReasonReady = ''Ready''"
definition ReasonConnectionFailed :: string where "ReasonConnectionFailed = ''ConnectionFailed''"
definition ReasonSecretNotFound :: string where "ReasonSecretNotFound = ''SecretNotFound''"
definition ReasonInvalidCredentialsSecret :: string where "ReasonInvalidCredentialsSecret = ''InvalidCredentialsSecret''"
definition ReasonCollationChangeNotSupported :: string where "ReasonCollationChangeNotSupported = ''CollationChangeNotSupported''"
definition ReasonLoginInUse :: string where "ReasonLoginInUse = ''LoginInUse''"
definition ReasonLoginRefNotFound :: string where "ReasonLoginRefNotFound = ''LoginRefNotFound''"
definition ReasonUserOwnsObjects :: string where "ReasonUserOwnsObjects = ''UserOwnsObjects''"
definition ReasonSchemaNotEmpty :: string where "ReasonSchemaNotEmpty = ''SchemaNotEmpty''"
definition ReasonSplitBrainDetected :: string where "ReasonSplitBrainDetected = ''SplitBrainDetected''"
definition ReasonFencingExecuted :: string where "ReasonFencingExecuted = ''FencingExecuted''"
definition ReasonHardFencingExecuted :: string where "ReasonHardFencingExecuted = ''HardFencingExecuted''"
definition ReasonFencingFailed :: string where "ReasonFencingFailed = ''FencingFailed''"
definition ReasonFencingExhausted :: string where "ReasonFencingExhausted = ''FencingExhausted''"
definition ReasonPrimaryChangedExternally :: string where "ReasonPrimaryChangedExternally = ''PrimaryChangedExternally''"

lemmas Reason_defs =
  ReasonReady_def ReasonConnectionFailed_def ReasonSecretNotFound_def
  ReasonInvalidCredentialsSecret_def ReasonCollationChangeNotSupported_def ReasonLoginInUse_def
  ReasonLoginRefNotFound_def ReasonUserOwnsObjects_def ReasonSchemaNotEmpty_def
  ReasonSplitBrainDetected_def ReasonFencingExecuted_def ReasonHardFencingExecuted_def
  ReasonFencingFailed_def ReasonFencingExhausted_def ReasonPrimaryChangedExternally_def

end
