(* ===== verification/Helpers.thy ===== *)
theory Helpers
  imports API_Types SQL_Interface
begin

text \<open>
  \<open>internal/controller/helpers.go\<close> and what every reconciler is made of: the Kubernetes API
  client and library functions (external code, parameters of the model), the world a
  reconciler acts on, credentials and server references, requeueing, and the watch
  mappings from a Secret to the resources that use it.
\<close>

section \<open>External code\<close>

record Secret =
  Data :: "string \<rightharpoonup> string"
  ResourceVersion :: string

text \<open>
  The parts of the Kubernetes client libraries the controllers use whatever resource they
  reconcile: reads of Secrets and SQLServers by namespace and name,
  \<open>meta.SetStatusCondition\<close> and the \<open>controllerutil\<close> finalizer functions.
\<close>

record 'k KubeClient =
  GetSecret :: "string \<Rightarrow> string \<Rightarrow> (Secret, 'k) op"
  GetSQLServer :: "string \<Rightarrow> string \<Rightarrow> (SQLServer, 'k) op"
  SetStatusCondition :: "Condition list \<Rightarrow> Condition \<Rightarrow> Condition list"
  ContainsFinalizer :: "string list \<Rightarrow> string \<Rightarrow> bool"
  AddFinalizer :: "string list \<Rightarrow> string \<Rightarrow> string list"
  RemoveFinalizer :: "string list \<Rightarrow> string \<Rightarrow> string list"

text \<open>
  The API server as seen by the controller of one kind of resource. \<open>Update\<close> and
  \<open>Status().Patch\<close> write the object and give back what the server stored; the patch is
  computed from a base object (\<open>client.MergeFrom\<close>) and the changed one.
\<close>

record ('cr, 'k) CRClient =
  GetCR :: "string \<Rightarrow> string \<Rightarrow> ('cr, 'k) op"
  UpdateCR :: "'cr \<Rightarrow> ('cr, 'k) op"
  PatchStatus :: "'cr \<Rightarrow> 'cr \<Rightarrow> ('cr, 'k) op"

text \<open>
  The fields of a reconciler. \<open>Int63n\<close> is \<open>math/rand\<close>'s generator, \<open>range_order\<close> the order
  in which \<open>range\<close> visits the keys of a map (unspecified in Go).
\<close>

record ('cr, 'k, 'c) Reconciler =
  kclient :: "'k KubeClient"
  crs :: "('cr, 'k) CRClient"
  SQLClientFactory :: "'c ClientFactory"
  Int63n :: "int \<Rightarrow> int"
  range_order :: "string list \<Rightarrow> string list"

text \<open>What is assumed of the external functions, where a theorem needs it.\<close>

definition finalizer_laws :: "'k KubeClient \<Rightarrow> bool" where
  "finalizer_laws K \<longleftrightarrow>
     (\<forall>fs f g. ContainsFinalizer K (AddFinalizer K fs f) g = (g = f \<or> ContainsFinalizer K fs g)) \<and>
     (\<forall>fs f g. ContainsFinalizer K (RemoveFinalizer K fs f) g = (g \<noteq> f \<and> ContainsFinalizer K fs g))"

definition FindStatusCondition :: "Condition list \<Rightarrow> string \<Rightarrow> Condition option" where
  "FindStatusCondition cs t = find (\<lambda>c. c_Type c = t) cs"

definition condition_laws :: "'k KubeClient \<Rightarrow> bool" where
  "condition_laws K \<longleftrightarrow>
     (\<forall>cs c t. FindStatusCondition (SetStatusCondition K cs c) t =
        (if t = c_Type c then Some c else FindStatusCondition cs t))"

definition range_laws :: "(string list \<Rightarrow> string list) \<Rightarrow> bool" where
  "range_laws r \<longleftrightarrow> (\<forall>ks. set (r ks) = set ks \<and> distinct (r ks))"

definition rand_laws :: "(int \<Rightarrow> int) \<Rightarrow> bool" where
  "rand_laws r \<longleftrightarrow> (\<forall>n>0. 0 \<le> r n \<and> r n < n)"

section \<open>The world of a reconciler\<close>

text \<open>
  Events recorded by \<open>Recorder.Event\<close>. Log lines and metrics have no effect on the
  behaviour and are left out.
\<close>

record Event =
  ev_Type :: string
  ev_Reason :: string
  ev_Message :: string

record ('k, 'c) world =
  kube :: 'k
  sql :: 'c
  events :: "Event list"

definition on_kube :: "('a, 'k) op \<Rightarrow> ('a, ('k, 'c) world) op" where
  "on_kube m w = (case m (kube w) of (r, k) \<Rightarrow> (r, w\<lparr>kube := k\<rparr>))"

definition on_sql :: "('a, 'c) op \<Rightarrow> ('a, ('k, 'c) world) op" where
  "on_sql m w = (case m (sql w) of (r, c) \<Rightarrow> (r, w\<lparr>sql := c\<rparr>))"

definition record_event :: "string \<Rightarrow> string \<Rightarrow> string \<Rightarrow> ('k, 'c) world \<Rightarrow> ('k, 'c) world" where
  "record_event ty reason msg w =
     w\<lparr>events := events w @ [\<lparr>ev_Type = ty, ev_Reason = reason, ev_Message = msg\<rparr>]\<rparr>"

abbreviation Normal :: "string \<Rightarrow> string \<Rightarrow> ('k, 'c) world \<Rightarrow> ('k, 'c) world" where
  "Normal \<equiv> record_event ''Normal''"

abbreviation Warning :: "string \<Rightarrow> string \<Rightarrow> ('k, 'c) world \<Rightarrow> ('k, 'c) world" where
  "Warning \<equiv> record_event ''Warning''"

lemma on_kube_eq [simp]: "m (kube w) = (r, k) \<Longrightarrow> on_kube m w = (r, w\<lparr>kube := k\<rparr>)"
  by (simp add: on_kube_def)

lemma on_sql_eq [simp]: "m (sql w) = (r, c) \<Longrightarrow> on_sql m w = (r, w\<lparr>sql := c\<rparr>)"
  by (simp add: on_sql_def)

lemma record_event_simps [simp]:
  "kube (record_event t r m w) = kube w" "sql (record_event t r m w) = sql w"
  "events (record_event t r m w) = events w @ [\<lparr>ev_Type = t, ev_Reason = r, ev_Message = m\<rparr>]"
  by (simp_all add: record_event_def)

lemma on_kube_frame [frame_simps]:
  "sql (snd (on_kube m w)) = sql w" "events (snd (on_kube m w)) = events w"
  by (simp_all add: on_kube_def split: prod.splits)

lemma on_sql_frame [frame_simps]:
  "kube (snd (on_sql m w)) = kube w" "events (snd (on_sql m w)) = events w"
  by (simp_all add: on_sql_def split: prod.splits)

section \<open>Requeueing\<close>

datatype Result = Result (RequeueAfter: int)

definition second :: int where
  "second = 1000000000"

definition sqlOperationTimeout :: int where
  "sqlOperationTimeout = 30 * second"

definition requeueInterval :: int where
  "requeueInterval = 30 * second"

text \<open>
  \<open>rand.Int63n(n)\<close> panics for \<open>n \<le> 0\<close>: \<open>None\<close>. The arithmetic is that of \<open>int64\<close>.
\<close>

definition requeueWithJitter :: "(int \<Rightarrow> int) \<Rightarrow> int \<Rightarrow> int option" where
  "requeueWithJitter rnd base =
     (let n = go_div (wrap64 (base * 2)) 5 in
      if n \<le> 0 then None
      else (let jitter = wrap64 (rnd n - go_div base 5) in Some (wrap64 (base + jitter))))"

text \<open>
  \<open>return ctrl.Result\{RequeueAfter: requeueWithJitter(base)\}, nil\<close>; the manager turns a panic
  of a reconciler into an error of that reconciliation.
\<close>

definition panic_error :: go_error where
  "panic_error = Errorf ''panic: invalid argument to Int63n''"

definition requeue_jitter :: "(int \<Rightarrow> int) \<Rightarrow> int \<Rightarrow> (Result, 's) op" where
  "requeue_jitter rnd base =
     (case requeueWithJitter rnd base of None \<Rightarrow> fail panic_error | Some d \<Rightarrow> ret (Result d))"

section \<open>Credentials and connections\<close>

definition squote :: string where
  "squote = [CHR 0x27]"

definition missing_key :: "string \<Rightarrow> string \<Rightarrow> go_error" where
  "missing_key secretName key =
     Errorf (''secret '' @ go_quote secretName @ '' missing '' @ squote @ key @ squote @ '' key'')"

definition getCredentialsFromSecret ::
  "'k KubeClient \<Rightarrow> string \<Rightarrow> string \<Rightarrow> (string \<times> string, 'k) op" where
  "getCredentialsFromSecret K ns secretName =
     attempt (GetSecret K ns secretName) fail (\<lambda>secret.
       case Data secret ''username'' of
         None \<Rightarrow> fail (missing_key secretName ''username'')
       | Some username \<Rightarrow>
           (case Data secret ''password'' of
              None \<Rightarrow> fail (missing_key secretName ''password'')
            | Some password \<Rightarrow> ret (username, password)))"

definition getCredentialsFromSAPasswordSecret ::
  "'k KubeClient \<Rightarrow> string \<Rightarrow> string \<Rightarrow> (string \<times> string, 'k) op" where
  "getCredentialsFromSAPasswordSecret K ns secretName =
     attempt (GetSecret K ns secretName) fail (\<lambda>secret.
       case Data secret ''MSSQL_SA_PASSWORD'' of
         None \<Rightarrow> fail (missing_key secretName ''MSSQL_SA_PASSWORD'')
       | Some password \<Rightarrow> ret (''sa'', password))"

definition connectToSQL ::
  "ServerReference \<Rightarrow> string \<Rightarrow> string \<Rightarrow> 'c ClientFactory \<Rightarrow> 'c SQLClient res" where
  "connectToSQL server username password factory =
     (let port = (case Port server of Some p \<Rightarrow> p | None \<Rightarrow> 1433);
          tlsEnabled = (case TLS server of Some b \<Rightarrow> b | None \<Rightarrow> False)
      in factory (Host server) port username password tlsEnabled)"

text \<open>\<open>toSet\<close>: a map with these keys; \<open>range\<close> visits each key once.\<close>

definition toSet :: "string list \<Rightarrow> string set" where
  "toSet items = set items"

definition resolve_error :: "string \<Rightarrow> go_error \<Rightarrow> go_error" where
  "resolve_error name e = Wrapf (''failed to resolve SQLServer '' @ go_quote name @ '': '') e"

text \<open>
  \<open>resolveServerReference\<close> returns the reference together with the error, and one caller
  uses the reference although there was an error.
\<close>

definition resolveServerReference ::
  "'k KubeClient \<Rightarrow> string \<Rightarrow> ServerReference \<Rightarrow> 'k \<Rightarrow> (ServerReference \<times> go_error option) \<times> 'k" where
  "resolveServerReference K ns ref k =
     (case SQLServerRef ref of
        None \<Rightarrow> ((ref, None), k)
      | Some name \<Rightarrow>
          (case GetSQLServer K ns name k of
             (Inl e, k') \<Rightarrow> ((ref, Some (resolve_error name e)), k')
           | (Inr srv, k') \<Rightarrow>
               (let host = (if srv_Host (Spec srv) = [] then srv_st_Host (Status srv) else srv_Host (Spec srv));
                    resolved = \<lparr>Host = host, Port = srv_Port (Spec srv),
                      CredentialsSecret =
                        (case srv_CredentialsSecret (Spec srv) of Some (n, _) \<Rightarrow> n | None \<Rightarrow> []),
                      TLS = srv_TLS (Spec srv), SQLServerRef = None\<rparr>
                in ((resolved, None), k'))))"

text \<open>\<open>serverRef, err := resolveServerReference(...)\<close> in a reconciler.\<close>

definition with_reference ::
  "'k KubeClient \<Rightarrow> string \<Rightarrow> ServerReference \<Rightarrow> (ServerReference \<Rightarrow> go_error option \<Rightarrow> ('a, ('k, 'c) world) op)
   \<Rightarrow> ('a, ('k, 'c) world) op" where
  "with_reference K ns ref body w =
     (case resolveServerReference K ns ref (kube w) of ((serverRef, err), k') \<Rightarrow> body serverRef err (w\<lparr>kube := k'\<rparr>))"

definition resolveServerCredentials ::
  "'k KubeClient \<Rightarrow> string \<Rightarrow> ServerReference \<Rightarrow> (string \<times> string, 'k) op" where
  "resolveServerCredentials K ns ref =
     (case SQLServerRef ref of
        None \<Rightarrow> getCredentialsFromSecret K ns (CredentialsSecret ref)
      | Some name \<Rightarrow>
          attempt (GetSQLServer K ns name) (\<lambda>e. fail (resolve_error name e)) (\<lambda>srv.
            case srv_CredentialsSecret (Spec srv) of
              Some (secretName, secretNS0) \<Rightarrow>
                (let secretNS = (case secretNS0 of Some n \<Rightarrow> n | None \<Rightarrow> ns)
                 in getCredentialsFromSecret K secretNS secretName)
            | None \<Rightarrow>
                (case srv_Instance (Spec srv) of
                   Some inst \<Rightarrow> getCredentialsFromSAPasswordSecret K ns (inst_SAPasswordSecret inst)
                 | None \<Rightarrow> fail (Errorf (''SQLServer '' @ go_quote name @
                     '' has no credentialsSecret and is not in managed mode'')))))"

section \<open>Checked calls\<close>

text \<open>
  \<open>x, err := m(); if err != nil { return ..., fmt.Errorf("msg: %w", err) }\<close>, and the UTF-8
  bytes of the dash in some messages.
\<close>

definition or_fail :: "string \<Rightarrow> ('a, 's) op \<Rightarrow> ('a \<Rightarrow> ('b, 's) op) \<Rightarrow> ('b, 's) op" where
  "or_fail msg m k = attempt m (\<lambda>e. fail (Wrapf (msg @ '': '') e)) k"

text \<open>\<open>for _, x := range xs { if err := f(x); err != nil { return err } }\<close>\<close>

fun for_each :: "('a \<Rightarrow> (unit, 's) op) \<Rightarrow> 'a list \<Rightarrow> (unit, 's) op" where
  "for_each f [] = ret ()"
| "for_each f (x # xs) = andthen (f x) (for_each f xs)"

text \<open>A loop that threads a value.\<close>

fun fold_op :: "('a \<Rightarrow> 'b \<Rightarrow> ('b, 's) op) \<Rightarrow> 'a list \<Rightarrow> 'b \<Rightarrow> ('b, 's) op" where
  "fold_op f [] b = ret b"
| "fold_op f (x # xs) b = attempt (f x b) fail (fold_op f xs)"

definition em_dash :: string where
  "em_dash = [CHR 0xE2, CHR 0x80, CHR 0x94]"

section \<open>Setting the Ready condition\<close>

text \<open>
  The code the controllers of Database, Login, DatabaseUser, Schema and Permission share
  word for word: set the condition and the observed generation, patch the status, and
  requeue when the object is ready.
\<close>

definition ready_condition :: "int \<Rightarrow> ConditionStatus \<Rightarrow> string \<Rightarrow> string \<Rightarrow> Condition" where
  "ready_condition gen st reason msg =
     \<lparr>c_Type = ConditionReady, c_Status = st, c_Reason = reason, c_Message = msg, c_ObservedGeneration = gen\<rparr>"

definition with_condition ::
  "'k KubeClient \<Rightarrow> ConditionStatus \<Rightarrow> string \<Rightarrow> string
   \<Rightarrow> ('spec, 'a CommonStatus_scheme) CR \<Rightarrow> ('spec, 'a CommonStatus_scheme) CR" where
  "with_condition K st reason msg cr =
     cr\<lparr>Status := (Status cr)\<lparr>Conditions :=
          SetStatusCondition K (Conditions (Status cr)) (ready_condition (cr_Generation cr) st reason msg)\<rparr>\<rparr>"

definition observed ::
  "('spec, 'a CommonStatus_scheme) CR \<Rightarrow> ('spec, 'a CommonStatus_scheme) CR" where
  "observed cr = cr\<lparr>Status := (Status cr)\<lparr>ObservedGeneration := cr_Generation cr\<rparr>\<rparr>"

definition setConditionAndReturn ::
  "(('spec, 'a CommonStatus_scheme) CR, 'k, 'c) Reconciler \<Rightarrow> ('spec, 'a CommonStatus_scheme) CR
   \<Rightarrow> ConditionStatus \<Rightarrow> string \<Rightarrow> string \<Rightarrow> (Result, ('k, 'c) world) op" where
  "setConditionAndReturn R cr st reason msg =
     attempt (on_kube (PatchStatus (crs R) cr (observed (with_condition (kclient R) st reason msg cr)))) fail (\<lambda>_.
       if st = ConditionTrue then requeue_jitter (Int63n R) requeueInterval else ret (Result 0))"

text \<open>
  Adding and removing the finalizer, each followed by \<open>Update\<close> (on success the variable
  holds the object the server returned).
\<close>

definition ensure_finalizer ::
  "(('spec, 'st) CR, 'k, 'c) Reconciler \<Rightarrow> ('spec, 'st) CR \<Rightarrow> (('spec, 'st) CR, ('k, 'c) world) op" where
  "ensure_finalizer R cr =
     (if ContainsFinalizer (kclient R) (cr_Finalizers cr) Finalizer then ret cr
      else on_kube (UpdateCR (crs R)
             (cr\<lparr>cr_Finalizers := AddFinalizer (kclient R) (cr_Finalizers cr) Finalizer\<rparr>)))"

definition remove_finalizer ::
  "(('spec, 'st) CR, 'k, 'c) Reconciler \<Rightarrow> ('spec, 'st) CR \<Rightarrow> (Result, ('k, 'c) world) op" where
  "remove_finalizer R cr =
     attempt (on_kube (UpdateCR (crs R)
        (cr\<lparr>cr_Finalizers := RemoveFinalizer (kclient R) (cr_Finalizers cr) Finalizer\<rparr>))) fail (\<lambda>_. ret (Result 0))"

text \<open>
  A deletion that has to wait: the condition is patched in, a failed patch is ignored, and the
  object is looked at again later. The observed generation is not set.
\<close>

definition block_deletion ::
  "(('spec, 'a CommonStatus_scheme) CR, 'k, 'c) Reconciler \<Rightarrow> ('spec, 'a CommonStatus_scheme) CR
   \<Rightarrow> string \<Rightarrow> string \<Rightarrow> (Result, ('k, 'c) world) op" where
  "block_deletion R cr reason msg =
     attempt (on_kube (PatchStatus (crs R) cr (with_condition (kclient R) ConditionFalse reason msg cr)))
       (\<lambda>_. requeue_jitter (Int63n R) requeueInterval) (\<lambda>_. requeue_jitter (Int63n R) requeueInterval)"

text \<open>
  The credentials of a resource that names its secret itself; a failure becomes a condition.
\<close>

definition credentials_or_condition ::
  "(('spec, 'a CommonStatus_scheme) CR, 'k, 'c) Reconciler \<Rightarrow> ('spec, 'a CommonStatus_scheme) CR \<Rightarrow> string
   \<Rightarrow> (string \<times> string \<Rightarrow> (Result, ('k, 'c) world) op) \<Rightarrow> (Result, ('k, 'c) world) op" where
  "credentials_or_condition R cr secretName k =
     attempt (on_kube (getCredentialsFromSecret (kclient R) (cr_Namespace cr) secretName)) (\<lambda>e.
       if IsNotFound e then
         setConditionAndReturn R cr ConditionFalse ReasonSecretNotFound (''Secret '' @ go_quote secretName @ '' not found'')
       else setConditionAndReturn R cr ConditionFalse ReasonInvalidCredentialsSecret (Error e)) k"

text \<open>\<open>_ = r.Status().Patch(...)\<close>: a failed patch is ignored, the variable keeps the change.\<close>

definition patch_ignored ::
  "(('spec, 'st) CR, 'k, 'c) Reconciler \<Rightarrow> ('spec, 'st) CR \<Rightarrow> ('spec, 'st) CR \<Rightarrow> (('spec, 'st) CR, ('k, 'c) world) op" where
  "patch_ignored R base cr = attempt (on_kube (PatchStatus (crs R) base cr)) (\<lambda>_. ret cr) ret"

text \<open>Fetching the object: a missing one ends the reconciliation without an error.\<close>

definition fetch ::
  "('cr, 'k, 'c) Reconciler \<Rightarrow> string \<Rightarrow> string \<Rightarrow> ('cr \<Rightarrow> (Result, ('k, 'c) world) op)
   \<Rightarrow> (Result, ('k, 'c) world) op" where
  "fetch R ns name k =
     attempt (on_kube (GetCR (crs R) ns name)) (\<lambda>e. if IsNotFound e then ret (Result 0) else fail e) k"

text \<open>Connecting, with the error the controllers record and return.\<close>

definition connect_or_fail ::
  "('cr, 'k, 'c) Reconciler \<Rightarrow> string \<Rightarrow> ServerReference \<Rightarrow> string \<Rightarrow> string
   \<Rightarrow> ('c SQLClient \<Rightarrow> (Result, ('k, 'c) world) op) \<Rightarrow> (Result, ('k, 'c) world) op" where
  "connect_or_fail R what server username password body =
     (case connectToSQL server username password (SQLClientFactory R) of
        Inl e \<Rightarrow> effect (Warning ReasonConnectionFailed (Error e))
                  (fail (Wrapf (''failed to connect to '' @ what @ '': '') e))
      | Inr cl \<Rightarrow> deferred (\<lambda>w. w\<lparr>sql := CloseClient cl (sql w)\<rparr>) (body cl))"

section \<open>From a Secret to the resources that use it\<close>

type_synonym Request = "string \<times> string" \<comment> \<open>namespace and name\<close>

definition request_of :: "('spec, 'st) CR \<Rightarrow> Request" where
  "request_of cr = (cr_Namespace cr, cr_Name cr)"

text \<open>
  The shared loop: list the resources in the secret's namespace, keep those that use it; a
  failed list gives no requests.
\<close>

definition requests_for :: "('spec, 'st) CR list res \<Rightarrow> (('spec, 'st) CR \<Rightarrow> bool) \<Rightarrow> Request list" where
  "requests_for listed uses =
     (case listed of Inl _ \<Rightarrow> [] | Inr items \<Rightarrow> List.map request_of (filter uses items))"

definition mapSecretToDatabases :: "Database list res \<Rightarrow> string \<Rightarrow> Request list" where
  "mapSecretToDatabases listed secret =
     requests_for listed (\<lambda>x. CredentialsSecret (db_Server (Spec x)) = secret)"

definition mapSecretToLogins :: "Login list res \<Rightarrow> string \<Rightarrow> Request list" where
  "mapSecretToLogins listed secret =
     requests_for listed (\<lambda>x. CredentialsSecret (l_Server (Spec x)) = secret \<or> l_PasswordSecret (Spec x) = secret)"

definition mapSecretToDatabaseUsers :: "DatabaseUser list res \<Rightarrow> string \<Rightarrow> Request list" where
  "mapSecretToDatabaseUsers listed secret =
     requests_for listed (\<lambda>x. CredentialsSecret (u_Server (Spec x)) = secret)"

definition mapSecretToSchemas :: "Schema list res \<Rightarrow> string \<Rightarrow> Request list" where
  "mapSecretToSchemas listed secret =
     requests_for listed (\<lambda>x. CredentialsSecret (sch_Server (Spec x)) = secret)"

definition mapSecretToPermissions :: "Permission list res \<Rightarrow> string \<Rightarrow> Request list" where
  "mapSecretToPermissions listed secret =
     requests_for listed (\<lambda>x. CredentialsSecret (p_Server (Spec x)) = secret)"

definition mapSecretToBackups :: "Backup list res \<Rightarrow> string \<Rightarrow> Request list" where
  "mapSecretToBackups listed secret =
     requests_for listed (\<lambda>x. CredentialsSecret (b_Server (Spec x)) = secret)"

definition mapSecretToRestores :: "Restore list res \<Rightarrow> string \<Rightarrow> Request list" where
  "mapSecretToRestores listed secret =
     requests_for listed (\<lambda>x. CredentialsSecret (r_Server (Spec x)) = secret)"

definition mapSecretToAGs :: "AvailabilityGroup list res \<Rightarrow> string \<Rightarrow> Request list" where
  "mapSecretToAGs listed secret =
     requests_for listed (\<lambda>x. \<exists>r \<in> set (ag_Replicas (Spec x)). CredentialsSecret (rep_Server r) = secret)"

end
