(* ===== verification/Call_Logic.thy ===== *)
theory Call_Logic
  imports Helpers
begin

text \<open>
  The calculus of the controllers' proofs: \<open>wp m s Q E\<close> says that the call \<open>m\<close> started in \<open>s\<close>
  ends in \<open>Q\<close> when it returns a value and in \<open>E\<close> when it returns an error. Its equations,
  collected in \<open>wp_simps\<close>, follow the code's own structure. Then the vocabulary of contracts:
  a call \<open>reads\<close> a value off a state, \<open>writes\<close> a new view of it; and what the Kubernetes API is
  assumed to do (\<open>api_laws\<close>).
\<close>

named_theorems wp_simps \<open>equations of \<open>wp\<close>\<close>

section \<open>Weakest preconditions of calls\<close>

definition wp :: "('a, 's) op \<Rightarrow> 's \<Rightarrow> ('a \<Rightarrow> 's \<Rightarrow> bool) \<Rightarrow> (go_error \<Rightarrow> 's \<Rightarrow> bool) \<Rightarrow> bool" where
  "wp m s Q E = (case m s of (Inr x, t) \<Rightarrow> Q x t | (Inl e, t) \<Rightarrow> E e t)"

abbreviation succeeds :: "('a, 's) op \<Rightarrow> 's \<Rightarrow> ('a \<Rightarrow> 's \<Rightarrow> bool) \<Rightarrow> bool" where
  "succeeds m s Q \<equiv> wp m s Q (\<lambda>_ _. False)"

lemma wp_ret [wp_simps]: "wp (ret x) s Q E = Q x s"
  by (simp add: wp_def)

lemma wp_fail [wp_simps]: "wp (fail e) s Q E = E e s"
  by (simp add: wp_def)

lemma wp_attempt [wp_simps]:
  "wp (attempt m h k) s Q E = wp m s (\<lambda>x t. wp (k x) t Q E) (\<lambda>e t. wp (h e) t Q E)"
  by (simp add: wp_def attempt_def split: prod.split sum.split)

lemma wp_effect [wp_simps]: "wp (effect f k) s Q E = wp k (f s) Q E"
  by (simp add: wp_def)

lemma wp_or_fail [wp_simps]:
  "wp (or_fail msg m k) s Q E = wp m s (\<lambda>x t. wp (k x) t Q E) (\<lambda>e. E (Wrapf (msg @ '': '') e))"
  by (simp add: or_fail_def wp_attempt wp_fail)

lemma wp_andthen [wp_simps]: "wp (andthen m k) s Q E = wp m s (\<lambda>_ t. wp k t Q E) E"
  by (simp add: andthen_def wp_attempt wp_fail)

lemma wp_deferred [wp_simps]: "wp (deferred f m) s Q E = wp m s (\<lambda>x t. Q x (f t)) (\<lambda>e t. E e (f t))"
  by (simp add: wp_def deferred_def split: prod.split sum.split)

lemma wp_on_kube [wp_simps]:
  "wp (on_kube m) w Q E = wp m (kube w) (\<lambda>x k. Q x (w\<lparr>kube := k\<rparr>)) (\<lambda>e k. E e (w\<lparr>kube := k\<rparr>))"
  by (simp add: wp_def on_kube_def split: prod.split sum.split)

lemma wp_on_sql [wp_simps]:
  "wp (on_sql m) w Q E = wp m (sql w) (\<lambda>x c. Q x (w\<lparr>sql := c\<rparr>)) (\<lambda>e c. E e (w\<lparr>sql := c\<rparr>))"
  by (simp add: wp_def on_sql_def split: prod.split sum.split)

lemma andthen_assoc: "andthen (andthen m n) k = andthen m (andthen n k)"
  by (rule ext) (simp add: andthen_def attempt_def split: prod.split sum.split)

lemma wp_if [wp_simps]: "wp (if b then m else n) s Q E = (if b then wp m s Q E else wp n s Q E)"
  by simp

lemma wp_option [wp_simps]:
  "wp (case x of None \<Rightarrow> m | Some y \<Rightarrow> n y) s Q E = (case x of None \<Rightarrow> wp m s Q E | Some y \<Rightarrow> wp (n y) s Q E)"
  by (simp split: option.split)

lemma wp_sum [wp_simps]:
  "wp (case x of Inl e \<Rightarrow> m e | Inr y \<Rightarrow> n y) s Q E = (case x of Inl e \<Rightarrow> wp (m e) s Q E | Inr y \<Rightarrow> wp (n y) s Q E)"
  by (simp split: sum.split)

lemma wp_mono:
  assumes "wp m s Q E" and "\<And>x t. Q x t \<Longrightarrow> Q' x t" and "\<And>e t. E e t \<Longrightarrow> E' e t"
  shows "wp m s Q' E'"
  using assms by (auto simp: wp_def split: prod.splits sum.splits)

lemma wp_conj: "wp m s Q E \<Longrightarrow> wp m s Q' E' \<Longrightarrow> wp m s (\<lambda>x t. Q x t \<and> Q' x t) (\<lambda>e t. E e t \<and> E' e t)"
  by (auto simp: wp_def split: prod.splits sum.splits)

text \<open>The calculus is sound and complete for running the call.\<close>

lemma wp_iff_run: "wp m s Q E \<longleftrightarrow> (\<forall>r t. m s = (r, t) \<longrightarrow> (case r of Inr x \<Rightarrow> Q x t | Inl e \<Rightarrow> E e t))"
  by (auto simp: wp_def split: prod.splits sum.splits)

lemma succeedsD:
  assumes "succeeds m s Q"
  obtains x t where "m s = (Inr x, t)" "Q x t"
  using assms by (auto simp: wp_def split: prod.splits sum.splits)

lemma succeeds_eq: "m s = (Inr x, t) \<Longrightarrow> wp m s Q E = Q x t"
  by (simp add: wp_def)

lemma fails_eq: "m s = (Inl e, t) \<Longrightarrow> wp m s Q E = E e t"
  by (simp add: wp_def)

text \<open>Every path, whatever it returns.\<close>

abbreviation always :: "('a, 's) op \<Rightarrow> 's \<Rightarrow> ('s \<Rightarrow> bool) \<Rightarrow> bool" where
  "always m s P \<equiv> wp m s (\<lambda>_. P) (\<lambda>_. P)"

lemma always_iff: "always m s P \<longleftrightarrow> P (snd (m s))"
  by (simp add: wp_def split: prod.splits sum.splits)

lemma always_True [simp]: "wp m s (\<lambda>_ _. True) (\<lambda>_ _. True)"
  by (simp add: wp_def split: prod.split sum.split)

lemma wp_unchanged: "snd (m s) = s \<Longrightarrow> (\<And>x. Q x s) \<Longrightarrow> (\<And>e. E e s) \<Longrightarrow> wp m s Q E"
  by (auto simp: wp_def split: prod.split sum.split)

text \<open>Loops, by what holds after each prefix of the list.\<close>

lemma wp_fold_op:
  assumes "\<And>x b w. x \<in> set xs \<Longrightarrow> S w \<Longrightarrow> wp (f x b) w (\<lambda>b' w'. b' = g x b \<and> S w') E"
    and "S w" and "\<And>w'. S w' \<Longrightarrow> Q (fold g xs b) w'"
  shows "wp (fold_op f xs b) w Q E"
  using assms
proof (induction xs arbitrary: b w)
  case Nil
  then show ?case by (simp add: wp_ret del: ret_apply)
next
  case (Cons x xs)
  show ?case
    unfolding fold_op.simps wp_attempt wp_fail
    by (rule wp_mono [OF Cons.prems(1)]) (use Cons in auto)
qed

lemma wp_for_each_inv:
  assumes "\<And>x w. x \<in> set xs \<Longrightarrow> I w \<Longrightarrow> wp (f x) w (\<lambda>_. I) E" and "I w" and "\<And>w'. I w' \<Longrightarrow> Q () w'"
  shows "wp (for_each f xs) w Q E"
  using assms
proof (induction xs arbitrary: w)
  case Nil
  then show ?case by (simp add: wp_ret del: ret_apply)
next
  case (Cons x xs)
  show ?case
    unfolding for_each.simps wp_andthen by (rule wp_mono [OF Cons.prems(1)]) (use Cons in auto)
qed

lemma wp_for_each_prefix:
  assumes "\<And>ys x zs w. xs = ys @ x # zs \<Longrightarrow> I ys w \<Longrightarrow> wp (f x) w (\<lambda>_. I (ys @ [x])) E" and "I [] w"
    and "\<And>w'. I xs w' \<Longrightarrow> Q () w'"
  shows "wp (for_each f xs) w Q E"
proof -
  have "wp (for_each f zs) w Q E" if "xs = ys @ zs" "I ys w" for ys zs w
    using that
  proof (induction zs arbitrary: ys w)
    case Nil
    then show ?case using assms(3) by (simp add: wp_ret del: ret_apply)
  next
    case (Cons x zs)
    show ?case
      unfolding for_each.simps wp_andthen
      by (rule wp_mono [OF assms(1) [OF Cons.prems]]) (auto intro: Cons.IH [of "ys @ [x]"] simp: Cons.prems(1))
  qed
  from this [of "[]" xs w] show ?thesis using assms(2) by simp
qed

lemma wp_fold_op_prefix:
  assumes "\<And>ys x zs b w. xs = ys @ x # zs \<Longrightarrow> I ys b w \<Longrightarrow> wp (f x b) w (I (ys @ [x])) E" and "I [] b w"
    and "\<And>b' w'. I xs b' w' \<Longrightarrow> Q b' w'"
  shows "wp (fold_op f xs b) w Q E"
proof -
  have "wp (fold_op f zs b) w Q E" if "xs = ys @ zs" "I ys b w" for ys zs b w
    using that
  proof (induction zs arbitrary: ys b w)
    case Nil
    then show ?case using assms(3) by (simp add: wp_ret del: ret_apply)
  next
    case (Cons x zs)
    show ?case
      unfolding fold_op.simps wp_attempt wp_fail
      by (rule wp_mono [OF assms(1) [OF Cons.prems]]) (auto intro: Cons.IH [of "ys @ [x]"] simp: Cons.prems(1))
  qed
  from this [of "[]" xs b w] show ?thesis using assms(2) by simp
qed

section \<open>Contracts\<close>

text \<open>
  For a component whose good states are \<open>ok\<close> and whose abstract content is \<open>view\<close>: a read
  returns a value and leaves the content, a write changes it to a given one. Neither fails.
\<close>

definition reads :: "('c \<Rightarrow> bool) \<Rightarrow> ('c \<Rightarrow> 'v) \<Rightarrow> ('a, 'c) op \<Rightarrow> 'c \<Rightarrow> 'a \<Rightarrow> bool" where
  "reads ok view m c x \<longleftrightarrow> (\<exists>c'. m c = (Inr x, c') \<and> ok c' \<and> view c' = view c)"

definition writes :: "('c \<Rightarrow> bool) \<Rightarrow> ('c \<Rightarrow> 'v) \<Rightarrow> (unit, 'c) op \<Rightarrow> 'c \<Rightarrow> 'v \<Rightarrow> bool" where
  "writes ok view m c v \<longleftrightarrow> (\<exists>c'. m c = (Inr (), c') \<and> ok c' \<and> view c' = v)"

lemma wp_reads:
  assumes "reads ok view m c x" and "\<And>c'. ok c' \<Longrightarrow> view c' = view c \<Longrightarrow> Q x c'"
  shows "wp m c Q E"
  using assms by (auto simp: reads_def wp_def)

lemma wp_writes:
  assumes "writes ok view m c v" and "\<And>c'. ok c' \<Longrightarrow> view c' = v \<Longrightarrow> Q () c'"
  shows "wp m c Q E"
  using assms by (auto simp: writes_def wp_def)

text \<open>
  A stage of a reconciliation over a server whose content maps names to entries: it takes
  the entry of \<open>n\<close> from \<open>v\<close> to \<open>v'\<close>, leaves every other entry and the API server, and when
  \<open>quiet\<close> records no event.
\<close>

definition advances ::
  "('c \<Rightarrow> bool) \<Rightarrow> ('c \<Rightarrow> 'i \<Rightarrow> 'v option) \<Rightarrow> bool \<Rightarrow> (unit, ('k, 'c) world) op \<Rightarrow> 'i \<Rightarrow> 'v \<Rightarrow> 'v \<Rightarrow> bool" where
  "advances ok view quiet m n v v' \<longleftrightarrow>
     (\<forall>w. ok (sql w) \<and> view (sql w) n = Some v \<longrightarrow>
        succeeds m w (\<lambda>_ w'. ok (sql w') \<and> kube w' = kube w \<and> view (sql w') = (view (sql w))(n \<mapsto> v')
          \<and> (quiet \<longrightarrow> events w' = events w)))"

lemma advances_ret [intro!]: "advances ok view quiet (ret ()) n v v"
  by (auto simp: advances_def wp_simps fun_upd_triv)

lemma advancesI:
  assumes "\<And>w. ok (sql w) \<Longrightarrow> view (sql w) n = Some v \<Longrightarrow>
    succeeds m w (\<lambda>_ w'. ok (sql w') \<and> kube w' = kube w \<and> view (sql w') = (view (sql w))(n \<mapsto> v')
      \<and> (quiet \<longrightarrow> events w' = events w))"
  shows "advances ok view quiet m n v v'"
  using assms by (simp add: advances_def)

lemma wp_advances:
  assumes "advances ok view quiet m n v v'" and "ok (sql w)" and "view (sql w) n = Some v"
    and "\<And>w'. ok (sql w') \<Longrightarrow> kube w' = kube w \<Longrightarrow> view (sql w') = (view (sql w))(n \<mapsto> v')
      \<Longrightarrow> (quiet \<longrightarrow> events w' = events w) \<Longrightarrow> Q () w'"
  shows "wp m w Q E"
proof -
  from assms(1-3) have "succeeds m w (\<lambda>_ w'. ok (sql w') \<and> kube w' = kube w
      \<and> view (sql w') = (view (sql w))(n \<mapsto> v') \<and> (quiet \<longrightarrow> events w' = events w))"
    by (simp add: advances_def)
  then show ?thesis by (rule wp_mono) (auto intro: assms(4))
qed

lemma advances_weaken:
  "advances ok view quiet m n v v' \<Longrightarrow> (quiet' \<Longrightarrow> quiet) \<Longrightarrow> advances ok view quiet' m n v v'"
  unfolding advances_def by (auto elim!: wp_mono)

lemma advances_andthen:
  fixes m :: "(unit, ('k, 'c) world) op"
  assumes "advances ok view quiet m n v v1" and "advances ok view quiet m' n v1 v2"
  shows "advances ok view quiet (andthen m m') n v v2"
proof (rule advancesI)
  fix w :: "('k, 'c) world"
  assume w: "ok (sql w)" "view (sql w) n = Some v"
  show "succeeds (andthen m m') w (\<lambda>_ w'. ok (sql w') \<and> kube w' = kube w
      \<and> view (sql w') = (view (sql w))(n \<mapsto> v2) \<and> (quiet \<longrightarrow> events w' = events w))"
    unfolding wp_andthen
    by (rule wp_advances [OF assms(1) w], rule wp_advances [OF assms(2)]) auto
qed

lemma advances_event:
  fixes m :: "(unit, ('k, 'c) world) op"
  assumes "advances ok view False m n v v'"
  shows "advances ok view False (effect (record_event ty reason msg) m) n v v'"
proof (rule advancesI)
  fix w :: "('k, 'c) world"
  assume w: "ok (sql w)" "view (sql w) n = Some v"
  show "succeeds (effect (record_event ty reason msg) m) w (\<lambda>_ w'. ok (sql w') \<and> kube w' = kube w
      \<and> view (sql w') = (view (sql w))(n \<mapsto> v') \<and> (False \<longrightarrow> events w' = events w))"
    unfolding wp_effect by (rule wp_advances [OF assms]) (use w in auto)
qed

lemma advances_write:
  fixes m :: "(unit, ('k, 'c) world) op"
  assumes "\<And>c. ok c \<Longrightarrow> view c n = Some v \<Longrightarrow> writes ok view put c ((view c)(n \<mapsto> v1))"
    and "advances ok view False m n v1 v2"
  shows "advances ok view False (or_fail e (on_sql put) (\<lambda>_. m)) n v v2"
proof (rule advancesI)
  fix w :: "('k, 'c) world"
  assume w: "ok (sql w)" "view (sql w) n = Some v"
  show "succeeds (or_fail e (on_sql put) (\<lambda>_. m)) w (\<lambda>_ w'. ok (sql w') \<and> kube w' = kube w
      \<and> view (sql w') = (view (sql w))(n \<mapsto> v2) \<and> (False \<longrightarrow> events w' = events w))"
    unfolding wp_or_fail wp_on_sql
    by (rule wp_writes [OF assms(1) [OF w]], rule wp_advances [OF assms(2)]) (use w in auto)
qed

text \<open>A loop of stages, each of which transforms the entry by \<open>g\<close>.\<close>

lemma advances_for_each:
  fixes f :: "'a \<Rightarrow> (unit, ('k, 'c) world) op"
  assumes "\<And>x v. x \<in> set xs \<Longrightarrow> advances ok view (q x) (f x) n v (g x v)"
  shows "advances ok view (\<forall>x \<in> set xs. q x) (for_each f xs) n v (fold g xs v)"
  using assms
proof (induction xs arbitrary: v)
  case Nil
  show ?case by (simp only: for_each.simps fold.simps id_apply) (rule advances_ret)
next
  case (Cons x xs)
  have rest: "advances ok view (\<forall>y \<in> set xs. q y) (for_each f xs) n (g x v) (fold g xs (g x v))"
    by (rule Cons.IH) (use Cons.prems in auto)
  show ?case
    unfolding for_each.simps fold.simps comp_apply
    by (rule advances_andthen; rule advances_weaken [OF Cons.prems] advances_weaken [OF rest]) auto
qed

lemma fold_points:
  "fold (\<lambda>x v. if P x then v(k x := c) else v) xs v y = (if \<exists>x \<in> set xs. P x \<and> k x = y then c else v y)"
  by (induction xs arbitrary: v) auto

text \<open>
  The code's pattern: read a setting; when it is not the wanted one, set it and go on with
  \<open>m\<close>; otherwise go on with \<open>m'\<close>.
\<close>

lemma advances_adjust:
  fixes m :: "(unit, ('k, 'c) world) op"
  assumes "\<And>c. ok c \<Longrightarrow> view c n = Some v \<Longrightarrow> reads ok view get c cur"
    and "\<And>c. ok c \<Longrightarrow> view c n = Some v \<Longrightarrow> writes ok view put c ((view c)(n \<mapsto> v1))"
    and "cur \<noteq> want \<Longrightarrow> \<not> quiet \<and> advances ok view False m n v1 v2"
    and "cur = want \<Longrightarrow> advances ok view quiet m' n v v2"
  shows "advances ok view quiet
    (or_fail e1 (on_sql get) (\<lambda>cur. if cur \<noteq> want then or_fail e2 (on_sql put) (\<lambda>_. m) else m')) n v v2"
proof (rule advancesI)
  fix w :: "('k, 'c) world"
  assume w: "ok (sql w)" "view (sql w) n = Some v"
  show "succeeds (or_fail e1 (on_sql get) (\<lambda>cur. if cur \<noteq> want then or_fail e2 (on_sql put) (\<lambda>_. m) else m')) w
      (\<lambda>_ w'. ok (sql w') \<and> kube w' = kube w \<and> view (sql w') = (view (sql w))(n \<mapsto> v2)
        \<and> (quiet \<longrightarrow> events w' = events w))" (is "wp _ _ ?Q _")
    unfolding wp_or_fail wp_on_sql wp_if
  proof (rule wp_reads [OF assms(1) [OF w]])
    fix c assume c: "ok c" "view c = view (sql w)"
    show "if cur \<noteq> want
        then wp put (sql (w\<lparr>sql := c\<rparr>)) (\<lambda>x c'. wp m (w\<lparr>sql := c, sql := c'\<rparr>) ?Q (\<lambda>_ _. False)) (\<lambda>_ _. False)
        else wp m' (w\<lparr>sql := c\<rparr>) ?Q (\<lambda>_ _. False)"
    proof (cases "cur = want")
      case True
      show ?thesis
        using wp_advances [OF assms(4) [OF True], of "w\<lparr>sql := c\<rparr>" ?Q] c w True by auto
    next
      case False
      have "wp put c (\<lambda>x c'. wp m (w\<lparr>sql := c, sql := c'\<rparr>) ?Q (\<lambda>_ _. False)) (\<lambda>_ _. False)"
        by (rule wp_writes [OF assms(2)], simp_all add: c w,
            rule wp_advances [OF conjunct2 [OF assms(3) [OF False]]])
           (use assms(3) [OF False] in auto)
      with False show ?thesis by simp
    qed
  qed
qed

section \<open>The Kubernetes API\<close>

text \<open>
  What the controllers rely on when the API server answers and nobody else writes: a read
  returns the stored object or a not-found error; \<open>Update\<close> stores the object, except that an
  object being deleted disappears with its last finalizer; \<open>Status().Patch\<close> of a stored object
  stores the new status. \<open>objs\<close>, \<open>secs\<close> and \<open>srvs\<close> read the server's state.
\<close>

definition stored :: "('spec, 'st) CR \<Rightarrow> ('spec, 'st) CR option" where
  "stored cr = (if cr_Deleting cr \<and> cr_Finalizers cr = [] then None else Some cr)"

definition answers :: "'a option \<Rightarrow> 'k \<Rightarrow> 'a res \<times> 'k \<Rightarrow> bool" where
  "answers x k r \<longleftrightarrow> snd r = k \<and> (case x of Some y \<Rightarrow> fst r = Inr y | None \<Rightarrow> (\<exists>e. fst r = Inl e \<and> IsNotFound e))"

definition accepts ::
  "('k \<Rightarrow> string \<times> string \<Rightarrow> ('spec, 'st) CR option) \<Rightarrow> ('k \<Rightarrow> string \<times> string \<Rightarrow> Secret option)
   \<Rightarrow> ('k \<Rightarrow> string \<times> string \<Rightarrow> SQLServer option) \<Rightarrow> ('spec, 'st) CR \<Rightarrow> 'k \<Rightarrow> ('spec, 'st) CR res \<times> 'k \<Rightarrow> bool" where
  "accepts objs secs srvs cr k r \<longleftrightarrow>
     fst r = Inr cr \<and> objs (snd r) = (objs k)(request_of cr := stored cr)
     \<and> secs (snd r) = secs k \<and> srvs (snd r) = srvs k"

definition api_laws ::
  "(('spec, 'st) CR, 'k, 'c) Reconciler \<Rightarrow> ('k \<Rightarrow> string \<times> string \<Rightarrow> ('spec, 'st) CR option)
   \<Rightarrow> ('k \<Rightarrow> string \<times> string \<Rightarrow> Secret option) \<Rightarrow> ('k \<Rightarrow> string \<times> string \<Rightarrow> SQLServer option) \<Rightarrow> bool" where
  "api_laws R objs secs srvs \<longleftrightarrow>
     (\<forall>k ns n. answers (objs k (ns, n)) k (GetCR (crs R) ns n k)) \<and>
     (\<forall>k ns n. answers (secs k (ns, n)) k (GetSecret (kclient R) ns n k)) \<and>
     (\<forall>k ns n. answers (srvs k (ns, n)) k (GetSQLServer (kclient R) ns n k)) \<and>
     (\<forall>k cr. objs k (request_of cr) \<noteq> None \<longrightarrow> accepts objs secs srvs cr k (UpdateCR (crs R) cr k)) \<and>
     (\<forall>k base st. objs k (request_of base) = Some base \<longrightarrow>
        accepts objs secs srvs (base\<lparr>Status := st\<rparr>) k (PatchStatus (crs R) base (base\<lparr>Status := st\<rparr>) k)) \<and>
     finalizer_laws (kclient R) \<and> condition_laws (kclient R) \<and> rand_laws (Int63n R) \<and> range_laws (range_order R)"

lemma request_of_updates [simp]:
  "request_of (cr\<lparr>Status := st\<rparr>) = request_of cr" "request_of (cr\<lparr>cr_Finalizers := fs\<rparr>) = request_of cr"
  by (simp_all add: request_of_def)

lemma request_of_more [simp]:
  "request_of (with_condition K st reason msg cr) = request_of cr" "request_of (observed cr) = request_of cr"
  by (simp_all add: with_condition_def observed_def)

lemma answersE:
  assumes "answers x k (m k)"
  shows "wp m k Q E = (case x of Some y \<Rightarrow> Q y k | None \<Rightarrow> (\<exists>e. m k = (Inl e, k) \<and> IsNotFound e \<and> E e k))"
  using assms by (cases "m k") (auto simp: answers_def wp_def split: option.splits)

lemma api_lawsD:
  assumes "api_laws R objs secs srvs"
  shows "answers (objs k (ns, n)) k (GetCR (crs R) ns n k)"
    "answers (secs k (ns, n)) k (GetSecret (kclient R) ns n k)"
    "answers (srvs k (ns, n)) k (GetSQLServer (kclient R) ns n k)"
    "objs k (request_of cr) \<noteq> None \<Longrightarrow> accepts objs secs srvs cr k (UpdateCR (crs R) cr k)"
    "objs k (request_of base) = Some base \<Longrightarrow>
       accepts objs secs srvs (base\<lparr>Status := st\<rparr>) k (PatchStatus (crs R) base (base\<lparr>Status := st\<rparr>) k)"
    "finalizer_laws (kclient R)" "condition_laws (kclient R)" "rand_laws (Int63n R)" "range_laws (range_order R)"
  using assms unfolding api_laws_def by blast+

lemma wp_GetCR:
  assumes "api_laws R objs secs srvs" and "objs k (ns, n) = Some cr"
  shows "wp (GetCR (crs R) ns n) k Q E = Q cr k"
  using answersE [where m = "GetCR (crs R) ns n", OF api_lawsD(1) [OF assms(1)]] assms(2) by simp

lemma wp_GetSecret:
  assumes "api_laws R objs secs srvs" and "secs k (ns, n) = Some s"
  shows "wp (GetSecret (kclient R) ns n) k Q E = Q s k"
  using answersE [where m = "GetSecret (kclient R) ns n", OF api_lawsD(2) [OF assms(1)]] assms(2) by simp

lemma wp_GetSQLServer:
  assumes "api_laws R objs secs srvs" and "srvs k (ns, n) = Some s"
  shows "wp (GetSQLServer (kclient R) ns n) k Q E = Q s k"
  using answersE [where m = "GetSQLServer (kclient R) ns n", OF api_lawsD(3) [OF assms(1)]] assms(2) by simp

lemma accepts_wp:
  assumes "accepts objs secs srvs cr k (m k)"
    and "\<And>k'. objs k' = (objs k)(request_of cr := stored cr) \<Longrightarrow> secs k' = secs k \<Longrightarrow> srvs k' = srvs k \<Longrightarrow> Q cr k'"
  shows "wp m k Q E"
  using assms by (cases "m k") (auto simp: accepts_def wp_def)

lemma wp_UpdateCR:
  assumes "api_laws R objs secs srvs" and "objs k (request_of cr) \<noteq> None"
    and "\<And>k'. objs k' = (objs k)(request_of cr := stored cr) \<Longrightarrow> secs k' = secs k \<Longrightarrow> srvs k' = srvs k \<Longrightarrow> Q cr k'"
  shows "wp (UpdateCR (crs R) cr) k Q E"
  by (rule accepts_wp [where m = "UpdateCR (crs R) cr", OF api_lawsD(4) [OF assms(1,2)]]) (rule assms(3))

lemma wp_PatchStatus:
  assumes "api_laws R objs secs srvs" and "objs k (request_of base) = Some base"
    and "\<And>k'. objs k' = (objs k)(request_of base := stored (base\<lparr>Status := st\<rparr>)) \<Longrightarrow> secs k' = secs k
      \<Longrightarrow> srvs k' = srvs k \<Longrightarrow> Q (base\<lparr>Status := st\<rparr>) k'"
  shows "wp (PatchStatus (crs R) base (base\<lparr>Status := st\<rparr>)) k Q E"
  by (rule accepts_wp [where m = "PatchStatus (crs R) base (base\<lparr>Status := st\<rparr>)",
        OF api_lawsD(5) [OF assms(1,2)]]) (simp add: assms(3))

section \<open>The shared steps of a reconciliation\<close>

lemma requeue_in_range:
  assumes "rand_laws rnd"
  shows "\<exists>d. requeueWithJitter rnd requeueInterval = Some d \<and> 24 * second \<le> d \<and> d < 36 * second"
proof -
  let ?n = "go_div (wrap64 (requeueInterval * 2)) 5"
  have n: "?n = 12 * second"
    by (simp add: requeueInterval_def second_def wrap64_id go_div_pos)
  from assms have r: "0 \<le> rnd (12 * second)" "rnd (12 * second) < 12 * second"
    by (simp_all add: rand_laws_def second_def)
  then show ?thesis
    unfolding requeueWithJitter_def Let_def n
    by (simp add: requeueInterval_def second_def go_div_pos wrap64_id)
qed

text \<open>The condition a reconciliation writes is found in the status it stores.\<close>

definition ready_status :: "('spec, 'a CommonStatus_scheme) CR \<Rightarrow> (ConditionStatus \<times> string) option" where
  "ready_status cr =
     map_option (\<lambda>c. (c_Status c, c_Reason c)) (FindStatusCondition (Conditions (Status cr)) ConditionReady)"

lemma ready_status_with_condition:
  "condition_laws K \<Longrightarrow> ready_status (observed (with_condition K st reason msg cr)) = Some (st, reason)"
  by (simp add: ready_status_def with_condition_def observed_def condition_laws_def ready_condition_def)

lemma observed_with_condition:
  "\<exists>st'. observed (with_condition K st reason msg cr) = cr\<lparr>Status := st'\<rparr>
     \<and> ObservedGeneration st' = cr_Generation cr"
  by (auto simp: observed_def with_condition_def)

text \<open>
  What a reconciliation that reached its end left in the API server: the object with the
  condition set for its generation, and nothing else changed.
\<close>

definition reported ::
  "('k \<Rightarrow> string \<times> string \<Rightarrow> ('spec, 'a CommonStatus_scheme) CR option) \<Rightarrow> ('k \<Rightarrow> string \<times> string \<Rightarrow> Secret option)
   \<Rightarrow> ('k \<Rightarrow> string \<times> string \<Rightarrow> SQLServer option) \<Rightarrow> ('spec, 'a CommonStatus_scheme) CR \<Rightarrow> ConditionStatus \<Rightarrow> string
   \<Rightarrow> 'k \<Rightarrow> 'k \<Rightarrow> bool" where
  "reported objs secs srvs cr st reason k k' \<longleftrightarrow>
     (\<exists>st'. objs k' = (objs k)(request_of cr \<mapsto> cr\<lparr>Status := st'\<rparr>)
        \<and> ready_status (cr\<lparr>Status := st'\<rparr>) = Some (st, reason) \<and> ObservedGeneration st' = cr_Generation cr
        \<and> secs k' = secs k \<and> srvs k' = srvs k)"

lemma stored_Some: "\<not> cr_Deleting cr \<Longrightarrow> stored cr = Some cr"
  by (simp add: stored_def)

lemma wp_setConditionAndReturn:
  assumes laws: "api_laws R objs secs srvs" and base: "objs (kube w) (request_of cr) = Some cr"
    and live: "\<not> cr_Deleting cr"
    and post: "\<And>k' d. reported objs secs srvs cr st reason (kube w) k' \<Longrightarrow> (st = ConditionTrue \<longrightarrow> 24 * second \<le> d \<and> d < 36 * second)
      \<Longrightarrow> (st \<noteq> ConditionTrue \<longrightarrow> d = 0) \<Longrightarrow> Q (Result d) (w\<lparr>kube := k'\<rparr>)"
  shows "wp (setConditionAndReturn R cr st reason msg) w Q E"
proof -
  let ?cr = "observed (with_condition (kclient R) st reason msg cr)"
  note cond = api_lawsD(7) [OF laws] and rnd = api_lawsD(8) [OF laws]
  obtain st' where cr': "?cr = cr\<lparr>Status := st'\<rparr>" and gen: "ObservedGeneration st' = cr_Generation cr"
    using observed_with_condition by blast
  have rep: "reported objs secs srvs cr st reason (kube w) k'"
    if "objs k' = (objs (kube w))(request_of cr := stored (cr\<lparr>Status := st'\<rparr>))"
      "secs k' = secs (kube w)" "srvs k' = srvs (kube w)" for k'
    unfolding reported_def
    using that live gen ready_status_with_condition [OF cond, of st reason msg cr]
    by (intro exI [of _ st']) (simp add: stored_Some cr')
  show ?thesis
    unfolding setConditionAndReturn_def cr' wp_attempt wp_on_kube
  proof (rule wp_PatchStatus [OF laws base])
    fix k'
    assume "objs k' = (objs (kube w))(request_of cr := stored (cr\<lparr>Status := st'\<rparr>))"
      "secs k' = secs (kube w)" "srvs k' = srvs (kube w)"
    note rep [OF this]
    then show "wp (if st = ConditionTrue then requeue_jitter (Int63n R) requeueInterval else ret (Result 0))
        (w\<lparr>kube := k'\<rparr>) Q E"
      using requeue_in_range [OF rnd] by (auto simp: wp_simps requeue_jitter_def intro!: post)
  qed
qed

text \<open>Adding the finalizer, whether or not it is there already.\<close>

definition finalized :: "'k KubeClient \<Rightarrow> ('spec, 'st) CR \<Rightarrow> ('spec, 'st) CR" where
  "finalized K cr =
     (if ContainsFinalizer K (cr_Finalizers cr) Finalizer then cr
      else cr\<lparr>cr_Finalizers := AddFinalizer K (cr_Finalizers cr) Finalizer\<rparr>)"

lemma finalized_simps [simp]:
  "request_of (finalized K cr) = request_of cr" "Spec (finalized K cr) = Spec cr"
  "Status (finalized K cr) = Status cr" "cr_Deleting (finalized K cr) = cr_Deleting cr"
  "cr_Namespace (finalized K cr) = cr_Namespace cr" "cr_Generation (finalized K cr) = cr_Generation cr"
  by (simp_all add: finalized_def)

lemma finalized_has:
  "finalizer_laws K \<Longrightarrow> ContainsFinalizer K (cr_Finalizers (finalized K cr)) Finalizer"
  by (simp add: finalized_def finalizer_laws_def)

lemma wp_ensure_finalizer:
  assumes laws: "api_laws R objs secs srvs" and base: "objs (kube w) (request_of cr) = Some cr"
    and live: "\<not> cr_Deleting cr"
    and post: "\<And>k'. objs k' = (objs (kube w))(request_of cr \<mapsto> finalized (kclient R) cr) \<Longrightarrow>
      secs k' = secs (kube w) \<Longrightarrow> srvs k' = srvs (kube w) \<Longrightarrow> Q (finalized (kclient R) cr) (w\<lparr>kube := k'\<rparr>)"
  shows "wp (ensure_finalizer R cr) w Q E"
proof (cases "ContainsFinalizer (kclient R) (cr_Finalizers cr) Finalizer")
  case True
  then have "wp (ensure_finalizer R cr) w Q E = Q (finalized (kclient R) cr) (w\<lparr>kube := kube w\<rparr>)"
    by (simp add: ensure_finalizer_def wp_ret finalized_def)
  moreover have "objs (kube w) = (objs (kube w))(request_of cr \<mapsto> finalized (kclient R) cr)"
    using base True by (auto simp: finalized_def fun_upd_triv)
  ultimately show ?thesis using post [of "kube w"] by blast
next
  case False
  let ?cr = "cr\<lparr>cr_Finalizers := AddFinalizer (kclient R) (cr_Finalizers cr) Finalizer\<rparr>"
  have "wp (on_kube (UpdateCR (crs R) ?cr)) w Q E"
    unfolding wp_on_kube
    by (rule wp_UpdateCR [OF laws])
       (use base live post False in \<open>auto simp: finalized_def stored_Some\<close>)
  with False show ?thesis by (simp add: ensure_finalizer_def)
qed

lemma wp_remove_finalizer:
  assumes laws: "api_laws R objs secs srvs" and base: "objs (kube w) (request_of cr) = Some cr"
    and post: "\<And>k' cr'. objs k' = (objs (kube w))(request_of cr := cr') \<Longrightarrow>
      (\<forall>c. cr' = Some c \<longrightarrow> \<not> ContainsFinalizer (kclient R) (cr_Finalizers c) Finalizer) \<Longrightarrow>
      secs k' = secs (kube w) \<Longrightarrow> srvs k' = srvs (kube w) \<Longrightarrow> Q (Result 0) (w\<lparr>kube := k'\<rparr>)"
  shows "wp (remove_finalizer R cr) w Q E"
proof -
  let ?cr = "cr\<lparr>cr_Finalizers := RemoveFinalizer (kclient R) (cr_Finalizers cr) Finalizer\<rparr>"
  have gone: "\<not> ContainsFinalizer (kclient R) (RemoveFinalizer (kclient R) (cr_Finalizers cr) Finalizer) Finalizer"
    using api_lawsD(6) [OF laws] by (simp add: finalizer_laws_def)
  show ?thesis
    unfolding remove_finalizer_def wp_attempt wp_on_kube wp_fail wp_ret
    by (rule wp_UpdateCR [OF laws])
       (use base gone in \<open>auto simp: stored_def intro!: post split: if_splits\<close>)
qed

text \<open>
  The outcome of a whole reconciliation that reached its end: the object has the finalizer,
  the condition and the observed generation, and nothing else changed in the API server.
\<close>

definition outcome ::
  "('k \<Rightarrow> string \<times> string \<Rightarrow> ('spec, 'a CommonStatus_scheme) CR option) \<Rightarrow> ('k \<Rightarrow> string \<times> string \<Rightarrow> Secret option)
   \<Rightarrow> ('k \<Rightarrow> string \<times> string \<Rightarrow> SQLServer option) \<Rightarrow> 'k KubeClient \<Rightarrow> ('spec, 'a CommonStatus_scheme) CR
   \<Rightarrow> ConditionStatus \<Rightarrow> string \<Rightarrow> 'k \<Rightarrow> 'k \<Rightarrow> bool" where
  "outcome objs secs srvs K cr st reason k k' \<longleftrightarrow>
     (\<exists>st'. objs k' = (objs k)(request_of cr \<mapsto> (finalized K cr)\<lparr>Status := st'\<rparr>)
        \<and> ready_status ((finalized K cr)\<lparr>Status := st'\<rparr>) = Some (st, reason)
        \<and> ObservedGeneration st' = cr_Generation cr \<and> secs k' = secs k \<and> srvs k' = srvs k)"

lemma reported_outcome:
  "reported objs secs srvs (finalized K cr) st reason k1 k' \<Longrightarrow>
   objs k1 = (objs k)(request_of cr \<mapsto> finalized K cr) \<Longrightarrow> secs k1 = secs k \<Longrightarrow> srvs k1 = srvs k \<Longrightarrow>
   outcome objs secs srvs K cr st reason k k'"
  unfolding reported_def outcome_def by auto

lemma outcomeE:
  assumes "outcome objs secs srvs K cr st reason k k'"
  obtains st' where "objs k' (request_of cr) = Some ((finalized K cr)\<lparr>Status := st'\<rparr>)"
    "secs k' = secs k" "srvs k' = srvs k" "ready_status ((finalized K cr)\<lparr>Status := st'\<rparr>) = Some (st, reason)"
proof -
  from assms obtain st' where st: "objs k' = (objs k)(request_of cr \<mapsto> (finalized K cr)\<lparr>Status := st'\<rparr>)"
    "ready_status ((finalized K cr)\<lparr>Status := st'\<rparr>) = Some (st, reason)" "secs k' = secs k" "srvs k' = srvs k"
    unfolding outcome_def by blast
  show thesis by (rule that [OF _ st(3,4,2)]) (simp add: st(1))
qed

section \<open>What a server reference denotes\<close>

text \<open>
  The connection a reference stands for, read off the API server's content: a reference with
  \<open>sqlServerRef\<close> borrows host, port and TLS of the \<open>SQLServer\<close>, whose own host falls back to
  the one of its status, and its credentials, or else \<open>sa\<close> in managed mode.
\<close>

definition secret_credentials :: "(string \<times> string \<Rightarrow> Secret option) \<Rightarrow> string \<Rightarrow> string \<Rightarrow> (string \<times> string) option" where
  "secret_credentials secs ns name =
     Option.bind (secs (ns, name)) (\<lambda>s. Option.bind (Data s ''username'') (\<lambda>u.
       map_option (\<lambda>p. (u, p)) (Data s ''password'')))"

definition sa_credentials :: "(string \<times> string \<Rightarrow> Secret option) \<Rightarrow> string \<Rightarrow> string \<Rightarrow> (string \<times> string) option" where
  "sa_credentials secs ns name =
     Option.bind (secs (ns, name)) (\<lambda>s. map_option (\<lambda>p. (''sa'', p)) (Data s ''MSSQL_SA_PASSWORD''))"

definition server_host :: "SQLServer \<Rightarrow> string" where
  "server_host srv = (if srv_Host (Spec srv) = [] then srv_st_Host (Status srv) else srv_Host (Spec srv))"

definition denoted_server :: "(string \<times> string \<Rightarrow> SQLServer option) \<Rightarrow> string \<Rightarrow> ServerReference \<Rightarrow> ServerReference option" where
  "denoted_server srvs ns ref =
     (case SQLServerRef ref of
        None \<Rightarrow> Some ref
      | Some name \<Rightarrow> map_option (\<lambda>srv. \<lparr>Host = server_host srv, Port = srv_Port (Spec srv),
          CredentialsSecret = (case srv_CredentialsSecret (Spec srv) of Some (n, _) \<Rightarrow> n | None \<Rightarrow> []),
          TLS = srv_TLS (Spec srv), SQLServerRef = None\<rparr>) (srvs (ns, name)))"

definition denoted_credentials ::
  "(string \<times> string \<Rightarrow> Secret option) \<Rightarrow> (string \<times> string \<Rightarrow> SQLServer option) \<Rightarrow> string \<Rightarrow> ServerReference
   \<Rightarrow> (string \<times> string) option" where
  "denoted_credentials secs srvs ns ref =
     (case SQLServerRef ref of
        None \<Rightarrow> secret_credentials secs ns (CredentialsSecret ref)
      | Some name \<Rightarrow> Option.bind (srvs (ns, name)) (\<lambda>srv.
          case srv_CredentialsSecret (Spec srv) of
            Some (secretName, secretNS) \<Rightarrow>
              secret_credentials secs (case secretNS of Some n \<Rightarrow> n | None \<Rightarrow> ns) secretName
          | None \<Rightarrow> Option.bind (srv_Instance (Spec srv)) (\<lambda>inst. sa_credentials secs ns (inst_SAPasswordSecret inst))))"

definition denotes ::
  "('cr, 'k, 'c) Reconciler \<Rightarrow> (string \<times> string \<Rightarrow> Secret option) \<Rightarrow> (string \<times> string \<Rightarrow> SQLServer option)
   \<Rightarrow> string \<Rightarrow> ServerReference \<Rightarrow> 'c SQLClient \<Rightarrow> bool" where
  "denotes R secs srvs ns ref cl \<longleftrightarrow>
     (\<exists>server u p. denoted_server srvs ns ref = Some server \<and> denoted_credentials secs srvs ns ref = Some (u, p)
        \<and> connectToSQL server u p (SQLClientFactory R) = Inr cl)"

lemma wp_getCredentialsFromSecret:
  assumes "api_laws R objs secs srvs" and "secret_credentials (secs k) ns name = Some up"
  shows "wp (getCredentialsFromSecret (kclient R) ns name) k Q E = Q up k"
  using assms(2)
  by (auto simp: getCredentialsFromSecret_def secret_credentials_def wp_attempt wp_GetSecret [OF assms(1)] wp_ret
      split: bind_splits)

lemma wp_getCredentialsFromSAPasswordSecret:
  assumes "api_laws R objs secs srvs" and "sa_credentials (secs k) ns name = Some up"
  shows "wp (getCredentialsFromSAPasswordSecret (kclient R) ns name) k Q E = Q up k"
  using assms(2)
  by (auto simp: getCredentialsFromSAPasswordSecret_def sa_credentials_def wp_attempt wp_GetSecret [OF assms(1)] wp_ret
      split: bind_splits)

lemma resolveServerReference_denoted:
  assumes "api_laws R objs secs srvs" and "denoted_server (srvs k) ns ref = Some server"
  shows "resolveServerReference (kclient R) ns ref k = ((server, None), k)"
proof (cases "SQLServerRef ref")
  case None
  with assms(2) show ?thesis by (simp add: resolveServerReference_def denoted_server_def)
next
  case (Some name)
  with assms(2) obtain srv where "srvs k (ns, name) = Some srv" by (auto simp: denoted_server_def)
  with api_lawsD(3) [OF assms(1), of k ns name] have "GetSQLServer (kclient R) ns name k = (Inr srv, k)"
    by (cases "GetSQLServer (kclient R) ns name k") (auto simp: answers_def)
  with Some \<open>srvs k (ns, name) = Some srv\<close> assms(2) show ?thesis
    by (simp add: resolveServerReference_def denoted_server_def server_host_def Let_def)
qed

lemma wp_with_reference:
  assumes "api_laws R objs secs srvs" and "denoted_server (srvs (kube w)) ns ref = Some server"
  shows "wp (with_reference (kclient R) ns ref body) w Q E = wp (body server None) w Q E"
  by (simp add: wp_def with_reference_def resolveServerReference_denoted [OF assms])

lemma wp_resolveServerCredentials:
  assumes "api_laws R objs secs srvs" and "denoted_credentials (secs k) (srvs k) ns ref = Some up"
  shows "wp (resolveServerCredentials (kclient R) ns ref) k Q E = Q up k"
  using assms(2)
  by (auto simp: resolveServerCredentials_def denoted_credentials_def wp_attempt wp_GetSQLServer [OF assms(1)]
      wp_getCredentialsFromSecret [OF assms(1)] wp_getCredentialsFromSAPasswordSecret [OF assms(1)]
      split: option.splits bind_splits)

text \<open>A reference that is used directly, as most controllers do.\<close>

definition connects ::
  "('cr, 'k, 'c) Reconciler \<Rightarrow> (string \<times> string \<Rightarrow> Secret option) \<Rightarrow> string \<Rightarrow> ServerReference \<Rightarrow> 'c SQLClient \<Rightarrow> bool" where
  "connects R secs ns ref cl \<longleftrightarrow>
     (\<exists>u p. secret_credentials secs ns (CredentialsSecret ref) = Some (u, p)
        \<and> connectToSQL ref u p (SQLClientFactory R) = Inr cl)"

lemma wp_credentials_or_condition:
  assumes "api_laws R objs secs srvs" and "secret_credentials (secs (kube w)) (cr_Namespace cr) name = Some up"
  shows "wp (credentials_or_condition R cr name k) w Q E = wp (k up) w Q E"
  by (simp add: credentials_or_condition_def wp_attempt wp_on_kube wp_getCredentialsFromSecret [OF assms])

lemma wp_connect_or_fail:
  assumes "connectToSQL server u p (SQLClientFactory R) = Inr cl"
  shows "wp (connect_or_fail R what server u p body) w Q E =
    wp (body cl) w (\<lambda>x w'. Q x (w'\<lparr>sql := CloseClient cl (sql w')\<rparr>)) (\<lambda>e w'. E e (w'\<lparr>sql := CloseClient cl (sql w')\<rparr>))"
  by (simp add: connect_or_fail_def assms wp_deferred)

lemma wp_block_deletion:
  assumes laws: "api_laws R objs secs srvs" and base: "objs (kube w) (request_of cr) = Some cr"
    and fin: "cr_Finalizers cr \<noteq> []"
    and post: "\<And>k' d st'. objs k' = (objs (kube w))(request_of cr \<mapsto> cr\<lparr>Status := st'\<rparr>) \<Longrightarrow>
      ready_status (cr\<lparr>Status := st'\<rparr>) = Some (ConditionFalse, reason) \<Longrightarrow>
      secs k' = secs (kube w) \<Longrightarrow> srvs k' = srvs (kube w) \<Longrightarrow> 24 * second \<le> d \<Longrightarrow> d < 36 * second \<Longrightarrow> Q (Result d) (w\<lparr>kube := k'\<rparr>)"
  shows "wp (block_deletion R cr reason msg) w Q E"
proof -
  let ?new = "with_condition (kclient R) ConditionFalse reason msg cr"
  have "\<exists>st. ?new = cr\<lparr>Status := st\<rparr>"
    by (rule exI [of _ "Status ?new"]) (simp add: with_condition_def)
  then obtain st where eq: "?new = cr\<lparr>Status := st\<rparr>" by blast
  have ready: "ready_status (cr\<lparr>Status := st\<rparr>) = Some (ConditionFalse, reason)"
    unfolding eq [symmetric] using api_lawsD(7) [OF laws]
    by (simp add: ready_status_def with_condition_def condition_laws_def ready_condition_def)
  show ?thesis
    unfolding block_deletion_def eq wp_attempt wp_on_kube
  proof (rule wp_PatchStatus [OF laws base])
    fix k' assume k': "objs k' = (objs (kube w))(request_of cr := stored (cr\<lparr>Status := st\<rparr>))"
      "secs k' = secs (kube w)" "srvs k' = srvs (kube w)"
    then have "objs k' = (objs (kube w))(request_of cr \<mapsto> cr\<lparr>Status := st\<rparr>)" using fin by (simp add: stored_def)
    then show "wp (requeue_jitter (Int63n R) requeueInterval) (w\<lparr>kube := k'\<rparr>) Q E"
      using requeue_in_range [OF api_lawsD(8) [OF laws]] ready k'(2,3)
      by (auto simp: requeue_jitter_def wp_simps intro!: post)
  qed
qed

text \<open>Resolving a reference only reads, whatever it finds.\<close>

lemma api_reads:
  assumes "api_laws R objs secs srvs"
  shows "snd (GetSecret (kclient R) ns n k) = k" "snd (GetSQLServer (kclient R) ns n k) = k"
    "snd (GetCR (crs R) ns n k) = k"
  using api_lawsD(1-3) [OF assms, of k ns n] by (simp_all add: answers_def)

lemma getCredentials_reads:
  assumes "api_laws R objs secs srvs"
  shows "snd (getCredentialsFromSecret (kclient R) ns n k) = k"
    "snd (getCredentialsFromSAPasswordSecret (kclient R) ns n k) = k"
  using api_reads(1) [OF assms, of ns n k]
  by (auto simp: getCredentialsFromSecret_def getCredentialsFromSAPasswordSecret_def attempt_def
      split: prod.split sum.split option.split)

lemma resolve_reads:
  assumes "api_laws R objs secs srvs"
  shows "snd (resolveServerCredentials (kclient R) ns ref k) = k"
    "snd (resolveServerReference (kclient R) ns ref k) = k"
proof -
  have s: "\<exists>r. GetSQLServer (kclient R) ns n k = (r, k)" for n
    using api_reads(2) [OF assms, of ns n k] by (cases "GetSQLServer (kclient R) ns n k") auto
  show "snd (resolveServerReference (kclient R) ns ref k) = k"
  proof (cases "SQLServerRef ref")
    case None
    then show ?thesis by (simp add: resolveServerReference_def)
  next
    case (Some n)
    from s obtain r where "GetSQLServer (kclient R) ns n k = (r, k)" by blast
    with Some show ?thesis by (auto simp: resolveServerReference_def Let_def split: sum.split)
  qed
  show "snd (resolveServerCredentials (kclient R) ns ref k) = k"
  proof (cases "SQLServerRef ref")
    case None
    then show ?thesis by (simp add: resolveServerCredentials_def getCredentials_reads [OF assms])
  next
    case (Some n)
    from s obtain r where "GetSQLServer (kclient R) ns n k = (r, k)" by blast
    with Some show ?thesis
      by (auto simp: resolveServerCredentials_def attempt_def getCredentials_reads [OF assms] Let_def
          split: sum.split option.split)
  qed
qed

lemma wp_with_reference_any:
  assumes "api_laws R objs secs srvs" and "\<And>s e. wp (body s e) w Q E"
  shows "wp (with_reference (kclient R) ns ref body) w Q E"
proof -
  obtain s e where "resolveServerReference (kclient R) ns ref (kube w) = ((s, e), kube w)"
    using resolve_reads(2) [OF assms(1), of ns ref "kube w"] by (metis prod.collapse)
  then have "with_reference (kclient R) ns ref body w = body s e w" by (simp add: with_reference_def)
  with assms(2) [of s e] show ?thesis by (simp add: wp_def)
qed

text \<open>A patch whose failure is ignored.\<close>

lemma wp_patch_ignored:
  assumes "api_laws R objs secs srvs" and "objs (kube w) (request_of base) = Some base" and "\<not> cr_Deleting base"
    and "\<And>k'. objs k' = (objs (kube w))(request_of base \<mapsto> base\<lparr>Status := st\<rparr>) \<Longrightarrow> secs k' = secs (kube w) \<Longrightarrow>
      srvs k' = srvs (kube w) \<Longrightarrow> Q (base\<lparr>Status := st\<rparr>) (w\<lparr>kube := k'\<rparr>)"
  shows "wp (patch_ignored R base (base\<lparr>Status := st\<rparr>)) w Q E"
  unfolding patch_ignored_def wp_attempt wp_on_kube wp_ret
  by (rule wp_PatchStatus [OF assms(1,2)]) (use assms(3) in \<open>simp add: stored_Some assms(4)\<close>)

lemma wp_patch_ignored_any:
  assumes "\<And>cr' k'. Q cr' (w\<lparr>kube := k'\<rparr>)"
  shows "wp (patch_ignored R base cr) w Q E"
  unfolding patch_ignored_def wp_attempt wp_on_kube
  by (cases "PatchStatus (crs R) base cr (kube w)") (auto simp: wp_def assms split: sum.split)

end
