(* ===== verification/Memory_API.thy ===== *)
theory Memory_API
  imports Call_Logic
begin

text \<open>
  An API server kept in memory, with library functions that satisfy the assumed laws. No
  theorem about the program rests on it: it shows that \<open>api_laws\<close> can hold and gives the
  examples something to run on.
\<close>

record 'cr store =
  st_objs :: "string \<times> string \<Rightarrow> 'cr option"
  st_secs :: "string \<times> string \<Rightarrow> Secret option"
  st_srvs :: "string \<times> string \<Rightarrow> SQLServer option"

definition get_or_missing :: "('s \<Rightarrow> string \<times> string \<Rightarrow> 'a option) \<Rightarrow> string \<Rightarrow> string \<Rightarrow> ('a, 's) op" where
  "get_or_missing f ns n s = (case f s (ns, n) of Some x \<Rightarrow> (Inr x, s) | None \<Rightarrow> (Inl (GoErr True (n @ '' not found'')), s))"

definition put_object :: "('spec, 'st) CR \<Rightarrow> (('spec, 'st) CR, ('spec, 'st) CR store) op" where
  "put_object cr s = (Inr cr, s\<lparr>st_objs := (st_objs s)(request_of cr := stored cr)\<rparr>)"

fun set_condition :: "Condition list \<Rightarrow> Condition \<Rightarrow> Condition list" where
  "set_condition [] c = [c]"
| "set_condition (d # ds) c = (if c_Type d = c_Type c then c # ds else d # set_condition ds c)"

definition memory_kube :: "'cr store KubeClient" where
  "memory_kube = \<lparr>GetSecret = get_or_missing st_secs, GetSQLServer = get_or_missing st_srvs,
     SetStatusCondition = set_condition, ContainsFinalizer = (\<lambda>fs f. f \<in> set fs),
     AddFinalizer = (\<lambda>fs f. fs @ [f]), RemoveFinalizer = (\<lambda>fs f. filter (\<lambda>g. g \<noteq> f) fs)\<rparr>"

definition memory_reconciler :: "'c ClientFactory \<Rightarrow> (('spec, 'st) CR, ('spec, 'st) CR store, 'c) Reconciler" where
  "memory_reconciler factory = \<lparr>kclient = memory_kube,
     crs = \<lparr>GetCR = get_or_missing st_objs, UpdateCR = put_object, PatchStatus = (\<lambda>_. put_object)\<rparr>,
     SQLClientFactory = factory, Int63n = (\<lambda>n. n div 2), range_order = remdups\<rparr>"

lemma set_condition_laws:
  "FindStatusCondition (set_condition cs c) t = (if t = c_Type c then Some c else FindStatusCondition cs t)"
  by (induction cs) (auto simp: FindStatusCondition_def)

lemma answers_memory: "answers (f k (ns, n)) k (get_or_missing f ns n k)"
  by (simp add: answers_def get_or_missing_def split: option.split)

lemma accepts_memory: "accepts st_objs st_secs st_srvs cr k (put_object cr k)"
  by (simp add: accepts_def put_object_def)

lemma memory_api_laws: "api_laws (memory_reconciler factory) st_objs st_secs st_srvs"
  unfolding api_laws_def memory_reconciler_def memory_kube_def
  by (simp add: answers_memory accepts_memory finalizer_laws_def condition_laws_def set_condition_laws
      rand_laws_def range_laws_def) auto

lemma memory_reconciler_factory [simp]: "SQLClientFactory (memory_reconciler f) = f"
  by (simp add: memory_reconciler_def)

section \<open>A small cluster\<close>

text \<open>One object \<open>ns/obj\<close>, a server reference and the secret with its credentials.\<close>

definition ex_server :: ServerReference where
  "ex_server = \<lparr>Host = ''sql'', Port = None, CredentialsSecret = ''creds'', TLS = None, SQLServerRef = None\<rparr>"

definition ex_secret :: Secret where
  "ex_secret = \<lparr>Data = [''username'' \<mapsto> ''sa'', ''password'' \<mapsto> ''x''], ResourceVersion = ''1''\<rparr>"

definition ex_cr :: "'spec \<Rightarrow> 'st \<Rightarrow> ('spec, 'st) CR" where
  "ex_cr sp st = \<lparr>cr_Name = ''obj'', cr_Namespace = ''ns'', cr_Generation = 1, cr_Finalizers = [Finalizer],
     cr_Deleting = False, cr_Annotations = Map.empty, cr_Labels = Map.empty, cr_CreationTimestamp = 0,
     Spec = sp, Status = st\<rparr>"

definition ex_status :: CommonStatus where
  "ex_status = \<lparr>Conditions = [], ObservedGeneration = 0\<rparr>"

definition ex_world :: "'cr \<Rightarrow> 'c \<Rightarrow> ('cr store, 'c) world" where
  "ex_world cr c = \<lparr>kube = \<lparr>st_objs = [(''ns'', ''obj'') \<mapsto> cr], st_secs = [(''ns'', ''creds'') \<mapsto> ex_secret],
     st_srvs = Map.empty\<rparr>, sql = c, events = []\<rparr>"

definition ex_reconciler :: "'c SQLClient \<Rightarrow> (('spec, 'st) CR, ('spec, 'st) CR store, 'c) Reconciler" where
  "ex_reconciler cl = memory_reconciler (\<lambda>_ _ _ _ _. Inr cl)"

lemma ex_api_laws: "api_laws (ex_reconciler cl) st_objs st_secs st_srvs"
  unfolding ex_reconciler_def by (rule memory_api_laws)

lemma ex_cr_simps [simp]:
  "request_of (ex_cr sp st) = (''ns'', ''obj'')" "cr_Namespace (ex_cr sp st) = ''ns''"
  "cr_Deleting (ex_cr sp st) = False" "Spec (ex_cr sp st) = sp" "Status (ex_cr sp st) = st"
  "cr_Finalizers (ex_cr sp st) = [Finalizer]"
  by (simp_all add: ex_cr_def request_of_def)

lemma ex_world_simps [simp]:
  "st_objs (kube (ex_world cr c)) (''ns'', ''obj'') = Some cr" "sql (ex_world cr c) = c"
  "events (ex_world cr c) = []"
  by (simp_all add: ex_world_def)

lemma ex_has_finalizer [simp]: "ContainsFinalizer (kclient (ex_reconciler cl)) [f] f"
  by (simp add: ex_reconciler_def memory_reconciler_def memory_kube_def)

lemma ex_denotes:
  "denotes (ex_reconciler cl) (st_secs (kube (ex_world cr c))) (st_srvs (kube (ex_world cr c))) ''ns'' ex_server cl"
  by (simp add: denotes_def denoted_server_def denoted_credentials_def secret_credentials_def ex_server_def
      ex_world_def ex_secret_def ex_reconciler_def memory_reconciler_def connectToSQL_def)

lemma ex_connects: "connects (ex_reconciler cl) (st_secs (kube (ex_world cr c))) ''ns'' ex_server cl"
  by (simp add: connects_def secret_credentials_def ex_server_def ex_world_def ex_secret_def ex_reconciler_def
      memory_reconciler_def connectToSQL_def)

lemma ex_world_secret [simp]: "st_secs (kube (ex_world cr c)) (''ns'', ''creds'') = Some ex_secret"
  by (simp add: ex_world_def)

lemma ex_secret_simps [simp]: "Data ex_secret ''password'' = Some ''x''" "ResourceVersion ex_secret = ''1''"
  by (simp_all add: ex_secret_def)

end
