(* ===== verification/Database_Controller.thy ===== *)
theory Database_Controller
  imports Memory_API Mock_Laws
begin

text \<open>
  \<open>internal/controller/database_controller.go\<close>: the reconciliation of a \<open>Database\<close>. The first
  part is the code, stage by stage. The second is its contract: \<open>database_server\<close> states what
  a SQL Server promises about databases, the reconciliation is shown inside it to establish
  the desired configuration, and the in-memory server is an instance.
\<close>

section \<open>The reconciler\<close>

text \<open>Lines 107--117: create the database when it does not exist.\<close>

definition Database_create :: "'c SQLClient \<Rightarrow> Database \<Rightarrow> bool \<Rightarrow> (unit, ('k, 'c) world) op" where
  "Database_create cl db exists =
     (let name = db_DatabaseName (Spec db) in
      if \<not> exists then
        or_fail (''failed to create database '' @ name)
          (on_sql (CreateDatabase (dbs cl) name (db_Collation (Spec db)))) (\<lambda>_.
        effect (Normal ''DatabaseCreated'' (''Database '' @ name @ '' created'')) (ret ()))
      else ret ())"

definition Database_owner :: "'c SQLClient \<Rightarrow> Database \<Rightarrow> (unit, ('k, 'c) world) op" where
  "Database_owner cl db =
     (let name = db_DatabaseName (Spec db) in
      case db_Owner (Spec db) of
        None \<Rightarrow> ret ()
      | Some owner \<Rightarrow>
          or_fail ''failed to get database owner'' (on_sql (GetDatabaseOwner (dbs cl) name)) (\<lambda>currentOwner.
          if currentOwner \<noteq> owner then
            or_fail ''failed to set database owner'' (on_sql (SetDatabaseOwner (dbs cl) name owner)) (\<lambda>_.
            effect (Normal ''DatabaseOwnerUpdated'' (''Database '' @ name @ '' owner set to '' @ owner)) (ret ()))
          else ret ()))"

definition desired_recovery_model :: "string \<Rightarrow> string" where
  "desired_recovery_model rm = (if rm = ''BulkLogged'' then ''BULK_LOGGED'' else rm)"

definition Database_recovery :: "'c SQLClient \<Rightarrow> Database \<Rightarrow> bool \<Rightarrow> (unit, ('k, 'c) world) op" where
  "Database_recovery cl db exists =
     (let name = db_DatabaseName (Spec db) in
      case db_RecoveryModel (Spec db) of
        None \<Rightarrow> ret ()
      | Some desiredRM \<Rightarrow>
          (if exists then
             or_fail ''failed to get recovery model'' (on_sql (GetDatabaseRecoveryModel (dbs cl) name)) (\<lambda>currentRM.
             let desiredRMSQL = desired_recovery_model desiredRM in
             if currentRM \<noteq> desiredRMSQL then
               or_fail ''failed to set recovery model''
                 (on_sql (SetDatabaseRecoveryModel (dbs cl) name desiredRMSQL)) (\<lambda>_.
               effect (Normal ''RecoveryModelUpdated''
                 (''Database '' @ name @ '' recovery model set to '' @ desiredRM)) (ret ()))
             else ret ())
           else ret ()))"

definition Database_compat :: "'c SQLClient \<Rightarrow> Database \<Rightarrow> bool \<Rightarrow> (unit, ('k, 'c) world) op" where
  "Database_compat cl db exists =
     (let name = db_DatabaseName (Spec db) in
      case db_CompatibilityLevel (Spec db) of
        None \<Rightarrow> ret ()
      | Some desiredCL \<Rightarrow>
          (if exists then
             or_fail ''failed to get compatibility level''
               (on_sql (GetDatabaseCompatibilityLevel (dbs cl) name)) (\<lambda>currentCL.
             if currentCL \<noteq> desiredCL then
               or_fail ''failed to set compatibility level''
                 (on_sql (SetDatabaseCompatibilityLevel (dbs cl) name desiredCL)) (\<lambda>_.
               effect (Normal ''CompatibilityLevelUpdated''
                 (''Database '' @ name @ '' compatibility level set to '' @ show_int desiredCL)) (ret ()))
             else ret ())
           else ret ()))"

text \<open>The loop over \<open>spec.options\<close>; an error leaves it.\<close>

fun Database_options :: "'c SQLClient \<Rightarrow> string \<Rightarrow> DatabaseOption list \<Rightarrow> (unit, ('k, 'c) world) op" where
  "Database_options cl name [] = ret ()"
| "Database_options cl name (opt # opts) =
     or_fail (''failed to get database option '' @ do_Name opt)
       (on_sql (GetDatabaseOption (dbs cl) name (do_Name opt))) (\<lambda>currentVal.
     if currentVal \<noteq> do_Value opt then
       or_fail (''failed to set database option '' @ do_Name opt)
         (on_sql (SetDatabaseOption (dbs cl) name (do_Name opt) (do_Value opt))) (\<lambda>_.
       effect (Normal ''DatabaseOptionUpdated''
         (''Database '' @ name @ '' option '' @ do_Name opt @ '' set to '' @ show_bool (do_Value opt)))
       (Database_options cl name opts))
     else Database_options cl name opts)"

definition Database_setConditionAndReturn ::
  "(Database, 'k, 'c) Reconciler \<Rightarrow> Database \<Rightarrow> ConditionStatus \<Rightarrow> string \<Rightarrow> string \<Rightarrow> (Result, ('k, 'c) world) op" where
  "Database_setConditionAndReturn = setConditionAndReturn"

definition Database_collation ::
  "(Database, 'k, 'c) Reconciler \<Rightarrow> 'c SQLClient \<Rightarrow> Database \<Rightarrow> bool \<Rightarrow> (Result, ('k, 'c) world) op
   \<Rightarrow> (Result, ('k, 'c) world) op" where
  "Database_collation R cl db exists k =
     (let name = db_DatabaseName (Spec db) in
      case db_Collation (Spec db) of
        None \<Rightarrow> k
      | Some desired \<Rightarrow>
          (if exists then
             or_fail ''failed to get database collation'' (on_sql (GetDatabaseCollation (dbs cl) name)) (\<lambda>current.
             if current \<noteq> desired then
               effect (Warning ReasonCollationChangeNotSupported
                 (''Database '' @ name @ '' collation is '' @ current @ '' but spec requires '' @ desired @ '' '' @
                  em_dash @ '' collation is immutable''))
               (Database_setConditionAndReturn R db ConditionFalse ReasonCollationChangeNotSupported
                 (''Collation mismatch: actual '' @ current @ '', desired '' @ desired @ '' '' @ em_dash @
                  '' collation is immutable after creation''))
             else k)
           else k))"

text \<open>Lines 98--226: observe, compare, act, with a connected client.\<close>

definition Database_sync ::
  "(Database, 'k, 'c) Reconciler \<Rightarrow> 'c SQLClient \<Rightarrow> Database \<Rightarrow> (Result, ('k, 'c) world) op" where
  "Database_sync R cl db =
     (let name = db_DatabaseName (Spec db) in
      or_fail ''failed to check database existence'' (on_sql (DatabaseExists (dbs cl) name)) (\<lambda>exists.
      andthen (Database_create cl db exists) (
      andthen (Database_owner cl db) (
      andthen (Database_recovery cl db exists) (
      andthen (Database_compat cl db exists) (
      andthen (Database_options cl name (db_Options (Spec db))) (
      Database_collation R cl db exists (
      Database_setConditionAndReturn R db ConditionTrue ReasonReady (''Database '' @ name @ '' is ready'')))))))))"

text \<open>The error of a failed read of the credentials, as a reason of the condition.\<close>

definition credentials_reason :: "go_error \<Rightarrow> string" where
  "credentials_reason e = (if IsNotFound e then ReasonSecretNotFound else ReasonInvalidCredentialsSecret)"

definition Database_drop :: "'c SQLClient \<Rightarrow> Database \<Rightarrow> (unit, ('k, 'c) world) op" where
  "Database_drop cl db =
     attempt (on_sql (DropDatabase (dbs cl) (db_DatabaseName (Spec db)))) (\<lambda>_. ret ()) (\<lambda>_.
       effect (Normal ''DatabaseDropped'' (''Database '' @ db_DatabaseName (Spec db) @ '' dropped'')) (ret ()))"

text \<open>\<open>serverRef, _ := resolveServerReference(...)\<close>: the error is dropped.\<close>

definition Database_cleanup ::
  "(Database, 'k, 'c) Reconciler \<Rightarrow> Database \<Rightarrow> (Result, ('k, 'c) world) op \<Rightarrow> (Result, ('k, 'c) world) op" where
  "Database_cleanup R db rest =
     attempt (on_kube (resolveServerCredentials (kclient R) (cr_Namespace db) (db_Server (Spec db))))
       (\<lambda>_. rest) (\<lambda>(username, password).
     with_reference (kclient R) (cr_Namespace db) (db_Server (Spec db)) (\<lambda>serverRef _.
       case connectToSQL serverRef username password (SQLClientFactory R) of
         Inl _ \<Rightarrow> rest
       | Inr cl \<Rightarrow> deferred (\<lambda>w. w\<lparr>sql := CloseClient cl (sql w)\<rparr>) (andthen (Database_drop cl db) rest)))"

definition Database_handleDeletion ::
  "(Database, 'k, 'c) Reconciler \<Rightarrow> Database \<Rightarrow> (Result, ('k, 'c) world) op" where
  "Database_handleDeletion R db =
     (if \<not> ContainsFinalizer (kclient R) (cr_Finalizers db) Finalizer then ret (Result 0)
      else
        (let policy = (case db_DeletionPolicy (Spec db) of None \<Rightarrow> DeletionPolicyRetain | Some p \<Rightarrow> p)
         in if policy = DeletionPolicyDelete then Database_cleanup R db (remove_finalizer R db)
            else remove_finalizer R db))"

definition Database_connected ::
  "(Database, 'k, 'c) Reconciler \<Rightarrow> Database \<Rightarrow> ServerReference \<Rightarrow> (Result, ('k, 'c) world) op" where
  "Database_connected R db serverRef =
     attempt (on_kube (resolveServerCredentials (kclient R) (cr_Namespace db) (db_Server (Spec db))))
       (\<lambda>e. Database_setConditionAndReturn R db ConditionFalse (credentials_reason e) (Error e)) (\<lambda>(username, password).
     connect_or_fail R ''SQL Server'' serverRef username password (\<lambda>cl. Database_sync R cl db))"

definition Database_Reconcile ::
  "(Database, 'k, 'c) Reconciler \<Rightarrow> string \<Rightarrow> string \<Rightarrow> (Result, ('k, 'c) world) op" where
  "Database_Reconcile R ns name =
     fetch R ns name (\<lambda>db0.
     if cr_Deleting db0 then Database_handleDeletion R db0
     else attempt (ensure_finalizer R db0) fail (\<lambda>db.
       with_reference (kclient R) (cr_Namespace db) (db_Server (Spec db)) (\<lambda>serverRef err.
         case err of
           Some e \<Rightarrow> Database_setConditionAndReturn R db ConditionFalse ReasonConnectionFailed
             (''Failed to resolve server reference: '' @ Error e)
         | None \<Rightarrow> Database_connected R db serverRef)))"

section \<open>What a SQL Server promises about databases\<close>

record DatabaseView =
  v_Collation :: string
  v_Owner :: string
  v_RecoveryModel :: string
  v_CompatibilityLevel :: int
  v_Options :: "string \<Rightarrow> bool"

text \<open>
  \<open>ok\<close> are the states in which the server answers, \<open>view\<close> the databases it holds, \<open>fresh\<close> a
  database just created with a given collation.
\<close>

locale database_server =
  fixes cl :: "'c SQLClient"
    and ok :: "'c \<Rightarrow> bool"
    and view :: "'c \<Rightarrow> string \<Rightarrow> DatabaseView option"
    and fresh :: "string option \<Rightarrow> DatabaseView"
  assumes exists_law: "ok c \<Longrightarrow> reads ok view (DatabaseExists (dbs cl) n) c (view c n \<noteq> None)"
    and create_law: "ok c \<Longrightarrow> view c n = None \<Longrightarrow>
      writes ok view (CreateDatabase (dbs cl) n col) c ((view c)(n \<mapsto> fresh col))"
    and drop_law: "ok c \<Longrightarrow> writes ok view (DropDatabase (dbs cl) n) c ((view c)(n := None))"
    and get_owner: "ok c \<Longrightarrow> view c n = Some v \<Longrightarrow> reads ok view (GetDatabaseOwner (dbs cl) n) c (v_Owner v)"
    and set_owner: "ok c \<Longrightarrow> view c n = Some v \<Longrightarrow>
      writes ok view (SetDatabaseOwner (dbs cl) n x) c ((view c)(n \<mapsto> v\<lparr>v_Owner := x\<rparr>))"
    and get_recovery: "ok c \<Longrightarrow> view c n = Some v \<Longrightarrow>
      reads ok view (GetDatabaseRecoveryModel (dbs cl) n) c (v_RecoveryModel v)"
    and set_recovery: "ok c \<Longrightarrow> view c n = Some v \<Longrightarrow> rm \<noteq> [] \<Longrightarrow>
      writes ok view (SetDatabaseRecoveryModel (dbs cl) n rm) c ((view c)(n \<mapsto> v\<lparr>v_RecoveryModel := rm\<rparr>))"
    and get_compat: "ok c \<Longrightarrow> view c n = Some v \<Longrightarrow>
      reads ok view (GetDatabaseCompatibilityLevel (dbs cl) n) c (v_CompatibilityLevel v)"
    and set_compat: "ok c \<Longrightarrow> view c n = Some v \<Longrightarrow> 0 < l \<Longrightarrow>
      writes ok view (SetDatabaseCompatibilityLevel (dbs cl) n l) c ((view c)(n \<mapsto> v\<lparr>v_CompatibilityLevel := l\<rparr>))"
    and get_option: "ok c \<Longrightarrow> view c n = Some v \<Longrightarrow>
      reads ok view (GetDatabaseOption (dbs cl) n opt) c (v_Options v opt)"
    and set_option: "ok c \<Longrightarrow> view c n = Some v \<Longrightarrow>
      writes ok view (SetDatabaseOption (dbs cl) n opt b) c ((view c)(n \<mapsto> v\<lparr>v_Options := (v_Options v)(opt := b)\<rparr>))"
    and get_collation: "ok c \<Longrightarrow> view c n = Some v \<Longrightarrow>
      reads ok view (GetDatabaseCollation (dbs cl) n) c (v_Collation v)"
    and close_law: "ok c \<Longrightarrow> ok (CloseClient cl c) \<and> view (CloseClient cl c) = view c"

section \<open>What a reconciliation makes of a database\<close>

text \<open>Recovery models and compatibility levels the CRD's validation admits.\<close>

definition admissible :: "DatabaseSpec \<Rightarrow> bool" where
  "admissible sp \<longleftrightarrow> db_RecoveryModel sp \<noteq> Some [] \<and> (case db_CompatibilityLevel sp of Some l \<Rightarrow> 0 < l | None \<Rightarrow> True)"

definition with_owner :: "DatabaseSpec \<Rightarrow> DatabaseView \<Rightarrow> DatabaseView" where
  "with_owner sp v = (case db_Owner sp of None \<Rightarrow> v | Some x \<Rightarrow> v\<lparr>v_Owner := x\<rparr>)"

definition with_recovery :: "DatabaseSpec \<Rightarrow> DatabaseView \<Rightarrow> DatabaseView" where
  "with_recovery sp v =
     (case db_RecoveryModel sp of None \<Rightarrow> v | Some x \<Rightarrow> v\<lparr>v_RecoveryModel := desired_recovery_model x\<rparr>)"

definition with_compat :: "DatabaseSpec \<Rightarrow> DatabaseView \<Rightarrow> DatabaseView" where
  "with_compat sp v =
     (case db_CompatibilityLevel sp of None \<Rightarrow> v | Some x \<Rightarrow> v\<lparr>v_CompatibilityLevel := x\<rparr>)"

definition upd_option :: "(string \<Rightarrow> bool) \<Rightarrow> DatabaseOption \<Rightarrow> string \<Rightarrow> bool" where
  "upd_option f o' = f(do_Name o' := do_Value o')"

definition with_options :: "DatabaseOption list \<Rightarrow> DatabaseView \<Rightarrow> DatabaseView" where
  "with_options os v = v\<lparr>v_Options := foldl upd_option (v_Options v) os\<rparr>"

text \<open>
  The pass that creates a database sets its owner and options; recovery model and
  compatibility level are only looked at when the database existed before the pass.
\<close>

definition target_view :: "DatabaseSpec \<Rightarrow> bool \<Rightarrow> DatabaseView \<Rightarrow> DatabaseView" where
  "target_view sp existed v =
     with_options (db_Options sp)
       ((if existed then with_compat sp \<circ> with_recovery sp else id) (with_owner sp v))"

text \<open>The server already has everything the specification asks for.\<close>

definition settled :: "DatabaseSpec \<Rightarrow> DatabaseView \<Rightarrow> bool" where
  "settled sp v \<longleftrightarrow>
     (case db_Owner sp of Some x \<Rightarrow> v_Owner v = x | None \<Rightarrow> True) \<and>
     (case db_RecoveryModel sp of Some x \<Rightarrow> v_RecoveryModel v = desired_recovery_model x | None \<Rightarrow> True) \<and>
     (case db_CompatibilityLevel sp of Some x \<Rightarrow> v_CompatibilityLevel v = x | None \<Rightarrow> True) \<and>
     (\<forall>o' \<in> set (db_Options sp). v_Options v (do_Name o') = do_Value o')"

definition collation_drift :: "DatabaseSpec \<Rightarrow> DatabaseView \<Rightarrow> bool" where
  "collation_drift sp v \<longleftrightarrow> (case db_Collation sp of Some x \<Rightarrow> v_Collation v \<noteq> x | None \<Rightarrow> False)"

lemma with_options_Cons:
  "with_options (o' # os) v = with_options os (v\<lparr>v_Options := (v_Options v)(do_Name o' := do_Value o')\<rparr>)"
  by (simp add: with_options_def upd_option_def)

lemma v_Collation_target [simp]: "v_Collation (target_view sp b v) = v_Collation v"
  by (simp add: target_view_def with_options_def with_owner_def with_recovery_def with_compat_def
      split: option.split)

lemma foldl_settled:
  "(\<forall>o' \<in> set os. f (do_Name o') = do_Value o') \<Longrightarrow> foldl upd_option f os = f"
proof (induction os)
  case (Cons o' os)
  then have "upd_option f o' = f" by (simp add: upd_option_def fun_upd_idem)
  with Cons show ?case by simp
qed simp

lemma settled_target: "settled sp v \<Longrightarrow> target_view sp True v = v"
  by (simp add: settled_def target_view_def with_options_def with_owner_def with_recovery_def with_compat_def
      foldl_settled split: option.splits)

text \<open>With no option listed twice, one pass over an existing database settles it.\<close>

lemma foldl_options:
  assumes "distinct (List.map do_Name os)"
  shows "foldl upd_option f os k =
    (case find (\<lambda>o'. do_Name o' = k) os of Some o' \<Rightarrow> do_Value o' | None \<Rightarrow> f k)"
  using assms
proof (induction os arbitrary: f)
  case (Cons o' os)
  then have "find (\<lambda>x. do_Name x = do_Name o') os = None" by (auto simp: find_None_iff image_iff)
  with Cons show ?case by (auto simp: upd_option_def)
qed simp

lemma find_distinct:
  "distinct (List.map do_Name os) \<Longrightarrow> o' \<in> set os \<Longrightarrow> find (\<lambda>x. do_Name x = do_Name o') os = Some o'"
  by (induction os) force+

lemma target_settled:
  assumes "distinct (List.map do_Name (db_Options sp))"
  shows "settled sp (target_view sp True v)"
  using assms
  by (auto simp: settled_def target_view_def with_options_def with_owner_def with_recovery_def with_compat_def
      foldl_options find_distinct split: option.split)

section \<open>The stages establish it\<close>

lemma view_unchanged:
  "v_Owner v = x \<Longrightarrow> v\<lparr>v_Owner := x\<rparr> = v"
  "v_RecoveryModel v = x \<Longrightarrow> v\<lparr>v_RecoveryModel := x\<rparr> = v"
  "v_CompatibilityLevel v = l \<Longrightarrow> v\<lparr>v_CompatibilityLevel := l\<rparr> = v"
  "v_Options v = f \<Longrightarrow> v\<lparr>v_Options := f\<rparr> = v"
  by (cases v; simp)+

lemma with_fields [simp]:
  "v_RecoveryModel (with_owner sp v) = v_RecoveryModel v"
  "v_CompatibilityLevel (with_owner sp v) = v_CompatibilityLevel v"
  "v_CompatibilityLevel (with_recovery sp v) = v_CompatibilityLevel v"
  "v_Options (with_owner sp v) = v_Options v" "v_Options (with_recovery sp v) = v_Options v"
  "v_Options (with_compat sp v) = v_Options v"
  by (simp_all add: with_owner_def with_recovery_def with_compat_def split: option.split)

lemma Database_create_existing: "Database_create cl db True = ret ()"
  by (simp only: Database_create_def Let_def if_False not_True_eq_False)

lemma Database_stage_new: "Database_recovery cl db False = ret ()" "Database_compat cl db False = ret ()"
  by (simp_all only: Database_recovery_def Database_compat_def Let_def if_False option.case_eq_if if_cancel)

lemma desired_recovery_model_nonempty: "rm \<noteq> [] \<Longrightarrow> desired_recovery_model rm \<noteq> []"
  by (simp add: desired_recovery_model_def)

context database_server
begin

lemma advances_owner:
  "advances ok view (case db_Owner (Spec db) of Some x \<Rightarrow> v_Owner v = x | None \<Rightarrow> True)
     (Database_owner cl db) (db_DatabaseName (Spec db)) v (with_owner (Spec db) v)"
  unfolding Database_owner_def with_owner_def Let_def
  by (auto split: option.split intro!: advances_adjust advances_event get_owner set_owner simp: view_unchanged)

lemma advances_recovery:
  assumes "admissible (Spec db)"
  shows "advances ok view
     (case db_RecoveryModel (Spec db) of Some x \<Rightarrow> v_RecoveryModel v = desired_recovery_model x | None \<Rightarrow> True)
     (Database_recovery cl db True) (db_DatabaseName (Spec db)) v (with_recovery (Spec db) v)"
  using assms
  unfolding Database_recovery_def with_recovery_def Let_def admissible_def
  by (auto split: option.split intro!: advances_adjust advances_event get_recovery set_recovery
      simp: view_unchanged desired_recovery_model_nonempty)

lemma advances_compat:
  assumes "admissible (Spec db)"
  shows "advances ok view
     (case db_CompatibilityLevel (Spec db) of Some x \<Rightarrow> v_CompatibilityLevel v = x | None \<Rightarrow> True)
     (Database_compat cl db True) (db_DatabaseName (Spec db)) v (with_compat (Spec db) v)"
  using assms
  unfolding Database_compat_def with_compat_def Let_def admissible_def
  by (auto split: option.split intro!: advances_adjust advances_event get_compat set_compat simp: view_unchanged)

lemma advances_options:
  "advances ok view (\<forall>o' \<in> set os. v_Options v (do_Name o') = do_Value o')
     (Database_options cl n os :: (unit, ('k, 'c) world) op) n v (with_options os v)"
proof (induction os arbitrary: v)
  case Nil
  have "with_options [] v = v" by (simp add: with_options_def)
  then show ?case unfolding Database_options.simps by (metis advances_ret)
next
  case (Cons o' os)
  let ?v1 = "v\<lparr>v_Options := (v_Options v)(do_Name o' := do_Value o')\<rparr>"
  let ?rest = "Database_options cl n os :: (unit, ('k, 'c) world) op"
  let ?quiet = "\<forall>x \<in> set (o' # os). v_Options v (do_Name x) = do_Value x"
  show ?case
    unfolding Database_options.simps with_options_Cons
  proof (rule advances_adjust)
    show "reads ok view (GetDatabaseOption (dbs cl) n (do_Name o')) c (v_Options v (do_Name o'))"
      if "ok c" "view c n = Some v" for c
      using that by (rule get_option)
    show "writes ok view (SetDatabaseOption (dbs cl) n (do_Name o') (do_Value o')) c ((view c)(n \<mapsto> ?v1))"
      if "ok c" "view c n = Some v" for c
      using that by (rule set_option)
    show "\<not> ?quiet \<and> advances ok view False (effect (record_event ''Normal'' ''DatabaseOptionUpdated''
        (''Database '' @ n @ '' option '' @ do_Name o' @ '' set to '' @ show_bool (do_Value o'))) ?rest) n ?v1
        (with_options os ?v1)"
      if "v_Options v (do_Name o') \<noteq> do_Value o'"
    proof -
      from that have nq: "\<not> ?quiet" by simp
      show ?thesis by (rule conjI [OF nq], rule advances_event, rule advances_weaken [OF Cons.IH]) simp
    qed
    show "advances ok view ?quiet ?rest n v (with_options os ?v1)"
      if "v_Options v (do_Name o') = do_Value o'"
    proof -
      from that have "?v1 = v" by (simp add: view_unchanged fun_upd_idem)
      then have "advances ok view (\<forall>x \<in> set os. v_Options v (do_Name x) = do_Value x)
          ?rest n v (with_options os ?v1)"
        using Cons.IH [of v] by (simp only:)
      then show ?thesis by (rule advances_weaken) simp
    qed
  qed
qed

lemma advances_configure:
  assumes "admissible (Spec db)" and "\<not> existed \<Longrightarrow> \<not> quiet" and "quiet \<Longrightarrow> settled (Spec db) v"
  shows "advances ok view quiet
     (andthen (Database_owner cl db) (andthen (Database_recovery cl db existed)
       (andthen (Database_compat cl db existed)
         (Database_options cl (db_DatabaseName (Spec db)) (db_Options (Spec db)))))
      :: (unit, ('k, 'c) world) op)
     (db_DatabaseName (Spec db)) v (target_view (Spec db) existed v)"
proof -
  let ?sp = "Spec db" let ?n = "db_DatabaseName (Spec db)"
  let ?v1 = "with_owner ?sp v"
  let ?v2 = "(if existed then with_recovery ?sp else id) ?v1"
  let ?v3 = "(if existed then with_compat ?sp else id) ?v2"
  have 1: "advances ok view quiet (Database_owner cl db :: (unit, ('k, 'c) world) op) ?n v ?v1"
    by (rule advances_weaken [OF advances_owner]) (use assms(3) in \<open>auto simp: settled_def\<close>)
  have 2: "advances ok view quiet (Database_recovery cl db existed :: (unit, ('k, 'c) world) op) ?n ?v1 ?v2"
  proof (cases existed)
    case True
    show ?thesis
      by (simp only: True if_True, rule advances_weaken [OF advances_recovery [OF assms(1)]])
         (use assms(3) in \<open>simp add: settled_def cong: option.case_cong\<close>)
  next
    case False
    then show ?thesis by (simp only: if_False id_apply Database_stage_new) (rule advances_ret)
  qed
  have 3: "advances ok view quiet (Database_compat cl db existed :: (unit, ('k, 'c) world) op) ?n ?v2 ?v3"
  proof (cases existed)
    case True
    show ?thesis
      by (simp only: True if_True, rule advances_weaken [OF advances_compat [OF assms(1)]])
         (use assms(3) in \<open>simp add: settled_def cong: option.case_cong\<close>)
  next
    case False
    then show ?thesis by (simp only: if_False id_apply Database_stage_new) (rule advances_ret)
  qed
  have 4: "advances ok view quiet (Database_options cl ?n (db_Options ?sp) :: (unit, ('k, 'c) world) op) ?n ?v3 (with_options (db_Options ?sp) ?v3)"
    by (rule advances_weaken [OF advances_options]) (use assms(3) in \<open>simp add: settled_def\<close>)
  have t: "target_view ?sp existed v = with_options (db_Options ?sp) ?v3"
    by (simp add: target_view_def)
  show ?thesis
    unfolding t by (rule advances_andthen [OF 1 advances_andthen [OF 2 advances_andthen [OF 3 4]]])
qed

text \<open>The synchronisation, with its four configuring stages as one.\<close>

lemma Database_sync_stages:
  "Database_sync R cl db =
     or_fail ''failed to check database existence''
       (on_sql (DatabaseExists (dbs cl) (db_DatabaseName (Spec db)))) (\<lambda>exists.
     andthen (Database_create cl db exists) (
     andthen (andthen (Database_owner cl db) (andthen (Database_recovery cl db exists)
         (andthen (Database_compat cl db exists)
           (Database_options cl (db_DatabaseName (Spec db)) (db_Options (Spec db)))))) (
     Database_collation R cl db exists
       (Database_setConditionAndReturn R db ConditionTrue ReasonReady
          (''Database '' @ db_DatabaseName (Spec db) @ '' is ready'')))))"
  by (simp add: Database_sync_def Let_def andthen_assoc)

lemma wp_collation_existing:
  assumes laws: "api_laws R objs secs srvs" and base: "objs (kube w) (request_of db) = Some db"
    and live: "\<not> cr_Deleting db" and c: "ok (sql w)" "view (sql w) (db_DatabaseName (Spec db)) = Some v"
    and same: "events w = evs \<or> \<not> quiet"
  shows "succeeds (Database_collation R cl db True
      (Database_setConditionAndReturn R db ConditionTrue ReasonReady msg)) w
    (\<lambda>r w'. ok (sql w') \<and> view (sql w') = view (sql w) \<and>
      (if collation_drift (Spec db) v
       then r = Result 0 \<and> reported objs secs srvs db ConditionFalse ReasonCollationChangeNotSupported (kube w) (kube w')
       else 24 * second \<le> RequeueAfter r \<and> RequeueAfter r < 36 * second
         \<and> reported objs secs srvs db ConditionTrue ReasonReady (kube w) (kube w') \<and> (quiet \<longrightarrow> events w' = evs)))"
proof (cases "db_Collation (Spec db)")
  case None
  show ?thesis
    unfolding Database_collation_def Let_def None option.simps Database_setConditionAndReturn_def
    by (rule wp_setConditionAndReturn [OF laws base live]) (use None c same in \<open>auto simp: collation_drift_def\<close>)
next
  case (Some x)
  show ?thesis
    unfolding Database_collation_def Let_def Some option.simps if_True Database_setConditionAndReturn_def
      wp_or_fail wp_on_sql
    by (rule wp_reads [OF get_collation [OF c]], simp only: wp_if wp_effect, rule conjI [THEN if_split [THEN iffD2]];
        intro impI; rule wp_setConditionAndReturn [OF laws _ live])
       (use Some base same in \<open>auto simp: collation_drift_def\<close>)
qed

lemma wp_create:
  assumes "ok (sql w)" and "view (sql w) (db_DatabaseName (Spec db)) = None"
    and "\<And>w'. ok (sql w') \<Longrightarrow> kube w' = kube w \<Longrightarrow>
      view (sql w') = (view (sql w))(db_DatabaseName (Spec db) \<mapsto> fresh (db_Collation (Spec db))) \<Longrightarrow> Q () w'"
  shows "wp (Database_create cl db False) w Q E"
  unfolding Database_create_def Let_def if_True not_False_eq_True wp_or_fail wp_on_sql wp_effect wp_ret
  by (rule wp_writes [OF create_law [OF assms(1,2)]]) (simp add: assms(3))

theorem sync_existing:
  assumes laws: "api_laws R objs secs srvs" and base: "objs (kube w) (request_of db) = Some db"
    and live: "\<not> cr_Deleting db" and c: "ok (sql w)" "view (sql w) (db_DatabaseName (Spec db)) = Some v"
    and adm: "admissible (Spec db)"
  shows "succeeds (Database_sync R cl db) w
    (\<lambda>r w'. ok (sql w') \<and>
      view (sql w') = (view (sql w))(db_DatabaseName (Spec db) \<mapsto> target_view (Spec db) True v) \<and>
      (if collation_drift (Spec db) v
       then r = Result 0 \<and> reported objs secs srvs db ConditionFalse ReasonCollationChangeNotSupported (kube w) (kube w')
       else 24 * second \<le> RequeueAfter r \<and> RequeueAfter r < 36 * second
         \<and> reported objs secs srvs db ConditionTrue ReasonReady (kube w) (kube w')
         \<and> (settled (Spec db) v \<longrightarrow> events w' = events w)))" (is "wp _ _ ?Q _")
proof -
  have t: "collation_drift (Spec db) (target_view (Spec db) True v) = collation_drift (Spec db) v"
    by (simp add: collation_drift_def split: option.split)
  have x: "reads ok view (DatabaseExists (dbs cl) (db_DatabaseName (Spec db))) (sql w) True"
    using exists_law [OF c(1), of "db_DatabaseName (Spec db)"] c(2) by simp
  show ?thesis
    unfolding Database_sync_stages wp_or_fail wp_on_sql
  proof (rule wp_reads [OF x])
    fix c' assume c': "ok c'" "view c' = view (sql w)"
    let ?w = "w\<lparr>sql := c'\<rparr>"
    show "succeeds (andthen (Database_create cl db True) (
        andthen (andthen (Database_owner cl db) (andthen (Database_recovery cl db True)
         (andthen (Database_compat cl db True)
           (Database_options cl (db_DatabaseName (Spec db)) (db_Options (Spec db)))))) (
        Database_collation R cl db True
          (Database_setConditionAndReturn R db ConditionTrue ReasonReady
            (''Database '' @ db_DatabaseName (Spec db) @ '' is ready''))))) ?w ?Q"
      unfolding Database_create_existing andthen_ret wp_andthen [of "andthen _ _"]
      apply (rule wp_advances [OF advances_configure [OF adm, of True "settled (Spec db) v" v]])
      apply (simp_all add: c c')
      apply (rule wp_mono [OF wp_collation_existing [OF laws _ live, where v = "target_view (Spec db) True v"
          and evs = "events w" and quiet = "settled (Spec db) v"]])
      apply (auto simp: base t split: if_splits)
      done
  qed
qed

theorem sync_missing:
  assumes laws: "api_laws R objs secs srvs" and base: "objs (kube w) (request_of db) = Some db"
    and live: "\<not> cr_Deleting db" and c: "ok (sql w)" "view (sql w) (db_DatabaseName (Spec db)) = None"
    and adm: "admissible (Spec db)"
  shows "succeeds (Database_sync R cl db) w
    (\<lambda>r w'. ok (sql w') \<and>
      view (sql w') = (view (sql w))(db_DatabaseName (Spec db) \<mapsto>
         target_view (Spec db) False (fresh (db_Collation (Spec db)))) \<and>
      24 * second \<le> RequeueAfter r \<and> RequeueAfter r < 36 * second
      \<and> reported objs secs srvs db ConditionTrue ReasonReady (kube w) (kube w'))"
proof -
  let ?v = "fresh (db_Collation (Spec db))"
  have x: "reads ok view (DatabaseExists (dbs cl) (db_DatabaseName (Spec db))) (sql w) False"
    using exists_law [OF c(1), of "db_DatabaseName (Spec db)"] c(2) by simp
  have k: "Database_collation R cl db False k = k" for k
    by (simp add: Database_collation_def Let_def split: option.split)
  show ?thesis
    unfolding Database_sync_stages wp_or_fail wp_on_sql
    apply (rule wp_reads [OF x])
    apply (subst wp_andthen, rule wp_create)
      apply (simp_all add: c)
    apply (subst wp_andthen)
    apply (rule wp_advances [OF advances_configure [OF adm, of False False ?v]])
    apply (simp_all add: k Database_setConditionAndReturn_def)
    apply (rule wp_setConditionAndReturn [OF laws _ live])
    apply (auto simp: base)
    done
qed

lemma wp_Database_Reconcile:
  assumes laws: "api_laws R objs secs srvs" and db: "objs (kube w) (ns, n) = Some db" "request_of db = (ns, n)"
    and live: "\<not> cr_Deleting db"
    and server: "denotes R (secs (kube w)) (srvs (kube w)) ns (db_Server (Spec db)) cl"
    and body: "\<And>k'. objs k' = (objs (kube w))((ns, n) \<mapsto> finalized (kclient R) db) \<Longrightarrow> secs k' = secs (kube w) \<Longrightarrow>
      srvs k' = srvs (kube w) \<Longrightarrow>
      wp (Database_sync R cl (finalized (kclient R) db)) (w\<lparr>kube := k'\<rparr>)
        (\<lambda>r w'. Q r (w'\<lparr>sql := CloseClient cl (sql w')\<rparr>)) (\<lambda>e w'. E e (w'\<lparr>sql := CloseClient cl (sql w')\<rparr>))"
  shows "wp (Database_Reconcile R ns n) w Q E"
proof -
  from server obtain s u p where
    s: "denoted_server (srvs (kube w)) ns (db_Server (Spec db)) = Some s" and
    up: "denoted_credentials (secs (kube w)) (srvs (kube w)) ns (db_Server (Spec db)) = Some (u, p)" and
    cl: "connectToSQL s u p (SQLClientFactory R) = Inr cl"
    by (auto simp: denotes_def)
  have ns: "cr_Namespace db = ns" using db(2) by (simp add: request_of_def)
  show ?thesis
    unfolding Database_Reconcile_def fetch_def wp_attempt wp_on_kube wp_GetCR [OF laws db(1)]
    apply (simp add: live wp_attempt)
    apply (rule wp_ensure_finalizer [OF laws _ live])
     apply (simp add: db)
    subgoal premises k' for k'
    proof -
      have d: "wp (resolveServerCredentials (kclient R) ns (db_Server (Spec db))) k' Q' E' = Q' (u, p) k'" for Q' E'
        by (rule wp_resolveServerCredentials [OF laws]) (simp add: k' up)
      have s': "denoted_server (srvs (kube (w\<lparr>kube := k'\<rparr>))) ns (db_Server (Spec db)) = Some s"
        by (simp add: k' s)
      show ?thesis
        using body [of k'] k' db
        by (simp add: ns wp_with_reference [OF laws s'] Database_connected_def wp_simps d connect_or_fail_def cl)
    qed
    done
qed

lemma wp_Database_drop:
  assumes "ok (sql w)"
    and "\<And>w'. ok (sql w') \<Longrightarrow> kube w' = kube w \<Longrightarrow>
      view (sql w') = (view (sql w))(db_DatabaseName (Spec db) := None) \<Longrightarrow> Q () w'"
  shows "wp (Database_drop cl db) w Q E"
  unfolding Database_drop_def wp_attempt wp_on_sql wp_effect wp_ret
  by (rule wp_writes [OF drop_law [OF assms(1)]]) (simp add: assms(2))

theorem deletion_drops:
  assumes laws: "api_laws R objs secs srvs" and base: "objs (kube w) (request_of db) = Some db"
    and fin: "ContainsFinalizer (kclient R) (cr_Finalizers db) Finalizer"
    and policy: "db_DeletionPolicy (Spec db) = Some DeletionPolicyDelete"
    and server: "denotes R (secs (kube w)) (srvs (kube w)) (cr_Namespace db) (db_Server (Spec db)) cl"
    and c: "ok (sql w)"
  shows "succeeds (Database_handleDeletion R db) w
    (\<lambda>r w'. r = Result 0 \<and> ok (sql w') \<and>
      view (sql w') = (view (sql w))(db_DatabaseName (Spec db) := None) \<and>
      (\<forall>db'. objs (kube w') (request_of db) = Some db' \<longrightarrow>
         \<not> ContainsFinalizer (kclient R) (cr_Finalizers db') Finalizer))"
proof -
  from server obtain s u p where
    s: "denoted_server (srvs (kube w)) (cr_Namespace db) (db_Server (Spec db)) = Some s" and
    up: "denoted_credentials (secs (kube w)) (srvs (kube w)) (cr_Namespace db) (db_Server (Spec db)) = Some (u, p)" and
    cl: "connectToSQL s u p (SQLClientFactory R) = Inr cl"
    by (auto simp: denotes_def)
  show ?thesis
    apply (simp add: Database_handleDeletion_def fin policy Database_cleanup_def wp_attempt wp_on_kube
        wp_resolveServerCredentials [OF laws up] wp_with_reference [OF laws s] cl wp_deferred wp_andthen del: fun_upd_apply)
    apply (rule wp_Database_drop, simp add: c)
    apply (rule wp_remove_finalizer [OF laws])
     apply (simp_all add: base close_law)
    done
qed

end

section \<open>The in-memory server is a database server\<close>

definition abs_db :: "MockDatabase \<Rightarrow> DatabaseView" where
  "abs_db d =
     \<lparr>v_Collation = md_Collation d, v_Owner = md_Owner d,
      v_RecoveryModel = (if md_RecoveryModel d = [] then ''FULL'' else md_RecoveryModel d),
      v_CompatibilityLevel = (if md_CompatibilityLevel d = 0 then 160 else md_CompatibilityLevel d),
      v_Options = (\<lambda>k. case md_Options d of None \<Rightarrow> False | Some os \<Rightarrow> (case os k of Some b \<Rightarrow> b | None \<Rightarrow> False))\<rparr>"

definition database_view :: "MockClient \<Rightarrow> string \<Rightarrow> DatabaseView option" where
  "database_view s n = map_option abs_db (databases s n)"

definition besides_databases :: "MockClient \<Rightarrow> MockClient" where
  "besides_databases s = s\<lparr>databases := Map.empty, calls := (\<lambda>_. 0)\<rparr>"

text \<open>A healthy server, whose logins, users, schemas, permissions and groups are those of \<open>o'\<close>.\<close>

definition mock_db_ok :: "MockClient \<Rightarrow> MockClient \<Rightarrow> bool" where
  "mock_db_ok o' s \<longleftrightarrow> healthy s \<and> besides_databases s = o'"

definition mock_fresh :: "string option \<Rightarrow> DatabaseView" where
  "mock_fresh col = \<lparr>v_Collation = (case col of Some c \<Rightarrow> c | None \<Rightarrow> []), v_Owner = ''dbo'',
     v_RecoveryModel = ''FULL'', v_CompatibilityLevel = 160, v_Options = (\<lambda>_. False)\<rparr>"

lemma besides_databases_simps [simp]:
  "besides_databases (track m s) = besides_databases s"
  "besides_databases (s\<lparr>databases := d\<rparr>) = besides_databases s"
  by (simp_all add: besides_databases_def track_def)

lemma database_view_simps [simp]:
  "database_view (track m s) = database_view s"
  "database_view (s\<lparr>databases := (databases s)(n \<mapsto> d)\<rparr>) = (database_view s)(n \<mapsto> abs_db d)"
  "database_view ((track m s)\<lparr>databases := (databases s)(n \<mapsto> d)\<rparr>) = (database_view s)(n \<mapsto> abs_db d)"
  "database_view ((track m s)\<lparr>databases := (databases s)(n := None)\<rparr>) = (database_view s)(n := None)"
  "(database_view s n = None) = (databases s n = None)"
  by (auto simp: database_view_def)

lemma abs_db_get:
  "v_Collation (abs_db d) = md_Collation d" "v_Owner (abs_db d) = md_Owner d"
  "v_RecoveryModel (abs_db d) = (if md_RecoveryModel d = [] then ''FULL'' else md_RecoveryModel d)"
  "v_CompatibilityLevel (abs_db d) = (if md_CompatibilityLevel d = 0 then 160 else md_CompatibilityLevel d)"
  "v_Options (abs_db d) k = (case md_Options d of None \<Rightarrow> False | Some os \<Rightarrow> (case os k of Some b \<Rightarrow> b | None \<Rightarrow> False))"
  by (simp_all add: abs_db_def)

lemma abs_db_set:
  "abs_db (d\<lparr>md_Owner := x\<rparr>) = (abs_db d)\<lparr>v_Owner := x\<rparr>"
  "rm \<noteq> [] \<Longrightarrow> abs_db (d\<lparr>md_RecoveryModel := rm\<rparr>) = (abs_db d)\<lparr>v_RecoveryModel := rm\<rparr>"
  "0 < l \<Longrightarrow> abs_db (d\<lparr>md_CompatibilityLevel := l\<rparr>) = (abs_db d)\<lparr>v_CompatibilityLevel := l\<rparr>"
  "abs_db (d\<lparr>md_Options := Some ((case md_Options d of Some os \<Rightarrow> os | None \<Rightarrow> Map.empty)(k \<mapsto> b))\<rparr>)
     = (abs_db d)\<lparr>v_Options := (v_Options (abs_db d))(k := b)\<rparr>"
  by (simp_all add: abs_db_def fun_eq_iff split: option.split)

lemma abs_db_fresh:
  "abs_db \<lparr>md_Name = n, md_Collation = (case col of Some c \<Rightarrow> c | None \<Rightarrow> []), md_Owner = ''dbo'', md_RecoveryModel = [],
     md_CompatibilityLevel = 0, md_Options = None\<rparr> = mock_fresh col"
  by (simp add: abs_db_def mock_fresh_def)

lemma database_viewD: "database_view s n = Some v \<Longrightarrow> \<exists>d. databases s n = Some d \<and> v = abs_db d"
  by (auto simp: database_view_def)

lemma mock_dbs_simps:
  "DatabaseExists (dbs mock_client) = Mock_DatabaseExists" "CreateDatabase (dbs mock_client) = Mock_CreateDatabase"
  "DropDatabase (dbs mock_client) = Mock_DropDatabase" "GetDatabaseOwner (dbs mock_client) = Mock_GetDatabaseOwner"
  "SetDatabaseOwner (dbs mock_client) = Mock_SetDatabaseOwner"
  "GetDatabaseCollation (dbs mock_client) = Mock_GetDatabaseCollation"
  "GetDatabaseRecoveryModel (dbs mock_client) = Mock_GetDatabaseRecoveryModel"
  "SetDatabaseRecoveryModel (dbs mock_client) = Mock_SetDatabaseRecoveryModel"
  "GetDatabaseCompatibilityLevel (dbs mock_client) = Mock_GetDatabaseCompatibilityLevel"
  "SetDatabaseCompatibilityLevel (dbs mock_client) = Mock_SetDatabaseCompatibilityLevel"
  "GetDatabaseOption (dbs mock_client) = Mock_GetDatabaseOption"
  "SetDatabaseOption (dbs mock_client) = Mock_SetDatabaseOption" "CloseClient mock_client = Mock_Close"
  by (simp_all add: mock_client_def)

interpretation mock_dbs: database_server mock_client "mock_db_ok o'" database_view mock_fresh for o'
  by (unfold_locales, unfold mock_dbs_simps Mock_method_defs Mock_Close_def mock_db_ok_def reads_def writes_def)
     (force dest!: database_viewD simp: abs_db_get abs_db_set abs_db_fresh Let_def
       | force dest!: database_viewD simp: abs_db_get Let_def split: option.split)+

section \<open>Reconciling against the in-memory server\<close>

lemma mock_dbs_pass_existing:
  assumes "api_laws R objs secs srvs" and "objs (kube w) (ns, n) = Some db" and "request_of db = (ns, n)"
    and "\<not> cr_Deleting db" and "denotes R (secs (kube w)) (srvs (kube w)) ns (db_Server (Spec db)) mock_client"
    and "healthy (sql w)" and "database_view (sql w) (db_DatabaseName (Spec db)) = Some v" and "admissible (Spec db)"
  shows "succeeds (Database_Reconcile R ns n) w (\<lambda>r w'.
    healthy (sql w') \<and> besides_databases (sql w') = besides_databases (sql w) \<and>
    database_view (sql w') = (database_view (sql w))(db_DatabaseName (Spec db) \<mapsto> target_view (Spec db) True v) \<and>
    (if collation_drift (Spec db) v
     then r = Result 0 \<and>
       outcome objs secs srvs (kclient R) db ConditionFalse ReasonCollationChangeNotSupported (kube w) (kube w')
     else 24 * second \<le> RequeueAfter r \<and> RequeueAfter r < 36 * second \<and>
       outcome objs secs srvs (kclient R) db ConditionTrue ReasonReady (kube w) (kube w') \<and>
       (settled (Spec db) v \<longrightarrow> events w' = events w)))" (is "wp _ _ ?Q _")
proof (rule mock_dbs.wp_Database_Reconcile [OF assms(1-5)])
  fix k' assume k': "objs k' = (objs (kube w))((ns, n) \<mapsto> finalized (kclient R) db)"
    "secs k' = secs (kube w)" "srvs k' = srvs (kube w)"
  show "wp (Database_sync R mock_client (finalized (kclient R) db)) (w\<lparr>kube := k'\<rparr>)
    (\<lambda>r w'. ?Q r (w'\<lparr>sql := CloseClient mock_client (sql w')\<rparr>)) (\<lambda>e w'. False)"
    by (rule wp_mono [OF mock_dbs.sync_existing [OF assms(1), where db = "finalized (kclient R) db" and v = v
          and w = "w\<lparr>kube := k'\<rparr>" and o' = "besides_databases (sql w)"]])
       (use assms k' in \<open>auto simp: mock_db_ok_def mock_dbs.close_law [unfolded mock_db_ok_def]
         split: if_splits intro: reported_outcome\<close>)
qed

text \<open>
  C11. Reconciling a \<open>Database\<close> whose database exists always completes, and leaves the server
  with exactly the configuration \<open>target_view\<close> for that database and everything else (the other
  databases, logins, users, schemas, permissions, availability groups) untouched. The object
  gets the finalizer and the condition: not ready with reason \<open>CollationChangeNotSupported\<close>
  when the collation differs, ready otherwise. On a database that is already as asked, no
  event is recorded.
\<close>

theorem Database_reconcile_existing:
  assumes "api_laws R objs secs srvs" and "objs (kube w) (ns, n) = Some db" and "request_of db = (ns, n)"
    and "\<not> cr_Deleting db" and "denotes R (secs (kube w)) (srvs (kube w)) ns (db_Server (Spec db)) mock_client"
    and "healthy (sql w)" and "database_view (sql w) (db_DatabaseName (Spec db)) = Some v" and "admissible (Spec db)"
  shows "succeeds (Database_Reconcile R ns n) w (\<lambda>r w'.
    healthy (sql w') \<and> besides_databases (sql w') = besides_databases (sql w) \<and>
    database_view (sql w') = (database_view (sql w))(db_DatabaseName (Spec db) \<mapsto> target_view (Spec db) True v) \<and>
    (if collation_drift (Spec db) v
     then r = Result 0 \<and>
       outcome objs secs srvs (kclient R) db ConditionFalse ReasonCollationChangeNotSupported (kube w) (kube w')
     else 24 * second \<le> RequeueAfter r \<and> RequeueAfter r < 36 * second \<and>
       outcome objs secs srvs (kclient R) db ConditionTrue ReasonReady (kube w) (kube w') \<and>
       (settled (Spec db) v \<longrightarrow> events w' = events w)))"
  by (rule mock_dbs_pass_existing [OF assms])

lemma mock_dbs_pass_missing:
  assumes "api_laws R objs secs srvs" and "objs (kube w) (ns, n) = Some db" and "request_of db = (ns, n)"
    and "\<not> cr_Deleting db" and "denotes R (secs (kube w)) (srvs (kube w)) ns (db_Server (Spec db)) mock_client"
    and "healthy (sql w)" and "database_view (sql w) (db_DatabaseName (Spec db)) = None" and "admissible (Spec db)"
  shows "succeeds (Database_Reconcile R ns n) w (\<lambda>r w'.
    healthy (sql w') \<and> besides_databases (sql w') = besides_databases (sql w) \<and>
    database_view (sql w') = (database_view (sql w))(db_DatabaseName (Spec db) \<mapsto>
      target_view (Spec db) False (mock_fresh (db_Collation (Spec db)))) \<and>
    24 * second \<le> RequeueAfter r \<and> RequeueAfter r < 36 * second \<and>
    outcome objs secs srvs (kclient R) db ConditionTrue ReasonReady (kube w) (kube w'))" (is "wp _ _ ?Q _")
proof (rule mock_dbs.wp_Database_Reconcile [OF assms(1-5)])
  fix k' assume k': "objs k' = (objs (kube w))((ns, n) \<mapsto> finalized (kclient R) db)"
    "secs k' = secs (kube w)" "srvs k' = srvs (kube w)"
  show "wp (Database_sync R mock_client (finalized (kclient R) db)) (w\<lparr>kube := k'\<rparr>)
    (\<lambda>r w'. ?Q r (w'\<lparr>sql := CloseClient mock_client (sql w')\<rparr>)) (\<lambda>e w'. False)"
    by (rule wp_mono [OF mock_dbs.sync_missing [OF assms(1), where db = "finalized (kclient R) db"
          and w = "w\<lparr>kube := k'\<rparr>" and o' = "besides_databases (sql w)"]])
       (use assms k' in \<open>auto simp: mock_db_ok_def mock_dbs.close_law [unfolded mock_db_ok_def]
         intro: reported_outcome\<close>)
qed

text \<open>
  Reconciling a \<open>Database\<close> that does not exist on the server creates it with the asked
  collation, owner and options, and reports it ready in the same pass, while its recovery
  model and compatibility level are still the server's defaults: \<open>target_view _ False\<close>.
\<close>

theorem Database_reconcile_missing:
  assumes "api_laws R objs secs srvs" and "objs (kube w) (ns, n) = Some db" and "request_of db = (ns, n)"
    and "\<not> cr_Deleting db" and "denotes R (secs (kube w)) (srvs (kube w)) ns (db_Server (Spec db)) mock_client"
    and "healthy (sql w)" and "database_view (sql w) (db_DatabaseName (Spec db)) = None" and "admissible (Spec db)"
  shows "succeeds (Database_Reconcile R ns n) w (\<lambda>r w'.
    healthy (sql w') \<and> besides_databases (sql w') = besides_databases (sql w) \<and>
    database_view (sql w') = (database_view (sql w))(db_DatabaseName (Spec db) \<mapsto>
      target_view (Spec db) False (mock_fresh (db_Collation (Spec db)))) \<and>
    24 * second \<le> RequeueAfter r \<and> RequeueAfter r < 36 * second \<and>
    outcome objs secs srvs (kclient R) db ConditionTrue ReasonReady (kube w) (kube w'))"
  by (rule mock_dbs_pass_missing [OF assms])

text \<open>
  C10. Two consecutive passes make the server agree with the specification of a database that
  did not exist: with no option listed twice, everything asked for is set, the collation is
  the asked one, and the object is ready.
\<close>

theorem Database_reconcile_converges:
  fixes w :: "('k, MockClient) world"
  assumes "api_laws R objs secs srvs" and "objs (kube w) (ns, n) = Some db" and "request_of db = (ns, n)"
    and "\<not> cr_Deleting db" and "denotes R (secs (kube w)) (srvs (kube w)) ns (db_Server (Spec db)) mock_client"
    and "healthy (sql w)" and "database_view (sql w) (db_DatabaseName (Spec db)) = None" and "admissible (Spec db)"
    and "distinct (List.map do_Name (db_Options (Spec db)))"
  shows "succeeds (attempt (Database_Reconcile R ns n) fail (\<lambda>_. Database_Reconcile R ns n)) w (\<lambda>r w'.
    (\<exists>v. database_view (sql w') = (database_view (sql w))(db_DatabaseName (Spec db) \<mapsto> v) \<and> settled (Spec db) v
       \<and> \<not> collation_drift (Spec db) v) \<and>
    (\<exists>db'. objs (kube w') (ns, n) = Some db' \<and> Spec db' = Spec db \<and> ready_status db' = Some (ConditionTrue, ReasonReady)))"
  unfolding wp_attempt
proof (rule wp_mono [OF mock_dbs_pass_missing [OF assms(1-8)]])
  let ?v1 = "target_view (Spec db) False (mock_fresh (db_Collation (Spec db)))"
  fix r :: Result and w1 :: "('k, MockClient) world"
  assume A: "healthy (sql w1) \<and> besides_databases (sql w1) = besides_databases (sql w) \<and>
    database_view (sql w1) = (database_view (sql w))(db_DatabaseName (Spec db) \<mapsto> ?v1) \<and>
    24 * second \<le> RequeueAfter r \<and> RequeueAfter r < 36 * second \<and>
    outcome objs secs srvs (kclient R) db ConditionTrue ReasonReady (kube w) (kube w1)"
  then have "outcome objs secs srvs (kclient R) db ConditionTrue ReasonReady (kube w) (kube w1)" by simp
  from outcomeE [OF this, unfolded assms(3)]
  obtain st where o1: "objs (kube w1) (ns, n) = Some ((finalized (kclient R) db)\<lparr>Status := st\<rparr>)"
      "secs (kube w1) = secs (kube w)" "srvs (kube w1) = srvs (kube w)" by metis
  let ?db = "(finalized (kclient R) db)\<lparr>Status := st\<rparr>"
  have nodrift: "\<not> collation_drift (Spec db) ?v1"
    by (cases "db_Collation (Spec db)") (simp_all add: collation_drift_def mock_fresh_def)
  then have nodrift': "\<not> collation_drift (Spec db) (target_view (Spec db) True ?v1)"
    by (cases "db_Collation (Spec db)") (simp_all add: collation_drift_def)
  show "succeeds (Database_Reconcile R ns n) w1 (\<lambda>r w'.
    (\<exists>v. database_view (sql w') = (database_view (sql w))(db_DatabaseName (Spec db) \<mapsto> v) \<and> settled (Spec db) v
       \<and> \<not> collation_drift (Spec db) v) \<and>
    (\<exists>db'. objs (kube w') (ns, n) = Some db' \<and> Spec db' = Spec db \<and> ready_status db' = Some (ConditionTrue, ReasonReady)))"
  proof (rule wp_mono [OF mock_dbs_pass_existing [OF assms(1) o1(1), where v = ?v1]])
    show "request_of ?db = (ns, n)" "\<not> cr_Deleting ?db" "admissible (Spec ?db)"
      "denotes R (secs (kube w1)) (srvs (kube w1)) ns (db_Server (Spec ?db)) mock_client" "healthy (sql w1)"
      "database_view (sql w1) (db_DatabaseName (Spec ?db)) = Some ?v1"
      using assms(3,4,5,8) A by (simp_all add: o1)
    fix r and w' :: "('k, MockClient) world"
    assume B: "healthy (sql w') \<and> besides_databases (sql w') = besides_databases (sql w1) \<and>
      database_view (sql w') = (database_view (sql w1))(db_DatabaseName (Spec ?db) \<mapsto> target_view (Spec ?db) True ?v1) \<and>
      (if collation_drift (Spec ?db) ?v1
       then r = Result 0 \<and>
         outcome objs secs srvs (kclient R) ?db ConditionFalse ReasonCollationChangeNotSupported (kube w1) (kube w')
       else 24 * second \<le> RequeueAfter r \<and> RequeueAfter r < 36 * second \<and>
         outcome objs secs srvs (kclient R) ?db ConditionTrue ReasonReady (kube w1) (kube w') \<and>
         (settled (Spec ?db) ?v1 \<longrightarrow> events w' = events w1))"
    then have "outcome objs secs srvs (kclient R) ?db ConditionTrue ReasonReady (kube w1) (kube w')"
      using nodrift by simp
    then have "\<exists>db'. objs (kube w') (ns, n) = Some db' \<and> Spec db' = Spec db
        \<and> ready_status db' = Some (ConditionTrue, ReasonReady)"
      by (rule outcomeE) (simp add: assms(3))
    moreover have "database_view (sql w') = (database_view (sql w))(db_DatabaseName (Spec db) \<mapsto> target_view (Spec db) True ?v1)"
      using A B by simp
    ultimately show "(\<exists>v. database_view (sql w') = (database_view (sql w))(db_DatabaseName (Spec db) \<mapsto> v)
        \<and> settled (Spec db) v \<and> \<not> collation_drift (Spec db) v) \<and>
      (\<exists>db'. objs (kube w') (ns, n) = Some db' \<and> Spec db' = Spec db \<and> ready_status db' = Some (ConditionTrue, ReasonReady))"
      using target_settled [OF assms(9), of ?v1] nodrift' by blast
  qed simp
qed simp

text \<open>
  With deletion policy \<open>Delete\<close> and a reachable server, deleting the object drops exactly
  its database and releases the object from the finalizer.
\<close>

theorem Database_deletion_drops:
  assumes "api_laws R objs secs srvs" and "objs (kube w) (request_of db) = Some db"
    and "ContainsFinalizer (kclient R) (cr_Finalizers db) Finalizer"
    and "db_DeletionPolicy (Spec db) = Some DeletionPolicyDelete"
    and "denotes R (secs (kube w)) (srvs (kube w)) (cr_Namespace db) (db_Server (Spec db)) mock_client"
    and "healthy (sql w)"
  shows "succeeds (Database_handleDeletion R db) w (\<lambda>r w'. r = Result 0 \<and>
    besides_databases (sql w') = besides_databases (sql w) \<and>
    database_view (sql w') = (database_view (sql w))(db_DatabaseName (Spec db) := None) \<and>
    (\<forall>db'. objs (kube w') (request_of db) = Some db' \<longrightarrow>
       \<not> ContainsFinalizer (kclient R) (cr_Finalizers db') Finalizer))"
  by (rule wp_mono [OF mock_dbs.deletion_drops [OF assms(1-5), where o' = "besides_databases (sql w)"]])
     (use assms(6) in \<open>auto simp: mock_db_ok_def\<close>)

text \<open>
  With any other deletion policy, or none, deletion does not touch the SQL server at all,
  whatever the API server answers.
\<close>

theorem Database_deletion_retains:
  assumes "db_DeletionPolicy (Spec db) \<noteq> Some DeletionPolicyDelete"
  shows "sql (snd (Database_handleDeletion R db w)) = sql w"
  using assms
  by (auto simp: always_iff [of _ _ "\<lambda>w'. sql w' = sql w", symmetric] Database_handleDeletion_def
      remove_finalizer_def wp_simps
      DeletionPolicyRetain_def DeletionPolicyDelete_def split: option.split)

text \<open>
  C12. A deletion is never blocked by the SQL server: whatever the server, its credentials or
  its connection do, the finalizer is removed and the reconciliation ends without an error.
\<close>

theorem Database_deletion_never_blocked:
  fixes w :: "('k, 'c) world"
  assumes "api_laws R objs secs srvs" and "objs (kube w) (request_of db) = Some db"
    and "ContainsFinalizer (kclient R) (cr_Finalizers db) Finalizer"
  shows "succeeds (Database_handleDeletion R db) w (\<lambda>r w'. r = Result 0 \<and>
    (\<forall>db'. objs (kube w') (request_of db) = Some db' \<longrightarrow>
       \<not> ContainsFinalizer (kclient R) (cr_Finalizers db') Finalizer))"
  proof -
  have drop: "succeeds (Database_drop cl db) w' (\<lambda>_ w''. kube w'' = kube w')" for cl and w' :: "('k, 'c) world"
    by (simp add: Database_drop_def wp_simps)
  have fin: "wp (remove_finalizer R db) w' (\<lambda>r w'. r = Result 0 \<and>
    (\<forall>db'. objs (kube w') (request_of db) = Some db' \<longrightarrow>
       \<not> ContainsFinalizer (kclient R) (cr_Finalizers db') Finalizer)) E" if "kube w' = kube w" for w' E
    by (rule wp_remove_finalizer [OF assms(1)]) (use that assms(2) in auto)
  show ?thesis
    unfolding Database_handleDeletion_def Database_cleanup_def Let_def wp_if wp_attempt wp_on_kube
    apply (simp add: assms(3) fin)
    apply (rule impI, rule wp_unchanged [OF resolve_reads(1) [OF assms(1)]])
     apply (simp_all add: fin split: prod.split)
    apply (intro allI impI, rule wp_with_reference_any [OF assms(1)])
    apply (auto simp: wp_simps fin split: sum.split intro!: wp_mono [OF drop])
    done
qed

section \<open>Examples\<close>

definition ex_dbspec :: DatabaseSpec where
  "ex_dbspec = \<lparr>db_Server = ex_server, db_DatabaseName = ''app'', db_Collation = Some ''C1'', db_Owner = Some ''sa'',
     db_RecoveryModel = Some ''BulkLogged'', db_CompatibilityLevel = Some 150,
     db_Options = [\<lparr>do_Name = ''AUTO_CLOSE'', do_Value = True\<rparr>], db_DeletionPolicy = Some ''Delete''\<rparr>"

definition ex_db :: Database where
  "ex_db = ex_cr ex_dbspec ex_status"

text \<open>A server with the database \<open>app\<close> in another collation.\<close>

definition ex_db_server :: MockClient where
  "ex_db_server = NewMockClient\<lparr>databases := [''app'' \<mapsto> \<lparr>md_Name = ''app'', md_Collation = ''C2'', md_Owner = ''dbo'',
     md_RecoveryModel = [], md_CompatibilityLevel = 0, md_Options = None\<rparr>]\<rparr>"

definition ex_db_view :: DatabaseView where
  "ex_db_view = \<lparr>v_Collation = ''C2'', v_Owner = ''dbo'', v_RecoveryModel = ''FULL'', v_CompatibilityLevel = 160,
     v_Options = (\<lambda>_. False)\<rparr>"

lemma ex_dbspec_simps [simp]:
  "db_Server ex_dbspec = ex_server" "db_DatabaseName ex_dbspec = ''app''" "db_Options ex_dbspec = [\<lparr>do_Name = ''AUTO_CLOSE'', do_Value = True\<rparr>]"
  "db_DeletionPolicy ex_dbspec = Some DeletionPolicyDelete" "db_Collation ex_dbspec = Some ''C1''" "admissible ex_dbspec"
  by (simp_all add: ex_dbspec_def DeletionPolicyDelete_def admissible_def)

lemma ex_db_server_simps [simp]:
  "healthy ex_db_server" "database_view ex_db_server ''app'' = Some ex_db_view"
  "database_view NewMockClient n = None"
  by (simp_all add: ex_db_server_def ex_db_view_def database_view_def abs_db_def NewMockClient_def healthy_def)

theorem Database_reconcile_existing_witness:
  "succeeds (Database_Reconcile (ex_reconciler mock_client) ''ns'' ''obj'') (ex_world ex_db ex_db_server) (\<lambda>r w'.
     r = Result 0 \<and> database_view (sql w') ''app'' = Some \<lparr>v_Collation = ''C2'', v_Owner = ''sa'',
       v_RecoveryModel = ''BULK_LOGGED'', v_CompatibilityLevel = 150, v_Options = (\<lambda>_. False)(''AUTO_CLOSE'' := True)\<rparr>)"
  by (rule wp_mono [OF Database_reconcile_existing [OF ex_api_laws, where db = ex_db and v = ex_db_view]])
     (auto simp: ex_db_def ex_denotes ex_db_view_def collation_drift_def target_view_def with_options_def
       upd_option_def with_owner_def with_recovery_def with_compat_def desired_recovery_model_def ex_dbspec_def admissible_def)

theorem Database_reconcile_missing_witness:
  "succeeds (Database_Reconcile (ex_reconciler mock_client) ''ns'' ''obj'') (ex_world ex_db NewMockClient) (\<lambda>r w'.
     24 * second \<le> RequeueAfter r \<and> database_view (sql w') ''app'' = Some \<lparr>v_Collation = ''C1'', v_Owner = ''sa'',
       v_RecoveryModel = ''FULL'', v_CompatibilityLevel = 160, v_Options = (\<lambda>_. False)(''AUTO_CLOSE'' := True)\<rparr>)"
  by (rule wp_mono [OF Database_reconcile_missing [OF ex_api_laws, where db = ex_db]])
     (auto simp: ex_db_def ex_denotes target_view_def with_options_def upd_option_def with_owner_def
       mock_fresh_def ex_dbspec_def admissible_def)

theorem Database_reconcile_converges_witness:
  "succeeds (attempt (Database_Reconcile (ex_reconciler mock_client) ''ns'' ''obj'') fail
      (\<lambda>_. Database_Reconcile (ex_reconciler mock_client) ''ns'' ''obj'')) (ex_world ex_db NewMockClient) (\<lambda>r w'.
     \<exists>v. database_view (sql w') ''app'' = Some v \<and> v_RecoveryModel v = ''BULK_LOGGED'' \<and> v_Collation v = ''C1'')"
  by (rule wp_mono [OF Database_reconcile_converges [OF ex_api_laws, where db = ex_db]])
     (auto simp: ex_db_def ex_denotes settled_def collation_drift_def desired_recovery_model_def ex_dbspec_def admissible_def)

theorem Database_deletion_drops_witness:
  "succeeds (Database_handleDeletion (ex_reconciler mock_client) ex_db) (ex_world ex_db ex_db_server) (\<lambda>r w'.
     database_view (sql w') ''app'' = None)"
  by (rule wp_mono [OF Database_deletion_drops [OF ex_api_laws]]) (simp_all add: ex_db_def ex_denotes)

theorem Database_deletion_retains_witness:
  "sql (snd (Database_handleDeletion (ex_reconciler mock_client)
     (ex_cr (ex_dbspec\<lparr>db_DeletionPolicy := None\<rparr>) ex_status) (ex_world ex_db ex_db_server))) = ex_db_server"
  by (subst Database_deletion_retains) simp_all

theorem Database_deletion_never_blocked_witness:
  "succeeds (Database_handleDeletion (ex_reconciler mock_client) ex_db)
     (ex_world ex_db (ex_db_server\<lparr>ConnectError := Some (Errorf ''down'')\<rparr>)) (\<lambda>r w'. r = Result 0)"
  by (rule wp_mono [OF Database_deletion_never_blocked [OF ex_api_laws]]) (simp_all add: ex_db_def)

end
