(* ===== verification/Role_Reconciliation.thy ===== *)
theory Role_Reconciliation
  imports Memory_API Mock_Laws
begin

text \<open>
  The reconciliation of role memberships, which \<open>login_controller.go\<close> (\<open>reconcileServerRoles\<close>)
  and \<open>databaseuser_controller.go\<close> (\<open>reconcileDatabaseRoles\<close>) spell out with different calls and
  messages, and its contract: over any store of memberships it leaves exactly the desired
  ones, and does nothing when they are already there.
\<close>

section \<open>The code\<close>

text \<open>The messages in which the two functions differ.\<close>

record role_texts =
  get_failed :: string
  added :: string
  added_msg :: "string \<Rightarrow> string"
  removed :: string
  removed_msg :: "string \<Rightarrow> string"

definition add_missing ::
  "role_texts \<Rightarrow> (string \<Rightarrow> (unit, 'c) op) \<Rightarrow> string set \<Rightarrow> string \<Rightarrow> (unit, ('k, 'c) world) op" where
  "add_missing tx add currentSet role =
     (if role \<in> currentSet then ret ()
      else or_fail (''failed to add role '' @ role) (on_sql (add role)) (\<lambda>_.
           effect (Normal (added tx) (added_msg tx role)) (ret ())))"

definition remove_extra ::
  "role_texts \<Rightarrow> (string \<Rightarrow> (unit, 'c) op) \<Rightarrow> string set \<Rightarrow> string \<Rightarrow> (unit, ('k, 'c) world) op" where
  "remove_extra tx remove desiredSet role =
     (if role \<in> desiredSet then ret ()
      else or_fail (''failed to remove role '' @ role) (on_sql (remove role)) (\<lambda>_.
           effect (Normal (removed tx) (removed_msg tx role)) (ret ())))"

definition reconcile_roles ::
  "(string list \<Rightarrow> string list) \<Rightarrow> role_texts \<Rightarrow> (string list, 'c) op \<Rightarrow> (string \<Rightarrow> (unit, 'c) op)
   \<Rightarrow> (string \<Rightarrow> (unit, 'c) op) \<Rightarrow> string list \<Rightarrow> (unit, ('k, 'c) world) op" where
  "reconcile_roles order tx get add remove desiredRoles =
     or_fail (get_failed tx) (on_sql get) (\<lambda>currentRoles.
     andthen (for_each (add_missing tx add (toSet currentRoles)) (order desiredRoles))
       (for_each (remove_extra tx remove (toSet desiredRoles)) (order currentRoles)))"

section \<open>The contract\<close>

text \<open>
  Entries with a set of roles, and the calls that read and change it for one entry.
\<close>

locale role_store =
  fixes ok :: "'c \<Rightarrow> bool"
    and view :: "'c \<Rightarrow> 'i \<Rightarrow> 'v option"
    and roles :: "'v \<Rightarrow> string set"
    and with_roles :: "string set \<Rightarrow> 'v \<Rightarrow> 'v"
    and n :: 'i
    and get :: "(string list, 'c) op"
    and add :: "string \<Rightarrow> (unit, 'c) op"
    and remove :: "string \<Rightarrow> (unit, 'c) op"
  assumes roles_with [simp]: "roles (with_roles s v) = s"
    and with_with [simp]: "with_roles s (with_roles t v) = with_roles s v"
    and with_roles_id [simp]: "with_roles (roles v) v = v"
    and get_law: "ok c \<Longrightarrow> view c n = Some v \<Longrightarrow> \<exists>rs. set rs = roles v \<and> reads ok view get c rs"
    and add_law: "ok c \<Longrightarrow> view c n = Some v \<Longrightarrow>
      writes ok view (add r) c ((view c)(n \<mapsto> with_roles (insert r (roles v)) v))"
    and remove_law: "ok c \<Longrightarrow> view c n = Some v \<Longrightarrow>
      writes ok view (remove r) c ((view c)(n \<mapsto> with_roles (roles v - {r}) v))"
begin

text \<open>One role, then a whole loop over roles.\<close>

lemma advances_add_missing:
  "advances ok view (r \<in> cur) (add_missing tx add cur r :: (unit, ('k, 'c) world) op) n v
     (if r \<in> cur then v else with_roles (insert r (roles v)) v)"
proof (cases "r \<in> cur")
  case False
  have "advances ok view False (or_fail (''failed to add role '' @ r) (on_sql (add r)) (\<lambda>_.
      effect (Normal (added tx) (added_msg tx r)) (ret ())) :: (unit, ('k, 'c) world) op) n v
      (with_roles (insert r (roles v)) v)"
    by (rule advances_write [OF add_law], assumption+, rule advances_event, rule advances_ret)
  with False show ?thesis by (simp only: add_missing_def if_False)
qed (simp only: add_missing_def if_True, rule advances_ret)

lemma advances_remove_extra:
  "advances ok view (r \<in> des) (remove_extra tx remove des r :: (unit, ('k, 'c) world) op) n v
     (if r \<in> des then v else with_roles (roles v - {r}) v)"
proof (cases "r \<in> des")
  case False
  have "advances ok view False (or_fail (''failed to remove role '' @ r) (on_sql (remove r)) (\<lambda>_.
      effect (Normal (removed tx) (removed_msg tx r)) (ret ())) :: (unit, ('k, 'c) world) op) n v
      (with_roles (roles v - {r}) v)"
    by (rule advances_write [OF remove_law], assumption+, rule advances_event, rule advances_ret)
  with False show ?thesis by (simp only: remove_extra_def if_False)
qed (simp only: remove_extra_def if_True, rule advances_ret)

lemma advances_add_all:
  "advances ok view (set rs \<subseteq> cur) (for_each (add_missing tx add cur) rs :: (unit, ('k, 'c) world) op) n v
     (with_roles (roles v \<union> (set rs - cur)) v)"
proof (induction rs arbitrary: v)
  case Nil
  show ?case by (simp only: for_each.simps list.set empty_Diff Un_empty_right with_roles_id) (rule advances_ret)
next
  case (Cons r rs)
  let ?v1 = "if r \<in> cur then v else with_roles (insert r (roles v)) v"
  have e: "with_roles (roles ?v1 \<union> (set rs - cur)) ?v1 = with_roles (roles v \<union> (set (r # rs) - cur)) v"
    by (simp add: insert_Diff_if)
  show ?case
    unfolding for_each.simps e [symmetric]
    by (rule advances_andthen; rule advances_weaken [OF advances_add_missing] advances_weaken [OF Cons.IH]) auto
qed

lemma advances_remove_all:
  "advances ok view (set rs \<subseteq> des) (for_each (remove_extra tx remove des) rs :: (unit, ('k, 'c) world) op) n v
     (with_roles (roles v - (set rs - des)) v)"
proof (induction rs arbitrary: v)
  case Nil
  show ?case by (simp only: for_each.simps list.set empty_Diff Diff_empty with_roles_id) (rule advances_ret)
next
  case (Cons r rs)
  let ?v1 = "if r \<in> des then v else with_roles (roles v - {r}) v"
  have "roles v - {r} - (set rs - des) = roles v - (set (r # rs) - des)" if "r \<notin> des"
    using that by auto
  then have e: "with_roles (roles ?v1 - (set rs - des)) ?v1 = with_roles (roles v - (set (r # rs) - des)) v"
    by (simp add: insert_Diff_if)
  show ?case
    unfolding for_each.simps e [symmetric]
    by (rule advances_andthen; rule advances_weaken [OF advances_remove_extra] advances_weaken [OF Cons.IH]) auto
qed

theorem advances_reconcile_roles:
  assumes "range_laws order"
  shows "advances ok view (roles v = set desired)
    (reconcile_roles order tx get add remove desired :: (unit, ('k, 'c) world) op) n v (with_roles (set desired) v)"
proof (rule advancesI)
  fix w :: "('k, 'c) world"
  assume w: "ok (sql w)" "view (sql w) n = Some v"
  obtain rs where rs: "set rs = roles v" "reads ok view get (sql w) rs"
    using get_law [OF w] by blast
  have ord: "set (order xs) = set xs" for xs
    using assms by (simp add: range_laws_def)
  let ?v1 = "with_roles (roles v \<union> (set (order desired) - set rs)) v"
  have e: "with_roles (roles ?v1 - (set (order rs) - set desired)) ?v1 = with_roles (set desired) v"
    by (simp add: ord rs) (rule arg_cong [of _ _ "\<lambda>s. with_roles s v"], auto)
  have "advances ok view (roles v = set desired)
      (andthen (for_each (add_missing tx add (set rs)) (order desired))
         (for_each (remove_extra tx remove (set desired)) (order rs)) :: (unit, ('k, 'c) world) op) n v
      (with_roles (set desired) v)"
    unfolding e [symmetric]
    by (rule advances_andthen; rule advances_weaken [OF advances_add_all] advances_weaken [OF advances_remove_all])
       (auto simp: ord rs)
  note stages = wp_advances [OF this]
  show "succeeds (reconcile_roles order tx get add remove desired) w
    (\<lambda>_ w'. ok (sql w') \<and> kube w' = kube w \<and> view (sql w') = (view (sql w))(n \<mapsto> with_roles (set desired) v)
       \<and> (roles v = set desired \<longrightarrow> events w' = events w))"
    unfolding reconcile_roles_def wp_or_fail wp_on_sql toSet_def
    by (rule wp_reads [OF rs(2)], rule stages) (use w in auto)
qed

end

end
