(* ===== verification/Login_Controller.thy ===== *)
theory Login_Controller
  imports Role_Reconciliation
begin

text \<open>
  \<open>internal/controller/login_controller.go\<close>: the reconciliation of a \<open>Login\<close>, and what it
  establishes on any server that keeps the promises of \<open>login_server\<close>; the in-memory server
  is one.
\<close>

section \<open>The reconciler\<close>

definition server_role_texts :: "string \<Rightarrow> role_texts" where
  "server_role_texts loginName =
     \<lparr>get_failed = ''failed to get server roles'',
      added = ''ServerRoleAdded'', added_msg = (\<lambda>role. ''Login '' @ loginName @ '' added to server role '' @ role),
      removed = ''ServerRoleRemoved'',
      removed_msg = (\<lambda>role. ''Login '' @ loginName @ '' removed from server role '' @ role)\<rparr>"

definition reconcileServerRoles ::
  "(Login, 'k, 'c) Reconciler \<Rightarrow> 'c SQLClient \<Rightarrow> string \<Rightarrow> string list \<Rightarrow> (unit, ('k, 'c) world) op" where
  "reconcileServerRoles R cl loginName desiredRoles =
     reconcile_roles (range_order R) (server_role_texts loginName) (GetLoginServerRoles (logins cl) loginName)
       (AddLoginToServerRole (logins cl) loginName) (RemoveLoginFromServerRole (logins cl) loginName) desiredRoles"

text \<open>Create the login, or rotate its password when the secret changed since the last pass.\<close>

definition Login_ensure ::
  "'c SQLClient \<Rightarrow> Login \<Rightarrow> string \<Rightarrow> string \<Rightarrow> bool \<Rightarrow> (unit, ('k, 'c) world) op" where
  "Login_ensure cl login loginPassword resourceVersion exists =
     (let name = l_LoginName (Spec login) in
      if \<not> exists then
        or_fail (''failed to create login '' @ name) (on_sql (CreateLogin (logins cl) name loginPassword)) (\<lambda>_.
        effect (Normal ''LoginCreated'' (''Login '' @ name @ '' created'')) (ret ()))
      else if resourceVersion \<noteq> PasswordSecretResourceVersion (Status login) then
        or_fail ''failed to update login password''
          (on_sql (UpdateLoginPassword (logins cl) name loginPassword)) (\<lambda>_.
        effect (Normal ''LoginPasswordRotated'' (''Login '' @ name @ '' password rotated'')) (ret ()))
      else ret ())"

definition Login_default_database :: "'c SQLClient \<Rightarrow> Login \<Rightarrow> (unit, ('k, 'c) world) op" where
  "Login_default_database cl login =
     (let name = l_LoginName (Spec login) in
      case l_DefaultDatabase (Spec login) of
        None \<Rightarrow> ret ()
      | Some db \<Rightarrow>
          or_fail ''failed to get default database'' (on_sql (GetLoginDefaultDatabase (logins cl) name)) (\<lambda>currentDB.
          if currentDB \<noteq> db then
            or_fail ''failed to set default database''
              (on_sql (SetLoginDefaultDatabase (logins cl) name db)) (\<lambda>_. ret ())
          else ret ()))"

text \<open>The status of a successful pass remembers the version of the password secret.\<close>

definition with_password_version :: "string \<Rightarrow> Login \<Rightarrow> Login" where
  "with_password_version rv login = login\<lparr>Status := (Status login)\<lparr>PasswordSecretResourceVersion := rv\<rparr>\<rparr>"

definition Login_report ::
  "(Login, 'k, 'c) Reconciler \<Rightarrow> Login \<Rightarrow> string \<Rightarrow> (Result, ('k, 'c) world) op" where
  "Login_report R login resourceVersion =
     attempt (on_kube (PatchStatus (crs R) login (observed (with_condition (kclient R) ConditionTrue ReasonReady
         (''Login '' @ l_LoginName (Spec login) @ '' is ready'') (with_password_version resourceVersion login)))))
       fail (\<lambda>_. requeue_jitter (Int63n R) requeueInterval)"

definition Login_sync ::
  "(Login, 'k, 'c) Reconciler \<Rightarrow> 'c SQLClient \<Rightarrow> Login \<Rightarrow> string \<Rightarrow> string \<Rightarrow> (Result, ('k, 'c) world) op" where
  "Login_sync R cl login loginPassword resourceVersion =
     or_fail ''failed to check login existence'' (on_sql (LoginExists (logins cl) (l_LoginName (Spec login)))) (\<lambda>exists.
     andthen (Login_ensure cl login loginPassword resourceVersion exists) (
     andthen (Login_default_database cl login) (
     andthen (reconcileServerRoles R cl (l_LoginName (Spec login)) (l_ServerRoles (Spec login))) (
     Login_report R login resourceVersion))))"

definition Login_setConditionAndReturn ::
  "(Login, 'k, 'c) Reconciler \<Rightarrow> Login \<Rightarrow> ConditionStatus \<Rightarrow> string \<Rightarrow> string \<Rightarrow> (Result, ('k, 'c) world) op" where
  "Login_setConditionAndReturn = setConditionAndReturn"

text \<open>Reading the password secret (lines 86--101).\<close>

definition Login_password ::
  "(Login, 'k, 'c) Reconciler \<Rightarrow> Login \<Rightarrow> (string \<Rightarrow> string \<Rightarrow> (Result, ('k, 'c) world) op)
   \<Rightarrow> (Result, ('k, 'c) world) op" where
  "Login_password R login k =
     (let secretName = l_PasswordSecret (Spec login) in
      attempt (on_kube (GetSecret (kclient R) (cr_Namespace login) secretName)) (\<lambda>e.
        if IsNotFound e then
          Login_setConditionAndReturn R login ConditionFalse ReasonSecretNotFound
            (''Password secret '' @ go_quote secretName @ '' not found'')
        else Login_setConditionAndReturn R login ConditionFalse ReasonConnectionFailed
            (''Failed to fetch password secret: '' @ Error e)) (\<lambda>pwSecret.
      case Data pwSecret ''password'' of
        None \<Rightarrow> Login_setConditionAndReturn R login ConditionFalse ReasonInvalidCredentialsSecret
          (''Password secret '' @ go_quote secretName @ '' missing '' @ squote @ ''password'' @ squote @ '' key'')
      | Some loginPassword \<Rightarrow> k loginPassword (ResourceVersion pwSecret)))"

text \<open>
  The cleanup of a deletion: a login still in use blocks it; a failed check does not, nor does
  a failed drop.
\<close>

definition Login_drop ::
  "(Login, 'k, 'c) Reconciler \<Rightarrow> 'c SQLClient \<Rightarrow> Login \<Rightarrow> (Result, ('k, 'c) world) op" where
  "Login_drop R cl login =
     attempt (on_sql (DropLogin (logins cl) (l_LoginName (Spec login)))) (\<lambda>_. remove_finalizer R login) (\<lambda>_.
       effect (Normal ''LoginDropped'' (''Login '' @ l_LoginName (Spec login) @ '' dropped'')) (remove_finalizer R login))"

definition Login_cleanup ::
  "(Login, 'k, 'c) Reconciler \<Rightarrow> 'c SQLClient \<Rightarrow> Login \<Rightarrow> (Result, ('k, 'c) world) op" where
  "Login_cleanup R cl login =
     attempt (on_sql (LoginHasUsers (logins cl) (l_LoginName (Spec login)))) (\<lambda>_. Login_drop R cl login) (\<lambda>hasUsers.
       if hasUsers then
         effect (Warning ReasonLoginInUse
           (''Login '' @ l_LoginName (Spec login) @ '' is still in use by database users''))
         (block_deletion R login ReasonLoginInUse
           ''Login is still in use by database users, delete DatabaseUser CRs first'')
       else Login_drop R cl login)"

definition Login_handleDeletion ::
  "(Login, 'k, 'c) Reconciler \<Rightarrow> Login \<Rightarrow> (Result, ('k, 'c) world) op" where
  "Login_handleDeletion R login =
     (if \<not> ContainsFinalizer (kclient R) (cr_Finalizers login) Finalizer then ret (Result 0)
      else
        (let policy = (case l_DeletionPolicy (Spec login) of None \<Rightarrow> DeletionPolicyRetain | Some p \<Rightarrow> p)
         in if policy = DeletionPolicyDelete then
              attempt (on_kube (getCredentialsFromSecret (kclient R) (cr_Namespace login)
                  (CredentialsSecret (l_Server (Spec login))))) (\<lambda>_. remove_finalizer R login) (\<lambda>(username, password).
              case connectToSQL (l_Server (Spec login)) username password (SQLClientFactory R) of
                Inl _ \<Rightarrow> remove_finalizer R login
              | Inr cl \<Rightarrow> deferred (\<lambda>w. w\<lparr>sql := CloseClient cl (sql w)\<rparr>) (Login_cleanup R cl login))
            else remove_finalizer R login))"

definition Login_Reconcile ::
  "(Login, 'k, 'c) Reconciler \<Rightarrow> string \<Rightarrow> string \<Rightarrow> (Result, ('k, 'c) world) op" where
  "Login_Reconcile R ns name =
     fetch R ns name (\<lambda>login0.
     if cr_Deleting login0 then Login_handleDeletion R login0
     else attempt (ensure_finalizer R login0) fail (\<lambda>login.
       credentials_or_condition R login (CredentialsSecret (l_Server (Spec login))) (\<lambda>(username, saPassword).
       Login_password R login (\<lambda>loginPassword resourceVersion.
       connect_or_fail R ''SQL Server'' (l_Server (Spec login)) username saPassword (\<lambda>cl.
       Login_sync R cl login loginPassword resourceVersion)))))"

section \<open>What a SQL Server promises about logins\<close>

record LoginView =
  v_Password :: string
  v_DefaultDatabase :: string
  v_ServerRoles :: "string set"

locale login_server =
  fixes cl :: "'c SQLClient"
    and ok :: "'c \<Rightarrow> bool"
    and view :: "'c \<Rightarrow> string \<Rightarrow> LoginView option"
    and in_use :: "string \<Rightarrow> bool"
  assumes exists_law: "ok c \<Longrightarrow> reads ok view (LoginExists (logins cl) n) c (view c n \<noteq> None)"
    and create_law: "ok c \<Longrightarrow> view c n = None \<Longrightarrow> writes ok view (CreateLogin (logins cl) n pw) c
      ((view c)(n \<mapsto> \<lparr>v_Password = pw, v_DefaultDatabase = [], v_ServerRoles = {}\<rparr>))"
    and drop_law: "ok c \<Longrightarrow> writes ok view (DropLogin (logins cl) n) c ((view c)(n := None))"
    and password_law: "ok c \<Longrightarrow> view c n = Some v \<Longrightarrow>
      writes ok view (UpdateLoginPassword (logins cl) n pw) c ((view c)(n \<mapsto> v\<lparr>v_Password := pw\<rparr>))"
    and get_default: "ok c \<Longrightarrow> view c n = Some v \<Longrightarrow>
      reads ok view (GetLoginDefaultDatabase (logins cl) n) c (v_DefaultDatabase v)"
    and set_default: "ok c \<Longrightarrow> view c n = Some v \<Longrightarrow>
      writes ok view (SetLoginDefaultDatabase (logins cl) n d) c ((view c)(n \<mapsto> v\<lparr>v_DefaultDatabase := d\<rparr>))"
    and get_roles: "ok c \<Longrightarrow> view c n = Some v \<Longrightarrow>
      \<exists>rs. set rs = v_ServerRoles v \<and> reads ok view (GetLoginServerRoles (logins cl) n) c rs"
    and add_role: "ok c \<Longrightarrow> view c n = Some v \<Longrightarrow> writes ok view (AddLoginToServerRole (logins cl) n r) c
      ((view c)(n \<mapsto> v\<lparr>v_ServerRoles := insert r (v_ServerRoles v)\<rparr>))"
    and remove_role: "ok c \<Longrightarrow> view c n = Some v \<Longrightarrow> writes ok view (RemoveLoginFromServerRole (logins cl) n r) c
      ((view c)(n \<mapsto> v\<lparr>v_ServerRoles := v_ServerRoles v - {r}\<rparr>))"
    and in_use_law: "ok c \<Longrightarrow> reads ok view (LoginHasUsers (logins cl) n) c (in_use n)"
    and close_law: "ok c \<Longrightarrow> ok (CloseClient cl c) \<and> view (CloseClient cl c) = view c"

sublocale login_server \<subseteq> server_roles: role_store ok view v_ServerRoles "\<lambda>s v. v\<lparr>v_ServerRoles := s\<rparr>" n
    "GetLoginServerRoles (logins cl) n" "AddLoginToServerRole (logins cl) n" "RemoveLoginFromServerRole (logins cl) n"
    for n
  by unfold_locales (simp_all add: get_roles add_role remove_role)

section \<open>What a reconciliation makes of a login\<close>

definition login_target :: "LoginSpec \<Rightarrow> LoginView \<Rightarrow> LoginView" where
  "login_target sp v = (case l_DefaultDatabase sp of None \<Rightarrow> v | Some d \<Rightarrow> v\<lparr>v_DefaultDatabase := d\<rparr>)
     \<lparr>v_ServerRoles := set (l_ServerRoles sp)\<rparr>"

definition new_login :: "string \<Rightarrow> LoginView" where
  "new_login pw = \<lparr>v_Password = pw, v_DefaultDatabase = [], v_ServerRoles = {}\<rparr>"

text \<open>An existing login gets the secret's password only when the secret's version is new.\<close>

definition rotated :: "Login \<Rightarrow> string \<Rightarrow> string \<Rightarrow> LoginView \<Rightarrow> LoginView" where
  "rotated login pw rv v =
     (if rv \<noteq> PasswordSecretResourceVersion (Status login) then v\<lparr>v_Password := pw\<rparr> else v)"

definition login_settled :: "Login \<Rightarrow> string \<Rightarrow> LoginView \<Rightarrow> bool" where
  "login_settled login rv v \<longleftrightarrow> rv = PasswordSecretResourceVersion (Status login) \<and> login_target (Spec login) v = v"

text \<open>What a successful pass reports: ready, and the version of the password secret it has used.\<close>

definition login_reported ::
  "('k \<Rightarrow> string \<times> string \<Rightarrow> Login option) \<Rightarrow> ('k \<Rightarrow> string \<times> string \<Rightarrow> Secret option)
   \<Rightarrow> ('k \<Rightarrow> string \<times> string \<Rightarrow> SQLServer option) \<Rightarrow> Login \<Rightarrow> string \<Rightarrow> 'k \<Rightarrow> 'k \<Rightarrow> bool" where
  "login_reported objs secs srvs login rv k k' \<longleftrightarrow>
     (\<exists>st. objs k' = (objs k)(request_of login \<mapsto> login\<lparr>Status := st\<rparr>)
        \<and> ready_status (login\<lparr>Status := st\<rparr>) = Some (ConditionTrue, ReasonReady)
        \<and> ObservedGeneration st = cr_Generation login \<and> PasswordSecretResourceVersion st = rv
        \<and> secs k' = secs k \<and> srvs k' = srvs k)"

lemma wp_Login_report:
  assumes laws: "api_laws R objs secs srvs" and base: "objs (kube w) (request_of login) = Some login"
    and live: "\<not> cr_Deleting login"
    and post: "\<And>k' d. login_reported objs secs srvs login rv (kube w) k' \<Longrightarrow> 24 * second \<le> d \<Longrightarrow> d < 36 * second
      \<Longrightarrow> Q (Result d) (w\<lparr>kube := k'\<rparr>)"
  shows "wp (Login_report R login rv) w Q E"
proof -
  let ?new = "observed (with_condition (kclient R) ConditionTrue ReasonReady
    (''Login '' @ l_LoginName (Spec login) @ '' is ready'') (with_password_version rv login))"
  have "\<exists>st. ?new = login\<lparr>Status := st\<rparr> \<and> ObservedGeneration st = cr_Generation login
      \<and> PasswordSecretResourceVersion st = rv"
    by (rule exI [of _ "Status ?new"]) (simp add: observed_def with_condition_def with_password_version_def)
  then obtain st where eq: "?new = login\<lparr>Status := st\<rparr>" and gen: "ObservedGeneration st = cr_Generation login"
    "PasswordSecretResourceVersion st = rv" by blast
  have ready: "ready_status (login\<lparr>Status := st\<rparr>) = Some (ConditionTrue, ReasonReady)"
    unfolding eq [symmetric] by (rule ready_status_with_condition [OF api_lawsD(7) [OF laws]])
  show ?thesis
    unfolding Login_report_def eq wp_attempt wp_on_kube
  proof (rule wp_PatchStatus [OF laws base])
    fix k' assume "objs k' = (objs (kube w))(request_of login := stored (login\<lparr>Status := st\<rparr>))"
      "secs k' = secs (kube w)" "srvs k' = srvs (kube w)"
    then have "login_reported objs secs srvs login rv (kube w) k'"
      unfolding login_reported_def using ready gen live by (intro exI [of _ st]) (simp add: stored_Some)
    then show "wp (requeue_jitter (Int63n R) requeueInterval) (w\<lparr>kube := k'\<rparr>) Q E"
      using requeue_in_range [OF api_lawsD(8) [OF laws]] by (auto simp: requeue_jitter_def wp_simps intro!: post)
  qed
qed

lemma login_view_unchanged:
  "v_Password v = x \<Longrightarrow> v\<lparr>v_Password := x\<rparr> = v" "v_DefaultDatabase v = x \<Longrightarrow> v\<lparr>v_DefaultDatabase := x\<rparr> = v"
  "v_ServerRoles v = s \<Longrightarrow> v\<lparr>v_ServerRoles := s\<rparr> = v"
  by (cases v; simp)+

lemma login_settledD:
  assumes "login_settled login rv v"
  shows "rv = PasswordSecretResourceVersion (Status login)"
    "case l_DefaultDatabase (Spec login) of None \<Rightarrow> True | Some d \<Rightarrow> v_DefaultDatabase v = d"
    "v_ServerRoles v = set (l_ServerRoles (Spec login))"
proof -
  show "rv = PasswordSecretResourceVersion (Status login)" using assms by (simp add: login_settled_def)
  from assms have t: "login_target (Spec login) v = v" by (simp add: login_settled_def)
  have "v_ServerRoles (login_target (Spec login) v) = set (l_ServerRoles (Spec login))"
    by (simp add: login_target_def)
  with t show "v_ServerRoles v = set (l_ServerRoles (Spec login))" by simp
  have "case l_DefaultDatabase (Spec login) of None \<Rightarrow> True | Some d \<Rightarrow> v_DefaultDatabase (login_target (Spec login) v) = d"
    by (simp add: login_target_def split: option.split)
  then show "case l_DefaultDatabase (Spec login) of None \<Rightarrow> True | Some d \<Rightarrow> v_DefaultDatabase v = d"
    unfolding t .
qed

context login_server
begin

lemma advances_default_database:
  "advances ok view (case l_DefaultDatabase (Spec login) of None \<Rightarrow> True | Some d \<Rightarrow> v_DefaultDatabase v = d)
     (Login_default_database cl login) (l_LoginName (Spec login)) v
     (case l_DefaultDatabase (Spec login) of None \<Rightarrow> v | Some d \<Rightarrow> v\<lparr>v_DefaultDatabase := d\<rparr>)"
  unfolding Login_default_database_def Let_def
  by (auto split: option.split intro!: advances_adjust advances_ret get_default set_default
      simp: login_view_unchanged simp del: ret_apply)

lemma advances_login_settings:
  assumes "range_laws (range_order R)"
  shows "advances ok view (login_target (Spec login) v = v)
    (andthen (Login_default_database cl login)
       (reconcileServerRoles R cl (l_LoginName (Spec login)) (l_ServerRoles (Spec login)))
      :: (unit, ('k, 'c) world) op)
    (l_LoginName (Spec login)) v (login_target (Spec login) v)"
proof -
  let ?v1 = "case l_DefaultDatabase (Spec login) of None \<Rightarrow> v | Some d \<Rightarrow> v\<lparr>v_DefaultDatabase := d\<rparr>"
  have q: "case l_DefaultDatabase (Spec login) of None \<Rightarrow> True | Some d \<Rightarrow> v_DefaultDatabase v = d"
    "v_ServerRoles ?v1 = set (l_ServerRoles (Spec login))" if "login_target (Spec login) v = v"
    using login_settledD(2,3) [of login "PasswordSecretResourceVersion (Status login)" v] that
    by (auto simp: login_settled_def split: option.split)
  show ?thesis
    unfolding reconcileServerRoles_def
    by (rule advances_andthen [OF advances_weaken [OF advances_default_database q(1)]], assumption,
        unfold login_target_def, rule advances_weaken [OF server_roles.advances_reconcile_roles [OF assms]])
       (use q(2) in \<open>simp add: login_target_def\<close>)
qed

lemma advances_rotate:
  "advances ok view (rv = PasswordSecretResourceVersion (Status login))
     (Login_ensure cl login pw rv True :: (unit, ('k, 'c) world) op) (l_LoginName (Spec login)) v (rotated login pw rv v)"
proof (cases "rv = PasswordSecretResourceVersion (Status login)")
  case True
  then show ?thesis by (simp add: Login_ensure_def rotated_def Let_def del: ret_apply) (rule advances_ret)
next
  case False
  have "advances ok view False (or_fail ''failed to update login password''
      (on_sql (UpdateLoginPassword (logins cl) (l_LoginName (Spec login)) pw)) (\<lambda>_.
      effect (Normal ''LoginPasswordRotated'' (''Login '' @ l_LoginName (Spec login) @ '' password rotated'')) (ret ()))
        :: (unit, ('k, 'c) world) op)
      (l_LoginName (Spec login)) v (v\<lparr>v_Password := pw\<rparr>)"
    by (rule advances_write [OF password_law], assumption+, rule advances_event, rule advances_ret)
  with False show ?thesis by (simp add: Login_ensure_def rotated_def Let_def)
qed

lemma Login_sync_stages:
  "Login_sync R cl login pw rv =
     or_fail ''failed to check login existence'' (on_sql (LoginExists (logins cl) (l_LoginName (Spec login)))) (\<lambda>exists.
     andthen (Login_ensure cl login pw rv exists) (
     andthen (andthen (Login_default_database cl login)
         (reconcileServerRoles R cl (l_LoginName (Spec login)) (l_ServerRoles (Spec login)))) (
     Login_report R login rv)))"
  by (simp add: Login_sync_def andthen_assoc)

theorem login_sync_existing:
  assumes laws: "api_laws R objs secs srvs" and base: "objs (kube w) (request_of login) = Some login"
    and live: "\<not> cr_Deleting login" and c: "ok (sql w)" "view (sql w) (l_LoginName (Spec login)) = Some v"
  shows "succeeds (Login_sync R cl login pw rv) w (\<lambda>r w'. ok (sql w') \<and>
      view (sql w') = (view (sql w))(l_LoginName (Spec login) \<mapsto> login_target (Spec login) (rotated login pw rv v)) \<and>
      24 * second \<le> RequeueAfter r \<and> RequeueAfter r < 36 * second \<and>
      login_reported objs secs srvs login rv (kube w) (kube w') \<and> (login_settled login rv v \<longrightarrow> events w' = events w))"
proof -
  have x: "reads ok view (LoginExists (logins cl) (l_LoginName (Spec login))) (sql w) True"
    using exists_law [OF c(1), of "l_LoginName (Spec login)"] c(2) by simp
  show ?thesis
    unfolding Login_sync_stages wp_or_fail wp_on_sql
    apply (rule wp_reads [OF x])
    apply (subst wp_andthen, rule wp_advances [OF advances_rotate [where v = v]])
      apply (simp_all add: c)
    apply (subst wp_andthen,
        rule wp_advances [OF advances_login_settings [OF api_lawsD(9) [OF laws], where v = "rotated login pw rv v"]])
      apply (simp_all add: c)
    apply (rule wp_Login_report [OF laws _ live])
     apply (auto simp: base login_settled_def rotated_def)
    done
qed

theorem login_sync_missing:
  assumes laws: "api_laws R objs secs srvs" and base: "objs (kube w) (request_of login) = Some login"
    and live: "\<not> cr_Deleting login" and c: "ok (sql w)" "view (sql w) (l_LoginName (Spec login)) = None"
  shows "succeeds (Login_sync R cl login pw rv) w (\<lambda>r w'. ok (sql w') \<and>
      view (sql w') = (view (sql w))(l_LoginName (Spec login) \<mapsto> login_target (Spec login) (new_login pw)) \<and>
      24 * second \<le> RequeueAfter r \<and> RequeueAfter r < 36 * second \<and>
      login_reported objs secs srvs login rv (kube w) (kube w'))"
proof -
  have x: "reads ok view (LoginExists (logins cl) (l_LoginName (Spec login))) (sql w) False"
    using exists_law [OF c(1), of "l_LoginName (Spec login)"] c(2) by simp
  show ?thesis
    unfolding Login_sync_stages wp_or_fail wp_on_sql
    apply (rule wp_reads [OF x])
    apply (subst wp_andthen)
    apply (simp add: Login_ensure_def Let_def wp_or_fail wp_on_sql wp_effect wp_ret del: ret_apply)
    apply (rule wp_writes [OF create_law])
      apply (simp_all add: c)
    apply (subst wp_andthen,
        rule wp_advances [OF advances_login_settings [OF api_lawsD(9) [OF laws], where v = "new_login pw"]])
      apply (simp_all add: c new_login_def)
    apply (rule wp_Login_report [OF laws _ live])
     apply (auto simp: base)
    done
qed

lemma wp_Login_Reconcile:
  assumes laws: "api_laws R objs secs srvs" and login: "objs (kube w) (ns, n) = Some login" "request_of login = (ns, n)"
    and live: "\<not> cr_Deleting login"
    and server: "connects R (secs (kube w)) ns (l_Server (Spec login)) cl"
    and pw: "secs (kube w) (ns, l_PasswordSecret (Spec login)) = Some s" "Data s ''password'' = Some pw"
    and body: "\<And>k'. objs k' = (objs (kube w))((ns, n) \<mapsto> finalized (kclient R) login) \<Longrightarrow> secs k' = secs (kube w) \<Longrightarrow>
      srvs k' = srvs (kube w) \<Longrightarrow>
      wp (Login_sync R cl (finalized (kclient R) login) pw (ResourceVersion s)) (w\<lparr>kube := k'\<rparr>)
        (\<lambda>r w'. Q r (w'\<lparr>sql := CloseClient cl (sql w')\<rparr>)) (\<lambda>e w'. E e (w'\<lparr>sql := CloseClient cl (sql w')\<rparr>))"
  shows "wp (Login_Reconcile R ns n) w Q E"
proof -
  from server obtain u p where
    up: "secret_credentials (secs (kube w)) ns (CredentialsSecret (l_Server (Spec login))) = Some (u, p)" and
    cl: "connectToSQL (l_Server (Spec login)) u p (SQLClientFactory R) = Inr cl"
    by (auto simp: connects_def)
  have ns: "cr_Namespace login = ns" using login(2) by (simp add: request_of_def)
  show ?thesis
    unfolding Login_Reconcile_def fetch_def wp_attempt wp_on_kube wp_GetCR [OF laws login(1)]
    apply (simp add: live wp_attempt)
    apply (rule wp_ensure_finalizer [OF laws _ live])
     apply (simp add: login)
    subgoal premises k' for k'
    proof -
      have c: "secret_credentials (secs (kube (w\<lparr>kube := k'\<rparr>))) (cr_Namespace (finalized (kclient R) login))
          (CredentialsSecret (l_Server (Spec login))) = Some (u, p)"
        by (simp add: k' ns up)
      have s: "secs k' (ns, l_PasswordSecret (Spec login)) = Some s" by (simp add: k' pw)
      show ?thesis
        using body [of k'] k' login
        by (simp add: wp_credentials_or_condition [OF laws c] Login_password_def Let_def ns wp_attempt wp_on_kube
            wp_GetSecret [OF laws s] pw wp_connect_or_fail [OF cl])
    qed
    done
qed

theorem login_deletion_drops:
  assumes laws: "api_laws R objs secs srvs" and base: "objs (kube w) (request_of login) = Some login"
    and fin: "ContainsFinalizer (kclient R) (cr_Finalizers login) Finalizer"
    and policy: "l_DeletionPolicy (Spec login) = Some DeletionPolicyDelete"
    and server: "connects R (secs (kube w)) (cr_Namespace login) (l_Server (Spec login)) cl"
    and c: "ok (sql w)" and free: "\<not> in_use (l_LoginName (Spec login))"
  shows "succeeds (Login_handleDeletion R login) w
    (\<lambda>r w'. r = Result 0 \<and> ok (sql w') \<and>
      view (sql w') = (view (sql w))(l_LoginName (Spec login) := None) \<and>
      (\<forall>l. objs (kube w') (request_of login) = Some l \<longrightarrow>
         \<not> ContainsFinalizer (kclient R) (cr_Finalizers l) Finalizer))"
proof -
  from server obtain u p where
    up: "secret_credentials (secs (kube w)) (cr_Namespace login) (CredentialsSecret (l_Server (Spec login))) = Some (u, p)" and
    cl: "connectToSQL (l_Server (Spec login)) u p (SQLClientFactory R) = Inr cl"
    by (auto simp: connects_def)
  have x: "reads ok view (LoginHasUsers (logins cl) (l_LoginName (Spec login))) (sql w) False"
    using in_use_law [OF c, of "l_LoginName (Spec login)"] free by simp
  show ?thesis
    apply (simp add: Login_handleDeletion_def fin policy wp_attempt wp_on_kube
        wp_getCredentialsFromSecret [OF laws up] cl wp_deferred Login_cleanup_def wp_on_sql del: fun_upd_apply)
    apply (rule wp_reads [OF x])
    apply (simp add: Login_drop_def wp_attempt wp_on_sql wp_effect del: fun_upd_apply)
    apply (rule wp_writes [OF drop_law], assumption)
    apply (rule wp_remove_finalizer [OF laws])
     apply (simp_all add: base close_law)
    done
qed

theorem login_deletion_blocked:
  assumes laws: "api_laws R objs secs srvs" and base: "objs (kube w) (request_of login) = Some login"
    and fin: "ContainsFinalizer (kclient R) (cr_Finalizers login) Finalizer" "cr_Finalizers login \<noteq> []"
    and policy: "l_DeletionPolicy (Spec login) = Some DeletionPolicyDelete"
    and server: "connects R (secs (kube w)) (cr_Namespace login) (l_Server (Spec login)) cl"
    and c: "ok (sql w)" and used: "in_use (l_LoginName (Spec login))"
  shows "succeeds (Login_handleDeletion R login) w
    (\<lambda>r w'. 24 * second \<le> RequeueAfter r \<and> RequeueAfter r < 36 * second \<and> ok (sql w') \<and> view (sql w') = view (sql w) \<and>
      (\<exists>st. objs (kube w') = (objs (kube w))(request_of login \<mapsto> login\<lparr>Status := st\<rparr>)
         \<and> ready_status (login\<lparr>Status := st\<rparr>) = Some (ConditionFalse, ReasonLoginInUse)))"
proof -
  from server obtain u p where
    up: "secret_credentials (secs (kube w)) (cr_Namespace login) (CredentialsSecret (l_Server (Spec login))) = Some (u, p)" and
    cl: "connectToSQL (l_Server (Spec login)) u p (SQLClientFactory R) = Inr cl"
    by (auto simp: connects_def)
  have x: "reads ok view (LoginHasUsers (logins cl) (l_LoginName (Spec login))) (sql w) True"
    using in_use_law [OF c, of "l_LoginName (Spec login)"] used by simp
  show ?thesis
    apply (simp add: Login_handleDeletion_def fin policy wp_attempt wp_on_kube
        wp_getCredentialsFromSecret [OF laws up] cl wp_deferred Login_cleanup_def wp_on_sql del: fun_upd_apply)
    apply (rule wp_reads [OF x])
    apply (simp add: wp_effect del: fun_upd_apply)
    apply (rule wp_block_deletion [OF laws _ fin(2)])
     apply (auto simp: base close_law)
    done
qed

end

section \<open>The in-memory server is a login server\<close>

definition abs_login :: "MockLogin \<Rightarrow> LoginView" where
  "abs_login l = \<lparr>v_Password = ml_Password l, v_DefaultDatabase = ml_DefaultDatabase l, v_ServerRoles = set (ml_ServerRoles l)\<rparr>"

definition login_view :: "MockClient \<Rightarrow> string \<Rightarrow> LoginView option" where
  "login_view s n = map_option abs_login (mlogins s n)"

definition besides_logins :: "MockClient \<Rightarrow> MockClient" where
  "besides_logins s = s\<lparr>mlogins := Map.empty, calls := (\<lambda>_. 0)\<rparr>"

definition mock_login_ok :: "MockClient \<Rightarrow> MockClient \<Rightarrow> bool" where
  "mock_login_ok o' s \<longleftrightarrow> healthy s \<and> besides_logins s = o'"

definition login_in_use :: "MockClient \<Rightarrow> string \<Rightarrow> bool" where
  "login_in_use s n \<longleftrightarrow> (\<exists>u \<in> ran (musers s). mu_LoginName u = n)"

lemma besides_logins_simps [simp]:
  "besides_logins (track m s) = besides_logins s" "besides_logins (s\<lparr>mlogins := d\<rparr>) = besides_logins s"
  "login_in_use (besides_logins s) = login_in_use s"
  by (simp_all add: besides_logins_def track_def login_in_use_def fun_eq_iff)

lemma login_view_simps [simp]:
  "login_view (track m s) = login_view s"
  "login_view ((track m s)\<lparr>mlogins := (mlogins s)(n \<mapsto> d)\<rparr>) = (login_view s)(n \<mapsto> abs_login d)"
  "login_view ((track m s)\<lparr>mlogins := (mlogins s)(n := None)\<rparr>) = (login_view s)(n := None)"
  "(login_view s n = None) = (mlogins s n = None)"
  by (auto simp: login_view_def)

lemma abs_login_simps:
  "v_Password (abs_login l) = ml_Password l" "v_DefaultDatabase (abs_login l) = ml_DefaultDatabase l"
  "v_ServerRoles (abs_login l) = set (ml_ServerRoles l)"
  "abs_login (l\<lparr>ml_Password := x\<rparr>) = (abs_login l)\<lparr>v_Password := x\<rparr>"
  "abs_login (l\<lparr>ml_DefaultDatabase := x\<rparr>) = (abs_login l)\<lparr>v_DefaultDatabase := x\<rparr>"
  "abs_login (l\<lparr>ml_ServerRoles := rs\<rparr>) = (abs_login l)\<lparr>v_ServerRoles := set rs\<rparr>"
  "abs_login \<lparr>ml_Name = n, ml_Password = x, ml_DefaultDatabase = [], ml_ServerRoles = []\<rparr>
     = \<lparr>v_Password = x, v_DefaultDatabase = [], v_ServerRoles = {}\<rparr>"
  by (simp_all add: abs_login_def)

lemma login_viewD: "login_view s n = Some v \<Longrightarrow> \<exists>l. mlogins s n = Some l \<and> v = abs_login l"
  by (auto simp: login_view_def)

lemma mock_logins_simps:
  "LoginExists (logins mock_client) = Mock_LoginExists" "CreateLogin (logins mock_client) = Mock_CreateLogin"
  "DropLogin (logins mock_client) = Mock_DropLogin" "UpdateLoginPassword (logins mock_client) = Mock_UpdateLoginPassword"
  "GetLoginDefaultDatabase (logins mock_client) = Mock_GetLoginDefaultDatabase"
  "SetLoginDefaultDatabase (logins mock_client) = Mock_SetLoginDefaultDatabase"
  "GetLoginServerRoles (logins mock_client) = Mock_GetLoginServerRoles"
  "AddLoginToServerRole (logins mock_client) = Mock_AddLoginToServerRole"
  "RemoveLoginFromServerRole (logins mock_client) = Mock_RemoveLoginFromServerRole"
  "LoginHasUsers (logins mock_client) = Mock_LoginHasUsers" "CloseClient mock_client = Mock_Close"
  by (simp_all add: mock_client_def)

lemma present_role: "mlogins s n = Some l \<Longrightarrow> r \<in> set (ml_ServerRoles l) \<Longrightarrow>
  (login_view s)(n \<mapsto> (abs_login l)\<lparr>v_ServerRoles := insert r (v_ServerRoles (abs_login l))\<rparr>) = login_view s"
  by (auto simp: login_view_def fun_eq_iff abs_login_def insert_absorb)

lemma filter_role: "{x \<in> set rs. x \<noteq> r} = set rs - {r}"
  by auto

lemma mock_add_role:
  assumes "mock_login_ok o' c" and "login_view c n = Some v"
  shows "writes (mock_login_ok o') login_view (Mock_AddLoginToServerRole n r) c
    ((login_view c)(n \<mapsto> v\<lparr>v_ServerRoles := insert r (v_ServerRoles v)\<rparr>))"
proof -
  obtain l where l: "mlogins c n = Some l" "v = abs_login l" using login_viewD [OF assms(2)] by blast
  show ?thesis
  proof (cases "r \<in> set (ml_ServerRoles l)")
    case True
    with l assms(1) show ?thesis
      by (simp add: writes_def Mock_AddLoginToServerRole_def mock_login_ok_def present_role)
  next
    case False
    with l assms(1) show ?thesis
      by (simp add: writes_def Mock_AddLoginToServerRole_def mock_login_ok_def abs_login_simps)
  qed
qed

interpretation mock_logins: login_server mock_client "mock_login_ok o'" login_view "login_in_use o'" for o'
proof (unfold_locales, unfold mock_logins_simps)
  show "writes (mock_login_ok o') login_view (Mock_AddLoginToServerRole n r) c
    ((login_view c)(n \<mapsto> v\<lparr>v_ServerRoles := insert r (v_ServerRoles v)\<rparr>))"
    if "mock_login_ok o' c" "login_view c n = Some v" for c n v r
    using that by (rule mock_add_role)
qed (unfold Mock_method_defs Mock_Close_def mock_login_ok_def reads_def writes_def,
     (force dest!: login_viewD simp: abs_login_simps Let_def filter_role login_in_use_def besides_logins_def)+)

section \<open>Reconciling against the in-memory server\<close>

lemma login_reported_finalized:
  assumes "login_reported objs secs srvs (finalized K login) rv k1 k'"
    and "objs k1 = (objs k)((ns, n) \<mapsto> finalized K login)" and "request_of login = (ns, n)"
    and "secs k1 = secs k" and "srvs k1 = srvs k"
  shows "login_reported objs secs srvs (finalized K login) rv k k'"
  using assms unfolding login_reported_def by auto

text \<open>
  Reconciling a \<open>Login\<close> that does not exist creates it with the password of its secret, its
  default database and exactly its server roles, records the secret's version, and changes
  nothing else on the server.
\<close>

theorem Login_reconcile_missing:
  assumes "api_laws R objs secs srvs" and "objs (kube w) (ns, n) = Some login" and "request_of login = (ns, n)"
    and "\<not> cr_Deleting login" and "connects R (secs (kube w)) ns (l_Server (Spec login)) mock_client"
    and "secs (kube w) (ns, l_PasswordSecret (Spec login)) = Some s" and "Data s ''password'' = Some pw"
    and "healthy (sql w)" and "login_view (sql w) (l_LoginName (Spec login)) = None"
  shows "succeeds (Login_Reconcile R ns n) w (\<lambda>r w'.
    besides_logins (sql w') = besides_logins (sql w) \<and>
    login_view (sql w') = (login_view (sql w))(l_LoginName (Spec login) \<mapsto> login_target (Spec login) (new_login pw)) \<and>
    24 * second \<le> RequeueAfter r \<and> RequeueAfter r < 36 * second \<and>
    login_reported objs secs srvs (finalized (kclient R) login) (ResourceVersion s) (kube w) (kube w'))" (is "wp _ _ ?Q _")
proof (rule mock_logins.wp_Login_Reconcile [OF assms(1-7)])
  fix k' assume k': "objs k' = (objs (kube w))((ns, n) \<mapsto> finalized (kclient R) login)"
    "secs k' = secs (kube w)" "srvs k' = srvs (kube w)"
  show "wp (Login_sync R mock_client (finalized (kclient R) login) pw (ResourceVersion s)) (w\<lparr>kube := k'\<rparr>)
    (\<lambda>r w'. ?Q r (w'\<lparr>sql := CloseClient mock_client (sql w')\<rparr>)) (\<lambda>e w'. False)"
    by (rule wp_mono [OF mock_logins.login_sync_missing [OF assms(1), where login = "finalized (kclient R) login"
          and w = "w\<lparr>kube := k'\<rparr>" and o' = "besides_logins (sql w)"]])
       (use assms k' login_reported_finalized [OF _ k'(1) assms(3)] in
         \<open>auto simp: mock_login_ok_def mock_logins.close_law [unfolded mock_login_ok_def] login_settled_def rotated_def\<close>)
qed

text \<open>
  C14. Reconciling a \<open>Login\<close> that exists changes its password exactly when the version of the
  password secret differs from the one of the last pass, and leaves it with its default
  database and exactly its server roles, whatever roles it had before. When everything is
  already so, the pass records no event.
\<close>

theorem Login_reconcile_existing:
  assumes "api_laws R objs secs srvs" and "objs (kube w) (ns, n) = Some login" and "request_of login = (ns, n)"
    and "\<not> cr_Deleting login" and "connects R (secs (kube w)) ns (l_Server (Spec login)) mock_client"
    and "secs (kube w) (ns, l_PasswordSecret (Spec login)) = Some s" and "Data s ''password'' = Some pw"
    and "healthy (sql w)" and "login_view (sql w) (l_LoginName (Spec login)) = Some v"
  shows "succeeds (Login_Reconcile R ns n) w (\<lambda>r w'.
    besides_logins (sql w') = besides_logins (sql w) \<and>
    login_view (sql w') = (login_view (sql w))(l_LoginName (Spec login) \<mapsto> login_target (Spec login) (rotated login pw (ResourceVersion s) v)) \<and>
    24 * second \<le> RequeueAfter r \<and> RequeueAfter r < 36 * second \<and>
    login_reported objs secs srvs (finalized (kclient R) login) (ResourceVersion s) (kube w) (kube w') \<and>
    (login_settled login (ResourceVersion s) v \<longrightarrow> events w' = events w))" (is "wp _ _ ?Q _")
proof (rule mock_logins.wp_Login_Reconcile [OF assms(1-7)])
  fix k' assume k': "objs k' = (objs (kube w))((ns, n) \<mapsto> finalized (kclient R) login)"
    "secs k' = secs (kube w)" "srvs k' = srvs (kube w)"
  show "wp (Login_sync R mock_client (finalized (kclient R) login) pw (ResourceVersion s)) (w\<lparr>kube := k'\<rparr>)
    (\<lambda>r w'. ?Q r (w'\<lparr>sql := CloseClient mock_client (sql w')\<rparr>)) (\<lambda>e w'. False)"
    by (rule wp_mono [OF mock_logins.login_sync_existing [OF assms(1), where login = "finalized (kclient R) login" and v = v
          and w = "w\<lparr>kube := k'\<rparr>" and o' = "besides_logins (sql w)"]])
       (use assms k' login_reported_finalized [OF _ k'(1) assms(3)] in
         \<open>auto simp: mock_login_ok_def mock_logins.close_law [unfolded mock_login_ok_def] login_settled_def rotated_def\<close>)
qed

text \<open>
  A login with deletion policy \<open>Delete\<close> that no database user maps to is dropped, alone, and its
  object released.
\<close>

theorem Login_deletion_drops:
  assumes "api_laws R objs secs srvs" and "objs (kube w) (request_of login) = Some login"
    and "ContainsFinalizer (kclient R) (cr_Finalizers login) Finalizer"
    and "l_DeletionPolicy (Spec login) = Some DeletionPolicyDelete"
    and "connects R (secs (kube w)) (cr_Namespace login) (l_Server (Spec login)) mock_client"
    and "healthy (sql w)" and "\<not> login_in_use (sql w) (l_LoginName (Spec login))"
  shows "succeeds (Login_handleDeletion R login) w (\<lambda>r w'. r = Result 0 \<and>
    besides_logins (sql w') = besides_logins (sql w) \<and>
    login_view (sql w') = (login_view (sql w))(l_LoginName (Spec login) := None) \<and>
    (\<forall>l. objs (kube w') (request_of login) = Some l \<longrightarrow> \<not> ContainsFinalizer (kclient R) (cr_Finalizers l) Finalizer))"
  by (rule wp_mono [OF mock_logins.login_deletion_drops [OF assms(1-5), where o' = "besides_logins (sql w)"]])
     (use assms(6,7) in \<open>auto simp: mock_login_ok_def\<close>)

text \<open>
  A login that a database user maps to is not dropped: nothing changes on the server, the
  object keeps its finalizer, says \<open>LoginInUse\<close>, and is looked at again within 36 seconds.
\<close>

theorem Login_deletion_blocked:
  assumes "api_laws R objs secs srvs" and "objs (kube w) (request_of login) = Some login"
    and "ContainsFinalizer (kclient R) (cr_Finalizers login) Finalizer" and "cr_Finalizers login \<noteq> []"
    and "l_DeletionPolicy (Spec login) = Some DeletionPolicyDelete"
    and "connects R (secs (kube w)) (cr_Namespace login) (l_Server (Spec login)) mock_client"
    and "healthy (sql w)" and "login_in_use (sql w) (l_LoginName (Spec login))"
  shows "succeeds (Login_handleDeletion R login) w (\<lambda>r w'. 24 * second \<le> RequeueAfter r \<and> RequeueAfter r < 36 * second \<and>
    besides_logins (sql w') = besides_logins (sql w) \<and> login_view (sql w') = login_view (sql w) \<and>
    (\<exists>st. objs (kube w') = (objs (kube w))(request_of login \<mapsto> login\<lparr>Status := st\<rparr>)
       \<and> ready_status (login\<lparr>Status := st\<rparr>) = Some (ConditionFalse, ReasonLoginInUse)))"
  by (rule wp_mono [OF mock_logins.login_deletion_blocked [OF assms(1-6), where o' = "besides_logins (sql w)"]])
     (use assms(7,8) in \<open>auto simp: mock_login_ok_def\<close>)

section \<open>Examples\<close>

definition ex_login :: "string option \<Rightarrow> Login" where
  "ex_login policy = ex_cr \<lparr>l_Server = ex_server, l_LoginName = ''app'', l_PasswordSecret = ''creds'',
     l_DefaultDatabase = Some ''db'', l_ServerRoles = [''dbcreator''], l_DeletionPolicy = policy\<rparr>
     \<lparr>Conditions = [], ObservedGeneration = 0, PasswordSecretResourceVersion = ''0''\<rparr>"

definition ex_login_server :: MockClient where
  "ex_login_server = NewMockClient\<lparr>mlogins := [''app'' \<mapsto> \<lparr>ml_Name = ''app'', ml_Password = ''old'',
     ml_DefaultDatabase = [], ml_ServerRoles = [''sysadmin'']\<rparr>]\<rparr>"

definition ex_login_used :: MockClient where
  "ex_login_used = ex_login_server\<lparr>musers := [''db/u'' \<mapsto> \<lparr>mu_DBName = ''db'', mu_UserName = ''u'', mu_LoginName = ''app'',
     mu_Roles = [], mu_OwnsObjects = False\<rparr>]\<rparr>"

lemma ex_login_simps [simp]:
  "healthy ex_login_server" "healthy ex_login_used" "login_in_use ex_login_used ''app''" "\<not> login_in_use ex_login_server x"
  "login_view ex_login_server ''app'' = Some \<lparr>v_Password = ''old'', v_DefaultDatabase = [], v_ServerRoles = {''sysadmin''}\<rparr>"
  "login_view ex_login_used ''app'' = Some \<lparr>v_Password = ''old'', v_DefaultDatabase = [], v_ServerRoles = {''sysadmin''}\<rparr>"
  "login_view NewMockClient x = None"
  by (simp_all add: ex_login_server_def ex_login_used_def login_view_def abs_login_def NewMockClient_def healthy_def login_in_use_def)

theorem Login_reconcile_missing_witness:
  "succeeds (Login_Reconcile (ex_reconciler mock_client) ''ns'' ''obj'') (ex_world (ex_login None) NewMockClient) (\<lambda>r w'.
     login_view (sql w') ''app'' = Some \<lparr>v_Password = ''x'', v_DefaultDatabase = ''db'', v_ServerRoles = {''dbcreator''}\<rparr>)"
  by (rule wp_mono [OF Login_reconcile_missing [OF ex_api_laws, where login = "ex_login None" and s = ex_secret and pw = "''x''"]])
     (simp_all add: ex_login_def ex_connects login_target_def new_login_def)

theorem Login_reconcile_existing_witness:
  "succeeds (Login_Reconcile (ex_reconciler mock_client) ''ns'' ''obj'') (ex_world (ex_login None) ex_login_server) (\<lambda>r w'.
     login_view (sql w') ''app'' = Some \<lparr>v_Password = ''x'', v_DefaultDatabase = ''db'', v_ServerRoles = {''dbcreator''}\<rparr>)"
  by (rule wp_mono [OF Login_reconcile_existing [OF ex_api_laws, where login = "ex_login None" and s = ex_secret and pw = "''x''"
        and v = "\<lparr>v_Password = ''old'', v_DefaultDatabase = [], v_ServerRoles = {''sysadmin''}\<rparr>"]])
     (simp_all add: ex_login_def ex_connects login_target_def rotated_def)

theorem Login_deletion_drops_witness:
  "succeeds (Login_handleDeletion (ex_reconciler mock_client) (ex_login (Some DeletionPolicyDelete)))
     (ex_world (ex_login (Some DeletionPolicyDelete)) ex_login_server) (\<lambda>r w'. login_view (sql w') ''app'' = None)"
  by (rule wp_mono [OF Login_deletion_drops [OF ex_api_laws]]) (simp_all add: ex_login_def ex_connects)

theorem Login_deletion_blocked_witness:
  "succeeds (Login_handleDeletion (ex_reconciler mock_client) (ex_login (Some DeletionPolicyDelete)))
     (ex_world (ex_login (Some DeletionPolicyDelete)) ex_login_used) (\<lambda>r w'. login_view (sql w') ''app'' \<noteq> None)"
  by (rule wp_mono [OF Login_deletion_blocked [OF ex_api_laws]]) (simp_all add: ex_login_def ex_connects)

end
