(* ===== verification/DatabaseUser_Controller.thy ===== *)
theory DatabaseUser_Controller
  imports Role_Reconciliation
begin

text \<open>
  \<open>internal/controller/databaseuser_controller.go\<close>: the reconciliation of a \<open>DatabaseUser\<close>,
  what it relies on (\<open>user_server\<close>, kept by the in-memory server) and what it establishes.
\<close>

section \<open>The reconciler\<close>

definition database_role_texts :: "string \<Rightarrow> role_texts" where
  "database_role_texts userName =
     \<lparr>get_failed = ''failed to get database roles'',
      added = ''DatabaseRoleAdded'', added_msg = (\<lambda>role. ''User '' @ userName @ '' added to database role '' @ role),
      removed = ''DatabaseRoleRemoved'',
      removed_msg = (\<lambda>role. ''User '' @ userName @ '' removed from database role '' @ role)\<rparr>"

definition reconcileDatabaseRoles ::
  "(DatabaseUser, 'k, 'c) Reconciler \<Rightarrow> 'c SQLClient \<Rightarrow> string \<Rightarrow> string \<Rightarrow> string list \<Rightarrow> (unit, ('k, 'c) world) op" where
  "reconcileDatabaseRoles R cl dbName userName desiredRoles =
     reconcile_roles (range_order R) (database_role_texts userName) (GetUserDatabaseRoles (users cl) dbName userName)
       (AddUserToDatabaseRole (users cl) dbName userName) (RemoveUserFromDatabaseRole (users cl) dbName userName)
       desiredRoles"

definition DatabaseUser_setConditionAndReturn ::
  "(DatabaseUser, 'k, 'c) Reconciler \<Rightarrow> DatabaseUser \<Rightarrow> ConditionStatus \<Rightarrow> string \<Rightarrow> string \<Rightarrow> (Result, ('k, 'c) world) op" where
  "DatabaseUser_setConditionAndReturn = setConditionAndReturn"

definition DatabaseUser_create ::
  "'c SQLClient \<Rightarrow> DatabaseUser \<Rightarrow> string \<Rightarrow> bool \<Rightarrow> (unit, ('k, 'c) world) op" where
  "DatabaseUser_create cl user loginName exists =
     (let db = u_DatabaseName (Spec user); name = u_UserName (Spec user) in
      if \<not> exists then
        or_fail (''failed to create user '' @ name) (on_sql (CreateUser (users cl) db name loginName)) (\<lambda>_.
        effect (Normal ''DatabaseUserCreated'' (''User '' @ name @ '' created in database '' @ db)) (ret ()))
      else ret ())"

definition DatabaseUser_sync ::
  "(DatabaseUser, 'k, 'c) Reconciler \<Rightarrow> 'c SQLClient \<Rightarrow> DatabaseUser \<Rightarrow> string \<Rightarrow> (Result, ('k, 'c) world) op" where
  "DatabaseUser_sync R cl user loginName =
     (let db = u_DatabaseName (Spec user); name = u_UserName (Spec user) in
      or_fail ''failed to check user existence'' (on_sql (UserExists (users cl) db name)) (\<lambda>exists.
      andthen (DatabaseUser_create cl user loginName exists) (
      andthen (reconcileDatabaseRoles R cl db name (u_DatabaseRoles (Spec user))) (
      DatabaseUser_setConditionAndReturn R user ConditionTrue ReasonReady
        (''User '' @ name @ '' is ready in database '' @ db)))))"

definition DatabaseUser_drop ::
  "(DatabaseUser, 'k, 'c) Reconciler \<Rightarrow> 'c SQLClient \<Rightarrow> DatabaseUser \<Rightarrow> (Result, ('k, 'c) world) op" where
  "DatabaseUser_drop R cl user =
     (let db = u_DatabaseName (Spec user); name = u_UserName (Spec user) in
      attempt (on_sql (DropUser (users cl) db name)) (\<lambda>_. remove_finalizer R user) (\<lambda>_.
        effect (Normal ''DatabaseUserDropped'' (''User '' @ name @ '' dropped from database '' @ db))
        (remove_finalizer R user)))"

definition DatabaseUser_cleanup ::
  "(DatabaseUser, 'k, 'c) Reconciler \<Rightarrow> 'c SQLClient \<Rightarrow> DatabaseUser \<Rightarrow> (Result, ('k, 'c) world) op" where
  "DatabaseUser_cleanup R cl user =
     (let db = u_DatabaseName (Spec user); name = u_UserName (Spec user) in
      attempt (on_sql (UserOwnsObjects (users cl) db name)) (\<lambda>_. DatabaseUser_drop R cl user) (\<lambda>owns.
        if owns then
          effect (Warning ReasonUserOwnsObjects (''User '' @ name @ '' owns objects in database '' @ db))
          (block_deletion R user ReasonUserOwnsObjects ''User owns objects in the database, transfer ownership first'')
        else DatabaseUser_drop R cl user))"

definition DatabaseUser_handleDeletion ::
  "(DatabaseUser, 'k, 'c) Reconciler \<Rightarrow> DatabaseUser \<Rightarrow> (Result, ('k, 'c) world) op" where
  "DatabaseUser_handleDeletion R user =
     (if \<not> ContainsFinalizer (kclient R) (cr_Finalizers user) Finalizer then ret (Result 0)
      else attempt (on_kube (getCredentialsFromSecret (kclient R) (cr_Namespace user)
          (CredentialsSecret (u_Server (Spec user))))) (\<lambda>_. remove_finalizer R user) (\<lambda>(username, password).
        case connectToSQL (u_Server (Spec user)) username password (SQLClientFactory R) of
          Inl _ \<Rightarrow> remove_finalizer R user
        | Inr cl \<Rightarrow> deferred (\<lambda>w. w\<lparr>sql := CloseClient cl (sql w)\<rparr>) (DatabaseUser_cleanup R cl user)))"

text \<open>
  \<open>GetLogin\<close> reads a \<open>Login\<close> object from the API server, as \<open>GetSecret\<close> reads a secret.
\<close>

definition DatabaseUser_Reconcile ::
  "(DatabaseUser, 'k, 'c) Reconciler \<Rightarrow> (string \<Rightarrow> string \<Rightarrow> (Login, 'k) op) \<Rightarrow> string \<Rightarrow> string
   \<Rightarrow> (Result, ('k, 'c) world) op" where
  "DatabaseUser_Reconcile R GetLogin ns name =
     fetch R ns name (\<lambda>user0.
     if cr_Deleting user0 then DatabaseUser_handleDeletion R user0
     else attempt (ensure_finalizer R user0) fail (\<lambda>user.
       attempt (on_kube (GetLogin (cr_Namespace user) (u_LoginRef (Spec user)))) (\<lambda>e.
         if IsNotFound e then
           DatabaseUser_setConditionAndReturn R user ConditionFalse ReasonLoginRefNotFound
             (''Login CR '' @ go_quote (u_LoginRef (Spec user)) @ '' not found'')
         else fail e) (\<lambda>login.
       credentials_or_condition R user (CredentialsSecret (u_Server (Spec user))) (\<lambda>(username, password).
       connect_or_fail R ''SQL Server'' (u_Server (Spec user)) username password (\<lambda>cl.
       DatabaseUser_sync R cl user (l_LoginName (Spec login)))))))"

section \<open>What a SQL Server promises about database users\<close>

record UserView =
  v_Login :: string
  v_DatabaseRoles :: "string set"
  v_OwnsObjects :: bool

text \<open>\<open>key\<close> says how a server identifies a user of a database.\<close>

locale user_server =
  fixes cl :: "'c SQLClient"
    and ok :: "'c \<Rightarrow> bool"
    and view :: "'c \<Rightarrow> 'i \<Rightarrow> UserView option"
    and key :: "string \<Rightarrow> string \<Rightarrow> 'i"
  assumes exists_law: "ok c \<Longrightarrow> reads ok view (UserExists (users cl) d n) c (view c (key d n) \<noteq> None)"
    and create_law: "ok c \<Longrightarrow> view c (key d n) = None \<Longrightarrow> writes ok view (CreateUser (users cl) d n l) c
      ((view c)(key d n \<mapsto> \<lparr>v_Login = l, v_DatabaseRoles = {}, v_OwnsObjects = False\<rparr>))"
    and drop_law: "ok c \<Longrightarrow> writes ok view (DropUser (users cl) d n) c ((view c)(key d n := None))"
    and get_roles: "ok c \<Longrightarrow> view c (key d n) = Some v \<Longrightarrow>
      \<exists>rs. set rs = v_DatabaseRoles v \<and> reads ok view (GetUserDatabaseRoles (users cl) d n) c rs"
    and add_role: "ok c \<Longrightarrow> view c (key d n) = Some v \<Longrightarrow> writes ok view (AddUserToDatabaseRole (users cl) d n r) c
      ((view c)(key d n \<mapsto> v\<lparr>v_DatabaseRoles := insert r (v_DatabaseRoles v)\<rparr>))"
    and remove_role: "ok c \<Longrightarrow> view c (key d n) = Some v \<Longrightarrow> writes ok view (RemoveUserFromDatabaseRole (users cl) d n r) c
      ((view c)(key d n \<mapsto> v\<lparr>v_DatabaseRoles := v_DatabaseRoles v - {r}\<rparr>))"
    and owns_law: "ok c \<Longrightarrow> view c (key d n) = Some v \<Longrightarrow> reads ok view (UserOwnsObjects (users cl) d n) c (v_OwnsObjects v)"
    and close_law: "ok c \<Longrightarrow> ok (CloseClient cl c) \<and> view (CloseClient cl c) = view c"

sublocale user_server \<subseteq> database_roles: role_store ok view v_DatabaseRoles "\<lambda>s v. v\<lparr>v_DatabaseRoles := s\<rparr>" "key d n"
    "GetUserDatabaseRoles (users cl) d n" "AddUserToDatabaseRole (users cl) d n" "RemoveUserFromDatabaseRole (users cl) d n"
    for d n
  by unfold_locales (simp_all add: get_roles add_role remove_role)

section \<open>What a reconciliation makes of a user\<close>

text \<open>A user that exists keeps its login mapping; only its roles follow the specification.\<close>

definition user_target :: "DatabaseUserSpec \<Rightarrow> string \<Rightarrow> UserView option \<Rightarrow> UserView" where
  "user_target sp loginName v =
     (case v of None \<Rightarrow> \<lparr>v_Login = loginName, v_DatabaseRoles = {}, v_OwnsObjects = False\<rparr> | Some v \<Rightarrow> v)
     \<lparr>v_DatabaseRoles := set (u_DatabaseRoles sp)\<rparr>"

context user_server
begin

theorem user_sync:
  assumes laws: "api_laws R objs secs srvs" and base: "objs (kube w) (request_of user) = Some user"
    and live: "\<not> cr_Deleting user" and c: "ok (sql w)"
  shows "succeeds (DatabaseUser_sync R cl user loginName) w (\<lambda>r w'. ok (sql w') \<and>
      view (sql w') = (view (sql w))(key (u_DatabaseName (Spec user)) (u_UserName (Spec user)) \<mapsto>
        user_target (Spec user) loginName (view (sql w) (key (u_DatabaseName (Spec user)) (u_UserName (Spec user))))) \<and>
      24 * second \<le> RequeueAfter r \<and> RequeueAfter r < 36 * second \<and>
      reported objs secs srvs user ConditionTrue ReasonReady (kube w) (kube w') \<and>
      ((\<exists>v. view (sql w) (key (u_DatabaseName (Spec user)) (u_UserName (Spec user))) = Some v
          \<and> v_DatabaseRoles v = set (u_DatabaseRoles (Spec user))) \<longrightarrow> events w' = events w))"
proof -
  let ?d = "u_DatabaseName (Spec user)" let ?n = "u_UserName (Spec user)"
  have x: "reads ok view (UserExists (users cl) ?d ?n) (sql w) (view (sql w) (key ?d ?n) \<noteq> None)"
    by (rule exists_law [OF c])
  note roles = wp_advances [OF database_roles.advances_reconcile_roles [OF api_lawsD(9) [OF laws]]]
  show ?thesis
  proof (cases "view (sql w) (key ?d ?n)")
    case None
    show ?thesis
      unfolding DatabaseUser_sync_def Let_def wp_or_fail wp_on_sql
      apply (rule wp_reads [OF x])
      apply (simp add: None wp_andthen DatabaseUser_create_def Let_def wp_or_fail wp_on_sql wp_effect wp_ret del: ret_apply)
      apply (rule wp_writes [OF create_law])
        apply (simp_all add: None reconcileDatabaseRoles_def DatabaseUser_setConditionAndReturn_def)
      apply (rule roles, simp, simp)
      apply (rule wp_setConditionAndReturn [OF laws _ live])
       apply (auto simp: base user_target_def)
      done
  next
    case (Some v)
    show ?thesis
      unfolding DatabaseUser_sync_def Let_def wp_or_fail wp_on_sql
      apply (rule wp_reads [OF x])
      apply (simp add: Some wp_andthen DatabaseUser_create_def wp_ret del: ret_apply)
      apply (simp add: reconcileDatabaseRoles_def DatabaseUser_setConditionAndReturn_def)
      apply (rule roles [where v = v], simp, simp add: Some)
      apply (rule wp_setConditionAndReturn [OF laws _ live])
       apply (auto simp: base user_target_def)
      done
  qed
qed

lemma wp_DatabaseUser_Reconcile:
  assumes laws: "api_laws R objs secs srvs" and user: "objs (kube w) (ns, n) = Some user" "request_of user = (ns, n)"
    and live: "\<not> cr_Deleting user"
    and login: "\<And>k. secs k = secs (kube w) \<Longrightarrow> srvs k = srvs (kube w) \<Longrightarrow> GetLogin ns (u_LoginRef (Spec user)) k = (Inr login, k)"
    and server: "connects R (secs (kube w)) ns (u_Server (Spec user)) cl"
    and body: "\<And>k'. objs k' = (objs (kube w))((ns, n) \<mapsto> finalized (kclient R) user) \<Longrightarrow> secs k' = secs (kube w) \<Longrightarrow>
      srvs k' = srvs (kube w) \<Longrightarrow>
      wp (DatabaseUser_sync R cl (finalized (kclient R) user) (l_LoginName (Spec login))) (w\<lparr>kube := k'\<rparr>)
        (\<lambda>r w'. Q r (w'\<lparr>sql := CloseClient cl (sql w')\<rparr>)) (\<lambda>e w'. E e (w'\<lparr>sql := CloseClient cl (sql w')\<rparr>))"
  shows "wp (DatabaseUser_Reconcile R GetLogin ns n) w Q E"
proof -
  from server obtain u p where
    up: "secret_credentials (secs (kube w)) ns (CredentialsSecret (u_Server (Spec user))) = Some (u, p)" and
    cl: "connectToSQL (u_Server (Spec user)) u p (SQLClientFactory R) = Inr cl"
    by (auto simp: connects_def)
  have ns: "cr_Namespace user = ns" using user(2) by (simp add: request_of_def)
  show ?thesis
    unfolding DatabaseUser_Reconcile_def fetch_def wp_attempt wp_on_kube wp_GetCR [OF laws user(1)]
    apply (simp add: live wp_attempt)
    apply (rule wp_ensure_finalizer [OF laws _ live])
     apply (simp add: user)
    subgoal premises k' for k'
    proof -
      have c: "secret_credentials (secs (kube (w\<lparr>kube := k'\<rparr>))) (cr_Namespace (finalized (kclient R) user))
          (CredentialsSecret (u_Server (Spec user))) = Some (u, p)"
        by (simp add: k' ns up)
      show ?thesis
        using body [of k'] k' user
        by (simp add: wp_credentials_or_condition [OF laws c] ns wp_attempt wp_on_kube
            succeeds_eq [where m = "GetLogin ns (u_LoginRef (Spec user))", OF login [OF k'(2,3)]] wp_connect_or_fail [OF cl])
    qed
    done
qed

theorem user_deletion:
  assumes laws: "api_laws R objs secs srvs" and base: "objs (kube w) (request_of user) = Some user"
    and fin: "ContainsFinalizer (kclient R) (cr_Finalizers user) Finalizer" "cr_Finalizers user \<noteq> []"
    and server: "connects R (secs (kube w)) (cr_Namespace user) (u_Server (Spec user)) cl"
    and c: "ok (sql w)" "view (sql w) (key (u_DatabaseName (Spec user)) (u_UserName (Spec user))) = Some v"
  shows "succeeds (DatabaseUser_handleDeletion R user) w (\<lambda>r w'. ok (sql w') \<and>
      (if v_OwnsObjects v then
         24 * second \<le> RequeueAfter r \<and> RequeueAfter r < 36 * second \<and> view (sql w') = view (sql w) \<and>
         (\<exists>st. objs (kube w') = (objs (kube w))(request_of user \<mapsto> user\<lparr>Status := st\<rparr>)
            \<and> ready_status (user\<lparr>Status := st\<rparr>) = Some (ConditionFalse, ReasonUserOwnsObjects))
       else r = Result 0 \<and>
         view (sql w') = (view (sql w))(key (u_DatabaseName (Spec user)) (u_UserName (Spec user)) := None) \<and>
         (\<forall>u. objs (kube w') (request_of user) = Some u \<longrightarrow>
            \<not> ContainsFinalizer (kclient R) (cr_Finalizers u) Finalizer)))"
proof -
  from server obtain u p where
    up: "secret_credentials (secs (kube w)) (cr_Namespace user) (CredentialsSecret (u_Server (Spec user))) = Some (u, p)" and
    cl: "connectToSQL (u_Server (Spec user)) u p (SQLClientFactory R) = Inr cl"
    by (auto simp: connects_def)
  note x = owns_law [OF c]
  show ?thesis
    apply (simp add: DatabaseUser_handleDeletion_def fin(1) wp_attempt wp_on_kube
        wp_getCredentialsFromSecret [OF laws up] cl wp_deferred DatabaseUser_cleanup_def Let_def wp_on_sql del: fun_upd_apply)
    apply (rule wp_reads [OF x])
    apply (cases "v_OwnsObjects v")
     apply (simp add: wp_effect del: fun_upd_apply)
     apply (rule wp_block_deletion [OF laws _ fin(2)])
      apply (auto simp: base close_law) [2]
    apply (simp add: DatabaseUser_drop_def Let_def wp_attempt wp_on_sql wp_effect del: fun_upd_apply)
    apply (rule wp_writes [OF drop_law], assumption)
    apply (rule wp_remove_finalizer [OF laws])
     apply (simp_all add: base close_law)
    done
qed

end

section \<open>The in-memory server is a user server\<close>

definition abs_user :: "MockUser \<Rightarrow> UserView" where
  "abs_user u = \<lparr>v_Login = mu_LoginName u, v_DatabaseRoles = set (mu_Roles u), v_OwnsObjects = mu_OwnsObjects u\<rparr>"

definition user_view :: "MockClient \<Rightarrow> string \<Rightarrow> UserView option" where
  "user_view s k = map_option abs_user (musers s k)"

definition besides_users :: "MockClient \<Rightarrow> MockClient" where
  "besides_users s = s\<lparr>musers := Map.empty, calls := (\<lambda>_. 0)\<rparr>"

definition mock_user_ok :: "MockClient \<Rightarrow> MockClient \<Rightarrow> bool" where
  "mock_user_ok o' s \<longleftrightarrow> healthy s \<and> besides_users s = o'"

lemma besides_users_simps [simp]:
  "besides_users (track m s) = besides_users s" "besides_users (s\<lparr>musers := d\<rparr>) = besides_users s"
  by (simp_all add: besides_users_def track_def)

lemma user_view_simps [simp]:
  "user_view (track m s) = user_view s"
  "user_view ((track m s)\<lparr>musers := (musers s)(k \<mapsto> d)\<rparr>) = (user_view s)(k \<mapsto> abs_user d)"
  "user_view ((track m s)\<lparr>musers := (musers s)(k := None)\<rparr>) = (user_view s)(k := None)"
  "(user_view s k = None) = (musers s k = None)"
  by (auto simp: user_view_def)

lemma abs_user_simps:
  "v_Login (abs_user u) = mu_LoginName u" "v_DatabaseRoles (abs_user u) = set (mu_Roles u)"
  "v_OwnsObjects (abs_user u) = mu_OwnsObjects u"
  "abs_user (u\<lparr>mu_Roles := rs\<rparr>) = (abs_user u)\<lparr>v_DatabaseRoles := set rs\<rparr>"
  "abs_user \<lparr>mu_DBName = d, mu_UserName = n, mu_LoginName = l, mu_Roles = [], mu_OwnsObjects = False\<rparr>
     = \<lparr>v_Login = l, v_DatabaseRoles = {}, v_OwnsObjects = False\<rparr>"
  by (simp_all add: abs_user_def)

lemma user_viewD: "user_view s k = Some v \<Longrightarrow> \<exists>u. musers s k = Some u \<and> v = abs_user u"
  by (auto simp: user_view_def)

lemma mock_users_simps:
  "UserExists (users mock_client) = Mock_UserExists" "CreateUser (users mock_client) = Mock_CreateUser"
  "DropUser (users mock_client) = Mock_DropUser" "GetUserDatabaseRoles (users mock_client) = Mock_GetUserDatabaseRoles"
  "AddUserToDatabaseRole (users mock_client) = Mock_AddUserToDatabaseRole"
  "RemoveUserFromDatabaseRole (users mock_client) = Mock_RemoveUserFromDatabaseRole"
  "UserOwnsObjects (users mock_client) = Mock_UserOwnsObjects" "CloseClient mock_client = Mock_Close"
  by (simp_all add: mock_client_def)

lemma present_database_role: "musers s k = Some u \<Longrightarrow> r \<in> set (mu_Roles u) \<Longrightarrow>
  (user_view s)(k \<mapsto> (abs_user u)\<lparr>v_DatabaseRoles := insert r (v_DatabaseRoles (abs_user u))\<rparr>) = user_view s"
  by (auto simp: user_view_def fun_eq_iff abs_user_def insert_absorb)

lemma filter_database_role: "{x \<in> set rs. x \<noteq> r} = set rs - {r}"
  by auto

lemma mock_add_database_role:
  assumes "mock_user_ok o' c" and "user_view c (userKey d n) = Some v"
  shows "writes (mock_user_ok o') user_view (Mock_AddUserToDatabaseRole d n r) c
    ((user_view c)(userKey d n \<mapsto> v\<lparr>v_DatabaseRoles := insert r (v_DatabaseRoles v)\<rparr>))"
proof -
  obtain u where u: "musers c (userKey d n) = Some u" "v = abs_user u" using user_viewD [OF assms(2)] by blast
  show ?thesis
  proof (cases "r \<in> set (mu_Roles u)")
    case True
    with u assms(1) show ?thesis
      by (simp add: writes_def Mock_AddUserToDatabaseRole_def mock_user_ok_def present_database_role)
  next
    case False
    with u assms(1) show ?thesis
      by (simp add: writes_def Mock_AddUserToDatabaseRole_def mock_user_ok_def abs_user_simps)
  qed
qed

interpretation mock_users: user_server mock_client "mock_user_ok o'" user_view userKey for o'
proof (unfold_locales, unfold mock_users_simps)
  show "writes (mock_user_ok o') user_view (Mock_AddUserToDatabaseRole d n r) c
    ((user_view c)(userKey d n \<mapsto> v\<lparr>v_DatabaseRoles := insert r (v_DatabaseRoles v)\<rparr>))"
    if "mock_user_ok o' c" "user_view c (userKey d n) = Some v" for c d n v r
    using that by (rule mock_add_database_role)
qed (unfold Mock_method_defs Mock_Close_def mock_user_ok_def reads_def writes_def,
     (force dest!: user_viewD simp: abs_user_simps Let_def filter_database_role)+)

section \<open>Reconciling against the in-memory server\<close>

text \<open>
  C15. Reconciling a \<open>DatabaseUser\<close> always completes: a missing user is created for the login of
  its \<open>Login\<close> object, and the user ends in exactly the specified database roles; nothing else
  on the server changes, and a user whose roles are right causes no event.
\<close>

theorem DatabaseUser_reconcile:
  fixes w :: "('k, MockClient) world"
  assumes "api_laws R objs secs srvs" and "objs (kube w) (ns, n) = Some user" and "request_of user = (ns, n)"
    and "\<not> cr_Deleting user" and "\<And>k. secs k = secs (kube w) \<Longrightarrow> srvs k = srvs (kube w) \<Longrightarrow>
      GetLogin ns (u_LoginRef (Spec user)) k = (Inr login, k)"
    and "connects R (secs (kube w)) ns (u_Server (Spec user)) mock_client" and "healthy (sql w)"
  shows "succeeds (DatabaseUser_Reconcile R GetLogin ns n) w (\<lambda>r w'.
    let k = userKey (u_DatabaseName (Spec user)) (u_UserName (Spec user)) in
    besides_users (sql w') = besides_users (sql w) \<and>
    user_view (sql w') = (user_view (sql w))(k \<mapsto>
      user_target (Spec user) (l_LoginName (Spec login)) (user_view (sql w) k)) \<and>
    24 * second \<le> RequeueAfter r \<and> RequeueAfter r < 36 * second \<and>
    outcome objs secs srvs (kclient R) user ConditionTrue ReasonReady (kube w) (kube w') \<and>
    ((\<exists>v. user_view (sql w) k = Some v \<and> v_DatabaseRoles v = set (u_DatabaseRoles (Spec user))) \<longrightarrow>
       events w' = events w))" (is "wp _ _ ?Q _")
proof (rule mock_users.wp_DatabaseUser_Reconcile [where R = R and objs = objs and secs = secs and srvs = srvs
      and w = w and ns = ns and n = n and user = user and login = login and GetLogin = GetLogin, OF assms(1-6)])
  fix k' assume k': "objs k' = (objs (kube w))((ns, n) \<mapsto> finalized (kclient R) user)"
    "secs k' = secs (kube w)" "srvs k' = srvs (kube w)"
  show "wp (DatabaseUser_sync R mock_client (finalized (kclient R) user) (l_LoginName (Spec login))) (w\<lparr>kube := k'\<rparr>)
    (\<lambda>r w'. ?Q r (w'\<lparr>sql := CloseClient mock_client (sql w')\<rparr>)) (\<lambda>e w'. False)"
    by (rule wp_mono [OF mock_users.user_sync [OF assms(1), where user = "finalized (kclient R) user"
          and w = "w\<lparr>kube := k'\<rparr>" and o' = "besides_users (sql w)"]])
       (use assms k' in \<open>auto simp: mock_user_ok_def Let_def mock_users.close_law [unfolded mock_user_ok_def]
          intro: reported_outcome\<close>)
qed

text \<open>
  Deleting a \<open>DatabaseUser\<close> drops the user, alone, and releases the object; a user that owns
  objects is kept, with its object, which says so and is looked at again within 36 seconds.
\<close>

theorem DatabaseUser_deletion:
  assumes "api_laws R objs secs srvs" and "objs (kube w) (request_of user) = Some user"
    and "ContainsFinalizer (kclient R) (cr_Finalizers user) Finalizer" and "cr_Finalizers user \<noteq> []"
    and "connects R (secs (kube w)) (cr_Namespace user) (u_Server (Spec user)) mock_client" and "healthy (sql w)"
    and "user_view (sql w) (userKey (u_DatabaseName (Spec user)) (u_UserName (Spec user))) = Some v"
  shows "succeeds (DatabaseUser_handleDeletion R user) w (\<lambda>r w'. besides_users (sql w') = besides_users (sql w) \<and>
      (if v_OwnsObjects v then
         24 * second \<le> RequeueAfter r \<and> RequeueAfter r < 36 * second \<and> user_view (sql w') = user_view (sql w) \<and>
         (\<exists>st. objs (kube w') = (objs (kube w))(request_of user \<mapsto> user\<lparr>Status := st\<rparr>)
            \<and> ready_status (user\<lparr>Status := st\<rparr>) = Some (ConditionFalse, ReasonUserOwnsObjects))
       else r = Result 0 \<and>
         user_view (sql w') = (user_view (sql w))(userKey (u_DatabaseName (Spec user)) (u_UserName (Spec user)) := None) \<and>
         (\<forall>u. objs (kube w') (request_of user) = Some u \<longrightarrow>
            \<not> ContainsFinalizer (kclient R) (cr_Finalizers u) Finalizer)))"
  by (rule wp_mono [OF mock_users.user_deletion [OF assms(1-5), where o' = "besides_users (sql w)"]])
     (use assms(6,7) in \<open>auto simp: mock_user_ok_def\<close>)

section \<open>Examples\<close>

definition ex_user :: DatabaseUser where
  "ex_user = ex_cr \<lparr>u_Server = ex_server, u_DatabaseName = ''db'', u_UserName = ''u'', u_LoginRef = ''app'',
     u_DatabaseRoles = [''db_datareader'']\<rparr> ex_status"

definition ex_user_login :: Login where
  "ex_user_login = ex_cr \<lparr>l_Server = ex_server, l_LoginName = ''app_login'', l_PasswordSecret = ''creds'',
     l_DefaultDatabase = None, l_ServerRoles = [], l_DeletionPolicy = None\<rparr>
     \<lparr>Conditions = [], ObservedGeneration = 0, PasswordSecretResourceVersion = ''0''\<rparr>"

definition ex_user_server :: "bool \<Rightarrow> MockClient" where
  "ex_user_server owns = NewMockClient\<lparr>musers := [''db/u'' \<mapsto> \<lparr>mu_DBName = ''db'', mu_UserName = ''u'',
     mu_LoginName = ''app_login'', mu_Roles = [''db_owner''], mu_OwnsObjects = owns\<rparr>]\<rparr>"

lemma ex_user_simps [simp]:
  "healthy (ex_user_server b)" "userKey ''db'' ''u'' = ''db/u''"
  "user_view (ex_user_server b) ''db/u'' = Some \<lparr>v_Login = ''app_login'', v_DatabaseRoles = {''db_owner''}, v_OwnsObjects = b\<rparr>"
  by (simp_all add: ex_user_server_def user_view_def abs_user_def NewMockClient_def healthy_def userKey_def)

theorem DatabaseUser_reconcile_witness:
  "succeeds (DatabaseUser_Reconcile (ex_reconciler mock_client) (\<lambda>_ _ k. (Inr ex_user_login, k)) ''ns'' ''obj'')
     (ex_world ex_user (ex_user_server False)) (\<lambda>r w'. user_view (sql w') ''db/u'' =
       Some \<lparr>v_Login = ''app_login'', v_DatabaseRoles = {''db_datareader''}, v_OwnsObjects = False\<rparr>)"
  by (rule wp_mono [OF DatabaseUser_reconcile [OF ex_api_laws, where user = ex_user and login = ex_user_login]])
     (simp_all add: ex_user_def ex_connects user_target_def)

theorem DatabaseUser_deletion_witness:
  "succeeds (DatabaseUser_handleDeletion (ex_reconciler mock_client) ex_user) (ex_world ex_user (ex_user_server True))
     (\<lambda>r w'. user_view (sql w') ''db/u'' \<noteq> None)"
  by (rule wp_mono [OF DatabaseUser_deletion [OF ex_api_laws,
        where v = "\<lparr>v_Login = ''app_login'', v_DatabaseRoles = {''db_owner''}, v_OwnsObjects = True\<rparr>"]])
     (simp_all add: ex_user_def ex_connects)

end
