(* ===== verification/Schema_Controller.thy ===== *)
theory Schema_Controller
  imports Memory_API Mock_Laws
begin

text \<open>
  \<open>internal/controller/schema_controller.go\<close>: the reconciliation of a \<open>Schema\<close>, what it relies on
  (\<open>schema_server\<close>, kept by the in-memory server) and what it establishes.
\<close>

section \<open>The reconciler\<close>

definition Schema_setConditionAndReturn ::
  "(Schema, 'k, 'c) Reconciler \<Rightarrow> Schema \<Rightarrow> ConditionStatus \<Rightarrow> string \<Rightarrow> string \<Rightarrow> (Result, ('k, 'c) world) op" where
  "Schema_setConditionAndReturn = setConditionAndReturn"

definition Schema_create :: "'c SQLClient \<Rightarrow> Schema \<Rightarrow> bool \<Rightarrow> (unit, ('k, 'c) world) op" where
  "Schema_create cl schema exists =
     (let db = sch_DatabaseName (Spec schema); name = sch_SchemaName (Spec schema) in
      if \<not> exists then
        or_fail (''failed to create schema '' @ name)
          (on_sql (CreateSchema (schemas cl) db name (sch_Owner (Spec schema)))) (\<lambda>_.
        effect (Normal ''SchemaCreated'' (''Schema '' @ name @ '' created in database '' @ db)) (ret ()))
      else ret ())"

definition Schema_owner :: "'c SQLClient \<Rightarrow> Schema \<Rightarrow> (unit, ('k, 'c) world) op" where
  "Schema_owner cl schema =
     (let db = sch_DatabaseName (Spec schema); name = sch_SchemaName (Spec schema) in
      case sch_Owner (Spec schema) of
        None \<Rightarrow> ret ()
      | Some owner \<Rightarrow>
          or_fail ''failed to get schema owner'' (on_sql (GetSchemaOwner (schemas cl) db name)) (\<lambda>currentOwner.
          if currentOwner \<noteq> owner then
            or_fail ''failed to set schema owner'' (on_sql (SetSchemaOwner (schemas cl) db name owner)) (\<lambda>_.
            effect (Normal ''SchemaOwnerUpdated'' (''Schema '' @ name @ '' owner set to '' @ owner)) (ret ()))
          else ret ()))"

definition Schema_sync ::
  "(Schema, 'k, 'c) Reconciler \<Rightarrow> 'c SQLClient \<Rightarrow> Schema \<Rightarrow> (Result, ('k, 'c) world) op" where
  "Schema_sync R cl schema =
     (let db = sch_DatabaseName (Spec schema); name = sch_SchemaName (Spec schema) in
      or_fail ''failed to check schema existence'' (on_sql (SchemaExists (schemas cl) db name)) (\<lambda>exists.
      andthen (Schema_create cl schema exists) (
      andthen (Schema_owner cl schema) (
      Schema_setConditionAndReturn R schema ConditionTrue ReasonReady
        (''Schema '' @ name @ '' is ready in database '' @ db)))))"

definition Schema_drop ::
  "(Schema, 'k, 'c) Reconciler \<Rightarrow> 'c SQLClient \<Rightarrow> Schema \<Rightarrow> (Result, ('k, 'c) world) op" where
  "Schema_drop R cl schema =
     (let db = sch_DatabaseName (Spec schema); name = sch_SchemaName (Spec schema) in
      attempt (on_sql (DropSchema (schemas cl) db name)) (\<lambda>_. remove_finalizer R schema) (\<lambda>_.
        effect (Normal ''SchemaDropped'' (''Schema '' @ name @ '' dropped from database '' @ db))
        (remove_finalizer R schema)))"

definition Schema_cleanup ::
  "(Schema, 'k, 'c) Reconciler \<Rightarrow> 'c SQLClient \<Rightarrow> Schema \<Rightarrow> (Result, ('k, 'c) world) op" where
  "Schema_cleanup R cl schema =
     (let db = sch_DatabaseName (Spec schema); name = sch_SchemaName (Spec schema) in
      attempt (on_sql (SchemaHasObjects (schemas cl) db name)) (\<lambda>_. Schema_drop R cl schema) (\<lambda>hasObjects.
        if hasObjects then
          effect (Warning ReasonSchemaNotEmpty (''Schema '' @ name @ '' contains objects in database '' @ db))
          (block_deletion R schema ReasonSchemaNotEmpty ''Schema contains objects, move or drop them first'')
        else Schema_drop R cl schema))"

definition Schema_handleDeletion ::
  "(Schema, 'k, 'c) Reconciler \<Rightarrow> Schema \<Rightarrow> (Result, ('k, 'c) world) op" where
  "Schema_handleDeletion R schema =
     (if \<not> ContainsFinalizer (kclient R) (cr_Finalizers schema) Finalizer then ret (Result 0)
      else
        (let policy = (case sch_DeletionPolicy (Spec schema) of None \<Rightarrow> DeletionPolicyRetain | Some p \<Rightarrow> p)
         in if policy = DeletionPolicyDelete then
              attempt (on_kube (getCredentialsFromSecret (kclient R) (cr_Namespace schema)
                  (CredentialsSecret (sch_Server (Spec schema))))) (\<lambda>_. remove_finalizer R schema) (\<lambda>(username, password).
              case connectToSQL (sch_Server (Spec schema)) username password (SQLClientFactory R) of
                Inl _ \<Rightarrow> remove_finalizer R schema
              | Inr cl \<Rightarrow> deferred (\<lambda>w. w\<lparr>sql := CloseClient cl (sql w)\<rparr>) (Schema_cleanup R cl schema))
            else remove_finalizer R schema))"

definition Schema_Reconcile ::
  "(Schema, 'k, 'c) Reconciler \<Rightarrow> string \<Rightarrow> string \<Rightarrow> (Result, ('k, 'c) world) op" where
  "Schema_Reconcile R ns name =
     fetch R ns name (\<lambda>schema0.
     if cr_Deleting schema0 then Schema_handleDeletion R schema0
     else attempt (ensure_finalizer R schema0) fail (\<lambda>schema.
       credentials_or_condition R schema (CredentialsSecret (sch_Server (Spec schema))) (\<lambda>(username, password).
       connect_or_fail R ''SQL Server'' (sch_Server (Spec schema)) username password (\<lambda>cl.
       Schema_sync R cl schema))))"

section \<open>What a SQL Server promises about schemas\<close>

record SchemaView =
  v_SchemaOwner :: string
  v_HasObjects :: bool

text \<open>
  A schema lives in a database the server knows, \<open>known\<close>, and is owned by a principal of that
  database, \<open>principal\<close>; only an empty schema can be dropped.
\<close>

locale schema_server =
  fixes cl :: "'c SQLClient"
    and ok :: "'c \<Rightarrow> bool"
    and view :: "'c \<Rightarrow> 'i \<Rightarrow> SchemaView option"
    and key :: "string \<Rightarrow> string \<Rightarrow> 'i"
    and known :: "string \<Rightarrow> bool"
    and principal :: "string \<Rightarrow> string \<Rightarrow> bool"
    and default_owner :: string
  assumes exists_law: "ok c \<Longrightarrow> known d \<Longrightarrow> reads ok view (SchemaExists (schemas cl) d n) c (view c (key d n) \<noteq> None)"
    and create_law: "ok c \<Longrightarrow> known d \<Longrightarrow> (\<And>y. x = Some y \<Longrightarrow> y \<noteq> [] \<Longrightarrow> principal d y) \<Longrightarrow> view c (key d n) = None \<Longrightarrow>
      writes ok view (CreateSchema (schemas cl) d n x) c
      ((view c)(key d n \<mapsto> \<lparr>v_SchemaOwner = (case x of Some y \<Rightarrow> if y \<noteq> [] then y else default_owner | None \<Rightarrow> default_owner), v_HasObjects = False\<rparr>))"
    and drop_law: "ok c \<Longrightarrow> known d \<Longrightarrow> view c (key d n) = Some v \<Longrightarrow> \<not> v_HasObjects v \<Longrightarrow>
      writes ok view (DropSchema (schemas cl) d n) c ((view c)(key d n := None))"
    and get_owner: "ok c \<Longrightarrow> known d \<Longrightarrow> view c (key d n) = Some v \<Longrightarrow> reads ok view (GetSchemaOwner (schemas cl) d n) c (v_SchemaOwner v)"
    and set_owner: "ok c \<Longrightarrow> known d \<Longrightarrow> principal d y \<Longrightarrow> view c (key d n) = Some v \<Longrightarrow>
      writes ok view (SetSchemaOwner (schemas cl) d n y) c ((view c)(key d n \<mapsto> v\<lparr>v_SchemaOwner := y\<rparr>))"
    and objects_law: "ok c \<Longrightarrow> known d \<Longrightarrow> view c (key d n) = Some v \<Longrightarrow>
      reads ok view (SchemaHasObjects (schemas cl) d n) c (v_HasObjects v)"
    and close_law: "ok c \<Longrightarrow> ok (CloseClient cl c) \<and> view (CloseClient cl c) = view c"

section \<open>What a reconciliation makes of a schema\<close>

definition schema_owner_target :: "SchemaSpec \<Rightarrow> SchemaView \<Rightarrow> SchemaView" where
  "schema_owner_target sp v = (case sch_Owner sp of None \<Rightarrow> v | Some x \<Rightarrow> v\<lparr>v_SchemaOwner := x\<rparr>)"

definition schema_target :: "SchemaSpec \<Rightarrow> string \<Rightarrow> SchemaView option \<Rightarrow> SchemaView" where
  "schema_target sp dflt v = schema_owner_target sp
     (case v of None \<Rightarrow> \<lparr>v_SchemaOwner = dflt, v_HasObjects = False\<rparr> | Some v \<Rightarrow> v)"

lemma schema_view_unchanged: "v_SchemaOwner v = x \<Longrightarrow> v\<lparr>v_SchemaOwner := x\<rparr> = v"
  by (cases v) simp

context schema_server
begin

lemma advances_schema_owner:
  assumes place: "known (sch_DatabaseName (Spec schema))"
    "\<forall>y. sch_Owner (Spec schema) = Some y \<longrightarrow> principal (sch_DatabaseName (Spec schema)) y"
  shows "advances ok view (schema_owner_target (Spec schema) v = v) (Schema_owner cl schema :: (unit, ('k, 'c) world) op)
     (key (sch_DatabaseName (Spec schema)) (sch_SchemaName (Spec schema))) v (schema_owner_target (Spec schema) v)"
proof (cases "sch_Owner (Spec schema)")
  case None
  then show ?thesis
    by (simp only: Schema_owner_def schema_owner_target_def Let_def option.simps) (rule advances_ret)
next
  case (Some x)
  have fix_owner: "v_SchemaOwner v \<noteq> x \<Longrightarrow> v\<lparr>v_SchemaOwner := x\<rparr> \<noteq> v" by (cases v) auto
  have keep: "v_SchemaOwner v = x \<Longrightarrow> v\<lparr>v_SchemaOwner := x\<rparr> = v" by (rule schema_view_unchanged)
  show ?thesis
    unfolding Schema_owner_def schema_owner_target_def Let_def Some option.simps
  proof (rule advances_adjust)
    show "v\<lparr>v_SchemaOwner := x\<rparr> \<noteq> v \<and> advances ok view False (effect (record_event ''Normal'' ''SchemaOwnerUpdated''
          (''Schema '' @ sch_SchemaName (Spec schema) @ '' owner set to '' @ x)) (ret ()) :: (unit, ('k, 'c) world) op)
        (key (sch_DatabaseName (Spec schema)) (sch_SchemaName (Spec schema))) (v\<lparr>v_SchemaOwner := x\<rparr>) (v\<lparr>v_SchemaOwner := x\<rparr>)"
      if "v_SchemaOwner v \<noteq> x"
      using fix_owner [OF that] by (rule conjI) (rule advances_event, rule advances_ret)
    show "advances ok view (v\<lparr>v_SchemaOwner := x\<rparr> = v) (ret () :: (unit, ('k, 'c) world) op)
        (key (sch_DatabaseName (Spec schema)) (sch_SchemaName (Spec schema))) v (v\<lparr>v_SchemaOwner := x\<rparr>)"
      if "v_SchemaOwner v = x"
      unfolding keep [OF that] by (rule advances_ret)
  qed (rule get_owner set_owner; (assumption | simp add: place Some)+)+
qed

theorem schema_sync:
  assumes laws: "api_laws R objs secs srvs" and base: "objs (kube w) (request_of schema) = Some schema"
    and live: "\<not> cr_Deleting schema" and c: "ok (sql w)"
    and place: "known (sch_DatabaseName (Spec schema))"
      "\<forall>y. sch_Owner (Spec schema) = Some y \<longrightarrow> principal (sch_DatabaseName (Spec schema)) y"
  shows "succeeds (Schema_sync R cl schema) w (\<lambda>r w'. ok (sql w') \<and>
      view (sql w') = (view (sql w))(key (sch_DatabaseName (Spec schema)) (sch_SchemaName (Spec schema)) \<mapsto>
        schema_target (Spec schema) default_owner (view (sql w) (key (sch_DatabaseName (Spec schema)) (sch_SchemaName (Spec schema))))) \<and>
      24 * second \<le> RequeueAfter r \<and> RequeueAfter r < 36 * second \<and>
      reported objs secs srvs schema ConditionTrue ReasonReady (kube w) (kube w') \<and>
      ((\<exists>v. view (sql w) (key (sch_DatabaseName (Spec schema)) (sch_SchemaName (Spec schema))) = Some v
          \<and> schema_owner_target (Spec schema) v = v) \<longrightarrow> events w' = events w))"
proof -
  let ?k = "key (sch_DatabaseName (Spec schema)) (sch_SchemaName (Spec schema))"
  note x = exists_law [OF c place(1), of "sch_SchemaName (Spec schema)"]
  note owner = wp_advances [OF advances_schema_owner [OF place]]
  show ?thesis
  proof (cases "view (sql w) ?k")
    case None
    let ?new = "\<lparr>v_SchemaOwner = (case sch_Owner (Spec schema) of Some y \<Rightarrow> if y \<noteq> [] then y else default_owner | None \<Rightarrow> default_owner), v_HasObjects = False\<rparr>"
    have t: "schema_owner_target (Spec schema) ?new = schema_target (Spec schema) default_owner None"
      by (simp add: schema_target_def schema_owner_target_def split: option.split)
    show ?thesis
      unfolding Schema_sync_def Let_def wp_or_fail wp_on_sql
      apply (rule wp_reads [OF x])
      apply (simp add: None wp_andthen Schema_create_def Let_def wp_or_fail wp_on_sql wp_effect wp_ret del: ret_apply)
      apply (rule wp_writes [OF create_law])
          apply (simp_all add: None Schema_setConditionAndReturn_def place)
      apply (rule owner [where v = ?new], simp, simp)
      apply (rule wp_setConditionAndReturn [OF laws _ live])
       apply (simp_all add: base t)
      done
  next
    case (Some v)
    show ?thesis
      unfolding Schema_sync_def Let_def wp_or_fail wp_on_sql
      apply (rule wp_reads [OF x])
      apply (simp add: Some wp_andthen Schema_create_def wp_ret Schema_setConditionAndReturn_def del: ret_apply)
      apply (rule owner [where v = v], simp, simp add: Some)
      apply (rule wp_setConditionAndReturn [OF laws _ live])
       apply (auto simp: base schema_target_def)
      done
  qed
qed

lemma wp_Schema_Reconcile:
  assumes laws: "api_laws R objs secs srvs" and schema: "objs (kube w) (ns, n) = Some schema" "request_of schema = (ns, n)"
    and live: "\<not> cr_Deleting schema"
    and server: "connects R (secs (kube w)) ns (sch_Server (Spec schema)) cl"
    and body: "\<And>k'. objs k' = (objs (kube w))((ns, n) \<mapsto> finalized (kclient R) schema) \<Longrightarrow> secs k' = secs (kube w) \<Longrightarrow>
      srvs k' = srvs (kube w) \<Longrightarrow>
      wp (Schema_sync R cl (finalized (kclient R) schema)) (w\<lparr>kube := k'\<rparr>)
        (\<lambda>r w'. Q r (w'\<lparr>sql := CloseClient cl (sql w')\<rparr>)) (\<lambda>e w'. E e (w'\<lparr>sql := CloseClient cl (sql w')\<rparr>))"
  shows "wp (Schema_Reconcile R ns n) w Q E"
proof -
  from server obtain u p where
    up: "secret_credentials (secs (kube w)) ns (CredentialsSecret (sch_Server (Spec schema))) = Some (u, p)" and
    cl: "connectToSQL (sch_Server (Spec schema)) u p (SQLClientFactory R) = Inr cl"
    by (auto simp: connects_def)
  have ns: "cr_Namespace schema = ns" using schema(2) by (simp add: request_of_def)
  show ?thesis
    unfolding Schema_Reconcile_def fetch_def wp_attempt wp_on_kube wp_GetCR [OF laws schema(1)]
    apply (simp add: live wp_attempt)
    apply (rule wp_ensure_finalizer [OF laws _ live])
     apply (simp add: schema)
    subgoal premises k' for k'
    proof -
      have c: "secret_credentials (secs (kube (w\<lparr>kube := k'\<rparr>))) (cr_Namespace (finalized (kclient R) schema))
          (CredentialsSecret (sch_Server (Spec schema))) = Some (u, p)"
        by (simp add: k' ns up)
      show ?thesis
        using body [of k'] k' schema
        by (simp add: wp_credentials_or_condition [OF laws c] wp_connect_or_fail [OF cl])
    qed
    done
qed

theorem schema_deletion:
  assumes laws: "api_laws R objs secs srvs" and base: "objs (kube w) (request_of schema) = Some schema"
    and fin: "ContainsFinalizer (kclient R) (cr_Finalizers schema) Finalizer" "cr_Finalizers schema \<noteq> []"
    and policy: "sch_DeletionPolicy (Spec schema) = Some DeletionPolicyDelete"
    and server: "connects R (secs (kube w)) (cr_Namespace schema) (sch_Server (Spec schema)) cl"
    and c: "ok (sql w)" "view (sql w) (key (sch_DatabaseName (Spec schema)) (sch_SchemaName (Spec schema))) = Some v"
    and place: "known (sch_DatabaseName (Spec schema))"
  shows "succeeds (Schema_handleDeletion R schema) w (\<lambda>r w'. ok (sql w') \<and>
      (if v_HasObjects v then
         24 * second \<le> RequeueAfter r \<and> RequeueAfter r < 36 * second \<and> view (sql w') = view (sql w) \<and>
         (\<exists>st. objs (kube w') = (objs (kube w))(request_of schema \<mapsto> schema\<lparr>Status := st\<rparr>)
            \<and> ready_status (schema\<lparr>Status := st\<rparr>) = Some (ConditionFalse, ReasonSchemaNotEmpty))
       else r = Result 0 \<and>
         view (sql w') = (view (sql w))(key (sch_DatabaseName (Spec schema)) (sch_SchemaName (Spec schema)) := None) \<and>
         (\<forall>u. objs (kube w') (request_of schema) = Some u \<longrightarrow>
            \<not> ContainsFinalizer (kclient R) (cr_Finalizers u) Finalizer)))"
proof -
  from server obtain u p where
    up: "secret_credentials (secs (kube w)) (cr_Namespace schema) (CredentialsSecret (sch_Server (Spec schema))) = Some (u, p)" and
    cl: "connectToSQL (sch_Server (Spec schema)) u p (SQLClientFactory R) = Inr cl"
    by (auto simp: connects_def)
  note x = objects_law [OF c(1) place c(2)]
  show ?thesis
    apply (simp add: Schema_handleDeletion_def fin(1) policy wp_attempt wp_on_kube
        wp_getCredentialsFromSecret [OF laws up] cl wp_deferred Schema_cleanup_def Let_def wp_on_sql del: fun_upd_apply)
    apply (rule wp_reads [OF x])
    apply (cases "v_HasObjects v")
     apply (simp add: wp_effect del: fun_upd_apply)
     apply (rule wp_block_deletion [OF laws _ fin(2)])
      apply (auto simp: base close_law) [2]
    apply (simp add: Schema_drop_def Let_def wp_attempt wp_on_sql wp_effect del: fun_upd_apply)
    apply (rule wp_writes [OF drop_law])
        apply (simp_all add: c place)
    apply (rule wp_remove_finalizer [OF laws])
     apply (simp_all add: base close_law)
    done
qed

end

section \<open>The in-memory server is a schema server\<close>

definition abs_schema :: "MockSchema \<Rightarrow> SchemaView" where
  "abs_schema s = \<lparr>v_SchemaOwner = ms_Owner s, v_HasObjects = ms_HasObjects s\<rparr>"

definition schema_view :: "MockClient \<Rightarrow> string \<Rightarrow> SchemaView option" where
  "schema_view s k = map_option abs_schema (mschemas s k)"

definition besides_schemas :: "MockClient \<Rightarrow> MockClient" where
  "besides_schemas s = s\<lparr>mschemas := Map.empty, calls := (\<lambda>_. 0)\<rparr>"

definition mock_schema_ok :: "MockClient \<Rightarrow> MockClient \<Rightarrow> bool" where
  "mock_schema_ok o' s \<longleftrightarrow> healthy s \<and> besides_schemas s = o'"

lemma besides_schemas_simps [simp]:
  "besides_schemas (track m s) = besides_schemas s" "besides_schemas (s\<lparr>mschemas := d\<rparr>) = besides_schemas s"
  by (simp_all add: besides_schemas_def track_def)

lemma schema_view_simps [simp]:
  "schema_view (track m s) = schema_view s"
  "schema_view ((track m s)\<lparr>mschemas := (mschemas s)(k \<mapsto> d)\<rparr>) = (schema_view s)(k \<mapsto> abs_schema d)"
  "schema_view ((track m s)\<lparr>mschemas := (mschemas s)(k := None)\<rparr>) = (schema_view s)(k := None)"
  "(schema_view s k = None) = (mschemas s k = None)"
  by (auto simp: schema_view_def)

lemma abs_schema_simps:
  "v_SchemaOwner (abs_schema s) = ms_Owner s" "v_HasObjects (abs_schema s) = ms_HasObjects s"
  "abs_schema (s\<lparr>ms_Owner := x\<rparr>) = (abs_schema s)\<lparr>v_SchemaOwner := x\<rparr>"
  "abs_schema \<lparr>ms_DBName = d, ms_SchemaName = n, ms_Owner = x, ms_HasObjects = False\<rparr>
     = \<lparr>v_SchemaOwner = x, v_HasObjects = False\<rparr>"
  by (simp_all add: abs_schema_def)

lemma schema_viewD: "schema_view s k = Some v \<Longrightarrow> \<exists>x. mschemas s k = Some x \<and> v = abs_schema x"
  by (auto simp: schema_view_def)

lemma mock_schemas_simps:
  "SchemaExists (schemas mock_client) = Mock_SchemaExists" "CreateSchema (schemas mock_client) = Mock_CreateSchema"
  "DropSchema (schemas mock_client) = Mock_DropSchema" "GetSchemaOwner (schemas mock_client) = Mock_GetSchemaOwner"
  "SetSchemaOwner (schemas mock_client) = Mock_SetSchemaOwner"
  "SchemaHasObjects (schemas mock_client) = Mock_SchemaHasObjects" "CloseClient mock_client = Mock_Close"
  by (simp_all add: mock_client_def)

interpretation mock_schemas: schema_server mock_client "mock_schema_ok o'" schema_view schemaKey "\<lambda>_. True" "\<lambda>_ _. True" "''dbo''" for o'
  by (unfold_locales, unfold mock_schemas_simps Mock_method_defs Mock_Close_def mock_schema_ok_def reads_def writes_def)
     (force dest!: schema_viewD simp: abs_schema_simps Let_def)+

section \<open>Reconciling against the in-memory server\<close>

text \<open>
  Reconciling a \<open>Schema\<close> always completes: a missing schema is created, and the schema ends
  with the specified owner (the server's default, or the present owner, when none is
  specified); nothing else on the server changes, and a schema that is right causes no event.
\<close>

theorem Schema_reconcile:
  fixes w :: "('k, MockClient) world"
  assumes "api_laws R objs secs srvs" and "objs (kube w) (ns, n) = Some schema" and "request_of schema = (ns, n)"
    and "\<not> cr_Deleting schema"
    and "connects R (secs (kube w)) ns (sch_Server (Spec schema)) mock_client" and "healthy (sql w)"
  shows "succeeds (Schema_Reconcile R ns n) w (\<lambda>r w'.
    let k = schemaKey (sch_DatabaseName (Spec schema)) (sch_SchemaName (Spec schema)) in
    besides_schemas (sql w') = besides_schemas (sql w) \<and>
    schema_view (sql w') = (schema_view (sql w))(k \<mapsto> schema_target (Spec schema) ''dbo'' (schema_view (sql w) k)) \<and>
    24 * second \<le> RequeueAfter r \<and> RequeueAfter r < 36 * second \<and>
    outcome objs secs srvs (kclient R) schema ConditionTrue ReasonReady (kube w) (kube w') \<and>
    ((\<exists>v. schema_view (sql w) k = Some v \<and> schema_owner_target (Spec schema) v = v) \<longrightarrow>
       events w' = events w))" (is "wp _ _ ?Q _")
proof (rule mock_schemas.wp_Schema_Reconcile [OF assms(1-5)])
  fix k' assume k': "objs k' = (objs (kube w))((ns, n) \<mapsto> finalized (kclient R) schema)"
    "secs k' = secs (kube w)" "srvs k' = srvs (kube w)"
  show "wp (Schema_sync R mock_client (finalized (kclient R) schema)) (w\<lparr>kube := k'\<rparr>)
    (\<lambda>r w'. ?Q r (w'\<lparr>sql := CloseClient mock_client (sql w')\<rparr>)) (\<lambda>e w'. False)"
    by (rule wp_mono [OF mock_schemas.schema_sync [OF assms(1), where schema = "finalized (kclient R) schema"
          and w = "w\<lparr>kube := k'\<rparr>" and o' = "besides_schemas (sql w)"]])
       (use assms k' in \<open>auto simp: mock_schema_ok_def Let_def mock_schemas.close_law [unfolded mock_schema_ok_def]
          intro: reported_outcome\<close>)
qed

text \<open>
  Deleting a \<open>Schema\<close> with policy \<open>Delete\<close> drops the schema, alone, and releases the object; a
  schema that is not empty is kept, with its object, which says so and is looked at again.
\<close>

theorem Schema_deletion:
  assumes "api_laws R objs secs srvs" and "objs (kube w) (request_of schema) = Some schema"
    and "ContainsFinalizer (kclient R) (cr_Finalizers schema) Finalizer" and "cr_Finalizers schema \<noteq> []"
    and "sch_DeletionPolicy (Spec schema) = Some DeletionPolicyDelete"
    and "connects R (secs (kube w)) (cr_Namespace schema) (sch_Server (Spec schema)) mock_client" and "healthy (sql w)"
    and "schema_view (sql w) (schemaKey (sch_DatabaseName (Spec schema)) (sch_SchemaName (Spec schema))) = Some v"
  shows "succeeds (Schema_handleDeletion R schema) w (\<lambda>r w'. besides_schemas (sql w') = besides_schemas (sql w) \<and>
      (if v_HasObjects v then
         24 * second \<le> RequeueAfter r \<and> RequeueAfter r < 36 * second \<and> schema_view (sql w') = schema_view (sql w) \<and>
         (\<exists>st. objs (kube w') = (objs (kube w))(request_of schema \<mapsto> schema\<lparr>Status := st\<rparr>)
            \<and> ready_status (schema\<lparr>Status := st\<rparr>) = Some (ConditionFalse, ReasonSchemaNotEmpty))
       else r = Result 0 \<and>
         schema_view (sql w') = (schema_view (sql w))(schemaKey (sch_DatabaseName (Spec schema)) (sch_SchemaName (Spec schema)) := None) \<and>
         (\<forall>u. objs (kube w') (request_of schema) = Some u \<longrightarrow>
            \<not> ContainsFinalizer (kclient R) (cr_Finalizers u) Finalizer)))"
  by (rule wp_mono [OF mock_schemas.schema_deletion [OF assms(1-6), where o' = "besides_schemas (sql w)"]])
     (use assms(7,8) in \<open>auto simp: mock_schema_ok_def\<close>)

section \<open>Examples\<close>

definition ex_schema :: Schema where
  "ex_schema = ex_cr \<lparr>sch_Server = ex_server, sch_DatabaseName = ''db'', sch_SchemaName = ''s'', sch_Owner = Some ''u'',
     sch_DeletionPolicy = Some DeletionPolicyDelete\<rparr> ex_status"

definition ex_schema_server :: "bool \<Rightarrow> MockClient" where
  "ex_schema_server full = NewMockClient\<lparr>mschemas := [''db/s'' \<mapsto> \<lparr>ms_DBName = ''db'', ms_SchemaName = ''s'',
     ms_Owner = ''dbo'', ms_HasObjects = full\<rparr>]\<rparr>"

lemma ex_schema_simps [simp]:
  "healthy (ex_schema_server b)" "schemaKey ''db'' ''s'' = ''db/s''"
  "schema_view (ex_schema_server b) ''db/s'' = Some \<lparr>v_SchemaOwner = ''dbo'', v_HasObjects = b\<rparr>"
  by (simp_all add: ex_schema_server_def schema_view_def abs_schema_def NewMockClient_def healthy_def schemaKey_def)

theorem Schema_reconcile_witness:
  "succeeds (Schema_Reconcile (ex_reconciler mock_client) ''ns'' ''obj'') (ex_world ex_schema (ex_schema_server True))
     (\<lambda>r w'. schema_view (sql w') ''db/s'' = Some \<lparr>v_SchemaOwner = ''u'', v_HasObjects = True\<rparr>)"
  by (rule wp_mono [OF Schema_reconcile [OF ex_api_laws, where schema = ex_schema]])
     (simp_all add: ex_schema_def ex_connects schema_target_def schema_owner_target_def)

theorem Schema_deletion_witness:
  "succeeds (Schema_handleDeletion (ex_reconciler mock_client) ex_schema) (ex_world ex_schema (ex_schema_server True))
     (\<lambda>r w'. schema_view (sql w') ''db/s'' \<noteq> None)"
  by (rule wp_mono [OF Schema_deletion [OF ex_api_laws, where v = "\<lparr>v_SchemaOwner = ''dbo'', v_HasObjects = True\<rparr>"]])
     (simp_all add: ex_schema_def ex_connects)

end
