(* ===== verification/Permission_Controller.thy ===== *)
theory Permission_Controller
  imports Memory_API Mock_Laws
begin

text \<open>
  \<open>internal/controller/permission_controller.go\<close>: the reconciliation of the permissions of a
  database user, and what one pass and two passes make of them on any server that keeps the
  promises of \<open>permission_server\<close>; the in-memory server is one.
\<close>

section \<open>The reconciler\<close>

definition permissionKey :: "string \<Rightarrow> string \<Rightarrow> string" where
  "permissionKey permission target = ToUpper permission @ ''|'' @ ToUpper target"

definition entry_key :: "PermissionEntry \<Rightarrow> string" where
  "entry_key e = permissionKey (pe_Permission e) (pe_On e)"

definition state_key :: "PermissionState \<Rightarrow> string" where
  "state_key p = permissionKey (ps_Permission p) (ps_Target p)"

text \<open>
  \<open>desiredGrants\<close> and \<open>desiredDenies\<close> are only asked for their keys; of two current entries with
  one key the later one stays in \<open>currentSet\<close>.
\<close>

definition desired_keys :: "PermissionEntry list \<Rightarrow> string set" where
  "desired_keys es = entry_key ` set es"

definition current_set :: "PermissionState list \<Rightarrow> string \<Rightarrow> PermissionState option" where
  "current_set ps = foldl (\<lambda>m p. m(state_key p \<mapsto> p)) Map.empty ps"

definition has_state :: "(string \<Rightarrow> PermissionState option) \<Rightarrow> string \<Rightarrow> string \<Rightarrow> bool" where
  "has_state cur key st \<longleftrightarrow> (case cur key of None \<Rightarrow> False | Some p \<Rightarrow> ps_State p = st)"

definition Permission_grant ::
  "'c SQLClient \<Rightarrow> PermissionSpec \<Rightarrow> (string \<Rightarrow> PermissionState option) \<Rightarrow> PermissionEntry \<Rightarrow> (unit, ('k, 'c) world) op" where
  "Permission_grant cl sp currentSet g =
     (if has_state currentSet (entry_key g) ''GRANT'' then ret ()
      else or_fail (''failed to grant '' @ pe_Permission g @ '' on '' @ pe_On g)
             (on_sql (GrantPermission (perms cl) (p_DatabaseName sp) (pe_Permission g) (pe_On g) (p_UserName sp))) (\<lambda>_.
           effect (Normal ''PermissionGranted''
             (''GRANT '' @ pe_Permission g @ '' ON '' @ pe_On g @ '' TO '' @ p_UserName sp)) (ret ())))"

definition Permission_deny ::
  "'c SQLClient \<Rightarrow> PermissionSpec \<Rightarrow> (string \<Rightarrow> PermissionState option) \<Rightarrow> PermissionEntry \<Rightarrow> (unit, ('k, 'c) world) op" where
  "Permission_deny cl sp currentSet d =
     (if has_state currentSet (entry_key d) ''DENY'' then ret ()
      else or_fail (''failed to deny '' @ pe_Permission d @ '' on '' @ pe_On d)
             (on_sql (DenyPermission (perms cl) (p_DatabaseName sp) (pe_Permission d) (pe_On d) (p_UserName sp))) (\<lambda>_.
           effect (Normal ''PermissionDenied''
             (''DENY '' @ pe_Permission d @ '' ON '' @ pe_On d @ '' TO '' @ p_UserName sp)) (ret ())))"

text \<open>One entry of \<open>currentSet\<close>: revoked when its state is not desired for its key.\<close>

definition Permission_revoke ::
  "'c SQLClient \<Rightarrow> PermissionSpec \<Rightarrow> (string \<Rightarrow> PermissionState option) \<Rightarrow> string \<Rightarrow> (unit, ('k, 'c) world) op" where
  "Permission_revoke cl sp currentSet key =
     (case currentSet key of
        None \<Rightarrow> ret ()
      | Some cur \<Rightarrow>
          andthen
            (if ps_State cur = ''GRANT'' \<and> key \<notin> desired_keys (p_Grants sp) then
               or_fail (''failed to revoke '' @ ps_Permission cur @ '' on '' @ ps_Target cur)
                 (on_sql (RevokePermission (perms cl) (p_DatabaseName sp) (ps_Permission cur) (ps_Target cur) (p_UserName sp))) (\<lambda>_.
               effect (Normal ''PermissionRevoked''
                 (''REVOKE '' @ ps_Permission cur @ '' ON '' @ ps_Target cur @ '' FROM '' @ p_UserName sp)) (ret ()))
             else ret ())
            (if ps_State cur = ''DENY'' \<and> key \<notin> desired_keys (p_Denies sp) then
               or_fail (''failed to revoke deny '' @ ps_Permission cur @ '' on '' @ ps_Target cur)
                 (on_sql (RevokePermission (perms cl) (p_DatabaseName sp) (ps_Permission cur) (ps_Target cur) (p_UserName sp))) (\<lambda>_.
               effect (Normal ''PermissionRevoked''
                 (''REVOKE '' @ ps_Permission cur @ '' ON '' @ ps_Target cur @ '' FROM '' @ p_UserName sp @ '' (was DENY)''))
                 (ret ()))
             else ret ()))"

definition Permission_setConditionAndReturn ::
  "(Permission, 'k, 'c) Reconciler \<Rightarrow> Permission \<Rightarrow> ConditionStatus \<Rightarrow> string \<Rightarrow> string \<Rightarrow> (Result, ('k, 'c) world) op" where
  "Permission_setConditionAndReturn = setConditionAndReturn"

text \<open>\<open>order\<close> is the order in which \<open>range\<close> visits the keys of \<open>currentSet\<close>.\<close>

definition Permission_apply ::
  "(string list \<Rightarrow> string list) \<Rightarrow> 'c SQLClient \<Rightarrow> PermissionSpec \<Rightarrow> PermissionState list \<Rightarrow> (unit, ('k, 'c) world) op" where
  "Permission_apply order cl sp currentPerms =
     (let currentSet = current_set currentPerms in
      andthen (for_each (Permission_grant cl sp currentSet) (p_Grants sp)) (
      andthen (for_each (Permission_deny cl sp currentSet) (p_Denies sp)) (
      for_each (Permission_revoke cl sp currentSet) (order (List.map state_key currentPerms)))))"

definition Permission_sync ::
  "(Permission, 'k, 'c) Reconciler \<Rightarrow> 'c SQLClient \<Rightarrow> Permission \<Rightarrow> (Result, ('k, 'c) world) op" where
  "Permission_sync R cl perm =
     or_fail ''failed to get current permissions''
       (on_sql (GetPermissions (perms cl) (p_DatabaseName (Spec perm)) (p_UserName (Spec perm)))) (\<lambda>currentPerms.
     andthen (Permission_apply (range_order R) cl (Spec perm) currentPerms) (
     Permission_setConditionAndReturn R perm ConditionTrue ReasonReady
       (''Permissions for user '' @ p_UserName (Spec perm) @ '' are reconciled'')))"

text \<open>On deletion every listed permission is revoked; errors are only logged.\<close>

definition Permission_revoke_entry ::
  "'c SQLClient \<Rightarrow> PermissionSpec \<Rightarrow> PermissionEntry \<Rightarrow> (unit, ('k, 'c) world) op" where
  "Permission_revoke_entry cl sp e =
     attempt (on_sql (RevokePermission (perms cl) (p_DatabaseName sp) (pe_Permission e) (pe_On e) (p_UserName sp)))
       (\<lambda>_. ret ()) (\<lambda>_. ret ())"

definition Permission_handleDeletion ::
  "(Permission, 'k, 'c) Reconciler \<Rightarrow> Permission \<Rightarrow> (Result, ('k, 'c) world) op" where
  "Permission_handleDeletion R perm =
     (if \<not> ContainsFinalizer (kclient R) (cr_Finalizers perm) Finalizer then ret (Result 0)
      else attempt (on_kube (getCredentialsFromSecret (kclient R) (cr_Namespace perm)
          (CredentialsSecret (p_Server (Spec perm))))) (\<lambda>_. remove_finalizer R perm) (\<lambda>(username, password).
        case connectToSQL (p_Server (Spec perm)) username password (SQLClientFactory R) of
          Inl _ \<Rightarrow> remove_finalizer R perm
        | Inr cl \<Rightarrow> deferred (\<lambda>w. w\<lparr>sql := CloseClient cl (sql w)\<rparr>) (
            andthen (for_each (Permission_revoke_entry cl (Spec perm)) (p_Grants (Spec perm))) (
            andthen (for_each (Permission_revoke_entry cl (Spec perm)) (p_Denies (Spec perm))) (
            effect (Normal ''PermissionsRevoked'' (''All permissions revoked for user '' @ p_UserName (Spec perm)))
            (remove_finalizer R perm))))))"

definition Permission_Reconcile ::
  "(Permission, 'k, 'c) Reconciler \<Rightarrow> string \<Rightarrow> string \<Rightarrow> (Result, ('k, 'c) world) op" where
  "Permission_Reconcile R ns name =
     fetch R ns name (\<lambda>perm0.
     if cr_Deleting perm0 then Permission_handleDeletion R perm0
     else attempt (ensure_finalizer R perm0) fail (\<lambda>perm.
       credentials_or_condition R perm (CredentialsSecret (p_Server (Spec perm))) (\<lambda>(username, password).
       connect_or_fail R ''SQL Server'' (p_Server (Spec perm)) username password (\<lambda>cl.
       Permission_sync R cl perm))))"

section \<open>What a SQL Server promises about permissions\<close>

text \<open>The permissions of one user: from permission and target to grant or denial.\<close>

type_synonym PermissionView = "string \<times> string \<Rightarrow> string option"

definition state_pair :: "PermissionState \<Rightarrow> (string \<times> string) \<times> string" where
  "state_pair p = ((ps_Permission p, ps_Target p), ps_State p)"

definition lists :: "PermissionState list \<Rightarrow> PermissionView \<Rightarrow> bool" where
  "lists ps v \<longleftrightarrow> map_of (List.map state_pair ps) = v \<and> distinct (List.map (fst \<circ> state_pair) ps)
     \<and> (\<forall>p \<in> set ps. ps_State p \<in> {''GRANT'', ''DENY''})"

locale permission_server =
  fixes cl :: "'c SQLClient"
    and ok :: "'c \<Rightarrow> bool"
    and view :: "'c \<Rightarrow> 'i \<Rightarrow> PermissionView option"
    and key :: "string \<Rightarrow> string \<Rightarrow> 'i"
  assumes get_law: "ok c \<Longrightarrow> view c (key d u) = Some v \<Longrightarrow>
      \<exists>ps. lists ps v \<and> reads ok view (GetPermissions (perms cl) d u) c ps"
    and grant_law: "ok c \<Longrightarrow> view c (key d u) = Some v \<Longrightarrow> writes ok view (GrantPermission (perms cl) d p t u) c
      ((view c)(key d u \<mapsto> v((p, t) \<mapsto> ''GRANT'')))"
    and deny_law: "ok c \<Longrightarrow> view c (key d u) = Some v \<Longrightarrow> writes ok view (DenyPermission (perms cl) d p t u) c
      ((view c)(key d u \<mapsto> v((p, t) \<mapsto> ''DENY'')))"
    and revoke_law: "ok c \<Longrightarrow> view c (key d u) = Some v \<Longrightarrow> writes ok view (RevokePermission (perms cl) d p t u) c
      ((view c)(key d u \<mapsto> v((p, t) := None)))"
    and close_law: "ok c \<Longrightarrow> ok (CloseClient cl c) \<and> view (CloseClient cl c) = view c"
begin

end

section \<open>What a pass does\<close>

definition entry_pair :: "PermissionEntry \<Rightarrow> string \<times> string" where
  "entry_pair e = (pe_Permission e, pe_On e)"

definition pairs :: "PermissionEntry list \<Rightarrow> (string \<times> string) set" where
  "pairs es = entry_pair ` set es"

text \<open>
  One pass decides by the state it read at the start. A permission that was not there is
  denied, or else granted; one that was there is revoked unless it is still wanted as it was.
\<close>

definition one_pass :: "PermissionSpec \<Rightarrow> PermissionView \<Rightarrow> PermissionView" where
  "one_pass sp v x =
     (case v x of
        None \<Rightarrow> if x \<in> pairs (p_Denies sp) then Some ''DENY''
                else if x \<in> pairs (p_Grants sp) then Some ''GRANT'' else None
      | Some st \<Rightarrow>
          if st = ''GRANT'' then
            (if x \<notin> pairs (p_Grants sp) then None
             else if x \<in> pairs (p_Denies sp) then Some ''DENY'' else Some ''GRANT'')
          else
            (if x \<notin> pairs (p_Denies sp) then None
             else if x \<in> pairs (p_Grants sp) then Some ''GRANT'' else Some ''DENY''))"

text \<open>What the specification asks for.\<close>

definition wanted :: "PermissionSpec \<Rightarrow> PermissionView" where
  "wanted sp x = (if x \<in> pairs (p_Denies sp) then Some ''DENY''
     else if x \<in> pairs (p_Grants sp) then Some ''GRANT'' else None)"

text \<open>Every permission is spelled in one way, in the specification and on the server.\<close>

definition one_spelling :: "PermissionSpec \<Rightarrow> PermissionView \<Rightarrow> bool" where
  "one_spelling sp v \<longleftrightarrow>
     inj_on (\<lambda>(p, t). permissionKey p t) (pairs (p_Grants sp) \<union> pairs (p_Denies sp) \<union> dom v)"

definition well_stated :: "PermissionView \<Rightarrow> bool" where
  "well_stated v \<longleftrightarrow> (\<forall>x st. v x = Some st \<longrightarrow> st = ''GRANT'' \<or> st = ''DENY'')"

lemma one_pass_wanted:
  assumes "pairs (p_Grants sp) \<inter> pairs (p_Denies sp) = {}" and "v x = None \<or> v x = wanted sp x"
  shows "one_pass sp v x = wanted sp x"
proof -
  have "x \<notin> pairs (p_Grants sp) \<or> x \<notin> pairs (p_Denies sp)" using assms(1) by blast
  then show ?thesis
    using assms(2) by (cases "x \<in> pairs (p_Grants sp)"; cases "x \<in> pairs (p_Denies sp)") (auto simp: one_pass_def wanted_def)
qed

lemma one_pass_twice:
  assumes "pairs (p_Grants sp) \<inter> pairs (p_Denies sp) = {}" and "well_stated v"
  shows "one_pass sp (one_pass sp v) = wanted sp"
proof
  fix x
  have v: "v x = None \<or> v x = Some ''GRANT'' \<or> v x = Some ''DENY''"
    using assms(2) unfolding well_stated_def by (metis not_None_eq)
  have "x \<notin> pairs (p_Grants sp) \<or> x \<notin> pairs (p_Denies sp)" using assms(1) by blast
  with v have "one_pass sp v x = None \<or> one_pass sp v x = wanted sp x"
    by (elim disjE) (simp_all add: one_pass_def wanted_def)
  with assms(1) show "one_pass sp (one_pass sp v) x = wanted sp x" by (rule one_pass_wanted)
qed

lemma well_stated_one_pass: "well_stated (one_pass sp v)"
  by (auto simp: well_stated_def one_pass_def split: option.splits if_splits)

lemma one_spelling_one_pass: "one_spelling sp v \<Longrightarrow> one_spelling sp (one_pass sp v)"
  unfolding one_spelling_def
  by (erule inj_on_subset) (auto simp: one_pass_def split: option.splits if_splits)

section \<open>Reading the current permissions\<close>

lemma current_set_snoc: "current_set (ps @ [p]) = (current_set ps)(state_key p \<mapsto> p)"
  by (simp add: current_set_def)

lemma current_set_None: "current_set ps k = None \<longleftrightarrow> k \<notin> state_key ` set ps"
  by (induction ps rule: rev_induct) (auto simp: current_set_snoc current_set_def)

lemma current_set_Some: "current_set ps k = Some p \<Longrightarrow> p \<in> set ps \<and> state_key p = k"
  by (induction ps rule: rev_induct) (auto simp: current_set_snoc current_set_def split: if_splits)

lemma lists_entry: "lists ps v \<Longrightarrow> p \<in> set ps \<Longrightarrow> v (ps_Permission p, ps_Target p) = Some (ps_State p)"
  unfolding lists_def by (auto simp: state_pair_def comp_def intro!: map_of_is_SomeI)

lemma lists_dom: "lists ps v \<Longrightarrow> v x = Some st \<Longrightarrow> \<exists>p \<in> set ps. x = (ps_Permission p, ps_Target p) \<and> st = ps_State p"
  unfolding lists_def by (auto simp: state_pair_def dest!: map_of_SomeD)

text \<open>With one spelling for each permission, the current entry of a key is the one that was read.\<close>

lemma current_set_member:
  assumes ps: "lists ps v" and inj: "one_spelling sp v" and p: "p \<in> set ps"
  shows "current_set ps (state_key p) = Some p"
proof -
  from p obtain q where q: "current_set ps (state_key p) = Some q"
    by (metis current_set_None imageI not_None_eq)
  then have "q \<in> set ps" "state_key q = state_key p" by (auto dest: current_set_Some)
  moreover note lists_entry [OF ps p] lists_entry [OF ps \<open>q \<in> set ps\<close>]
  ultimately have "(ps_Permission q, ps_Target q) = (ps_Permission p, ps_Target p)"
    using inj unfolding one_spelling_def state_key_def by (elim inj_onD) auto
  with lists_entry [OF ps p] lists_entry [OF ps \<open>q \<in> set ps\<close>] have "q = p" by simp
  with q show ?thesis by simp
qed

lemma key_of_entry:
  assumes ps: "lists ps v" and inj: "one_spelling sp v" and p: "p \<in> set ps"
    and es: "es = p_Grants sp \<or> es = p_Denies sp"
  shows "state_key p \<in> desired_keys es \<longleftrightarrow> (ps_Permission p, ps_Target p) \<in> pairs es"
proof
  assume "state_key p \<in> desired_keys es"
  then obtain e where e: "e \<in> set es" "state_key p = entry_key e" by (auto simp: desired_keys_def)
  then have "(ps_Permission p, ps_Target p) = (pe_Permission e, pe_On e)"
    using inj es lists_entry [OF ps p] unfolding one_spelling_def state_key_def entry_key_def
    by (elim inj_onD) (auto simp: pairs_def entry_pair_def)
  with e(1) show "(ps_Permission p, ps_Target p) \<in> pairs es" by (force simp: pairs_def entry_pair_def)
qed (auto simp: pairs_def desired_keys_def entry_pair_def state_key_def entry_key_def)

lemma has_state_entry:
  assumes ps: "lists ps v" and inj: "one_spelling sp v" and e: "e \<in> set (p_Grants sp) \<union> set (p_Denies sp)"
  shows "has_state (current_set ps) (entry_key e) st \<longleftrightarrow> v (entry_pair e) = Some st"
proof
  assume "has_state (current_set ps) (entry_key e) st"
  then obtain p where p: "p \<in> set ps" "state_key p = entry_key e" "ps_State p = st"
    by (auto simp: has_state_def dest: current_set_Some split: option.splits)
  then have "(ps_Permission p, ps_Target p) = entry_pair e"
    using inj e lists_entry [OF ps p(1)] unfolding one_spelling_def state_key_def entry_key_def entry_pair_def
    by (elim inj_onD) (auto simp: pairs_def entry_pair_def)
  with lists_entry [OF ps p(1)] p(3) show "v (entry_pair e) = Some st" by simp
next
  assume "v (entry_pair e) = Some st"
  with lists_dom [OF ps] obtain p where "p \<in> set ps" "entry_pair e = (ps_Permission p, ps_Target p)" "st = ps_State p"
    by blast
  with current_set_member [OF ps inj] show "has_state (current_set ps) (entry_key e) st"
    by (auto simp: has_state_def entry_key_def entry_pair_def state_key_def)
qed

text \<open>The permissions that step 9 takes away: those read that are not wanted as they were.\<close>

definition stale :: "PermissionSpec \<Rightarrow> PermissionView \<Rightarrow> string \<times> string \<Rightarrow> bool" where
  "stale sp v x \<longleftrightarrow> v x = Some ''GRANT'' \<and> x \<notin> pairs (p_Grants sp) \<or> v x = Some ''DENY'' \<and> x \<notin> pairs (p_Denies sp)"

definition pair_at :: "PermissionState list \<Rightarrow> string \<Rightarrow> string \<times> string" where
  "pair_at ps k = (case current_set ps k of None \<Rightarrow> ([], []) | Some p \<Rightarrow> (ps_Permission p, ps_Target p))"

lemma pair_at_member:
  "lists ps v \<Longrightarrow> one_spelling sp v \<Longrightarrow> p \<in> set ps \<Longrightarrow> pair_at ps (state_key p) = (ps_Permission p, ps_Target p)"
  by (simp add: pair_at_def current_set_member)

lemma stale_at:
  assumes "lists ps v" and "one_spelling sp v"
  shows "(\<exists>k \<in> state_key ` set ps. stale sp v (pair_at ps k) \<and> pair_at ps k = x) \<longleftrightarrow> stale sp v x"
proof
  assume st: "stale sp v x"
  then obtain st where "v x = Some st" by (auto simp: stale_def)
  with lists_dom [OF assms(1)] obtain p where "p \<in> set ps" "x = (ps_Permission p, ps_Target p)" by blast
  with st show "\<exists>k \<in> state_key ` set ps. stale sp v (pair_at ps k) \<and> pair_at ps k = x"
    by (auto simp: pair_at_member [OF assms])
qed auto

text \<open>The three loops of a pass, put together.\<close>

lemma one_pass_stages:
  assumes "well_stated v"
  shows "(if stale sp v x then None
    else if \<exists>e \<in> set (p_Denies sp). v (entry_pair e) \<noteq> Some ''DENY'' \<and> entry_pair e = x then Some ''DENY''
    else if \<exists>e \<in> set (p_Grants sp). v (entry_pair e) \<noteq> Some ''GRANT'' \<and> entry_pair e = x then Some ''GRANT''
    else v x) = one_pass sp v x"
proof -
  have e: "(\<exists>e \<in> set es. v (entry_pair e) \<noteq> c \<and> entry_pair e = x) \<longleftrightarrow> x \<in> pairs es \<and> v x \<noteq> c" for es c
    by (auto simp: pairs_def)
  have v: "v x = None \<or> v x = Some ''GRANT'' \<or> v x = Some ''DENY''"
    using assms unfolding well_stated_def by (metis not_None_eq)
  then show ?thesis
    unfolding e by (elim disjE) (simp_all add: one_pass_def stale_def)
qed

lemma lists_well_stated:
  assumes "lists ps v"
  shows "well_stated v"
  unfolding well_stated_def
proof (intro allI impI)
  fix x st assume "v x = Some st"
  with lists_dom [OF assms] obtain p where "p \<in> set ps" "st = ps_State p" by blast
  with assms show "st = ''GRANT'' \<or> st = ''DENY''" by (simp add: lists_def)
qed

lemma settled_entry:
  assumes "well_stated v" and "one_pass sp v x = v x"
  shows "x \<in> pairs (p_Grants sp) \<Longrightarrow> v x = Some ''GRANT''" and "x \<in> pairs (p_Denies sp) \<Longrightarrow> v x = Some ''DENY''"
    and "\<not> stale sp v x"
proof -
  have "v x = None \<or> v x = Some ''GRANT'' \<or> v x = Some ''DENY''"
    using assms(1) unfolding well_stated_def by (metis not_None_eq)
  then show "x \<in> pairs (p_Grants sp) \<Longrightarrow> v x = Some ''GRANT''" "x \<in> pairs (p_Denies sp) \<Longrightarrow> v x = Some ''DENY''"
    "\<not> stale sp v x"
    using assms(2) by (elim disjE; simp add: one_pass_def stale_def split: if_splits)+
qed

section \<open>One pass on a permission server\<close>

context permission_server begin

lemma advances_grant:
  assumes "lists ps v0" and "one_spelling sp v0" and "e \<in> set (p_Grants sp)"
  shows "advances ok view (v0 (entry_pair e) = Some ''GRANT'')
    (Permission_grant cl sp (current_set ps) e :: (unit, ('k, 'c) world) op) (key (p_DatabaseName sp) (p_UserName sp)) v
    (if v0 (entry_pair e) \<noteq> Some ''GRANT'' then v(entry_pair e := Some ''GRANT'') else v)"
proof (cases "v0 (entry_pair e) = Some ''GRANT''")
  case True
  then show ?thesis
    using assms by (simp only: Permission_grant_def has_state_entry Un_iff if_True simp_thms if_False) (rule advances_ret)
next
  case False
  then show ?thesis
    using assms
    by (simp only: Permission_grant_def has_state_entry Un_iff if_True simp_thms if_False if_not_P)
       (unfold entry_pair_def, rule advances_write [OF grant_law], assumption+, rule advances_event, rule advances_ret)
qed

lemma advances_deny:
  assumes "lists ps v0" and "one_spelling sp v0" and "e \<in> set (p_Denies sp)"
  shows "advances ok view (v0 (entry_pair e) = Some ''DENY'')
    (Permission_deny cl sp (current_set ps) e :: (unit, ('k, 'c) world) op) (key (p_DatabaseName sp) (p_UserName sp)) v
    (if v0 (entry_pair e) \<noteq> Some ''DENY'' then v(entry_pair e := Some ''DENY'') else v)"
proof (cases "v0 (entry_pair e) = Some ''DENY''")
  case True
  then show ?thesis
    using assms by (simp only: Permission_deny_def has_state_entry Un_iff if_True simp_thms if_False) (rule advances_ret)
next
  case False
  then show ?thesis
    using assms
    by (simp only: Permission_deny_def has_state_entry Un_iff if_True simp_thms if_False if_not_P)
       (unfold entry_pair_def, rule advances_write [OF deny_law], assumption+, rule advances_event, rule advances_ret)
qed
lemma advances_revoke:
  assumes ps: "lists ps v0" and inj: "one_spelling sp v0" and k: "k \<in> state_key ` set ps"
  shows "advances ok view (\<not> stale sp v0 (pair_at ps k))
    (Permission_revoke cl sp (current_set ps) k :: (unit, ('k, 'c) world) op) (key (p_DatabaseName sp) (p_UserName sp)) v
    (if stale sp v0 (pair_at ps k) then v(pair_at ps k := None) else v)"
proof -
  from k obtain p where p: "p \<in> set ps" "k = state_key p" by blast
  note cur = current_set_member [OF ps inj p(1)] pair_at_member [OF ps inj p(1)]
  note keys = key_of_entry [OF ps inj p(1), of "p_Grants sp"] key_of_entry [OF ps inj p(1), of "p_Denies sp"]
  note v0 = lists_entry [OF ps p(1)]
  have rv: "advances ok view False
      (or_fail m (on_sql (RevokePermission (perms cl) (p_DatabaseName sp) (ps_Permission p) (ps_Target p) (p_UserName sp))) (\<lambda>_.
         effect (record_event ty r msg) (ret ())) :: (unit, ('k, 'c) world) op) (key (p_DatabaseName sp) (p_UserName sp)) v
      (v((ps_Permission p, ps_Target p) := None))" for m ty r msg v
    by (rule advances_write [OF revoke_law], assumption+, rule advances_event, rule advances_ret)
  consider "ps_State p = ''GRANT'' \<and> k \<notin> desired_keys (p_Grants sp)" | "ps_State p = ''DENY'' \<and> k \<notin> desired_keys (p_Denies sp)"
    | "\<not> stale sp v0 (ps_Permission p, ps_Target p)"
    using v0 keys p(2) by (auto simp: stale_def)
  then show ?thesis
  proof cases
    case 1
    then have "stale sp v0 (ps_Permission p, ps_Target p)" using v0 keys p(2) by (simp add: stale_def)
    moreover from 1 have "ps_State p \<noteq> ''DENY''" by simp
    ultimately show ?thesis
      unfolding Permission_revoke_def p(2) cur option.case
      using 1 p(2) by (simp del: ret_apply) (rule advances_andthen [OF rv], rule advances_ret)
  next
    case 2
    then have "stale sp v0 (ps_Permission p, ps_Target p)" using v0 keys p(2) by (simp add: stale_def)
    moreover from 2 have "ps_State p \<noteq> ''GRANT''" by simp
    ultimately show ?thesis
      unfolding Permission_revoke_def p(2) cur option.case
      using 2 p(2) by (simp del: ret_apply) (rule rv)
  next
    case 3
    have skip: "\<not> (ps_State p = ''GRANT'' \<and> state_key p \<notin> desired_keys (p_Grants sp))"
      "\<not> (ps_State p = ''DENY'' \<and> state_key p \<notin> desired_keys (p_Denies sp))"
      using v0 keys 3 by (auto simp: stale_def)
    show ?thesis
      unfolding Permission_revoke_def p(2) cur option.case if_not_P [OF skip(1)] if_not_P [OF skip(2)] if_not_P [OF 3]
        andthen_ret
      using 3 by (simp del: ret_apply) (rule advances_ret)
  qed
qed

theorem advances_apply:
  assumes ps: "lists ps v" and inj: "one_spelling sp v" and ord: "range_laws order"
  shows "advances ok view (one_pass sp v = v) (Permission_apply order cl sp ps :: (unit, ('k, 'c) world) op)
    (key (p_DatabaseName sp) (p_UserName sp)) v (one_pass sp v)"
proof -
  let ?k = "key (p_DatabaseName sp) (p_UserName sp)" and ?cur = "current_set ps" and ?ks = "order (List.map state_key ps)"
  let ?v1 = "fold (\<lambda>e w. if v (entry_pair e) \<noteq> Some ''GRANT'' then w(entry_pair e := Some ''GRANT'') else w) (p_Grants sp) v"
  let ?v2 = "fold (\<lambda>e w. if v (entry_pair e) \<noteq> Some ''DENY'' then w(entry_pair e := Some ''DENY'') else w) (p_Denies sp) ?v1"
  let ?v3 = "fold (\<lambda>k w. if stale sp v (pair_at ps k) then w(pair_at ps k := None) else w) ?ks ?v2"
  have ks: "set ?ks = state_key ` set ps" using ord by (simp add: range_laws_def)
  note wf = lists_well_stated [OF ps]
  have res: "?v3 = one_pass sp v"
    unfolding fun_eq_iff fold_points ks stale_at [OF ps inj] one_pass_stages [OF wf, symmetric] by blast
  have g: "advances ok view (\<forall>e \<in> set (p_Grants sp). v (entry_pair e) = Some ''GRANT'')
      (for_each (Permission_grant cl sp ?cur) (p_Grants sp) :: (unit, ('k, 'c) world) op) ?k v ?v1"
    by (rule advances_for_each) (rule advances_grant [OF ps inj])
  have d: "advances ok view (\<forall>e \<in> set (p_Denies sp). v (entry_pair e) = Some ''DENY'')
      (for_each (Permission_deny cl sp ?cur) (p_Denies sp) :: (unit, ('k, 'c) world) op) ?k ?v1 ?v2"
    by (rule advances_for_each) (rule advances_deny [OF ps inj])
  have r: "advances ok view (\<forall>k \<in> set ?ks. \<not> stale sp v (pair_at ps k))
      (for_each (Permission_revoke cl sp ?cur) ?ks :: (unit, ('k, 'c) world) op) ?k ?v2 ?v3"
    by (rule advances_for_each) (rule advances_revoke [OF ps inj], simp add: ks)
  have quiet: "(\<forall>e \<in> set (p_Grants sp). v (entry_pair e) = Some ''GRANT'') \<and>
      (\<forall>e \<in> set (p_Denies sp). v (entry_pair e) = Some ''DENY'') \<and> (\<forall>k \<in> set ?ks. \<not> stale sp v (pair_at ps k))"
    if same: "one_pass sp v = v"
  proof -
    have s: "x \<in> pairs (p_Grants sp) \<Longrightarrow> v x = Some ''GRANT''" "x \<in> pairs (p_Denies sp) \<Longrightarrow> v x = Some ''DENY''"
      "\<not> stale sp v x" for x
      by (rule settled_entry [OF wf fun_cong [OF same]], assumption?)+
    show ?thesis by (auto simp: s pairs_def)
  qed
  show ?thesis
    unfolding Permission_apply_def Let_def res [symmetric]
    by (rule advances_andthen [OF advances_weaken [OF g] advances_andthen [OF advances_weaken [OF d] advances_weaken [OF r]]])
       (use quiet res in auto)
qed

theorem permission_sync:
  assumes laws: "api_laws R objs secs srvs" and base: "objs (kube w) (request_of perm) = Some perm"
    and live: "\<not> cr_Deleting perm" and c: "ok (sql w)"
    and v: "view (sql w) (key (p_DatabaseName (Spec perm)) (p_UserName (Spec perm))) = Some v"
    and inj: "one_spelling (Spec perm) v"
  shows "succeeds (Permission_sync R cl perm) w (\<lambda>r w'. ok (sql w') \<and>
      view (sql w') = (view (sql w))(key (p_DatabaseName (Spec perm)) (p_UserName (Spec perm)) \<mapsto> one_pass (Spec perm) v) \<and>
      24 * second \<le> RequeueAfter r \<and> RequeueAfter r < 36 * second \<and>
      reported objs secs srvs perm ConditionTrue ReasonReady (kube w) (kube w') \<and>
      (one_pass (Spec perm) v = v \<longrightarrow> events w' = events w))"
proof -
  obtain ps where ps: "lists ps v"
    "reads ok view (GetPermissions (perms cl) (p_DatabaseName (Spec perm)) (p_UserName (Spec perm))) (sql w) ps"
    using get_law [OF c v] by blast
  note apply_ps = wp_advances [OF advances_apply [OF ps(1) inj api_lawsD(9) [OF laws]]]
  show ?thesis
    unfolding Permission_sync_def wp_or_fail wp_on_sql
    apply (rule wp_reads [OF ps(2)])
    unfolding wp_andthen
    apply (rule apply_ps)
      apply (simp_all add: v Permission_setConditionAndReturn_def)
    apply (rule wp_setConditionAndReturn [OF laws _ live])
     apply (simp_all add: base)
    done
qed

lemma wp_Permission_Reconcile:
  assumes laws: "api_laws R objs secs srvs" and perm: "objs (kube w) (ns, n) = Some perm" "request_of perm = (ns, n)"
    and live: "\<not> cr_Deleting perm"
    and server: "connects R (secs (kube w)) ns (p_Server (Spec perm)) cl"
    and body: "\<And>k'. objs k' = (objs (kube w))((ns, n) \<mapsto> finalized (kclient R) perm) \<Longrightarrow> secs k' = secs (kube w) \<Longrightarrow>
      srvs k' = srvs (kube w) \<Longrightarrow>
      wp (Permission_sync R cl (finalized (kclient R) perm)) (w\<lparr>kube := k'\<rparr>)
        (\<lambda>r w'. Q r (w'\<lparr>sql := CloseClient cl (sql w')\<rparr>)) (\<lambda>e w'. E e (w'\<lparr>sql := CloseClient cl (sql w')\<rparr>))"
  shows "wp (Permission_Reconcile R ns n) w Q E"
proof -
  from server obtain u p where
    up: "secret_credentials (secs (kube w)) ns (CredentialsSecret (p_Server (Spec perm))) = Some (u, p)" and
    cl: "connectToSQL (p_Server (Spec perm)) u p (SQLClientFactory R) = Inr cl"
    by (auto simp: connects_def)
  have ns: "cr_Namespace perm = ns" using perm(2) by (simp add: request_of_def)
  show ?thesis
    unfolding Permission_Reconcile_def fetch_def wp_attempt wp_on_kube wp_GetCR [OF laws perm(1)]
    apply (simp add: live wp_attempt)
    apply (rule wp_ensure_finalizer [OF laws _ live])
     apply (simp add: perm)
    subgoal premises k' for k'
    proof -
      have c: "secret_credentials (secs (kube (w\<lparr>kube := k'\<rparr>))) (cr_Namespace (finalized (kclient R) perm))
          (CredentialsSecret (p_Server (Spec perm))) = Some (u, p)"
        by (simp add: k' ns up)
      show ?thesis
        using body [of k'] k' perm
        by (simp add: wp_credentials_or_condition [OF laws c] wp_connect_or_fail [OF cl])
    qed
    done
qed

lemma advances_revoke_entry:
  "advances ok view True (Permission_revoke_entry cl sp e :: (unit, ('k, 'c) world) op) (key (p_DatabaseName sp) (p_UserName sp)) v
     (if True then v(entry_pair e := None) else v)"
proof (rule advancesI)
  fix w :: "('k, 'c) world"
  assume w: "ok (sql w)" "view (sql w) (key (p_DatabaseName sp) (p_UserName sp)) = Some v"
  show "succeeds (Permission_revoke_entry cl sp e) w (\<lambda>_ w'. ok (sql w') \<and> kube w' = kube w
      \<and> view (sql w') = (view (sql w))(key (p_DatabaseName sp) (p_UserName sp) \<mapsto> (if True then v(entry_pair e := None) else v))
      \<and> (True \<longrightarrow> events w' = events w))"
    unfolding Permission_revoke_entry_def wp_attempt wp_on_sql
    by (rule wp_writes [OF revoke_law [OF w]]) (simp add: wp_ret entry_pair_def)
qed

theorem permission_deletion:
  assumes laws: "api_laws R objs secs srvs" and base: "objs (kube w) (request_of perm) = Some perm"
    and fin: "ContainsFinalizer (kclient R) (cr_Finalizers perm) Finalizer"
    and server: "connects R (secs (kube w)) (cr_Namespace perm) (p_Server (Spec perm)) cl"
    and c: "ok (sql w)" "view (sql w) (key (p_DatabaseName (Spec perm)) (p_UserName (Spec perm))) = Some v"
  shows "succeeds (Permission_handleDeletion R perm) w (\<lambda>r w'. ok (sql w') \<and> r = Result 0 \<and>
      view (sql w') = (view (sql w))(key (p_DatabaseName (Spec perm)) (p_UserName (Spec perm)) \<mapsto>
        v |` (- (pairs (p_Grants (Spec perm)) \<union> pairs (p_Denies (Spec perm))))) \<and>
      (\<forall>u. objs (kube w') (request_of perm) = Some u \<longrightarrow>
            \<not> ContainsFinalizer (kclient R) (cr_Finalizers u) Finalizer))"
proof -
  from server obtain u p where
    up: "secret_credentials (secs (kube w)) (cr_Namespace perm) (CredentialsSecret (p_Server (Spec perm))) = Some (u, p)" and
    cl: "connectToSQL (p_Server (Spec perm)) u p (SQLClientFactory R) = Inr cl"
    by (auto simp: connects_def)
  have loop: "advances ok view True (for_each (Permission_revoke_entry cl (Spec perm)) es :: (unit, ('a, 'c) world) op)
      (key (p_DatabaseName (Spec perm)) (p_UserName (Spec perm))) v (v |` (- pairs es))" for es v
  proof -
    have "fold (\<lambda>e v. if True then v(entry_pair e := None) else v) es v = v |` (- pairs es)"
      unfolding fun_eq_iff fold_points by (auto simp: pairs_def restrict_map_def image_iff)
    moreover have "advances ok view (\<forall>e \<in> set es. True) (for_each (Permission_revoke_entry cl (Spec perm)) es :: (unit, ('a, 'c) world) op)
        (key (p_DatabaseName (Spec perm)) (p_UserName (Spec perm))) v
        (fold (\<lambda>e v. if True then v(entry_pair e := None) else v) es v)"
      by (rule advances_for_each) (rule advances_revoke_entry)
    ultimately show ?thesis by simp
  qed
  have two: "v |` (- pairs (p_Grants (Spec perm))) |` (- pairs (p_Denies (Spec perm)))
      = v |` (- (pairs (p_Grants (Spec perm)) \<union> pairs (p_Denies (Spec perm))))"
    by (simp add: Compl_Un)
  show ?thesis
    apply (simp add: Permission_handleDeletion_def fin wp_attempt wp_on_kube
        wp_getCredentialsFromSecret [OF laws up] cl wp_deferred wp_andthen del: fun_upd_apply)
    apply (rule wp_advances [OF loop c])
    apply (rule wp_advances [OF loop], assumption, simp)
    apply (simp add: wp_effect del: fun_upd_apply)
    apply (rule wp_remove_finalizer [OF laws])
     apply (simp_all add: base close_law two)
    done
qed

end

section \<open>The in-memory server is a permission server\<close>

definition abs_perm :: "MockPermission \<Rightarrow> (string \<times> string) \<times> string" where
  "abs_perm p = (perm_id p, mp_State p)"

definition perm_view :: "MockClient \<Rightarrow> string \<Rightarrow> PermissionView option" where
  "perm_view s k = Some (map_of (List.map abs_perm (permissions s k)))"

definition besides_perms :: "MockClient \<Rightarrow> MockClient" where
  "besides_perms s = s\<lparr>permissions := (\<lambda>_. []), calls := (\<lambda>_. 0)\<rparr>"

definition mock_perm_ok :: "MockClient \<Rightarrow> MockClient \<Rightarrow> bool" where
  "mock_perm_ok o' s \<longleftrightarrow> healthy s \<and> perms_ok (permissions s) \<and> besides_perms s = o'"

lemma besides_perms_simps [simp]:
  "besides_perms (track m s) = besides_perms s" "besides_perms (s\<lparr>permissions := d\<rparr>) = besides_perms s"
  by (simp_all add: besides_perms_def track_def)

lemma permissions_track [simp]: "permissions (track m s) = permissions s"
  by (simp add: track_def)

lemma perm_view_update:
  "perm_view (s\<lparr>permissions := (permissions s)(k := ps)\<rparr>) = (perm_view s)(k \<mapsto> map_of (List.map abs_perm ps))"
  "perm_view (track m s) = perm_view s"
  by (auto simp: perm_view_def)

lemma map_of_without: "map_of (List.map abs_perm (filter (\<lambda>p. \<not> (mp_Permission p = a \<and> mp_Target p = b)) ps))
    = (map_of (List.map abs_perm ps))((a, b) := None)"
  by (induction ps) (auto simp: abs_perm_def perm_id_def)

lemma single_add_without: "[k \<mapsto> v] ++ m(k := None) = m(k \<mapsto> v)"
  by (auto simp: map_add_def fun_eq_iff split: option.split)

lemma perm_view_removed:
  "perm_view (removePermLocked k a b (track m s)) = (perm_view s)(k \<mapsto> (the (perm_view s k))((a, b) := None))"
  using perm_view_update(1) [of "track m s" k] map_of_without [of a b "permissions s k"]
  by (simp add: removePermLocked_def perm_view_update(2)) (simp add: perm_view_def)

lemma perm_view_replaced:
  "perm_view (append_perm k \<lparr>mp_Permission = a, mp_Target = b, mp_State = st\<rparr> (removePermLocked k a b (track m s)))
     = (perm_view s)(k \<mapsto> (the (perm_view s k))((a, b) \<mapsto> st))"
  using perm_view_update(1) [of "track m s" k] map_of_without [of a b "permissions s k"]
  by (simp add: removePermLocked_def append_perm_def perm_view_update(2) single_add_without
      abs_perm_def [of "\<lparr>mp_Permission = a, mp_Target = b, mp_State = st\<rparr>"] perm_id_def) (simp add: perm_view_def)

lemma mock_perm_ok_changes:
  assumes "mock_perm_ok o' s"
  shows "mock_perm_ok o' (track m s)" "mock_perm_ok o' (removePermLocked k a b (track m s))"
    "st = ''GRANT'' \<or> st = ''DENY'' \<Longrightarrow>
     mock_perm_ok o' (append_perm k \<lparr>mp_Permission = a, mp_Target = b, mp_State = st\<rparr> (removePermLocked k a b (track m s)))"
proof -
  from assms have p: "perms_ok (permissions (track m s))" by (simp add: mock_perm_ok_def track_def)
  show "mock_perm_ok o' (track m s)" using assms p by (simp add: mock_perm_ok_def)
  from perms_ok_filter [OF p]
  show r: "mock_perm_ok o' (removePermLocked k a b (track m s))"
    using assms by (simp add: mock_perm_ok_def removePermLocked_def Let_def)
  let ?n = "\<lparr>mp_Permission = a, mp_Target = b, mp_State = st\<rparr>" and ?s = "removePermLocked k a b (track m s)"
  assume st: "st = ''GRANT'' \<or> st = ''DENY''"
  have "perm_id ?n \<notin> perm_id ` set (permissions ?s k)" by (auto simp: perm_id_def removePermLocked_def)
  with r st have "perms_ok ((permissions ?s)(k := permissions ?s k @ [?n]))"
    by (intro perms_ok_append) (auto simp: mock_perm_ok_def)
  with r show "mock_perm_ok o' (append_perm k ?n ?s)"
    by (simp add: mock_perm_ok_def append_perm_def)
qed

lemma mock_perms_simps:
  "GetPermissions (perms mock_client) = Mock_GetPermissions" "GrantPermission (perms mock_client) = Mock_GrantPermission"
  "DenyPermission (perms mock_client) = Mock_DenyPermission" "RevokePermission (perms mock_client) = Mock_RevokePermission"
  "CloseClient mock_client = Mock_Close"
  by (simp_all add: mock_client_def)

lemma mock_lists:
  assumes "mock_perm_ok o' s"
  shows "lists (List.map (\<lambda>p. \<lparr>ps_Permission = mp_Permission p, ps_Target = mp_Target p, ps_State = mp_State p\<rparr>) (permissions s k))
    (the (perm_view s k))"
proof -
  have "abs_perm = (\<lambda>p. ((mp_Permission p, mp_Target p), mp_State p))" "perm_id = (\<lambda>p. (mp_Permission p, mp_Target p))"
    by (simp_all add: fun_eq_iff abs_perm_def perm_id_def)
  with assms show ?thesis
    by (auto simp: lists_def perm_view_def state_pair_def comp_def mock_perm_ok_def perms_ok_def)
qed

interpretation mock_perms: permission_server mock_client "mock_perm_ok o'" perm_view permKey for o'
proof
  fix c d u v p t
  assume c: "mock_perm_ok o' c" and v: "perm_view c (permKey d u) = Some v"
  have h: "healthy c" using c by (simp add: mock_perm_ok_def)
  have same: "perm_view (track m c) = perm_view c" for m by (auto simp: perm_view_def track_def)
  show "\<exists>ps. lists ps v \<and> reads (mock_perm_ok o') perm_view (GetPermissions (perms mock_client) d u) c ps"
    using mock_lists [OF c, of "permKey d u"] v mock_perm_ok_changes(1) [OF c]
    unfolding mock_perms_simps Mock_GetPermissions_def reads_def
    by (auto simp: h same)
  note changes = mock_perm_ok_changes(2,3) [OF c] perm_view_removed perm_view_replaced v
  show "writes (mock_perm_ok o') perm_view (GrantPermission (perms mock_client) d p t u) c
      ((perm_view c)(permKey d u \<mapsto> v((p, t) \<mapsto> ''GRANT'')))"
    unfolding mock_perms_simps Mock_GrantPermission_def writes_def Let_def by (simp add: h changes)
  show "writes (mock_perm_ok o') perm_view (DenyPermission (perms mock_client) d p t u) c
      ((perm_view c)(permKey d u \<mapsto> v((p, t) \<mapsto> ''DENY'')))"
    unfolding mock_perms_simps Mock_DenyPermission_def writes_def Let_def by (simp add: h changes)
  show "writes (mock_perm_ok o') perm_view (RevokePermission (perms mock_client) d p t u) c
      ((perm_view c)(permKey d u \<mapsto> v((p, t) := None)))"
    unfolding mock_perms_simps Mock_RevokePermission_def writes_def Let_def by (simp add: h changes)
next
  fix c assume "mock_perm_ok o' c"
  then show "mock_perm_ok o' (CloseClient mock_client c) \<and> perm_view (CloseClient mock_client c) = perm_view c"
    unfolding mock_perms_simps Mock_Close_def
    by (auto intro: mock_perm_ok_changes(1) simp: perm_view_update(2))
qed

section \<open>Reconciling against the in-memory server\<close>

lemma mock_perms_pass:
  fixes w :: "('k, MockClient) world"
  assumes "api_laws R objs secs srvs" and "objs (kube w) (ns, n) = Some perm" and "request_of perm = (ns, n)"
    and "\<not> cr_Deleting perm"
    and "connects R (secs (kube w)) ns (p_Server (Spec perm)) mock_client"
    and "healthy (sql w)" and "perms_ok (permissions (sql w))"
    and "perm_view (sql w) (permKey (p_DatabaseName (Spec perm)) (p_UserName (Spec perm))) = Some v"
    and "one_spelling (Spec perm) v"
  shows "succeeds (Permission_Reconcile R ns n) w (\<lambda>r w'.
    besides_perms (sql w') = besides_perms (sql w) \<and> healthy (sql w') \<and> perms_ok (permissions (sql w')) \<and>
    perm_view (sql w') = (perm_view (sql w))(permKey (p_DatabaseName (Spec perm)) (p_UserName (Spec perm)) \<mapsto>
      one_pass (Spec perm) v) \<and>
    24 * second \<le> RequeueAfter r \<and> RequeueAfter r < 36 * second \<and>
    outcome objs secs srvs (kclient R) perm ConditionTrue ReasonReady (kube w) (kube w') \<and>
    (one_pass (Spec perm) v = v \<longrightarrow> events w' = events w))" (is "wp _ _ ?Q _")
proof (rule mock_perms.wp_Permission_Reconcile [OF assms(1-5)])
  fix k' assume k': "objs k' = (objs (kube w))((ns, n) \<mapsto> finalized (kclient R) perm)"
    "secs k' = secs (kube w)" "srvs k' = srvs (kube w)"
  show "wp (Permission_sync R mock_client (finalized (kclient R) perm)) (w\<lparr>kube := k'\<rparr>)
    (\<lambda>r w'. ?Q r (w'\<lparr>sql := CloseClient mock_client (sql w')\<rparr>)) (\<lambda>e w'. False)"
    by (rule wp_mono [OF mock_perms.permission_sync [OF assms(1), where perm = "finalized (kclient R) perm"
          and w = "w\<lparr>kube := k'\<rparr>" and o' = "besides_perms (sql w)" and v = v]])
       (use assms k' in \<open>auto simp: mock_perm_ok_def mock_perms.close_law [unfolded mock_perm_ok_def]
          intro: reported_outcome\<close>)
qed

lemma perm_view_well_stated:
  assumes "healthy s" and "perms_ok (permissions s)" and "perm_view s k = Some v"
  shows "well_stated v"
  using lists_well_stated [OF mock_lists [of "besides_perms s" s k]] assms by (simp add: mock_perm_ok_def)

text \<open>
  C16. One pass over a \<open>Permission\<close> always completes and changes the user's permissions to
  \<open>one_pass\<close> of what they were, and nothing else on the server; the object is reported ready
  for its generation, and permissions that are settled cause no event.
\<close>

theorem Permission_reconcile:
  fixes w :: "('k, MockClient) world"
  assumes "api_laws R objs secs srvs" and "objs (kube w) (ns, n) = Some perm" and "request_of perm = (ns, n)"
    and "\<not> cr_Deleting perm"
    and "connects R (secs (kube w)) ns (p_Server (Spec perm)) mock_client"
    and "healthy (sql w)" and "perms_ok (permissions (sql w))"
    and "perm_view (sql w) (permKey (p_DatabaseName (Spec perm)) (p_UserName (Spec perm))) = Some v"
    and "one_spelling (Spec perm) v"
  shows "succeeds (Permission_Reconcile R ns n) w (\<lambda>r w'.
    besides_perms (sql w') = besides_perms (sql w) \<and>
    perm_view (sql w') = (perm_view (sql w))(permKey (p_DatabaseName (Spec perm)) (p_UserName (Spec perm)) \<mapsto>
      one_pass (Spec perm) v) \<and>
    24 * second \<le> RequeueAfter r \<and> RequeueAfter r < 36 * second \<and>
    outcome objs secs srvs (kclient R) perm ConditionTrue ReasonReady (kube w) (kube w') \<and>
    (one_pass (Spec perm) v = v \<longrightarrow> events w' = events w))"
  by (rule wp_mono [OF mock_perms_pass [OF assms]]) blast+

text \<open>
  Two passes over a \<open>Permission\<close> that does not grant and deny the same permission make the
  user's permissions exactly those the specification lists: each grant granted, each denial
  denied and everything else revoked.
\<close>

theorem Permission_reconcile_converges:
  fixes w :: "('k, MockClient) world"
  assumes laws: "api_laws R objs secs srvs" and perm: "objs (kube w) (ns, n) = Some perm" "request_of perm = (ns, n)"
    and live: "\<not> cr_Deleting perm"
    and server: "connects R (secs (kube w)) ns (p_Server (Spec perm)) mock_client"
    and c: "healthy (sql w)" "perms_ok (permissions (sql w))"
    and v: "perm_view (sql w) (permKey (p_DatabaseName (Spec perm)) (p_UserName (Spec perm))) = Some v"
    and inj: "one_spelling (Spec perm) v"
    and disjoint: "pairs (p_Grants (Spec perm)) \<inter> pairs (p_Denies (Spec perm)) = {}"
  shows "succeeds (attempt (Permission_Reconcile R ns n) fail (\<lambda>_. Permission_Reconcile R ns n)) w (\<lambda>r w'.
    perm_view (sql w') = (perm_view (sql w))(permKey (p_DatabaseName (Spec perm)) (p_UserName (Spec perm)) \<mapsto>
      wanted (Spec perm)))"
  unfolding wp_attempt
proof (rule wp_mono [OF mock_perms_pass [OF laws perm live server c v inj]])
  let ?k = "permKey (p_DatabaseName (Spec perm)) (p_UserName (Spec perm))"
  fix r :: Result and w1 :: "('k, MockClient) world"
  assume "besides_perms (sql w1) = besides_perms (sql w) \<and> healthy (sql w1) \<and> perms_ok (permissions (sql w1)) \<and>
    perm_view (sql w1) = (perm_view (sql w))(?k \<mapsto> one_pass (Spec perm) v) \<and>
    24 * second \<le> RequeueAfter r \<and> RequeueAfter r < 36 * second \<and>
    outcome objs secs srvs (kclient R) perm ConditionTrue ReasonReady (kube w) (kube w1) \<and>
    (one_pass (Spec perm) v = v \<longrightarrow> events w1 = events w)"
  then have A: "healthy (sql w1)" "perms_ok (permissions (sql w1))"
    "perm_view (sql w1) = (perm_view (sql w))(?k \<mapsto> one_pass (Spec perm) v)"
    "outcome objs secs srvs (kclient R) perm ConditionTrue ReasonReady (kube w) (kube w1)" by auto
  from outcomeE [OF A(4), unfolded perm(2)]
  obtain st where o1: "objs (kube w1) (ns, n) = Some ((finalized (kclient R) perm)\<lparr>Status := st\<rparr>)"
      "secs (kube w1) = secs (kube w)" by metis
  have s: "one_spelling (Spec perm) (one_pass (Spec perm) v)" using inj by (rule one_spelling_one_pass)
  have w: "well_stated v" using c v by (rule perm_view_well_stated)
  show "succeeds (Permission_Reconcile R ns n) w1 (\<lambda>r w'. perm_view (sql w') = (perm_view (sql w))(?k \<mapsto> wanted (Spec perm)))"
    by (rule wp_mono [OF mock_perms_pass [OF laws o1(1), where v = "one_pass (Spec perm) v"]])
       (use perm live server A s o1(2) in \<open>simp_all add: one_pass_twice [OF disjoint w]\<close>)
qed simp

text \<open>
  C17. A permission that was granted and is now to be denied instead is neither after one pass,
  although the pass reports the object ready: step 9 revokes what step 8 has just denied. (The
  next pass denies it.)
\<close>

theorem Permission_switch_gap:
  fixes w :: "('k, MockClient) world"
  assumes "api_laws R objs secs srvs" and "objs (kube w) (ns, n) = Some perm" and "request_of perm = (ns, n)"
    and "\<not> cr_Deleting perm"
    and "connects R (secs (kube w)) ns (p_Server (Spec perm)) mock_client"
    and "healthy (sql w)" and "perms_ok (permissions (sql w))"
    and "perm_view (sql w) (permKey (p_DatabaseName (Spec perm)) (p_UserName (Spec perm))) = Some v"
    and "one_spelling (Spec perm) v"
    and "v x = Some ''GRANT''" and "x \<in> pairs (p_Denies (Spec perm))" and "x \<notin> pairs (p_Grants (Spec perm))"
  shows "succeeds (Permission_Reconcile R ns n) w (\<lambda>r w'.
    (\<exists>v'. perm_view (sql w') (permKey (p_DatabaseName (Spec perm)) (p_UserName (Spec perm))) = Some v' \<and> v' x = None) \<and>
    outcome objs secs srvs (kclient R) perm ConditionTrue ReasonReady (kube w) (kube w'))"
  by (rule wp_mono [OF mock_perms_pass [OF assms(1-9)]]) (use assms(10-12) in \<open>auto simp: one_pass_def\<close>)

text \<open>
  Deleting a \<open>Permission\<close> revokes exactly the permissions it lists, granted or denied, leaves
  every other permission and the rest of the server, and releases the object.
\<close>

theorem Permission_deletion:
  assumes "api_laws R objs secs srvs" and "objs (kube w) (request_of perm) = Some perm"
    and "ContainsFinalizer (kclient R) (cr_Finalizers perm) Finalizer"
    and "connects R (secs (kube w)) (cr_Namespace perm) (p_Server (Spec perm)) mock_client"
    and "healthy (sql w)" and "perms_ok (permissions (sql w))"
    and "perm_view (sql w) (permKey (p_DatabaseName (Spec perm)) (p_UserName (Spec perm))) = Some v"
  shows "succeeds (Permission_handleDeletion R perm) w (\<lambda>r w'. r = Result 0 \<and>
      besides_perms (sql w') = besides_perms (sql w) \<and>
      perm_view (sql w') = (perm_view (sql w))(permKey (p_DatabaseName (Spec perm)) (p_UserName (Spec perm)) \<mapsto>
        v |` (- (pairs (p_Grants (Spec perm)) \<union> pairs (p_Denies (Spec perm))))) \<and>
      (\<forall>u. objs (kube w') (request_of perm) = Some u \<longrightarrow>
            \<not> ContainsFinalizer (kclient R) (cr_Finalizers u) Finalizer))"
  by (rule wp_mono [OF mock_perms.permission_deletion [OF assms(1-4), where o' = "besides_perms (sql w)" and v = v]])
     (use assms(5-7) in \<open>auto simp: mock_perm_ok_def\<close>)

section \<open>Examples\<close>

text \<open>\<open>SELECT\<close> on a schema is granted and is to be denied.\<close>

definition ex_perm :: Permission where
  "ex_perm = ex_cr \<lparr>p_Server = ex_server, p_DatabaseName = ''db'', p_UserName = ''u'',
     p_Grants = [\<lparr>pe_Permission = ''INSERT'', pe_On = ''DATABASE''\<rparr>],
     p_Denies = [\<lparr>pe_Permission = ''SELECT'', pe_On = ''SCHEMA::app''\<rparr>]\<rparr> ex_status"

definition ex_perm_server :: MockClient where
  "ex_perm_server = NewMockClient\<lparr>permissions := (\<lambda>_. [])(''db/u'' :=
     [\<lparr>mp_Permission = ''SELECT'', mp_Target = ''SCHEMA::app'', mp_State = ''GRANT''\<rparr>])\<rparr>"

definition ex_perm_view :: PermissionView where
  "ex_perm_view = [(''SELECT'', ''SCHEMA::app'') \<mapsto> ''GRANT'']"

lemma ex_perm_simps [simp]:
  "healthy ex_perm_server" "perms_ok (permissions ex_perm_server)" "permKey ''db'' ''u'' = ''db/u''"
  "perm_view ex_perm_server ''db/u'' = Some ex_perm_view"
  by (simp_all add: ex_perm_server_def perm_view_def abs_perm_def perm_id_def NewMockClient_def healthy_def permKey_def
      perms_ok_def ex_perm_view_def)

lemma ex_perm_spec [simp]:
  "p_DatabaseName (Spec ex_perm) = ''db''" "p_UserName (Spec ex_perm) = ''u''" "p_Server (Spec ex_perm) = ex_server"
  "pairs (p_Grants (Spec ex_perm)) = {(''INSERT'', ''DATABASE'')}"
  "pairs (p_Denies (Spec ex_perm)) = {(''SELECT'', ''SCHEMA::app'')}"
  "request_of ex_perm = (''ns'', ''obj'')" "\<not> cr_Deleting ex_perm" "cr_Namespace ex_perm = ''ns''"
  "cr_Finalizers ex_perm = [Finalizer]"
  by (simp_all add: ex_perm_def pairs_def entry_pair_def)

lemma ex_one_spelling [simp]: "one_spelling (Spec ex_perm) ex_perm_view"
proof -
  have "permissionKey ''INSERT'' ''DATABASE'' \<noteq> permissionKey ''SELECT'' ''SCHEMA::app''"
    by (simp add: permissionKey_def ToUpper_def upper_char_def)
  then show ?thesis by (auto simp: one_spelling_def ex_perm_view_def)
qed

theorem Permission_reconcile_witness:
  "succeeds (Permission_Reconcile (ex_reconciler mock_client) ''ns'' ''obj'') (ex_world ex_perm ex_perm_server)
     (\<lambda>r w'. \<exists>v. perm_view (sql w') ''db/u'' = Some v \<and> v (''INSERT'', ''DATABASE'') = Some ''GRANT'')"
  by (rule wp_mono [OF Permission_reconcile [OF ex_api_laws, where perm = ex_perm and v = ex_perm_view]])
     (simp_all add: ex_connects one_pass_def ex_perm_view_def [unfolded fun_eq_iff])

theorem Permission_reconcile_converges_witness:
  "succeeds (attempt (Permission_Reconcile (ex_reconciler mock_client) ''ns'' ''obj'') fail
       (\<lambda>_. Permission_Reconcile (ex_reconciler mock_client) ''ns'' ''obj'')) (ex_world ex_perm ex_perm_server)
     (\<lambda>r w'. \<exists>v. perm_view (sql w') ''db/u'' = Some v \<and> v (''SELECT'', ''SCHEMA::app'') = Some ''DENY'')"
  by (rule wp_mono [OF Permission_reconcile_converges [OF ex_api_laws, where perm = ex_perm and v = ex_perm_view]])
     (simp_all add: ex_connects wanted_def)

theorem Permission_switch_gap_witness:
  "succeeds (Permission_Reconcile (ex_reconciler mock_client) ''ns'' ''obj'') (ex_world ex_perm ex_perm_server)
     (\<lambda>r w'. \<exists>v. perm_view (sql w') ''db/u'' = Some v \<and> v (''SELECT'', ''SCHEMA::app'') = None)"
  by (rule wp_mono [OF Permission_switch_gap [OF ex_api_laws, where perm = ex_perm and v = ex_perm_view
        and x = "(''SELECT'', ''SCHEMA::app'')"]])
     (simp_all add: ex_connects ex_perm_view_def [unfolded fun_eq_iff])

theorem Permission_deletion_witness:
  "succeeds (Permission_handleDeletion (ex_reconciler mock_client) ex_perm) (ex_world ex_perm ex_perm_server)
     (\<lambda>r w'. \<exists>v. perm_view (sql w') ''db/u'' = Some v \<and> v (''SELECT'', ''SCHEMA::app'') = None)"
  by (rule wp_mono [OF Permission_deletion [OF ex_api_laws, where perm = ex_perm and v = ex_perm_view]])
     (simp_all add: ex_connects)

end
