(* ===== verification/Server_Fleet.thy ===== *)
theory Server_Fleet
  imports Mock_Client
begin

text \<open>
  Several SQL Servers side by side: a state for each server name, and the client of one of
  them, whose calls change that server only. Availability groups span such a fleet.
\<close>

definition on_server :: "string \<Rightarrow> ('a, 'c) op \<Rightarrow> ('a, string \<Rightarrow> 'c) op" where
  "on_server s m f = (case m (f s) of (r, c) \<Rightarrow> (r, f(s := c)))"

definition fleet_client :: "'c SQLClient \<Rightarrow> string \<Rightarrow> (string \<Rightarrow> 'c) SQLClient" where
  "fleet_client cl s =
     \<lparr>dbs = \<lparr>DatabaseExists = (\<lambda>a. on_server s (DatabaseExists (dbs cl) a)),
        CreateDatabase = (\<lambda>a b. on_server s (CreateDatabase (dbs cl) a b)),
        DropDatabase = (\<lambda>a. on_server s (DropDatabase (dbs cl) a)),
        GetDatabaseOwner = (\<lambda>a. on_server s (GetDatabaseOwner (dbs cl) a)),
        SetDatabaseOwner = (\<lambda>a b. on_server s (SetDatabaseOwner (dbs cl) a b)),
        GetDatabaseCollation = (\<lambda>a. on_server s (GetDatabaseCollation (dbs cl) a)),
        GetDatabaseRecoveryModel = (\<lambda>a. on_server s (GetDatabaseRecoveryModel (dbs cl) a)),
        SetDatabaseRecoveryModel = (\<lambda>a b. on_server s (SetDatabaseRecoveryModel (dbs cl) a b)),
        GetDatabaseCompatibilityLevel = (\<lambda>a. on_server s (GetDatabaseCompatibilityLevel (dbs cl) a)),
        SetDatabaseCompatibilityLevel = (\<lambda>a b. on_server s (SetDatabaseCompatibilityLevel (dbs cl) a b)),
        GetDatabaseOption = (\<lambda>a b. on_server s (GetDatabaseOption (dbs cl) a b)),
        SetDatabaseOption = (\<lambda>a b c. on_server s (SetDatabaseOption (dbs cl) a b c))\<rparr>,
      logins = \<lparr>LoginExists = (\<lambda>a. on_server s (LoginExists (logins cl) a)),
        CreateLogin = (\<lambda>a b. on_server s (CreateLogin (logins cl) a b)),
        DropLogin = (\<lambda>a. on_server s (DropLogin (logins cl) a)),
        UpdateLoginPassword = (\<lambda>a b. on_server s (UpdateLoginPassword (logins cl) a b)),
        GetLoginDefaultDatabase = (\<lambda>a. on_server s (GetLoginDefaultDatabase (logins cl) a)),
        SetLoginDefaultDatabase = (\<lambda>a b. on_server s (SetLoginDefaultDatabase (logins cl) a b)),
        GetLoginServerRoles = (\<lambda>a. on_server s (GetLoginServerRoles (logins cl) a)),
        AddLoginToServerRole = (\<lambda>a b. on_server s (AddLoginToServerRole (logins cl) a b)),
        RemoveLoginFromServerRole = (\<lambda>a b. on_server s (RemoveLoginFromServerRole (logins cl) a b)),
        LoginHasUsers = (\<lambda>a. on_server s (LoginHasUsers (logins cl) a))\<rparr>,
      users = \<lparr>UserExists = (\<lambda>a b. on_server s (UserExists (users cl) a b)),
        CreateUser = (\<lambda>a b c. on_server s (CreateUser (users cl) a b c)),
        DropUser = (\<lambda>a b. on_server s (DropUser (users cl) a b)),
        GetUserDatabaseRoles = (\<lambda>a b. on_server s (GetUserDatabaseRoles (users cl) a b)),
        AddUserToDatabaseRole = (\<lambda>a b c. on_server s (AddUserToDatabaseRole (users cl) a b c)),
        RemoveUserFromDatabaseRole = (\<lambda>a b c. on_server s (RemoveUserFromDatabaseRole (users cl) a b c)),
        UserOwnsObjects = (\<lambda>a b. on_server s (UserOwnsObjects (users cl) a b))\<rparr>,
      schemas = \<lparr>SchemaExists = (\<lambda>a b. on_server s (SchemaExists (schemas cl) a b)),
        CreateSchema = (\<lambda>a b c. on_server s (CreateSchema (schemas cl) a b c)),
        DropSchema = (\<lambda>a b. on_server s (DropSchema (schemas cl) a b)),
        GetSchemaOwner = (\<lambda>a b. on_server s (GetSchemaOwner (schemas cl) a b)),
        SetSchemaOwner = (\<lambda>a b c. on_server s (SetSchemaOwner (schemas cl) a b c)),
        SchemaHasObjects = (\<lambda>a b. on_server s (SchemaHasObjects (schemas cl) a b))\<rparr>,
      perms = \<lparr>GetPermissions = (\<lambda>a b. on_server s (GetPermissions (perms cl) a b)),
        GrantPermission = (\<lambda>a b c d. on_server s (GrantPermission (perms cl) a b c d)),
        DenyPermission = (\<lambda>a b c d. on_server s (DenyPermission (perms cl) a b c d)),
        RevokePermission = (\<lambda>a b c d. on_server s (RevokePermission (perms cl) a b c d))\<rparr>,
      backups = \<lparr>BackupDatabase = (\<lambda>a b c d. on_server s (BackupDatabase (backups cl) a b c d)),
        RestoreDatabase = (\<lambda>a b. on_server s (RestoreDatabase (backups cl) a b)),
        RestoreDatabasePIT = (\<lambda>a b c d. on_server s (RestoreDatabasePIT (backups cl) a b c d)),
        RestoreDatabaseWithMove = (\<lambda>a b c. on_server s (RestoreDatabaseWithMove (backups cl) a b c))\<rparr>,
      ags = \<lparr>AGExists = (\<lambda>a. on_server s (AGExists (ags cl) a)),
        CreateAG = (\<lambda>a. on_server s (CreateAG (ags cl) a)),
        GetAGStatus = (\<lambda>a. on_server s (GetAGStatus (ags cl) a)),
        AddDatabaseToAG = (\<lambda>a b. on_server s (AddDatabaseToAG (ags cl) a b)),
        RemoveDatabaseFromAG = (\<lambda>a b. on_server s (RemoveDatabaseFromAG (ags cl) a b)),
        JoinAG = (\<lambda>a b. on_server s (JoinAG (ags cl) a b)),
        GrantAGCreateDatabase = (\<lambda>a. on_server s (GrantAGCreateDatabase (ags cl) a)),
        AddListenerToAG = (\<lambda>a b. on_server s (AddListenerToAG (ags cl) a b)),
        DropAG = (\<lambda>a. on_server s (DropAG (ags cl) a)),
        FailoverAG = (\<lambda>a. on_server s (FailoverAG (ags cl) a)),
        ForceFailoverAG = (\<lambda>a. on_server s (ForceFailoverAG (ags cl) a)),
        GetAGReplicaRole = (\<lambda>a b. on_server s (GetAGReplicaRole (ags cl) a b)),
        SetAGRoleSecondary = (\<lambda>a. on_server s (SetAGRoleSecondary (ags cl) a)),
        GetLastHardenedLSN = (\<lambda>a. on_server s (GetLastHardenedLSN (ags cl) a)),
        CreateHADREndpoint = (\<lambda>a. on_server s (CreateHADREndpoint (ags cl) a)),
        HADREndpointExists = on_server s (HADREndpointExists (ags cl))\<rparr>,
      certs = \<lparr>CreateMasterKey = (\<lambda>a. on_server s (CreateMasterKey (certs cl) a)),
        MasterKeyExists = on_server s (MasterKeyExists (certs cl)),
        CreateCertificate = (\<lambda>a b c. on_server s (CreateCertificate (certs cl) a b c)),
        CertificateExists = (\<lambda>a. on_server s (CertificateExists (certs cl) a)),
        BackupCertificate = (\<lambda>a b c d. on_server s (BackupCertificate (certs cl) a b c d)),
        CreateCertificateFromBackup = (\<lambda>a b c d. on_server s (CreateCertificateFromBackup (certs cl) a b c d)),
        GetCertificateBinary = (\<lambda>a. on_server s (GetCertificateBinary (certs cl) a)),
        CreateCertificateFromBinary = (\<lambda>a b. on_server s (CreateCertificateFromBinary (certs cl) a b)),
        CreateLoginFromCertificate = (\<lambda>a b. on_server s (CreateLoginFromCertificate (certs cl) a b)),
        GrantEndpointConnect = (\<lambda>a b. on_server s (GrantEndpointConnect (certs cl) a b)),
        CreateHADREndpointWithCert = (\<lambda>a b. on_server s (CreateHADREndpointWithCert (certs cl) a b))\<rparr>,
      GetServerVersion = on_server s (GetServerVersion cl), GetServerEdition = on_server s (GetServerEdition cl),
      CloseClient = (\<lambda>f. f(s := CloseClient cl (f s))), Ping = on_server s (Ping cl)\<rparr>"

lemma on_server_fst: "fst (on_server s m f) = fst (m (f s))"
  by (simp add: on_server_def split: prod.split)

lemma on_server_snd: "snd (on_server s m f) = f(s := snd (m (f s)))"
  by (simp add: on_server_def split: prod.split)

lemma on_server_eq: "m (f s) = (r, c) \<Longrightarrow> on_server s m f = (r, f(s := c))"
  by (simp add: on_server_def)

lemma fleet_ags_simps:
  "GetAGReplicaRole (ags (fleet_client cl s)) n r = on_server s (GetAGReplicaRole (ags cl) n r)"
  "GetLastHardenedLSN (ags (fleet_client cl s)) n = on_server s (GetLastHardenedLSN (ags cl) n)"
  "SetAGRoleSecondary (ags (fleet_client cl s)) n = on_server s (SetAGRoleSecondary (ags cl) n)"
  "DropAG (ags (fleet_client cl s)) n = on_server s (DropAG (ags cl) n)"
  "ForceFailoverAG (ags (fleet_client cl s)) n = on_server s (ForceFailoverAG (ags cl) n)"
  "FailoverAG (ags (fleet_client cl s)) n = on_server s (FailoverAG (ags cl) n)"
  "GetAGStatus (ags (fleet_client cl s)) n = on_server s (GetAGStatus (ags cl) n)"
  "CloseClient (fleet_client cl s) = (\<lambda>f. f(s := CloseClient cl (f s)))"
  by (simp_all add: fleet_client_def)

end
