(* ===== verification/Pods.thy ===== *)
theory Pods
  imports Helpers "HOL-Library.Word"
begin

text \<open>
  Pods and their role labels, which the AvailabilityGroup and the SQLServer controller both set
  (\<open>internal/controller/sqlserver_instance.go\<close>), and the loop over the replicas of an instance.
\<close>

record Pod =
  pod_Name :: string
  pod_Namespace :: string
  pod_Labels :: "string \<rightharpoonup> string"

definition LabelRole :: string where
  "LabelRole = ''mssql.popul.io/role''"

definition RolePrimary :: string where
  "RolePrimary = ''primary''"

definition RoleSecondary :: string where
  "RoleSecondary = ''secondary''"

text \<open>\<open>labels[key]\<close>, which reads a missing key as the empty string.\<close>

definition lookup :: "(string \<rightharpoonup> string) \<Rightarrow> string \<Rightarrow> string" where
  "lookup labels key = (case labels key of None \<Rightarrow> [] | Some x \<Rightarrow> x)"

definition label_of :: "Pod \<Rightarrow> string \<Rightarrow> string" where
  "label_of pod l = lookup (pod_Labels pod) l"

section \<open>The loop over the replicas\<close>

text \<open>
  \<open>for i := int32(0); i < replicas; i++\<close>: the indices in the order of the loop, in 32-bit arithmetic. The
  loop ends for every bound, the largest one included, since \<open>i++\<close> is only reached below it.
\<close>

function replica_indices :: "32 word \<Rightarrow> 32 word \<Rightarrow> 32 word list" where
  "replica_indices i replicas = (if i <s replicas then i # replica_indices (i + 1) replicas else [])"
  by pat_completeness auto

lemma sint_step: "i <s n \<Longrightarrow> sint (i + 1) = sint i + 1" for i n :: "32 word"
proof -
  assume "i <s n"
  then have "sint i < sint n" by (simp add: word_sless_alt)
  moreover have "sint n < 2 ^ 31" "- (2 ^ 31) \<le> sint i" using sint_lt [of n] sint_ge [of i] by simp_all
  ultimately show ?thesis
    by (simp add: sint_word_ariths signed_take_bit_int_eq_self)
qed

termination replica_indices
  by (relation "measure (\<lambda>(i, n). nat (sint n - sint i))") (auto simp: word_sless_alt sint_step)

declare replica_indices.simps [simp del]

lemma replica_indices_upto: "List.map sint (replica_indices i n) = [sint i..sint n - 1]"
proof (induction i n rule: replica_indices.induct)
  case (1 i n)
  show ?case
  proof (cases "i <s n")
    case True
    then have "sint i \<le> sint n - 1" by (simp add: word_sless_alt)
    with True 1 show ?thesis
      by (subst replica_indices.simps) (simp add: sint_step upto_rec1)
  next
    case False
    then show ?thesis
      by (subst replica_indices.simps) (simp add: word_sless_alt)
  qed
qed

definition replica_range :: "int \<Rightarrow> int list" where
  "replica_range replicas = List.map sint (replica_indices 0 (word_of_int replicas))"

text \<open>For every \<open>int32\<close> the loop visits the indices below it once each, in order.\<close>

definition is_int32 :: "int \<Rightarrow> bool" where
  "is_int32 n \<longleftrightarrow> - (2 ^ 31) \<le> n \<and> n < 2 ^ 31"

lemma sint_of_int32: "is_int32 n \<Longrightarrow> sint (word_of_int n :: 32 word) = n"
  by (simp add: is_int32_def sint_sbintrunc' signed_take_bit_int_eq_self)

lemma replica_range_upto [simp]: "is_int32 n \<Longrightarrow> replica_range n = [0..n - 1]"
  by (simp add: replica_range_def replica_indices_upto sint_of_int32)

end
