(* ===== verification/AG_Fencing.thy ===== *)
theory AG_Fencing
  imports Memory_API Mock_Laws Server_Fleet Pods
begin

text \<open>
  \<open>internal/controller/ag_fencing.go\<close>: split-brain detection and fencing for availability
  groups. The replicas are asked for their roles; when more than one says it is primary, the
  one with the highest hardened LSN stays and the others are fenced, first softly, then hard,
  until a circuit breaker opens. The theorems say that one round leaves exactly one primary,
  the right one, and that no round ever leaves none.
\<close>

section \<open>What the controller uses besides the common parts\<close>

text \<open>
  Pods and leases in the API server, the list of \<open>AGFailover\<close> objects of a namespace, the
  clock (reading it may advance it), \<open>time.ParseDuration\<close>, and the holder identity made of
  \<open>HOSTNAME\<close> and the process id.
\<close>

record Lease =
  lease_Name :: string
  lease_Namespace :: string
  HolderIdentity :: "string option"
  LeaseDurationSeconds :: "int option"
  AcquireTime :: "int option"
  RenewTime :: "int option"

record 'k AGEnv =
  GetPod :: "string \<Rightarrow> string \<Rightarrow> (Pod, 'k) op"
  PatchPod :: "Pod \<Rightarrow> Pod \<Rightarrow> (Pod, 'k) op"
  GetLease :: "string \<Rightarrow> string \<Rightarrow> (Lease, 'k) op"
  CreateLease :: "Lease \<Rightarrow> (unit, 'k) op"
  PatchLease :: "Lease \<Rightarrow> Lease \<Rightarrow> (unit, 'k) op"
  ListAGFailovers :: "string \<Rightarrow> (AGFailover list, 'k) op"
  Now :: "'k \<Rightarrow> int \<times> 'k"
  ParseDuration :: "string \<Rightarrow> int option"
  holder_id :: string

definition read_clock :: "'k AGEnv \<Rightarrow> (int, ('k, 'c) world) op" where
  "read_clock A w = (case Now A (kube w) of (t, k) \<Rightarrow> (Inr t, w\<lparr>kube := k\<rparr>))"

text \<open>\<open>time.Since(t)\<close>.\<close>

definition time_since :: "'k AGEnv \<Rightarrow> int \<Rightarrow> (int, ('k, 'c) world) op" where
  "time_since A t = attempt (read_clock A) fail (\<lambda>now. ret (saturate64 (now - t)))"

section \<open>Constants\<close>

definition maxFencingAttempts :: int where
  "maxFencingAttempts = 5"

definition FailoverPhaseRunning :: string where
  "FailoverPhaseRunning = ''Running''"

type_synonym ('k, 'c) AGReconciler = "(AvailabilityGroup, 'k, 'c) Reconciler"

section \<open>Asking the replicas\<close>

text \<open>
  One replica is asked over a connection of its own, which is closed again; whatever goes
  wrong, there is an answer to fall back on.
\<close>

definition ask_replica ::
  "('k, 'c) AGReconciler \<Rightarrow> AvailabilityGroup \<Rightarrow> AGReplicaSpec \<Rightarrow> ('c SQLClient \<Rightarrow> ('a, 'c) op) \<Rightarrow> 'a
   \<Rightarrow> ('a, ('k, 'c) world) op" where
  "ask_replica R ag replica question fallback =
     attempt (on_kube (getCredentialsFromSecret (kclient R) (cr_Namespace ag) (CredentialsSecret (rep_Server replica))))
       (\<lambda>_. ret fallback) (\<lambda>(username, password).
     case connectToSQL (rep_Server replica) username password (SQLClientFactory R) of
       Inl _ \<Rightarrow> ret fallback
     | Inr conn \<Rightarrow> deferred (\<lambda>w. w\<lparr>sql := CloseClient conn (sql w)\<rparr>)
         (attempt (on_sql (question conn)) (\<lambda>_. ret fallback) ret))"

definition collectReplicaRoles ::
  "('k, 'c) AGReconciler \<Rightarrow> AvailabilityGroup \<Rightarrow> (string \<Rightarrow> string, ('k, 'c) world) op" where
  "collectReplicaRoles R ag =
     fold_op (\<lambda>replica roles.
       attempt (ask_replica R ag replica
           (\<lambda>conn. GetAGReplicaRole (ags conn) (ag_AGName (Spec ag)) (rep_ServerName replica)) []) fail (\<lambda>role.
       ret (roles(rep_ServerName replica := role)))) (ag_Replicas (Spec ag)) (\<lambda>_. [])"

definition collectReplicaLSNs ::
  "('k, 'c) AGReconciler \<Rightarrow> AvailabilityGroup \<Rightarrow> AGReplicaSpec list \<Rightarrow> (string \<Rightarrow> int, ('k, 'c) world) op" where
  "collectReplicaLSNs R ag candidates =
     fold_op (\<lambda>replica lsns.
       attempt (ask_replica R ag replica (\<lambda>conn. GetLastHardenedLSN (ags conn) (ag_AGName (Spec ag))) 0) fail (\<lambda>lsn.
       ret (lsns(rep_ServerName replica := lsn)))) candidates (\<lambda>_. 0)"

section \<open>Pod labels\<close>

definition setPodRoleLabel ::
  "'k AGEnv \<Rightarrow> string \<Rightarrow> string \<Rightarrow> string \<Rightarrow> (unit, ('k, 'c) world) op" where
  "setPodRoleLabel A ns podName role =
     attempt (on_kube (GetPod A ns podName)) (\<lambda>_. ret ()) (\<lambda>pod.
     if label_of pod LabelRole = role then ret ()
     else attempt (on_kube (PatchPod A pod (pod\<lparr>pod_Labels := (pod_Labels pod)(LabelRole \<mapsto> role)\<rparr>)))
       (\<lambda>_. ret ()) (\<lambda>_. ret ()))"

definition updateReplicaRoleLabelsFromAG ::
  "'k AGEnv \<Rightarrow> AvailabilityGroup \<Rightarrow> string \<Rightarrow> (unit, ('k, 'c) world) op" where
  "updateReplicaRoleLabelsFromAG A ag primaryServerName =
     for_each (\<lambda>replica.
       let podName = rep_ServerName replica in
       setPodRoleLabel A (cr_Namespace ag) podName (if podName = primaryServerName then RolePrimary else RoleSecondary))
     (ag_Replicas (Spec ag))"

section \<open>Fencing one replica\<close>

definition fenceReplica ::
  "('k, 'c) AGReconciler \<Rightarrow> AvailabilityGroup \<Rightarrow> AGReplicaSpec \<Rightarrow> bool \<Rightarrow> (unit, ('k, 'c) world) op" where
  "fenceReplica R ag replica hard =
     (let name = rep_ServerName replica in
      or_fail (''failed to get credentials for '' @ name)
        (on_kube (getCredentialsFromSecret (kclient R) (cr_Namespace ag) (CredentialsSecret (rep_Server replica))))
        (\<lambda>(username, password).
      case connectToSQL (rep_Server replica) username password (SQLClientFactory R) of
        Inl e \<Rightarrow> fail (Wrapf (''failed to connect to '' @ name @ '': '') e)
      | Inr conn \<Rightarrow> deferred (\<lambda>w. w\<lparr>sql := CloseClient conn (sql w)\<rparr>) (
          if hard then
            attempt (on_sql (DropAG (ags conn) (ag_AGName (Spec ag)))) fail (\<lambda>_.
            effect (Warning ReasonHardFencingExecuted (''Hard fencing: dropped AG on '' @ name)) (ret ()))
          else
            attempt (on_sql (SetAGRoleSecondary (ags conn) (ag_AGName (Spec ag)))) fail (\<lambda>_.
            effect (Normal ReasonFencingExecuted (''Soft fencing: set '' @ name @ '' to SECONDARY'')) (ret ())))))"

text \<open>
  Was this replica the last one fenced, less than the cooldown ago? The clock is only read
  when the conditions before it hold, as \<open>&&\<close> does.
\<close>

definition ag_cooldown :: "'k AGEnv \<Rightarrow> AvailabilityGroup \<Rightarrow> int" where
  "ag_cooldown A ag =
     (case ag_FailoverCooldown (Spec ag) of
        None \<Rightarrow> 60 * second
      | Some s \<Rightarrow> (case ParseDuration A s of None \<Rightarrow> 60 * second | Some d \<Rightarrow> d))"

definition recently_fenced ::
  "'k AGEnv \<Rightarrow> AvailabilityGroup \<Rightarrow> bool \<Rightarrow> string \<Rightarrow> (bool, ('k, 'c) world) op" where
  "recently_fenced A ag extra name =
     (if LastFencedReplica (Status ag) = name \<and> extra then
        (case LastFencingTime (Status ag) of
           None \<Rightarrow> ret False
         | Some t \<Rightarrow> attempt (time_since A t) fail (\<lambda>d. ret (d < ag_cooldown A ag)))
      else ret False)"

definition is_exhausted ::
  "'k AGEnv \<Rightarrow> AvailabilityGroup \<Rightarrow> string \<Rightarrow> (bool, ('k, 'c) world) op" where
  "is_exhausted A ag name =
     recently_fenced A ag (ConsecutiveFencingCount (Status ag) \<ge> maxFencingAttempts) name"

text \<open>Step 10 for one rogue: first the label, then the server.\<close>

definition fence_rogue ::
  "('k, 'c) AGReconciler \<Rightarrow> 'k AGEnv \<Rightarrow> AvailabilityGroup \<Rightarrow> AGReplicaSpec \<Rightarrow> (unit, ('k, 'c) world) op" where
  "fence_rogue R A ag rogue =
     andthen (setPodRoleLabel A (cr_Namespace ag) (rep_ServerName rogue) RoleSecondary) (
     attempt (recently_fenced A ag True (rep_ServerName rogue)) fail (\<lambda>hard.
     attempt (fenceReplica R ag rogue hard)
       (\<lambda>fenceErr. effect (Warning ReasonFencingFailed
          (''Fencing '' @ rep_ServerName rogue @ '' failed: '' @ Error fenceErr @ '' (label removed, traffic cut)''))
          (ret ()))
       (\<lambda>_. ret ())))"

section \<open>Who stays primary\<close>

text \<open>
  The tiebreaker of step 9: the highest LSN wins; of equal ones the known primary, otherwise
  the first.
\<close>

fun tiebreak :: "string \<Rightarrow> (string \<Rightarrow> int) \<Rightarrow> AGReplicaSpec list \<Rightarrow> nat \<Rightarrow> nat \<times> int \<Rightarrow> nat \<times> int" where
  "tiebreak known lsns [] i best = best"
| "tiebreak known lsns (p # ps) i (legitimateIdx, highestLSN) =
     (let pLSN = lsns (rep_ServerName p) in
      tiebreak known lsns ps (i + 1)
        (if pLSN > highestLSN then (i, pLSN)
         else if pLSN = highestLSN \<and> rep_ServerName p = known then (i, highestLSN)
         else (legitimateIdx, highestLSN)))"

definition legitimate_idx :: "string \<Rightarrow> (string \<Rightarrow> int) \<Rightarrow> AGReplicaSpec list \<Rightarrow> nat" where
  "legitimate_idx known lsns primaries =
     fst (tiebreak known lsns (tl primaries) 1 (0, lsns (rep_ServerName (hd primaries))))"

text \<open>The rogues: every other primary whose circuit breaker is closed.\<close>

fun find_rogues ::
  "'k AGEnv \<Rightarrow> AvailabilityGroup \<Rightarrow> string \<Rightarrow> AGReplicaSpec list \<Rightarrow> (AGReplicaSpec list, ('k, 'c) world) op" where
  "find_rogues A ag legitimate [] = ret []"
| "find_rogues A ag legitimate (p # ps) =
     (if rep_ServerName p = legitimate then find_rogues A ag legitimate ps
      else attempt (is_exhausted A ag (rep_ServerName p)) fail (\<lambda>isExhausted.
           attempt (find_rogues A ag legitimate ps) fail (\<lambda>rogues.
           ret (if isExhausted then rogues else p # rogues))))"

section \<open>Resolving a split brain\<close>

text \<open>Step 11: what is remembered of a fencing.\<close>

definition fencing_status :: "string \<Rightarrow> string \<Rightarrow> int \<Rightarrow> AvailabilityGroupStatus \<Rightarrow> AvailabilityGroupStatus" where
  "fencing_status legitimate lastRogue now st =
     st\<lparr>PrimaryReplica := legitimate, LastFencingTime := Some now, FencingCount := wrap32 (FencingCount st + 1),
        ConsecutiveFencingCount :=
          (if LastFencedReplica st = lastRogue then wrap32 (ConsecutiveFencingCount st + 1) else 1),
        LastFencedReplica := lastRogue\<rparr>"

definition record_fencing ::
  "('k, 'c) AGReconciler \<Rightarrow> 'k AGEnv \<Rightarrow> AvailabilityGroup \<Rightarrow> string \<Rightarrow> string
   \<Rightarrow> (AvailabilityGroup \<times> bool, ('k, 'c) world) op" where
  "record_fencing R A ag legitimate lastRogue =
     attempt (read_clock A) fail (\<lambda>now.
     let ag1 = ag\<lparr>Status := fencing_status legitimate lastRogue now (Status ag)\<rparr>;
         reason = (if ConsecutiveFencingCount (Status ag1) > 1 then ReasonHardFencingExecuted else ReasonFencingExecuted)
     in attempt (patch_ignored R ag (with_condition (kclient R) ConditionFalse reason
          (''Fenced rogue primary, legitimate primary is '' @ legitimate) ag1)) fail (\<lambda>ag2.
        ret (ag2, True)))"

definition fence_or_give_up ::
  "('k, 'c) AGReconciler \<Rightarrow> 'k AGEnv \<Rightarrow> AvailabilityGroup \<Rightarrow> AGReplicaSpec list \<Rightarrow> string \<Rightarrow> AGReplicaSpec list
   \<Rightarrow> (AvailabilityGroup \<times> bool, ('k, 'c) world) op" where
  "fence_or_give_up R A ag primaries legitimate rogues =
     (if rogues = [] then
        attempt (patch_ignored R ag (with_condition (kclient R) ConditionFalse ReasonFencingExhausted
          ''Fencing exhausted: split-brain persists, manual intervention required'' ag)) fail (\<lambda>ag1. ret (ag1, False))
      else
        effect (Warning ReasonSplitBrainDetected
          (''Split-brain detected: '' @ show_int (int (length primaries)) @ '' primaries, legitimate='' @ legitimate))
        (andthen (for_each (fence_rogue R A ag) rogues)
          (record_fencing R A ag legitimate (rep_ServerName (last rogues)))))"

definition resolve_split_brain ::
  "('k, 'c) AGReconciler \<Rightarrow> 'k AGEnv \<Rightarrow> AvailabilityGroup \<Rightarrow> AGReplicaSpec list
   \<Rightarrow> (AvailabilityGroup \<times> bool, ('k, 'c) world) op" where
  "resolve_split_brain R A ag primaries =
     attempt (collectReplicaLSNs R ag primaries) fail (\<lambda>lsns.
     let legitimate = rep_ServerName (primaries ! legitimate_idx (PrimaryReplica (Status ag)) lsns primaries) in
     attempt (find_rogues A ag legitimate primaries) fail (fence_or_give_up R A ag primaries legitimate))"

section \<open>Detecting a split brain\<close>

definition failover_running :: "'k AGEnv \<Rightarrow> AvailabilityGroup \<Rightarrow> (bool, ('k, 'c) world) op" where
  "failover_running A ag =
     attempt (on_kube (ListAGFailovers A (cr_Namespace ag))) (\<lambda>_. ret False) (\<lambda>items.
       ret (\<exists>f \<in> set items. fo_AGName (Spec f) = ag_AGName (Spec ag) \<and> Phase (Status f) = FailoverPhaseRunning))"

text \<open>A single primary that is not the known one: the status is corrected in memory only.\<close>

definition adopt_primary ::
  "'k AGEnv \<Rightarrow> AvailabilityGroup \<Rightarrow> string \<Rightarrow> (AvailabilityGroup \<times> bool, ('k, 'c) world) op" where
  "adopt_primary A ag name =
     (let ag1 = ag\<lparr>Status := (Status ag)\<lparr>PrimaryReplica := name\<rparr>\<rparr> in
      andthen (updateReplicaRoleLabelsFromAG A ag1 name)
        (effect (Normal ReasonPrimaryChangedExternally (''Primary changed externally to '' @ name)) (ret (ag1, False))))"

definition detectAndResolveSplitBrain ::
  "('k, 'c) AGReconciler \<Rightarrow> 'k AGEnv \<Rightarrow> AvailabilityGroup \<Rightarrow> (AvailabilityGroup \<times> bool, ('k, 'c) world) op" where
  "detectAndResolveSplitBrain R A ag =
     (if PrimaryReplica (Status ag) = [] then ret (ag, False)
      else if (case ag_ClusterType (Spec ag) of None \<Rightarrow> False | Some ct \<Rightarrow> ct \<noteq> ''None'') then ret (ag, False)
      else attempt (failover_running A ag) fail (\<lambda>running.
        if running then ret (ag, False)
        else attempt (collectReplicaRoles R ag) fail (\<lambda>roles.
          let primaries = filter (\<lambda>r. roles (rep_ServerName r) = ''PRIMARY'') (ag_Replicas (Spec ag)) in
          case primaries of
            [] \<Rightarrow> ret (ag, False)
          | [p] \<Rightarrow> if rep_ServerName p = PrimaryReplica (Status ag) then ret (ag, False)
                   else adopt_primary A ag (rep_ServerName p)
          | _ \<Rightarrow> resolve_split_brain R A ag primaries)))"

section \<open>Rejoining\<close>

definition mapClusterType :: "string \<Rightarrow> string" where
  "mapClusterType ct = (if ct = ''WSFC'' then ''WSFC'' else if ct = ''None'' then ''NONE'' else ''EXTERNAL'')"

definition ag_cluster_type :: "AvailabilityGroup \<Rightarrow> string" where
  "ag_cluster_type ag = (case ag_ClusterType (Spec ag) of None \<Rightarrow> ''EXTERNAL'' | Some ct \<Rightarrow> mapClusterType ct)"

definition tryRejoinReplica ::
  "('k, 'c) AGReconciler \<Rightarrow> AvailabilityGroup \<Rightarrow> AGReplicaSpec \<Rightarrow> (unit, ('k, 'c) world) op" where
  "tryRejoinReplica R ag replica =
     attempt (on_kube (getCredentialsFromSecret (kclient R) (cr_Namespace ag) (CredentialsSecret (rep_Server replica))))
       (\<lambda>_. ret ()) (\<lambda>(username, password).
     case connectToSQL (rep_Server replica) username password (SQLClientFactory R) of
       Inl _ \<Rightarrow> ret ()
     | Inr conn \<Rightarrow> deferred (\<lambda>w. w\<lparr>sql := CloseClient conn (sql w)\<rparr>) (
         attempt (on_sql (JoinAG (ags conn) (ag_AGName (Spec ag)) (ag_cluster_type ag))) (\<lambda>_. ret ()) (\<lambda>_.
         effect (Normal ''ReplicaRejoined''
           (''Replica '' @ rep_ServerName replica @ '' rejoined AG '' @ ag_AGName (Spec ag))) (ret ()))))"

section \<open>The tiebreaker is right\<close>

lemma tiebreak_spec:
  assumes "j < i" and "i = length qs" and "h = lsns (rep_ServerName (qs ! j))"
    and "\<forall>q \<in> set qs. lsns (rep_ServerName q) \<le> h"
    and "\<forall>q \<in> set qs. lsns (rep_ServerName q) = h \<and> rep_ServerName q = known \<longrightarrow> rep_ServerName (qs ! j) = known"
    and "tiebreak known lsns ps i (j, h) = (k, m)"
  shows "k < length (qs @ ps) \<and> (\<forall>q \<in> set (qs @ ps). lsns (rep_ServerName q) \<le> lsns (rep_ServerName ((qs @ ps) ! k)))
    \<and> (\<forall>q \<in> set (qs @ ps). lsns (rep_ServerName q) = lsns (rep_ServerName ((qs @ ps) ! k)) \<and> rep_ServerName q = known
        \<longrightarrow> rep_ServerName ((qs @ ps) ! k) = known)"
  using assms
proof (induction ps arbitrary: qs i j h)
  case Nil
  then show ?case by (auto simp: nth_append)
next
  case (Cons p ps)
  let ?l = "lsns (rep_ServerName p)"
  have j: "(qs @ [p]) ! j = qs ! j" and p: "(qs @ [p]) ! i = p" using Cons.prems by (auto simp: nth_append)
  consider "?l > h" | "?l = h" "rep_ServerName p = known" | "\<not> ?l > h" "\<not> (?l = h \<and> rep_ServerName p = known)" by blast
  then show ?case
  proof cases
    case 1
    with Cons.prems have "tiebreak known lsns ps (i + 1) (i, ?l) = (k, m)" by simp
    with 1 Cons.prems p show ?thesis by (intro Cons.IH [of i "i + 1" "qs @ [p]" ?l, simplified append_assoc append.simps]) auto
  next
    case 2
    with Cons.prems have "tiebreak known lsns ps (i + 1) (i, h) = (k, m)" by simp
    with 2 Cons.prems p show ?thesis by (intro Cons.IH [of i "i + 1" "qs @ [p]" h, simplified append_assoc append.simps]) auto
  next
    case 3
    with Cons.prems have "tiebreak known lsns ps (i + 1) (j, h) = (k, m)" by (auto simp: Let_def split: if_splits)
    with 3 Cons.prems j show ?thesis by (intro Cons.IH [of j "i + 1" "qs @ [p]" h, simplified append_assoc append.simps]) auto
  qed
qed

lemma legitimate_idx_spec:
  assumes "ps \<noteq> []"
  shows "legitimate_idx known lsns ps < length ps"
    and "\<forall>q \<in> set ps. lsns (rep_ServerName q) \<le> lsns (rep_ServerName (ps ! legitimate_idx known lsns ps))"
    and "\<forall>q \<in> set ps. lsns (rep_ServerName q) = lsns (rep_ServerName (ps ! legitimate_idx known lsns ps)) \<and> rep_ServerName q = known
        \<longrightarrow> rep_ServerName (ps ! legitimate_idx known lsns ps) = known"
proof -
  obtain p qs where ps: "ps = p # qs" using assms by (cases ps) auto
  obtain k m where k: "tiebreak known lsns qs 1 (0, lsns (rep_ServerName p)) = (k, m)" by (cases "tiebreak known lsns qs 1 (0, lsns (rep_ServerName p))")
  have "legitimate_idx known lsns ps = k" using k by (simp add: legitimate_idx_def ps)
  with tiebreak_spec [where qs = "[p]" and j = 0 and i = 1, OF _ _ _ _ _ k]
  show "legitimate_idx known lsns ps < length ps"
    and "\<forall>q \<in> set ps. lsns (rep_ServerName q) \<le> lsns (rep_ServerName (ps ! legitimate_idx known lsns ps))"
    and "\<forall>q \<in> set ps. lsns (rep_ServerName q) = lsns (rep_ServerName (ps ! legitimate_idx known lsns ps)) \<and> rep_ServerName q = known
        \<longrightarrow> rep_ServerName (ps ! legitimate_idx known lsns ps) = known"
    by (auto simp: ps)
qed

section \<open>Loops over replicas\<close>

lemma fold_points_fun:
  "fold (\<lambda>r f. f(name r := val (name r))) rs f n = (if n \<in> name ` set rs then val n else f n)"
  by (induction rs arbitrary: f) auto

section \<open>What the replicas and the API server promise\<close>

text \<open>
  \<open>conn s\<close> is the client of the server \<open>s\<close>. Asked for its role or its LSN, a server answers
  what it is and nothing changes; no answer counts as no role and LSN 0. Fencing a server
  leaves the roles of the others, even when it fails.
\<close>

definition answer :: "'a \<Rightarrow> 'a res \<Rightarrow> 'a" where
  "answer d r = (case r of Inl _ \<Rightarrow> d | Inr x \<Rightarrow> x)"

locale ag_replicas =
  fixes conn :: "string \<Rightarrow> 'c SQLClient"
    and ok :: "'c \<Rightarrow> bool"
    and role :: "'c \<Rightarrow> string \<Rightarrow> string"
    and lsn :: "'c \<Rightarrow> string \<Rightarrow> int"
    and agn :: string
  assumes role_law: "ok c \<Longrightarrow> GetAGReplicaRole (ags (conn s)) agn s c = (r, c') \<Longrightarrow>
      answer [] r = role c s \<and> ok c' \<and> role c' = role c \<and> lsn c' = lsn c"
    and lsn_law: "ok c \<Longrightarrow> GetLastHardenedLSN (ags (conn s)) agn c = (l, c') \<Longrightarrow>
      answer 0 l = lsn c s \<and> ok c' \<and> role c' = role c \<and> lsn c' = lsn c"
    and demote_frame: "ok c \<Longrightarrow> SetAGRoleSecondary (ags (conn s)) agn c = (u, c') \<Longrightarrow>
      ok c' \<and> (\<forall>t. t \<noteq> s \<longrightarrow> role c' t = role c t)"
    and drop_frame: "ok c \<Longrightarrow> DropAG (ags (conn s)) agn c = (u, c') \<Longrightarrow>
      ok c' \<and> (\<forall>t. t \<noteq> s \<longrightarrow> role c' t = role c t)"
    and close_law: "ok c \<Longrightarrow> ok (CloseClient (conn s) c) \<and> role (CloseClient (conn s) c) = role c
      \<and> lsn (CloseClient (conn s) c) = lsn c"

text \<open>On servers that carry out what they are told, a fenced server is no longer primary.\<close>

locale ag_fleet = ag_replicas +
  assumes demote_law: "ok c \<Longrightarrow> SetAGRoleSecondary (ags (conn s)) agn c = (u, c') \<Longrightarrow>
      u = Inr () \<and> role c' s \<noteq> ''PRIMARY''"
    and drop_law: "ok c \<Longrightarrow> DropAG (ags (conn s)) agn c = (u, c') \<Longrightarrow> u = Inr () \<and> role c' s \<noteq> ''PRIMARY''"

text \<open>
  The clock, the pods, the list of failovers and the lease are read, and pods and leases written,
  without an effect on the resources the theorems speak of.
\<close>

definition same_api ::
  "('k \<Rightarrow> string \<times> string \<Rightarrow> 'o option) \<Rightarrow> ('k \<Rightarrow> string \<times> string \<Rightarrow> Secret option)
   \<Rightarrow> ('k \<Rightarrow> string \<times> string \<Rightarrow> SQLServer option) \<Rightarrow> 'k \<Rightarrow> 'k \<Rightarrow> bool" where
  "same_api objs secs srvs k k' \<longleftrightarrow> objs k' = objs k \<and> secs k' = secs k \<and> srvs k' = srvs k"

definition env_laws ::
  "'k AGEnv \<Rightarrow> ('k \<Rightarrow> string \<times> string \<Rightarrow> 'o option) \<Rightarrow> ('k \<Rightarrow> string \<times> string \<Rightarrow> Secret option)
   \<Rightarrow> ('k \<Rightarrow> string \<times> string \<Rightarrow> SQLServer option) \<Rightarrow> bool" where
  "env_laws A objs secs srvs \<longleftrightarrow>
     (\<forall>k. same_api objs secs srvs k (snd (Now A k))) \<and>
     (\<forall>k ns n. same_api objs secs srvs k (snd (GetPod A ns n k))) \<and>
     (\<forall>k p q. same_api objs secs srvs k (snd (PatchPod A p q k))) \<and>
     (\<forall>k ns. same_api objs secs srvs k (snd (ListAGFailovers A ns k))) \<and>
     (\<forall>k ns n. same_api objs secs srvs k (snd (GetLease A ns n k))) \<and>
     (\<forall>k l. same_api objs secs srvs k (snd (CreateLease A l k))) \<and>
     (\<forall>k l m. same_api objs secs srvs k (snd (PatchLease A l m k)))"

lemma same_api_refl [simp]: "same_api objs secs srvs k k"
  by (simp add: same_api_def)

lemma same_api_trans: "same_api objs secs srvs k k1 \<Longrightarrow> same_api objs secs srvs k1 k2 \<Longrightarrow> same_api objs secs srvs k k2"
  by (simp add: same_api_def)

text \<open>\<open>H\<close> holds of the role of a server after it has been fenced in either way.\<close>

definition fenced_roles ::
  "(string \<Rightarrow> 'c SQLClient) \<Rightarrow> ('c \<Rightarrow> bool) \<Rightarrow> ('c \<Rightarrow> string \<Rightarrow> string) \<Rightarrow> string \<Rightarrow> (string \<Rightarrow> bool) \<Rightarrow> bool" where
  "fenced_roles conn ok role agn H \<longleftrightarrow>
     (\<forall>s c. ok c \<longrightarrow> H (role (snd (SetAGRoleSecondary (ags (conn s)) agn c)) s) \<and> H (role (snd (DropAG (ags (conn s)) agn c)) s))"

text \<open>Every replica of the group has credentials and a client.\<close>

definition all_connect ::
  "('k, 'c) AGReconciler \<Rightarrow> (string \<times> string \<Rightarrow> Secret option) \<Rightarrow> AvailabilityGroup \<Rightarrow> (string \<Rightarrow> 'c SQLClient) \<Rightarrow> bool" where
  "all_connect R secs ag conn \<longleftrightarrow>
     (\<forall>r \<in> set (ag_Replicas (Spec ag)). connects R secs (cr_Namespace ag) (rep_Server r) (conn (rep_ServerName r)))"

definition replica_names :: "AvailabilityGroup \<Rightarrow> string set" where
  "replica_names ag = rep_ServerName ` set (ag_Replicas (Spec ag))"

text \<open>
  The replicas that say they are primary, and the one of them that rightfully is: the one with
  the highest LSN, and of several the primary known from the status.
\<close>

definition claimants :: "(string \<Rightarrow> string) \<Rightarrow> string set \<Rightarrow> string set" where
  "claimants role names = {s \<in> names. role s = ''PRIMARY''}"

definition rightful :: "(string \<Rightarrow> string) \<Rightarrow> (string \<Rightarrow> int) \<Rightarrow> string \<Rightarrow> string set \<Rightarrow> string \<Rightarrow> bool" where
  "rightful role lsn known names s \<longleftrightarrow>
     s \<in> claimants role names \<and> (\<forall>t \<in> claimants role names. lsn t \<le> lsn s)
     \<and> (known \<in> claimants role names \<and> lsn known = lsn s \<longrightarrow> s = known)"

text \<open>The guards of the detection: no known primary, an external cluster manager, a failover in progress.\<close>

definition suspended :: "'k AGEnv \<Rightarrow> AvailabilityGroup \<Rightarrow> 'k \<Rightarrow> bool" where
  "suspended A ag k \<longleftrightarrow>
     PrimaryReplica (Status ag) = [] \<or>
     (case ag_ClusterType (Spec ag) of None \<Rightarrow> False | Some ct \<Rightarrow> ct \<noteq> ''None'') \<or>
     (case fst (ListAGFailovers A (cr_Namespace ag) k) of
        Inl _ \<Rightarrow> False
      | Inr items \<Rightarrow> \<exists>f \<in> set items. fo_AGName (Spec f) = ag_AGName (Spec ag) \<and> Phase (Status f) = FailoverPhaseRunning)"

text \<open>The last fencing is not over: whenever the clock is read, less than the cooldown has passed.\<close>

definition within_cooldown :: "'k AGEnv \<Rightarrow> AvailabilityGroup \<Rightarrow> bool" where
  "within_cooldown A ag \<longleftrightarrow>
     (\<exists>t. LastFencingTime (Status ag) = Some t \<and> (\<forall>k. saturate64 (fst (Now A k) - t) < ag_cooldown A ag))"

definition breaker_open :: "'k AGEnv \<Rightarrow> AvailabilityGroup \<Rightarrow> string \<Rightarrow> bool" where
  "breaker_open A ag s \<longleftrightarrow> LastFencedReplica (Status ag) = s \<and>
     maxFencingAttempts \<le> ConsecutiveFencingCount (Status ag) \<and> within_cooldown A ag"

text \<open>The steps that touch neither the servers nor the resources.\<close>

definition only_api ::
  "('k \<Rightarrow> string \<times> string \<Rightarrow> 'o option) \<Rightarrow> ('k \<Rightarrow> string \<times> string \<Rightarrow> Secret option)
   \<Rightarrow> ('k \<Rightarrow> string \<times> string \<Rightarrow> SQLServer option) \<Rightarrow> ('k, 'c) world \<Rightarrow> ('k, 'c) world \<Rightarrow> bool" where
  "only_api objs secs srvs w w' \<longleftrightarrow> sql w' = sql w \<and> same_api objs secs srvs (kube w) (kube w')"

lemma only_api_refl [simp]: "only_api objs secs srvs w w"
  by (simp add: only_api_def)

lemma only_api_trans: "only_api objs secs srvs w w1 \<Longrightarrow> only_api objs secs srvs w1 w2 \<Longrightarrow> only_api objs secs srvs w w2"
  by (auto simp: only_api_def intro: same_api_trans)

lemma only_api_kube: "same_api objs secs srvs (kube w) k \<Longrightarrow> only_api objs secs srvs w (w\<lparr>kube := k\<rparr>)"
  by (simp add: only_api_def)

lemma env_lawsD:
  assumes "env_laws A objs secs srvs"
  shows "same_api objs secs srvs k (snd (Now A k))" "same_api objs secs srvs k (snd (GetPod A ns n k))"
    "same_api objs secs srvs k (snd (PatchPod A p q k))" "same_api objs secs srvs k (snd (ListAGFailovers A ns k))"
    "same_api objs secs srvs k (snd (GetLease A ns n k))" "same_api objs secs srvs k (snd (CreateLease A l k))"
    "same_api objs secs srvs k (snd (PatchLease A l m k))"
  using assms by (simp_all add: env_laws_def)

lemma wp_read_clock:
  assumes "env_laws A objs secs srvs" and "\<And>t w'. only_api objs secs srvs w w' \<Longrightarrow> Q t w'"
  shows "wp (read_clock A) w Q E"
  using env_lawsD(1) [OF assms(1), of "kube w"]
  by (cases "Now A (kube w)") (simp add: wp_def read_clock_def assms(2) only_api_kube)

lemma wp_on_kube_same:
  assumes "\<And>k. same_api objs secs srvs k (snd (m k))"
    and "\<And>x w'. only_api objs secs srvs w w' \<Longrightarrow> Q x w'" and "\<And>e w'. only_api objs secs srvs w w' \<Longrightarrow> E e w'"
  shows "wp (on_kube m) w Q E"
  using assms(1) [of "kube w"] by (cases "m (kube w)") (auto simp: wp_def on_kube_def assms(2,3) only_api_kube split: sum.split)

lemma wp_setPodRoleLabel:
  assumes env: "env_laws A objs secs srvs" and post: "\<And>w'. only_api objs secs srvs w w' \<Longrightarrow> Q () w'"
  shows "wp (setPodRoleLabel A ns n role) w Q E"
  unfolding setPodRoleLabel_def wp_attempt
proof (rule wp_on_kube_same [OF env_lawsD(2) [OF env]])
  fix pod w1 assume w1: "only_api objs secs srvs w w1"
  show "wp (if label_of pod LabelRole = role then ret ()
        else attempt (on_kube (PatchPod A pod (pod\<lparr>pod_Labels := (pod_Labels pod)(LabelRole \<mapsto> role)\<rparr>))) (\<lambda>_. ret ()) (\<lambda>_. ret ()))
      w1 Q E"
    unfolding wp_if wp_attempt wp_ret
    by (simp add: post [OF w1]) (rule impI, rule wp_on_kube_same [OF env_lawsD(3) [OF env]]; rule post, erule only_api_trans [OF w1])
qed (simp add: wp_ret post del: ret_apply)

lemma wp_updateLabels:
  assumes "env_laws A objs secs srvs" and "\<And>w'. only_api objs secs srvs w w' \<Longrightarrow> Q () w'"
  shows "wp (updateReplicaRoleLabelsFromAG A ag n) w Q E"
  unfolding updateReplicaRoleLabelsFromAG_def Let_def
  by (rule wp_for_each_inv [where I = "only_api objs secs srvs w"])
     (auto intro!: wp_setPodRoleLabel [OF assms(1)] assms(2) intro: only_api_trans)

lemma wp_time_since:
  assumes env: "env_laws A objs secs srvs"
    and post: "\<And>d w'. only_api objs secs srvs w w' \<Longrightarrow> d = saturate64 (fst (Now A (kube w)) - t) \<Longrightarrow> Q d w'"
  shows "wp (time_since A t) w Q E"
  using env_lawsD(1) [OF env, of "kube w"]
  by (cases "Now A (kube w)") (simp add: time_since_def wp_attempt wp_def read_clock_def post only_api_kube)

lemma wp_recently_fenced:
  assumes "env_laws A objs secs srvs"
    and "\<And>b w'. only_api objs secs srvs w w' \<Longrightarrow> (b \<longrightarrow> LastFencedReplica (Status ag) = name \<and> extra) \<Longrightarrow>
      (LastFencedReplica (Status ag) = name \<and> extra \<and> within_cooldown A ag \<longrightarrow> b) \<Longrightarrow> Q b w'"
  shows "wp (recently_fenced A ag extra name) w Q E"
  unfolding recently_fenced_def
  by (auto simp: wp_ret wp_attempt assms(2) within_cooldown_def simp del: ret_apply split: option.split
      intro!: wp_time_since [OF assms(1)] assms(2))

section \<open>Asking and fencing, on servers that keep their promises\<close>

text \<open>The servers are as they were, and so is everything else.\<close>

definition at_rest ::
  "('c \<Rightarrow> bool) \<Rightarrow> ('c \<Rightarrow> 'v) \<Rightarrow> ('c \<Rightarrow> 'u) \<Rightarrow> ('k, 'c) world \<Rightarrow> ('k, 'c) world \<Rightarrow> bool" where
  "at_rest ok role lsn w w' \<longleftrightarrow>
     ok (sql w') \<and> role (sql w') = role (sql w) \<and> lsn (sql w') = lsn (sql w) \<and> kube w' = kube w \<and> events w' = events w"

context ag_replicas begin

text \<open>What holds of a world while the replicas are only asked.\<close>

lemma wp_ask_replica:
  assumes laws: "api_laws R objs secs srvs"
    and con: "connects R (secs (kube w)) (cr_Namespace ag) (rep_Server rep) (conn (rep_ServerName rep))"
    and ask: "\<And>r c'. question (conn (rep_ServerName rep)) (sql w) = (r, c') \<Longrightarrow>
      answer d r = x \<and> ok c' \<and> role c' = role (sql w) \<and> lsn c' = lsn (sql w)"
    and post: "\<And>c'. ok c' \<Longrightarrow> role c' = role (sql w) \<Longrightarrow> lsn c' = lsn (sql w) \<Longrightarrow> Q x (w\<lparr>sql := c'\<rparr>)"
  shows "wp (ask_replica R ag rep question d) w Q E"
proof -
  from con obtain u p where
    up: "secret_credentials (secs (kube w)) (cr_Namespace ag) (CredentialsSecret (rep_Server rep)) = Some (u, p)" and
    cl: "connectToSQL (rep_Server rep) u p (SQLClientFactory R) = Inr (conn (rep_ServerName rep))"
    by (auto simp: connects_def)
  obtain r c' where q: "question (conn (rep_ServerName rep)) (sql w) = (r, c')" by fastforce
  from ask [OF q] have x: "answer d r = x" "ok c'" "role c' = role (sql w)" "lsn c' = lsn (sql w)" by auto
  have "Q x (w\<lparr>sql := CloseClient (conn (rep_ServerName rep)) c'\<rparr>)"
    by (rule post) (use close_law [OF x(2)] x in auto)
  then show ?thesis
    unfolding ask_replica_def wp_attempt wp_on_kube wp_getCredentialsFromSecret [OF laws up]
    using x(1) by (cases r) (simp_all add: cl wp_deferred wp_attempt wp_on_sql wp_ret wp_def q answer_def)
qed


lemma wp_collect_roles:
  assumes laws: "api_laws R objs secs srvs" and con: "all_connect R (secs (kube w)) ag conn"
    and name: "ag_AGName (Spec ag) = agn" and c: "ok (sql w)"
    and post: "\<And>roles w'. at_rest ok role lsn w w' \<Longrightarrow> (\<forall>n \<in> replica_names ag. roles n = role (sql w) n) \<Longrightarrow> Q roles w'"
  shows "wp (collectReplicaRoles R ag) w Q E"
  unfolding collectReplicaRoles_def
proof (rule wp_fold_op [where S = "at_rest ok role lsn w" and g = "\<lambda>r f. f(rep_ServerName r := role (sql w) (rep_ServerName r))"])
  fix rep f w1
  assume rep: "rep \<in> set (ag_Replicas (Spec ag))" and w1: "at_rest ok role lsn w w1"
  have con1: "connects R (secs (kube w1)) (cr_Namespace ag) (rep_Server rep) (conn (rep_ServerName rep))"
    using con rep w1 by (simp add: all_connect_def at_rest_def)
  show "wp (attempt (ask_replica R ag rep (\<lambda>conn. GetAGReplicaRole (ags conn) (ag_AGName (Spec ag)) (rep_ServerName rep)) []) fail
      (\<lambda>role. ret (f(rep_ServerName rep := role)))) w1
      (\<lambda>f' w'. f' = f(rep_ServerName rep := role (sql w) (rep_ServerName rep)) \<and> at_rest ok role lsn w w') E"
    unfolding wp_attempt wp_ret
    by (rule wp_ask_replica [OF laws con1, where x = "role (sql w1) (rep_ServerName rep)"])
       (use w1 role_law in \<open>auto simp: at_rest_def name\<close>)
next
  fix w' assume "at_rest ok role lsn w w'"
  then show "Q (fold (\<lambda>r f. f(rep_ServerName r := role (sql w) (rep_ServerName r))) (ag_Replicas (Spec ag)) (\<lambda>_. [])) w'"
    by (rule post) (auto simp: fold_points_fun [of rep_ServerName "role (sql w)"] replica_names_def)
qed (simp add: at_rest_def c)

lemma wp_collect_lsns:
  assumes laws: "api_laws R objs secs srvs" and con: "all_connect R (secs (kube w)) ag conn"
    and name: "ag_AGName (Spec ag) = agn" and c: "ok (sql w)" and sub: "set ps \<subseteq> set (ag_Replicas (Spec ag))"
    and post: "\<And>lsns w'. at_rest ok role lsn w w' \<Longrightarrow> (\<forall>p \<in> set ps. lsns (rep_ServerName p) = lsn (sql w) (rep_ServerName p))
      \<Longrightarrow> Q lsns w'"
  shows "wp (collectReplicaLSNs R ag ps) w Q E"
  unfolding collectReplicaLSNs_def
proof (rule wp_fold_op [where S = "at_rest ok role lsn w" and g = "\<lambda>r f. f(rep_ServerName r := lsn (sql w) (rep_ServerName r))"])
  fix rep f w1
  assume rep: "rep \<in> set ps" and w1: "at_rest ok role lsn w w1"
  have con1: "connects R (secs (kube w1)) (cr_Namespace ag) (rep_Server rep) (conn (rep_ServerName rep))"
    using con rep w1 sub by (auto simp: all_connect_def at_rest_def)
  show "wp (attempt (ask_replica R ag rep (\<lambda>conn. GetLastHardenedLSN (ags conn) (ag_AGName (Spec ag))) 0) fail
      (\<lambda>l. ret (f(rep_ServerName rep := l)))) w1
      (\<lambda>f' w'. f' = f(rep_ServerName rep := lsn (sql w) (rep_ServerName rep)) \<and> at_rest ok role lsn w w') E"
    unfolding wp_attempt wp_ret
    by (rule wp_ask_replica [OF laws con1, where x = "lsn (sql w1) (rep_ServerName rep)"])
       (use w1 lsn_law in \<open>auto simp: at_rest_def name\<close>)
next
  fix w' assume "at_rest ok role lsn w w'"
  then show "Q (fold (\<lambda>r f. f(rep_ServerName r := lsn (sql w) (rep_ServerName r))) ps (\<lambda>_. 0)) w'"
    by (rule post) (auto simp: fold_points_fun [of rep_ServerName "lsn (sql w)"])
qed (simp add: at_rest_def c)

text \<open>Looking for rogues only reads the clock; with a closed circuit breaker all are found.\<close>

lemma wp_find_rogues:
  assumes env: "env_laws A objs secs srvs"
    and post: "\<And>rs w'. only_api objs secs srvs w w' \<Longrightarrow> set rs \<subseteq> {p \<in> set ps. rep_ServerName p \<noteq> legit} \<Longrightarrow>
      (ConsecutiveFencingCount (Status ag) < maxFencingAttempts \<Longrightarrow> rs = filter (\<lambda>p. rep_ServerName p \<noteq> legit) ps) \<Longrightarrow>
      (\<forall>r \<in> set rs. \<not> breaker_open A ag (rep_ServerName r)) \<Longrightarrow> Q rs w'"
  shows "wp (find_rogues A ag legit ps) w Q E"
  using post
proof (induction ps arbitrary: w Q)
  case Nil
  then show ?case by (simp add: wp_ret del: ret_apply)
next
  case (Cons p ps)
  show ?case
  proof (cases "rep_ServerName p = legit")
    case True
    then show ?thesis by (simp, intro Cons.IH) (rule Cons.prems; auto)
  next
    case False
    show ?thesis
      unfolding find_rogues.simps if_not_P [OF False] wp_attempt wp_fail is_exhausted_def
    proof (rule wp_recently_fenced [OF env], rule Cons.IH)
      fix b w1 rs w2
      assume w1: "only_api objs secs srvs w w1" and b: "b \<longrightarrow> LastFencedReplica (Status ag) = rep_ServerName p
          \<and> maxFencingAttempts \<le> ConsecutiveFencingCount (Status ag)"
        "LastFencedReplica (Status ag) = rep_ServerName p \<and> maxFencingAttempts \<le> ConsecutiveFencingCount (Status ag)
          \<and> within_cooldown A ag \<longrightarrow> b"
        and w2: "only_api objs secs srvs w1 w2" and rs: "set rs \<subseteq> {p \<in> set ps. rep_ServerName p \<noteq> legit}"
        "ConsecutiveFencingCount (Status ag) < maxFencingAttempts \<Longrightarrow> rs = filter (\<lambda>p. rep_ServerName p \<noteq> legit) ps"
        "\<forall>r \<in> set rs. \<not> breaker_open A ag (rep_ServerName r)"
      have open_b: "breaker_open A ag (rep_ServerName p) \<longrightarrow> b" using b(2) by (simp add: breaker_open_def)
      have closed_b: "\<not> b" if "ConsecutiveFencingCount (Status ag) < maxFencingAttempts" using b(1) that by simp
      show "wp (ret (if b then rs else p # rs)) w2 Q E"
        unfolding wp_ret
      proof (rule Cons.prems [OF only_api_trans [OF w1 w2]])
        show "set (if b then rs else p # rs) \<subseteq> {q \<in> set (p # ps). rep_ServerName q \<noteq> legit}" using rs(1) False by auto
        show "(if b then rs else p # rs) = filter (\<lambda>q. rep_ServerName q \<noteq> legit) (p # ps)"
          if "ConsecutiveFencingCount (Status ag) < maxFencingAttempts"
          using closed_b [OF that] rs(2) [OF that] False by simp
        show "\<forall>r \<in> set (if b then rs else p # rs). \<not> breaker_open A ag (rep_ServerName r)"
          using open_b rs(3) by auto
      qed
    qed
  qed
qed

lemma wp_fenceReplica:
  assumes laws: "api_laws R objs secs srvs"
    and con: "connects R (secs (kube w)) (cr_Namespace ag) (rep_Server rep) (conn (rep_ServerName rep))"
    and name: "ag_AGName (Spec ag) = agn" and c: "ok (sql w)"
    and hit: "fenced_roles conn ok role agn H"
    and post: "\<And>w'. ok (sql w') \<Longrightarrow> kube w' = kube w \<Longrightarrow> (\<forall>t. t \<noteq> rep_ServerName rep \<longrightarrow> role (sql w') t = role (sql w) t) \<Longrightarrow>
      H (role (sql w') (rep_ServerName rep)) \<Longrightarrow> Q () w' \<and> (\<forall>e. E e w')"
  shows "wp (fenceReplica R ag rep hard) w Q E"
proof -
  let ?s = "rep_ServerName rep"
  from con obtain u p where
    up: "secret_credentials (secs (kube w)) (cr_Namespace ag) (CredentialsSecret (rep_Server rep)) = Some (u, p)" and
    cl: "connectToSQL (rep_Server rep) u p (SQLClientFactory R) = Inr (conn ?s)"
    by (auto simp: connects_def)
  obtain r1 c1 where d: "SetAGRoleSecondary (ags (conn ?s)) agn (sql w) = (r1, c1)" by fastforce
  obtain r2 c2 where e: "DropAG (ags (conn ?s)) agn (sql w) = (r2, c2)" by fastforce
  have "H (role c1 ?s)" "H (role c2 ?s)" using hit c d e unfolding fenced_roles_def by (metis snd_conv)+
  then have demoted: "ok c1 \<and> (\<forall>t. t \<noteq> ?s \<longrightarrow> role c1 t = role (sql w) t)" "H (role c1 ?s)"
    and dropped: "ok c2 \<and> (\<forall>t. t \<noteq> ?s \<longrightarrow> role c2 t = role (sql w) t)" "H (role c2 ?s)"
    using demote_frame [OF c d] drop_frame [OF c e] by auto
  have fin: "Q () (w1\<lparr>sql := CloseClient (conn ?s) c\<rparr>)" "E e (w1\<lparr>sql := CloseClient (conn ?s) c\<rparr>)"
    if "kube w1 = kube w" "c = c1 \<or> c = c2" for w1 c e
  proof -
    have "ok c" using that(2) demoted dropped by auto
    from close_law [OF this] show "Q () (w1\<lparr>sql := CloseClient (conn ?s) c\<rparr>)" "E e (w1\<lparr>sql := CloseClient (conn ?s) c\<rparr>)"
      using post [of "w1\<lparr>sql := CloseClient (conn ?s) c\<rparr>"] that demoted dropped by auto
  qed
  show ?thesis
    unfolding fenceReplica_def Let_def wp_or_fail wp_on_kube wp_getCredentialsFromSecret [OF laws up]
    by (cases r1; cases r2; cases hard)
       (simp_all add: cl wp_deferred wp_attempt wp_on_sql wp_effect wp_ret wp_fail name fin wp_def d e)
qed

lemma wp_fence_rogue:
  assumes laws: "api_laws R objs secs srvs" and env: "env_laws A objs secs srvs"
    and con: "connects R (secs (kube w)) (cr_Namespace ag) (rep_Server rep) (conn (rep_ServerName rep))"
    and name: "ag_AGName (Spec ag) = agn" and c: "ok (sql w)"
    and hit: "fenced_roles conn ok role agn H"
    and post: "\<And>w'. ok (sql w') \<Longrightarrow> same_api objs secs srvs (kube w) (kube w') \<Longrightarrow>
      (\<forall>t. t \<noteq> rep_ServerName rep \<longrightarrow> role (sql w') t = role (sql w) t) \<Longrightarrow> H (role (sql w') (rep_ServerName rep)) \<Longrightarrow> Q () w'"
  shows "wp (fence_rogue R A ag rep) w Q E"
  unfolding fence_rogue_def wp_andthen wp_attempt
proof (rule wp_setPodRoleLabel [OF env], rule wp_recently_fenced [OF env])
  fix w1 b w2 assume "only_api objs secs srvs w w1" "only_api objs secs srvs w1 w2"
  then have w2: "sql w2 = sql w" "same_api objs secs srvs (kube w) (kube w2)"
    by (auto simp: only_api_def intro: same_api_trans)
  have con2: "connects R (secs (kube w2)) (cr_Namespace ag) (rep_Server rep) (conn (rep_ServerName rep))"
    using con w2(2) by (simp add: same_api_def)
  show "wp (fenceReplica R ag rep b) w2 (\<lambda>x w'. wp (ret ()) w' Q E)
    (\<lambda>e w'. wp (effect (Warning ReasonFencingFailed (''Fencing '' @ rep_ServerName rep @ '' failed: '' @ Error e @
       '' (label removed, traffic cut)'')) (ret ())) w' Q E)"
    by (rule wp_fenceReplica [OF laws con2 name _ hit])
       (use c w2 in \<open>auto simp: wp_ret wp_effect simp del: ret_apply intro!: post\<close>)
qed

lemma wp_fence_all:
  fixes w :: "('k, 'c) world"
  assumes laws: "api_laws R objs secs srvs" and env: "env_laws A objs secs srvs"
    and con: "all_connect R (secs (kube w)) ag conn" and sub: "set rs \<subseteq> set (ag_Replicas (Spec ag))"
    and name: "ag_AGName (Spec ag) = agn" and c: "ok (sql w)"
    and hit: "fenced_roles conn ok role agn H"
    and post: "\<And>w'. ok (sql w') \<Longrightarrow> same_api objs secs srvs (kube w) (kube w') \<Longrightarrow>
      (\<forall>t. t \<notin> rep_ServerName ` set rs \<longrightarrow> role (sql w') t = role (sql w) t) \<Longrightarrow>
      (\<forall>t \<in> rep_ServerName ` set rs. H (role (sql w') t)) \<Longrightarrow> Q () w'"
  shows "wp (for_each (fence_rogue R A ag) rs) w Q E"
  using con sub c post
proof (induction rs arbitrary: w)
  case Nil
  then show ?case by (simp add: wp_ret del: ret_apply)
next
  case (Cons r rs)
  have con1: "connects R (secs (kube w)) (cr_Namespace ag) (rep_Server r) (conn (rep_ServerName r))"
    using Cons.prems(1,2) by (simp add: all_connect_def)
  show ?case
    unfolding for_each.simps wp_andthen
  proof (rule wp_fence_rogue [OF laws env con1 name Cons.prems(3) hit])
    fix w1 :: "('k, 'c) world"
    assume w1: "ok (sql w1)" "same_api objs secs srvs (kube w) (kube w1)"
      "\<forall>t. t \<noteq> rep_ServerName r \<longrightarrow> role (sql w1) t = role (sql w) t" "H (role (sql w1) (rep_ServerName r))"
    show "wp (for_each (fence_rogue R A ag) rs) w1 Q E"
    proof (rule Cons.IH [OF _ _ w1(1)])
      show "all_connect R (secs (kube w1)) ag conn" using Cons.prems(1) w1(2) by (simp add: same_api_def)
      show "set rs \<subseteq> set (ag_Replicas (Spec ag))" using Cons.prems(2) by simp
    next
      fix w' :: "('k, 'c) world"
      assume w': "ok (sql w')" "same_api objs secs srvs (kube w1) (kube w')"
        "\<forall>t. t \<notin> rep_ServerName ` set rs \<longrightarrow> role (sql w') t = role (sql w1) t"
        "\<forall>t \<in> rep_ServerName ` set rs. H (role (sql w') t)"
      have "H (role (sql w') (rep_ServerName r))"
        using w1(4) w'(3,4) by (cases "rep_ServerName r \<in> rep_ServerName ` set rs") auto
      then show "Q () w'"
        using w1 w' by (intro Cons.prems(4)) (auto intro: same_api_trans)
    qed
  qed
qed

end

text \<open>What the API server holds of the group after a round of fencing.\<close>

lemma with_condition_status:
  "with_condition K st reason msg (ag\<lparr>Status := s\<rparr>) = ag\<lparr>Status := s\<lparr>Conditions :=
     SetStatusCondition K (Conditions s) (ready_condition (cr_Generation ag) st reason msg)\<rparr>\<rparr>"
  by (simp add: with_condition_def)

lemma wp_record_fencing:
  assumes laws: "api_laws R objs secs srvs" and env: "env_laws A objs secs srvs"
    and base: "objs (kube w) (request_of ag) = Some ag" and live: "\<not> cr_Deleting ag"
    and post: "\<And>st' w'. sql w' = sql w \<Longrightarrow> objs (kube w') = (objs (kube w))(request_of ag \<mapsto> ag\<lparr>Status := st'\<rparr>) \<Longrightarrow>
      PrimaryReplica st' = legit \<Longrightarrow> LastFencedReplica st' = rogue \<Longrightarrow>
      (\<exists>reason. ready_status (ag\<lparr>Status := st'\<rparr>) = Some (ConditionFalse, reason)) \<Longrightarrow> Q (ag\<lparr>Status := st'\<rparr>, True) w'"
  shows "wp (record_fencing R A ag legit rogue) w Q E"
  unfolding record_fencing_def wp_attempt Let_def with_condition_status
proof (rule wp_read_clock [OF env])
  fix now w1 assume w1: "only_api objs secs srvs w w1"
  let ?s = "fencing_status legit rogue now (Status ag)"
  have ready: "\<exists>r. ready_status (ag\<lparr>Status := ?s\<lparr>Conditions := SetStatusCondition (kclient R) (Conditions ?s)
      (ready_condition (cr_Generation ag) ConditionFalse reason msg)\<rparr>\<rparr>) = Some (ConditionFalse, r)" for reason msg
    using api_lawsD(7) [OF laws] by (simp add: ready_status_def condition_laws_def ready_condition_def)
  show "wp (patch_ignored R ag (ag\<lparr>Status := ?s\<lparr>Conditions := SetStatusCondition (kclient R) (Conditions ?s)
      (ready_condition (cr_Generation ag) ConditionFalse
        (if 1 < ConsecutiveFencingCount (Status (ag\<lparr>Status := ?s\<rparr>)) then ReasonHardFencingExecuted else ReasonFencingExecuted)
        (''Fenced rogue primary, legitimate primary is '' @ legit))\<rparr>\<rparr>)) w1
    (\<lambda>x t. wp (ret (x, True)) t Q E) (\<lambda>e t. wp (fail e) t Q E)"
    by (rule wp_patch_ignored [OF laws _ live])
       (use w1 base ready in \<open>auto simp: only_api_def same_api_def wp_ret fencing_status_def simp del: ret_apply intro!: post\<close>)
qed

context ag_replicas begin

lemma wp_fence_or_give_up:
  fixes w :: "('k, 'c) world"
  assumes laws: "api_laws R objs secs srvs" and env: "env_laws A objs secs srvs"
    and con: "all_connect R (secs (kube w)) ag conn" and sub: "set rs \<subseteq> set (ag_Replicas (Spec ag))"
    and name: "ag_AGName (Spec ag) = agn" and c: "ok (sql w)"
    and base: "objs (kube w) (request_of ag) = Some ag" and live: "\<not> cr_Deleting ag"
    and hit: "fenced_roles conn ok role agn H"
    and give_up: "\<And>st' w'. rs = [] \<Longrightarrow> sql w' = sql w \<Longrightarrow>
      objs (kube w') = (objs (kube w))(request_of ag \<mapsto> ag\<lparr>Status := st'\<rparr>) \<Longrightarrow> PrimaryReplica st' = PrimaryReplica (Status ag) \<Longrightarrow>
      ready_status (ag\<lparr>Status := st'\<rparr>) = Some (ConditionFalse, ReasonFencingExhausted) \<Longrightarrow> Q (ag\<lparr>Status := st'\<rparr>, False) w'"
    and fenced: "\<And>st' w'. rs \<noteq> [] \<Longrightarrow> ok (sql w') \<Longrightarrow>
      (\<forall>t. t \<notin> rep_ServerName ` set rs \<longrightarrow> role (sql w') t = role (sql w) t) \<Longrightarrow>
      (\<forall>t \<in> rep_ServerName ` set rs. H (role (sql w') t)) \<Longrightarrow>
      objs (kube w') = (objs (kube w))(request_of ag \<mapsto> ag\<lparr>Status := st'\<rparr>) \<Longrightarrow>
      PrimaryReplica st' = legit \<Longrightarrow> LastFencedReplica st' = rep_ServerName (last rs) \<Longrightarrow>
      (\<exists>reason. ready_status (ag\<lparr>Status := st'\<rparr>) = Some (ConditionFalse, reason)) \<Longrightarrow> Q (ag\<lparr>Status := st'\<rparr>, True) w'"
  shows "wp (fence_or_give_up R A ag ps legit rs) w Q E"
proof (cases "rs = []")
  case True
  let ?st = "(Status ag)\<lparr>Conditions := SetStatusCondition (kclient R) (Conditions (Status ag))
      (ready_condition (cr_Generation ag) ConditionFalse ReasonFencingExhausted
        ''Fencing exhausted: split-brain persists, manual intervention required'')\<rparr>"
  have ready: "ready_status (ag\<lparr>Status := ?st\<rparr>) = Some (ConditionFalse, ReasonFencingExhausted)"
    using api_lawsD(7) [OF laws] by (simp add: ready_status_def condition_laws_def ready_condition_def)
  show ?thesis
    unfolding fence_or_give_up_def if_P [OF True] wp_attempt with_condition_def
    by (rule wp_patch_ignored [OF laws base live])
       (use True ready in \<open>auto simp: wp_ret simp del: ret_apply intro!: give_up\<close>)
next
  case False
  show ?thesis
    unfolding fence_or_give_up_def if_not_P [OF False] wp_effect wp_andthen
  proof (rule wp_fence_all [OF laws env _ sub name _ hit])
    fix w1 :: "('k, 'c) world"
    assume w1: "ok (sql w1)" "\<forall>t. t \<notin> rep_ServerName ` set rs \<longrightarrow> role (sql w1) t = role (sql (Warning ReasonSplitBrainDetected
        (''Split-brain detected: '' @ show_int (int (length ps)) @ '' primaries, legitimate='' @ legit) w)) t"
      "\<forall>t \<in> rep_ServerName ` set rs. H (role (sql w1) t)"
      "same_api objs secs srvs (kube (Warning ReasonSplitBrainDetected
        (''Split-brain detected: '' @ show_int (int (length ps)) @ '' primaries, legitimate='' @ legit) w)) (kube w1)"
    show "wp (record_fencing R A ag legit (rep_ServerName (last rs))) w1 Q E"
      by (rule wp_record_fencing [OF laws env _ live])
         (use w1 base False in \<open>auto simp: same_api_def intro!: fenced\<close>)
  qed (use con c in simp_all)
qed

lemma wp_resolve_split_brain:
  fixes w :: "('k, 'c) world"
  assumes laws: "api_laws R objs secs srvs" and env: "env_laws A objs secs srvs"
    and con: "all_connect R (secs (kube w)) ag conn" and name: "ag_AGName (Spec ag) = agn" and c: "ok (sql w)"
    and base: "objs (kube w) (request_of ag) = Some ag" and live: "\<not> cr_Deleting ag"
    and hit: "fenced_roles conn ok role agn H"
    and ps: "ps = filter (\<lambda>r. role (sql w) (rep_ServerName r) = ''PRIMARY'') (ag_Replicas (Spec ag))" "ps \<noteq> []"
    and post: "\<And>legit F st' w'. rightful (role (sql w)) (lsn (sql w)) (PrimaryReplica (Status ag)) (replica_names ag) legit \<Longrightarrow>
      F \<subseteq> claimants (role (sql w)) (replica_names ag) - {legit} \<Longrightarrow>
      (ConsecutiveFencingCount (Status ag) < maxFencingAttempts \<Longrightarrow> F = claimants (role (sql w)) (replica_names ag) - {legit}) \<Longrightarrow>
      (\<forall>s \<in> F. \<not> breaker_open A ag s) \<Longrightarrow> ok (sql w') \<Longrightarrow> (\<forall>t. t \<notin> F \<longrightarrow> role (sql w') t = role (sql w) t) \<Longrightarrow> (\<forall>t \<in> F. H (role (sql w') t)) \<Longrightarrow>
      objs (kube w') = (objs (kube w))(request_of ag \<mapsto> ag\<lparr>Status := st'\<rparr>) \<Longrightarrow>
      PrimaryReplica st' = (if F = {} then PrimaryReplica (Status ag) else legit) \<Longrightarrow>
      (\<exists>reason. ready_status (ag\<lparr>Status := st'\<rparr>) = Some (ConditionFalse, reason)
         \<and> (F = {} \<longrightarrow> reason = ReasonFencingExhausted)) \<Longrightarrow> Q (ag\<lparr>Status := st'\<rparr>, F \<noteq> {}) w'"
  shows "wp (resolve_split_brain R A ag ps) w Q E"
  unfolding resolve_split_brain_def wp_attempt Let_def
proof (rule wp_collect_lsns [OF laws con name c])
  show "set ps \<subseteq> set (ag_Replicas (Spec ag))" by (auto simp: ps)
next
  fix lsns w1
  assume w1: "at_rest ok role lsn w w1" and lsns: "\<forall>p \<in> set ps. lsns (rep_ServerName p) = lsn (sql w) (rep_ServerName p)"
  let ?known = "PrimaryReplica (Status ag)"
  define legit where "legit = rep_ServerName (ps ! legitimate_idx ?known lsns ps)"
  note idx = legitimate_idx_spec [OF ps(2), where known = ?known and lsns = lsns]
  have p: "ps ! legitimate_idx ?known lsns ps \<in> set ps" using idx(1) by simp
  have cl: "claimants (role (sql w)) (replica_names ag) = rep_ServerName ` set ps"
    by (auto simp: claimants_def replica_names_def ps)
  have right: "rightful (role (sql w)) (lsn (sql w)) ?known (replica_names ag) legit"
    unfolding rightful_def cl legit_def using p idx(2,3) lsns by auto
  show "wp (find_rogues A ag (rep_ServerName (ps ! legitimate_idx ?known lsns ps)) ps) w1
      (\<lambda>x t. wp (fence_or_give_up R A ag ps (rep_ServerName (ps ! legitimate_idx ?known lsns ps)) x) t Q E)
      (\<lambda>e t. wp (fail e) t Q E)"
    unfolding legit_def [symmetric]
  proof (rule wp_find_rogues [OF env])
    fix rs w2
    assume w2: "only_api objs secs srvs w1 w2" and rs: "set rs \<subseteq> {p \<in> set ps. rep_ServerName p \<noteq> legit}"
      and closed: "ConsecutiveFencingCount (Status ag) < maxFencingAttempts \<Longrightarrow> rs = filter (\<lambda>p. rep_ServerName p \<noteq> legit) ps"
      and shut: "\<forall>r \<in> set rs. \<not> breaker_open A ag (rep_ServerName r)"
    have same: "sql w2 = sql w1" "role (sql w1) = role (sql w)" "objs (kube w2) = objs (kube w)" "secs (kube w2) = secs (kube w)"
      and ok: "ok (sql w2)"
      using w1 w2 by (auto simp: only_api_def at_rest_def same_api_def)
    have F: "rep_ServerName ` set rs \<subseteq> claimants (role (sql w)) (replica_names ag) - {legit}"
      "ConsecutiveFencingCount (Status ag) < maxFencingAttempts \<Longrightarrow>
         rep_ServerName ` set rs = claimants (role (sql w)) (replica_names ag) - {legit}"
      "\<forall>s \<in> rep_ServerName ` set rs. \<not> breaker_open A ag s"
      using rs closed shut by (auto simp: cl)
    note after = post [OF right F]
    have sub: "set rs \<subseteq> set (ag_Replicas (Spec ag))" using rs by (auto simp: ps)
    show "wp (fence_or_give_up R A ag ps legit rs) w2 Q E"
    proof (rule wp_fence_or_give_up [OF laws env _ sub name ok _ live hit])
      fix st' and w' :: "('k, 'c) world"
      assume "rs = []" "sql w' = sql w2" "objs (kube w') = (objs (kube w2))(request_of ag \<mapsto> ag\<lparr>Status := st'\<rparr>)"
        "PrimaryReplica st' = ?known" "ready_status (ag\<lparr>Status := st'\<rparr>) = Some (ConditionFalse, ReasonFencingExhausted)"
      with after [of w' st'] same ok show "Q (ag\<lparr>Status := st'\<rparr>, False) w'" by simp
    next
      fix st' and w' :: "('k, 'c) world"
      assume "rs \<noteq> []" "ok (sql w')" "\<forall>t. t \<notin> rep_ServerName ` set rs \<longrightarrow> role (sql w') t = role (sql w2) t"
        "\<forall>t \<in> rep_ServerName ` set rs. H (role (sql w') t)"
        "objs (kube w') = (objs (kube w2))(request_of ag \<mapsto> ag\<lparr>Status := st'\<rparr>)" "PrimaryReplica st' = legit"
        "LastFencedReplica st' = rep_ServerName (last rs)"
        "\<exists>reason. ready_status (ag\<lparr>Status := st'\<rparr>) = Some (ConditionFalse, reason)"
      with after [of w' st'] same show "Q (ag\<lparr>Status := st'\<rparr>, True) w'" by simp
    qed (use con base same in simp_all)
  qed
qed

lemma wp_failover_running:
  assumes env: "env_laws A objs secs srvs"
    and post: "\<And>b w'. only_api objs secs srvs w w' \<Longrightarrow>
      (b \<longleftrightarrow> (case fst (ListAGFailovers A (cr_Namespace ag) (kube w)) of Inl _ \<Rightarrow> False
        | Inr items \<Rightarrow> \<exists>f \<in> set items. fo_AGName (Spec f) = ag_AGName (Spec ag) \<and> Phase (Status f) = FailoverPhaseRunning)) \<Longrightarrow> Q b w'"
  shows "wp (failover_running A ag) w Q E"
  using env_lawsD(4) [OF env, of "kube w" "cr_Namespace ag"]
  by (cases "ListAGFailovers A (cr_Namespace ag) (kube w)"; cases "fst (ListAGFailovers A (cr_Namespace ag) (kube w))")
     (simp_all add: failover_running_def wp_attempt wp_on_kube wp_ret post only_api_kube wp_def)

lemma wp_detect:
  fixes w :: "('k, 'c) world"
  assumes laws: "api_laws R objs secs srvs" and env: "env_laws A objs secs srvs"
    and con: "all_connect R (secs (kube w)) ag conn" and name: "ag_AGName (Spec ag) = agn" and c: "ok (sql w)"
    and base: "objs (kube w) (request_of ag) = Some ag" and live: "\<not> cr_Deleting ag"
    and hit: "fenced_roles conn ok role agn H"
    and names: "distinct (List.map rep_ServerName (ag_Replicas (Spec ag)))"
    and quiet: "\<And>w'. suspended A ag (kube w) \<or> claimants (role (sql w)) (replica_names ag) \<subseteq> {PrimaryReplica (Status ag)} \<Longrightarrow>
      ok (sql w') \<Longrightarrow> role (sql w') = role (sql w) \<Longrightarrow> same_api objs secs srvs (kube w) (kube w') \<Longrightarrow> Q (ag, False) w'"
    and adopt: "\<And>s w'. claimants (role (sql w)) (replica_names ag) = {s} \<Longrightarrow> s \<noteq> PrimaryReplica (Status ag) \<Longrightarrow>
      ok (sql w') \<Longrightarrow> role (sql w') = role (sql w) \<Longrightarrow> same_api objs secs srvs (kube w) (kube w') \<Longrightarrow>
      Q (ag\<lparr>Status := (Status ag)\<lparr>PrimaryReplica := s\<rparr>\<rparr>, False) w'"
    and resolved: "\<And>legit F st' w'. \<not> (\<exists>s. claimants (role (sql w)) (replica_names ag) \<subseteq> {s}) \<Longrightarrow>
      rightful (role (sql w)) (lsn (sql w)) (PrimaryReplica (Status ag)) (replica_names ag) legit \<Longrightarrow>
      F \<subseteq> claimants (role (sql w)) (replica_names ag) - {legit} \<Longrightarrow>
      (ConsecutiveFencingCount (Status ag) < maxFencingAttempts \<Longrightarrow> F = claimants (role (sql w)) (replica_names ag) - {legit}) \<Longrightarrow>
      (\<forall>s \<in> F. \<not> breaker_open A ag s) \<Longrightarrow> ok (sql w') \<Longrightarrow> (\<forall>t. t \<notin> F \<longrightarrow> role (sql w') t = role (sql w) t) \<Longrightarrow> (\<forall>t \<in> F. H (role (sql w') t)) \<Longrightarrow>
      objs (kube w') = (objs (kube w))(request_of ag \<mapsto> ag\<lparr>Status := st'\<rparr>) \<Longrightarrow>
      PrimaryReplica st' = (if F = {} then PrimaryReplica (Status ag) else legit) \<Longrightarrow>
      (\<exists>reason. ready_status (ag\<lparr>Status := st'\<rparr>) = Some (ConditionFalse, reason)
         \<and> (F = {} \<longrightarrow> reason = ReasonFencingExhausted)) \<Longrightarrow> Q (ag\<lparr>Status := st'\<rparr>, F \<noteq> {}) w'"
  shows "wp (detectAndResolveSplitBrain R A ag) w Q E"
proof -
  let ?ct = "case ag_ClusterType (Spec ag) of None \<Rightarrow> False | Some ct \<Rightarrow> ct \<noteq> ''None''"
  have stop: "wp (ret (ag, False)) w' Q E"
    if "suspended A ag (kube w)" "ok (sql w')" "role (sql w') = role (sql w)" "same_api objs secs srvs (kube w) (kube w')" for w'
    using quiet [OF disjI1] that by (simp add: wp_ret del: ret_apply)
  consider "PrimaryReplica (Status ag) = []" | "PrimaryReplica (Status ag) \<noteq> []" "?ct" | "PrimaryReplica (Status ag) \<noteq> []" "\<not> ?ct" by blast
  then show ?thesis
  proof cases
    case 1
    then have "suspended A ag (kube w)" by (simp add: suspended_def)
    from stop [OF this] 1 c show ?thesis by (simp add: detectAndResolveSplitBrain_def del: ret_apply)
  next
    case 2
    then have "suspended A ag (kube w)" by (simp add: suspended_def)
    from stop [OF this] 2 c show ?thesis by (simp add: detectAndResolveSplitBrain_def del: ret_apply)
  next
    case 3
    show ?thesis
      unfolding detectAndResolveSplitBrain_def if_not_P [OF 3(1)] if_not_P [OF 3(2)] wp_attempt
    proof (rule wp_failover_running [OF env])
      fix b and w1 :: "('k, 'c) world"
      assume w1: "only_api objs secs srvs w w1"
        and b: "b \<longleftrightarrow> (case fst (ListAGFailovers A (cr_Namespace ag) (kube w)) of Inl _ \<Rightarrow> False
          | Inr items \<Rightarrow> \<exists>f \<in> set items. fo_AGName (Spec f) = ag_AGName (Spec ag) \<and> Phase (Status f) = FailoverPhaseRunning)"
      show "wp (if b then ret (ag, False) else attempt (collectReplicaRoles R ag) fail (\<lambda>roles.
          let primaries = filter (\<lambda>r. roles (rep_ServerName r) = ''PRIMARY'') (ag_Replicas (Spec ag)) in
          case primaries of [] \<Rightarrow> ret (ag, False)
          | [p] \<Rightarrow> if rep_ServerName p = PrimaryReplica (Status ag) then ret (ag, False) else adopt_primary A ag (rep_ServerName p)
          | p # q # qs \<Rightarrow> resolve_split_brain R A ag primaries)) w1 Q E"
      proof (cases b)
        case True
        then have "suspended A ag (kube w)" using b by (simp add: suspended_def)
        from stop [OF this] True c w1 show ?thesis by (simp add: only_api_def del: ret_apply)
      next
        case False
        have con1: "all_connect R (secs (kube w1)) ag conn" and c1: "ok (sql w1)"
          using con c w1 by (simp_all add: only_api_def same_api_def)
        show ?thesis
          unfolding if_not_P [OF False] wp_attempt
        proof (rule wp_collect_roles [OF laws con1 name c1])
          fix roles w2
          assume w2: "at_rest ok role lsn w1 w2" and roles: "\<forall>n \<in> replica_names ag. roles n = role (sql w1) n"
          have same: "role (sql w2) = role (sql w)" "lsn (sql w2) = lsn (sql w)" "same_api objs secs srvs (kube w) (kube w2)" "ok (sql w2)"
            using w1 w2 by (auto simp: only_api_def at_rest_def)
          let ?ps = "filter (\<lambda>r. role (sql w2) (rep_ServerName r) = ''PRIMARY'') (ag_Replicas (Spec ag))"
          have ps: "filter (\<lambda>r. roles (rep_ServerName r) = ''PRIMARY'') (ag_Replicas (Spec ag)) = ?ps"
            using roles w1 same by (intro filter_cong) (auto simp: replica_names_def only_api_def)
          have cl: "claimants (role (sql w)) (replica_names ag) = rep_ServerName ` set ?ps"
            by (auto simp: claimants_def replica_names_def same)
          have dist: "distinct (List.map rep_ServerName ?ps)" using names by (simp add: distinct_map_filter)
          have calm: "wp (ret (ag, False)) w2 Q E" if "rep_ServerName ` set ?ps \<subseteq> {PrimaryReplica (Status ag)}"
            using quiet [OF disjI2, of w2] that same cl by (simp add: wp_ret del: ret_apply)
          show "wp (let primaries = filter (\<lambda>r. roles (rep_ServerName r) = ''PRIMARY'') (ag_Replicas (Spec ag)) in
              case primaries of [] \<Rightarrow> ret (ag, False)
              | [p] \<Rightarrow> if rep_ServerName p = PrimaryReplica (Status ag) then ret (ag, False) else adopt_primary A ag (rep_ServerName p)
              | p # q # qs \<Rightarrow> resolve_split_brain R A ag primaries) w2 Q E"
            unfolding Let_def ps
          proof (cases ?ps rule: remdups_adj.cases)
            case 1
            with calm show "wp (case ?ps of [] \<Rightarrow> ret (ag, False)
              | [p] \<Rightarrow> if rep_ServerName p = PrimaryReplica (Status ag) then ret (ag, False) else adopt_primary A ag (rep_ServerName p)
              | p # q # qs \<Rightarrow> resolve_split_brain R A ag ?ps) w2 Q E" by (simp del: ret_apply)
          next
            case (2 p)
            show "wp (case ?ps of [] \<Rightarrow> ret (ag, False)
              | [p] \<Rightarrow> if rep_ServerName p = PrimaryReplica (Status ag) then ret (ag, False) else adopt_primary A ag (rep_ServerName p)
              | p # q # qs \<Rightarrow> resolve_split_brain R A ag ?ps) w2 Q E"
            proof (cases "rep_ServerName p = PrimaryReplica (Status ag)")
              case True
              with calm 2 show ?thesis by (simp del: ret_apply)
            next
              case other: False
              have one: "claimants (role (sql w)) (replica_names ag) = {rep_ServerName p}" unfolding cl 2 by simp
              have "wp (adopt_primary A ag (rep_ServerName p)) w2 Q E"
                unfolding adopt_primary_def Let_def wp_andthen wp_effect wp_ret
                by (rule wp_updateLabels [OF env], rule adopt [OF one other])
                   (use same in \<open>auto simp: only_api_def intro: same_api_trans\<close>)
              with 2 other show ?thesis by simp
            qed
          next
            case (3 p q qs)
            have "rep_ServerName p \<noteq> rep_ServerName q" using dist unfolding 3 by simp
            then have two: "\<not> (\<exists>s. claimants (role (sql w)) (replica_names ag) \<subseteq> {s})" unfolding cl 3 by auto
            have "wp (resolve_split_brain R A ag ?ps) w2 Q E"
              by (rule wp_resolve_split_brain [OF laws env _ name same(4) _ live hit refl])
                 (use con base same 3 two in \<open>auto simp: same_api_def intro: resolved\<close>)
            then show "wp (case ?ps of [] \<Rightarrow> ret (ag, False)
              | [p] \<Rightarrow> if rep_ServerName p = PrimaryReplica (Status ag) then ret (ag, False) else adopt_primary A ag (rep_ServerName p)
              | p # q # qs \<Rightarrow> resolve_split_brain R A ag ?ps) w2 Q E" unfolding 3 by simp
          qed
        qed
      qed
    qed
  qed
qed

end

section \<open>A fleet of in-memory servers\<close>

definition fleet_role :: "string \<Rightarrow> (string \<Rightarrow> MockClient) \<Rightarrow> string \<Rightarrow> string" where
  "fleet_role agn f s = answer [] (fst (Mock_GetAGReplicaRole agn s (f s)))"

definition fleet_lsn :: "string \<Rightarrow> (string \<Rightarrow> MockClient) \<Rightarrow> string \<Rightarrow> int" where
  "fleet_lsn agn f s = answer 0 (fst (Mock_GetLastHardenedLSN agn (f s)))"

lemma mock_ags_simps:
  "GetAGReplicaRole (ags mock_client) = Mock_GetAGReplicaRole" "GetLastHardenedLSN (ags mock_client) = Mock_GetLastHardenedLSN"
  "SetAGRoleSecondary (ags mock_client) = Mock_SetAGRoleSecondary" "DropAG (ags mock_client) = Mock_DropAG"
  "CloseClient mock_client = Mock_Close"
  by (simp_all add: mock_client_def)

lemma preamble_track:
  "checkConnect (track m s) = checkConnect s" "checkMethodError (track m s) n = checkMethodError s n"
  "mags (track m s) = mags s" "MockLSN (track m s) = MockLSN s"
  by (simp_all add: track_def checkConnect_def checkMethodError_def)

lemma fleet_role_track [simp]:
  "fleet_role agn (f(s := track m (f s))) = fleet_role agn f" "fleet_lsn agn (f(s := track m (f s))) = fleet_lsn agn f"
  by (auto simp: fleet_role_def fleet_lsn_def fun_eq_iff Mock_GetAGReplicaRole_def Mock_GetLastHardenedLSN_def guarded_def
      connected_def Let_def preamble_track split: option.split)

lemma fleet_role_other:
  "t \<noteq> s \<Longrightarrow> fleet_role agn (f(s := c)) t = fleet_role agn f t"
  by (simp add: fleet_role_def)

lemma mock_queries_track:
  "snd (Mock_GetAGReplicaRole agn r s) = track ''GetAGReplicaRole'' s"
  "snd (Mock_GetLastHardenedLSN agn s) = track ''GetLastHardenedLSN'' s"
  by (auto simp: Mock_GetAGReplicaRole_def Mock_GetLastHardenedLSN_def guarded_def connected_def Let_def split: option.split)

lemma on_serverD:
  assumes "on_server s m f = (r, f')"
  shows "r = fst (m (f s)) \<and> f' = f(s := snd (m (f s)))"
  using assms by (auto simp: on_server_def split: prod.splits)

lemma fleet_queries:
  "answer [] (fst (Mock_GetAGReplicaRole agn s (f s))) = fleet_role agn f s"
  "answer 0 (fst (Mock_GetLastHardenedLSN agn (f s))) = fleet_lsn agn f s"
  by (simp_all add: fleet_role_def fleet_lsn_def)

interpretation mock_replicas: ag_replicas "fleet_client mock_client" "\<lambda>_. True" "fleet_role agn" "fleet_lsn agn" agn for agn
  by unfold_locales
     (auto simp: fleet_ags_simps mock_ags_simps fleet_role_other mock_queries_track Mock_Close_def fleet_queries
      dest!: on_serverD)

lemma find_no_primary: "find (\<lambda>r. rs_ServerName r = s) (ma_Replicas (demote_all ag)) = Some r \<Longrightarrow> rs_Role r \<noteq> ''PRIMARY''"
  by (auto simp: demote_all_def find_Some_iff split: if_splits)

lemma demoted_role:
  assumes "healthy (f s)"
  shows "fleet_role agn (f(s := snd (Mock_SetAGRoleSecondary agn (f s)))) s \<noteq> ''PRIMARY''"
    and "healthy (snd (Mock_SetAGRoleSecondary agn (f s)))" and "fst (Mock_SetAGRoleSecondary agn (f s)) = Inr ()"
proof -
  show h: "healthy (snd (Mock_SetAGRoleSecondary agn (f s)))" and "fst (Mock_SetAGRoleSecondary agn (f s)) = Inr ()"
    using assms by (simp_all add: Mock_SetAGRoleSecondary_def update_ag_def split: option.split)
  show "fleet_role agn (f(s := snd (Mock_SetAGRoleSecondary agn (f s)))) s \<noteq> ''PRIMARY''"
    using assms
    by (cases "mags (f s) agn")
       (auto simp: fleet_role_def Mock_GetAGReplicaRole_def Mock_SetAGRoleSecondary_def update_ag_def answer_def
          preamble_track dest: find_no_primary split: option.splits)
qed

lemma dropped_role:
  assumes "healthy (f s)"
  shows "fleet_role agn (f(s := snd (Mock_DropAG agn (f s)))) s \<noteq> ''PRIMARY''"
    and "healthy (snd (Mock_DropAG agn (f s)))" and "fst (Mock_DropAG agn (f s)) = Inr ()"
  using assms by (simp_all add: fleet_role_def Mock_DropAG_def Mock_GetAGReplicaRole_def answer_def)

interpretation mock_fleet: ag_fleet "fleet_client mock_client" "\<lambda>f. \<forall>s. healthy (f s)" "fleet_role agn" "fleet_lsn agn" agn for agn
  by unfold_locales
     (auto simp: fleet_ags_simps mock_ags_simps fleet_role_other mock_queries_track Mock_Close_def fleet_queries
        demoted_role dropped_role dest!: on_serverD)

lemma mock_fenced_roles:
  "fenced_roles (fleet_client mock_client) (\<lambda>f. \<forall>s. healthy (f s)) (fleet_role agn) agn (\<lambda>r. r \<noteq> ''PRIMARY'')"
  using demoted_role(1) dropped_role(1)
  by (auto simp: fenced_roles_def fleet_ags_simps mock_ags_simps on_server_snd)

lemma any_fenced_roles: "fenced_roles conn ok role agn (\<lambda>_. True)"
  by (simp add: fenced_roles_def)

lemma claimants_fenced:
  assumes "legit \<in> claimants \<rho> names" and "\<forall>t. t \<notin> F \<longrightarrow> \<rho>' t = \<rho> t"
  shows "legit \<notin> F \<Longrightarrow> legit \<in> claimants \<rho>' names"
    and "F = claimants \<rho> names - {legit} \<Longrightarrow> \<forall>t \<in> F. \<rho>' t \<noteq> ''PRIMARY'' \<Longrightarrow> claimants \<rho>' names = {legit}"
proof -
  show l: "legit \<in> claimants \<rho>' names" if "legit \<notin> F" using assms that by (simp add: claimants_def)
  show "claimants \<rho>' names = {legit}" if F: "F = claimants \<rho> names - {legit}" "\<forall>t \<in> F. \<rho>' t \<noteq> ''PRIMARY''"
  proof -
    have "x = legit" if x: "x \<in> claimants \<rho>' names" for x
    proof (rule ccontr)
      assume "x \<noteq> legit"
      have "x \<notin> F" using x F(2) by (auto simp: claimants_def)
      then have "x \<in> claimants \<rho> names" using x assms(2) by (simp add: claimants_def)
      with \<open>x \<noteq> legit\<close> \<open>x \<notin> F\<close> F(1) show False by blast
    qed
    with l F(1) show ?thesis by blast
  qed
qed

section \<open>Fencing on the fleet\<close>

text \<open>
  C1. Split-brain resolution. When more than one replica of a group says it is primary, one
  pass of \<open>detectAndResolveSplitBrain\<close> leaves exactly one: the one with the highest hardened
  LSN, and the known primary if it is among several with that LSN. The status names it, and the
  object is reported not ready. (The group is not being failed over, is not managed by an
  external cluster, and the circuit breaker has not counted five fencings in a row.)
\<close>

theorem Fencing_resolves_split_brain:
  fixes w :: "('k, string \<Rightarrow> MockClient) world"
  assumes "api_laws R objs secs srvs" and "env_laws A objs secs srvs"
    and "objs (kube w) (request_of ag) = Some ag" and "\<not> cr_Deleting ag"
    and "all_connect R (secs (kube w)) ag (fleet_client mock_client)" and "\<forall>s. healthy (sql w s)"
    and "distinct (List.map rep_ServerName (ag_Replicas (Spec ag)))"
    and "\<not> suspended A ag (kube w)" and "ConsecutiveFencingCount (Status ag) < maxFencingAttempts"
    and "s \<in> claimants (fleet_role (ag_AGName (Spec ag)) (sql w)) (replica_names ag)"
    and "t \<in> claimants (fleet_role (ag_AGName (Spec ag)) (sql w)) (replica_names ag)" and "s \<noteq> t"
  shows "succeeds (detectAndResolveSplitBrain R A ag) w (\<lambda>(ag', fenced) w'. fenced \<and>
    rightful (fleet_role (ag_AGName (Spec ag)) (sql w)) (fleet_lsn (ag_AGName (Spec ag)) (sql w))
      (PrimaryReplica (Status ag)) (replica_names ag) (PrimaryReplica (Status ag')) \<and>
    claimants (fleet_role (ag_AGName (Spec ag)) (sql w')) (replica_names ag) = {PrimaryReplica (Status ag')} \<and>
    (\<forall>u. u \<notin> claimants (fleet_role (ag_AGName (Spec ag)) (sql w)) (replica_names ag) \<longrightarrow>
       fleet_role (ag_AGName (Spec ag)) (sql w') u = fleet_role (ag_AGName (Spec ag)) (sql w) u) \<and>
    objs (kube w') = (objs (kube w))(request_of ag \<mapsto> ag') \<and>
    (\<exists>reason. ready_status ag' = Some (ConditionFalse, reason)))"
  apply (rule mock_fleet.wp_detect [OF assms(1,2,5) refl assms(6,3,4) mock_fenced_roles assms(7)])
  subgoal premises p
  proof -
    have "s = t" using p(1) assms(8,10,11) by (elim disjE) (simp, metis singletonD subsetD)
    with assms(12) show ?thesis by simp
  qed
  subgoal premises p using p(1) assms(10-12) by simp
  subgoal premises p for legit F st' w'
  proof -
    have legit: "legit \<in> claimants (fleet_role (ag_AGName (Spec ag)) (sql w)) (replica_names ag)"
      using p(2) by (simp add: rightful_def)
    have F: "F = claimants (fleet_role (ag_AGName (Spec ag)) (sql w)) (replica_names ag) - {legit}" "F \<noteq> {}"
      using p(4) assms(9-12) by auto
    have "claimants (fleet_role (ag_AGName (Spec ag)) (sql w')) (replica_names ag) = {legit}"
      by (rule claimants_fenced(2) [OF legit p(7) F(1) p(8)])
    moreover have "\<forall>u. u \<notin> claimants (fleet_role (ag_AGName (Spec ag)) (sql w)) (replica_names ag) \<longrightarrow>
        fleet_role (ag_AGName (Spec ag)) (sql w') u = fleet_role (ag_AGName (Spec ag)) (sql w) u"
      using p(7) F(1) by blast
    ultimately show ?thesis using p(2,9-11) F(2) by auto
  qed
  done

text \<open>
  C2. Fencing never leaves a group without a primary: whatever fails on the servers, if a replica
  was primary before the pass, one is after it.
\<close>

theorem Fencing_keeps_a_primary:
  fixes w :: "('k, string \<Rightarrow> MockClient) world"
  assumes "api_laws R objs secs srvs" and "env_laws A objs secs srvs"
    and "objs (kube w) (request_of ag) = Some ag" and "\<not> cr_Deleting ag"
    and "all_connect R (secs (kube w)) ag (fleet_client mock_client)"
    and "distinct (List.map rep_ServerName (ag_Replicas (Spec ag)))"
    and "claimants (fleet_role (ag_AGName (Spec ag)) (sql w)) (replica_names ag) \<noteq> {}"
  shows "always (detectAndResolveSplitBrain R A ag) w (\<lambda>w'.
    claimants (fleet_role (ag_AGName (Spec ag)) (sql w')) (replica_names ag) \<noteq> {})"
  apply (rule mock_replicas.wp_detect [OF assms(1,2,5) refl TrueI assms(3,4) any_fenced_roles assms(6)])
    apply (simp_all add: assms(7))
  subgoal premises p for legit F st' w'
  proof -
    have "legit \<in> claimants (fleet_role (ag_AGName (Spec ag)) (sql w)) (replica_names ag)" "legit \<notin> F"
      using p(2,3) by (auto simp: rightful_def)
    from claimants_fenced(1) [OF this(1) p(6) this(2)] show ?thesis by blast
  qed
  done

text \<open>
  No false alarm: when the known primary is the only replica that says it is primary, no
  server changes its role, and the object stays as it is.
\<close>

theorem Fencing_leaves_sound_groups:
  fixes w :: "('k, string \<Rightarrow> MockClient) world"
  assumes "api_laws R objs secs srvs" and "env_laws A objs secs srvs"
    and "objs (kube w) (request_of ag) = Some ag" and "\<not> cr_Deleting ag"
    and "all_connect R (secs (kube w)) ag (fleet_client mock_client)"
    and "distinct (List.map rep_ServerName (ag_Replicas (Spec ag)))"
    and "claimants (fleet_role (ag_AGName (Spec ag)) (sql w)) (replica_names ag) \<subseteq> {PrimaryReplica (Status ag)}"
  shows "succeeds (detectAndResolveSplitBrain R A ag) w (\<lambda>(ag', fenced) w'. ag' = ag \<and> \<not> fenced \<and>
    fleet_role (ag_AGName (Spec ag)) (sql w') = fleet_role (ag_AGName (Spec ag)) (sql w) \<and>
    same_api objs secs srvs (kube w) (kube w'))"
  apply (rule mock_replicas.wp_detect [OF assms(1,2,5) refl TrueI assms(3,4) any_fenced_roles assms(6)])
  subgoal by simp
  subgoal premises p using p(1,2) assms(7) by blast
  subgoal premises p using p(1) assms(7) by blast
  done

text \<open>
  The circuit breaker: a replica that was fenced last, five times in a row and less than the
  cooldown ago, is not fenced again. When it is the only rogue, the servers are left alone and
  the object says that fencing is exhausted.
\<close>

theorem Fencing_circuit_breaker:
  fixes w :: "('k, string \<Rightarrow> MockClient) world"
  assumes "api_laws R objs secs srvs" and "env_laws A objs secs srvs"
    and "objs (kube w) (request_of ag) = Some ag" and "\<not> cr_Deleting ag"
    and "all_connect R (secs (kube w)) ag (fleet_client mock_client)"
    and "distinct (List.map rep_ServerName (ag_Replicas (Spec ag)))"
    and "\<not> suspended A ag (kube w)" and "breaker_open A ag t" and "s \<noteq> t"
    and "claimants (fleet_role (ag_AGName (Spec ag)) (sql w)) (replica_names ag) = {s, t}"
    and "fleet_lsn (ag_AGName (Spec ag)) (sql w) t < fleet_lsn (ag_AGName (Spec ag)) (sql w) s"
  shows "succeeds (detectAndResolveSplitBrain R A ag) w (\<lambda>(ag', fenced) w'. \<not> fenced \<and>
    fleet_role (ag_AGName (Spec ag)) (sql w') = fleet_role (ag_AGName (Spec ag)) (sql w) \<and>
    objs (kube w') = (objs (kube w))(request_of ag \<mapsto> ag') \<and>
    ready_status ag' = Some (ConditionFalse, ReasonFencingExhausted))"
  apply (rule mock_replicas.wp_detect [OF assms(1,2,5) refl TrueI assms(3,4) any_fenced_roles assms(6)])
  subgoal premises p using p(1) assms(7,9) unfolding assms(10) by blast
  subgoal premises p using p(1) assms(9) unfolding assms(10) by blast
  subgoal premises p for legit F st' w'
  proof -
    have "legit = s"
      using p(2) assms(9,11) unfolding rightful_def assms(10) by (metis insert_iff linorder_not_le singletonD)
    then have "F = {}" using p(3,5) assms(8) unfolding assms(10) by blast
    with p(7,9,11) show ?thesis by auto
  qed
  done

section \<open>Examples\<close>

text \<open>
  Two replicas that both say they are primary, the second with the higher LSN; the group knows
  the first. In the second version the second one has the lower LSN and is the last fenced.
\<close>

definition ex_replica :: "string \<Rightarrow> AGReplicaSpec" where
  "ex_replica n = \<lparr>rep_ServerName = n, rep_EndpointURL = [], rep_AvailabilityMode = [], rep_FailoverMode = [],
     rep_SeedingMode = [], rep_SecondaryRole = [], rep_Server = ex_server\<lparr>Host := n\<rparr>\<rparr>"

definition ex_agspec :: AvailabilityGroupSpec where
  "ex_agspec = \<lparr>ag_AGName = ''ag'', ag_Replicas = [ex_replica ''s1'', ex_replica ''s2''], ag_Databases = [],
     ag_Listener = None, ag_AutomatedBackupPreference = None, ag_DBFailover = None, ag_ClusterType = None,
     ag_AutoFailover = Some True, ag_HealthCheckInterval = None, ag_FailoverCooldown = None\<rparr>"

definition ex_agstatus :: "int \<Rightarrow> AvailabilityGroupStatus" where
  "ex_agstatus n = \<lparr>Conditions = [], ObservedGeneration = 0, PrimaryReplica = ''s1'', st_Replicas = [], st_Databases = [],
     LastAutoFailoverTime = None, AutoFailoverCount = 0, LastFencingTime = Some 0, FencingCount = n,
     ConsecutiveFencingCount = n, LastFencedReplica = ''s2''\<rparr>"

definition ex_group :: "int \<Rightarrow> AvailabilityGroup" where
  "ex_group n = ex_cr ex_agspec (ex_agstatus n)"

definition ex_fleet :: "int \<Rightarrow> string \<Rightarrow> MockClient" where
  "ex_fleet l s = NewMockClient\<lparr>MockLSN := (if s = ''s2'' then l else 10), mags := [''ag'' \<mapsto>
     \<lparr>ma_Name = ''ag'', ma_PrimaryReplica = s, ma_Replicas = [\<lparr>rs_ServerName = s, rs_Role = ''PRIMARY'',
        rs_SynchronizationState = ''SYNCHRONIZED'', rs_Connected = True\<rparr>], ma_Databases = [], ma_HasListener = False\<rparr>]\<rparr>"

definition ex_fleet_reconciler :: "(AvailabilityGroup, AvailabilityGroup store, string \<Rightarrow> MockClient) Reconciler" where
  "ex_fleet_reconciler = memory_reconciler (\<lambda>host _ _ _ _. Inr (fleet_client mock_client host))"

definition ex_env :: "AvailabilityGroup store AGEnv" where
  "ex_env = \<lparr>GetPod = (\<lambda>_ _ k. (Inl (GoErr True ''pod''), k)), PatchPod = (\<lambda>_ p k. (Inr p, k)),
     GetLease = (\<lambda>_ _ k. (Inl (GoErr True ''lease''), k)), CreateLease = (\<lambda>_ k. (Inr (), k)), PatchLease = (\<lambda>_ _ k. (Inr (), k)),
     ListAGFailovers = (\<lambda>_ k. (Inr [], k)), Now = (\<lambda>k. (1000, k)), ParseDuration = (\<lambda>_. None), holder_id = ''me''\<rparr>"

lemma ex_env_laws: "env_laws ex_env st_objs st_secs st_srvs"
  by (simp add: env_laws_def ex_env_def)

lemma ex_fleet_laws: "api_laws ex_fleet_reconciler st_objs st_secs st_srvs"
  unfolding ex_fleet_reconciler_def by (rule memory_api_laws)

lemma ex_group_simps [simp]:
  "request_of (ex_group n) = (''ns'', ''obj'')" "\<not> cr_Deleting (ex_group n)" "cr_Namespace (ex_group n) = ''ns''"
  "ag_AGName (Spec (ex_group n)) = ''ag''" "PrimaryReplica (Status (ex_group n)) = ''s1''"
  "ConsecutiveFencingCount (Status (ex_group n)) = n" "replica_names (ex_group n) = {''s1'', ''s2''}"
  "distinct (List.map rep_ServerName (ag_Replicas (Spec (ex_group n))))" "\<not> suspended ex_env (ex_group n) k"
  "healthy (ex_fleet l s)"
  by (simp_all add: ex_group_def ex_agspec_def ex_agstatus_def replica_names_def ex_replica_def suspended_def ex_env_def
      ex_fleet_def NewMockClient_def healthy_def)

lemma ex_fleet_roles [simp]:
  "fleet_role ''ag'' (ex_fleet l) s = ''PRIMARY''" "fleet_lsn ''ag'' (ex_fleet l) s = (if s = ''s2'' then l else 10)"
proof -
  have h: "healthy (ex_fleet l s)" by simp
  show "fleet_role ''ag'' (ex_fleet l) s = ''PRIMARY''"
    using h by (simp add: fleet_role_def Mock_GetAGReplicaRole_def preamble_track answer_def) (simp add: ex_fleet_def)
  show "fleet_lsn ''ag'' (ex_fleet l) s = (if s = ''s2'' then l else 10)"
    using h by (simp add: fleet_lsn_def Mock_GetLastHardenedLSN_def preamble_track answer_def) (simp add: ex_fleet_def)
qed

lemma ex_claimants [simp]: "claimants (fleet_role ''ag'' (ex_fleet l)) {''s1'', ''s2''} = {''s1'', ''s2''}"
  by (auto simp: claimants_def)

lemma ex_all_connect:
  "all_connect ex_fleet_reconciler (st_secs (kube (ex_world (ex_group n) f))) (ex_group n) (fleet_client mock_client)"
  by (simp add: all_connect_def connects_def secret_credentials_def ex_group_def ex_agspec_def ex_replica_def ex_server_def
      ex_world_def ex_secret_def ex_fleet_reconciler_def connectToSQL_def)

lemma ex_rightful: "rightful (fleet_role ''ag'' (ex_fleet 20)) (fleet_lsn ''ag'' (ex_fleet 20)) k {''s1'', ''s2''} x \<Longrightarrow> x = ''s2''"
  unfolding rightful_def ex_claimants by (elim conjE) (simp split: if_splits)

theorem Fencing_resolves_split_brain_witness:
  "succeeds (detectAndResolveSplitBrain ex_fleet_reconciler ex_env (ex_group 1)) (ex_world (ex_group 1) (ex_fleet 20))
     (\<lambda>(ag', fenced) w'. fenced \<and> claimants (fleet_role ''ag'' (sql w')) {''s1'', ''s2''} = {''s2''})"
  by (rule wp_mono [OF Fencing_resolves_split_brain [OF ex_fleet_laws ex_env_laws, where ag = "ex_group 1" and s = "''s1''" and t = "''s2''"]])
     (simp_all add: ex_all_connect maxFencingAttempts_def del: ex_fleet_roles split: prod.splits, metis ex_rightful)

theorem Fencing_keeps_a_primary_witness:
  "always (detectAndResolveSplitBrain ex_fleet_reconciler ex_env (ex_group 1)) (ex_world (ex_group 1) (ex_fleet 20))
     (\<lambda>w'. claimants (fleet_role ''ag'' (sql w')) {''s1'', ''s2''} \<noteq> {})"
  by (rule wp_mono [OF Fencing_keeps_a_primary [OF ex_fleet_laws ex_env_laws, where ag = "ex_group 1"]])
     (auto simp: ex_all_connect)

definition ex_sound_fleet :: "string \<Rightarrow> MockClient" where
  "ex_sound_fleet = (\<lambda>s. if s = ''s1'' then ex_fleet 0 s else NewMockClient)"

lemma ex_sound_claimants: "claimants (fleet_role ''ag'' ex_sound_fleet) {''s1'', ''s2''} \<subseteq> {''s1''}"
proof -
  have "healthy NewMockClient" by simp
  then have "fleet_role ''ag'' ex_sound_fleet ''s2'' = []"
    by (simp add: ex_sound_fleet_def fleet_role_def Mock_GetAGReplicaRole_def preamble_track answer_def)
       (simp add: NewMockClient_def)
  then show ?thesis by (auto simp: claimants_def)
qed

theorem Fencing_leaves_sound_groups_witness:
  "succeeds (detectAndResolveSplitBrain ex_fleet_reconciler ex_env (ex_group 1)) (ex_world (ex_group 1) ex_sound_fleet)
     (\<lambda>(ag', fenced) w'. \<not> fenced \<and> fleet_role ''ag'' (sql w') = fleet_role ''ag'' ex_sound_fleet)"
  by (rule wp_mono [OF Fencing_leaves_sound_groups [OF ex_fleet_laws ex_env_laws, where ag = "ex_group 1"]])
     (auto simp: ex_all_connect ex_sound_claimants)

theorem Fencing_circuit_breaker_witness:
  "succeeds (detectAndResolveSplitBrain ex_fleet_reconciler ex_env (ex_group 5)) (ex_world (ex_group 5) (ex_fleet 5))
     (\<lambda>(ag', fenced) w'. \<not> fenced \<and> ready_status ag' = Some (ConditionFalse, ReasonFencingExhausted))"
proof -
  have "breaker_open ex_env (ex_group 5) ''s2''"
    by (simp add: breaker_open_def ex_group_def ex_agstatus_def maxFencingAttempts_def within_cooldown_def ex_env_def
        saturate64_def ag_cooldown_def ex_agspec_def second_def)
  then show ?thesis
    by (intro wp_mono [OF Fencing_circuit_breaker [OF ex_fleet_laws ex_env_laws, where ag = "ex_group 5" and s = "''s1''" and t = "''s2''"]])
       (auto simp: ex_all_connect)
qed

end
