(* ===== verification/AG_Controller.thy ===== *)
theory AG_Controller
  imports AG_Fencing
begin

text \<open>
  \<open>internal/controller/availabilitygroup_controller.go\<close>: the reconciliation of an
  \<open>AvailabilityGroup\<close>: creating it and joining the replicas, its databases and listener, the
  status read back, automatic failover under a lease, deletion.
\<close>

section \<open>From the specification to T-SQL keywords\<close>

definition mapAvailabilityMode :: "string \<Rightarrow> string" where
  "mapAvailabilityMode mode = (if mode = ''AsynchronousCommit'' then ''ASYNCHRONOUS_COMMIT'' else ''SYNCHRONOUS_COMMIT'')"

definition mapFailoverMode :: "string \<Rightarrow> string" where
  "mapFailoverMode mode = (if mode = ''Manual'' then ''MANUAL'' else ''AUTOMATIC'')"

definition mapSeedingMode :: "string \<Rightarrow> string" where
  "mapSeedingMode mode = (if mode = ''Manual'' then ''MANUAL'' else ''AUTOMATIC'')"

definition mapSecondaryRole :: "string \<Rightarrow> string" where
  "mapSecondaryRole role =
     (if role = ''AllowAllConnections'' then ''ALL'' else if role = ''AllowReadIntentOnly'' then ''READ_ONLY'' else ''NO'')"

definition mapBackupPreference :: "string \<Rightarrow> string" where
  "mapBackupPreference pref =
     (if pref = ''Primary'' then ''PRIMARY'' else if pref = ''SecondaryOnly'' then ''SECONDARY_ONLY''
      else if pref = ''None'' then ''NONE'' else ''SECONDARY'')"

section \<open>Creating the group and joining the replicas\<close>

definition replica_config :: "AGReplicaSpec \<Rightarrow> AGReplicaConfig" where
  "replica_config r = \<lparr>rc_ServerName = rep_ServerName r, rc_EndpointURL = rep_EndpointURL r,
     rc_AvailabilityMode = mapAvailabilityMode (rep_AvailabilityMode r), rc_FailoverMode = mapFailoverMode (rep_FailoverMode r),
     rc_SeedingMode = mapSeedingMode (rep_SeedingMode r), rc_SecondaryRole = mapSecondaryRole (rep_SecondaryRole r)\<rparr>"

definition ag_config :: "AvailabilityGroup \<Rightarrow> AGConfig" where
  "ag_config ag = \<lparr>ac_Name = ag_AGName (Spec ag), ac_Replicas = List.map replica_config (ag_Replicas (Spec ag)),
     ac_Databases = ag_Databases (Spec ag),
     ac_AutomatedBackupPreference =
       (case ag_AutomatedBackupPreference (Spec ag) of None \<Rightarrow> ''SECONDARY'' | Some p \<Rightarrow> mapBackupPreference p),
     ac_DBFailover = (case ag_DBFailover (Spec ag) of None \<Rightarrow> True | Some b \<Rightarrow> b),
     ac_ClusterType = (case ag_ClusterType (Spec ag) of None \<Rightarrow> [] | Some ct \<Rightarrow> mapClusterType ct)\<rparr>"

definition createAG :: "AvailabilityGroup \<Rightarrow> 'c SQLClient \<Rightarrow> (unit, ('k, 'c) world) op" where
  "createAG ag primaryClient = on_sql (CreateAG (ags primaryClient) (ag_config ag))"

definition close_conn :: "'c SQLClient \<Rightarrow> ('k, 'c) world \<Rightarrow> ('k, 'c) world" where
  "close_conn conn w = w\<lparr>sql := CloseClient conn (sql w)\<rparr>"

definition hadr_port :: int where
  "hadr_port = 5022"

text \<open>One secondary: its endpoint, then the join, then the right to seed databases.\<close>

definition join_replica ::
  "('k, 'c) AGReconciler \<Rightarrow> AvailabilityGroup \<Rightarrow> AGReplicaSpec \<Rightarrow> (unit, ('k, 'c) world) op" where
  "join_replica R ag replica =
     (let name = rep_ServerName replica; agn = ag_AGName (Spec ag) in
      or_fail (''failed to get credentials for replica '' @ name)
        (on_kube (getCredentialsFromSecret (kclient R) (cr_Namespace ag) (CredentialsSecret (rep_Server replica))))
        (\<lambda>(username, password).
      case connectToSQL (rep_Server replica) username password (SQLClientFactory R) of
        Inl e \<Rightarrow> fail (Wrapf (''failed to connect to replica '' @ name @ '': '') e)
      | Inr conn \<Rightarrow>
          andthen (deferred (close_conn conn) (
            or_fail (''failed to check HADR endpoint on '' @ name) (on_sql (HADREndpointExists (ags conn))) (\<lambda>endpointExists.
            andthen (if endpointExists then ret ()
                     else or_fail (''failed to create HADR endpoint on '' @ name)
                            (on_sql (CreateHADREndpoint (ags conn) hadr_port)) ret) (
            or_fail (''failed to join AG on replica '' @ name) (on_sql (JoinAG (ags conn) agn (ag_cluster_type ag))) (\<lambda>_.
            if rep_SeedingMode replica = ''Automatic'' then
              or_fail (''failed to grant create database on replica '' @ name)
                (on_sql (GrantAGCreateDatabase (ags conn) agn)) ret
            else ret ())))))
          (effect (Normal ''ReplicaJoined'' (''Replica '' @ name @ '' joined AG '' @ agn)) (ret ()))))"

definition joinSecondaries :: "('k, 'c) AGReconciler \<Rightarrow> AvailabilityGroup \<Rightarrow> (unit, ('k, 'c) world) op" where
  "joinSecondaries R ag = for_each (join_replica R ag) (tl (ag_Replicas (Spec ag)))"

section \<open>Databases and listener\<close>

definition add_to_ag ::
  "'c SQLClient \<Rightarrow> string \<Rightarrow> string set \<Rightarrow> string \<Rightarrow> (unit, ('k, 'c) world) op" where
  "add_to_ag cl agn current dbName =
     (if dbName \<in> current then ret ()
      else or_fail (''failed to add database '' @ dbName @ '' to AG'') (on_sql (AddDatabaseToAG (ags cl) agn dbName)) (\<lambda>_.
           effect (Normal ''DatabaseAddedToAG'' (''Database '' @ dbName @ '' added to AG '' @ agn)) (ret ())))"

definition remove_from_ag ::
  "'c SQLClient \<Rightarrow> string \<Rightarrow> string set \<Rightarrow> string \<Rightarrow> (unit, ('k, 'c) world) op" where
  "remove_from_ag cl agn desired dbName =
     (if dbName \<in> desired then ret ()
      else or_fail (''failed to remove database '' @ dbName @ '' from AG'') (on_sql (RemoveDatabaseFromAG (ags cl) agn dbName)) (\<lambda>_.
           effect (Normal ''DatabaseRemovedFromAG'' (''Database '' @ dbName @ '' removed from AG '' @ agn)) (ret ())))"

definition reconcileDatabases ::
  "('k, 'c) AGReconciler \<Rightarrow> AvailabilityGroup \<Rightarrow> 'c SQLClient \<Rightarrow> (unit, ('k, 'c) world) op" where
  "reconcileDatabases R ag cl =
     (let agn = ag_AGName (Spec ag) in
      attempt (on_sql (GetAGStatus (ags cl) agn)) fail (\<lambda>agStatus.
      let desired = ag_Databases (Spec ag); current = List.map ds_Name (ags_Databases agStatus) in
      andthen (for_each (add_to_ag cl agn (set current)) (range_order R desired))
        (for_each (remove_from_ag cl agn (set desired)) (range_order R current))))"

definition listener_config :: "AGListenerSpec \<Rightarrow> AGListenerConfig" where
  "listener_config li = \<lparr>lc_Name = li_Name li, lc_Port = (case li_Port li of None \<Rightarrow> 1433 | Some p \<Rightarrow> p),
     lc_IPAddresses = List.map (\<lambda>ip. \<lparr>lip_IP = ip_IP ip, lip_SubnetMask = ip_SubnetMask ip\<rparr>) (li_IPAddresses li)\<rparr>"

definition reconcileListener :: "AvailabilityGroup \<Rightarrow> 'c SQLClient \<Rightarrow> (unit, ('k, 'c) world) op" where
  "reconcileListener ag cl =
     (case ag_Listener (Spec ag) of
        None \<Rightarrow> ret ()
      | Some li \<Rightarrow>
          attempt (on_sql (AddListenerToAG (ags cl) (ag_AGName (Spec ag)) (listener_config li))) (\<lambda>_. ret ()) (\<lambda>_.
          effect (Normal ''ListenerCreated'' (''Listener '' @ li_Name li @ '' created for AG '' @ ag_AGName (Spec ag)))
          (ret ())))"

section \<open>Status\<close>

definition replica_healthy :: "AGReplicaState \<Rightarrow> bool" where
  "replica_healthy rs \<longleftrightarrow> rs_Connected rs \<and>
     (rs_SynchronizationState rs = ''SYNCHRONIZED'' \<or> rs_SynchronizationState rs = ''SYNCHRONIZING'')"

definition observed_status :: "AvailabilityGroup \<Rightarrow> AGStatus \<Rightarrow> AvailabilityGroup" where
  "observed_status ag agStatus = ag\<lparr>Status := (Status ag)\<lparr>PrimaryReplica := ags_PrimaryReplica agStatus,
     ObservedGeneration := cr_Generation ag,
     st_Replicas := List.map (\<lambda>rs. \<lparr>ars_ServerName = rs_ServerName rs, ars_Role = rs_Role rs,
       ars_SynchronizationState = rs_SynchronizationState rs, ars_Connected = rs_Connected rs\<rparr>) (ags_Replicas agStatus),
     st_Databases := List.map (\<lambda>ds. \<lparr>ads_Name = ds_Name ds, ads_SynchronizationState = ds_SynchronizationState ds,
       ads_Joined = ds_Joined ds\<rparr>) (ags_Databases agStatus)\<rparr>\<rparr>"

definition updateAGStatus ::
  "('k, 'c) AGReconciler \<Rightarrow> AvailabilityGroup \<Rightarrow> AGStatus \<Rightarrow> (AvailabilityGroup, ('k, 'c) world) op" where
  "updateAGStatus R ag agStatus =
     (let allHealthy = (\<forall>rs \<in> set (ags_Replicas agStatus). replica_healthy rs);
          ag1 = observed_status ag agStatus;
          ag2 = (if allHealthy
                 then with_condition (kclient R) ConditionTrue ReasonReady
                   (''AG '' @ ag_AGName (Spec ag) @ '' is healthy with primary '' @ ags_PrimaryReplica agStatus) ag1
                 else with_condition (kclient R) ConditionFalse ''ReplicaNotHealthy''
                   (''AG '' @ ag_AGName (Spec ag) @ '' has unhealthy replicas'') ag1)
      in on_kube (PatchStatus (crs R) ag ag2))"

text \<open>Unlike the other controllers' function of this name, this one never asks to be requeued.\<close>

definition AG_setConditionAndReturn ::
  "('k, 'c) AGReconciler \<Rightarrow> AvailabilityGroup \<Rightarrow> ConditionStatus \<Rightarrow> string \<Rightarrow> string \<Rightarrow> (Result, ('k, 'c) world) op" where
  "AG_setConditionAndReturn R ag st reason msg =
     attempt (on_kube (PatchStatus (crs R) ag (observed (with_condition (kclient R) st reason msg ag)))) fail (\<lambda>_. ret (Result 0))"

section \<open>The failover lease\<close>

definition leaseDuration :: int where
  "leaseDuration = 30"

definition succeeded :: "('a, 's) op \<Rightarrow> (bool, 's) op" where
  "succeeded m = attempt m (\<lambda>_. ret False) (\<lambda>_. ret True)"

definition tryAcquireLease :: "'k AGEnv \<Rightarrow> string \<Rightarrow> string \<Rightarrow> (bool, ('k, 'c) world) op" where
  "tryAcquireLease A ns leaseName =
     attempt (read_clock A) fail (\<lambda>now.
     attempt (on_kube (GetLease A ns leaseName))
       (\<lambda>err. if IsNotFound err then
                succeeded (on_kube (CreateLease A \<lparr>lease_Name = leaseName, lease_Namespace = ns, HolderIdentity = Some (holder_id A),
                  LeaseDurationSeconds = Some leaseDuration, AcquireTime = Some now, RenewTime = Some now\<rparr>))
              else ret False)
       (\<lambda>lease.
         if HolderIdentity lease = Some (holder_id A) then
           succeeded (on_kube (PatchLease A lease (lease\<lparr>RenewTime := Some now\<rparr>)))
         else
           (case (RenewTime lease, LeaseDurationSeconds lease) of
              (Some renew, Some d) \<Rightarrow>
                attempt (read_clock A) fail (\<lambda>now2.
                if now2 > renew + d * second then
                  succeeded (on_kube (PatchLease A lease
                    (lease\<lparr>HolderIdentity := Some (holder_id A), AcquireTime := Some now, RenewTime := Some now\<rparr>)))
                else ret False)
            | _ \<Rightarrow> ret False)))"

section \<open>Automatic failover\<close>

text \<open>A forced failover succeeded: status, event, pod labels.\<close>

definition record_failover ::
  "('k, 'c) AGReconciler \<Rightarrow> 'k AGEnv \<Rightarrow> AvailabilityGroup \<Rightarrow> string \<Rightarrow> (Result, ('k, 'c) world) op" where
  "record_failover R A ag name =
     attempt (read_clock A) fail (\<lambda>now.
     let ag1 = ag\<lparr>Status := (Status ag)\<lparr>PrimaryReplica := name, LastAutoFailoverTime := Some now,
           AutoFailoverCount := wrap32 (AutoFailoverCount (Status ag) + 1)\<rparr>\<rparr>
     in attempt (patch_ignored R ag (with_condition (kclient R) ConditionFalse ''AutoFailoverExecuted''
          (''Auto-failover: new primary is '' @ name) ag1)) fail (\<lambda>ag2.
        effect (Normal ''AutoFailoverCompleted''
          (''AG '' @ ag_AGName (Spec ag) @ '' auto-failover to '' @ name @ '' completed''))
        (andthen (updateReplicaRoleLabelsFromAG A ag2 name) (ret (Result (5 * second))))))"

text \<open>The loop over the replicas: the first one that answers decides.\<close>

fun try_failover ::
  "('k, 'c) AGReconciler \<Rightarrow> 'k AGEnv \<Rightarrow> AvailabilityGroup \<Rightarrow> string \<Rightarrow> int \<Rightarrow> AGReplicaSpec list \<Rightarrow> (Result, ('k, 'c) world) op" where
  "try_failover R A ag knownPrimary requeue [] =
     effect (Warning ''AutoFailoverNoCandidate'' ''Primary unreachable and no secondary available for failover'')
       (fail (Errorf ''no failover candidates available''))"
| "try_failover R A ag knownPrimary requeue (replica # rest) =
     (let name = rep_ServerName replica; agn = ag_AGName (Spec ag) in
      if name = knownPrimary then try_failover R A ag knownPrimary requeue rest
      else attempt (on_kube (getCredentialsFromSecret (kclient R) (cr_Namespace ag) (CredentialsSecret (rep_Server replica))))
        (\<lambda>_. try_failover R A ag knownPrimary requeue rest) (\<lambda>(u, p).
      case connectToSQL (rep_Server replica) u p (SQLClientFactory R) of
        Inl _ \<Rightarrow> try_failover R A ag knownPrimary requeue rest
      | Inr conn \<Rightarrow>
          attempt (on_sql (GetAGReplicaRole (ags conn) agn name))
            (\<lambda>_. effect (close_conn conn) (try_failover R A ag knownPrimary requeue rest)) (\<lambda>role.
          if role = ''PRIMARY'' then
            attempt (on_sql (GetAGStatus (ags conn) agn))
              (\<lambda>_. effect (close_conn conn) (requeue_jitter (Int63n R) requeue))
              (\<lambda>agStatus. effect (close_conn conn)
                 (attempt (updateAGStatus R ag agStatus) (\<lambda>_. requeue_jitter (Int63n R) requeue)
                   (\<lambda>_. requeue_jitter (Int63n R) requeue)))
          else
            attempt (on_sql (ForceFailoverAG (ags conn) agn))
              (\<lambda>failoverErr. effect (close_conn conn)
                 (effect (Warning ''AutoFailoverFailed''
                    (''Auto-failover to '' @ name @ '' failed: '' @ Error failoverErr))
                  (try_failover R A ag knownPrimary requeue rest)))
              (\<lambda>_. effect (close_conn conn) (record_failover R A ag name)))))"

definition known_primary :: "AvailabilityGroup \<Rightarrow> string" where
  "known_primary ag = (if PrimaryReplica (Status ag) = [] then rep_ServerName (hd (ag_Replicas (Spec ag)))
     else PrimaryReplica (Status ag))"

definition lease_name :: "AvailabilityGroup \<Rightarrow> string" where
  "lease_name ag = ''ag-failover-'' @ ag_AGName (Spec ag)"

definition failover_with_lease ::
  "('k, 'c) AGReconciler \<Rightarrow> 'k AGEnv \<Rightarrow> AvailabilityGroup \<Rightarrow> int \<Rightarrow> (Result, ('k, 'c) world) op" where
  "failover_with_lease R A ag requeue =
     attempt (tryAcquireLease A (cr_Namespace ag) (lease_name ag)) fail (\<lambda>acquired.
     if \<not> acquired then ret (Result (5 * second))
     else try_failover R A ag (known_primary ag) requeue (ag_Replicas (Spec ag)))"

definition handleAutoFailover ::
  "('k, 'c) AGReconciler \<Rightarrow> 'k AGEnv \<Rightarrow> AvailabilityGroup \<Rightarrow> int \<Rightarrow> (Result, ('k, 'c) world) op" where
  "handleAutoFailover R A ag requeue =
     (case LastAutoFailoverTime (Status ag) of
        None \<Rightarrow> failover_with_lease R A ag requeue
      | Some t \<Rightarrow>
          attempt (time_since A t) fail (\<lambda>elapsed.
          if elapsed < ag_cooldown A ag then ret (Result (wrap64 (ag_cooldown A ag - elapsed)))
          else failover_with_lease R A ag requeue))"

section \<open>Deletion\<close>

text \<open>The replica to talk to: the known primary if it is in the specification, else the first.\<close>

definition primary_spec :: "AvailabilityGroup \<Rightarrow> AGReplicaSpec" where
  "primary_spec ag =
     (if PrimaryReplica (Status ag) = [] then hd (ag_Replicas (Spec ag))
      else (case find (\<lambda>r. rep_ServerName r = PrimaryReplica (Status ag)) (ag_Replicas (Spec ag)) of
              Some r \<Rightarrow> r | None \<Rightarrow> hd (ag_Replicas (Spec ag))))"

text \<open>\<open>ag.Spec.Replicas[0]\<close> panics on an empty list.\<close>

definition index_panic :: go_error where
  "index_panic = Errorf ''panic: runtime error: index out of range [0] with length 0''"

definition AG_drop ::
  "('k, 'c) AGReconciler \<Rightarrow> 'c SQLClient \<Rightarrow> AvailabilityGroup \<Rightarrow> (Result, ('k, 'c) world) op" where
  "AG_drop R cl ag =
     attempt (on_sql (DropAG (ags cl) (ag_AGName (Spec ag)))) (\<lambda>_. remove_finalizer R ag) (\<lambda>_.
       effect (Normal ''AvailabilityGroupDropped'' (''Availability Group '' @ ag_AGName (Spec ag) @ '' dropped''))
       (remove_finalizer R ag))"

definition AG_handleDeletion :: "('k, 'c) AGReconciler \<Rightarrow> AvailabilityGroup \<Rightarrow> (Result, ('k, 'c) world) op" where
  "AG_handleDeletion R ag =
     (if \<not> ContainsFinalizer (kclient R) (cr_Finalizers ag) Finalizer then ret (Result 0)
      else if ag_Replicas (Spec ag) = [] then fail index_panic
      else attempt (on_kube (getCredentialsFromSecret (kclient R) (cr_Namespace ag)
          (CredentialsSecret (rep_Server (primary_spec ag))))) (\<lambda>_. remove_finalizer R ag) (\<lambda>(username, password).
        case connectToSQL (rep_Server (primary_spec ag)) username password (SQLClientFactory R) of
          Inl _ \<Rightarrow> remove_finalizer R ag
        | Inr cl \<Rightarrow> deferred (close_conn cl) (AG_drop R cl ag)))"

section \<open>Reconciliation\<close>

text \<open>Steps 5 and 6: the endpoint and the group itself.\<close>

definition ensure_endpoint :: "'c SQLClient \<Rightarrow> (unit, ('k, 'c) world) op" where
  "ensure_endpoint cl =
     or_fail ''failed to check HADR endpoint'' (on_sql (HADREndpointExists (ags cl))) (\<lambda>endpointExists.
     if endpointExists then ret ()
     else or_fail ''failed to create HADR endpoint'' (on_sql (CreateHADREndpoint (ags cl) hadr_port)) (\<lambda>_.
          effect (Normal ''HADREndpointCreated'' ''HADR endpoint created on primary'') (ret ())))"

definition ensure_group ::
  "('k, 'c) AGReconciler \<Rightarrow> AvailabilityGroup \<Rightarrow> 'c SQLClient \<Rightarrow> (unit, ('k, 'c) world) op" where
  "ensure_group R ag cl =
     or_fail ''failed to check AG existence'' (on_sql (AGExists (ags cl) (ag_AGName (Spec ag)))) (\<lambda>agExists.
     if agExists then ret ()
     else or_fail ''failed to create availability group'' (createAG ag cl) (\<lambda>_.
          effect (Normal ''AvailabilityGroupCreated'' (''Availability Group '' @ ag_AGName (Spec ag) @ '' created''))
          (attempt (joinSecondaries R ag) (\<lambda>err. effect (Warning ''SecondaryJoinFailed'' (Error err)) (ret ())) (\<lambda>_. ret ()))))"

text \<open>Step 9: the replicas that are missing from the status or not connected try to rejoin.\<close>

definition rejoin_replicas ::
  "('k, 'c) AGReconciler \<Rightarrow> AvailabilityGroup \<Rightarrow> AGStatus \<Rightarrow> (unit, ('k, 'c) world) op" where
  "rejoin_replicas R ag agStatus =
     for_each (\<lambda>replica.
       if rep_ServerName replica = ags_PrimaryReplica agStatus then ret ()
       else (case find (\<lambda>rs. rs_ServerName rs = rep_ServerName replica) (rev (ags_Replicas agStatus)) of
               Some rs \<Rightarrow> if rs_Connected rs then ret () else tryRejoinReplica R ag replica
             | None \<Rightarrow> tryRejoinReplica R ag replica)) (ag_Replicas (Spec ag))"

definition AG_sync ::
  "('k, 'c) AGReconciler \<Rightarrow> 'k AGEnv \<Rightarrow> AvailabilityGroup \<Rightarrow> 'c SQLClient \<Rightarrow> int \<Rightarrow> (Result, ('k, 'c) world) op" where
  "AG_sync R A ag cl requeue =
     andthen (ensure_endpoint cl) (
     andthen (ensure_group R ag cl) (
     attempt (attempt (reconcileDatabases R ag cl) (\<lambda>_. ret ()) (\<lambda>_. ret ())) fail (\<lambda>_.
     andthen (reconcileListener ag cl) (
     or_fail ''failed to get AG status'' (on_sql (GetAGStatus (ags cl) (ag_AGName (Spec ag)))) (\<lambda>agStatus.
     attempt (updateAGStatus R ag agStatus) fail (\<lambda>ag1.
     andthen (rejoin_replicas R ag1 agStatus) (
     andthen (if ags_PrimaryReplica agStatus = [] then ret ()
              else updateReplicaRoleLabelsFromAG A ag1 (ags_PrimaryReplica agStatus)) (
     requeue_jitter (Int63n R) requeue))))))))"

text \<open>Step 4b: fencing first; a round of fencing or a changed primary ends the pass.\<close>

definition AG_fence_then_sync ::
  "('k, 'c) AGReconciler \<Rightarrow> 'k AGEnv \<Rightarrow> AvailabilityGroup \<Rightarrow> 'c SQLClient \<Rightarrow> int \<Rightarrow> (Result, ('k, 'c) world) op" where
  "AG_fence_then_sync R A ag cl requeue =
     (if PrimaryReplica (Status ag) = [] then AG_sync R A ag cl requeue
      else attempt (detectAndResolveSplitBrain R A ag) fail (\<lambda>(ag1, fenced).
        if fenced then ret (Result (5 * second))
        else if PrimaryReplica (Status ag1) \<noteq> PrimaryReplica (Status ag) then ret (Result (5 * second))
        else AG_sync R A ag1 cl requeue))"

definition failover_or_requeue ::
  "('k, 'c) AGReconciler \<Rightarrow> 'k AGEnv \<Rightarrow> AvailabilityGroup \<Rightarrow> int \<Rightarrow> (Result, ('k, 'c) world) op" where
  "failover_or_requeue R A ag requeue =
     attempt (handleAutoFailover R A ag requeue) (\<lambda>_. requeue_jitter (Int63n R) requeue) ret"

definition requeue_after :: "'k AGEnv \<Rightarrow> AvailabilityGroup \<Rightarrow> int" where
  "requeue_after A ag =
     (if ag_AutoFailover (Spec ag) = Some True then
        (case ag_HealthCheckInterval (Spec ag) of
           None \<Rightarrow> 10 * second
         | Some s \<Rightarrow> (case ParseDuration A s of None \<Rightarrow> 10 * second | Some d \<Rightarrow> d))
      else requeueInterval)"

definition AG_connected ::
  "('k, 'c) AGReconciler \<Rightarrow> 'k AGEnv \<Rightarrow> AvailabilityGroup \<Rightarrow> (Result, ('k, 'c) world) op" where
  "AG_connected R A ag =
     (let requeue = requeue_after A ag; autoFailoverEnabled = (ag_AutoFailover (Spec ag) = Some True);
          primaryReplica = primary_spec ag; secretName = CredentialsSecret (rep_Server primaryReplica)
      in attempt (on_kube (getCredentialsFromSecret (kclient R) (cr_Namespace ag) secretName))
           (\<lambda>e. if IsNotFound e then
                  AG_setConditionAndReturn R ag ConditionFalse ReasonSecretNotFound (''Secret '' @ go_quote secretName @ '' not found'')
                else AG_setConditionAndReturn R ag ConditionFalse ReasonInvalidCredentialsSecret (Error e)) (\<lambda>(username, password).
         case connectToSQL (rep_Server primaryReplica) username password (SQLClientFactory R) of
           Inl e \<Rightarrow> effect (Warning ReasonConnectionFailed (Error e))
             (if autoFailoverEnabled then failover_or_requeue R A ag requeue
              else fail (Wrapf ''failed to connect to primary replica: '' e))
         | Inr cl \<Rightarrow> deferred (close_conn cl)
             (if autoFailoverEnabled then
                attempt (on_sql (Ping cl)) (\<lambda>_. effect (close_conn cl) (failover_or_requeue R A ag requeue))
                  (\<lambda>_. AG_fence_then_sync R A ag cl requeue)
              else AG_fence_then_sync R A ag cl requeue)))"

definition AG_Reconcile ::
  "('k, 'c) AGReconciler \<Rightarrow> 'k AGEnv \<Rightarrow> string \<Rightarrow> string \<Rightarrow> (Result, ('k, 'c) world) op" where
  "AG_Reconcile R A ns name =
     fetch R ns name (\<lambda>ag0.
     if cr_Deleting ag0 then AG_handleDeletion R ag0
     else attempt (ensure_finalizer R ag0) fail (\<lambda>ag.
       if ag_Replicas (Spec ag) = [] then fail index_panic else AG_connected R A ag))"

section \<open>What the servers promise about a forced failover\<close>

text \<open>
  It concerns the server it is run on; when it fails nothing has changed, and when it succeeds
  on a secondary, that one is primary. Asking for the status and pinging change no role.
\<close>

locale ag_failover = ag_replicas conn ok role lsn agn
  for conn :: "string \<Rightarrow> 'c SQLClient" and ok role lsn agn +
  assumes force_law: "ok c \<Longrightarrow> ForceFailoverAG (ags (conn s)) agn c = (u, c') \<Longrightarrow>
      ok c' \<and> (\<forall>t. t \<noteq> s \<longrightarrow> role c' t = role c t) \<and> (\<forall>e. u = Inl e \<longrightarrow> role c' s = role c s) \<and>
      (u = Inr () \<longrightarrow> role c s = ''SECONDARY'' \<longrightarrow> role c' s = ''PRIMARY'')"
    and status_law: "ok c \<Longrightarrow> GetAGStatus (ags (conn s)) agn c = (r, c') \<Longrightarrow> ok c' \<and> role c' = role c"
    and ping_law: "ok c \<Longrightarrow> Ping (conn s) c = (u, c') \<Longrightarrow> ok c' \<and> role c' = role c"

text \<open>
  On servers that only fail by not being reachable at all: a server that says its role can be
  told to take over.
\<close>

locale ag_responsive = ag_failover conn ok role lsn agn
  for conn :: "string \<Rightarrow> 'c SQLClient" and ok role lsn agn +
  assumes silent_law: "ok c \<Longrightarrow> GetAGReplicaRole (ags (conn s)) agn s c = (Inr x, c') \<Longrightarrow> x \<noteq> []"
    and obey_law: "ok c \<Longrightarrow> role c s \<noteq> [] \<Longrightarrow> ForceFailoverAG (ags (conn s)) agn c = (u, c') \<Longrightarrow> u = Inr ()"

text \<open>The roles of all servers but one, which is not the known primary, are as they were.\<close>

definition spares :: "string \<Rightarrow> (string \<Rightarrow> string) \<Rightarrow> (string \<Rightarrow> string) \<Rightarrow> bool" where
  "spares known \<rho> \<rho>' \<longleftrightarrow> (\<exists>s. s \<noteq> known \<and> (\<forall>t. t \<noteq> s \<longrightarrow> \<rho>' t = \<rho> t))"

lemma spares_refl [simp]: "spares known \<rho> \<rho>"
  unfolding spares_def by (rule exI [of _ "CHR ''x'' # known"]) simp

lemma wp_requeue_jitter_any: "(\<And>r. Q r w) \<Longrightarrow> (\<And>e. E e w) \<Longrightarrow> wp (requeue_jitter rnd d) w Q E"
  by (simp add: requeue_jitter_def wp_ret wp_fail split: option.split del: ret_apply fail_apply)

lemma wp_updateAGStatus_any:
  "(\<And>x k. Q x (w\<lparr>kube := k\<rparr>)) \<Longrightarrow> (\<And>e k. E e (w\<lparr>kube := k\<rparr>)) \<Longrightarrow> wp (updateAGStatus R ag st) w Q E"
  unfolding updateAGStatus_def Let_def wp_on_kube by (simp add: wp_def split: prod.split sum.split)

lemma close_conn_simps [simp]:
  "sql (close_conn cl w) = CloseClient cl (sql w)" "kube (close_conn cl w) = kube w" "events (close_conn cl w) = events w"
  by (simp_all add: close_conn_def)

lemma wp_record_failover_any:
  assumes env: "env_laws A objs secs srvs" and "\<And>x w'. sql w' = sql w \<Longrightarrow> Q x w'"
  shows "wp (record_failover R A ag n) w Q E"
  unfolding record_failover_def Let_def wp_attempt
  apply (rule wp_read_clock [OF env])
  apply (rule wp_patch_ignored_any)
  unfolding wp_effect wp_andthen
  apply (rule wp_updateLabels [OF env])
  apply (simp add: wp_ret only_api_def assms(2) del: ret_apply)
  done

context ag_failover begin

lemma try_failover_spares:
  fixes w :: "('k, 'c) world"
  assumes laws: "api_laws R objs secs srvs" and env: "env_laws A objs secs srvs"
    and con: "\<forall>r \<in> set rs. connects R (secs (kube w)) (cr_Namespace ag) (rep_Server r) (conn (rep_ServerName r))"
    and name: "ag_AGName (Spec ag) = agn" and c: "ok (sql w)" and \<rho>: "role (sql w) = \<rho>"
  shows "always (try_failover R A ag known requeue rs) w (\<lambda>w'. ok (sql w') \<and> spares known \<rho> (role (sql w')))"
  using con c \<rho>
proof (induction rs arbitrary: w)
  case Nil
  then show ?case unfolding try_failover.simps wp_effect wp_fail by simp
next
  case (Cons r rs)
  let ?s = "rep_ServerName r" and ?P = "\<lambda>w' :: ('k, 'c) world. ok (sql w') \<and> spares known \<rho> (role (sql w'))"
  have rest: "always (try_failover R A ag known requeue rs) w' ?P"
    if "kube w' = kube w" "ok (sql w')" "role (sql w') = \<rho>" for w'
    using Cons.IH [of w'] Cons.prems(1) that by simp
  show ?case
  proof (cases "?s = known")
    case True
    then show ?thesis using rest [of w] Cons.prems by simp
  next
    case False
    from Cons.prems(1) obtain u p where
      up: "secret_credentials (secs (kube w)) (cr_Namespace ag) (CredentialsSecret (rep_Server r)) = Some (u, p)" and
      cl: "connectToSQL (rep_Server r) u p (SQLClientFactory R) = Inr (conn ?s)"
      by (auto simp: connects_def)
    obtain x c1 where q: "GetAGReplicaRole (ags (conn ?s)) agn ?s (sql w) = (x, c1)" by fastforce
    then have c1: "ok c1" "role c1 = \<rho>" using role_law [OF Cons.prems(2) q] Cons.prems(3) by auto
    obtain y c2 where f: "ForceFailoverAG (ags (conn ?s)) agn c1 = (y, c2)" by fastforce
    obtain z c3 where g: "GetAGStatus (ags (conn ?s)) agn c1 = (z, c3)" by fastforce
    note c2 = force_law [OF c1(1) f] and c3 = status_law [OF c1(1) g]
    have sp: "spares known \<rho> (role c2)" unfolding spares_def using c2 c1 False by (intro exI [of _ ?s]) auto
    have failed: "role c2 = \<rho>" if "y = Inl e" for e
    proof
      fix t show "role c2 t = \<rho> t" using c2 c1(2) that by (cases "t = ?s") auto
    qed
    note shut = close_law [of c1 ?s] close_law [of c2 ?s] close_law [of c3 ?s]
    show ?thesis
      unfolding try_failover.simps Let_def if_not_P [OF False] wp_attempt wp_on_kube wp_getCredentialsFromSecret [OF laws up] name
      apply (simp add: cl wp_attempt wp_on_sql)
      apply (cases x)
       apply (simp add: wp_def [of "GetAGReplicaRole (ags (conn ?s)) agn ?s"] q wp_effect rest c1 shut)
      apply (simp add: wp_def [of "GetAGReplicaRole (ags (conn ?s)) agn ?s"] q wp_attempt wp_on_sql wp_effect)
      apply (intro conjI impI)
       apply (cases z)
        apply (simp add: wp_def [of "GetAGStatus (ags (conn ?s)) agn"] g)
        apply (rule wp_requeue_jitter_any; simp add: c1 c3 shut)
       apply (simp add: wp_def [of "GetAGStatus (ags (conn ?s)) agn"] g)
       apply (rule wp_updateAGStatus_any; rule wp_requeue_jitter_any; simp add: c1 c3 shut)
      apply (cases y)
       apply (simp add: wp_def [of "ForceFailoverAG (ags (conn ?s)) agn"] f)
      subgoal premises p
        by (rule rest) (use c2 failed [OF p(3)] shut(2) in simp_all)
      apply (simp add: wp_def [of "ForceFailoverAG (ags (conn ?s)) agn"] f)
      apply (rule wp_record_failover_any [OF env])
      apply (simp add: c2 shut sp)
      done
  qed
qed

end

lemma wp_tryAcquireLease:
  assumes env: "env_laws A objs secs srvs" and post: "\<And>b w'. only_api objs secs srvs w w' \<Longrightarrow> Q b w'"
  shows "wp (tryAcquireLease A ns n) w Q E"
proof -
  have yes: "wp (succeeded (on_kube m)) w' Q E"
    if "\<And>k. same_api objs secs srvs k (snd (m k))" "only_api objs secs srvs w w'" for m :: "(unit, 'a) op" and w'
    unfolding succeeded_def wp_attempt wp_ret
    by (rule wp_on_kube_same [OF that(1)]; rule post, erule only_api_trans [OF that(2)])
  show ?thesis
    unfolding tryAcquireLease_def wp_attempt
  proof (rule wp_read_clock [OF env], rule wp_on_kube_same [OF env_lawsD(5) [OF env]])
    fix now lease w1 w2 assume "only_api objs secs srvs w w1" "only_api objs secs srvs w1 w2"
    then have w2: "only_api objs secs srvs w w2" by (rule only_api_trans)
    have late: "wp (read_clock A) w2 (\<lambda>now2 t. wp (if now2 > renew + d * second then
          succeeded (on_kube (PatchLease A lease
            (lease\<lparr>HolderIdentity := Some (holder_id A), AcquireTime := Some now, RenewTime := Some now\<rparr>)))
        else ret False) t Q E) (\<lambda>e t. wp (fail e) t Q E)" for renew d
      by (rule wp_read_clock [OF env])
         (auto simp: wp_ret simp del: ret_apply intro!: yes [OF env_lawsD(7) [OF env]] post intro: only_api_trans [OF w2])
    show "wp (if HolderIdentity lease = Some (holder_id A) then
           succeeded (on_kube (PatchLease A lease (lease\<lparr>RenewTime := Some now\<rparr>)))
         else
           (case (RenewTime lease, LeaseDurationSeconds lease) of
              (Some renew, Some d) \<Rightarrow>
                attempt (read_clock A) fail (\<lambda>now2.
                if now2 > renew + d * second then
                  succeeded (on_kube (PatchLease A lease
                    (lease\<lparr>HolderIdentity := Some (holder_id A), AcquireTime := Some now, RenewTime := Some now\<rparr>)))
                else ret False)
            | _ \<Rightarrow> ret False)) w2 Q E"
      using late post [OF w2] yes [OF env_lawsD(7) [OF env] w2]
      by (auto simp: wp_attempt wp_ret simp del: ret_apply fail_apply split: option.split)
  next
    fix now e w1 w2 assume "only_api objs secs srvs w w1" "only_api objs secs srvs w1 w2"
    then have w2: "only_api objs secs srvs w w2" by (rule only_api_trans)
    show "wp (if IsNotFound e then
        succeeded (on_kube (CreateLease A \<lparr>lease_Name = n, lease_Namespace = ns, HolderIdentity = Some (holder_id A),
          LeaseDurationSeconds = Some leaseDuration, AcquireTime = Some now, RenewTime = Some now\<rparr>))
      else ret False) w2 Q E"
      using post [OF w2] yes [OF env_lawsD(6) [OF env] w2] by (simp add: wp_ret del: ret_apply)
  qed
qed

context ag_failover begin

lemma handleAutoFailover_spares:
  fixes w :: "('k, 'c) world"
  assumes laws: "api_laws R objs secs srvs" and env: "env_laws A objs secs srvs"
    and con: "all_connect R (secs (kube w)) ag conn" and name: "ag_AGName (Spec ag) = agn" and c: "ok (sql w)"
  shows "always (handleAutoFailover R A ag requeue) w
    (\<lambda>w'. ok (sql w') \<and> spares (known_primary ag) (role (sql w)) (role (sql w')))"
proof -
  let ?P = "\<lambda>w' :: ('k, 'c) world. ok (sql w') \<and> spares (known_primary ag) (role (sql w)) (role (sql w'))"
  have go: "always (failover_with_lease R A ag requeue) w1 ?P" if "only_api objs secs srvs w w1" for w1
    unfolding failover_with_lease_def wp_attempt
  proof (rule wp_tryAcquireLease [OF env])
    fix b w2 assume "only_api objs secs srvs w1 w2"
    then have w2: "only_api objs secs srvs w w2" using only_api_trans [OF that] by blast
    have "always (try_failover R A ag (known_primary ag) requeue (ag_Replicas (Spec ag))) w2 ?P"
      by (rule try_failover_spares [OF laws env _ name])
         (use con c w2 in \<open>auto simp: all_connect_def only_api_def same_api_def\<close>)
    then show "always (if \<not> b then ret (Result (5 * second)) else try_failover R A ag (known_primary ag) requeue (ag_Replicas (Spec ag))) w2 ?P"
      using w2 c by (simp add: wp_ret only_api_def del: ret_apply)
  qed
  show ?thesis
    unfolding handleAutoFailover_def
    using go [of w] c
    by (auto simp: wp_attempt wp_ret only_api_def simp del: ret_apply fail_apply split: option.split
        intro!: wp_time_since [OF env] go)
qed

end

text \<open>What a failover leaves in the API server.\<close>

lemma wp_record_failover:
  assumes laws: "api_laws R objs secs srvs" and env: "env_laws A objs secs srvs"
    and base: "objs (kube w) (request_of ag) = Some ag" and live: "\<not> cr_Deleting ag"
    and post: "\<And>st' w'. sql w' = sql w \<Longrightarrow> objs (kube w') = (objs (kube w))(request_of ag \<mapsto> ag\<lparr>Status := st'\<rparr>) \<Longrightarrow>
      PrimaryReplica st' = n \<Longrightarrow> AutoFailoverCount st' = wrap32 (AutoFailoverCount (Status ag) + 1) \<Longrightarrow>
      LastAutoFailoverTime st' \<noteq> None \<Longrightarrow>
      ready_status (ag\<lparr>Status := st'\<rparr>) = Some (ConditionFalse, ''AutoFailoverExecuted'') \<Longrightarrow> Q (Result (5 * second)) w'"
  shows "wp (record_failover R A ag n) w Q E"
  unfolding record_failover_def Let_def wp_attempt with_condition_status
proof (rule wp_read_clock [OF env])
  fix now w1 assume w1: "only_api objs secs srvs w w1"
  let ?s = "(Status ag)\<lparr>PrimaryReplica := n, LastAutoFailoverTime := Some now,
      AutoFailoverCount := wrap32 (AutoFailoverCount (Status ag) + 1)\<rparr>"
  let ?st = "?s\<lparr>Conditions := SetStatusCondition (kclient R) (Conditions ?s) (ready_condition (cr_Generation ag) ConditionFalse
      ''AutoFailoverExecuted'' (''Auto-failover: new primary is '' @ n))\<rparr>"
  have ready: "ready_status (ag\<lparr>Status := ?st\<rparr>) = Some (ConditionFalse, ''AutoFailoverExecuted'')"
    using api_lawsD(7) [OF laws] by (simp add: ready_status_def condition_laws_def ready_condition_def)
  have base1: "objs (kube w1) (request_of ag) = Some ag" using base w1 by (simp add: only_api_def same_api_def)
  show "wp (patch_ignored R ag (ag\<lparr>Status := ?st\<rparr>)) w1
    (\<lambda>x t. wp (effect (Normal ''AutoFailoverCompleted'' (''AG '' @ ag_AGName (Spec ag) @ '' auto-failover to '' @ n @ '' completed''))
        (andthen (updateReplicaRoleLabelsFromAG A x n) (ret (Result (5 * second))))) t Q E) (\<lambda>e t. wp (fail e) t Q E)"
  proof (rule wp_patch_ignored [OF laws base1 live])
    fix k' assume k': "objs k' = (objs (kube w1))(request_of ag \<mapsto> ag\<lparr>Status := ?st\<rparr>)"
    show "wp (effect (Normal ''AutoFailoverCompleted'' (''AG '' @ ag_AGName (Spec ag) @ '' auto-failover to '' @ n @ '' completed''))
        (andthen (updateReplicaRoleLabelsFromAG A (ag\<lparr>Status := ?st\<rparr>) n) (ret (Result (5 * second))))) (w1\<lparr>kube := k'\<rparr>) Q E"
      unfolding wp_effect wp_andthen
      by (rule wp_updateLabels [OF env])
         (use w1 k' ready in \<open>auto simp: wp_ret only_api_def same_api_def simp del: ret_apply intro!: post\<close>)
  qed
qed

definition cooled_down :: "'k AGEnv \<Rightarrow> AvailabilityGroup \<Rightarrow> bool" where
  "cooled_down A ag \<longleftrightarrow>
     (\<forall>t k. LastAutoFailoverTime (Status ag) = Some t \<longrightarrow> ag_cooldown A ag \<le> saturate64 (fst (Now A k) - t))"

context ag_responsive begin

lemma try_failover_first:
  fixes w :: "('k, 'c) world"
  assumes laws: "api_laws R objs secs srvs" and env: "env_laws A objs secs srvs"
    and base: "objs (kube w) (request_of ag) = Some ag" and live: "\<not> cr_Deleting ag"
    and con: "\<forall>q \<in> set (pre @ [r]). connects R (secs (kube w)) (cr_Namespace ag) (rep_Server q) (conn (rep_ServerName q))"
    and name: "ag_AGName (Spec ag) = agn" and c: "ok (sql w)" and \<rho>: "role (sql w) = \<rho>"
    and pre: "\<forall>q \<in> set pre. rep_ServerName q = known \<or> \<rho> (rep_ServerName q) = []"
    and r: "rep_ServerName r \<noteq> known" "\<rho> (rep_ServerName r) = ''SECONDARY''"
    and post: "\<And>st' w'. ok (sql w') \<Longrightarrow> role (sql w') = \<rho>(rep_ServerName r := ''PRIMARY'') \<Longrightarrow>
      objs (kube w') = (objs (kube w))(request_of ag \<mapsto> ag\<lparr>Status := st'\<rparr>) \<Longrightarrow>
      PrimaryReplica st' = rep_ServerName r \<Longrightarrow> AutoFailoverCount st' = wrap32 (AutoFailoverCount (Status ag) + 1) \<Longrightarrow>
      LastAutoFailoverTime st' \<noteq> None \<Longrightarrow>
      ready_status (ag\<lparr>Status := st'\<rparr>) = Some (ConditionFalse, ''AutoFailoverExecuted'') \<Longrightarrow> Q (Result (5 * second)) w'"
  shows "wp (try_failover R A ag known requeue (pre @ r # rest)) w Q E"
  using base con c \<rho> pre post
proof (induction pre arbitrary: w)
  case Nil
  let ?s = "rep_ServerName r"
  from Nil.prems(2) obtain u p where
    up: "secret_credentials (secs (kube w)) (cr_Namespace ag) (CredentialsSecret (rep_Server r)) = Some (u, p)" and
    cl: "connectToSQL (rep_Server r) u p (SQLClientFactory R) = Inr (conn ?s)"
    by (auto simp: connects_def)
  obtain x c1 where q: "GetAGReplicaRole (ags (conn ?s)) agn ?s (sql w) = (x, c1)" by fastforce
  from role_law [OF Nil.prems(3) q] have c1: "answer [] x = ''SECONDARY''" "ok c1" "role c1 = \<rho>" using Nil.prems(4) r(2) by auto
  then have x: "x = Inr ''SECONDARY''" by (cases x) (simp_all add: answer_def)
  obtain y c2 where f: "ForceFailoverAG (ags (conn ?s)) agn c1 = (y, c2)" by fastforce
  have y: "y = Inr ()" using obey_law [OF c1(2) _ f] c1(3) r(2) by simp
  have c2: "ok c2" "role c2 = \<rho>(?s := ''PRIMARY'')"
    using force_law [OF c1(2) f] y c1(3) r(2) by (auto simp: fun_eq_iff)
  have "wp (record_failover R A ag ?s) (close_conn (conn ?s) (w\<lparr>sql := c2\<rparr>)) Q E"
    by (rule wp_record_failover [OF laws env _ live])
       (use Nil.prems(1) c2 close_law [OF c2(1)] in \<open>auto intro: Nil.prems(6)\<close>)
  then show ?case
    unfolding append_Nil try_failover.simps Let_def if_not_P [OF r(1)] wp_attempt wp_on_kube wp_getCredentialsFromSecret [OF laws up] name
    by (simp add: cl wp_attempt wp_on_sql wp_effect wp_def [of "GetAGReplicaRole (ags (conn ?s)) agn ?s"] q x
        wp_def [of "ForceFailoverAG (ags (conn ?s)) agn"] f y)
next
  case (Cons q pre)
  let ?s = "rep_ServerName q"
  have next_q: "wp (try_failover R A ag known requeue (pre @ r # rest)) w' Q E"
    if "kube w' = kube w" "ok (sql w')" "role (sql w') = \<rho>" for w'
    by (rule Cons.IH) (use Cons.prems that in auto)
  show ?case
  proof (cases "?s = known")
    case True
    then show ?thesis using next_q [of w] Cons.prems by simp
  next
    case False
    from Cons.prems(2) obtain u p where
      up: "secret_credentials (secs (kube w)) (cr_Namespace ag) (CredentialsSecret (rep_Server q)) = Some (u, p)" and
      cl: "connectToSQL (rep_Server q) u p (SQLClientFactory R) = Inr (conn ?s)"
      by (auto simp: connects_def)
    obtain x c1 where ask: "GetAGReplicaRole (ags (conn ?s)) agn ?s (sql w) = (x, c1)" by fastforce
    from role_law [OF Cons.prems(3) ask] have c1: "answer [] x = []" "ok c1" "role c1 = \<rho>" using Cons.prems(4,5) False by auto
    then obtain e where x: "x = Inl e" using silent_law [OF Cons.prems(3)] ask by (cases x) (auto simp: answer_def)
    have "wp (try_failover R A ag known requeue (pre @ r # rest)) (close_conn (conn ?s) (w\<lparr>sql := c1\<rparr>)) Q E"
      by (rule next_q) (use c1 close_law [OF c1(2)] in auto)
    then show ?thesis
      unfolding append_Cons try_failover.simps Let_def if_not_P [OF False] wp_attempt wp_on_kube wp_getCredentialsFromSecret [OF laws up] name
      by (simp add: cl wp_attempt wp_on_sql wp_effect wp_def [of "GetAGReplicaRole (ags (conn ?s)) agn ?s"] ask x)
  qed
qed

lemma handleAutoFailover_first:
  fixes w :: "('k, 'c) world"
  assumes laws: "api_laws R objs secs srvs" and env: "env_laws A objs secs srvs"
    and base: "objs (kube w) (request_of ag) = Some ag" and live: "\<not> cr_Deleting ag"
    and con: "all_connect R (secs (kube w)) ag conn"
    and name: "ag_AGName (Spec ag) = agn" and c: "ok (sql w)"
    and reps: "ag_Replicas (Spec ag) = pre @ r # rest"
    and pre: "\<forall>q \<in> set pre. rep_ServerName q = known_primary ag \<or> role (sql w) (rep_ServerName q) = []"
    and r: "rep_ServerName r \<noteq> known_primary ag" "role (sql w) (rep_ServerName r) = ''SECONDARY''"
    and cool: "cooled_down A ag"
    and lease: "\<And>w' :: ('k, 'c) world. fst (tryAcquireLease A (cr_Namespace ag) (lease_name ag) w') = Inr True"
    and post: "\<And>st' w'. ok (sql w') \<Longrightarrow> role (sql w') = (role (sql w))(rep_ServerName r := ''PRIMARY'') \<Longrightarrow>
      objs (kube w') = (objs (kube w))(request_of ag \<mapsto> ag\<lparr>Status := st'\<rparr>) \<Longrightarrow>
      PrimaryReplica st' = rep_ServerName r \<Longrightarrow> AutoFailoverCount st' = wrap32 (AutoFailoverCount (Status ag) + 1) \<Longrightarrow>
      LastAutoFailoverTime st' \<noteq> None \<Longrightarrow>
      ready_status (ag\<lparr>Status := st'\<rparr>) = Some (ConditionFalse, ''AutoFailoverExecuted'') \<Longrightarrow> Q (Result (5 * second)) w'"
  shows "wp (handleAutoFailover R A ag requeue) w Q E"
proof -
  have go: "wp (failover_with_lease R A ag requeue) w1 Q E" if w1: "only_api objs secs srvs w w1" for w1
  proof -
    obtain w2 where l: "tryAcquireLease A (cr_Namespace ag) (lease_name ag) w1 = (Inr True, w2)"
      using lease [of w1] by (cases "tryAcquireLease A (cr_Namespace ag) (lease_name ag) w1") auto
    have "always (tryAcquireLease A (cr_Namespace ag) (lease_name ag)) w1 (only_api objs secs srvs w1)"
      by (rule wp_tryAcquireLease [OF env])
    then have w2: "only_api objs secs srvs w w2" using l only_api_trans [OF w1] by (simp add: wp_def)
    have "wp (try_failover R A ag (known_primary ag) requeue (pre @ r # rest)) w2 Q E"
      by (rule try_failover_first [OF laws env _ live _ name _ refl])
         (use base con c pre r w2 in \<open>auto simp: only_api_def same_api_def all_connect_def reps intro: post\<close>)
    then show ?thesis by (simp add: failover_with_lease_def wp_attempt wp_def [of "tryAcquireLease A (cr_Namespace ag) (lease_name ag)"] l reps)
  qed
  show ?thesis
  proof (cases "LastAutoFailoverTime (Status ag)")
    case None
    then show ?thesis using go [of w] by (simp add: handleAutoFailover_def)
  next
    case (Some t)
    then have late: "ag_cooldown A ag \<le> saturate64 (fst (Now A k) - t)" for k using cool by (simp add: cooled_down_def)
    show ?thesis
      unfolding handleAutoFailover_def Some option.case wp_attempt
    proof (rule wp_time_since [OF env])
      fix d w1 assume "only_api objs secs srvs w w1" "d = saturate64 (fst (Now A (kube w)) - t)"
      then show "wp (if d < ag_cooldown A ag then ret (Result (wrap64 (ag_cooldown A ag - d))) else failover_with_lease R A ag requeue) w1 Q E"
        using go [of w1] late [of "kube w"] by simp
    qed
  qed
qed

end

end
