(* ===== verification/AG_Failover.thy ===== *)
theory AG_Failover
  imports AG_Controller
begin

text \<open>
  Automatic failover of an availability group on a fleet of in-memory servers
  (\<open>handleAutoFailover\<close> in \<open>internal/controller/availabilitygroup_controller.go\<close>): the contracts of
  \<open>ag_failover\<close> and \<open>ag_responsive\<close> hold of the fleet, and so do the theorems.
\<close>

section \<open>Automatic failover on the fleet\<close>

text \<open>
  Every server knows of its own part of the group: it is the only replica in its own list,
  primary or secondary.
\<close>

definition own_view :: "string \<Rightarrow> string \<Rightarrow> MockClient \<Rightarrow> bool" where
  "own_view agn s m \<longleftrightarrow> (\<forall>ag. mags m agn = Some ag \<longrightarrow> (\<exists>r. ma_Replicas ag = [r] \<and> rs_ServerName r = s
     \<and> (rs_Role r = ''PRIMARY'' \<or> rs_Role r = ''SECONDARY'')))"

definition own_views :: "string \<Rightarrow> (string \<Rightarrow> MockClient) \<Rightarrow> bool" where
  "own_views agn f \<longleftrightarrow> (\<forall>s. own_view agn s (f s))"

lemma own_view_track [simp]: "own_view agn s (track m c) = own_view agn s c"
  by (simp add: own_view_def preamble_track)

lemma own_views_upd: "own_views agn f \<Longrightarrow> own_view agn s c \<Longrightarrow> own_views agn (f(s := c))"
  by (simp add: own_views_def)

lemma own_views_same: "own_views agn f \<Longrightarrow> own_views agn (f(s := track m (f s)))"
  by (simp add: own_views_def)

lemma guarded_keeps:
  assumes "P (track m s)" "P (snd (k (track m s)))"
  shows "P (snd (guarded m k s))"
  using assms by (auto simp: guarded_def connected_def Let_def split: option.split)

lemma own_view_force:
  assumes "own_view agn s m"
  shows "own_view agn s (snd (Mock_ForceFailoverAG agn m))"
  unfolding Mock_ForceFailoverAG_def
  by (rule guarded_keeps)
     (use assms in \<open>auto simp: own_view_def update_ag_def failover_ag_def preamble_track Let_def split: option.split if_splits\<close>)

lemma own_view_demote:
  assumes "own_view agn s m"
  shows "own_view agn s (snd (Mock_SetAGRoleSecondary agn m))"
  unfolding Mock_SetAGRoleSecondary_def
  by (rule guarded_keeps)
     (use assms in \<open>auto simp: own_view_def update_ag_def demote_all_def preamble_track split: option.split\<close>)

lemma own_view_drop:
  assumes "own_view agn s m"
  shows "own_view agn s (snd (Mock_DropAG agn m))"
  unfolding Mock_DropAG_def
  by (rule guarded_keeps) (use assms in \<open>auto simp: own_view_def preamble_track\<close>)

lemma mock_failover_simps:
  "ForceFailoverAG (ags mock_client) = Mock_ForceFailoverAG" "GetAGStatus (ags mock_client) = Mock_GetAGStatus"
  "Ping mock_client = Mock_Ping"
  by (simp_all add: mock_client_def)

lemma fleet_ping: "Ping (fleet_client cl s) = on_server s (Ping cl)"
  by (simp add: fleet_client_def)

lemma mock_ping_track: "snd (Mock_Ping s) = track ''Ping'' s"
  by (auto simp: Mock_Ping_def guarded_def connected_def Let_def split: option.split)

lemma mock_status_track: "snd (Mock_GetAGStatus agn s) = track ''GetAGStatus'' s"
  by (auto simp: Mock_GetAGStatus_def guarded_def connected_def Let_def split: option.split)

text \<open>What the role of a server says about its entry.\<close>

lemma fleet_role_eq:
  assumes "own_view agn s (f s)"
  shows "fleet_role agn f s =
    (if ConnectError (f s) = None \<and> MethodErrors (f s) ''GetAGReplicaRole'' = None
     then (case mags (f s) agn of None \<Rightarrow> [] | Some ag \<Rightarrow> rs_Role (hd (ma_Replicas ag))) else [])"
  using assms
  by (auto simp: fleet_role_def Mock_GetAGReplicaRole_def guarded_def connected_def preamble_track Let_def own_view_def
      checkConnect_def checkMethodError_def answer_def split: option.split)

lemma fleet_role_forced:
  assumes o: "own_view agn s (f s)" and f: "Mock_ForceFailoverAG agn (f s) = (u, c)"
  shows "\<forall>e. u = Inl e \<longrightarrow> fleet_role agn (f(s := c)) s = fleet_role agn f s"
    and "u = Inr () \<Longrightarrow> fleet_role agn f s = ''SECONDARY'' \<Longrightarrow> fleet_role agn (f(s := c)) s = ''PRIMARY''"
proof -
  have c: "own_view agn s c" using own_view_force [OF o] f by (metis snd_conv)
  show "\<forall>e. u = Inl e \<longrightarrow> fleet_role agn (f(s := c)) s = fleet_role agn f s"
    using f by (auto simp: Mock_ForceFailoverAG_def guarded_def connected_def Let_def split: option.splits)
  show "fleet_role agn (f(s := c)) s = ''PRIMARY''" if u: "u = Inr ()" and r: "fleet_role agn f s = ''SECONDARY''"
  proof -
    from r obtain ag where ag: "mags (f s) agn = Some ag" "rs_Role (hd (ma_Replicas ag)) = ''SECONDARY''"
      and up: "ConnectError (f s) = None" "MethodErrors (f s) ''GetAGReplicaRole'' = None"
      unfolding fleet_role_eq [of agn s f, OF o] by (auto split: if_splits option.splits)
    obtain r where reps: "ma_Replicas ag = [r]" using o ag(1) by (auto simp: own_view_def)
    have "c = update_ag agn failover_ag (track ''ForceFailoverAG'' (f s))"
      using f u by (auto simp: Mock_ForceFailoverAG_def guarded_def connected_def Let_def split: option.splits)
    then have "mags c agn = Some (failover_ag ag)" "ConnectError c = None" "MethodErrors c ''GetAGReplicaRole'' = None"
      using ag up by (simp_all add: update_ag_def preamble_track track_def)
    then show ?thesis
      using fleet_role_eq [of agn s "f(s := c)"] c reps ag(2) by (simp add: failover_ag_def)
  qed
qed

interpretation mock_failover: ag_failover "fleet_client mock_client" "own_views agn" "fleet_role agn" "fleet_lsn agn" agn for agn
  apply unfold_locales
  subgoal by (auto simp: fleet_ags_simps mock_ags_simps mock_queries_track fleet_queries own_views_same dest!: on_serverD)
  subgoal by (auto simp: fleet_ags_simps mock_ags_simps mock_queries_track fleet_queries own_views_same dest!: on_serverD)
  subgoal for f s u f'
    using own_view_demote [of agn s "f s"]
    by (auto simp: fleet_ags_simps mock_ags_simps fleet_role_other own_views_def dest!: on_serverD)
  subgoal for f s u f'
    using own_view_drop [of agn s "f s"]
    by (auto simp: fleet_ags_simps mock_ags_simps fleet_role_other own_views_def dest!: on_serverD)
  subgoal by (auto simp: fleet_ags_simps mock_ags_simps Mock_Close_def own_views_same)
  subgoal premises p for f s u f'
  proof -
    have f': "u = fst (Mock_ForceFailoverAG agn (f s))" "f' = f(s := snd (Mock_ForceFailoverAG agn (f s)))"
      using on_serverD [OF p(2) [unfolded fleet_ags_simps mock_failover_simps]] by auto
    have o: "own_view agn s (f s)" using p(1) by (simp add: own_views_def)
    have eq: "Mock_ForceFailoverAG agn (f s) = (u, snd (Mock_ForceFailoverAG agn (f s)))" using f'(1) by simp
    from own_views_upd [OF p(1) own_view_force [OF o]] show ?thesis
      unfolding f'(2) using fleet_role_forced [of agn s f, OF o eq] by (simp add: fleet_role_other)
  qed
  subgoal by (auto simp: fleet_ags_simps mock_failover_simps mock_status_track own_views_same dest!: on_serverD)
  subgoal by (auto simp: fleet_ping mock_failover_simps mock_ping_track own_views_same dest!: on_serverD)
  done

text \<open>Servers that may be unreachable, but have no errors injected into single methods.\<close>

definition up_or_down :: "string \<Rightarrow> (string \<Rightarrow> MockClient) \<Rightarrow> bool" where
  "up_or_down agn f \<longleftrightarrow> own_views agn f \<and> (\<forall>s. MethodErrors (f s) = Map.empty)"

lemma MethodErrors_track [simp]: "MethodErrors (track m c) = MethodErrors c"
  by (simp add: track_def)

lemma mock_ag_steps_errors:
  "MethodErrors (snd (Mock_SetAGRoleSecondary agn c)) = MethodErrors c" "MethodErrors (snd (Mock_DropAG agn c)) = MethodErrors c"
  "MethodErrors (snd (Mock_ForceFailoverAG agn c)) = MethodErrors c"
  by (auto simp: Mock_SetAGRoleSecondary_def Mock_DropAG_def Mock_ForceFailoverAG_def guarded_def connected_def Let_def
      update_ag_def split: option.split)

interpretation mock_responsive: ag_responsive "fleet_client mock_client" "up_or_down agn" "fleet_role agn" "fleet_lsn agn" agn for agn
  apply unfold_locales
  subgoal for f s r f'
    using mock_failover.role_law [of agn f s r f']
    by (auto simp: up_or_down_def fleet_ags_simps mock_ags_simps mock_queries_track dest: on_serverD)
  subgoal for f s r f'
    using mock_failover.lsn_law [of agn f s r f']
    by (auto simp: up_or_down_def fleet_ags_simps mock_ags_simps mock_queries_track dest: on_serverD)
  subgoal for f s r f'
    using mock_failover.demote_frame [of agn f s r f']
    by (auto simp: up_or_down_def fleet_ags_simps mock_ags_simps mock_ag_steps_errors dest: on_serverD)
  subgoal for f s r f'
    using mock_failover.drop_frame [of agn f s r f']
    by (auto simp: up_or_down_def fleet_ags_simps mock_ags_simps mock_ag_steps_errors dest: on_serverD)
  subgoal for f s
    using mock_failover.close_law [of agn f s]
    by (auto simp: up_or_down_def fleet_ags_simps mock_ags_simps Mock_Close_def)
  subgoal for f s u f'
    using mock_failover.force_law [of agn f s u f']
    by (auto simp: up_or_down_def fleet_ags_simps mock_failover_simps mock_ag_steps_errors dest: on_serverD)
  subgoal for f s r f'
    using mock_failover.status_law [of agn f s r f']
    by (auto simp: up_or_down_def fleet_ags_simps mock_failover_simps mock_status_track dest: on_serverD)
  subgoal for f s r f'
    using mock_failover.ping_law [of agn f s r f']
    by (auto simp: up_or_down_def fleet_ping mock_failover_simps mock_ping_track dest: on_serverD)
  subgoal premises p for f s x f'
  proof -
    have "own_view agn s (f s)" using p(1) by (simp add: up_or_down_def own_views_def)
    with p(2) show ?thesis
      by (auto simp: fleet_ags_simps mock_ags_simps on_server_def Mock_GetAGReplicaRole_def guarded_def connected_def
          own_view_def preamble_track Let_def split: prod.splits option.splits)
  qed
  subgoal premises p for f s u f'
  proof -
    have o: "own_view agn s (f s)" "MethodErrors (f s) = Map.empty" using p(1) by (simp_all add: up_or_down_def own_views_def)
    from p(2) have "ConnectError (f s) = None" unfolding fleet_role_eq [of agn s f, OF o(1)] by (auto split: if_splits)
    then show ?thesis
      using p(3) o(2) by (auto simp: fleet_ags_simps mock_failover_simps on_server_def Mock_ForceFailoverAG_def healthy_def)
  qed
  done

section \<open>A whole reconciliation whose primary is down\<close>

lemma primary_spec_in: "ag_Replicas (Spec ag) \<noteq> [] \<Longrightarrow> primary_spec ag \<in> set (ag_Replicas (Spec ag))"
  by (auto simp: primary_spec_def find_Some_iff split: option.split)

text \<open>The clock may have moved, the servers and the stored resources not.\<close>

lemma wp_handleAutoFailover_waits:
  assumes env: "env_laws A objs secs srvs" and t: "LastAutoFailoverTime (Status ag) = Some t"
    and early: "saturate64 (fst (Now A (kube w)) - t) < ag_cooldown A ag"
    and post: "\<And>w'. only_api objs secs srvs w w' \<Longrightarrow>
      Q (Result (wrap64 (ag_cooldown A ag - saturate64 (fst (Now A (kube w)) - t)))) w'"
  shows "wp (handleAutoFailover R A ag requeue) w Q E"
  unfolding handleAutoFailover_def t option.case wp_attempt
  by (rule wp_time_since [OF env]) (use early post in \<open>simp add: wp_ret del: ret_apply\<close>)

context ag_responsive begin

lemma AG_Reconcile_fails_over:
  fixes w :: "('k, 'c) world"
  assumes laws: "api_laws R objs secs srvs" and env: "env_laws A objs secs srvs"
    and ag: "objs (kube w) (ns, n) = Some ag" "request_of ag = (ns, n)" and live: "\<not> cr_Deleting ag"
    and auto: "ag_AutoFailover (Spec ag) = Some True"
    and con: "all_connect R (secs (kube w)) ag conn" and name: "ag_AGName (Spec ag) = agn" and c: "ok (sql w)"
    and reps: "ag_Replicas (Spec ag) = pre @ r # rest"
    and down: "\<exists>e. fst (Ping (conn (rep_ServerName (primary_spec ag))) (sql w)) = Inl e"
    and pre: "\<forall>q \<in> set pre. rep_ServerName q = known_primary ag \<or> role (sql w) (rep_ServerName q) = []"
    and r: "rep_ServerName r \<noteq> known_primary ag" "role (sql w) (rep_ServerName r) = ''SECONDARY''"
    and cool: "cooled_down A ag"
    and lease: "\<And>w' :: ('k, 'c) world. fst (tryAcquireLease A ns (lease_name ag) w') = Inr True"
    and post: "\<And>st' w'. ok (sql w') \<Longrightarrow> role (sql w') = (role (sql w))(rep_ServerName r := ''PRIMARY'') \<Longrightarrow>
      objs (kube w') = (objs (kube w))((ns, n) \<mapsto> (finalized (kclient R) ag)\<lparr>Status := st'\<rparr>) \<Longrightarrow>
      PrimaryReplica st' = rep_ServerName r \<Longrightarrow> AutoFailoverCount st' = wrap32 (AutoFailoverCount (Status ag) + 1) \<Longrightarrow>
      ready_status ((finalized (kclient R) ag)\<lparr>Status := st'\<rparr>) = Some (ConditionFalse, ''AutoFailoverExecuted'') \<Longrightarrow>
      Q (Result (5 * second)) w'"
  shows "wp (AG_Reconcile R A ns n) w Q E"
proof -
  let ?ag = "finalized (kclient R) ag"
  have ns: "cr_Namespace ag = ns" using ag(2) by (simp add: request_of_def)
  have same: "primary_spec ?ag = primary_spec ag" "known_primary ?ag = known_primary ag" "lease_name ?ag = lease_name ag"
    "cooled_down A ?ag = cooled_down A ag"
    by (simp_all add: primary_spec_def known_primary_def lease_name_def cooled_down_def ag_cooldown_def split: option.split)
  let ?p = "primary_spec ag"
  have "?p \<in> set (ag_Replicas (Spec ag))" by (rule primary_spec_in) (simp add: reps)
  then obtain u pw where
    up: "secret_credentials (secs (kube w)) ns (CredentialsSecret (rep_Server ?p)) = Some (u, pw)" and
    cl: "connectToSQL (rep_Server ?p) u pw (SQLClientFactory R) = Inr (conn (rep_ServerName ?p))"
    using con by (auto simp: all_connect_def connects_def ns)
  from down obtain e c1 where ping: "Ping (conn (rep_ServerName ?p)) (sql w) = (Inl e, c1)"
    by (cases "Ping (conn (rep_ServerName ?p)) (sql w)") auto
  have c1: "ok c1" "role c1 = role (sql w)" using ping_law [OF c ping] by auto
  note c2 = close_law [OF c1(1), of "rep_ServerName ?p"]
  have connected: "wp (AG_connected R A ?ag) (w\<lparr>kube := k'\<rparr>) Q E"
    if k': "objs k' = (objs (kube w))((ns, n) \<mapsto> ?ag)" "secs k' = secs (kube w)" "srvs k' = srvs (kube w)" for k'
  proof -
    let ?w = "close_conn (conn (rep_ServerName ?p)) (w\<lparr>kube := k', sql := c1\<rparr>)"
    have "wp (handleAutoFailover R A ?ag (requeue_after A ?ag)) ?w
       (\<lambda>x t. Q x (close_conn (conn (rep_ServerName ?p)) t)) (\<lambda>_ _. False)"
      apply (rule handleAutoFailover_first [OF laws env, where pre = pre and r = r and rest = rest])
      subgoal using k' ag by simp
      subgoal using live by simp
      subgoal using con k' by (simp add: all_connect_def)
      subgoal using name by simp
      subgoal using c2 by simp
      subgoal using reps by simp
      subgoal using pre same c1 c2 by simp
      subgoal using r same by simp
      subgoal using r c1 c2 by simp
      subgoal using cool same by simp
      subgoal using lease same ns by simp
      subgoal premises p for st' w'
        by (rule post [where st' = st']) (use p close_law [OF p(1), of "rep_ServerName ?p"] c1 c2 k' ag in auto)
      done
    then have fo: "wp (failover_or_requeue R A ?ag (requeue_after A ?ag)) ?w
       (\<lambda>x t. Q x (close_conn (conn (rep_ServerName ?p)) t)) (\<lambda>e t. E e (close_conn (conn (rep_ServerName ?p)) t))"
      unfolding failover_or_requeue_def wp_attempt by (rule wp_mono) (simp_all add: wp_ret del: ret_apply)
    have up': "secret_credentials (secs (kube (w\<lparr>kube := k'\<rparr>))) ns (CredentialsSecret (rep_Server ?p)) = Some (u, pw)"
      using up k' by simp
    show ?thesis
      unfolding AG_connected_def Let_def wp_attempt wp_on_kube same finalized_simps ns wp_getCredentialsFromSecret [OF laws up']
      using fo by (simp add: cl auto wp_deferred wp_attempt wp_on_sql wp_effect fails_eq [where m = "Ping _", OF ping])
  qed
  have "wp (ensure_finalizer R ag) w (\<lambda>x t. wp (if ag_Replicas (Spec x) = [] then fail index_panic else AG_connected R A x) t Q E) E"
    by (rule wp_ensure_finalizer [OF laws]) (use ag live connected reps in auto)
  then show ?thesis
    unfolding AG_Reconcile_def fetch_def wp_attempt wp_on_kube wp_GetCR [OF laws ag(1)] wp_if
    using live by (simp add: wp_attempt wp_fail del: fail_apply)
qed

end


text \<open>
  A failover changes the role of at most one server, and never that of the primary it takes
  to be lost: whatever the servers answer and whichever calls fail on them, there is no second
  promotion in the same pass.
\<close>

theorem AutoFailover_changes_one_server:
  fixes w :: "('k, string \<Rightarrow> MockClient) world"
  assumes "api_laws R objs secs srvs" and "env_laws A objs secs srvs"
    and "all_connect R (secs (kube w)) ag (fleet_client mock_client)" and "own_views (ag_AGName (Spec ag)) (sql w)"
  shows "always (handleAutoFailover R A ag requeue) w (\<lambda>w'. own_views (ag_AGName (Spec ag)) (sql w') \<and>
    spares (known_primary ag) (fleet_role (ag_AGName (Spec ag)) (sql w)) (fleet_role (ag_AGName (Spec ag)) (sql w')))"
  by (rule mock_failover.handleAutoFailover_spares [OF assms(1-3) refl assms(4)])

text \<open>
  C8. The cooldown: until it has passed since the last automatic failover no server is even asked,
  whatever the servers are, and the next attempt is put off for exactly the time that is left.
\<close>

theorem AutoFailover_waits_for_cooldown:
  fixes w :: "('k, 'c) world"
  assumes "env_laws A objs secs srvs" and "LastAutoFailoverTime (Status ag) = Some t"
    and "t \<le> fst (Now A (kube w))" and "fst (Now A (kube w)) - t < ag_cooldown A ag" and "ag_cooldown A ag < 2 ^ 63"
  shows "succeeds (handleAutoFailover R A ag requeue) w (\<lambda>r w'. sql w' = sql w \<and> objs (kube w') = objs (kube w) \<and> RequeueAfter r = ag_cooldown A ag - (fst (Now A (kube w)) - t) \<and> 0 < RequeueAfter r)"
proof (rule wp_handleAutoFailover_waits [OF assms(1,2)])
  have sat: "saturate64 (fst (Now A (kube w)) - t) = fst (Now A (kube w)) - t"
    using assms(3-5) by (simp add: saturate64_def)
  then show "saturate64 (fst (Now A (kube w)) - t) < ag_cooldown A ag" using assms(4) by simp
  fix w' :: "('k, 'c) world" assume "only_api objs secs srvs w w'"
  moreover have "wrap64 (ag_cooldown A ag - (fst (Now A (kube w)) - t)) = ag_cooldown A ag - (fst (Now A (kube w)) - t)"
    by (rule wrap64_id) (use assms(3-5) in auto)
  ultimately show "sql w' = sql w \<and> objs (kube w') = objs (kube w) \<and>
      RequeueAfter (Result (wrap64 (ag_cooldown A ag - saturate64 (fst (Now A (kube w)) - t)))) =
        ag_cooldown A ag - (fst (Now A (kube w)) - t) \<and>
      0 < RequeueAfter (Result (wrap64 (ag_cooldown A ag - saturate64 (fst (Now A (kube w)) - t))))"
    using assms(4) by (simp add: sat only_api_def same_api_def)
qed

section \<open>Examples\<close>

text \<open>The primary \<open>s1\<close> is down, \<open>s2\<close> is its secondary.\<close>

definition ex_lost_primary :: "string \<Rightarrow> MockClient" where
  "ex_lost_primary s = (ex_fleet 0 s)\<lparr>ConnectError := (if s = ''s1'' then Some (Errorf ''down'') else None),
     mags := [''ag'' \<mapsto> \<lparr>ma_Name = ''ag'', ma_PrimaryReplica = s, ma_Replicas = [\<lparr>rs_ServerName = s,
        rs_Role = (if s = ''s1'' then ''PRIMARY'' else ''SECONDARY''),
        rs_SynchronizationState = ''SYNCHRONIZED'', rs_Connected = True\<rparr>], ma_Databases = [], ma_HasListener = False\<rparr>]\<rparr>"

lemma ex_lost_primary_simps [simp]:
  "up_or_down ''ag'' ex_lost_primary" "own_views ''ag'' ex_lost_primary" "ConnectError (ex_lost_primary ''s1'') \<noteq> None"
  "fleet_role ''ag'' ex_lost_primary ''s1'' = []" "fleet_role ''ag'' ex_lost_primary ''s2'' = ''SECONDARY''"
proof -
  show o: "own_views ''ag'' ex_lost_primary" by (auto simp: own_views_def own_view_def ex_lost_primary_def)
  show "up_or_down ''ag'' ex_lost_primary" unfolding up_or_down_def
    using o by (simp add: ex_lost_primary_def ex_fleet_def NewMockClient_def)
  show "ConnectError (ex_lost_primary ''s1'') \<noteq> None" by (simp add: ex_lost_primary_def)
  have v: "own_view ''ag'' s (ex_lost_primary s)" for s using o by (simp add: own_views_def)
  show "fleet_role ''ag'' ex_lost_primary ''s1'' = []" "fleet_role ''ag'' ex_lost_primary ''s2'' = ''SECONDARY''"
    using fleet_role_eq [of "''ag''" "''s1''" ex_lost_primary, OF v] fleet_role_eq [of "''ag''" "''s2''" ex_lost_primary, OF v]
    by (simp_all add: ex_lost_primary_def ex_fleet_def NewMockClient_def)
qed

lemma ex_group_more [simp]:
  "ag_Replicas (Spec (ex_group n)) = [ex_replica ''s1'', ex_replica ''s2'']" "rep_ServerName (ex_replica s) = s"
  "known_primary (ex_group n) = ''s1''" "rep_ServerName (primary_spec (ex_group n)) = ''s1''"
  "ag_AutoFailover (Spec (ex_group n)) = Some True" "cooled_down ex_env (ex_group n)"
  by (simp_all add: ex_group_def ex_agspec_def ex_agstatus_def ex_replica_def known_primary_def primary_spec_def cooled_down_def)

lemma ex_lease: "fst (tryAcquireLease ex_env ns l w) = Inr True"
  by (simp add: tryAcquireLease_def ex_env_def read_clock_def attempt_def on_kube_def succeeded_def ret_def)


theorem AutoFailover_changes_one_server_witness:
  "always (handleAutoFailover ex_fleet_reconciler ex_env (ex_group 1) 0) (ex_world (ex_group 1) ex_lost_primary)
     (\<lambda>w'. spares ''s1'' (fleet_role ''ag'' ex_lost_primary) (fleet_role ''ag'' (sql w')))"
  by (rule wp_mono [OF AutoFailover_changes_one_server [OF ex_fleet_laws ex_env_laws, where ag = "ex_group 1"]])
     (simp_all add: ex_all_connect)

theorem AutoFailover_waits_for_cooldown_witness:
  "succeeds (handleAutoFailover ex_fleet_reconciler ex_env
       ((ex_group 1)\<lparr>Status := (ex_agstatus 1)\<lparr>LastAutoFailoverTime := Some 400\<rparr>\<rparr>) 0) (ex_world (ex_group 1) ex_lost_primary)
     (\<lambda>r w'. sql w' = ex_lost_primary \<and> RequeueAfter r = 60 * second - 600)"
  by (rule wp_mono [OF AutoFailover_waits_for_cooldown [OF ex_env_laws, where t = 400]])
     (simp_all add: ex_env_def ag_cooldown_def ex_group_def ex_agspec_def second_def)

end
