(* ===== verification/AG_Sync.thy ===== *)
theory AG_Sync
  imports AG_Failover
begin

text \<open>
  What a reconciliation of an \<open>AvailabilityGroup\<close> achieves while the primary answers
  (\<open>internal/controller/availabilitygroup_controller.go\<close>, steps 5 to 9 of \<open>Reconcile\<close>), and its
  deletion. The group is seen through the one server that all replicas' clients talk to.
\<close>

section \<open>The contract of the availability group operations\<close>

record GroupView =
  gv_Primary :: string
  gv_Replicas :: "AGReplicaState list"
  gv_Databases :: "string set"
  gv_HasListener :: bool

locale group_server =
  fixes cl :: "'c SQLClient"
    and ok :: "'c \<Rightarrow> bool"
    and view :: "'c \<Rightarrow> string \<Rightarrow> GroupView option"
    and created :: "AGConfig \<Rightarrow> GroupView"
  assumes exists_law: "ok c \<Longrightarrow> reads ok view (AGExists (ags cl) n) c (view c n \<noteq> None)"
    and create_law: "ok c \<Longrightarrow> writes ok view (CreateAG (ags cl) cfg) c ((view c)(ac_Name cfg \<mapsto> created cfg))"
    and status_law: "ok c \<Longrightarrow> view c n = Some v \<Longrightarrow> \<exists>st. reads ok view (GetAGStatus (ags cl) n) c st
      \<and> ags_PrimaryReplica st = gv_Primary v \<and> ags_Replicas st = gv_Replicas v \<and> ds_Name ` set (ags_Databases st) = gv_Databases v"
    and add_law: "ok c \<Longrightarrow> view c n = Some v \<Longrightarrow>
      writes ok view (AddDatabaseToAG (ags cl) n d) c ((view c)(n \<mapsto> v\<lparr>gv_Databases := insert d (gv_Databases v)\<rparr>))"
    and remove_law: "ok c \<Longrightarrow> view c n = Some v \<Longrightarrow>
      writes ok view (RemoveDatabaseFromAG (ags cl) n d) c ((view c)(n \<mapsto> v\<lparr>gv_Databases := gv_Databases v - {d}\<rparr>))"
    and listener_law: "ok c \<Longrightarrow> view c n = Some v \<Longrightarrow>
      writes ok view (AddListenerToAG (ags cl) n li) c ((view c)(n \<mapsto> v\<lparr>gv_HasListener := True\<rparr>))"
    and drop_law: "ok c \<Longrightarrow> writes ok view (DropAG (ags cl) n) c ((view c)(n := None))"
    and endpoint_law: "ok c \<Longrightarrow> \<exists>b. reads ok view (HADREndpointExists (ags cl)) c b"
    and create_endpoint_law: "ok c \<Longrightarrow> writes ok view (CreateHADREndpoint (ags cl) port) c (view c)"
    and join_law: "ok c \<Longrightarrow> writes ok view (JoinAG (ags cl) n ct) c (view c)"
    and grant_law: "ok c \<Longrightarrow> writes ok view (GrantAGCreateDatabase (ags cl) n) c (view c)"
    and close_law: "ok c \<Longrightarrow> ok (CloseClient cl c) \<and> view (CloseClient cl c) = view c"

text \<open>Every connection leads to this server, or fails.\<close>

definition one_server :: "('cr, 'k, 'c) Reconciler \<Rightarrow> 'c SQLClient \<Rightarrow> bool" where
  "one_server R cl \<longleftrightarrow> (\<forall>h p u pw t c. SQLClientFactory R h p u pw t = Inr c \<longrightarrow> c = cl)"

lemma one_serverD: "one_server R cl \<Longrightarrow> connectToSQL s u p (SQLClientFactory R) = Inr c \<Longrightarrow> c = cl"
  by (auto simp: one_server_def connectToSQL_def Let_def)

text \<open>The content of the servers and the API server are as they were.\<close>

definition still :: "('c \<Rightarrow> bool) \<Rightarrow> ('c \<Rightarrow> 'v) \<Rightarrow> ('k, 'c) world \<Rightarrow> ('k, 'c) world \<Rightarrow> bool" where
  "still ok view w w' \<longleftrightarrow> ok (sql w') \<and> view (sql w') = view (sql w) \<and> kube w' = kube w"

text \<open>Steps that leave everything as it was, whether they fail or not, and how they compose.\<close>

definition harmless :: "('c \<Rightarrow> bool) \<Rightarrow> ('c \<Rightarrow> 'v) \<Rightarrow> ('a, ('k, 'c) world) op \<Rightarrow> bool" where
  "harmless ok view m \<longleftrightarrow> (\<forall>w. ok (sql w) \<longrightarrow> always m w (still ok view w))"

named_theorems harmless_intros

lemma wp_harmless:
  assumes "harmless ok view m" and "ok (sql w)" and "\<And>x w'. still ok view w w' \<Longrightarrow> Q x w'" and "\<And>e w'. still ok view w w' \<Longrightarrow> E e w'"
  shows "wp m w Q E"
proof -
  have "always m w (still ok view w)" using assms(1,2) by (simp add: harmless_def)
  then show ?thesis by (rule wp_mono) (auto intro: assms(3,4))
qed

lemma still_refl: "ok (sql w) \<Longrightarrow> still ok view w w"
  by (simp add: still_def)

lemma still_trans: "still ok view w w1 \<Longrightarrow> still ok view w1 w2 \<Longrightarrow> still ok view w w2"
  by (simp add: still_def)

lemma harmless_pure [harmless_intros]: "harmless ok view (ret x)" "harmless ok view (fail e)"
  by (simp_all add: harmless_def wp_ret wp_fail still_def del: ret_apply fail_apply)

lemma harmless_attempt [harmless_intros]:
  fixes m :: "('a, ('k, 'c) world) op"
  assumes "harmless ok view m" and "\<And>e. harmless ok view (h e)" and "\<And>x. harmless ok view (k x)"
  shows "harmless ok view (attempt m h k)"
  unfolding harmless_def
proof (intro allI impI)
  fix w :: "('k, 'c) world" assume w: "ok (sql w)"
  show "always (attempt m h k) w (still ok view w)"
    unfolding wp_attempt
    by (rule wp_harmless [OF assms(1) w]; rule wp_harmless [OF assms(3)] wp_harmless [OF assms(2)])
       (auto simp: still_def)
qed

lemma harmless_or_fail [harmless_intros]:
  fixes m :: "('a, ('k, 'c) world) op"
  assumes "harmless ok view m" and "\<And>x. harmless ok view (k x)"
  shows "harmless ok view (or_fail e m k)"
  unfolding harmless_def
proof (intro allI impI)
  fix w :: "('k, 'c) world" assume w: "ok (sql w)"
  show "always (or_fail e m k) w (still ok view w)"
    unfolding wp_or_fail
    by (rule wp_harmless [OF assms(1) w]) (rule wp_harmless [OF assms(2)], auto simp: still_def)
qed

lemma harmless_andthen [harmless_intros]:
  fixes m :: "(unit, ('k, 'c) world) op"
  assumes "harmless ok view m" and "harmless ok view k"
  shows "harmless ok view (andthen m k)"
  unfolding harmless_def
proof (intro allI impI)
  fix w :: "('k, 'c) world" assume w: "ok (sql w)"
  show "always (andthen m k) w (still ok view w)"
    unfolding wp_andthen
    by (rule wp_harmless [OF assms(1) w]) (rule wp_harmless [OF assms(2)], auto simp: still_def)
qed

lemma harmless_event [harmless_intros]:
  fixes m :: "('a, ('k, 'c) world) op"
  assumes "harmless ok view m"
  shows "harmless ok view (effect (record_event ty r msg) m)"
  unfolding harmless_def wp_effect
proof (intro allI impI)
  fix w :: "('k, 'c) world" assume w: "ok (sql w)"
  show "always m (record_event ty r msg w) (still ok view w)"
    by (rule wp_harmless [OF assms]) (use w in \<open>auto simp: still_def\<close>)
qed

lemma harmless_cases [harmless_intros]:
  "(\<And>a b. harmless ok view (f a b)) \<Longrightarrow> harmless ok view (case x of (a, b) \<Rightarrow> f a b)"
  "(\<And>a. y = Inl a \<Longrightarrow> harmless ok view (g a)) \<Longrightarrow> (\<And>b. y = Inr b \<Longrightarrow> harmless ok view (h b)) \<Longrightarrow>
    harmless ok view (case y of Inl a \<Rightarrow> g a | Inr b \<Rightarrow> h b)"
  "(z = None \<Longrightarrow> harmless ok view n) \<Longrightarrow> (\<And>b. z = Some b \<Longrightarrow> harmless ok view (k b)) \<Longrightarrow>
    harmless ok view (case z of None \<Rightarrow> n | Some b \<Rightarrow> k b)"
  by (cases x; simp) (cases y; simp; fail | cases z; simp)+

lemma harmless_if [harmless_intros]:
  "(b \<Longrightarrow> harmless ok view m) \<Longrightarrow> (\<not> b \<Longrightarrow> harmless ok view m') \<Longrightarrow> harmless ok view (if b then m else m')"
  by simp

lemma harmless_for_each [harmless_intros]:
  fixes f :: "'a \<Rightarrow> (unit, ('k, 'c) world) op"
  shows "(\<And>x. x \<in> set xs \<Longrightarrow> harmless ok view (f x)) \<Longrightarrow> harmless ok view (for_each f xs)"
  by (induction xs) (auto intro: harmless_intros)

lemma harmless_credentials:
  fixes ok :: "'c \<Rightarrow> bool" and R :: "(('spec, 'st) CR, 'k, 'c) Reconciler"
  assumes "api_laws R objs secs srvs"
  shows "harmless ok view (on_kube (getCredentialsFromSecret (kclient R) ns n))"
  unfolding harmless_def
proof (intro allI impI)
  fix w :: "('k, 'c) world" assume w: "ok (sql w)"
  obtain r where "getCredentialsFromSecret (kclient R) ns n (kube w) = (r, kube w)"
    using getCredentials_reads(1) [OF assms, of ns n "kube w"] by (metis prod.collapse)
  then show "always (on_kube (getCredentialsFromSecret (kclient R) ns n)) w (still ok view w)"
    using w by (cases r) (simp_all add: wp_def still_def)
qed

lemma harmless_read [harmless_intros]: "(\<And>c. ok c \<Longrightarrow> \<exists>x. reads ok view m c x) \<Longrightarrow> harmless ok view (on_sql m)"
  unfolding harmless_def reads_def wp_on_sql wp_def still_def by fastforce

lemma writes_reads: "writes ok view m c (view c) \<Longrightarrow> \<exists>x. reads ok view m c x"
  by (auto simp: reads_def writes_def)

context group_server begin

lemma harmless_close [harmless_intros]: "harmless ok view m \<Longrightarrow> harmless ok view (deferred (close_conn cl) m)"
  unfolding harmless_def wp_deferred using close_law by (auto simp: still_def elim!: wp_mono)

lemma wp_read: "reads ok view m (sql w) x \<Longrightarrow> (\<And>w'. still ok view w w' \<Longrightarrow> Q x w') \<Longrightarrow> wp (on_sql m) w Q E"
  unfolding wp_on_sql by (erule wp_reads) (auto simp: still_def)

lemmas group_reads = endpoint_law writes_reads [OF create_endpoint_law] writes_reads [OF join_law] writes_reads [OF grant_law]

text \<open>Joining and rejoining replicas leaves the group itself as it is, whatever fails.\<close>

lemma wp_ensure_endpoint:
  assumes "ok (sql w)" and "\<And>w'. still ok view w w' \<Longrightarrow> Q () w'"
  shows "wp (ensure_endpoint cl) w Q E"
proof -
  obtain b where b: "reads ok view (HADREndpointExists (ags cl)) (sql w) b" using endpoint_law [OF assms(1)] by blast
  show ?thesis
    unfolding ensure_endpoint_def wp_or_fail wp_if wp_effect wp_ret
    apply (rule wp_read [OF b])
    subgoal premises p for w1
    proof -
      obtain x where x: "reads ok view (CreateHADREndpoint (ags cl) hadr_port) (sql w1) x"
        using writes_reads [OF create_endpoint_law [of "sql w1" hadr_port]] p by (auto simp: still_def)
      show ?thesis using p by (auto intro!: assms(2) wp_read [OF x] simp: still_def)
    qed
    done
qed

lemma harmless_join:
  assumes "api_laws R objs secs srvs" and "one_server R cl"
  shows "harmless ok view (join_replica R ag r)"
proof -
  have "harmless ok view (deferred (close_conn conn) (
            or_fail (''failed to check HADR endpoint on '' @ rep_ServerName r) (on_sql (HADREndpointExists (ags conn))) (\<lambda>endpointExists.
            andthen (if endpointExists then ret ()
                     else or_fail (''failed to create HADR endpoint on '' @ rep_ServerName r)
                            (on_sql (CreateHADREndpoint (ags conn) hadr_port)) ret) (
            or_fail (''failed to join AG on replica '' @ rep_ServerName r)
              (on_sql (JoinAG (ags conn) (ag_AGName (Spec ag)) (ag_cluster_type ag))) (\<lambda>_.
            if rep_SeedingMode r = ''Automatic'' then
              or_fail (''failed to grant create database on replica '' @ rep_ServerName r)
                (on_sql (GrantAGCreateDatabase (ags conn) (ag_AGName (Spec ag)))) ret
            else ret ())))))" if "conn = cl" for conn
    unfolding that by (intro harmless_intros group_reads)
  then show ?thesis
    unfolding join_replica_def Let_def
    by (intro harmless_intros harmless_credentials [OF assms(1)]) (auto dest: one_serverD [OF assms(2)])
qed

lemma harmless_rejoin:
  assumes "api_laws R objs secs srvs" and "one_server R cl"
  shows "harmless ok view (tryRejoinReplica R ag r)"
proof -
  have "harmless ok view (deferred (\<lambda>w. w\<lparr>sql := CloseClient conn (sql w)\<rparr>) (
        attempt (on_sql (JoinAG (ags conn) (ag_AGName (Spec ag)) (ag_cluster_type ag))) (\<lambda>_. ret ()) (\<lambda>_.
        effect (Normal ''ReplicaRejoined''
          (''Replica '' @ rep_ServerName r @ '' rejoined AG '' @ ag_AGName (Spec ag))) (ret ()))))" if "conn = cl" for conn
    unfolding that close_conn_def [symmetric] by (intro harmless_intros group_reads)
  then show ?thesis
    unfolding tryRejoinReplica_def
    by (intro harmless_intros harmless_credentials [OF assms(1)]) (auto dest: one_serverD [OF assms(2)])
qed

lemma harmless_join_all:
  assumes "api_laws R objs secs srvs" and "one_server R cl"
  shows "harmless ok view (joinSecondaries R ag)"
  unfolding joinSecondaries_def by (intro harmless_intros harmless_join [OF assms])

lemma wp_rejoin:
  assumes laws: "api_laws R objs secs srvs" and one: "one_server R cl" and c: "ok (sql w)"
    and post: "\<And>w'. still ok view w w' \<Longrightarrow> Q () w'"
  shows "wp (rejoin_replicas R ag st) w Q E"
  unfolding rejoin_replicas_def
proof (rule wp_for_each_inv [where I = "still ok view w"])
  fix r w1 assume w1: "still ok view w w1"
  have "wp (tryRejoinReplica R ag r) w1 (\<lambda>_ _. True) E"
    unfolding tryRejoinReplica_def wp_attempt wp_ret
    by (rule wp_mono [OF always_True])
       (auto simp: wp_deferred wp_attempt wp_ret wp_effect simp del: ret_apply split: sum.split)
  moreover have "wp (tryRejoinReplica R ag r) w1 (\<lambda>_. still ok view w) (\<lambda>_. still ok view w)"
    by (rule wp_harmless [OF harmless_rejoin [OF laws one]]) (use w1 in \<open>auto simp: still_def\<close>)
  ultimately have "wp (tryRejoinReplica R ag r) w1 (\<lambda>x t. True \<and> still ok view w t) (\<lambda>e t. E e t \<and> still ok view w t)"
    by (rule wp_conj)
  then have "wp (tryRejoinReplica R ag r) w1 (\<lambda>_. still ok view w) E" by (rule wp_mono) auto
  then show "wp (if rep_ServerName r = ags_PrimaryReplica st then ret ()
       else (case find (\<lambda>rs. rs_ServerName rs = rep_ServerName r) (rev (ags_Replicas st)) of
               Some rs \<Rightarrow> if rs_Connected rs then ret () else tryRejoinReplica R ag r
             | None \<Rightarrow> tryRejoinReplica R ag r)) w1 (\<lambda>_. still ok view w) E"
    using w1 by (auto simp: wp_ret simp del: ret_apply split: option.split)
qed (use c post in \<open>auto simp: still_def\<close>)

end

section \<open>What a reconciliation makes of the group\<close>

definition group_target :: "AvailabilityGroupSpec \<Rightarrow> GroupView \<Rightarrow> GroupView" where
  "group_target sp v = v\<lparr>gv_Databases := set (ag_Databases sp), gv_HasListener := (gv_HasListener v \<or> ag_Listener sp \<noteq> None)\<rparr>"

definition group_health :: "GroupView \<Rightarrow> ConditionStatus \<times> string" where
  "group_health v = (if \<forall>r \<in> set (gv_Replicas v). replica_healthy r then (ConditionTrue, ReasonReady)
     else (ConditionFalse, ''ReplicaNotHealthy''))"

lemma fold_add_databases:
  "fold (\<lambda>d v. if d \<in> S then v else v\<lparr>gv_Databases := insert d (gv_Databases v)\<rparr>) xs v =
   v\<lparr>gv_Databases := gv_Databases v \<union> (set xs - S)\<rparr>"
proof (induction xs arbitrary: v)
  case (Cons x xs)
  have "x \<notin> S \<Longrightarrow> insert x (gv_Databases v) \<union> (set xs - S) = gv_Databases v \<union> (set (x # xs) - S)" by auto
  with Cons show ?case by (simp add: insert_Diff_if)
qed simp

lemma fold_remove_databases:
  "fold (\<lambda>d v. if d \<in> S then v else v\<lparr>gv_Databases := gv_Databases v - {d}\<rparr>) xs v =
   v\<lparr>gv_Databases := gv_Databases v - (set xs - S)\<rparr>"
proof (induction xs arbitrary: v)
  case (Cons x xs)
  have "x \<notin> S \<Longrightarrow> gv_Databases v - {x} - (set xs - S) = gv_Databases v - (set (x # xs) - S)" by auto
  with Cons show ?case by (simp add: insert_Diff_if)
qed simp

context group_server begin

lemma adds_database:
  "advances ok view False (add_to_ag cl n S d) n v (if d \<in> S then v else v\<lparr>gv_Databases := insert d (gv_Databases v)\<rparr>)"
  unfolding add_to_ag_def by (auto intro!: advances_write advances_event add_law)

lemma removes_database:
  "advances ok view False (remove_from_ag cl n S d) n v (if d \<in> S then v else v\<lparr>gv_Databases := gv_Databases v - {d}\<rparr>)"
  unfolding remove_from_ag_def by (auto intro!: advances_write advances_event remove_law)

lemma changes_databases:
  shows "advances ok view False (for_each (add_to_ag cl n S) xs) n v (v\<lparr>gv_Databases := gv_Databases v \<union> (set xs - S)\<rparr>)"
    and "advances ok view False (for_each (remove_from_ag cl n S) xs) n v (v\<lparr>gv_Databases := gv_Databases v - (set xs - S)\<rparr>)"
  using advances_for_each [where q = "\<lambda>_. False" and f = "add_to_ag cl n S", OF adds_database, of xs v]
    advances_for_each [where q = "\<lambda>_. False" and f = "remove_from_ag cl n S", OF removes_database, of xs v]
  unfolding fold_add_databases fold_remove_databases by (blast intro: advances_weaken)+

lemma databases_exact:
  fixes R :: "('k, 'c) AGReconciler"
  assumes range: "range_laws (range_order R)"
  shows "advances ok view False (reconcileDatabases R ag cl) (ag_AGName (Spec ag)) v
    (v\<lparr>gv_Databases := set (ag_Databases (Spec ag))\<rparr>)"
proof (rule advancesI)
  let ?n = "ag_AGName (Spec ag)" and ?d = "ag_Databases (Spec ag)"
  fix w :: "('k, 'c) world" assume w: "ok (sql w)" "view (sql w) ?n = Some v"
  obtain st where st: "reads ok view (GetAGStatus (ags cl) ?n) (sql w) st" "ds_Name ` set (ags_Databases st) = gv_Databases v"
    using status_law [OF w] by blast
  let ?c = "List.map ds_Name (ags_Databases st)"
  have c: "set ?c = gv_Databases v" using st(2) by simp
  have both: "advances ok view False
      (andthen (for_each (add_to_ag cl ?n (set ?c)) (range_order R ?d)) (for_each (remove_from_ag cl ?n (set ?d)) (range_order R ?c)))
      ?n v (v\<lparr>gv_Databases := set ?d\<rparr>)"
  proof (rule advances_andthen)
    show "advances ok view False (for_each (add_to_ag cl ?n (set ?c)) (range_order R ?d)) ?n v
        (v\<lparr>gv_Databases := gv_Databases v \<union> (set ?d - set ?c)\<rparr>)"
      using changes_databases(1) [of ?n "set ?c" "range_order R ?d" v] range by (simp add: range_laws_def)
    have "advances ok view False (for_each (remove_from_ag cl ?n (set ?d)) (range_order R ?c)) ?n
        (v\<lparr>gv_Databases := gv_Databases v \<union> (set ?d - set ?c)\<rparr>)
        (v\<lparr>gv_Databases := (gv_Databases v \<union> (set ?d - set ?c)) - (set ?c - set ?d)\<rparr>)"
      using changes_databases(2) [of ?n "set ?d" "range_order R ?c" "v\<lparr>gv_Databases := gv_Databases v \<union> (set ?d - set ?c)\<rparr>"] range
      by (simp add: range_laws_def)
    moreover have "(gv_Databases v \<union> (set ?d - set ?c)) - (set ?c - set ?d) = set ?d" unfolding c by blast
    ultimately show "advances ok view False (for_each (remove_from_ag cl ?n (set ?d)) (range_order R ?c)) ?n
        (v\<lparr>gv_Databases := gv_Databases v \<union> (set ?d - set ?c)\<rparr>) (v\<lparr>gv_Databases := set ?d\<rparr>)" by simp
  qed
  show "succeeds (reconcileDatabases R ag cl) w (\<lambda>_ w'. ok (sql w') \<and> kube w' = kube w
      \<and> view (sql w') = (view (sql w))(?n \<mapsto> v\<lparr>gv_Databases := set ?d\<rparr>) \<and> (False \<longrightarrow> events w' = events w))"
    unfolding reconcileDatabases_def Let_def wp_attempt
    by (rule wp_read [OF st(1)], rule wp_advances [OF both]) (auto simp: still_def w)
qed

lemma listener_added:
  "advances ok view False (reconcileListener ag cl) (ag_AGName (Spec ag)) v
    (v\<lparr>gv_HasListener := (gv_HasListener v \<or> ag_Listener (Spec ag) \<noteq> None)\<rparr>)"
proof (cases "ag_Listener (Spec ag)")
  case None
  then show ?thesis by (simp add: reconcileListener_def advances_ret del: ret_apply)
next
  case (Some li)
  have swallow: "advances ok view False (attempt m (\<lambda>_. ret ()) (\<lambda>_. k)) n v v'"
    if "advances ok view False (or_fail e m (\<lambda>_. k)) n v v'" for m k n v v' e
    using that unfolding advances_def wp_or_fail wp_attempt by (auto elim!: wp_mono)
  show ?thesis
    unfolding reconcileListener_def Some option.case
    by (rule swallow) (auto intro!: advances_write advances_event listener_law)
qed

lemma wp_ensure_group:
  fixes w :: "('k, 'c) world"
  assumes laws: "api_laws R objs secs srvs" and one: "one_server R cl" and c: "ok (sql w)"
    and post: "\<And>w'. ok (sql w') \<Longrightarrow> kube w' = kube w \<Longrightarrow> view (sql w') = (view (sql w))(ag_AGName (Spec ag) \<mapsto>
      (case view (sql w) (ag_AGName (Spec ag)) of None \<Rightarrow> created (ag_config ag) | Some v \<Rightarrow> v)) \<Longrightarrow> Q () w'"
  shows "wp (ensure_group R ag cl) w Q E"
  unfolding ensure_group_def wp_or_fail
proof (rule wp_read [OF exists_law [OF c]])
  let ?n = "ag_AGName (Spec ag)"
  fix w1 :: "('k, 'c) world" assume w1: "still ok view w w1"
  show "wp (if view (sql w) ?n \<noteq> None then ret ()
       else or_fail ''failed to create availability group'' (createAG ag cl) (\<lambda>_.
          effect (Normal ''AvailabilityGroupCreated'' (''Availability Group '' @ ?n @ '' created''))
          (attempt (joinSecondaries R ag) (\<lambda>err. effect (Warning ''SecondaryJoinFailed'' (Error err)) (ret ())) (\<lambda>_. ret ())))) w1 Q E"
  proof (cases "view (sql w) ?n")
    case None
    have name: "ac_Name (ag_config ag) = ?n" by (simp add: ag_config_def)
    have w1': "ok (sql w1)" "view (sql w1) = view (sql w)" "kube w1 = kube w" using w1 by (simp_all add: still_def)
    have fin: "wp (attempt (joinSecondaries R ag)
        (\<lambda>err. effect (Warning ''SecondaryJoinFailed'' (Error err)) (ret ())) (\<lambda>_. ret ())) w2 Q E"
      if w2: "ok (sql w2)" "view (sql w2) = (view (sql w))(?n \<mapsto> created (ag_config ag))" "kube w2 = kube w" for w2
    proof -
      have "wp (joinSecondaries R ag) w2 (\<lambda>_. Q ()) (\<lambda>e t. Q () (Warning ''SecondaryJoinFailed'' (Error e) t))"
        by (rule wp_harmless [OF harmless_join_all [OF laws one] w2(1)]) (use w2 None in \<open>auto simp: still_def intro!: post\<close>)
      then show ?thesis unfolding wp_attempt wp_effect wp_ret .
    qed
    show ?thesis
      unfolding None createAG_def
      apply (simp only: simp_thms if_False not_True_eq_False)
      unfolding wp_or_fail wp_on_sql wp_effect
      by (rule wp_writes [OF create_law [OF w1'(1)]]) (rule fin, use w1' name in auto)
  next
    case (Some v)
    then have "(view (sql w))(?n \<mapsto> v) = view (sql w)" by auto
    then show ?thesis using Some w1 post [of w1] by (simp add: wp_ret still_def del: ret_apply)
  qed
qed

lemma wp_updateAGStatus:
  fixes w :: "('k, 'c) world"
  assumes laws: "api_laws R objs secs srvs" and base: "objs (kube w) (request_of ag) = Some ag" and live: "\<not> cr_Deleting ag"
    and st: "ags_PrimaryReplica st = gv_Primary v" "ags_Replicas st = gv_Replicas v"
    and post: "\<And>st' k'. objs k' = (objs (kube w))(request_of ag \<mapsto> ag\<lparr>Status := st'\<rparr>) \<Longrightarrow> secs k' = secs (kube w) \<Longrightarrow>
      srvs k' = srvs (kube w) \<Longrightarrow> PrimaryReplica st' = gv_Primary v \<Longrightarrow> ObservedGeneration st' = cr_Generation ag \<Longrightarrow>
      ready_status (ag\<lparr>Status := st'\<rparr>) = Some (group_health v) \<Longrightarrow> Q (ag\<lparr>Status := st'\<rparr>) (w\<lparr>kube := k'\<rparr>)"
  shows "wp (updateAGStatus R ag st) w Q E"
proof -
  let ?s = "Status (observed_status ag st)"
  let ?c = "\<lambda>b r m. SetStatusCondition (kclient R) (Conditions ?s) (ready_condition (cr_Generation ag) b r m)"
  let ?msg = "if \<forall>rs \<in> set (ags_Replicas st). replica_healthy rs
    then ''AG '' @ ag_AGName (Spec ag) @ '' is healthy with primary '' @ ags_PrimaryReplica st
    else ''AG '' @ ag_AGName (Spec ag) @ '' has unhealthy replicas''"
  let ?st = "?s\<lparr>Conditions := ?c (fst (group_health v)) (snd (group_health v)) ?msg\<rparr>"
  have cond: "condition_laws (kclient R)" by (rule api_lawsD(7) [OF laws])
  have eq: "updateAGStatus R ag st = on_kube (PatchStatus (crs R) ag (ag\<lparr>Status := ?st\<rparr>))"
    by (simp add: updateAGStatus_def with_condition_def observed_status_def group_health_def st Let_def)
  have "ready_status (ag\<lparr>Status := ?st\<rparr>) = Some (group_health v)"
    using cond by (simp add: ready_status_def condition_laws_def ready_condition_def)
  moreover have "PrimaryReplica ?st = gv_Primary v" "ObservedGeneration ?st = cr_Generation ag"
    by (simp_all add: observed_status_def st)
  ultimately show ?thesis
    unfolding eq wp_on_kube
    by (intro wp_PatchStatus [where srvs = srvs and secs = secs and objs = objs, OF laws base] post) (simp_all add: stored_Some live)
qed

lemma wp_AG_sync:
  fixes w :: "('k, 'c) world"
  assumes laws: "api_laws R objs secs srvs" and env: "env_laws A objs secs srvs" and one: "one_server R cl"
    and base: "objs (kube w) (request_of ag) = Some ag" and live: "\<not> cr_Deleting ag" and c: "ok (sql w)"
    and v: "v = group_target (Spec ag) (case view (sql w) (ag_AGName (Spec ag)) of None \<Rightarrow> created (ag_config ag) | Some v \<Rightarrow> v)"
    and range: "range_laws (range_order R)"
    and requeue: "requeueWithJitter (Int63n R) requeue = Some d"
    and post: "\<And>st' w'. ok (sql w') \<Longrightarrow> view (sql w') = (view (sql w))(ag_AGName (Spec ag) \<mapsto> v) \<Longrightarrow>
      objs (kube w') = (objs (kube w))(request_of ag \<mapsto> ag\<lparr>Status := st'\<rparr>) \<Longrightarrow> PrimaryReplica st' = gv_Primary v \<Longrightarrow>
      ObservedGeneration st' = cr_Generation ag \<Longrightarrow> ready_status (ag\<lparr>Status := st'\<rparr>) = Some (group_health v) \<Longrightarrow> Q (Result d) w'"
  shows "wp (AG_sync R A ag cl requeue) w Q E"
  unfolding AG_sync_def wp_andthen wp_attempt wp_or_fail wp_ret
  apply (rule wp_ensure_endpoint [OF c])
  subgoal premises p1 for w1
    apply (rule wp_ensure_group [OF laws one])
    subgoal using p1 by (simp add: still_def)
    subgoal premises p2 for w2
      apply (rule wp_advances [OF databases_exact [OF range] p2(1)])
       apply (simp add: p2 p1 [unfolded still_def])
      subgoal premises p3 for w3
        apply (rule wp_advances [OF listener_added p3(1)])
         apply (simp add: p3)
        subgoal premises p4 for w4
        proof -
          let ?n = "ag_AGName (Spec ag)"
          have w4: "ok (sql w4)" "view (sql w4) = (view (sql w))(?n \<mapsto> v)" "kube w4 = kube w"
            using p1 p2 p3 p4 by (simp_all add: still_def v group_target_def)
          obtain st where st: "reads ok view (GetAGStatus (ags cl) ?n) (sql w4) st" "ags_PrimaryReplica st = gv_Primary v"
            "ags_Replicas st = gv_Replicas v" using status_law [of "sql w4" ?n v] w4 by auto
          show ?thesis
            apply (rule wp_read [OF st(1)])
            subgoal premises p5 for w5
              apply (rule wp_updateAGStatus [OF laws _ live st(2,3)])
               apply (use p5 w4 base in \<open>simp add: still_def\<close>)
              subgoal premises p6 for st' k'
                apply (rule wp_rejoin [OF laws one])
                 apply (use p5 w4 in \<open>simp add: still_def\<close>)
                subgoal premises p7 for w7
                proof -
                  have fin: "wp (requeue_jitter (Int63n R) requeue) w8 Q E" if "only_api objs secs srvs w7 w8" for w8
                    unfolding requeue_jitter_def requeue option.case wp_ret
                    by (rule post [where st' = st']) (use that p5 p6 p7 w4 in \<open>auto simp: still_def only_api_def same_api_def\<close>)
                  then show ?thesis
                    by (auto simp: wp_ret simp del: ret_apply intro: wp_updateLabels [OF env])
                qed
                done
              done
            done
        qed
        done
      done
    done
  done

lemma wp_fence_then_sync:
  assumes "PrimaryReplica (Status ag) = [] \<or> (\<exists>ct. ag_ClusterType (Spec ag) = Some ct \<and> ct \<noteq> ''None'')"
    and "wp (AG_sync R A ag cl d) w Q E"
  shows "wp (AG_fence_then_sync R A ag cl d) w Q E"
  using assms by (auto simp: AG_fence_then_sync_def detectAndResolveSplitBrain_def wp_attempt wp_ret simp del: ret_apply)

lemma wp_AG_Reconcile_syncs:
  fixes w :: "('k, 'c) world"
  assumes laws: "api_laws R objs secs srvs" and env: "env_laws A objs secs srvs" and one: "one_server R cl"
    and ag: "objs (kube w) (ns, n) = Some ag" "request_of ag = (ns, n)" and live: "\<not> cr_Deleting ag"
    and con: "connects R (secs (kube w)) ns (rep_Server (primary_spec ag)) cl" and reps: "ag_Replicas (Spec ag) \<noteq> []"
    and manual: "ag_AutoFailover (Spec ag) \<noteq> Some True"
    and calm: "PrimaryReplica (Status ag) = [] \<or> (\<exists>ct. ag_ClusterType (Spec ag) = Some ct \<and> ct \<noteq> ''None'')"
    and c: "ok (sql w)"
    and v: "v = group_target (Spec ag) (case view (sql w) (ag_AGName (Spec ag)) of None \<Rightarrow> created (ag_config ag) | Some v \<Rightarrow> v)"
    and post: "\<And>st' w' d. ok (sql w') \<Longrightarrow> view (sql w') = (view (sql w))(ag_AGName (Spec ag) \<mapsto> v) \<Longrightarrow>
      objs (kube w') = (objs (kube w))((ns, n) \<mapsto> (finalized (kclient R) ag)\<lparr>Status := st'\<rparr>) \<Longrightarrow> PrimaryReplica st' = gv_Primary v \<Longrightarrow>
      ObservedGeneration st' = cr_Generation ag \<Longrightarrow> ready_status ((finalized (kclient R) ag)\<lparr>Status := st'\<rparr>) = Some (group_health v) \<Longrightarrow>
      24 * second \<le> d \<Longrightarrow> d < 36 * second \<Longrightarrow> Q (Result d) w'"
  shows "wp (AG_Reconcile R A ns n) w Q E"
proof -
  let ?ag = "finalized (kclient R) ag"
  have ns: "cr_Namespace ag = ns" using ag(2) by (simp add: request_of_def)
  have same: "primary_spec ?ag = primary_spec ag" "ag_config ?ag = ag_config ag"
    by (simp_all add: primary_spec_def ag_config_def split: option.split)
  from con obtain u pw where
    up: "secret_credentials (secs (kube w)) ns (CredentialsSecret (rep_Server (primary_spec ag))) = Some (u, pw)" and
    cl: "connectToSQL (rep_Server (primary_spec ag)) u pw (SQLClientFactory R) = Inr cl"
    by (auto simp: connects_def)
  obtain d where d: "requeueWithJitter (Int63n R) requeueInterval = Some d" "24 * second \<le> d" "d < 36 * second"
    using requeue_in_range [OF api_lawsD(8) [OF laws]] by blast
  have manual': "requeue_after A ?ag = requeueInterval" "(ag_AutoFailover (Spec ag) = Some True) = False"
    using manual by (simp_all add: requeue_after_def)
  have connected: "wp (AG_connected R A ?ag) (w\<lparr>kube := k'\<rparr>) Q E"
    if k': "objs k' = (objs (kube w))((ns, n) \<mapsto> ?ag)" "secs k' = secs (kube w)" "srvs k' = srvs (kube w)" for k'
  proof -
    have up': "secret_credentials (secs (kube (w\<lparr>kube := k'\<rparr>))) ns (CredentialsSecret (rep_Server (primary_spec ag))) = Some (u, pw)"
      using up k' by simp
    have range: "range_laws (range_order R)" using api_lawsD [OF laws] by blast
    have "wp (AG_fence_then_sync R A ?ag cl requeueInterval) (w\<lparr>kube := k'\<rparr>)
      (\<lambda>x t. Q x (close_conn cl t)) (\<lambda>e t. E e (close_conn cl t))"
      apply (rule wp_fence_then_sync)
      subgoal using calm by simp
      subgoal
        apply (rule wp_AG_sync [OF laws env one _ _ _ _ range d(1), where v = v])
        subgoal using k' ag by simp
        subgoal using live by simp
        subgoal using c by simp
        subgoal unfolding same using v by simp
        subgoal premises p for st' w'
          by (rule post [where st' = st']) (use p close_law [OF p(1)] k' ag d in auto)
        done
      done
    then show ?thesis
      unfolding AG_connected_def Let_def wp_attempt wp_on_kube same finalized_simps ns wp_getCredentialsFromSecret [OF laws up'] manual'
      by (simp add: cl wp_deferred)
  qed
  have "wp (ensure_finalizer R ag) w (\<lambda>x t. wp (if ag_Replicas (Spec x) = [] then fail index_panic else AG_connected R A x) t Q E) E"
    by (rule wp_ensure_finalizer [OF laws]) (use ag live connected reps in auto)
  then show ?thesis
    unfolding AG_Reconcile_def fetch_def wp_attempt wp_on_kube wp_GetCR [OF laws ag(1)] wp_if
    using live by (simp add: wp_attempt wp_fail del: fail_apply)
qed

end

section \<open>The in-memory server is a group server\<close>

definition abs_group :: "MockAG \<Rightarrow> GroupView" where
  "abs_group m = \<lparr>gv_Primary = ma_PrimaryReplica m, gv_Replicas = ma_Replicas m,
     gv_Databases = ds_Name ` set (ma_Databases m), gv_HasListener = ma_HasListener m\<rparr>"

definition group_view :: "MockClient \<Rightarrow> string \<Rightarrow> GroupView option" where
  "group_view s k = map_option abs_group (mags s k)"

text \<open>A new group: the first replica is primary, the others are secondaries, all in step.\<close>

definition new_group :: "AGConfig \<Rightarrow> GroupView" where
  "new_group cfg = \<lparr>gv_Primary = (case ac_Replicas cfg of [] \<Rightarrow> [] | r # _ \<Rightarrow> rc_ServerName r),
     gv_Replicas = initial_replicas (ac_Replicas cfg), gv_Databases = set (ac_Databases cfg), gv_HasListener = False\<rparr>"

definition besides_groups :: "MockClient \<Rightarrow> MockClient" where
  "besides_groups s = s\<lparr>mags := Map.empty, calls := (\<lambda>_. 0)\<rparr>"

definition mock_group_ok :: "MockClient \<Rightarrow> MockClient \<Rightarrow> bool" where
  "mock_group_ok o' s \<longleftrightarrow> healthy s \<and> besides_groups s = o'"

lemma besides_groups_simps [simp]:
  "besides_groups (track m s) = besides_groups s" "besides_groups (s\<lparr>mags := d\<rparr>) = besides_groups s"
  by (simp_all add: besides_groups_def track_def)

lemma group_view_simps [simp]:
  "group_view (track m s) = group_view s"
  "group_view ((track m s)\<lparr>mags := (mags s)(k \<mapsto> d)\<rparr>) = (group_view s)(k \<mapsto> abs_group d)"
  "group_view ((track m s)\<lparr>mags := (mags s)(k := None)\<rparr>) = (group_view s)(k := None)"
  "(group_view s k = None) = (mags s k = None)"
  by (auto simp: group_view_def preamble_track)

lemma abs_group_simps:
  "gv_Primary (abs_group m) = ma_PrimaryReplica m" "gv_Replicas (abs_group m) = ma_Replicas m"
  "gv_Databases (abs_group m) = ds_Name ` set (ma_Databases m)"
  "abs_group (m\<lparr>ma_Databases := ma_Databases m @ [joined_database d]\<rparr>) = (abs_group m)\<lparr>gv_Databases := insert d (gv_Databases (abs_group m))\<rparr>"
  "abs_group (m\<lparr>ma_Databases := filter (\<lambda>x. ds_Name x \<noteq> d) (ma_Databases m)\<rparr>) = (abs_group m)\<lparr>gv_Databases := gv_Databases (abs_group m) - {d}\<rparr>"
  "abs_group (m\<lparr>ma_HasListener := True\<rparr>) = (abs_group m)\<lparr>gv_HasListener := True\<rparr>"
  by (auto simp: abs_group_def joined_database_def)

lemma abs_group_new:
  "abs_group \<lparr>ma_Name = ac_Name cfg, ma_PrimaryReplica = (case ac_Replicas cfg of [] \<Rightarrow> [] | r # _ \<Rightarrow> rc_ServerName r),
     ma_Replicas = initial_replicas (ac_Replicas cfg), ma_Databases = List.map joined_database (ac_Databases cfg),
     ma_HasListener = False\<rparr> = new_group cfg"
  by (simp add: abs_group_def new_group_def joined_database_def image_image)

lemma group_viewD: "group_view s k = Some v \<Longrightarrow> \<exists>x. mags s k = Some x \<and> v = abs_group x"
  by (auto simp: group_view_def)

lemma mock_groups_simps:
  "AGExists (ags mock_client) = Mock_AGExists" "CreateAG (ags mock_client) = Mock_CreateAG"
  "GetAGStatus (ags mock_client) = Mock_GetAGStatus" "AddDatabaseToAG (ags mock_client) = Mock_AddDatabaseToAG"
  "RemoveDatabaseFromAG (ags mock_client) = Mock_RemoveDatabaseFromAG" "AddListenerToAG (ags mock_client) = Mock_AddListenerToAG"
  "DropAG (ags mock_client) = Mock_DropAG" "HADREndpointExists (ags mock_client) = Mock_HADREndpointExists"
  "CreateHADREndpoint (ags mock_client) = Mock_CreateHADREndpoint" "JoinAG (ags mock_client) = Mock_JoinAG"
  "GrantAGCreateDatabase (ags mock_client) = Mock_GrantAGCreateDatabase" "CloseClient mock_client = Mock_Close"
  by (simp_all add: mock_client_def)

interpretation mock_groups: group_server mock_client "mock_group_ok o'" group_view new_group for o'
  by (unfold_locales, unfold mock_groups_simps Mock_AGExists_def Mock_CreateAG_def Mock_GetAGStatus_def Mock_AddDatabaseToAG_def
      Mock_RemoveDatabaseFromAG_def Mock_AddListenerToAG_def Mock_DropAG_def Mock_HADREndpointExists_def
      Mock_CreateHADREndpoint_def Mock_JoinAG_def Mock_GrantAGCreateDatabase_def Mock_Close_def mock_group_ok_def reads_def writes_def update_ag_def)
     (force dest!: group_viewD simp: abs_group_simps abs_group_new Let_def preamble_track)+

section \<open>Reconciling against the in-memory server\<close>

text \<open>
  C9. Reconciling an \<open>AvailabilityGroup\<close> whose primary answers: a missing group is created with the
  specified replicas, the first as primary; afterwards the group holds exactly the specified
  databases, has a listener if one is specified, and keeps its replicas and their roles; nothing
  else on the server changes, and the object is reported ready exactly when every replica is
  connected and in step. (The group has no automatic failover, and is new or managed by an
  external cluster, so that fencing does not interfere.)
\<close>

theorem AvailabilityGroup_reconcile:
  fixes w :: "('k, MockClient) world"
  assumes "api_laws R objs secs srvs" and "env_laws A objs secs srvs" and "one_server R mock_client"
    and "objs (kube w) (ns, n) = Some ag" and "request_of ag = (ns, n)" and "\<not> cr_Deleting ag"
    and "connects R (secs (kube w)) ns (rep_Server (primary_spec ag)) mock_client" and "ag_Replicas (Spec ag) \<noteq> []"
    and "ag_AutoFailover (Spec ag) \<noteq> Some True"
    and "PrimaryReplica (Status ag) = [] \<or> (\<exists>ct. ag_ClusterType (Spec ag) = Some ct \<and> ct \<noteq> ''None'')"
    and "healthy (sql w)"
    and "v = group_target (Spec ag) (case group_view (sql w) (ag_AGName (Spec ag)) of
           None \<Rightarrow> new_group (ag_config ag) | Some v \<Rightarrow> v)"
  shows "succeeds (AG_Reconcile R A ns n) w (\<lambda>r w'.
    besides_groups (sql w') = besides_groups (sql w) \<and>
    group_view (sql w') = (group_view (sql w))(ag_AGName (Spec ag) \<mapsto> v) \<and>
    24 * second \<le> RequeueAfter r \<and> RequeueAfter r < 36 * second \<and>
    (\<exists>st'. objs (kube w') = (objs (kube w))((ns, n) \<mapsto> (finalized (kclient R) ag)\<lparr>Status := st'\<rparr>) \<and>
       PrimaryReplica st' = gv_Primary v \<and> ObservedGeneration st' = cr_Generation ag \<and>
       ready_status ((finalized (kclient R) ag)\<lparr>Status := st'\<rparr>) = Some (group_health v)))"
  by (rule mock_groups.wp_AG_Reconcile_syncs [OF assms(1-10) _ assms(12), where o' = "besides_groups (sql w)"])
     (use assms(11) in \<open>auto simp: mock_group_ok_def\<close>)

text \<open>
  A deletion is never blocked by the servers: whatever they, their credentials or their
  connections do, the finalizer is removed and the reconciliation ends without an error. (An
  object without replicas panics instead: see the findings.)
\<close>

theorem AvailabilityGroup_deletion_never_blocked:
  fixes w :: "('k, 'c) world"
  assumes "api_laws R objs secs srvs" and "objs (kube w) (request_of ag) = Some ag"
    and "ContainsFinalizer (kclient R) (cr_Finalizers ag) Finalizer" and "ag_Replicas (Spec ag) \<noteq> []"
  shows "succeeds (AG_handleDeletion R ag) w (\<lambda>r w'. r = Result 0 \<and>
    (\<forall>ag'. objs (kube w') (request_of ag) = Some ag' \<longrightarrow>
       \<not> ContainsFinalizer (kclient R) (cr_Finalizers ag') Finalizer))"
proof -
  let ?Q = "\<lambda>r (w' :: ('k, 'c) world). r = Result 0 \<and>
    (\<forall>ag'. objs (kube w') (request_of ag) = Some ag' \<longrightarrow> \<not> ContainsFinalizer (kclient R) (cr_Finalizers ag') Finalizer)"
  have fin: "wp (remove_finalizer R ag) w' ?Q E" if "kube w' = kube w" for w' E
    by (rule wp_remove_finalizer [OF assms(1)]) (use that assms(2) in auto)
  have drop: "wp (AG_drop R cl ag) w (\<lambda>r w'. ?Q r (close_conn cl w')) E" for cl E
  proof -
    obtain x c where "DropAG (ags cl) (ag_AGName (Spec ag)) (sql w) = (x, c)" by fastforce
    then show ?thesis
      unfolding AG_drop_def wp_attempt wp_on_sql wp_effect
      by (cases x) (simp_all add: wp_def [of "DropAG (ags cl) (ag_AGName (Spec ag))"] fin)
  qed
  obtain x where "getCredentialsFromSecret (kclient R) (cr_Namespace ag) (CredentialsSecret (rep_Server (primary_spec ag))) (kube w) = (x, kube w)"
    using getCredentials_reads(1) [OF assms(1)] by (metis prod.collapse)
  then show ?thesis
    unfolding AG_handleDeletion_def
    using assms(3,4) fin [of w] drop
    by (cases x) (auto simp: wp_attempt wp_deferred wp_def [of "on_kube _"] split: sum.split)
qed

text \<open>
  Deleting an \<open>AvailabilityGroup\<close> drops the group on its primary, and touches no other group,
  nothing else on that server, and no other server of the fleet.
\<close>

theorem AvailabilityGroup_deletion_drops:
  fixes w :: "('k, string \<Rightarrow> MockClient) world"
  assumes "api_laws R objs secs srvs" and "objs (kube w) (request_of ag) = Some ag"
    and "ContainsFinalizer (kclient R) (cr_Finalizers ag) Finalizer" and "ag_Replicas (Spec ag) \<noteq> []"
    and "all_connect R (secs (kube w)) ag (fleet_client mock_client)"
    and "healthy (sql w (rep_ServerName (primary_spec ag)))"
  shows "succeeds (AG_handleDeletion R ag) w (\<lambda>r w'. r = Result 0 \<and>
    (\<forall>s. s \<noteq> rep_ServerName (primary_spec ag) \<longrightarrow> sql w' s = sql w s) \<and>
    besides_groups (sql w' (rep_ServerName (primary_spec ag))) = besides_groups (sql w (rep_ServerName (primary_spec ag))) \<and>
    group_view (sql w' (rep_ServerName (primary_spec ag))) =
      (group_view (sql w (rep_ServerName (primary_spec ag))))(ag_AGName (Spec ag) := None) \<and>
    (\<forall>ag'. objs (kube w') (request_of ag) = Some ag' \<longrightarrow> \<not> ContainsFinalizer (kclient R) (cr_Finalizers ag') Finalizer))"
proof -
  let ?p = "rep_ServerName (primary_spec ag)" and ?n = "ag_AGName (Spec ag)"
  let ?f = "(sql w)(?p := (track ''DropAG'' (sql w ?p))\<lparr>mags := (mags (sql w ?p))(?n := None)\<rparr>)"
  from assms(5) primary_spec_in [OF assms(4)] obtain u pw where
    up: "secret_credentials (secs (kube w)) (cr_Namespace ag) (CredentialsSecret (rep_Server (primary_spec ag))) = Some (u, pw)" and
    cl: "connectToSQL (rep_Server (primary_spec ag)) u pw (SQLClientFactory R) = Inr (fleet_client mock_client ?p)"
    by (auto simp: all_connect_def connects_def)
  have drop: "DropAG (ags (fleet_client mock_client ?p)) ?n (sql w) = (Inr (), ?f)"
    using assms(6) by (simp add: fleet_ags_simps mock_ags_simps on_server_def Mock_DropAG_def preamble_track)
  have fin: "wp (remove_finalizer R ag) (record_event ty r m (w\<lparr>sql := ?f\<rparr>)) Q E"
    if "\<And>k' cr'. objs k' = (objs (kube w))(request_of ag := cr') \<Longrightarrow>
      (\<forall>c. cr' = Some c \<longrightarrow> \<not> ContainsFinalizer (kclient R) (cr_Finalizers c) Finalizer) \<Longrightarrow>
      Q (Result 0) ((record_event ty r m (w\<lparr>sql := ?f\<rparr>))\<lparr>kube := k'\<rparr>)" for ty r m Q E
    by (rule wp_remove_finalizer [OF assms(1)]) (use that assms(2) in auto)
  show ?thesis
    unfolding AG_handleDeletion_def if_not_P [OF assms(4)] wp_attempt wp_on_kube
    apply (simp add: assms(3,4) wp_attempt wp_on_kube wp_getCredentialsFromSecret [OF assms(1) up] cl wp_deferred AG_drop_def wp_on_sql
        wp_effect succeeds_eq [where m = "DropAG _ _", OF drop])
    apply (rule fin)
    apply (simp add: fleet_ags_simps mock_ags_simps Mock_Close_def)
    done
qed

section \<open>Examples\<close>

definition ex_new_group :: AvailabilityGroup where
  "ex_new_group = ex_cr (ex_agspec\<lparr>ag_AutoFailover := None, ag_Databases := [''db'']\<rparr>) ((ex_agstatus 0)\<lparr>PrimaryReplica := []\<rparr>)"

lemma ex_new_group_simps [simp]:
  "request_of ex_new_group = (''ns'', ''obj'')" "\<not> cr_Deleting ex_new_group" "ag_AGName (Spec ex_new_group) = ''ag''"
  "ag_Replicas (Spec ex_new_group) = [ex_replica ''s1'', ex_replica ''s2'']" "ag_AutoFailover (Spec ex_new_group) = None"
  "PrimaryReplica (Status ex_new_group) = []" "primary_spec ex_new_group = ex_replica ''s1''"
  "ag_Databases (Spec ex_new_group) = [''db'']" "ag_Listener (Spec ex_new_group) = None"
  by (simp_all add: ex_new_group_def ex_agspec_def ex_agstatus_def primary_spec_def)

lemma ex_one_server: "one_server (ex_reconciler cl) cl"
  by (simp add: one_server_def ex_reconciler_def)

lemma ex_replica_connects: "connects (ex_reconciler cl) (st_secs (kube (ex_world cr c))) ''ns'' (rep_Server (ex_replica s)) cl"
  by (simp add: connects_def secret_credentials_def ex_replica_def ex_server_def ex_world_def ex_secret_def ex_reconciler_def
      connectToSQL_def)

lemma ex_new_view [simp]: "group_view NewMockClient n = None"
  by (simp add: group_view_def NewMockClient_def)

lemma ex_target_simps [simp]:
  "gv_Databases (group_target sp v) = set (ag_Databases sp)" "gv_Primary (group_target sp v) = gv_Primary v"
  "gv_Primary (new_group (ag_config ex_new_group)) = ''s1''"
  by (simp_all add: group_target_def new_group_def ag_config_def replica_config_def)

theorem AvailabilityGroup_reconcile_witness:
  "succeeds (AG_Reconcile (ex_reconciler mock_client) ex_env ''ns'' ''obj'') (ex_world ex_new_group NewMockClient)
     (\<lambda>r w'. \<exists>v. group_view (sql w') ''ag'' = Some v \<and> gv_Databases v = {''db''} \<and> gv_Primary v = ''s1'')"
  by (rule wp_mono [OF AvailabilityGroup_reconcile [OF ex_api_laws ex_env_laws ex_one_server, where ag = ex_new_group]])
     (auto simp: ex_replica_connects)

theorem AvailabilityGroup_deletion_never_blocked_witness:
  "succeeds (AG_handleDeletion (ex_reconciler mock_client) ex_new_group)
     (ex_world ex_new_group (NewMockClient\<lparr>ConnectError := Some (Errorf ''down'')\<rparr>)) (\<lambda>r w'. r = Result 0)"
  by (rule wp_mono [OF AvailabilityGroup_deletion_never_blocked [OF ex_api_laws]])
     (simp_all add: ex_new_group_def ex_agspec_def)

lemma ex_group_finalizer: "ContainsFinalizer (kclient ex_fleet_reconciler) (cr_Finalizers (ex_group n)) Finalizer"
  by (simp add: ex_group_def ex_fleet_reconciler_def memory_reconciler_def memory_kube_def)

theorem AvailabilityGroup_deletion_drops_witness:
  "succeeds (AG_handleDeletion ex_fleet_reconciler (ex_group 1)) (ex_world (ex_group 1) (ex_fleet 20))
     (\<lambda>r w'. group_view (sql w' ''s1'') ''ag'' = None \<and> sql w' ''s2'' = ex_fleet 20 ''s2'')"
  by (rule wp_mono [OF AvailabilityGroup_deletion_drops [OF ex_fleet_laws, where ag = "ex_group 1"]])
     (simp_all add: ex_all_connect ex_group_finalizer)

end
