(* ===== verification/Lease_Race.thy ===== *)
theory Lease_Race
  imports AG_Controller
begin

text \<open>
  The failover lease (\<open>tryAcquireLease\<close> in \<open>internal/controller/availabilitygroup_controller.go\<close>)
  under competition: the API calls of several operators interleave. A step relation cuts the
  function at its calls; every run of the function is a path of it, and its reachable states show
  when at most one operator holds the lease, and when two do.
\<close>

section \<open>The calls of one operator, and the steps of several\<close>

datatype phase =
    Idle
  | Timed int
  | Seen int "Lease option"
  | Expired int Lease
  | Won
  | Lost

definition new_lease :: "string \<Rightarrow> string \<Rightarrow> string \<Rightarrow> int \<Rightarrow> Lease" where
  "new_lease ns n h now = \<lparr>lease_Name = n, lease_Namespace = ns, HolderIdentity = Some h,
     LeaseDurationSeconds = Some leaseDuration, AcquireTime = Some now, RenewTime = Some now\<rparr>"

definition renewed :: "int \<Rightarrow> Lease \<Rightarrow> Lease" where
  "renewed now lease = lease\<lparr>RenewTime := Some now\<rparr>"

definition taken_over :: "string \<Rightarrow> int \<Rightarrow> Lease \<Rightarrow> Lease" where
  "taken_over h now lease = lease\<lparr>HolderIdentity := Some h, AcquireTime := Some now, RenewTime := Some now\<rparr>"

definition after_get :: "int \<Rightarrow> Lease res \<Rightarrow> phase" where
  "after_get now r = (case r of Inr l \<Rightarrow> Seen now (Some l) | Inl e \<Rightarrow> if IsNotFound e then Seen now None else Lost)"

definition won_if :: "unit res \<Rightarrow> phase" where
  "won_if r = (case r of Inr _ \<Rightarrow> Won | Inl _ \<Rightarrow> Lost)"

text \<open>The second look at the clock, for a lease that somebody else holds.\<close>

definition after_expiry :: "int \<Rightarrow> Lease \<Rightarrow> int \<Rightarrow> int \<Rightarrow> int \<Rightarrow> phase" where
  "after_expiry now lease renew d now2 = (if now2 > renew + d * second then Expired now lease else Lost)"

text \<open>
  \<open>A h\<close> is the environment of the operator \<open>h\<close>. The last rule is the rest of the world: time
  passes and the API server serves others, without touching the leases.
\<close>

inductive lease_step ::
  "(string \<Rightarrow> 'k AGEnv) \<Rightarrow> ('k \<Rightarrow> string \<times> string \<Rightarrow> Lease option) \<Rightarrow> ('k \<Rightarrow> int) \<Rightarrow> string \<Rightarrow> string
   \<Rightarrow> 'k \<times> (string \<Rightarrow> phase) \<Rightarrow> 'k \<times> (string \<Rightarrow> phase) \<Rightarrow> bool" for A leases clock ns n where
  start: "p h = Idle \<Longrightarrow> Now (A h) k = (t, k') \<Longrightarrow> lease_step A leases clock ns n (k, p) (k', p(h := Timed t))"
| look: "p h = Timed t \<Longrightarrow> GetLease (A h) ns n k = (r, k') \<Longrightarrow>
    lease_step A leases clock ns n (k, p) (k', p(h := after_get t r))"
| create: "p h = Seen t None \<Longrightarrow> CreateLease (A h) (new_lease ns n (holder_id (A h)) t) k = (r, k') \<Longrightarrow>
    lease_step A leases clock ns n (k, p) (k', p(h := won_if r))"
| renew: "p h = Seen t (Some l) \<Longrightarrow> HolderIdentity l = Some (holder_id (A h)) \<Longrightarrow> PatchLease (A h) l (renewed t l) k = (r, k') \<Longrightarrow>
    lease_step A leases clock ns n (k, p) (k', p(h := won_if r))"
| refuse: "p h = Seen t (Some l) \<Longrightarrow> HolderIdentity l \<noteq> Some (holder_id (A h)) \<Longrightarrow>
    RenewTime l = None \<or> LeaseDurationSeconds l = None \<Longrightarrow> lease_step A leases clock ns n (k, p) (k, p(h := Lost))"
| expiry: "p h = Seen t (Some l) \<Longrightarrow> HolderIdentity l \<noteq> Some (holder_id (A h)) \<Longrightarrow> RenewTime l = Some t0 \<Longrightarrow>
    LeaseDurationSeconds l = Some d \<Longrightarrow> Now (A h) k = (t', k') \<Longrightarrow>
    lease_step A leases clock ns n (k, p) (k', p(h := after_expiry t l t0 d t'))"
| take_over: "p h = Expired t l \<Longrightarrow> PatchLease (A h) l (taken_over (holder_id (A h)) t l) k = (r, k') \<Longrightarrow>
    lease_step A leases clock ns n (k, p) (k', p(h := won_if r))"
| again: "p h = Won \<or> p h = Lost \<Longrightarrow> lease_step A leases clock ns n (k, p) (k, p(h := Idle))"
| world: "clock k \<le> clock k' \<Longrightarrow> leases k' = leases k \<Longrightarrow> lease_step A leases clock ns n (k, p) (k', p)"

inductive_cases lease_stepE: "lease_step A leases clock ns n (k, p) (k', p')"

section \<open>Every run of the function is a path\<close>

text \<open>Every run ends with an answer and is a path of the relation.\<close>

lemma tryAcquireLease_path:
  fixes w :: "('k, 'c) world"
  assumes idle: "p h = Idle"
  shows "succeeds (tryAcquireLease (A h) ns n) w (\<lambda>b w'. sql w' = sql w \<and>
    (lease_step A leases clock ns n)\<^sup>*\<^sup>* (kube w, p) (kube w', p(h := (if b then Won else Lost))))"
proof -
  let ?R = "lease_step A leases clock ns n"
  obtain t k1 where now: "Now (A h) (kube w) = (t, k1)" by fastforce
  obtain r k2 where get: "GetLease (A h) ns n k1 = (r, k2)" by fastforce
  obtain t' k3 where late: "Now (A h) k2 = (t', k3)" by fastforce
  note run = tryAcquireLease_def attempt_def read_clock_def on_kube_def succeeded_def ret_def wp_def
  have two: "?R\<^sup>*\<^sup>* (kube w, p) (k2, p(h := after_get t r))"
    using lease_step.start [of p h A "kube w" t k1 leases clock ns n] idle now
      lease_step.look [of "p(h := Timed t)" h t A ns n k1 r k2 leases clock] get
    by (simp add: converse_rtranclp_into_rtranclp)
  have more: "?R\<^sup>*\<^sup>* (kube w, p) (k, p(h := y))" if "?R (k2, p(h := after_get t r)) (k, p(h := y))" for k y
    using two that by (rule rtranclp.rtrancl_into_rtrancl)
  have won: "p(h := won_if x) = p(h := (if x = Inr () then Won else Lost))" for x
    by (cases x) (simp_all add: won_if_def)
  show ?thesis
  proof (cases r)
    case gone: (Inl e)
    obtain x k where c: "CreateLease (A h) (new_lease ns n (holder_id (A h)) t) k2 = (x, k)" by fastforce
    show ?thesis
    proof (cases "IsNotFound e")
      case True
      with gone have "?R\<^sup>*\<^sup>* (kube w, p) (k, p(h := won_if x))"
        using more [of k] lease_step.create [of "p(h := Seen t None)" h t A ns n k2 x k leases clock] c
        by (simp add: after_get_def)
      then show ?thesis
        using now get gone True c [unfolded new_lease_def] by (cases x) (simp_all add: run won_if_def)
    next
      case False
      then show ?thesis using two now get gone by (simp add: run after_get_def)
    qed
  next
    case held: (Inr l)
    have seen: "after_get t r = Seen t (Some l)" using held by (simp add: after_get_def)
    show ?thesis
    proof (cases "HolderIdentity l = Some (holder_id (A h))")
      case True
      obtain x k where c: "PatchLease (A h) l (renewed t l) k2 = (x, k)" by fastforce
      have "?R\<^sup>*\<^sup>* (kube w, p) (k, p(h := won_if x))"
        using more [of k] lease_step.renew [of "p(h := Seen t (Some l))" h t l A k2 x k leases clock ns n] c True seen by simp
      then show ?thesis
        using now get held True c [unfolded renewed_def] by (cases x) (simp_all add: run won_if_def)
    next
      case other: False
      show ?thesis
      proof (cases "RenewTime l = None \<or> LeaseDurationSeconds l = None")
        case True
        have "?R\<^sup>*\<^sup>* (kube w, p) (k2, p(h := Lost))"
          using more [of k2] lease_step.refuse [of "p(h := Seen t (Some l))" h t l A leases clock ns n k2] True other seen by simp
        then show ?thesis using now get held other True by (auto simp: run split: option.split)
      next
        case False
        then obtain t0 d where td: "RenewTime l = Some t0" "LeaseDurationSeconds l = Some d" by auto
        obtain x k where c: "PatchLease (A h) l (taken_over (holder_id (A h)) t l) k3 = (x, k)" by fastforce
        have three: "?R\<^sup>*\<^sup>* (kube w, p) (k3, p(h := after_expiry t l t0 d t'))"
          using more [of k3] lease_step.expiry [of "p(h := Seen t (Some l))" h t l A t0 d k2 t' k3 leases clock ns n]
            td other seen late by simp
        show ?thesis
        proof (cases "t' > t0 + d * second")
          case True
          have "?R (k3, p(h := Expired t l)) (k, p(h := won_if x))"
            using lease_step.take_over [of "p(h := Expired t l)" h t l A k3 x k leases clock ns n] c by simp
          with three True have "?R\<^sup>*\<^sup>* (kube w, p) (k, p(h := won_if x))"
            by (simp add: after_expiry_def rtranclp.rtrancl_into_rtrancl)
          then show ?thesis
            using now get held other td late True c [unfolded taken_over_def] by (cases x) (simp_all add: run won_if_def)
        next
          case False
          then show ?thesis using three now get held other td late by (simp add: run after_expiry_def)
        qed
      qed
    qed
  qed
qed

text \<open>
  C6. Every run of \<open>tryAcquireLease\<close> ends with an answer, and is a path of the step relation at
  whose end the operator has won, or lost, exactly as it answered; between the steps of this
  path the relation allows those of all other operators.
\<close>

theorem tryAcquireLease_is_path:
  fixes w :: "('k, 'c) world"
  assumes idle: "p h = Idle"
  shows "succeeds (tryAcquireLease (A h) ns n) w (\<lambda>b w'. sql w' = sql w \<and>
    (lease_step A leases clock ns n)\<^sup>*\<^sup>* (kube w, p) (kube w', p(h := (if b then Won else Lost))))"
  by (rule tryAcquireLease_path) (rule idle)

text \<open>The next step of one operator, and a schedule that says whose turn it is.\<close>

fun operator_step ::
  "(string \<Rightarrow> 'k AGEnv) \<Rightarrow> string \<Rightarrow> string \<Rightarrow> string \<Rightarrow> 'k \<times> (string \<Rightarrow> phase) \<Rightarrow> 'k \<times> (string \<Rightarrow> phase)" where
  "operator_step A ns n h (k, p) =
     (case p h of
        Idle \<Rightarrow> (case Now (A h) k of (t, k') \<Rightarrow> (k', p(h := Timed t)))
      | Timed t \<Rightarrow> (case GetLease (A h) ns n k of (r, k') \<Rightarrow> (k', p(h := after_get t r)))
      | Seen t None \<Rightarrow> (case CreateLease (A h) (new_lease ns n (holder_id (A h)) t) k of (r, k') \<Rightarrow> (k', p(h := won_if r)))
      | Seen t (Some l) \<Rightarrow>
          if HolderIdentity l = Some (holder_id (A h)) then
            (case PatchLease (A h) l (renewed t l) k of (r, k') \<Rightarrow> (k', p(h := won_if r)))
          else (case (RenewTime l, LeaseDurationSeconds l) of
                  (Some t0, Some d) \<Rightarrow> (case Now (A h) k of (t', k') \<Rightarrow> (k', p(h := after_expiry t l t0 d t')))
                | _ \<Rightarrow> (k, p(h := Lost)))
      | Expired t l \<Rightarrow> (case PatchLease (A h) l (taken_over (holder_id (A h)) t l) k of (r, k') \<Rightarrow> (k', p(h := won_if r)))
      | _ \<Rightarrow> (k, p(h := Idle)))"

lemma operator_step_is_step: "lease_step A leases clock ns n (k, p) (operator_step A ns n h (k, p))"
  by (auto intro: lease_step.intros split: phase.split prod.split option.split)

lemma schedule_is_path:
  "(lease_step A leases clock ns n)\<^sup>*\<^sup>* s (fold (operator_step A ns n) hs s)"
proof (induction hs arbitrary: s)
  case (Cons h hs)
  obtain k p where s: "s = (k, p)" by fastforce
  show ?case
    using Cons.IH [of "operator_step A ns n h s"] operator_step_is_step [of A leases clock ns n k p h] s
    by (simp add: converse_rtranclp_into_rtranclp del: operator_step.simps)
qed simp

section \<open>What the API server promises about leases\<close>

text \<open>
  The documented behaviour: reading does not change the leases; an object is created only if
  there is none of its name; a merge patch sets the fields that differ between its two arguments
  in the object as it is stored now, without looking at what has happened in between. A call
  that fails may or may not have taken effect. Time does not run backwards.
\<close>

definition merge_patch :: "Lease \<Rightarrow> Lease \<Rightarrow> Lease \<Rightarrow> Lease" where
  "merge_patch old new cur =
     cur\<lparr>HolderIdentity := (if HolderIdentity new = HolderIdentity old then HolderIdentity cur else HolderIdentity new),
       LeaseDurationSeconds := (if LeaseDurationSeconds new = LeaseDurationSeconds old then LeaseDurationSeconds cur
          else LeaseDurationSeconds new),
       AcquireTime := (if AcquireTime new = AcquireTime old then AcquireTime cur else AcquireTime new),
       RenewTime := (if RenewTime new = RenewTime old then RenewTime cur else RenewTime new)\<rparr>"

definition lease_laws ::
  "(string \<Rightarrow> 'k AGEnv) \<Rightarrow> ('k \<Rightarrow> string \<times> string \<Rightarrow> Lease option) \<Rightarrow> ('k \<Rightarrow> int) \<Rightarrow> bool" where
  "lease_laws A leases clock \<longleftrightarrow>
     (\<forall>h. holder_id (A h) = h) \<and>
     (\<forall>h k t k'. Now (A h) k = (t, k') \<longrightarrow> t = clock k \<and> clock k \<le> clock k' \<and> leases k' = leases k) \<and>
     (\<forall>h ns n k r k'. GetLease (A h) ns n k = (r, k') \<longrightarrow> clock k \<le> clock k' \<and> leases k' = leases k \<and>
        (\<forall>l. r = Inr l \<longrightarrow> leases k (ns, n) = Some l)) \<and>
     (\<forall>h l k r k'. CreateLease (A h) l k = (r, k') \<longrightarrow> clock k \<le> clock k' \<and>
        (leases k (lease_Namespace l, lease_Name l) = None
           \<and> leases k' = (leases k)((lease_Namespace l, lease_Name l) \<mapsto> l)
         \<or> leases k' = leases k \<and> r \<noteq> Inr ())) \<and>
     (\<forall>h l m k r k'. PatchLease (A h) l m k = (r, k') \<longrightarrow> clock k \<le> clock k' \<and>
        ((\<exists>cur. leases k (lease_Namespace l, lease_Name l) = Some cur
            \<and> leases k' = (leases k)((lease_Namespace l, lease_Name l) \<mapsto> merge_patch l m cur))
         \<or> leases k' = leases k \<and> r \<noteq> Inr ()))"

lemma lease_lawsD:
  assumes "lease_laws A leases clock"
  shows "holder_id (A h) = h"
    and "Now (A h) k = (t, k') \<Longrightarrow> t = clock k \<and> clock k \<le> clock k' \<and> leases k' = leases k"
    and "GetLease (A h) ns n k = (r, k') \<Longrightarrow> clock k \<le> clock k' \<and> leases k' = leases k \<and>
      (\<forall>l. r = Inr l \<longrightarrow> leases k (ns, n) = Some l)"
    and "CreateLease (A h) l k = (x, k') \<Longrightarrow> clock k \<le> clock k' \<and>
      (leases k (lease_Namespace l, lease_Name l) = None \<and> leases k' = (leases k)((lease_Namespace l, lease_Name l) \<mapsto> l)
       \<or> leases k' = leases k \<and> x \<noteq> Inr ())"
    and "PatchLease (A h) l m k = (x, k') \<Longrightarrow> clock k \<le> clock k' \<and>
      ((\<exists>cur. leases k (lease_Namespace l, lease_Name l) = Some cur
          \<and> leases k' = (leases k)((lease_Namespace l, lease_Name l) \<mapsto> merge_patch l m cur))
       \<or> leases k' = leases k \<and> x \<noteq> Inr ())"
proof -
  note laws = assms [unfolded lease_laws_def]
  show "holder_id (A h) = h" by (rule conjunct1 [OF laws, THEN spec])
  show "Now (A h) k = (t, k') \<Longrightarrow> t = clock k \<and> clock k \<le> clock k' \<and> leases k' = leases k"
    using laws [THEN conjunct2, THEN conjunct1] by blast
  show "GetLease (A h) ns n k = (r, k') \<Longrightarrow> clock k \<le> clock k' \<and> leases k' = leases k \<and>
      (\<forall>l. r = Inr l \<longrightarrow> leases k (ns, n) = Some l)"
    using laws [THEN conjunct2, THEN conjunct2, THEN conjunct1] by blast
  show "CreateLease (A h) l k = (x, k') \<Longrightarrow> clock k \<le> clock k' \<and>
      (leases k (lease_Namespace l, lease_Name l) = None \<and> leases k' = (leases k)((lease_Namespace l, lease_Name l) \<mapsto> l)
       \<or> leases k' = leases k \<and> x \<noteq> Inr ())"
    using laws [THEN conjunct2, THEN conjunct2, THEN conjunct2, THEN conjunct1] by blast
  show "PatchLease (A h) l m k = (x, k') \<Longrightarrow> clock k \<le> clock k' \<and>
      ((\<exists>cur. leases k (lease_Namespace l, lease_Name l) = Some cur
          \<and> leases k' = (leases k)((lease_Namespace l, lease_Name l) \<mapsto> merge_patch l m cur))
       \<or> leases k' = leases k \<and> x \<noteq> Inr ())"
    using laws [THEN conjunct2, THEN conjunct2, THEN conjunct2, THEN conjunct2] by blast
qed

section \<open>At most one winner while a lease is fresh\<close>

text \<open>A lease of \<open>o\<close> that was last renewed at \<open>t0\<close> or later.\<close>

definition fresh :: "int \<Rightarrow> string \<Rightarrow> string \<Rightarrow> string \<Rightarrow> Lease \<Rightarrow> bool" where
  "fresh t0 ns n h l \<longleftrightarrow> HolderIdentity l = Some h \<and> LeaseDurationSeconds l = Some leaseDuration \<and>
     lease_Namespace l = ns \<and> lease_Name l = n \<and> (\<exists>t. RenewTime l = Some t \<and> t0 \<le> t)"

text \<open>
  The invariant. Without a lease nobody has won or seen one; with one, it is fresh, its holder is
  the only one who may have won (and is in \<open>G\<close>), and whoever has seen a lease saw one of this
  holder. Nobody is about to take it over.
\<close>

definition exclusive :: "('k \<Rightarrow> string \<times> string \<Rightarrow> Lease option) \<Rightarrow> ('k \<Rightarrow> int) \<Rightarrow> string \<Rightarrow> string \<Rightarrow> string set \<Rightarrow> int \<Rightarrow>
    'k \<times> (string \<Rightarrow> phase) \<Rightarrow> bool" where
  "exclusive leases clock ns n G t0 = (\<lambda>(k, p). t0 \<le> clock k \<and>
     (\<forall>h. case p h of Timed t \<Rightarrow> t0 \<le> t | Seen t _ \<Rightarrow> t0 \<le> t | Expired _ _ \<Rightarrow> False | _ \<Rightarrow> True) \<and>
     (case leases k (ns, n) of
        None \<Rightarrow> G = UNIV \<and> (\<forall>h. p h \<noteq> Won \<and> (\<forall>t l. p h \<noteq> Seen t (Some l)))
      | Some l \<Rightarrow> \<exists>o' \<in> G. fresh t0 ns n o' l \<and> (\<forall>h. (p h = Won \<longrightarrow> h = o') \<and> (\<forall>t l'. p h = Seen t (Some l') \<longrightarrow> fresh t0 ns n o' l'))))"

lemma fresh_patched:
  assumes "fresh t0 ns n h cur" "fresh t0 ns n h l" "t0 \<le> t"
  shows "fresh t0 ns n h (merge_patch l (renewed t l) cur)"
  using assms by (auto simp: fresh_def merge_patch_def renewed_def)

lemma new_lease_key [simp]: "lease_Namespace (new_lease ns n h t) = ns" "lease_Name (new_lease ns n h t) = n"
  by (simp_all add: new_lease_def)

lemma fresh_new: "t0 \<le> t \<Longrightarrow> fresh t0 ns n h (new_lease ns n h t)"
  by (simp add: fresh_def new_lease_def)

text \<open>The invariant, read off for a state with a lease and for one without.\<close>

lemma exclusive_idle:
  assumes "exclusive leases clock ns n G t0 (k, p)" and "clock k \<le> clock k'" and "leases k' = leases k"
    and "x = Idle \<or> x = Lost \<or> (\<exists>t. (x = Timed t \<or> x = Seen t None) \<and> t0 \<le> t)
      \<or> (\<exists>t l. x = Seen t (Some l) \<and> t0 \<le> t \<and> leases k (ns, n) = Some l)"
  shows "exclusive leases clock ns n G t0 (k', p(h := x))"
  using assms by (auto simp: exclusive_def split: option.splits)

lemma exclusive_won:
  assumes "exclusive leases clock ns n G t0 (k, p)" and "clock k \<le> clock k'"
    and "leases k' (ns, n) = Some l" and "fresh t0 ns n h l"
    and "leases k (ns, n) = None \<or> (\<exists>l'. leases k (ns, n) = Some l' \<and> fresh t0 ns n h l')"
    and "x = Won \<or> x = Lost"
  shows "exclusive leases clock ns n G t0 (k', p(h := x))"
proof -
  have clk: "t0 \<le> clock k'" using assms(1,2) by (simp add: exclusive_def)
  have ph: "\<forall>g. case (p(h := x)) g of Timed t \<Rightarrow> t0 \<le> t | Seen t _ \<Rightarrow> t0 \<le> t | Expired _ _ \<Rightarrow> False | _ \<Rightarrow> True"
    using assms(1,6) by (auto simp: exclusive_def)
  have others: "h \<in> G \<and> (p g = Won \<longrightarrow> g = h) \<and> (\<forall>t l'. p g = Seen t (Some l') \<longrightarrow> fresh t0 ns n h l')" for g
    using assms(5)
  proof
    assume "leases k (ns, n) = None"
    then show ?thesis using assms(1) by (simp add: exclusive_def)
  next
    assume "\<exists>l'. leases k (ns, n) = Some l' \<and> fresh t0 ns n h l'"
    then obtain l' where l': "leases k (ns, n) = Some l'" "fresh t0 ns n h l'" by blast
    with assms(1) obtain o' where o': "o' \<in> G" "fresh t0 ns n o' l'"
      "\<forall>h. (p h = Won \<longrightarrow> h = o') \<and> (\<forall>t l'. p h = Seen t (Some l') \<longrightarrow> fresh t0 ns n o' l')"
      by (auto simp: exclusive_def)
    have "o' = h" using o'(2) l'(2) by (simp add: fresh_def)
    with o'(1,3) show ?thesis by blast
  qed
  have "\<exists>o' \<in> G. fresh t0 ns n o' l \<and>
      (\<forall>g. ((p(h := x)) g = Won \<longrightarrow> g = o') \<and> (\<forall>t l'. (p(h := x)) g = Seen t (Some l') \<longrightarrow> fresh t0 ns n o' l'))"
    using assms(4,6) others by (intro bexI [of _ h]) auto
  with clk ph show ?thesis by (simp add: exclusive_def assms(3))
qed

lemma exclusive_step:
  assumes laws: "lease_laws A leases clock" and step: "lease_step A leases clock ns n (k, p) (k', p')"
    and inv: "exclusive leases clock ns n G t0 (k, p)" and soon: "clock k \<le> t0 + leaseDuration * second"
  shows "exclusive leases clock ns n G t0 (k', p')"
proof -
  have t: "t0 \<le> t" if "p h = Timed t \<or> p h = Seen t x" for h t x
  proof -
    from inv have "case p h of Timed t \<Rightarrow> t0 \<le> t | Seen t _ \<Rightarrow> t0 \<le> t | Expired _ _ \<Rightarrow> False | _ \<Rightarrow> True"
      by (simp add: exclusive_def)
    with that show ?thesis by auto
  qed
  have clk: "t0 \<le> clock k" using inv by (simp add: exclusive_def)
  have held: "\<exists>cur o'. leases k (ns, n) = Some cur \<and> fresh t0 ns n o' cur \<and> fresh t0 ns n o' l" if "p h = Seen t' (Some l)" for h t' l
    using inv that by (auto simp: exclusive_def split: option.splits)
  show ?thesis
    using step
  proof (rule lease_stepE)
    fix h t1 assume s: "p' = p(h := Timed t1)" "Now (A h) k = (t1, k')"
    note lease_lawsD(2) [OF laws s(2)]
    then show ?thesis unfolding s(1) by (intro exclusive_idle [OF inv]) (use clk in auto)
  next
    fix h t1 r assume s: "p' = p(h := after_get t1 r)" "p h = Timed t1" "GetLease (A h) ns n k = (r, k')"
    from lease_lawsD(3) [OF laws s(3)] t [OF disjI1, OF s(2)] show ?thesis
      unfolding s(1) by (intro exclusive_idle [OF inv]) (auto simp: after_get_def split: sum.split)
  next
    fix h t1 r assume s: "p' = p(h := won_if r)" "p h = Seen t1 None"
      "CreateLease (A h) (new_lease ns n (holder_id (A h)) t1) k = (r, k')"
    note c = lease_lawsD(4) [OF laws s(3)] and t1 = t [OF disjI2, OF s(2)]
    show ?thesis
    proof (cases "leases k' = leases k \<and> r \<noteq> Inr ()")
      case True
      then show ?thesis unfolding s(1) using c by (intro exclusive_idle [OF inv]) (auto simp: won_if_def split: sum.split)
    next
      case False
      with c show ?thesis
        unfolding s(1) by (intro exclusive_won [OF inv, where l = "new_lease ns n h t1"])
          (auto simp: won_if_def fresh_new [OF t1] lease_lawsD(1) [OF laws] split: sum.split)
    qed
  next
    fix h t1 l r assume s: "p' = p(h := won_if r)" "p h = Seen t1 (Some l)" "HolderIdentity l = Some (holder_id (A h))"
      "PatchLease (A h) l (renewed t1 l) k = (r, k')"
    note c = lease_lawsD(5) [OF laws s(4)] and t1 = t [OF disjI2, OF s(2)]
    from held [OF s(2)] obtain cur o' where cur: "leases k (ns, n) = Some cur" "fresh t0 ns n o' cur" "fresh t0 ns n o' l" by blast
    have "o' = h" using cur(3) s(3) lease_lawsD(1) [OF laws] by (simp add: fresh_def)
    with cur have fr: "fresh t0 ns n h cur" "fresh t0 ns n h l" "lease_Namespace l = ns" "lease_Name l = n" by (auto simp: fresh_def)
    show ?thesis
    proof (cases "leases k' = leases k \<and> r \<noteq> Inr ()")
      case True
      then show ?thesis unfolding s(1) using c by (intro exclusive_idle [OF inv]) (auto simp: won_if_def split: sum.split)
    next
      case False
      with c fr(3,4) cur(1) have k': "leases k' (ns, n) = Some (merge_patch l (renewed t1 l) cur)" "clock k \<le> clock k'" by auto
      show ?thesis
        unfolding s(1) by (rule exclusive_won [OF inv k'(2,1) fresh_patched [OF fr(1,2) t1]])
          (use cur(1) fr(1) in \<open>auto simp: won_if_def split: sum.split\<close>)
    qed
  next
    fix h t1 l assume s: "k' = k" "p' = p(h := Lost)"
    then show ?thesis unfolding s by (intro exclusive_idle [OF inv]) auto
  next
    fix h t1 l t2 d t' assume s: "p' = p(h := after_expiry t1 l t2 d t')" "p h = Seen t1 (Some l)" "RenewTime l = Some t2"
      "LeaseDurationSeconds l = Some d" "Now (A h) k = (t', k')"
    from held [OF s(2)] obtain o' where "fresh t0 ns n o' l" by blast
    then have "d = leaseDuration" "t0 \<le> t2" using s(3,4) by (auto simp: fresh_def)
    moreover note lease_lawsD(2) [OF laws s(5)]
    ultimately show ?thesis
      unfolding s(1) by (intro exclusive_idle [OF inv]) (use soon in \<open>auto simp: after_expiry_def\<close>)
  next
    fix h t1 l assume s: "p h = Expired t1 l"
    from inv have "case p h of Timed t \<Rightarrow> t0 \<le> t | Seen t _ \<Rightarrow> t0 \<le> t | Expired _ _ \<Rightarrow> False | _ \<Rightarrow> True"
      by (simp add: exclusive_def)
    with s show ?thesis by simp
  next
    fix h assume s: "k' = k" "p' = p(h := Idle)"
    then show ?thesis unfolding s by (intro exclusive_idle [OF inv]) auto
  next
    assume "p' = p" "clock k \<le> clock k'" "leases k' = leases k"
    then show ?thesis using inv by (auto simp: exclusive_def split: option.splits)
  qed
qed

lemma lease_step_clock:
  assumes "lease_laws A leases clock" and "lease_step A leases clock ns n (k, p) (k', p')"
  shows "clock k \<le> clock k'"
  using assms(2)
  by (rule lease_stepE) (auto dest: lease_lawsD(2-5) [OF assms(1)])

lemma exclusive_path:
  assumes laws: "lease_laws A leases clock"
    and "(lease_step A leases clock ns n)\<^sup>*\<^sup>* (k, p) (k', p')" and "exclusive leases clock ns n G t0 (k, p)"
    and "clock k' \<le> t0 + leaseDuration * second"
  shows "exclusive leases clock ns n G t0 (k', p')"
  using assms(2-)
proof (induction rule: rtranclp_induct2)
  case refl
  then show ?case by simp
next
  case (step k1 p1 k2 p2)
  have "clock k1 \<le> clock k2" using lease_step_clock [OF laws step.hyps(2)] .
  with step show ?case by (intro exclusive_step [OF laws step.hyps(2)]) auto
qed

text \<open>
  C4. Mutual exclusion. Operators that compete for a lease that does not exist yet, in whatever
  order their API calls are served and whichever of them fail: within the 30 seconds of a lease
  no two of them have won.
\<close>

theorem Lease_mutual_exclusion:
  assumes "lease_laws A leases clock" and "leases k0 (ns, n) = None"
    and "(lease_step A leases clock ns n)\<^sup>*\<^sup>* (k0, \<lambda>_. Idle) (k, p)"
    and "clock k \<le> clock k0 + leaseDuration * second"
    and "p g = Won" and "p h = Won"
  shows "g = h"
proof -
  have "exclusive leases clock ns n UNIV (clock k0) (k0, \<lambda>_. Idle)" using assms(2) by (simp add: exclusive_def)
  from exclusive_path [OF assms(1,3) this assms(4)] assms(5,6) show ?thesis
    by (cases "leases k (ns, n)") (simp_all add: exclusive_def, metis)
qed

text \<open>
  C5. A lease that somebody holds is respected: until 30 seconds after its last renewal nobody
  but its holder wins.
\<close>

theorem Lease_holder_protected:
  assumes "lease_laws A leases clock" and "leases k0 (ns, n) = Some l" and "fresh t0 ns n g l" and "t0 \<le> clock k0"
    and "(lease_step A leases clock ns n)\<^sup>*\<^sup>* (k0, \<lambda>_. Idle) (k, p)"
    and "clock k \<le> t0 + leaseDuration * second" and "p h = Won"
  shows "h = g"
proof -
  have "exclusive leases clock ns n {g} t0 (k0, \<lambda>_. Idle)" using assms(2-4) by (simp add: exclusive_def)
  from exclusive_path [OF assms(1,5) this assms(6)] assms(7) show ?thesis
    by (cases "leases k (ns, n)") (auto simp: exclusive_def)
qed

section \<open>An API server that keeps these promises, and two winners\<close>

type_synonym lease_store = "(string \<times> string \<Rightarrow> Lease option) \<times> int"

definition lease_env :: "string \<Rightarrow> lease_store AGEnv" where
  "lease_env h = \<lparr>GetPod = (\<lambda>_ _ k. (Inl (GoErr True ''pod''), k)), PatchPod = (\<lambda>_ p k. (Inr p, k)),
     GetLease = (\<lambda>ns n k. (case fst k (ns, n) of None \<Rightarrow> Inl (GoErr True ''lease'') | Some l \<Rightarrow> Inr l, k)),
     CreateLease = (\<lambda>l k. case fst k (lease_Namespace l, lease_Name l) of
        None \<Rightarrow> (Inr (), ((fst k)((lease_Namespace l, lease_Name l) \<mapsto> l), snd k))
      | Some _ \<Rightarrow> (Inl (GoErr False ''already exists''), k)),
     PatchLease = (\<lambda>l m k. case fst k (lease_Namespace l, lease_Name l) of
        None \<Rightarrow> (Inl (GoErr True ''lease''), k)
      | Some cur \<Rightarrow> (Inr (), ((fst k)((lease_Namespace l, lease_Name l) \<mapsto> merge_patch l m cur), snd k))),
     ListAGFailovers = (\<lambda>_ k. (Inr [], k)), Now = (\<lambda>k. (snd k, k)), ParseDuration = (\<lambda>_. None), holder_id = h\<rparr>"

lemma lease_env_laws: "lease_laws lease_env fst snd"
  unfolding lease_laws_def lease_env_def by (auto split: option.splits)

text \<open>
  C7. Taking over an expired lease is a race: the patch carries no resource version, so that when
  two operators have both read the expired lease, both win, one after the other, within the same
  instant. (Two forced failovers can then be under way.)
\<close>

theorem Lease_takeover_race:
  assumes "p0 = (\<lambda>_. Idle)" and "a \<noteq> b"
    and "l = new_lease ns n c t0" and "c \<noteq> a" and "c \<noteq> b" and "t0 + leaseDuration * second < now"
    and "leases = [(ns, n) \<mapsto> l]"
  shows "\<exists>k p. (lease_step lease_env fst snd ns n)\<^sup>*\<^sup>* ((leases, now), p0) (k, p) \<and> snd k = now \<and> p a = Won \<and> p b = Won"
proof -
  let ?s = "fold (operator_step lease_env ns n) [a, b, a, b, a, b, a, b] ((leases, now), p0)"
  have "(lease_step lease_env fst snd ns n)\<^sup>*\<^sup>* ((leases, now), p0) ?s" by (rule schedule_is_path)
  moreover have "snd (fst ?s) = now \<and> snd ?s a = Won \<and> snd ?s b = Won"
    using assms by (simp add: lease_env_def new_lease_def after_get_def after_expiry_def taken_over_def won_if_def merge_patch_def)
  ultimately show ?thesis by (metis prod.collapse)
qed

section \<open>Examples\<close>

theorem tryAcquireLease_is_path_witness:
  "succeeds (tryAcquireLease (lease_env ''a'') ''ns'' ''l'') \<lparr>kube = (Map.empty, 0), sql = (), events = []\<rparr> (\<lambda>b w'.
    (lease_step lease_env fst snd ''ns'' ''l'')\<^sup>*\<^sup>* ((Map.empty, 0), \<lambda>_. Idle)
      (kube w', (\<lambda>_. Idle)(''a'' := (if b then Won else Lost))))"
  by (rule wp_mono [OF tryAcquireLease_is_path [where p = "\<lambda>_. Idle" and h = "''a''" and A = lease_env
        and leases = fst and clock = snd]]) simp_all

lemma ex_first_wins:
  "fold (operator_step lease_env ''ns'' ''l'') [''a'', ''a'', ''a''] ((Map.empty, 0), \<lambda>_. Idle)
   = (([(''ns'', ''l'') \<mapsto> new_lease ''ns'' ''l'' ''a'' 0], 0), (\<lambda>_. Idle)(''a'' := Won))"
  by (simp add: lease_env_def new_lease_def after_get_def won_if_def)

theorem Lease_mutual_exclusion_witness:
  "\<exists>k p. (lease_step lease_env fst snd ''ns'' ''l'')\<^sup>*\<^sup>* ((Map.empty, 0), \<lambda>_. Idle) (k, p) \<and> p ''a'' = Won
     \<and> (\<forall>h. p h = Won \<longrightarrow> h = ''a'')"
proof -
  let ?s = "(([(''ns'', ''l'') \<mapsto> new_lease ''ns'' ''l'' ''a'' 0], 0) :: lease_store, (\<lambda>_. Idle)(''a'' := Won))"
  have path: "(lease_step lease_env fst snd ''ns'' ''l'')\<^sup>*\<^sup>* ((Map.empty, 0), \<lambda>_. Idle) ?s"
    using schedule_is_path [of lease_env fst snd "''ns''" "''l''" "((Map.empty, 0), \<lambda>_. Idle)" "[''a'', ''a'', ''a'']"]
    unfolding ex_first_wins .
  have none: "fst (Map.empty :: string \<times> string \<Rightarrow> Lease option, 0 :: int) (''ns'', ''l'') = None" by simp
  have soon: "snd (fst ?s) \<le> snd (Map.empty :: string \<times> string \<Rightarrow> Lease option, 0 :: int) + leaseDuration * second"
    by (simp add: leaseDuration_def second_def)
  have "h = ''a''" if "((\<lambda>_. Idle)(''a'' := Won)) h = Won" for h
    by (rule Lease_mutual_exclusion [of lease_env fst snd "(Map.empty, 0)" "''ns''" "''l''" "fst ?s" "snd ?s" h "''a''",
        OF lease_env_laws none])
      (simp_all only: fst_conv snd_conv path soon [unfolded fst_conv snd_conv] that fun_upd_same)
  then show ?thesis using path by (intro exI [of _ "fst ?s"] exI [of _ "snd ?s"] conjI allI impI) (simp_all only: fst_conv snd_conv fun_upd_same)
qed

theorem Lease_holder_protected_witness:
  "\<exists>k p. (lease_step lease_env fst snd ''ns'' ''l'')\<^sup>*\<^sup>* (([(''ns'', ''l'') \<mapsto> new_lease ''ns'' ''l'' ''g'' 0], 5), \<lambda>_. Idle) (k, p)
     \<and> (\<forall>h. p h = Won \<longrightarrow> h = ''g'')"
proof (intro exI conjI)
  let ?k = "([(''ns'', ''l'') \<mapsto> new_lease ''ns'' ''l'' ''g'' 0], 5) :: lease_store"
  let ?s = "fold (operator_step lease_env ''ns'' ''l'') [''g'', ''g'', ''g''] (?k, \<lambda>_. Idle)"
  have path: "(lease_step lease_env fst snd ''ns'' ''l'')\<^sup>*\<^sup>* (?k, \<lambda>_. Idle) (fst ?s, snd ?s)"
    using schedule_is_path [of lease_env fst snd "''ns''" "''l''" "(?k, \<lambda>_. Idle)" "[''g'', ''g'', ''g'']"] by simp
  then show "(lease_step lease_env fst snd ''ns'' ''l'')\<^sup>*\<^sup>* (?k, \<lambda>_. Idle) (fst ?s, snd ?s)" .
  have "snd (fst ?s) = 5"
    by (simp add: lease_env_def new_lease_def after_get_def won_if_def renewed_def)
  then show "\<forall>h. snd ?s h = Won \<longrightarrow> h = ''g''"
    using Lease_holder_protected [OF lease_env_laws _ fresh_new [of 0 0] _ path]
    by (simp add: leaseDuration_def second_def)
qed

theorem Lease_takeover_race_witness:
  "\<exists>k p. (lease_step lease_env fst snd ''ns'' ''l'')\<^sup>*\<^sup>*
     (([(''ns'', ''l'') \<mapsto> new_lease ''ns'' ''l'' ''c'' 0], 100 * second), \<lambda>_. Idle) (k, p)
     \<and> snd k = 100 * second \<and> p ''a'' = Won \<and> p ''b'' = Won"
  by (rule Lease_takeover_race [where c = "''c''" and ?t0.0 = 0, OF refl _ refl]) (simp_all add: leaseDuration_def second_def)

end
