(* ===== verification/MSSQL_Client.thy ===== *)
theory MSSQL_Client
  imports Quoting Helpers
begin

text \<open>
  \<open>internal/sql/client.go\<close>: the client for a real SQL Server. Every method builds one or more
  T-SQL statements and hands them to \<open>database/sql\<close>; the driver and the server behind it are a
  parameter, a record of calls on a state.
\<close>

section \<open>The database handle\<close>

text \<open>
  \<open>*sql.DB\<close> and the one \<open>*sql.Conn\<close> a method takes from its pool. A query returns its rows, with
  what \<open>rows.Err()\<close> says after the last.
\<close>

datatype sql_value = SqlNull | SqlInt int | SqlText string | SqlBytes "nat list"

type_synonym sql_rows = "sql_value list list \<times> go_error option"

record 'd Driver =
  Exec :: "string \<Rightarrow> (unit, 'd) op"
  Query :: "string \<Rightarrow> string list \<Rightarrow> (sql_rows, 'd) op"
  OpenConn :: "(unit, 'd) op"
  ConnExec :: "string \<Rightarrow> (unit, 'd) op"
  ConnQuery :: "string \<Rightarrow> string list \<Rightarrow> (sql_rows, 'd) op"
  CloseConn :: "'d \<Rightarrow> 'd"
  PingDB :: "(unit, 'd) op"
  CloseDB :: "'d \<Rightarrow> 'd"

text \<open>
  \<open>Scan\<close> into the destinations the client uses. The statements return numbers as numbers: text
  that would have to be parsed as one does not convert.
\<close>

definition scan_error :: go_error where
  "scan_error = Errorf ''sql: Scan error on column index 0: unsupported conversion''"

fun scan_string :: "sql_value \<Rightarrow> string res" where
  "scan_string (SqlText s) = Inr s"
| "scan_string (SqlInt i) = Inr (show_int i)"
| "scan_string (SqlBytes b) = Inr (List.map char_of b)"
| "scan_string SqlNull = Inl scan_error"

fun scan_int :: "sql_value \<Rightarrow> int res" where
  "scan_int (SqlInt i) = Inr i"
| "scan_int _ = Inl scan_error"

fun scan_bool :: "sql_value \<Rightarrow> bool res" where
  "scan_bool (SqlInt i) = (if i = 1 then Inr True else if i = 0 then Inr False else Inl scan_error)"
| "scan_bool _ = Inl scan_error"

fun scan_bytes :: "sql_value \<Rightarrow> nat list res" where
  "scan_bytes (SqlBytes b) = Inr b"
| "scan_bytes SqlNull = Inr []"
| "scan_bytes (SqlText s) = Inr (List.map of_char s)"
| "scan_bytes (SqlInt i) = Inr (List.map of_char (show_int i))"

text \<open>\<open>sql.NullString\<close> and \<open>sql.NullInt64\<close>\<close>

definition scan_nullable :: "(sql_value \<Rightarrow> 'a res) \<Rightarrow> sql_value \<Rightarrow> 'a option res" where
  "scan_nullable f v = (if v = SqlNull then Inr None else case f v of Inl e \<Rightarrow> Inl e | Inr x \<Rightarrow> Inr (Some x))"

definition scan1 :: "(sql_value \<Rightarrow> 'a res) \<Rightarrow> sql_value list \<Rightarrow> 'a res" where
  "scan1 f row = (case row of [v] \<Rightarrow> f v | _ \<Rightarrow> Inl (Errorf ''sql: expected 1 destination arguments in Scan''))"

definition ErrNoRows :: go_error where
  "ErrNoRows = Errorf ''sql: no rows in result set''"

definition from_res :: "'a res \<Rightarrow> ('a, 's) op" where
  "from_res r = (case r of Inl e \<Rightarrow> fail e | Inr x \<Rightarrow> ret x)"

text \<open>\<open>QueryRow(...).Scan(&x)\<close>, and the loop over \<open>rows.Next()\<close> with the final \<open>rows.Err()\<close>\<close>

definition first_row :: "(sql_value list \<Rightarrow> 'a res) \<Rightarrow> sql_rows \<Rightarrow> ('a, 's) op" where
  "first_row scan rs =
     (case rs of
        ([], Some e) \<Rightarrow> fail e
      | ([], None) \<Rightarrow> fail ErrNoRows
      | (row # _, _) \<Rightarrow> from_res (scan row))"

fun scan_all :: "(sql_value list \<Rightarrow> 'a res) \<Rightarrow> sql_value list list \<Rightarrow> 'a list res" where
  "scan_all scan [] = Inr []"
| "scan_all scan (row # rows) =
     (case scan row of Inl e \<Rightarrow> Inl e
      | Inr x \<Rightarrow> (case scan_all scan rows of Inl e \<Rightarrow> Inl e | Inr xs \<Rightarrow> Inr (x # xs)))"

definition all_rows :: "(sql_value list \<Rightarrow> 'a res) \<Rightarrow> sql_rows \<Rightarrow> ('a list, 's) op" where
  "all_rows scan rs =
     (case scan_all scan (fst rs) of
        Inl e \<Rightarrow> fail e
      | Inr xs \<Rightarrow> (case snd rs of Some e \<Rightarrow> fail e | None \<Rightarrow> ret xs))"

definition query_row :: "'d Driver \<Rightarrow> string \<Rightarrow> string list \<Rightarrow> (sql_value list \<Rightarrow> 'a res) \<Rightarrow> ('a, 'd) op" where
  "query_row D q args scan = attempt (Query D q args) fail (first_row scan)"

definition conn_query_row :: "'d Driver \<Rightarrow> string \<Rightarrow> string list \<Rightarrow> (sql_value list \<Rightarrow> 'a res) \<Rightarrow> ('a, 'd) op" where
  "conn_query_row D q args scan = attempt (ConnQuery D q args) fail (first_row scan)"

definition exec_or :: "'d Driver \<Rightarrow> string \<Rightarrow> string \<Rightarrow> (unit, 'd) op" where
  "exec_or D msg q = or_fail msg (Exec D q) ret"

definition conn_exec :: "'d Driver \<Rightarrow> string \<Rightarrow> (unit, 'd) op" where
  "conn_exec D q = ConnExec D q"

section \<open>Running something in a database\<close>

text \<open>Both take one connection, so that the \<open>USE\<close> and what follows it are on the same.\<close>

definition use_sql :: "string \<Rightarrow> string" where
  "use_sql dbName = ''USE '' @ QuoteName dbName"

definition queryInDatabase :: "'d Driver \<Rightarrow> string \<Rightarrow> ('a, 'd) op \<Rightarrow> ('a, 'd) op" where
  "queryInDatabase D dbName fn =
     or_fail ''failed to get connection'' (OpenConn D) (\<lambda>_.
     deferred (CloseConn D) (
     or_fail (''failed to switch to database '' @ dbName) (ConnExec D (use_sql dbName)) (\<lambda>_. fn)))"

definition execInDatabase :: "'d Driver \<Rightarrow> string \<Rightarrow> string \<Rightarrow> (unit, 'd) op" where
  "execInDatabase D dbName query =
     or_fail ''failed to get connection'' (OpenConn D) (\<lambda>_.
     deferred (CloseConn D) (
     or_fail (''failed to switch to database '' @ dbName) (ConnExec D (use_sql dbName)) (\<lambda>_.
     or_fail (''failed to execute in database '' @ dbName) (ConnExec D query) ret)))"

section \<open>Databases\<close>

definition apostrophe :: char where
  "apostrophe = CHR 0x27"

definition sq_text :: "string \<Rightarrow> string" where
  "sq_text s = apostrophe # s @ [apostrophe]"

definition MSSQL_DatabaseExists :: "'d Driver \<Rightarrow> string \<Rightarrow> (bool, 'd) op" where
  "MSSQL_DatabaseExists D name =
     query_row D ''SELECT CASE WHEN DB_ID(@p1) IS NOT NULL THEN 1 ELSE 0 END'' [name] (scan1 scan_bool)"

definition create_database_sql :: "string \<Rightarrow> string option \<Rightarrow> string" where
  "create_database_sql name collation =
     ''CREATE DATABASE '' @ QuoteName name @
     (case collation of Some c \<Rightarrow> if c \<noteq> [] then '' COLLATE '' @ QuoteName c else [] | None \<Rightarrow> [])"

definition MSSQL_CreateDatabase :: "'d Driver \<Rightarrow> string \<Rightarrow> string option \<Rightarrow> (unit, 'd) op" where
  "MSSQL_CreateDatabase D name collation =
     exec_or D (''failed to create database '' @ name) (create_database_sql name collation)"

definition MSSQL_DropDatabase :: "'d Driver \<Rightarrow> string \<Rightarrow> (unit, 'd) op" where
  "MSSQL_DropDatabase D name =
     exec_or D (''failed to drop database '' @ name) (''DROP DATABASE IF EXISTS '' @ QuoteName name)"

definition MSSQL_GetDatabaseOwner :: "'d Driver \<Rightarrow> string \<Rightarrow> (string, 'd) op" where
  "MSSQL_GetDatabaseOwner D name =
     or_fail (''failed to get owner for database '' @ name)
       (query_row D ''SELECT SUSER_SNAME(owner_sid) FROM sys.databases WHERE name = @p1'' [name] (scan1 scan_string)) ret"

definition MSSQL_SetDatabaseOwner :: "'d Driver \<Rightarrow> string \<Rightarrow> string \<Rightarrow> (unit, 'd) op" where
  "MSSQL_SetDatabaseOwner D dbName owner =
     exec_or D (''failed to set owner '' @ owner @ '' on database '' @ dbName)
       (''ALTER AUTHORIZATION ON DATABASE::'' @ QuoteName dbName @ '' TO '' @ QuoteName owner)"

definition MSSQL_GetDatabaseCollation :: "'d Driver \<Rightarrow> string \<Rightarrow> (string, 'd) op" where
  "MSSQL_GetDatabaseCollation D name =
     or_fail (''failed to get collation for database '' @ name)
       (query_row D ''SELECT collation_name FROM sys.databases WHERE name = @p1'' [name] (scan1 scan_string)) ret"

definition MSSQL_GetDatabaseRecoveryModel :: "'d Driver \<Rightarrow> string \<Rightarrow> (string, 'd) op" where
  "MSSQL_GetDatabaseRecoveryModel D name =
     or_fail (''failed to get recovery model for '' @ name)
       (query_row D (''SELECT recovery_model_desc FROM sys.databases WHERE name = '' @ QuoteString name) [] (scan1 scan_string)) ret"

definition MSSQL_SetDatabaseRecoveryModel :: "'d Driver \<Rightarrow> string \<Rightarrow> string \<Rightarrow> (unit, 'd) op" where
  "MSSQL_SetDatabaseRecoveryModel D name model =
     exec_or D (''failed to set recovery model for '' @ name)
       (''ALTER DATABASE '' @ QuoteName name @ '' SET RECOVERY '' @ model)"

definition MSSQL_GetDatabaseCompatibilityLevel :: "'d Driver \<Rightarrow> string \<Rightarrow> (int, 'd) op" where
  "MSSQL_GetDatabaseCompatibilityLevel D name =
     or_fail (''failed to get compatibility level for '' @ name)
       (query_row D (''SELECT compatibility_level FROM sys.databases WHERE name = '' @ QuoteString name) [] (scan1 scan_int)) ret"

definition MSSQL_SetDatabaseCompatibilityLevel :: "'d Driver \<Rightarrow> string \<Rightarrow> int \<Rightarrow> (unit, 'd) op" where
  "MSSQL_SetDatabaseCompatibilityLevel D name level =
     exec_or D (''failed to set compatibility level for '' @ name)
       (''ALTER DATABASE '' @ QuoteName name @ '' SET COMPATIBILITY_LEVEL = '' @ show_int level)"

definition MSSQL_GetDatabaseOption :: "'d Driver \<Rightarrow> string \<Rightarrow> string \<Rightarrow> (bool, 'd) op" where
  "MSSQL_GetDatabaseOption D name option =
     or_fail (''failed to get database option '' @ option @ '' for '' @ name)
       (query_row D (''SELECT CAST(DATABASEPROPERTYEX('' @ QuoteString name @ '', '' @ QuoteString option @ '') AS int)'') []
          (scan1 (scan_nullable scan_int)))
       (\<lambda>val. ret (val = Some 1))"

definition set_option_sql :: "string \<Rightarrow> string \<Rightarrow> bool \<Rightarrow> string" where
  "set_option_sql name option value =
     ''ALTER DATABASE '' @ QuoteName name @ '' SET '' @ option @ '' '' @ (if value then ''ON'' else ''OFF'') @ '' WITH ROLLBACK IMMEDIATE''"

definition MSSQL_SetDatabaseOption :: "'d Driver \<Rightarrow> string \<Rightarrow> string \<Rightarrow> bool \<Rightarrow> (unit, 'd) op" where
  "MSSQL_SetDatabaseOption D name option value =
     exec_or D (''failed to set database option '' @ option @ '' for '' @ name) (set_option_sql name option value)"

section \<open>Logins\<close>

text \<open>The continuation lines of the raw string literals.\<close>

definition nl :: "string \<Rightarrow> string" where
  "nl s = [CHR 10, CHR 9, CHR 9, CHR 32] @ s"

definition MSSQL_LoginExists :: "'d Driver \<Rightarrow> string \<Rightarrow> (bool, 'd) op" where
  "MSSQL_LoginExists D name =
     query_row D ''SELECT CASE WHEN SUSER_ID(@p1) IS NOT NULL THEN 1 ELSE 0 END'' [name] (scan1 scan_bool)"

definition MSSQL_CreateLogin :: "'d Driver \<Rightarrow> string \<Rightarrow> string \<Rightarrow> (unit, 'd) op" where
  "MSSQL_CreateLogin D name password =
     exec_or D (''failed to create login '' @ name)
       (''CREATE LOGIN '' @ QuoteName name @ '' WITH PASSWORD = '' @ QuoteString password)"

definition MSSQL_DropLogin :: "'d Driver \<Rightarrow> string \<Rightarrow> (unit, 'd) op" where
  "MSSQL_DropLogin D name = exec_or D (''failed to drop login '' @ name) (''DROP LOGIN '' @ QuoteName name)"

definition MSSQL_UpdateLoginPassword :: "'d Driver \<Rightarrow> string \<Rightarrow> string \<Rightarrow> (unit, 'd) op" where
  "MSSQL_UpdateLoginPassword D name password =
     exec_or D (''failed to update password for login '' @ name)
       (''ALTER LOGIN '' @ QuoteName name @ '' WITH PASSWORD = '' @ QuoteString password)"

definition MSSQL_GetLoginDefaultDatabase :: "'d Driver \<Rightarrow> string \<Rightarrow> (string, 'd) op" where
  "MSSQL_GetLoginDefaultDatabase D name =
     or_fail (''failed to get default database for login '' @ name)
       (query_row D ''SELECT default_database_name FROM sys.server_principals WHERE name = @p1'' [name] (scan1 scan_string)) ret"

definition MSSQL_SetLoginDefaultDatabase :: "'d Driver \<Rightarrow> string \<Rightarrow> string \<Rightarrow> (unit, 'd) op" where
  "MSSQL_SetLoginDefaultDatabase D name dbName =
     exec_or D (''failed to set default database for login '' @ name)
       (''ALTER LOGIN '' @ QuoteName name @ '' WITH DEFAULT_DATABASE = '' @ QuoteName dbName)"

definition MSSQL_GetLoginServerRoles :: "'d Driver \<Rightarrow> string \<Rightarrow> (string list, 'd) op" where
  "MSSQL_GetLoginServerRoles D name =
     or_fail (''failed to get server roles for login '' @ name)
       (Query D (''SELECT r.name FROM sys.server_role_members m'' @
          nl ''JOIN sys.server_principals r ON m.role_principal_id = r.principal_id'' @
          nl ''JOIN sys.server_principals p ON m.member_principal_id = p.principal_id'' @
          nl ''WHERE p.name = @p1'') [name])
       (all_rows (scan1 scan_string))"

definition MSSQL_AddLoginToServerRole :: "'d Driver \<Rightarrow> string \<Rightarrow> string \<Rightarrow> (unit, 'd) op" where
  "MSSQL_AddLoginToServerRole D login role =
     exec_or D (''failed to add login '' @ login @ '' to server role '' @ role)
       (''ALTER SERVER ROLE '' @ QuoteName role @ '' ADD MEMBER '' @ QuoteName login)"

definition MSSQL_RemoveLoginFromServerRole :: "'d Driver \<Rightarrow> string \<Rightarrow> string \<Rightarrow> (unit, 'd) op" where
  "MSSQL_RemoveLoginFromServerRole D login role =
     exec_or D (''failed to remove login '' @ login @ '' from server role '' @ role)
       (''ALTER SERVER ROLE '' @ QuoteName role @ '' DROP MEMBER '' @ QuoteName login)"

text \<open>
  All databases that are online are asked; one that cannot be asked is skipped, and the first
  that has a user for the login ends the search.
\<close>

definition count_login_users :: "'d Driver \<Rightarrow> string \<Rightarrow> string \<Rightarrow> (int, 'd) op" where
  "count_login_users D loginName dbName =
     queryInDatabase D dbName
       (conn_query_row D (''SELECT COUNT(*) FROM sys.database_principals'' @ [CHR 10, CHR 9, CHR 9, CHR 9, CHR 9, CHR 32] @
          ''WHERE type = '' @ sq_text ''S'' @ '' AND sid = SUSER_SID(@p1)'') [loginName] (scan1 scan_int))"

fun any_login_user :: "'d Driver \<Rightarrow> string \<Rightarrow> string list \<Rightarrow> (bool, 'd) op" where
  "any_login_user D loginName [] = ret False"
| "any_login_user D loginName (dbName # dbNames) =
     attempt (count_login_users D loginName dbName) (\<lambda>_. any_login_user D loginName dbNames) (\<lambda>count.
     if count > 0 then ret True else any_login_user D loginName dbNames)"

definition MSSQL_LoginHasUsers :: "'d Driver \<Rightarrow> string \<Rightarrow> (bool, 'd) op" where
  "MSSQL_LoginHasUsers D loginName =
     or_fail ''failed to list databases''
       (Query D (''SELECT name FROM sys.databases WHERE database_id > 4 AND state_desc = '' @ sq_text ''ONLINE'') [])
       (\<lambda>rows. attempt (all_rows (scan1 scan_string) rows) fail (any_login_user D loginName))"

section \<open>Users\<close>

definition MSSQL_UserExists :: "'d Driver \<Rightarrow> string \<Rightarrow> string \<Rightarrow> (bool, 'd) op" where
  "MSSQL_UserExists D dbName userName =
     queryInDatabase D dbName (conn_query_row D
       ''SELECT CASE WHEN DATABASE_PRINCIPAL_ID(@p1) IS NOT NULL THEN 1 ELSE 0 END'' [userName] (scan1 scan_bool))"

definition MSSQL_CreateUser :: "'d Driver \<Rightarrow> string \<Rightarrow> string \<Rightarrow> string \<Rightarrow> (unit, 'd) op" where
  "MSSQL_CreateUser D dbName userName loginName =
     execInDatabase D dbName (''CREATE USER '' @ QuoteName userName @ '' FOR LOGIN '' @ QuoteName loginName)"

definition MSSQL_DropUser :: "'d Driver \<Rightarrow> string \<Rightarrow> string \<Rightarrow> (unit, 'd) op" where
  "MSSQL_DropUser D dbName userName = execInDatabase D dbName (''DROP USER IF EXISTS '' @ QuoteName userName)"

definition MSSQL_GetUserDatabaseRoles :: "'d Driver \<Rightarrow> string \<Rightarrow> string \<Rightarrow> (string list, 'd) op" where
  "MSSQL_GetUserDatabaseRoles D dbName userName =
     queryInDatabase D dbName
       (attempt (ConnQuery D (''SELECT r.name FROM sys.database_role_members m'' @
          [CHR 10, CHR 9, CHR 9, CHR 9, CHR 32] @ ''JOIN sys.database_principals r ON m.role_principal_id = r.principal_id'' @
          [CHR 10, CHR 9, CHR 9, CHR 9, CHR 32] @ ''JOIN sys.database_principals u ON m.member_principal_id = u.principal_id'' @
          [CHR 10, CHR 9, CHR 9, CHR 9, CHR 32] @ ''WHERE u.name = @p1'') [userName])
        fail (all_rows (scan1 scan_string)))"

definition MSSQL_AddUserToDatabaseRole :: "'d Driver \<Rightarrow> string \<Rightarrow> string \<Rightarrow> string \<Rightarrow> (unit, 'd) op" where
  "MSSQL_AddUserToDatabaseRole D dbName userName role =
     execInDatabase D dbName (''ALTER ROLE '' @ QuoteName role @ '' ADD MEMBER '' @ QuoteName userName)"

definition MSSQL_RemoveUserFromDatabaseRole :: "'d Driver \<Rightarrow> string \<Rightarrow> string \<Rightarrow> string \<Rightarrow> (unit, 'd) op" where
  "MSSQL_RemoveUserFromDatabaseRole D dbName userName role =
     execInDatabase D dbName (''ALTER ROLE '' @ QuoteName role @ '' DROP MEMBER '' @ QuoteName userName)"

text \<open>Objects and schemas, the predefined schemas aside.\<close>

definition owned_count_sql :: string where
  "owned_count_sql =
     (let t = [CHR 10, CHR 9, CHR 9, CHR 9]; tt = t @ [CHR 9] in
      ''SELECT ('' @ tt @ ''SELECT COUNT(*) FROM sys.objects WHERE principal_id = DATABASE_PRINCIPAL_ID(@p1)'' @
      t @ '') + ('' @ tt @ ''SELECT COUNT(*) FROM sys.schemas'' @ tt @ ''WHERE principal_id = DATABASE_PRINCIPAL_ID(@p1)'' @
      tt @ ''AND name NOT IN ('' @ sq_text ''dbo'' @ '', '' @ sq_text ''guest'' @ '', '' @ sq_text ''INFORMATION_SCHEMA'' @ '', '' @
      sq_text ''sys'' @ '')'' @ t @ '')'')"

definition MSSQL_UserOwnsObjects :: "'d Driver \<Rightarrow> string \<Rightarrow> string \<Rightarrow> (bool, 'd) op" where
  "MSSQL_UserOwnsObjects D dbName userName =
     attempt (queryInDatabase D dbName (conn_query_row D owned_count_sql [userName] (scan1 scan_int))) fail (\<lambda>count. ret (count > 0))"

section \<open>Schemas\<close>

definition MSSQL_SchemaExists :: "'d Driver \<Rightarrow> string \<Rightarrow> string \<Rightarrow> (bool, 'd) op" where
  "MSSQL_SchemaExists D dbName schemaName =
     queryInDatabase D dbName (conn_query_row D
       ''SELECT CASE WHEN SCHEMA_ID(@p1) IS NOT NULL THEN 1 ELSE 0 END'' [schemaName] (scan1 scan_bool))"

definition create_schema_sql :: "string \<Rightarrow> string option \<Rightarrow> string" where
  "create_schema_sql schemaName owner =
     ''CREATE SCHEMA '' @ QuoteName schemaName @
     (case owner of Some x \<Rightarrow> if x \<noteq> [] then '' AUTHORIZATION '' @ QuoteName x else [] | None \<Rightarrow> [])"

definition MSSQL_CreateSchema :: "'d Driver \<Rightarrow> string \<Rightarrow> string \<Rightarrow> string option \<Rightarrow> (unit, 'd) op" where
  "MSSQL_CreateSchema D dbName schemaName owner = execInDatabase D dbName (create_schema_sql schemaName owner)"

definition MSSQL_DropSchema :: "'d Driver \<Rightarrow> string \<Rightarrow> string \<Rightarrow> (unit, 'd) op" where
  "MSSQL_DropSchema D dbName schemaName = execInDatabase D dbName (''DROP SCHEMA '' @ QuoteName schemaName)"

definition schema_owner_sql :: string where
  "schema_owner_sql = ''SELECT dp.name FROM sys.schemas s'' @
     [CHR 10, CHR 9, CHR 9, CHR 9, CHR 32] @ ''JOIN sys.database_principals dp ON s.principal_id = dp.principal_id'' @
     [CHR 10, CHR 9, CHR 9, CHR 9, CHR 32] @ ''WHERE s.name = @p1''"

definition MSSQL_GetSchemaOwner :: "'d Driver \<Rightarrow> string \<Rightarrow> string \<Rightarrow> (string, 'd) op" where
  "MSSQL_GetSchemaOwner D dbName schemaName =
     or_fail (''failed to get owner for schema '' @ schemaName)
       (queryInDatabase D dbName (conn_query_row D schema_owner_sql [schemaName] (scan1 scan_string))) ret"

definition MSSQL_SetSchemaOwner :: "'d Driver \<Rightarrow> string \<Rightarrow> string \<Rightarrow> string \<Rightarrow> (unit, 'd) op" where
  "MSSQL_SetSchemaOwner D dbName schemaName owner =
     execInDatabase D dbName (''ALTER AUTHORIZATION ON SCHEMA::'' @ QuoteName schemaName @ '' TO '' @ QuoteName owner)"

definition MSSQL_SchemaHasObjects :: "'d Driver \<Rightarrow> string \<Rightarrow> string \<Rightarrow> (bool, 'd) op" where
  "MSSQL_SchemaHasObjects D dbName schemaName =
     or_fail (''failed to check objects in schema '' @ schemaName)
       (queryInDatabase D dbName (conn_query_row D
          ''SELECT COUNT(*) FROM sys.objects WHERE schema_id = SCHEMA_ID(@p1)'' [schemaName] (scan1 scan_int)))
       (\<lambda>count. ret (count > 0))"

section \<open>Permissions\<close>

definition formatTarget :: "string \<Rightarrow> string \<Rightarrow> string" where
  "formatTarget classDesc targetName =
     (if classDesc = ''SCHEMA'' then ''SCHEMA::'' @ targetName
      else if classDesc = ''OBJECT_OR_COLUMN'' then ''OBJECT::'' @ targetName
      else if classDesc = ''DATABASE'' then ''DATABASE''
      else classDesc @ ''::'' @ targetName)"

fun scan_permission :: "sql_value list \<Rightarrow> PermissionState res" where
  "scan_permission [p, c, t, st] =
     (case (scan_string p, scan_string c, scan_nullable scan_string t, scan_string st) of
        (Inr perm, Inr classDesc, Inr targetName, Inr state) \<Rightarrow>
          Inr \<lparr>ps_Permission = perm, ps_Target = formatTarget classDesc (case targetName of None \<Rightarrow> [] | Some n \<Rightarrow> n), ps_State = state\<rparr>
      | _ \<Rightarrow> Inl scan_error)"
| "scan_permission _ = Inl (Errorf ''sql: expected 4 destination arguments in Scan'')"

definition permissions_sql :: string where
  "permissions_sql = ''SELECT dp.permission_name, dp.class_desc,'' @
     [CHR 10, CHR 9, CHR 9, CHR 9] @ ''        ISNULL(SCHEMA_NAME(dp.major_id), OBJECT_NAME(dp.major_id)),'' @
     [CHR 10, CHR 9, CHR 9, CHR 9] @ ''        dp.state_desc'' @
     [CHR 10, CHR 9, CHR 9, CHR 9] @ '' FROM sys.database_permissions dp'' @
     [CHR 10, CHR 9, CHR 9, CHR 9] @ '' JOIN sys.database_principals pr ON dp.grantee_principal_id = pr.principal_id'' @
     [CHR 10, CHR 9, CHR 9, CHR 9] @ '' WHERE pr.name = @p1 AND dp.state_desc IN ('' @ sq_text ''GRANT'' @ '', '' @ sq_text ''DENY'' @ '')'' @
     [CHR 10, CHR 9, CHR 9, CHR 9] @ '' AND dp.permission_name != '' @ sq_text ''CONNECT''"

definition MSSQL_GetPermissions :: "'d Driver \<Rightarrow> string \<Rightarrow> string \<Rightarrow> (PermissionState list, 'd) op" where
  "MSSQL_GetPermissions D dbName userName =
     or_fail (''failed to get permissions for user '' @ userName)
       (queryInDatabase D dbName (attempt (ConnQuery D permissions_sql [userName]) fail (all_rows scan_permission))) ret"

definition permission_sql :: "string \<Rightarrow> string \<Rightarrow> string \<Rightarrow> string \<Rightarrow> string \<Rightarrow> string" where
  "permission_sql verb prep permission target userName =
     verb @ '' '' @ ToUpper permission @ '' ON '' @ QuotePermissionTarget target @ '' '' @ prep @ '' '' @ QuoteName userName"

definition MSSQL_GrantPermission :: "'d Driver \<Rightarrow> string \<Rightarrow> string \<Rightarrow> string \<Rightarrow> string \<Rightarrow> (unit, 'd) op" where
  "MSSQL_GrantPermission D dbName permission target userName =
     (if \<not> IsValidPermission permission then fail (Errorf (''invalid permission: '' @ permission))
      else execInDatabase D dbName (permission_sql ''GRANT'' ''TO'' permission target userName))"

definition MSSQL_DenyPermission :: "'d Driver \<Rightarrow> string \<Rightarrow> string \<Rightarrow> string \<Rightarrow> string \<Rightarrow> (unit, 'd) op" where
  "MSSQL_DenyPermission D dbName permission target userName =
     (if \<not> IsValidPermission permission then fail (Errorf (''invalid permission: '' @ permission))
      else execInDatabase D dbName (permission_sql ''DENY'' ''TO'' permission target userName))"

definition MSSQL_RevokePermission :: "'d Driver \<Rightarrow> string \<Rightarrow> string \<Rightarrow> string \<Rightarrow> string \<Rightarrow> (unit, 'd) op" where
  "MSSQL_RevokePermission D dbName permission target userName =
     (if \<not> IsValidPermission permission then fail (Errorf (''invalid permission: '' @ permission))
      else execInDatabase D dbName (permission_sql ''REVOKE'' ''FROM'' permission target userName))"

section \<open>Availability groups\<close>

definition newline :: string where
  "newline = [CHR 10]"

definition MSSQL_AGExists :: "'d Driver \<Rightarrow> string \<Rightarrow> (bool, 'd) op" where
  "MSSQL_AGExists D agName =
     query_row D ''SELECT CASE WHEN EXISTS (SELECT 1 FROM sys.availability_groups WHERE name = @p1) THEN 1 ELSE 0 END''
       [agName] (scan1 scan_bool)"

text \<open>An escaped literal written out in place: \<open>N'%s'\<close> with \<open>strings.ReplaceAll\<close>.\<close>

definition n_literal :: "string \<Rightarrow> string" where
  "n_literal s = ''N'' @ sq_text (ReplaceAll s apostrophe [apostrophe, apostrophe])"

definition replica_clause :: "AGReplicaConfig \<Rightarrow> string" where
  "replica_clause r =
     ''    '' @ n_literal (rc_ServerName r) @ '' WITH ('' @ newline @
     ''        ENDPOINT_URL = '' @ n_literal (rc_EndpointURL r) @ '','' @ newline @
     ''        AVAILABILITY_MODE = '' @ rc_AvailabilityMode r @ '','' @ newline @
     ''        FAILOVER_MODE = '' @ rc_FailoverMode r @ '','' @ newline @
     ''        SEEDING_MODE = '' @ rc_SeedingMode r @ '','' @ newline @
     ''        SECONDARY_ROLE (ALLOW_CONNECTIONS = '' @ rc_SecondaryRole r @ '')'' @ newline @
     ''    )''"

definition create_ag_sql :: "AGConfig \<Rightarrow> string" where
  "create_ag_sql config =
     ''CREATE AVAILABILITY GROUP '' @ QuoteName (ac_Name config) @ newline @
     ''WITH ('' @ newline @
     ''    CLUSTER_TYPE = '' @ (if ac_ClusterType config = [] then ''EXTERNAL'' else ac_ClusterType config) @ '','' @ newline @
     ''    AUTOMATED_BACKUP_PREFERENCE = '' @ ac_AutomatedBackupPreference config @ '','' @ newline @
     ''    DB_FAILOVER = '' @ (if ac_DBFailover config then ''ON'' else ''OFF'') @ newline @
     '')'' @ newline @
     ''FOR REPLICA ON'' @ newline @
     Join (List.map replica_clause (ac_Replicas config)) ('','' @ newline) @ '';''"

definition MSSQL_AddDatabaseToAG :: "'d Driver \<Rightarrow> string \<Rightarrow> string \<Rightarrow> (unit, 'd) op" where
  "MSSQL_AddDatabaseToAG D agName dbName =
     exec_or D (''failed to add database '' @ dbName @ '' to AG '' @ agName)
       (''ALTER AVAILABILITY GROUP '' @ QuoteName agName @ '' ADD DATABASE '' @ QuoteName dbName)"

definition MSSQL_CreateAG :: "'d Driver \<Rightarrow> AGConfig \<Rightarrow> (unit, 'd) op" where
  "MSSQL_CreateAG D config =
     or_fail (''failed to create availability group '' @ ac_Name config) (Exec D (create_ag_sql config)) (\<lambda>_.
     for_each (\<lambda>db. or_fail (''failed to add database '' @ db @ '' to AG'') (MSSQL_AddDatabaseToAG D (ac_Name config) db) ret)
       (ac_Databases config))"

text \<open>The synchronisation state of a replica is read from \<open>synchronization_health_desc\<close>.\<close>

fun scan_replica :: "sql_value list \<Rightarrow> AGReplicaState res" where
  "scan_replica [n, r, y, c] =
     (case (scan_string n, scan_string r, scan_string y, scan_string c) of
        (Inr name, Inr role, Inr sync, Inr connState) \<Rightarrow>
          Inr \<lparr>rs_ServerName = name, rs_Role = role, rs_SynchronizationState = sync, rs_Connected = (connState = ''CONNECTED'')\<rparr>
      | _ \<Rightarrow> Inl scan_error)"
| "scan_replica _ = Inl (Errorf ''sql: expected 4 destination arguments in Scan'')"

fun scan_ag_database :: "sql_value list \<Rightarrow> AGDatabaseState res" where
  "scan_ag_database [n, y, l] =
     (case (scan_string n, scan_string y, scan_int l) of
        (Inr name, Inr sync, Inr isLocal) \<Rightarrow>
          Inr \<lparr>ds_Name = name, ds_SynchronizationState = sync, ds_Joined = (isLocal = 1)\<rparr>
      | _ \<Rightarrow> Inl scan_error)"
| "scan_ag_database _ = Inl (Errorf ''sql: expected 3 destination arguments in Scan'')"

definition ag_primary_sql :: string where
  "ag_primary_sql = ''SELECT ags.primary_replica'' @
     nl ''FROM sys.dm_hadr_availability_group_states ags'' @
     nl ''JOIN sys.availability_groups ag ON ags.group_id = ag.group_id'' @
     nl ''WHERE ag.name = @p1''"

definition ag_replicas_sql :: string where
  "ag_replicas_sql = ''SELECT ar.replica_server_name,'' @
     nl (''       ISNULL(ars.role_desc, '' @ sq_text ''RESOLVING'' @ ''),'') @
     nl (''       ISNULL(ars.synchronization_health_desc, '' @ sq_text ''NOT_HEALTHY'' @ ''),'') @
     nl (''       ISNULL(ars.connected_state_desc, '' @ sq_text ''DISCONNECTED'' @ '')'') @
     nl ''FROM sys.availability_replicas ar'' @
     nl ''JOIN sys.availability_groups ag ON ar.group_id = ag.group_id'' @
     nl ''LEFT JOIN sys.dm_hadr_availability_replica_states ars ON ar.replica_id = ars.replica_id'' @
     nl ''WHERE ag.name = @p1''"

definition ag_databases_sql :: string where
  "ag_databases_sql = ''SELECT d.name,'' @
     nl (''       ISNULL(drs.synchronization_state_desc, '' @ sq_text ''NOT_SYNCHRONIZING'' @ ''),'') @
     nl ''       CASE WHEN drs.is_local = 1 THEN 1 ELSE 0 END'' @
     nl ''FROM sys.availability_databases_cluster adc'' @
     nl ''JOIN sys.availability_groups ag ON adc.group_id = ag.group_id'' @
     nl ''JOIN sys.databases d ON adc.database_name = d.name'' @
     nl ''LEFT JOIN sys.dm_hadr_database_replica_states drs ON adc.group_database_id = drs.group_database_id AND drs.is_local = 1'' @
     nl ''WHERE ag.name = @p1''"

definition MSSQL_GetAGStatus :: "'d Driver \<Rightarrow> string \<Rightarrow> (AGStatus, 'd) op" where
  "MSSQL_GetAGStatus D agName =
     or_fail (''failed to get AG state for '' @ agName) (query_row D ag_primary_sql [agName] (scan1 scan_string)) (\<lambda>primary.
     or_fail (''failed to get replica states for AG '' @ agName) (Query D ag_replicas_sql [agName]) (\<lambda>rows.
     attempt (all_rows scan_replica rows) fail (\<lambda>reps.
     or_fail (''failed to get database states for AG '' @ agName) (Query D ag_databases_sql [agName]) (\<lambda>dbRows.
     attempt (all_rows scan_ag_database dbRows) fail (\<lambda>dbs.
     ret \<lparr>ags_Name = agName, ags_PrimaryReplica = primary, ags_Replicas = reps, ags_Databases = dbs\<rparr>)))))"

definition MSSQL_RemoveDatabaseFromAG :: "'d Driver \<Rightarrow> string \<Rightarrow> string \<Rightarrow> (unit, 'd) op" where
  "MSSQL_RemoveDatabaseFromAG D agName dbName =
     exec_or D (''failed to remove database '' @ dbName @ '' from AG '' @ agName)
       (''ALTER AVAILABILITY GROUP '' @ QuoteName agName @ '' REMOVE DATABASE '' @ QuoteName dbName)"

definition MSSQL_JoinAG :: "'d Driver \<Rightarrow> string \<Rightarrow> string \<Rightarrow> (unit, 'd) op" where
  "MSSQL_JoinAG D agName clusterType =
     exec_or D (''failed to join AG '' @ agName)
       (''ALTER AVAILABILITY GROUP '' @ QuoteName agName @ '' JOIN'' @
        (if clusterType = ''NONE'' then '' WITH (CLUSTER_TYPE = NONE)'' else []))"

definition MSSQL_GrantAGCreateDatabase :: "'d Driver \<Rightarrow> string \<Rightarrow> (unit, 'd) op" where
  "MSSQL_GrantAGCreateDatabase D agName =
     exec_or D (''failed to grant create database on AG '' @ agName)
       (''ALTER AVAILABILITY GROUP '' @ QuoteName agName @ '' GRANT CREATE ANY DATABASE'')"

text \<open>The addresses of a listener go into the statement as they are.\<close>

definition listener_sql :: "string \<Rightarrow> AGListenerConfig \<Rightarrow> string" where
  "listener_sql agName listener =
     ''ALTER AVAILABILITY GROUP '' @ QuoteName agName @ newline @ ''ADD LISTENER '' @ n_literal (lc_Name listener) @ '' ('' @ newline @
     (if lc_IPAddresses listener = [] then []
      else ''    WITH IP ('' @ newline @
        Join (List.map (\<lambda>ip. ''        (N'' @ sq_text (lip_IP ip) @ '', N'' @ sq_text (lip_SubnetMask ip) @ '')'')
          (lc_IPAddresses listener)) ('','' @ newline) @ newline @ ''    ),'' @ newline) @
     ''    PORT = '' @ show_int (lc_Port listener) @ newline @ '');''"

definition MSSQL_AddListenerToAG :: "'d Driver \<Rightarrow> string \<Rightarrow> AGListenerConfig \<Rightarrow> (unit, 'd) op" where
  "MSSQL_AddListenerToAG D agName listener =
     exec_or D (''failed to add listener to AG '' @ agName) (listener_sql agName listener)"

definition MSSQL_FailoverAG :: "'d Driver \<Rightarrow> string \<Rightarrow> (unit, 'd) op" where
  "MSSQL_FailoverAG D agName =
     exec_or D (''failed to failover AG '' @ agName) (''ALTER AVAILABILITY GROUP '' @ QuoteName agName @ '' FAILOVER'')"

definition MSSQL_ForceFailoverAG :: "'d Driver \<Rightarrow> string \<Rightarrow> (unit, 'd) op" where
  "MSSQL_ForceFailoverAG D agName =
     exec_or D (''failed to force failover AG '' @ agName)
       (''ALTER AVAILABILITY GROUP '' @ QuoteName agName @ '' FORCE_FAILOVER_ALLOW_DATA_LOSS'')"

definition MSSQL_GetAGReplicaRole :: "'d Driver \<Rightarrow> string \<Rightarrow> string \<Rightarrow> (string, 'd) op" where
  "MSSQL_GetAGReplicaRole D agName serverName =
     or_fail (''failed to get role for replica '' @ serverName @ '' in AG '' @ agName)
       (query_row D (''SELECT ISNULL(ars.role_desc, '' @ sq_text ''RESOLVING'' @ '')'' @
          nl ''FROM sys.availability_replicas ar'' @
          nl ''JOIN sys.availability_groups ag ON ar.group_id = ag.group_id'' @
          nl ''LEFT JOIN sys.dm_hadr_availability_replica_states ars ON ar.replica_id = ars.replica_id'' @
          nl ''WHERE ag.name = @p1 AND ar.replica_server_name = @p2'') [agName, serverName] (scan1 scan_string)) ret"

definition MSSQL_SetAGRoleSecondary :: "'d Driver \<Rightarrow> string \<Rightarrow> (unit, 'd) op" where
  "MSSQL_SetAGRoleSecondary D agName =
     exec_or D (''failed to set AG '' @ agName @ '' role to secondary'')
       (''ALTER AVAILABILITY GROUP '' @ QuoteName agName @ '' SET (ROLE = SECONDARY)'')"

definition MSSQL_GetLastHardenedLSN :: "'d Driver \<Rightarrow> string \<Rightarrow> (int, 'd) op" where
  "MSSQL_GetLastHardenedLSN D agName =
     or_fail (''failed to get last hardened LSN for AG '' @ agName)
       (query_row D (''SELECT TOP 1 ISNULL(drs.last_hardened_lsn, 0)'' @
          nl ''FROM sys.dm_hadr_database_replica_states drs'' @
          nl ''JOIN sys.availability_groups ag ON drs.group_id = ag.group_id'' @
          nl ''WHERE ag.name = @p1 AND drs.is_local = 1'' @
          nl ''ORDER BY drs.last_hardened_lsn DESC'') [agName] (scan1 scan_int)) ret"

definition MSSQL_DropAG :: "'d Driver \<Rightarrow> string \<Rightarrow> (unit, 'd) op" where
  "MSSQL_DropAG D agName =
     exec_or D (''failed to drop availability group '' @ agName) (''DROP AVAILABILITY GROUP '' @ QuoteName agName)"

definition MSSQL_CreateHADREndpoint :: "'d Driver \<Rightarrow> int \<Rightarrow> (unit, 'd) op" where
  "MSSQL_CreateHADREndpoint D port =
     exec_or D (''failed to create HADR endpoint on port '' @ show_int port)
       (''CREATE ENDPOINT hadr_endpoint'' @ newline @ ''    STATE = STARTED'' @ newline @
        ''    AS TCP (LISTENER_PORT = '' @ show_int port @ '')'' @ newline @ ''    FOR DATABASE_MIRRORING (ROLE = ALL)'')"

definition MSSQL_HADREndpointExists :: "'d Driver \<Rightarrow> (bool, 'd) op" where
  "MSSQL_HADREndpointExists D =
     query_row D ''SELECT CASE WHEN EXISTS (SELECT 1 FROM sys.database_mirroring_endpoints) THEN 1 ELSE 0 END'' [] (scan1 scan_bool)"

section \<open>Certificates\<close>

definition MSSQL_CreateMasterKey :: "'d Driver \<Rightarrow> string \<Rightarrow> (unit, 'd) op" where
  "MSSQL_CreateMasterKey D password =
     exec_or D ''failed to create master key'' (''CREATE MASTER KEY ENCRYPTION BY PASSWORD = '' @ QuoteString password)"

definition MSSQL_MasterKeyExists :: "'d Driver \<Rightarrow> (bool, 'd) op" where
  "MSSQL_MasterKeyExists D =
     query_row D (''SELECT CASE WHEN EXISTS (SELECT 1 FROM sys.symmetric_keys WHERE name = '' @ sq_text ''##MS_DatabaseMasterKey##'' @
       '') THEN 1 ELSE 0 END'') [] (scan1 scan_bool)"

definition MSSQL_CreateCertificate :: "'d Driver \<Rightarrow> string \<Rightarrow> string \<Rightarrow> string \<Rightarrow> (unit, 'd) op" where
  "MSSQL_CreateCertificate D certName subject expiryDate =
     exec_or D (''failed to create certificate '' @ certName)
       (''CREATE CERTIFICATE '' @ QuoteName certName @ '' WITH SUBJECT = '' @ QuoteString subject @ '', EXPIRY_DATE = '' @ QuoteString expiryDate)"

definition MSSQL_CertificateExists :: "'d Driver \<Rightarrow> string \<Rightarrow> (bool, 'd) op" where
  "MSSQL_CertificateExists D certName =
     query_row D ''SELECT CASE WHEN EXISTS (SELECT 1 FROM sys.certificates WHERE name = @p1) THEN 1 ELSE 0 END'' [certName] (scan1 scan_bool)"

definition MSSQL_BackupCertificate :: "'d Driver \<Rightarrow> string \<Rightarrow> string \<Rightarrow> string \<Rightarrow> string \<Rightarrow> (unit, 'd) op" where
  "MSSQL_BackupCertificate D certName certPath keyPath encryptionPassword =
     exec_or D (''failed to backup certificate '' @ certName)
       (''BACKUP CERTIFICATE '' @ QuoteName certName @ '' TO FILE = '' @ QuoteString certPath @ '' WITH PRIVATE KEY (FILE = '' @
        QuoteString keyPath @ '', ENCRYPTION BY PASSWORD = '' @ QuoteString encryptionPassword @ '')'')"

definition MSSQL_CreateCertificateFromBackup :: "'d Driver \<Rightarrow> string \<Rightarrow> string \<Rightarrow> string \<Rightarrow> string \<Rightarrow> (unit, 'd) op" where
  "MSSQL_CreateCertificateFromBackup D certName certPath keyPath decryptionPassword =
     exec_or D (''failed to create certificate '' @ certName @ '' from backup'')
       (''CREATE CERTIFICATE '' @ QuoteName certName @ '' FROM FILE = '' @ QuoteString certPath @ '' WITH PRIVATE KEY (FILE = '' @
        QuoteString keyPath @ '', DECRYPTION BY PASSWORD = '' @ QuoteString decryptionPassword @ '')'')"

definition MSSQL_GetCertificateBinary :: "'d Driver \<Rightarrow> string \<Rightarrow> (nat list, 'd) op" where
  "MSSQL_GetCertificateBinary D certName =
     or_fail (''failed to get certificate binary for '' @ certName)
       (query_row D (''SELECT CERTENCODED(CERT_ID('' @ QuoteString certName @ ''))'') [] (scan1 scan_bytes)) ret"

text \<open>\<open>0x%x\<close>\<close>

definition hex_bytes :: "nat list \<Rightarrow> string" where
  "hex_bytes bs = concat (List.map (\<lambda>b. [hex_digit (b div 16), hex_digit (b mod 16)]) bs)"

definition MSSQL_CreateCertificateFromBinary :: "'d Driver \<Rightarrow> string \<Rightarrow> nat list \<Rightarrow> (unit, 'd) op" where
  "MSSQL_CreateCertificateFromBinary D certName certDER =
     exec_or D (''failed to create certificate '' @ certName @ '' from binary'')
       (''CREATE CERTIFICATE '' @ QuoteName certName @ '' FROM BINARY = 0x'' @ hex_bytes certDER)"

definition MSSQL_CreateLoginFromCertificate :: "'d Driver \<Rightarrow> string \<Rightarrow> string \<Rightarrow> (unit, 'd) op" where
  "MSSQL_CreateLoginFromCertificate D loginName certName =
     exec_or D (''failed to create login '' @ loginName @ '' from certificate '' @ certName)
       (''CREATE LOGIN '' @ QuoteName loginName @ '' FROM CERTIFICATE '' @ QuoteName certName)"

definition MSSQL_GrantEndpointConnect :: "'d Driver \<Rightarrow> string \<Rightarrow> string \<Rightarrow> (unit, 'd) op" where
  "MSSQL_GrantEndpointConnect D endpointName loginName =
     exec_or D (''failed to grant connect on endpoint '' @ endpointName @ '' to '' @ loginName)
       (''GRANT CONNECT ON ENDPOINT::'' @ QuoteName endpointName @ '' TO '' @ QuoteName loginName)"

definition MSSQL_CreateHADREndpointWithCert :: "'d Driver \<Rightarrow> int \<Rightarrow> string \<Rightarrow> (unit, 'd) op" where
  "MSSQL_CreateHADREndpointWithCert D port certName =
     exec_or D (''failed to create HADR endpoint with cert on port '' @ show_int port)
       (''CREATE ENDPOINT hadr_endpoint'' @ newline @ ''    STATE = STARTED'' @ newline @
        ''    AS TCP (LISTENER_PORT = '' @ show_int port @ '')'' @ newline @ ''    FOR DATABASE_MIRRORING ('' @ newline @
        ''        ROLE = ALL,'' @ newline @ ''        AUTHENTICATION = CERTIFICATE '' @ QuoteName certName @ '','' @ newline @
        ''        ENCRYPTION = DISABLED'' @ newline @ ''    )'')"

section \<open>Backup and restore\<close>

definition backup_sql :: "string \<Rightarrow> string \<Rightarrow> string \<Rightarrow> bool \<Rightarrow> string" where
  "backup_sql dbName destination backupType compression =
     (let clauses = (if backupType = ''Differential'' then [''DIFFERENTIAL''] else []) @ (if compression then [''COMPRESSION''] else [])
      in (if backupType = ''Log'' then ''BACKUP LOG '' else ''BACKUP DATABASE '') @ QuoteName dbName @ '' TO DISK = '' @ QuoteString destination @
         (if clauses = [] then [] else '' WITH '' @ Join clauses '', ''))"

definition MSSQL_BackupDatabase :: "'d Driver \<Rightarrow> string \<Rightarrow> string \<Rightarrow> string \<Rightarrow> bool \<Rightarrow> (unit, 'd) op" where
  "MSSQL_BackupDatabase D dbName destination backupType compression =
     exec_or D (''failed to backup database '' @ dbName) (backup_sql dbName destination backupType compression)"

definition MSSQL_RestoreDatabase :: "'d Driver \<Rightarrow> string \<Rightarrow> string \<Rightarrow> (unit, 'd) op" where
  "MSSQL_RestoreDatabase D dbName source =
     exec_or D (''failed to restore database '' @ dbName)
       (''RESTORE DATABASE '' @ QuoteName dbName @ '' FROM DISK = '' @ QuoteString source @ '' WITH REPLACE'')"

definition MSSQL_RestoreDatabasePIT :: "'d Driver \<Rightarrow> string \<Rightarrow> string \<Rightarrow> string \<Rightarrow> string \<Rightarrow> (unit, 'd) op" where
  "MSSQL_RestoreDatabasePIT D dbName fullSource logSource stopAt =
     or_fail (''failed to restore full backup for '' @ dbName)
       (Exec D (''RESTORE DATABASE '' @ QuoteName dbName @ '' FROM DISK = '' @ QuoteString fullSource @ '' WITH REPLACE, NORECOVERY'')) (\<lambda>_.
     or_fail (''failed to restore log to point-in-time '' @ stopAt @ '' for '' @ dbName)
       (Exec D (''RESTORE LOG '' @ QuoteName dbName @ '' FROM DISK = '' @ QuoteString logSource @ '' WITH RECOVERY, STOPAT = '' @ QuoteString stopAt)) ret)"

text \<open>The moves in the order in which \<open>range\<close> visits the map.\<close>

definition restore_move_sql :: "string \<Rightarrow> string \<Rightarrow> (string \<times> string) list \<Rightarrow> string" where
  "restore_move_sql dbName source withMove =
     Join ((''RESTORE DATABASE '' @ QuoteName dbName @ '' FROM DISK = '' @ QuoteString source @ '' WITH REPLACE'') #
       List.map (\<lambda>(logicalName, physicalPath). ''MOVE '' @ QuoteString logicalName @ '' TO '' @ QuoteString physicalPath) withMove) '', ''"

definition MSSQL_RestoreDatabaseWithMove :: "'d Driver \<Rightarrow> string \<Rightarrow> string \<Rightarrow> (string \<times> string) list \<Rightarrow> (unit, 'd) op" where
  "MSSQL_RestoreDatabaseWithMove D dbName source withMove =
     exec_or D (''failed to restore database '' @ dbName @ '' with move'') (restore_move_sql dbName source withMove)"

section \<open>Server information, connection\<close>

definition majorVersionToYear :: "string \<Rightarrow> string" where
  "majorVersionToYear version =
     (if length version < 2 then []
      else let major = take 2 version in
        if major = ''16'' then ''2022'' else if major = ''15'' then ''2019'' else if major = ''14'' then ''2017''
        else if major = ''13'' then ''2016'' else if major = ''12'' then ''2014'' else if major = ''11'' then ''2012'' else [])"

definition MSSQL_GetServerVersion :: "'d Driver \<Rightarrow> (string, 'd) op" where
  "MSSQL_GetServerVersion D =
     or_fail ''failed to get server version''
       (query_row D (''SELECT SERVERPROPERTY('' @ sq_text ''ProductVersion'' @ '')'') [] (scan1 scan_string)) (\<lambda>version.
     let year = majorVersionToYear version in
     ret (if year \<noteq> [] then year @ '' ('' @ version @ '')'' else version))"

definition MSSQL_GetServerEdition :: "'d Driver \<Rightarrow> (string, 'd) op" where
  "MSSQL_GetServerEdition D =
     or_fail ''failed to get server edition''
       (query_row D (''SELECT SERVERPROPERTY('' @ sq_text ''Edition'' @ '')'') [] (scan1 scan_string)) ret"

definition MSSQL_Close :: "'d Driver \<Rightarrow> 'd \<Rightarrow> 'd" where
  "MSSQL_Close D = CloseDB D"

definition MSSQL_Ping :: "'d Driver \<Rightarrow> (unit, 'd) op" where
  "MSSQL_Ping D = PingDB D"

section \<open>The client as a \<open>SQLClient\<close>\<close>

definition mssql_client :: "'d Driver \<Rightarrow> 'd SQLClient" where
  "mssql_client D =
     \<lparr>dbs = \<lparr>DatabaseExists = MSSQL_DatabaseExists D, CreateDatabase = MSSQL_CreateDatabase D,
        DropDatabase = MSSQL_DropDatabase D, GetDatabaseOwner = MSSQL_GetDatabaseOwner D,
        SetDatabaseOwner = MSSQL_SetDatabaseOwner D,
        GetDatabaseCollation = MSSQL_GetDatabaseCollation D,
        GetDatabaseRecoveryModel = MSSQL_GetDatabaseRecoveryModel D,
        SetDatabaseRecoveryModel = MSSQL_SetDatabaseRecoveryModel D,
        GetDatabaseCompatibilityLevel = MSSQL_GetDatabaseCompatibilityLevel D,
        SetDatabaseCompatibilityLevel = MSSQL_SetDatabaseCompatibilityLevel D,
        GetDatabaseOption = MSSQL_GetDatabaseOption D, SetDatabaseOption = MSSQL_SetDatabaseOption D\<rparr>,
      logins = \<lparr>LoginExists = MSSQL_LoginExists D, CreateLogin = MSSQL_CreateLogin D,
        DropLogin = MSSQL_DropLogin D, UpdateLoginPassword = MSSQL_UpdateLoginPassword D,
        GetLoginDefaultDatabase = MSSQL_GetLoginDefaultDatabase D,
        SetLoginDefaultDatabase = MSSQL_SetLoginDefaultDatabase D,
        GetLoginServerRoles = MSSQL_GetLoginServerRoles D,
        AddLoginToServerRole = MSSQL_AddLoginToServerRole D,
        RemoveLoginFromServerRole = MSSQL_RemoveLoginFromServerRole D,
        LoginHasUsers = MSSQL_LoginHasUsers D\<rparr>,
      users = \<lparr>UserExists = MSSQL_UserExists D, CreateUser = MSSQL_CreateUser D, DropUser = MSSQL_DropUser D,
        GetUserDatabaseRoles = MSSQL_GetUserDatabaseRoles D,
        AddUserToDatabaseRole = MSSQL_AddUserToDatabaseRole D,
        RemoveUserFromDatabaseRole = MSSQL_RemoveUserFromDatabaseRole D,
        UserOwnsObjects = MSSQL_UserOwnsObjects D\<rparr>,
      schemas = \<lparr>SchemaExists = MSSQL_SchemaExists D, CreateSchema = MSSQL_CreateSchema D,
        DropSchema = MSSQL_DropSchema D, GetSchemaOwner = MSSQL_GetSchemaOwner D,
        SetSchemaOwner = MSSQL_SetSchemaOwner D, SchemaHasObjects = MSSQL_SchemaHasObjects D\<rparr>,
      perms = \<lparr>GetPermissions = MSSQL_GetPermissions D, GrantPermission = MSSQL_GrantPermission D,
        DenyPermission = MSSQL_DenyPermission D, RevokePermission = MSSQL_RevokePermission D\<rparr>,
      backups = \<lparr>BackupDatabase = MSSQL_BackupDatabase D, RestoreDatabase = MSSQL_RestoreDatabase D,
        RestoreDatabasePIT = MSSQL_RestoreDatabasePIT D,
        RestoreDatabaseWithMove = MSSQL_RestoreDatabaseWithMove D\<rparr>,
      ags = \<lparr>AGExists = MSSQL_AGExists D, CreateAG = MSSQL_CreateAG D, GetAGStatus = MSSQL_GetAGStatus D,
        AddDatabaseToAG = MSSQL_AddDatabaseToAG D, RemoveDatabaseFromAG = MSSQL_RemoveDatabaseFromAG D,
        JoinAG = MSSQL_JoinAG D, GrantAGCreateDatabase = MSSQL_GrantAGCreateDatabase D,
        AddListenerToAG = MSSQL_AddListenerToAG D, DropAG = MSSQL_DropAG D,
        FailoverAG = MSSQL_FailoverAG D, ForceFailoverAG = MSSQL_ForceFailoverAG D,
        GetAGReplicaRole = MSSQL_GetAGReplicaRole D, SetAGRoleSecondary = MSSQL_SetAGRoleSecondary D,
        GetLastHardenedLSN = MSSQL_GetLastHardenedLSN D,
        CreateHADREndpoint = MSSQL_CreateHADREndpoint D,
        HADREndpointExists = MSSQL_HADREndpointExists D\<rparr>,
      certs = \<lparr>CreateMasterKey = MSSQL_CreateMasterKey D, MasterKeyExists = MSSQL_MasterKeyExists D,
        CreateCertificate = MSSQL_CreateCertificate D, CertificateExists = MSSQL_CertificateExists D,
        BackupCertificate = MSSQL_BackupCertificate D,
        CreateCertificateFromBackup = MSSQL_CreateCertificateFromBackup D,
        GetCertificateBinary = MSSQL_GetCertificateBinary D,
        CreateCertificateFromBinary = MSSQL_CreateCertificateFromBinary D,
        CreateLoginFromCertificate = MSSQL_CreateLoginFromCertificate D,
        GrantEndpointConnect = MSSQL_GrantEndpointConnect D,
        CreateHADREndpointWithCert = MSSQL_CreateHADREndpointWithCert D\<rparr>,
      GetServerVersion = MSSQL_GetServerVersion D, GetServerEdition = MSSQL_GetServerEdition D,
      CloseClient = MSSQL_Close D, Ping = MSSQL_Ping D\<rparr>"

end
