(* ===== verification/MSSQL_Statements.thy ===== *)
theory MSSQL_Statements
  imports MSSQL_Client
begin

text \<open>
  What the statements of \<open>internal/sql/client.go\<close> say: read back by the lexer of \<open>Quoting\<close>, each is
  the intended sequence of words, identifiers and literals, whatever the names are made of.
\<close>

section \<open>Reading a statement piece by piece\<close>

definition piece_ends :: "string \<Rightarrow> bool" where
  "piece_ends s \<longleftrightarrow> s \<noteq> [] \<and> \<not> is_wordchar (last s) \<and> last s \<noteq> CHR '']'' \<and> last s \<noteq> CHR 0x27"

lemma lex_delim_last:
  "lex_delim q cs = Some (t, r) \<Longrightarrow> cs \<noteq> [] \<and> (if r = [] then last cs = q else last cs = last r)"
proof (induction q cs arbitrary: t r rule: lex_delim.induct)
  case (2 q c cs)
  then show ?case by (fastforce split: if_splits list.splits)
qed simp

lemma lex_delim_append:
  "lex_delim q cs = Some (t, r) \<Longrightarrow> r \<noteq> [] \<Longrightarrow> lex_delim q (cs @ rest) = Some (t, r @ rest)"
proof (induction q cs arbitrary: t r rule: lex_delim.induct)
  case (2 q c cs)
  then show ?case by (fastforce split: if_splits list.splits)
qed simp

lemma tokenize_quote:
  "tokenize (CHR 0x27 # cs) =
     (case lex_delim (CHR 0x27) cs of None \<Rightarrow> None | Some (t, r) \<Rightarrow> map_option (Cons (Lit t)) (tokenize r))"
  by (simp add: tokenize.simps(2) is_space_def)

lemma map_option_Cons:
  "map_option (Cons t) (map_option ((@) us) x) = map_option ((@) (t # us)) x"
  by (cases x) simp_all

lemma tokenize_piece:
  assumes "tokenize s = Some ts" and "piece_ends s"
  shows "tokenize (s @ rest) = map_option ((@) ts) (tokenize rest)"
  using assms
proof (induction "length s" arbitrary: s ts rule: less_induct)
  case less
  then obtain c cs where s: "s = c # cs" by (cases s) (auto simp: piece_ends_def)
  have ih: "tokenize (r @ rest) = map_option ((@) us) (tokenize rest)"
    if "tokenize r = Some us" "r = [] \<Longrightarrow> us = [] \<and> rest = rest" "length r < length s" "r \<noteq> [] \<Longrightarrow> last r = last s" for r us
    using less.hyps [OF that(3,1)] that less.prems(2) by (cases "r = []") (auto simp: piece_ends_def option.map_id map_option_idI)
  have ih_tail: "tokenize (cs @ rest) = map_option ((@) us) (tokenize rest)" if "tokenize cs = Some us" for us
    using ih [OF that] that by (cases "cs = []") (auto simp: s option.map_id0)
  have delim: "\<exists>t r us. lex_delim q xs = Some (t, r) \<and> lex_delim q (xs @ rest) = Some (t, r @ rest) \<and> ts = f t # us
      \<and> tokenize (r @ rest) = map_option ((@) us) (tokenize rest)"
    if "(case lex_delim q xs of None \<Rightarrow> None | Some (t, r) \<Rightarrow> map_option (Cons (f t)) (tokenize r)) = Some ts"
      "last xs = last s" "q = CHR '']'' \<or> q = CHR 0x27" "length xs < length s" for q xs f
  proof -
    from that(1) obtain t r us where l: "lex_delim q xs = Some (t, r)" "tokenize r = Some us" "ts = f t # us"
      by (auto split: option.splits)
    have r: "r \<noteq> []" "last r = last s"
      using lex_delim_last [OF l(1)] that(2,3) less.prems(2) by (auto simp: piece_ends_def split: if_splits)
    have "length r < length s" using lex_delim_shorter [OF l(1)] that(4) by simp
    with ih [OF l(2)] r have "tokenize (r @ rest) = map_option ((@) us) (tokenize rest)" by simp
    with l lex_delim_append [OF l(1) r(1)] show ?thesis by blast
  qed
  consider "is_space c" | "c = CHR ''[''" | "c = CHR 0x27" | "c = CHR ''N''" "starts_with (CHR 0x27) cs"
    | "is_wordchar c" "\<not> (c = CHR ''N'' \<and> starts_with (CHR 0x27) cs)"
    | "\<not> is_wordchar c" "\<not> is_space c" "c \<noteq> CHR ''[''" "c \<noteq> CHR 0x27" by blast
  then show ?case
  proof cases
    case 1
    then show ?thesis
      using less.prems ih [of cs ts] by (cases "cs = []") (auto simp: s option.map_id0)
  next
    case 2
    then have "cs \<noteq> []" using less.prems by (auto simp: s tokenize_bracket)
    then show ?thesis
      using less.prems delim [where q = "CHR '']''" and xs = cs and f = Ident]
      by (auto simp: s 2 tokenize_bracket map_option_Cons)
  next
    case 3
    then have "cs \<noteq> []" using less.prems by (auto simp: s tokenize_quote)
    then show ?thesis
      using less.prems delim [where q = "CHR 0x27" and xs = cs and f = Lit]
      by (auto simp: s 3 tokenize_quote map_option_Cons)
  next
    case 4
    then obtain ds where cs: "cs = CHR 0x27 # ds" by (cases cs) auto
    then have "ds \<noteq> []" using less.prems by (auto simp: s 4(1) piece_ends_def)
    then show ?thesis
      using less.prems delim [where q = "CHR 0x27" and xs = ds and f = Lit]
      by (auto simp: s 4(1) cs tokenize_N_quote map_option_Cons)
  next
    case 5
    define r where "r = dropWhile is_wordchar cs"
    obtain us where us: "tokenize r = Some us" "ts = Word (c # takeWhile is_wordchar cs) # us"
      using less.prems 5 by (auto simp: s tokenize_wordchar r_def)
    have "\<exists>d \<in> set cs. \<not> is_wordchar d"
      using less.prems(2) 5(1) by (cases "cs = []") (auto simp: s piece_ends_def dest: last_in_set)
    then have r: "r \<noteq> []" by (simp add: r_def)
    have l: "last r = last s"
      using r unfolding s r_def by (metis dropWhile.simps(1) last.simps last_appendR takeWhile_dropWhile_id)
    have w: "takeWhile is_wordchar (cs @ rest) = takeWhile is_wordchar cs" "dropWhile is_wordchar (cs @ rest) = r @ rest"
      using \<open>\<exists>d \<in> set cs. _ d\<close> by (auto simp: r_def takeWhile_append1 dropWhile_append1)
    have "length r < length s" by (simp add: s r_def length_dropWhile_le less_Suc_eq_le)
    moreover have "\<not> (c = CHR ''N'' \<and> starts_with (CHR 0x27) (cs @ rest))"
      using 5(2) less.prems(2) 5(1) by (auto simp: s piece_ends_def split: if_splits)
    ultimately show ?thesis
      using ih [OF us(1)] r l 5(1) us(2) by (simp add: s tokenize_wordchar w map_option_Cons)
  next
    case 6
    then show ?thesis
      using less.prems by (auto simp: s tokenize_sym map_option_Cons ih_tail)
  qed
qed

section \<open>Statements as texts, names and literals\<close>

text \<open>
  A statement is fixed text with single words, quoted names and literals in it. \<open>well_spaced\<close> is what
  the texts have to be for the parts to stay apart: it does not depend on what is quoted.
\<close>

datatype part = Txt string | Wrd string | Nam string | Str string

fun render :: "part list \<Rightarrow> string" where
  "render [] = []"
| "render (Txt s # ps) = s @ render ps"
| "render (Wrd w # ps) = w @ render ps"
| "render (Nam n # ps) = QuoteName n @ render ps"
| "render (Str v # ps) = QuoteString v @ render ps"

fun part_tokens :: "part \<Rightarrow> token list" where
  "part_tokens (Txt s) = (case tokenize s of None \<Rightarrow> [] | Some ts \<Rightarrow> ts)"
| "part_tokens (Wrd w) = [Word w]"
| "part_tokens (Nam n) = [Ident n]"
| "part_tokens (Str v) = [Lit v]"

fun opens_with :: "char \<Rightarrow> part list \<Rightarrow> bool" where
  "opens_with c (Txt s # _) = starts_with c s"
| "opens_with c (Wrd w # _) = starts_with c w"
| "opens_with _ _ = False"

fun breaks :: "part list \<Rightarrow> bool" where
  "breaks [] = True"
| "breaks (Txt s # _) = (s \<noteq> [] \<and> word_ends s)"
| "breaks (Nam _ # _) = True"
| "breaks _ = False"

fun well_spaced :: "part list \<Rightarrow> bool" where
  "well_spaced [] = True"
| "well_spaced (Txt s # ps) = (tokenize s \<noteq> None \<and> s \<noteq> [] \<and> (ps = [] \<or> piece_ends s) \<and> well_spaced ps)"
| "well_spaced (Wrd w # ps) = (plain_word w \<and> breaks ps \<and> well_spaced ps)"
| "well_spaced (Nam n # ps) = (\<not> opens_with (CHR '']'') ps \<and> well_spaced ps)"
| "well_spaced (Str v # ps) = (\<not> opens_with (CHR 0x27) ps \<and> well_spaced ps)"

lemma plain_word_not_Nil [simp]: "\<not> plain_word []"
  by (simp add: plain_word_def)

lemma starts_with_render:
  "well_spaced ps \<Longrightarrow> \<not> opens_with c ps \<Longrightarrow> c \<noteq> CHR ''['' \<Longrightarrow> c \<noteq> CHR ''N'' \<Longrightarrow> \<not> starts_with c (render ps)"
  by (cases ps rule: render.cases) auto

lemma word_ends_render: "breaks ps \<Longrightarrow> word_ends (render ps)"
  by (cases ps rule: breaks.cases) (auto simp: word_ends_def QuoteName_def is_wordchar_def Let_def neq_Nil_conv)

lemma tokenize_render: "well_spaced ps \<Longrightarrow> tokenize (render ps) = Some (concat (List.map part_tokens ps))"
proof (induction ps rule: render.induct)
  case (2 s ps)
  then show ?case by (cases "ps = []") (auto simp: tokenize_piece)
next
  case (3 w ps)
  then show ?case by (simp add: tokenize_word word_ends_render)
next
  case (4 n ps)
  then show ?case by (simp add: starts_with_render)
next
  case (5 v ps)
  then show ?case by (simp add: starts_with_render)
qed simp

section \<open>What a method sends\<close>

text \<open>A driver that notes the statements it is given, and nothing else.\<close>

definition recorder :: "string list Driver" where
  "recorder =
     \<lparr>Exec = (\<lambda>q s. (Inr (), s @ [q])), Query = (\<lambda>q args s. (Inr ([], None), s)), OpenConn = ret (),
      ConnExec = (\<lambda>q s. (Inr (), s @ [q])), ConnQuery = (\<lambda>q args s. (Inr ([], None), s)), CloseConn = (\<lambda>s. s),
      PingDB = ret (), CloseDB = (\<lambda>s. s)\<rparr>"

definition sends :: "(unit, string list) op \<Rightarrow> token list option list" where
  "sends m = List.map tokenize (snd (m []))"

lemma exec_recorder [simp]: "sends (exec_or recorder msg q) = [tokenize q]"
  by (simp add: sends_def exec_or_def or_fail_def recorder_def attempt_def)

lemma execInDatabase_recorder [simp]:
  "sends (execInDatabase recorder d q) = [Some [Word ''USE'', Ident d], tokenize q]"
proof -
  have "tokenize ''USE '' = Some [Word ''USE'']" "piece_ends ''USE ''" by code_simp+
  then have "tokenize (use_sql d) = Some [Word ''USE'', Ident d]"
    by (simp add: use_sql_def tokenize_piece del: append.simps)
  then show ?thesis
    by (simp add: sends_def execInDatabase_def or_fail_def recorder_def attempt_def deferred_def)
qed

lemma reads_back:
  assumes "s = render ps" and "well_spaced ps" and "concat (List.map part_tokens ps) = ts"
  shows "tokenize s = Some ts"
  using tokenize_render [OF assms(2)] by (simp add: assms(1,3))

abbreviation words :: "string list \<Rightarrow> token list" where
  "words ws \<equiv> List.map Word ws"

text \<open>The texts of the single statements.\<close>

named_theorems read_back \<open>the tokens of the statements\<close>

lemma CreateDatabase_text [read_back]:
  "tokenize (''CREATE DATABASE '' @ QuoteName n) =
     Some (words [''CREATE'', ''DATABASE''] @ [Ident n])"
  by (rule reads_back [where ps = "[Txt ''CREATE DATABASE '', Nam n]"], simp, code_simp, code_simp)

lemma CreateDatabase_text_1 [read_back]:
  "tokenize (''CREATE DATABASE '' @ QuoteName n @ '' COLLATE '' @ QuoteName (x # xs)) =
     Some (words [''CREATE'', ''DATABASE''] @ [Ident n] @ words [''COLLATE''] @ [Ident (x # xs)])"
  by (rule reads_back [where ps = "[Txt ''CREATE DATABASE '', Nam n, Txt '' COLLATE '', Nam (x # xs)]"], simp, code_simp, code_simp)

lemma DropDatabase_text [read_back]:
  "tokenize (''DROP DATABASE IF EXISTS '' @ QuoteName n) =
     Some (words [''DROP'', ''DATABASE'', ''IF'', ''EXISTS''] @ [Ident n])"
  by (rule reads_back [where ps = "[Txt ''DROP DATABASE IF EXISTS '', Nam n]"], simp, code_simp, code_simp)

lemma SetDatabaseOwner_text [read_back]:
  "tokenize (''ALTER AUTHORIZATION ON DATABASE::'' @ QuoteName n @ '' TO '' @ QuoteName y) =
     Some (words [''ALTER'', ''AUTHORIZATION'', ''ON'', ''DATABASE''] @ [Sym CHR '':'', Sym CHR '':'', Ident n] @ words [''TO''] @ [Ident y])"
  by (rule reads_back [where ps = "[Txt ''ALTER AUTHORIZATION ON DATABASE::'', Nam n, Txt '' TO '', Nam y]"], simp, code_simp, code_simp)

lemma CreateLogin_text [read_back]:
  "tokenize (''CREATE LOGIN '' @ QuoteName n @ '' WITH PASSWORD = '' @ QuoteString p) =
     Some (words [''CREATE'', ''LOGIN''] @ [Ident n] @ words [''WITH'', ''PASSWORD''] @ [Sym CHR ''='', Lit p])"
  by (rule reads_back [where ps = "[Txt ''CREATE LOGIN '', Nam n, Txt '' WITH PASSWORD = '', Str p]"], simp, code_simp, code_simp)

lemma DropLogin_text [read_back]:
  "tokenize (''DROP LOGIN '' @ QuoteName n) =
     Some (words [''DROP'', ''LOGIN''] @ [Ident n])"
  by (rule reads_back [where ps = "[Txt ''DROP LOGIN '', Nam n]"], simp, code_simp, code_simp)

lemma UpdateLoginPassword_text [read_back]:
  "tokenize (''ALTER LOGIN '' @ QuoteName n @ '' WITH PASSWORD = '' @ QuoteString p) =
     Some (words [''ALTER'', ''LOGIN''] @ [Ident n] @ words [''WITH'', ''PASSWORD''] @ [Sym CHR ''='', Lit p])"
  by (rule reads_back [where ps = "[Txt ''ALTER LOGIN '', Nam n, Txt '' WITH PASSWORD = '', Str p]"], simp, code_simp, code_simp)

lemma SetLoginDefaultDatabase_text [read_back]:
  "tokenize (''ALTER LOGIN '' @ QuoteName n @ '' WITH DEFAULT_DATABASE = '' @ QuoteName d) =
     Some (words [''ALTER'', ''LOGIN''] @ [Ident n] @ words [''WITH'', ''DEFAULT_DATABASE''] @ [Sym CHR ''='', Ident d])"
  by (rule reads_back [where ps = "[Txt ''ALTER LOGIN '', Nam n, Txt '' WITH DEFAULT_DATABASE = '', Nam d]"], simp, code_simp, code_simp)

lemma AddLoginToServerRole_text [read_back]:
  "tokenize (''ALTER SERVER ROLE '' @ QuoteName r @ '' ADD MEMBER '' @ QuoteName n) =
     Some (words [''ALTER'', ''SERVER'', ''ROLE''] @ [Ident r] @ words [''ADD'', ''MEMBER''] @ [Ident n])"
  by (rule reads_back [where ps = "[Txt ''ALTER SERVER ROLE '', Nam r, Txt '' ADD MEMBER '', Nam n]"], simp, code_simp, code_simp)

lemma RemoveLoginFromServerRole_text [read_back]:
  "tokenize (''ALTER SERVER ROLE '' @ QuoteName r @ '' DROP MEMBER '' @ QuoteName n) =
     Some (words [''ALTER'', ''SERVER'', ''ROLE''] @ [Ident r] @ words [''DROP'', ''MEMBER''] @ [Ident n])"
  by (rule reads_back [where ps = "[Txt ''ALTER SERVER ROLE '', Nam r, Txt '' DROP MEMBER '', Nam n]"], simp, code_simp, code_simp)

lemma CreateUser_text [read_back]:
  "tokenize (''CREATE USER '' @ QuoteName u @ '' FOR LOGIN '' @ QuoteName n) =
     Some (words [''CREATE'', ''USER''] @ [Ident u] @ words [''FOR'', ''LOGIN''] @ [Ident n])"
  by (rule reads_back [where ps = "[Txt ''CREATE USER '', Nam u, Txt '' FOR LOGIN '', Nam n]"], simp, code_simp, code_simp)

lemma DropUser_text [read_back]:
  "tokenize (''DROP USER IF EXISTS '' @ QuoteName u) =
     Some (words [''DROP'', ''USER'', ''IF'', ''EXISTS''] @ [Ident u])"
  by (rule reads_back [where ps = "[Txt ''DROP USER IF EXISTS '', Nam u]"], simp, code_simp, code_simp)

lemma AddUserToDatabaseRole_text [read_back]:
  "tokenize (''ALTER ROLE '' @ QuoteName r @ '' ADD MEMBER '' @ QuoteName u) =
     Some (words [''ALTER'', ''ROLE''] @ [Ident r] @ words [''ADD'', ''MEMBER''] @ [Ident u])"
  by (rule reads_back [where ps = "[Txt ''ALTER ROLE '', Nam r, Txt '' ADD MEMBER '', Nam u]"], simp, code_simp, code_simp)

lemma RemoveUserFromDatabaseRole_text [read_back]:
  "tokenize (''ALTER ROLE '' @ QuoteName r @ '' DROP MEMBER '' @ QuoteName u) =
     Some (words [''ALTER'', ''ROLE''] @ [Ident r] @ words [''DROP'', ''MEMBER''] @ [Ident u])"
  by (rule reads_back [where ps = "[Txt ''ALTER ROLE '', Nam r, Txt '' DROP MEMBER '', Nam u]"], simp, code_simp, code_simp)

lemma CreateSchema_text [read_back]:
  "tokenize (''CREATE SCHEMA '' @ QuoteName n) =
     Some (words [''CREATE'', ''SCHEMA''] @ [Ident n])"
  by (rule reads_back [where ps = "[Txt ''CREATE SCHEMA '', Nam n]"], simp, code_simp, code_simp)

lemma CreateSchema_text_15 [read_back]:
  "tokenize (''CREATE SCHEMA '' @ QuoteName n @ '' AUTHORIZATION '' @ QuoteName (x # xs)) =
     Some (words [''CREATE'', ''SCHEMA''] @ [Ident n] @ words [''AUTHORIZATION''] @ [Ident (x # xs)])"
  by (rule reads_back [where ps = "[Txt ''CREATE SCHEMA '', Nam n, Txt '' AUTHORIZATION '', Nam (x # xs)]"], simp, code_simp, code_simp)

lemma DropSchema_text [read_back]:
  "tokenize (''DROP SCHEMA '' @ QuoteName n) =
     Some (words [''DROP'', ''SCHEMA''] @ [Ident n])"
  by (rule reads_back [where ps = "[Txt ''DROP SCHEMA '', Nam n]"], simp, code_simp, code_simp)

lemma SetSchemaOwner_text [read_back]:
  "tokenize (''ALTER AUTHORIZATION ON SCHEMA::'' @ QuoteName n @ '' TO '' @ QuoteName y) =
     Some (words [''ALTER'', ''AUTHORIZATION'', ''ON'', ''SCHEMA''] @ [Sym CHR '':'', Sym CHR '':'', Ident n] @ words [''TO''] @ [Ident y])"
  by (rule reads_back [where ps = "[Txt ''ALTER AUTHORIZATION ON SCHEMA::'', Nam n, Txt '' TO '', Nam y]"], simp, code_simp, code_simp)

lemmas principal_methods =
  MSSQL_CreateDatabase_def create_database_sql_def MSSQL_DropDatabase_def MSSQL_SetDatabaseOwner_def
  MSSQL_CreateLogin_def MSSQL_DropLogin_def MSSQL_UpdateLoginPassword_def
  MSSQL_SetLoginDefaultDatabase_def MSSQL_AddLoginToServerRole_def
  MSSQL_RemoveLoginFromServerRole_def MSSQL_CreateUser_def MSSQL_DropUser_def
  MSSQL_AddUserToDatabaseRole_def MSSQL_RemoveUserFromDatabaseRole_def MSSQL_CreateSchema_def
  create_schema_sql_def MSSQL_DropSchema_def MSSQL_SetSchemaOwner_def

lemma AddDatabaseToAG_text [read_back]:
  "tokenize (''ALTER AVAILABILITY GROUP '' @ QuoteName g @ '' ADD DATABASE '' @ QuoteName d) =
     Some (words [''ALTER'', ''AVAILABILITY'', ''GROUP''] @ [Ident g] @ words [''ADD'', ''DATABASE''] @ [Ident d])"
  by (rule reads_back [where ps = "[Txt ''ALTER AVAILABILITY GROUP '', Nam g, Txt '' ADD DATABASE '', Nam d]"], simp, code_simp, code_simp)

lemma RemoveDatabaseFromAG_text [read_back]:
  "tokenize (''ALTER AVAILABILITY GROUP '' @ QuoteName g @ '' REMOVE DATABASE '' @ QuoteName d) =
     Some (words [''ALTER'', ''AVAILABILITY'', ''GROUP''] @ [Ident g] @ words [''REMOVE'', ''DATABASE''] @ [Ident d])"
  by (rule reads_back [where ps = "[Txt ''ALTER AVAILABILITY GROUP '', Nam g, Txt '' REMOVE DATABASE '', Nam d]"], simp, code_simp, code_simp)

lemma JoinAG_text [read_back]:
  "tokenize (''ALTER AVAILABILITY GROUP '' @ QuoteName g @ '' JOIN'' @ '' WITH (CLUSTER_TYPE = NONE)'') =
     Some (words [''ALTER'', ''AVAILABILITY'', ''GROUP''] @ [Ident g] @ words [''JOIN'', ''WITH''] @ [Sym CHR ''(''] @ words [''CLUSTER_TYPE''] @ [Sym CHR ''=''] @ words [''NONE''] @ [Sym CHR '')''])"
  by (rule reads_back [where ps = "[Txt ''ALTER AVAILABILITY GROUP '', Nam g, Txt '' JOIN WITH (CLUSTER_TYPE = NONE)'']"], simp, code_simp, code_simp)

lemma GrantAGCreateDatabase_text [read_back]:
  "tokenize (''ALTER AVAILABILITY GROUP '' @ QuoteName g @ '' GRANT CREATE ANY DATABASE'') =
     Some (words [''ALTER'', ''AVAILABILITY'', ''GROUP''] @ [Ident g] @ words [''GRANT'', ''CREATE'', ''ANY'', ''DATABASE''])"
  by (rule reads_back [where ps = "[Txt ''ALTER AVAILABILITY GROUP '', Nam g, Txt '' GRANT CREATE ANY DATABASE'']"], simp, code_simp, code_simp)

lemma FailoverAG_text [read_back]:
  "tokenize (''ALTER AVAILABILITY GROUP '' @ QuoteName g @ '' FAILOVER'') =
     Some (words [''ALTER'', ''AVAILABILITY'', ''GROUP''] @ [Ident g] @ words [''FAILOVER''])"
  by (rule reads_back [where ps = "[Txt ''ALTER AVAILABILITY GROUP '', Nam g, Txt '' FAILOVER'']"], simp, code_simp, code_simp)

lemma ForceFailoverAG_text [read_back]:
  "tokenize (''ALTER AVAILABILITY GROUP '' @ QuoteName g @ '' FORCE_FAILOVER_ALLOW_DATA_LOSS'') =
     Some (words [''ALTER'', ''AVAILABILITY'', ''GROUP''] @ [Ident g] @ words [''FORCE_FAILOVER_ALLOW_DATA_LOSS''])"
  by (rule reads_back [where ps = "[Txt ''ALTER AVAILABILITY GROUP '', Nam g, Txt '' FORCE_FAILOVER_ALLOW_DATA_LOSS'']"], simp, code_simp, code_simp)

lemma SetAGRoleSecondary_text [read_back]:
  "tokenize (''ALTER AVAILABILITY GROUP '' @ QuoteName g @ '' SET (ROLE = SECONDARY)'') =
     Some (words [''ALTER'', ''AVAILABILITY'', ''GROUP''] @ [Ident g] @ words [''SET''] @ [Sym CHR ''(''] @ words [''ROLE''] @ [Sym CHR ''=''] @ words [''SECONDARY''] @ [Sym CHR '')''])"
  by (rule reads_back [where ps = "[Txt ''ALTER AVAILABILITY GROUP '', Nam g, Txt '' SET (ROLE = SECONDARY)'']"], simp, code_simp, code_simp)

lemma DropAG_text [read_back]:
  "tokenize (''DROP AVAILABILITY GROUP '' @ QuoteName g) =
     Some (words [''DROP'', ''AVAILABILITY'', ''GROUP''] @ [Ident g])"
  by (rule reads_back [where ps = "[Txt ''DROP AVAILABILITY GROUP '', Nam g]"], simp, code_simp, code_simp)

lemma CreateMasterKey_text [read_back]:
  "tokenize (''CREATE MASTER KEY ENCRYPTION BY PASSWORD = '' @ QuoteString p) =
     Some (words [''CREATE'', ''MASTER'', ''KEY'', ''ENCRYPTION'', ''BY'', ''PASSWORD''] @ [Sym CHR ''='', Lit p])"
  by (rule reads_back [where ps = "[Txt ''CREATE MASTER KEY ENCRYPTION BY PASSWORD = '', Str p]"], simp, code_simp, code_simp)

lemma CreateCertificate_text [read_back]:
  "tokenize (''CREATE CERTIFICATE '' @ QuoteName n @ '' WITH SUBJECT = '' @ QuoteString s @ '', EXPIRY_DATE = '' @ QuoteString e) =
     Some (words [''CREATE'', ''CERTIFICATE''] @ [Ident n] @ words [''WITH'', ''SUBJECT''] @ [Sym CHR ''='', Lit s, Sym CHR '',''] @ words [''EXPIRY_DATE''] @ [Sym CHR ''='', Lit e])"
  by (rule reads_back [where ps = "[Txt ''CREATE CERTIFICATE '', Nam n, Txt '' WITH SUBJECT = '', Str s, Txt '', EXPIRY_DATE = '', Str e]"], simp, code_simp, code_simp)

lemma BackupCertificate_text [read_back]:
  "tokenize (''BACKUP CERTIFICATE '' @ QuoteName n @ '' TO FILE = '' @ QuoteString f @ '' WITH PRIVATE KEY (FILE = '' @ QuoteString k @ '', ENCRYPTION BY PASSWORD = '' @ QuoteString p @ '')'') =
     Some (words [''BACKUP'', ''CERTIFICATE''] @ [Ident n] @ words [''TO'', ''FILE''] @ [Sym CHR ''='', Lit f] @ words [''WITH'', ''PRIVATE'', ''KEY''] @ [Sym CHR ''(''] @ words [''FILE''] @ [Sym CHR ''='', Lit k, Sym CHR '',''] @ words [''ENCRYPTION'', ''BY'', ''PASSWORD''] @ [Sym CHR ''='', Lit p, Sym CHR '')''])"
  by (rule reads_back [where ps = "[Txt ''BACKUP CERTIFICATE '', Nam n, Txt '' TO FILE = '', Str f, Txt '' WITH PRIVATE KEY (FILE = '', Str k, Txt '', ENCRYPTION BY PASSWORD = '', Str p, Txt '')'']"], simp, code_simp, code_simp)

lemma CreateCertificateFromBackup_text [read_back]:
  "tokenize (''CREATE CERTIFICATE '' @ QuoteName n @ '' FROM FILE = '' @ QuoteString f @ '' WITH PRIVATE KEY (FILE = '' @ QuoteString k @ '', DECRYPTION BY PASSWORD = '' @ QuoteString p @ '')'') =
     Some (words [''CREATE'', ''CERTIFICATE''] @ [Ident n] @ words [''FROM'', ''FILE''] @ [Sym CHR ''='', Lit f] @ words [''WITH'', ''PRIVATE'', ''KEY''] @ [Sym CHR ''(''] @ words [''FILE''] @ [Sym CHR ''='', Lit k, Sym CHR '',''] @ words [''DECRYPTION'', ''BY'', ''PASSWORD''] @ [Sym CHR ''='', Lit p, Sym CHR '')''])"
  by (rule reads_back [where ps = "[Txt ''CREATE CERTIFICATE '', Nam n, Txt '' FROM FILE = '', Str f, Txt '' WITH PRIVATE KEY (FILE = '', Str k, Txt '', DECRYPTION BY PASSWORD = '', Str p, Txt '')'']"], simp, code_simp, code_simp)

lemma CreateLoginFromCertificate_text [read_back]:
  "tokenize (''CREATE LOGIN '' @ QuoteName n @ '' FROM CERTIFICATE '' @ QuoteName c) =
     Some (words [''CREATE'', ''LOGIN''] @ [Ident n] @ words [''FROM'', ''CERTIFICATE''] @ [Ident c])"
  by (rule reads_back [where ps = "[Txt ''CREATE LOGIN '', Nam n, Txt '' FROM CERTIFICATE '', Nam c]"], simp, code_simp, code_simp)

lemma GrantEndpointConnect_text [read_back]:
  "tokenize (''GRANT CONNECT ON ENDPOINT::'' @ QuoteName x @ '' TO '' @ QuoteName n) =
     Some (words [''GRANT'', ''CONNECT'', ''ON'', ''ENDPOINT''] @ [Sym CHR '':'', Sym CHR '':'', Ident x] @ words [''TO''] @ [Ident n])"
  by (rule reads_back [where ps = "[Txt ''GRANT CONNECT ON ENDPOINT::'', Nam x, Txt '' TO '', Nam n]"], simp, code_simp, code_simp)

lemma BackupDatabase_text [read_back]:
  "tokenize (backup_sql d f ''Full'' False) =
     Some (words [''BACKUP'', ''DATABASE''] @ [Ident d] @ words [''TO'', ''DISK''] @ [Sym CHR ''='', Lit f])"
  by (rule reads_back [where ps = "[Txt ''BACKUP DATABASE '', Nam d, Txt '' TO DISK = '', Str f]"], simp add: backup_sql_def, code_simp, code_simp)

lemma BackupDatabase_text_15 [read_back]:
  "tokenize (backup_sql d f ''Differential'' True) =
     Some (words [''BACKUP'', ''DATABASE''] @ [Ident d] @ words [''TO'', ''DISK''] @ [Sym CHR ''='', Lit f] @ words [''WITH'', ''DIFFERENTIAL''] @ [Sym CHR '',''] @ words [''COMPRESSION''])"
  by (rule reads_back [where ps = "[Txt ''BACKUP DATABASE '', Nam d, Txt '' TO DISK = '', Str f, Txt '' WITH DIFFERENTIAL, COMPRESSION'']"], simp add: backup_sql_def, code_simp, code_simp)

lemma BackupDatabase_text_16 [read_back]:
  "tokenize (backup_sql d f ''Log'' True) =
     Some (words [''BACKUP'', ''LOG''] @ [Ident d] @ words [''TO'', ''DISK''] @ [Sym CHR ''='', Lit f] @ words [''WITH'', ''COMPRESSION''])"
  by (rule reads_back [where ps = "[Txt ''BACKUP LOG '', Nam d, Txt '' TO DISK = '', Str f, Txt '' WITH COMPRESSION'']"], simp add: backup_sql_def, code_simp, code_simp)

lemma RestoreDatabase_text [read_back]:
  "tokenize (''RESTORE DATABASE '' @ QuoteName d @ '' FROM DISK = '' @ QuoteString f @ '' WITH REPLACE'') =
     Some (words [''RESTORE'', ''DATABASE''] @ [Ident d] @ words [''FROM'', ''DISK''] @ [Sym CHR ''='', Lit f] @ words [''WITH'', ''REPLACE''])"
  by (rule reads_back [where ps = "[Txt ''RESTORE DATABASE '', Nam d, Txt '' FROM DISK = '', Str f, Txt '' WITH REPLACE'']"], simp, code_simp, code_simp)

lemmas group_methods =
  MSSQL_AddDatabaseToAG_def MSSQL_RemoveDatabaseFromAG_def MSSQL_JoinAG_def
  MSSQL_GrantAGCreateDatabase_def MSSQL_FailoverAG_def MSSQL_ForceFailoverAG_def
  MSSQL_SetAGRoleSecondary_def MSSQL_DropAG_def MSSQL_CreateMasterKey_def
  MSSQL_CreateCertificate_def MSSQL_BackupCertificate_def MSSQL_CreateCertificateFromBackup_def
  MSSQL_CreateLoginFromCertificate_def MSSQL_GrantEndpointConnect_def MSSQL_BackupDatabase_def
  MSSQL_RestoreDatabase_def

section \<open>The statements read back\<close>



end
