(* ===== verification/MSSQL_Schemas.thy ===== *)
theory MSSQL_Schemas
  imports MSSQL_Statements Schema_Controller
begin

text \<open>
  The client of \<open>internal/sql/client.go\<close> keeps the promises of \<open>schema_server\<close> when the server
  executes T-SQL about schemas as documented; so what is proved of the Schema controller holds of
  the operator against a real SQL Server.
\<close>

section \<open>What the server does with the statements\<close>

text \<open>
  The promises are about the statements as the server reads them, token by token: \<open>cur\<close> is the
  database a connection is in, \<open>view\<close> the schemas of all databases.
\<close>

definition tsql_connections ::
  "'d Driver \<Rightarrow> ('d \<Rightarrow> bool) \<Rightarrow> ('d \<Rightarrow> 'v) \<Rightarrow> ('d \<Rightarrow> string option) \<Rightarrow> (string \<Rightarrow> bool) \<Rightarrow> bool" where
  "tsql_connections D ok view cur known \<longleftrightarrow>
     (\<forall>s. ok s \<longrightarrow> reads ok view (OpenConn D) s () \<and>
        ok (CloseConn D s) \<and> view (CloseConn D s) = view s \<and> ok (CloseDB D s) \<and> view (CloseDB D s) = view s) \<and>
     (\<forall>s d q. ok s \<longrightarrow> known d \<longrightarrow> tokenize q = Some [Word ''USE'', Ident d] \<longrightarrow>
        (\<exists>t. ConnExec D q s = (Inr (), t) \<and> ok t \<and> view t = view s \<and> cur t = Some d))"

definition tsql_schema_statements ::
  "'d Driver \<Rightarrow> ('d \<Rightarrow> bool) \<Rightarrow> ('d \<Rightarrow> string \<times> string \<Rightarrow> SchemaView option) \<Rightarrow> ('d \<Rightarrow> string option)
    \<Rightarrow> (string \<Rightarrow> string \<Rightarrow> bool) \<Rightarrow> string \<Rightarrow> bool" where
  "tsql_schema_statements D ok view cur owner_ok dflt \<longleftrightarrow>
     (\<forall>s d n q. ok s \<longrightarrow> cur s = Some d \<longrightarrow>
        (tokenize q = Some (words [''CREATE'', ''SCHEMA''] @ [Ident n]) \<longrightarrow> view s (d, n) = None \<longrightarrow>
           writes ok view (ConnExec D q) s ((view s)((d, n) \<mapsto> \<lparr>v_SchemaOwner = dflt, v_HasObjects = False\<rparr>))) \<and>
        (\<forall>y. tokenize q = Some (words [''CREATE'', ''SCHEMA''] @ [Ident n] @ words [''AUTHORIZATION''] @ [Ident y]) \<longrightarrow>
           owner_ok d y \<longrightarrow> view s (d, n) = None \<longrightarrow>
           writes ok view (ConnExec D q) s ((view s)((d, n) \<mapsto> \<lparr>v_SchemaOwner = y, v_HasObjects = False\<rparr>))) \<and>
        (\<forall>v. view s (d, n) = Some v \<longrightarrow>
           (tokenize q = Some (words [''DROP'', ''SCHEMA''] @ [Ident n]) \<longrightarrow> \<not> v_HasObjects v \<longrightarrow>
              writes ok view (ConnExec D q) s ((view s)((d, n) := None))) \<and>
           (\<forall>y. tokenize q = Some (words [''ALTER'', ''AUTHORIZATION'', ''ON'', ''SCHEMA''] @
                [Sym CHR '':'', Sym CHR '':'', Ident n] @ words [''TO''] @ [Ident y]) \<longrightarrow> owner_ok d y \<longrightarrow>
              writes ok view (ConnExec D q) s ((view s)((d, n) \<mapsto> v\<lparr>v_SchemaOwner := y\<rparr>)))))"

definition tsql_schema_queries ::
  "'d Driver \<Rightarrow> ('d \<Rightarrow> bool) \<Rightarrow> ('d \<Rightarrow> string \<times> string \<Rightarrow> SchemaView option) \<Rightarrow> ('d \<Rightarrow> string option) \<Rightarrow> bool" where
  "tsql_schema_queries D ok view cur \<longleftrightarrow>
     (\<forall>s d n. ok s \<longrightarrow> cur s = Some d \<longrightarrow>
        reads ok view (ConnQuery D ''SELECT CASE WHEN SCHEMA_ID(@p1) IS NOT NULL THEN 1 ELSE 0 END'' [n]) s
          ([[SqlInt (if view s (d, n) = None then 0 else 1)]], None) \<and>
        (\<forall>v. view s (d, n) = Some v \<longrightarrow>
           reads ok view (ConnQuery D schema_owner_sql [n]) s ([[SqlText (v_SchemaOwner v)]], None) \<and>
           (\<exists>k. (0 < k) = v_HasObjects v \<and>
              reads ok view (ConnQuery D ''SELECT COUNT(*) FROM sys.objects WHERE schema_id = SCHEMA_ID(@p1)'' [n]) s
                ([[SqlInt k]], None))))"

definition tsql_schemas ::
  "'d Driver \<Rightarrow> ('d \<Rightarrow> bool) \<Rightarrow> ('d \<Rightarrow> string \<times> string \<Rightarrow> SchemaView option) \<Rightarrow> ('d \<Rightarrow> string option)
    \<Rightarrow> (string \<Rightarrow> bool) \<Rightarrow> (string \<Rightarrow> string \<Rightarrow> bool) \<Rightarrow> string \<Rightarrow> bool" where
  "tsql_schemas D ok view cur known owner_ok dflt \<longleftrightarrow>
     tsql_connections D ok view cur known \<and> tsql_schema_statements D ok view cur owner_ok dflt \<and>
     tsql_schema_queries D ok view cur"

section \<open>The client keeps the contract\<close>

lemma use_text: "tokenize (use_sql d) = Some [Word ''USE'', Ident d]"
  using execInDatabase_recorder [of d "''''"] by (simp add: sends_def execInDatabase_def or_fail_def recorder_def attempt_def deferred_def)

text \<open>Going to a database and doing something there.\<close>

lemma queryInDatabase_reads_some:
  assumes c: "tsql_connections D ok view cur known" and s: "ok s" "known d"
    and fn: "\<And>t. ok t \<Longrightarrow> view t = view s \<Longrightarrow> cur t = Some d \<Longrightarrow> \<exists>x. P x \<and> reads ok view fn t x"
  shows "\<exists>x. P x \<and> reads ok view (queryInDatabase D d fn) s x"
proof -
  obtain t where t: "OpenConn D s = (Inr (), t)" "ok t" "view t = view s"
    using c s by (auto simp: tsql_connections_def reads_def)
  obtain u where u: "ConnExec D (use_sql d) t = (Inr (), u)" "ok u" "view u = view t" "cur u = Some d"
    using c t(2) s(2) use_text by (fastforce simp: tsql_connections_def)
  obtain x r where r: "P x" "fn u = (Inr x, r)" "ok r" "view r = view u"
    using fn [of u] u t by (auto simp: reads_def)
  then show ?thesis
    using c t u by (auto simp: reads_def queryInDatabase_def or_fail_def attempt_def deferred_def tsql_connections_def)
qed

lemma queryInDatabase_reads:
  assumes "tsql_connections D ok view cur known" and "ok s" "known d"
    and "\<And>t. ok t \<Longrightarrow> view t = view s \<Longrightarrow> cur t = Some d \<Longrightarrow> reads ok view fn t x"
  shows "reads ok view (queryInDatabase D d fn) s x"
  using queryInDatabase_reads_some [OF assms(1-3), where P = "\<lambda>y. y = x" and fn = fn] assms(4) by auto

lemma execInDatabase_writes:
  assumes c: "tsql_connections D ok view cur known" and s: "ok s" "known d"
    and q: "\<And>t. ok t \<Longrightarrow> view t = view s \<Longrightarrow> cur t = Some d \<Longrightarrow> writes ok view (ConnExec D q) t v"
  shows "writes ok view (execInDatabase D d q) s v"
proof -
  obtain t where t: "OpenConn D s = (Inr (), t)" "ok t" "view t = view s"
    using c s by (auto simp: tsql_connections_def reads_def)
  obtain u where u: "ConnExec D (use_sql d) t = (Inr (), u)" "ok u" "view u = view t" "cur u = Some d"
    using c t(2) s(2) use_text by (fastforce simp: tsql_connections_def)
  obtain r where r: "ConnExec D q u = (Inr (), r)" "ok r" "view r = v"
    using q [of u] u t by (auto simp: writes_def)
  then show ?thesis
    using c t u by (auto simp: writes_def execInDatabase_def or_fail_def attempt_def deferred_def tsql_connections_def)
qed

lemma conn_query_row_reads:
  "reads ok view (ConnQuery D q args) s ([row], None) \<Longrightarrow> scan row = Inr x \<Longrightarrow> reads ok view (conn_query_row D q args scan) s x"
  by (auto simp: reads_def conn_query_row_def attempt_def first_row_def from_res_def)

lemma or_fail_reads: "reads ok view m s x \<Longrightarrow> reads ok view (or_fail msg m (\<lambda>y. ret (f y))) s (f x)"
  by (auto simp: reads_def or_fail_def attempt_def)

lemma mssql_schemas_simps:
  "SchemaExists (schemas (mssql_client D)) = MSSQL_SchemaExists D" "CreateSchema (schemas (mssql_client D)) = MSSQL_CreateSchema D"
  "DropSchema (schemas (mssql_client D)) = MSSQL_DropSchema D" "GetSchemaOwner (schemas (mssql_client D)) = MSSQL_GetSchemaOwner D"
  "SetSchemaOwner (schemas (mssql_client D)) = MSSQL_SetSchemaOwner D"
  "SchemaHasObjects (schemas (mssql_client D)) = MSSQL_SchemaHasObjects D" "CloseClient (mssql_client D) = MSSQL_Close D"
  by (simp_all add: mssql_client_def)

lemma tsql_schema_statementsD:
  assumes "tsql_schema_statements D ok view cur owner_ok dflt" and "ok s" and "cur s = Some d"
  shows "tokenize q = Some (words [''CREATE'', ''SCHEMA''] @ [Ident n]) \<Longrightarrow> view s (d, n) = None \<Longrightarrow>
       writes ok view (ConnExec D q) s ((view s)((d, n) \<mapsto> \<lparr>v_SchemaOwner = dflt, v_HasObjects = False\<rparr>))"
    and "tokenize q = Some (words [''CREATE'', ''SCHEMA''] @ [Ident n] @ words [''AUTHORIZATION''] @ [Ident y]) \<Longrightarrow>
       owner_ok d y \<Longrightarrow> view s (d, n) = None \<Longrightarrow>
       writes ok view (ConnExec D q) s ((view s)((d, n) \<mapsto> \<lparr>v_SchemaOwner = y, v_HasObjects = False\<rparr>))"
    and "view s (d, n) = Some v \<Longrightarrow> tokenize q = Some (words [''DROP'', ''SCHEMA''] @ [Ident n]) \<Longrightarrow> \<not> v_HasObjects v \<Longrightarrow>
       writes ok view (ConnExec D q) s ((view s)((d, n) := None))"
    and "view s (d, n) = Some v \<Longrightarrow> tokenize q = Some (words [''ALTER'', ''AUTHORIZATION'', ''ON'', ''SCHEMA''] @
         [Sym CHR '':'', Sym CHR '':'', Ident n] @ words [''TO''] @ [Ident y]) \<Longrightarrow> owner_ok d y \<Longrightarrow>
       writes ok view (ConnExec D q) s ((view s)((d, n) \<mapsto> v\<lparr>v_SchemaOwner := y\<rparr>))"
  using assms unfolding tsql_schema_statements_def by blast+

lemma mssql_schema_server:
  assumes "tsql_schemas D ok view cur known owner_ok dflt"
  shows "schema_server (mssql_client D) ok view Pair known owner_ok dflt"
proof -
  have c: "tsql_connections D ok view cur known" and st: "tsql_schema_statements D ok view cur owner_ok dflt"
    and q: "tsql_schema_queries D ok view cur"
    using assms by (auto simp: tsql_schemas_def)
  show ?thesis
  proof (unfold_locales, unfold mssql_schemas_simps)
    fix s d n assume s: "ok s" "known d"
    show "reads ok view (MSSQL_SchemaExists D d n) s (view s (d, n) \<noteq> None)"
      unfolding MSSQL_SchemaExists_def
      by (rule queryInDatabase_reads [OF c s], rule conn_query_row_reads)
         (use q in \<open>auto simp: tsql_schema_queries_def scan1_def\<close>)
  next
    fix s d n x assume s: "ok s" "known d" and x: "\<And>y. x = Some y \<Longrightarrow> y \<noteq> [] \<Longrightarrow> owner_ok d y" and none: "view s (d, n) = None"
    show "writes ok view (MSSQL_CreateSchema D d n x) s ((view s)((d, n) \<mapsto>
        \<lparr>v_SchemaOwner = (case x of Some y \<Rightarrow> if y \<noteq> [] then y else dflt | None \<Rightarrow> dflt), v_HasObjects = False\<rparr>))"
      unfolding MSSQL_CreateSchema_def
    proof (rule execInDatabase_writes [OF c s])
      fix t assume t: "ok t" "view t = view s" "cur t = Some d"
      show "writes ok view (ConnExec D (create_schema_sql n x)) t ((view s)((d, n) \<mapsto>
        \<lparr>v_SchemaOwner = (case x of Some y \<Rightarrow> if y \<noteq> [] then y else dflt | None \<Rightarrow> dflt), v_HasObjects = False\<rparr>))"
      proof (cases "x = None \<or> x = Some []")
        case True
        then have "tokenize (create_schema_sql n x) = Some (words [''CREATE'', ''SCHEMA''] @ [Ident n])"
          by (auto simp: create_schema_sql_def read_back simp del: append.simps)
        moreover have "(case x of Some y \<Rightarrow> if y \<noteq> [] then y else dflt | None \<Rightarrow> dflt) = dflt" using True by auto
        ultimately show ?thesis
          using tsql_schema_statementsD(1) [OF st t(1,3)] t(2) none by simp
      next
        case False
        then obtain z zs where z: "x = Some (z # zs)" by (cases x) (auto simp: neq_Nil_conv)
        then have "tokenize (create_schema_sql n x) = Some (words [''CREATE'', ''SCHEMA''] @ [Ident n] @ words [''AUTHORIZATION''] @ [Ident (z # zs)])"
          by (simp add: create_schema_sql_def read_back del: append.simps)
        moreover have "owner_ok d (z # zs)" using x z by simp
        moreover have "(case x of Some y \<Rightarrow> if y \<noteq> [] then y else dflt | None \<Rightarrow> dflt) = z # zs" using z by simp
        ultimately show ?thesis
          using tsql_schema_statementsD(2) [OF st t(1,3)] t(2) none by simp
      qed
    qed
  next
    fix s d n v assume s: "ok s" "known d" and v: "view s (d, n) = Some v" "\<not> v_HasObjects v"
    show "writes ok view (MSSQL_DropSchema D d n) s ((view s)((d, n) := None))"
      unfolding MSSQL_DropSchema_def
      by (rule execInDatabase_writes [OF c s])
         (use v tsql_schema_statementsD(3) [OF st _ _ _ DropSchema_text] in fastforce)
  next
    fix s d n v assume s: "ok s" "known d" and v: "view s (d, n) = Some v"
    show "reads ok view (MSSQL_GetSchemaOwner D d n) s (v_SchemaOwner v)"
      unfolding MSSQL_GetSchemaOwner_def
      by (rule or_fail_reads, rule queryInDatabase_reads [OF c s], rule conn_query_row_reads [where row = "[SqlText (v_SchemaOwner v)]"])
         (use q v in \<open>auto simp: tsql_schema_queries_def scan1_def\<close>)
  next
    fix s d y n v assume s: "ok s" "known d" and y: "owner_ok d y" and v: "view s (d, n) = Some v"
    show "writes ok view (MSSQL_SetSchemaOwner D d n y) s ((view s)((d, n) \<mapsto> v\<lparr>v_SchemaOwner := y\<rparr>))"
      unfolding MSSQL_SetSchemaOwner_def
      by (rule execInDatabase_writes [OF c s])
         (use v y tsql_schema_statementsD(4) [OF st _ _ _ SetSchemaOwner_text] in fastforce)
  next
    fix s d n v assume s: "ok s" "known d" and v: "view s (d, n) = Some v"
    show "reads ok view (MSSQL_SchemaHasObjects D d n) s (v_HasObjects v)"
    proof -
      let ?q = "''SELECT COUNT(*) FROM sys.objects WHERE schema_id = SCHEMA_ID(@p1)''"
      have "\<exists>k. (0 < k) = v_HasObjects v \<and> reads ok view (queryInDatabase D d (conn_query_row D ?q [n] (scan1 scan_int))) s k"
      proof (rule queryInDatabase_reads_some [OF c s])
        fix t assume t: "ok t" "view t = view s" "cur t = Some d"
        then obtain k where k: "(0 < k) = v_HasObjects v" "reads ok view (ConnQuery D ?q [n]) t ([[SqlInt k]], None)"
          using q v unfolding tsql_schema_queries_def by metis
        then show "\<exists>k. (0 < k) = v_HasObjects v \<and> reads ok view (conn_query_row D ?q [n] (scan1 scan_int)) t k"
          using conn_query_row_reads [OF k(2), where scan = "scan1 scan_int" and x = k] by (auto simp: scan1_def)
      qed
      then obtain k where k: "(0 < k) = v_HasObjects v" "reads ok view (queryInDatabase D d (conn_query_row D ?q [n] (scan1 scan_int))) s k"
        by blast
      show ?thesis
        using or_fail_reads [OF k(2), where f = "\<lambda>k. k > 0" and msg = "''failed to check objects in schema '' @ n"]
        unfolding MSSQL_SchemaHasObjects_def k(1) .
    qed
  next
    fix s assume "ok s"
    then show "ok (MSSQL_Close D s) \<and> view (MSSQL_Close D s) = view s"
      using c by (auto simp: tsql_connections_def MSSQL_Close_def)
  qed
qed

section \<open>Reconciling against a real server\<close>

text \<open>
  C18. Reconciling a \<open>Schema\<close> against a SQL Server, through the client that sends T-SQL, has the
  effect specified of a schema server: the schema is created if it is missing, it ends with the
  specified owner, no other schema changes, and the object is reported ready; the database has to
  exist and the specified owner has to be a principal in it.
\<close>

theorem MSSQL_Schema_reconcile:
  fixes w :: "('k, 'd) world"
  assumes "tsql_schemas D ok view cur known owner_ok dflt"
    and "api_laws R objs secs srvs" and "objs (kube w) (ns, n) = Some schema" and "request_of schema = (ns, n)"
    and "\<not> cr_Deleting schema" and "connects R (secs (kube w)) ns (sch_Server (Spec schema)) (mssql_client D)"
    and "ok (sql w)" and "known (sch_DatabaseName (Spec schema))"
    and "\<forall>y. sch_Owner (Spec schema) = Some y \<longrightarrow> owner_ok (sch_DatabaseName (Spec schema)) y"
  shows "succeeds (Schema_Reconcile R ns n) w (\<lambda>r w'.
    let k = (sch_DatabaseName (Spec schema), sch_SchemaName (Spec schema)) in ok (sql w') \<and>
    view (sql w') = (view (sql w))(k \<mapsto> schema_target (Spec schema) dflt (view (sql w) k)) \<and>
    24 * second \<le> RequeueAfter r \<and> RequeueAfter r < 36 * second \<and>
    outcome objs secs srvs (kclient R) schema ConditionTrue ReasonReady (kube w) (kube w') \<and>
    ((\<exists>v. view (sql w) k = Some v \<and> schema_owner_target (Spec schema) v = v) \<longrightarrow> events w' = events w))" (is "wp _ _ ?Q _")
proof -
  note server = mssql_schema_server [OF assms(1)]
  note sync = schema_server.schema_sync [OF server assms(2)]
  show ?thesis
  proof (rule schema_server.wp_Schema_Reconcile [OF server assms(2-6)])
    fix k' assume k': "objs k' = (objs (kube w))((ns, n) \<mapsto> finalized (kclient R) schema)"
      "secs k' = secs (kube w)" "srvs k' = srvs (kube w)"
    show "wp (Schema_sync R (mssql_client D) (finalized (kclient R) schema)) (w\<lparr>kube := k'\<rparr>)
      (\<lambda>r w'. ?Q r (w'\<lparr>sql := CloseClient (mssql_client D) (sql w')\<rparr>)) (\<lambda>e w'. False)"
      by (rule wp_mono [OF sync [where schema = "finalized (kclient R) schema" and w = "w\<lparr>kube := k'\<rparr>"]])
         (use assms k' in \<open>auto simp: Let_def schema_server.close_law [OF server] intro: reported_outcome\<close>)
  qed
qed

section \<open>A server for the example\<close>

text \<open>A server with one database, which executes the schema statements token by token.\<close>

type_synonym schema_engine = "string option \<times> (string \<times> string \<Rightarrow> SchemaView option)"

fun idents :: "token list \<Rightarrow> string list" where
  "idents [] = []"
| "idents (Ident n # ts) = n # idents ts"
| "idents (_ # ts) = idents ts"

definition engine_run :: "token list \<Rightarrow> schema_engine \<Rightarrow> schema_engine option" where
  "engine_run ts s =
     (case (idents ts, fst s) of
        ([n], c) \<Rightarrow>
          if ts = [Word ''USE'', Ident n] then (if n = ''db'' then Some (Some n, snd s) else None)
          else (case c of None \<Rightarrow> None | Some d \<Rightarrow>
            if ts = words [''CREATE'', ''SCHEMA''] @ [Ident n] \<and> snd s (d, n) = None then
              Some (c, (snd s)((d, n) \<mapsto> \<lparr>v_SchemaOwner = ''dbo'', v_HasObjects = False\<rparr>))
            else if ts = words [''DROP'', ''SCHEMA''] @ [Ident n] \<and> \<not> map_option v_HasObjects (snd s (d, n)) = Some True then
              Some (c, (snd s)((d, n) := None))
            else None)
      | ([n, y], Some d) \<Rightarrow>
          if ts = words [''CREATE'', ''SCHEMA''] @ [Ident n] @ words [''AUTHORIZATION''] @ [Ident y] \<and> snd s (d, n) = None then
            Some (Some d, (snd s)((d, n) \<mapsto> \<lparr>v_SchemaOwner = y, v_HasObjects = False\<rparr>))
          else if ts = words [''ALTER'', ''AUTHORIZATION'', ''ON'', ''SCHEMA''] @ [Sym CHR '':'', Sym CHR '':'', Ident n]
              @ words [''TO''] @ [Ident y] then
            Some (Some d, (snd s)((d, n) := map_option (v_SchemaOwner_update (\<lambda>_. y)) (snd s (d, n))))
          else None
      | _ \<Rightarrow> None)"

definition engine_rows :: "string \<Rightarrow> SchemaView option \<Rightarrow> sql_value list list" where
  "engine_rows q v =
     (if q = schema_owner_sql then (case v of None \<Rightarrow> [] | Some v \<Rightarrow> [[SqlText (v_SchemaOwner v)]])
      else if q = ''SELECT COUNT(*) FROM sys.objects WHERE schema_id = SCHEMA_ID(@p1)'' then
        [[SqlInt (case v of None \<Rightarrow> 0 | Some v \<Rightarrow> if v_HasObjects v then 1 else 0)]]
      else [[SqlInt (if v = None then 0 else 1)]])"

definition schema_driver :: "schema_engine Driver" where
  "schema_driver =
     \<lparr>Exec = (\<lambda>q. fail (Errorf q)), Query = (\<lambda>q args. fail (Errorf q)), OpenConn = ret (),
      ConnExec = (\<lambda>q s. case tokenize q of None \<Rightarrow> (Inl (Errorf q), s)
         | Some ts \<Rightarrow> (case engine_run ts s of None \<Rightarrow> (Inl (Errorf q), s) | Some t \<Rightarrow> (Inr (), t))),
      ConnQuery = (\<lambda>q args s. case fst s of None \<Rightarrow> (Inl (Errorf q), s)
         | Some d \<Rightarrow> (Inr (engine_rows q (snd s (d, concat args)), None), s)),
      CloseConn = (\<lambda>s. s), PingDB = ret (), CloseDB = (\<lambda>s. s)\<rparr>"

lemma schema_driver_tsql:
  "tsql_schemas schema_driver (\<lambda>_. True) snd fst (\<lambda>d. d = ''db'') (\<lambda>_ _. True) ''dbo''"
proof -
  have "tsql_connections schema_driver (\<lambda>_. True) snd fst (\<lambda>d. d = ''db'')"
    by (auto simp: tsql_connections_def schema_driver_def reads_def engine_run_def)
  moreover have "tsql_schema_statements schema_driver (\<lambda>_. True) snd fst (\<lambda>_ _. True) ''dbo''"
    by (auto simp: tsql_schema_statements_def schema_driver_def writes_def engine_run_def)
  moreover have "tsql_schema_queries schema_driver (\<lambda>_. True) snd fst"
  proof -
    have "(0 < k) = v_HasObjects v" if "k = (if v_HasObjects v then 1 else 0 :: int)" for k v
      using that by simp
    then show ?thesis
      by (auto simp: tsql_schema_queries_def schema_driver_def reads_def engine_rows_def schema_owner_sql_def)
  qed
  ultimately show ?thesis by (simp add: tsql_schemas_def)
qed

theorem MSSQL_Schema_reconcile_witness:
  "succeeds (Schema_Reconcile (ex_reconciler (mssql_client schema_driver)) ''ns'' ''obj'') (ex_world ex_schema (None, Map.empty))
     (\<lambda>r w'. snd (sql w') = [(''db'', ''s'') \<mapsto> \<lparr>v_SchemaOwner = ''u'', v_HasObjects = False\<rparr>])"
  by (rule wp_mono [OF MSSQL_Schema_reconcile [OF schema_driver_tsql ex_api_laws, where schema = ex_schema]])
     (simp_all add: ex_schema_def ex_connects schema_target_def schema_owner_target_def)

end
