(* ===== verification/One_Shot.thy ===== *)
theory One_Shot
  imports Memory_API Mock_Laws MSSQL_Statements
begin

text \<open>
  \<open>internal/controller/backup_controller.go\<close> and \<open>restore_controller.go\<close>, and the steps they share
  word for word with \<open>agfailover_controller.go\<close>: resources that stand for one action. The action is
  run once; the phase of the status says how far it got, and a finished object is never touched
  again.
\<close>

section \<open>The shared steps\<close>

definition PhaseRunning :: string where "PhaseRunning = ''Running''"
definition PhaseCompleted :: string where "PhaseCompleted = ''Completed''"
definition PhaseFailed :: string where "PhaseFailed = ''Failed''"

definition finished :: "('spec, 'a OneShotStatus_scheme) CR \<Rightarrow> bool" where
  "finished cr \<longleftrightarrow> Phase (Status cr) = PhaseCompleted \<or> Phase (Status cr) = PhaseFailed"

text \<open>\<open>metav1.Now()\<close>; reading the clock may advance it.\<close>

type_synonym 'k clock = "'k \<Rightarrow> int \<times> 'k"

definition now :: "'k clock \<Rightarrow> (int, ('k, 'c) world) op" where
  "now clock w = (case clock (kube w) of (t, k) \<Rightarrow> (Inr t, w\<lparr>kube := k\<rparr>))"

definition in_phase ::
  "'k KubeClient \<Rightarrow> string \<Rightarrow> ConditionStatus \<Rightarrow> string \<Rightarrow> string
   \<Rightarrow> ('spec, 'a OneShotStatus_scheme) CR \<Rightarrow> ('spec, 'a OneShotStatus_scheme) CR" where
  "in_phase K phase st reason msg cr =
     observed (with_condition K st reason msg (cr\<lparr>Status := (Status cr)\<lparr>Phase := phase\<rparr>\<rparr>))"

definition set_phase ::
  "(('spec, 'a OneShotStatus_scheme) CR, 'k, 'c) Reconciler \<Rightarrow> ('spec, 'a OneShotStatus_scheme) CR \<Rightarrow> string
   \<Rightarrow> ConditionStatus \<Rightarrow> string \<Rightarrow> string \<Rightarrow> (Result, ('k, 'c) world) op" where
  "set_phase R cr phase st reason msg =
     attempt (on_kube (PatchStatus (crs R) cr (in_phase (kclient R) phase st reason msg cr))) fail (\<lambda>_. ret (Result 0))"

text \<open>The credentials; without them the action has failed.\<close>

definition job_credentials ::
  "(('spec, 'a OneShotStatus_scheme) CR, 'k, 'c) Reconciler \<Rightarrow> ('spec, 'a OneShotStatus_scheme) CR \<Rightarrow> string
   \<Rightarrow> (string \<times> string \<Rightarrow> (Result, ('k, 'c) world) op) \<Rightarrow> (Result, ('k, 'c) world) op" where
  "job_credentials R cr secretName k =
     attempt (on_kube (getCredentialsFromSecret (kclient R) (cr_Namespace cr) secretName)) (\<lambda>e.
       if IsNotFound e then
         set_phase R cr PhaseFailed ConditionFalse ReasonSecretNotFound (''Secret '' @ go_quote secretName @ '' not found'')
       else set_phase R cr PhaseFailed ConditionFalse ReasonInvalidCredentialsSecret (Error e)) k"

text \<open>The beginning of a pass: the object, which must not be finished, and a connection.\<close>

definition open_job ::
  "(('spec, 'a OneShotStatus_scheme) CR, 'k, 'c) Reconciler \<Rightarrow> string \<Rightarrow> string \<Rightarrow> ('spec \<Rightarrow> ServerReference) \<Rightarrow> string
   \<Rightarrow> ('c SQLClient \<Rightarrow> ('spec, 'a OneShotStatus_scheme) CR \<Rightarrow> (Result, ('k, 'c) world) op) \<Rightarrow> (Result, ('k, 'c) world) op" where
  "open_job R ns name server what body =
     fetch R ns name (\<lambda>cr.
     if finished cr then ret (Result 0)
     else job_credentials R cr (CredentialsSecret (server (Spec cr))) (\<lambda>(username, password).
       connect_or_fail R what (server (Spec cr)) username password (\<lambda>cl. body cl cr)))"

text \<open>
  The transition to \<open>Running\<close>, which is skipped when a former pass made it: the phase, then, on
  the object as it is then, the start time.
\<close>

definition start_job ::
  "(('spec, 'a OneShotStatus_scheme) CR, 'k, 'c) Reconciler \<Rightarrow> 'k clock \<Rightarrow> string \<Rightarrow> string
   \<Rightarrow> ('spec, 'a OneShotStatus_scheme) CR \<Rightarrow> string \<Rightarrow> string
   \<Rightarrow> (('spec, 'a OneShotStatus_scheme) CR, ('k, 'c) world) op" where
  "start_job R clock ns name cr reason msg =
     attempt (now clock) fail (\<lambda>t.
     if Phase (Status cr) \<noteq> PhaseRunning then
       attempt (set_phase R cr PhaseRunning ConditionFalse reason msg) fail (\<lambda>_.
       attempt (on_kube (GetCR (crs R) ns name)) fail (\<lambda>cr.
       if StartTime (Status cr) = None then
         on_kube (PatchStatus (crs R) cr (cr\<lparr>Status := (Status cr)\<lparr>StartTime := Some t\<rparr>\<rparr>))
       else ret cr))
     else ret cr)"

definition completed_at :: "int \<Rightarrow> ('spec, 'a OneShotStatus_scheme) CR \<Rightarrow> ('spec, 'a OneShotStatus_scheme) CR" where
  "completed_at t cr = cr\<lparr>Status := (Status cr)\<lparr>CompletionTime := Some t\<rparr>\<rparr>"

definition complete_job ::
  "(('spec, 'a OneShotStatus_scheme) CR, 'k, 'c) Reconciler \<Rightarrow> 'k clock \<Rightarrow> string \<Rightarrow> string \<Rightarrow> string \<Rightarrow> string
   \<Rightarrow> (('spec, 'a OneShotStatus_scheme) CR \<Rightarrow> ('spec, 'a OneShotStatus_scheme) CR) \<Rightarrow> (Result, ('k, 'c) world) op" where
  "complete_job R clock ns name reason msg fill =
     attempt (now clock) fail (\<lambda>completionTime.
     attempt (on_kube (GetCR (crs R) ns name)) fail (\<lambda>cr.
     attempt (on_kube (PatchStatus (crs R) cr
         (in_phase (kclient R) PhaseCompleted ConditionTrue reason msg (fill (completed_at completionTime cr))))) fail (\<lambda>_.
     ret (Result 0))))"

section \<open>Backups\<close>

definition setBackupStatus ::
  "(Backup, 'k, 'c) Reconciler \<Rightarrow> Backup \<Rightarrow> string \<Rightarrow> ConditionStatus \<Rightarrow> string \<Rightarrow> string \<Rightarrow> (Result, ('k, 'c) world) op" where
  "setBackupStatus = set_phase"

definition Backup_execute :: "(Backup, 'k, 'c) Reconciler \<Rightarrow> 'k clock \<Rightarrow> string \<Rightarrow> string \<Rightarrow> 'c SQLClient \<Rightarrow> Backup
    \<Rightarrow> (Result, ('k, 'c) world) op" where
  "Backup_execute R clock ns name cl backup =
     (let db = b_DatabaseName (Spec backup); compression = (case b_Compression (Spec backup) of None \<Rightarrow> False | Some b \<Rightarrow> b) in
      attempt (on_sql (BackupDatabase (backups cl) db (b_Destination (Spec backup)) (b_Type (Spec backup)) compression)) (\<lambda>e.
        effect (Warning ''BackupFailed'' (Error e))
        (setBackupStatus R backup PhaseFailed ConditionFalse ''BackupFailed'' (''Backup failed: '' @ Error e))) (\<lambda>_.
      effect (Normal ''BackupCompleted'' (''Backup of '' @ db @ '' completed to '' @ b_Destination (Spec backup)))
      (complete_job R clock ns name ''BackupCompleted'' (''Backup of '' @ db @ '' completed'') (\<lambda>cr. cr))))"

definition Backup_Reconcile :: "(Backup, 'k, 'c) Reconciler \<Rightarrow> 'k clock \<Rightarrow> string \<Rightarrow> string \<Rightarrow> (Result, ('k, 'c) world) op" where
  "Backup_Reconcile R clock ns name =
     open_job R ns name b_Server ''SQL Server'' (\<lambda>cl backup.
     attempt (start_job R clock ns name backup ''BackupRunning'' (''Backup of '' @ b_DatabaseName (Spec backup) @ '' started'')) fail (\<lambda>backup.
     Backup_execute R clock ns name cl backup))"

section \<open>Restores\<close>

definition setRestoreStatus ::
  "(Restore, 'k, 'c) Reconciler \<Rightarrow> Restore \<Rightarrow> string \<Rightarrow> ConditionStatus \<Rightarrow> string \<Rightarrow> string \<Rightarrow> (Result, ('k, 'c) world) op" where
  "setRestoreStatus = set_phase"

text \<open>
  The file moves as a map, in the order in which \<open>range\<close> visits it; of two entries for a logical
  name the later one counts.
\<close>

definition move_map :: "FileMapping list \<Rightarrow> string \<Rightarrow> string option" where
  "move_map ms = fold (\<lambda>m f. f(LogicalName m \<mapsto> PhysicalPath m)) ms Map.empty"

definition moves :: "(string list \<Rightarrow> string list) \<Rightarrow> FileMapping list \<Rightarrow> (string \<times> string) list" where
  "moves order ms = List.map (\<lambda>l. (l, case move_map ms l of None \<Rightarrow> [] | Some p \<Rightarrow> p)) (order (remdups (List.map LogicalName ms)))"

definition run_restore :: "(string list \<Rightarrow> string list) \<Rightarrow> 'c SQLClient \<Rightarrow> RestoreSpec \<Rightarrow> (unit, 'c) op" where
  "run_restore order cl spec =
     (case (r_StopAt spec, r_LogSource spec) of
        (Some stopAt, Some logSource) \<Rightarrow>
          RestoreDatabasePIT (backups cl) (r_DatabaseName spec) (r_Source spec) logSource stopAt
      | _ \<Rightarrow> if r_WithMove spec \<noteq> [] then
               RestoreDatabaseWithMove (backups cl) (r_DatabaseName spec) (r_Source spec) (moves order (r_WithMove spec))
             else RestoreDatabase (backups cl) (r_DatabaseName spec) (r_Source spec))"

definition Restore_execute :: "(Restore, 'k, 'c) Reconciler \<Rightarrow> 'k clock \<Rightarrow> string \<Rightarrow> string \<Rightarrow> 'c SQLClient \<Rightarrow> Restore
    \<Rightarrow> (Result, ('k, 'c) world) op" where
  "Restore_execute R clock ns name cl restore =
     (let db = r_DatabaseName (Spec restore) in
      attempt (on_sql (run_restore (range_order R) cl (Spec restore))) (\<lambda>e.
        effect (Warning ''RestoreFailed'' (Error e))
        (setRestoreStatus R restore PhaseFailed ConditionFalse ''RestoreFailed'' (''Restore failed: '' @ Error e))) (\<lambda>_.
      effect (Normal ''RestoreCompleted'' (''Restore of '' @ db @ '' completed from '' @ r_Source (Spec restore)))
      (complete_job R clock ns name ''RestoreCompleted'' (''Restore of '' @ db @ '' completed'') (\<lambda>cr. cr))))"

definition Restore_Reconcile :: "(Restore, 'k, 'c) Reconciler \<Rightarrow> 'k clock \<Rightarrow> string \<Rightarrow> string \<Rightarrow> (Result, ('k, 'c) world) op" where
  "Restore_Reconcile R clock ns name =
     open_job R ns name r_Server ''SQL Server'' (\<lambda>cl restore.
     attempt (start_job R clock ns name restore ''RestoreRunning'' (''Restore of '' @ r_DatabaseName (Spec restore) @ '' started'')) fail (\<lambda>restore.
     Restore_execute R clock ns name cl restore))"

section \<open>What the steps do\<close>

text \<open>Nothing but the clock changes when it is read.\<close>

definition clock_laws ::
  "('k \<Rightarrow> 'o) \<Rightarrow> ('k \<Rightarrow> string \<times> string \<Rightarrow> Secret option) \<Rightarrow> ('k \<Rightarrow> string \<times> string \<Rightarrow> SQLServer option) \<Rightarrow> 'k clock \<Rightarrow> bool" where
  "clock_laws objs secs srvs clock \<longleftrightarrow>
     (\<forall>k. objs (snd (clock k)) = objs k \<and> secs (snd (clock k)) = secs k \<and> srvs (snd (clock k)) = srvs k)"

lemma wp_now:
  assumes "clock_laws objs secs srvs clock"
    and "\<And>t k'. objs k' = objs (kube w) \<Longrightarrow> secs k' = secs (kube w) \<Longrightarrow> srvs k' = srvs (kube w) \<Longrightarrow> Q t (w\<lparr>kube := k'\<rparr>)"
  shows "wp (now clock) w Q E"
proof (cases "clock (kube w)")
  case (Pair t k)
  then have "k = snd (clock (kube w))" by simp
  with assms(1) have "Q t (w\<lparr>kube := k\<rparr>)" by (intro assms(2)) (simp_all add: clock_laws_def)
  with Pair show ?thesis by (simp add: now_def wp_def)
qed

lemma in_phase_simps [simp]:
  "request_of (in_phase K p st r m cr) = request_of cr" "Spec (in_phase K p st r m cr) = Spec cr"
  "cr_Deleting (in_phase K p st r m cr) = cr_Deleting cr" "cr_Generation (in_phase K p st r m cr) = cr_Generation cr"
  "cr_Namespace (in_phase K p st r m cr) = cr_Namespace cr" "cr_Name (in_phase K p st r m cr) = cr_Name cr"
  "Phase (Status (in_phase K p st r m cr)) = p" "StartTime (Status (in_phase K p st r m cr)) = StartTime (Status cr)"
  "CompletionTime (Status (in_phase K p st r m cr)) = CompletionTime (Status cr)"
  "OneShotStatus.more (Status (in_phase K p st r m cr)) = OneShotStatus.more (Status cr)"
  "ObservedGeneration (Status (in_phase K p st r m cr)) = cr_Generation cr"
  "cr\<lparr>Status := Status (in_phase K p st r m cr)\<rparr> = in_phase K p st r m cr"
  by (simp_all add: in_phase_def observed_def with_condition_def request_of_def)

lemma in_phase_ready: "condition_laws K \<Longrightarrow> ready_status (in_phase K p st r m cr) = Some (st, r)"
  by (simp add: in_phase_def ready_status_with_condition)

lemma completed_at_simps [simp]:
  "request_of (completed_at t cr) = request_of cr" "Spec (completed_at t cr) = Spec cr"
  "cr_Deleting (completed_at t cr) = cr_Deleting cr" "cr_Generation (completed_at t cr) = cr_Generation cr"
  "CompletionTime (Status (completed_at t cr)) = Some t" "StartTime (Status (completed_at t cr)) = StartTime (Status cr)"
  "OneShotStatus.more (Status (completed_at t cr)) = OneShotStatus.more (Status cr)"
  by (simp_all add: completed_at_def request_of_def)

lemma wp_patch:
  assumes laws: "api_laws R objs secs srvs" and base: "objs k (request_of base) = Some base" and live: "\<not> cr_Deleting base"
    and new: "cr = base\<lparr>Status := Status cr\<rparr>"
    and post: "\<And>k'. objs k' = (objs k)(request_of base \<mapsto> cr) \<Longrightarrow> secs k' = secs k \<Longrightarrow> srvs k' = srvs k \<Longrightarrow> Q cr k'"
  shows "wp (PatchStatus (crs R) base cr) k Q E"
proof -
  have "cr_Deleting cr = cr_Deleting base" using arg_cong [OF new, of cr_Deleting] by simp
  then have cr: "stored cr = Some cr" using live by (simp add: stored_Some)
  have "wp (PatchStatus (crs R) base (base\<lparr>Status := Status cr\<rparr>)) k Q E"
    by (rule wp_PatchStatus [OF laws base]) (unfold new [symmetric] cr, rule post)
  with new show ?thesis by simp
qed

lemma wp_set_phase:
  assumes laws: "api_laws R objs secs srvs" and base: "objs (kube w) (request_of cr) = Some cr" and live: "\<not> cr_Deleting cr"
    and post: "\<And>k'. objs k' = (objs (kube w))(request_of cr \<mapsto> in_phase (kclient R) phase st reason msg cr) \<Longrightarrow>
      secs k' = secs (kube w) \<Longrightarrow> srvs k' = srvs (kube w) \<Longrightarrow> Q (Result 0) (w\<lparr>kube := k'\<rparr>)"
  shows "wp (set_phase R cr phase st reason msg) w Q E"
  unfolding set_phase_def wp_attempt wp_on_kube wp_ret
  by (rule wp_patch [OF laws base live]) (simp_all add: post)

text \<open>
  What the store holds once the job is started: the object in phase \<open>Running\<close>, with a start time
  if this pass began it.
\<close>

definition started ::
  "('spec, 'a OneShotStatus_scheme) CR \<Rightarrow> ('spec, 'a OneShotStatus_scheme) CR \<Rightarrow> bool" where
  "started cr cr' \<longleftrightarrow> (\<exists>st. cr' = cr\<lparr>Status := st\<rparr> \<and> Phase st = PhaseRunning
     \<and> CompletionTime st = CompletionTime (Status cr) \<and> OneShotStatus.more st = OneShotStatus.more (Status cr)
     \<and> (Phase (Status cr) \<noteq> PhaseRunning \<longrightarrow> StartTime st \<noteq> None)
     \<and> (StartTime (Status cr) \<noteq> None \<longrightarrow> StartTime st = StartTime (Status cr)))"

lemma startedD:
  "started cr cr' \<Longrightarrow> request_of cr' = request_of cr \<and> Spec cr' = Spec cr \<and> cr_Deleting cr' = cr_Deleting cr
    \<and> cr_Generation cr' = cr_Generation cr \<and> (\<forall>st. cr'\<lparr>Status := st\<rparr> = cr\<lparr>Status := st\<rparr>)"
  by (auto simp: started_def request_of_def)

lemma started_in_phase:
  "StartTime (Status cr) \<noteq> None \<Longrightarrow> started cr (in_phase K PhaseRunning st r m cr)"
  unfolding started_def
  by (rule exI [of _ "Status (in_phase K PhaseRunning st r m cr)"]) simp

lemma wp_start_job:
  assumes laws: "api_laws R objs secs srvs" and clock: "clock_laws objs secs srvs clock"
    and base: "objs (kube w) (ns, n) = Some cr" "request_of cr = (ns, n)" and live: "\<not> cr_Deleting cr"
    and post: "\<And>cr' k'. started cr cr' \<Longrightarrow> objs k' = (objs (kube w))((ns, n) \<mapsto> cr') \<Longrightarrow> secs k' = secs (kube w) \<Longrightarrow>
      srvs k' = srvs (kube w) \<Longrightarrow> Q cr' (w\<lparr>kube := k'\<rparr>)"
  shows "wp (start_job R clock ns n cr reason msg) w Q E"
  unfolding start_job_def wp_attempt
proof (rule wp_now [OF clock])
  fix t k1 assume k1: "objs k1 = objs (kube w)" "secs k1 = secs (kube w)" "srvs k1 = srvs (kube w)"
  let ?run = "in_phase (kclient R) PhaseRunning ConditionFalse reason msg cr"
  let ?timed = "?run\<lparr>Status := (Status ?run)\<lparr>StartTime := Some t\<rparr>\<rparr>"
  show "wp (if Phase (Status cr) \<noteq> PhaseRunning then
       attempt (set_phase R cr PhaseRunning ConditionFalse reason msg) fail (\<lambda>_.
       attempt (on_kube (GetCR (crs R) ns n)) fail (\<lambda>cr.
       if StartTime (Status cr) = None then
         on_kube (PatchStatus (crs R) cr (cr\<lparr>Status := (Status cr)\<lparr>StartTime := Some t\<rparr>\<rparr>))
       else ret cr)) else ret cr) (w\<lparr>kube := k1\<rparr>) Q E"
  proof (cases "Phase (Status cr) = PhaseRunning")
    case True
    have "started cr cr" unfolding started_def by (rule exI [of _ "Status cr"]) (simp add: True)
    moreover have "objs k1 = (objs (kube w))((ns, n) \<mapsto> cr)" using k1 base by (auto simp: fun_upd_triv)
    ultimately show ?thesis using True post [of cr k1] k1 by (simp add: wp_ret del: ret_apply)
  next
    case False
    have run: "wp (attempt (on_kube (GetCR (crs R) ns n)) fail (\<lambda>cr.
         if StartTime (Status cr) = None then
           on_kube (PatchStatus (crs R) cr (cr\<lparr>Status := (Status cr)\<lparr>StartTime := Some t\<rparr>\<rparr>))
         else ret cr)) (w\<lparr>kube := k2\<rparr>) Q E"
      if k2: "objs k2 = (objs k1)(request_of cr \<mapsto> ?run)" "secs k2 = secs k1" "srvs k2 = srvs k1" for k2
    proof -
      have got: "objs k2 (ns, n) = Some ?run" using k2 base by simp
      show ?thesis
      proof (cases "StartTime (Status cr)")
        case None
        have "started cr ?timed"
          unfolding started_def by (rule exI [of _ "Status ?timed"]) (simp add: in_phase_def observed_def with_condition_def None)
        then show ?thesis
          unfolding wp_attempt wp_on_kube
          apply (simp add: wp_GetCR [OF laws got] None wp_on_kube)
          apply (rule wp_patch [OF laws])
             apply (simp_all add: got base live k1 k2 post)
          done
      next
        case (Some s)
        then have "started cr ?run" by (intro started_in_phase) auto
        then show ?thesis
          unfolding wp_attempt wp_on_kube
          by (simp add: wp_GetCR [OF laws got] Some wp_ret post k1 k2 base del: ret_apply)
      qed
    qed
    have "wp (set_phase R cr PhaseRunning ConditionFalse reason msg) (w\<lparr>kube := k1\<rparr>) (\<lambda>_ w'.
        wp (attempt (on_kube (GetCR (crs R) ns n)) fail (\<lambda>cr.
         if StartTime (Status cr) = None then
           on_kube (PatchStatus (crs R) cr (cr\<lparr>Status := (Status cr)\<lparr>StartTime := Some t\<rparr>\<rparr>))
         else ret cr)) w' Q E) E"
      by (rule wp_set_phase [OF laws _ live]) (use run base k1 in auto)
    then show ?thesis using False by (simp add: wp_attempt wp_fail)
  qed
qed

lemma wp_complete_job:
  assumes laws: "api_laws R objs secs srvs" and clock: "clock_laws objs secs srvs clock"
    and base: "objs (kube w) (ns, n) = Some cr" "request_of cr = (ns, n)" and live: "\<not> cr_Deleting cr"
    and fill: "\<And>cr. \<exists>st. fill cr = cr\<lparr>Status := st\<rparr>"
    and post: "\<And>t k'. objs k' = (objs (kube w))((ns, n) \<mapsto>
        in_phase (kclient R) PhaseCompleted ConditionTrue reason msg (fill (completed_at t cr))) \<Longrightarrow>
      secs k' = secs (kube w) \<Longrightarrow> srvs k' = srvs (kube w) \<Longrightarrow> Q (Result 0) (w\<lparr>kube := k'\<rparr>)"
  shows "wp (complete_job R clock ns n reason msg fill) w Q E"
  unfolding complete_job_def wp_attempt
proof (rule wp_now [OF clock])
  fix t k1 assume k1: "objs k1 = objs (kube w)" "secs k1 = secs (kube w)" "srvs k1 = srvs (kube w)"
  then have got: "objs k1 (ns, n) = Some cr" using base by simp
  obtain st where st: "fill (completed_at t cr) = (completed_at t cr)\<lparr>Status := st\<rparr>" using fill by blast
  let ?new = "in_phase (kclient R) PhaseCompleted ConditionTrue reason msg (fill (completed_at t cr))"
  have new: "?new = cr\<lparr>Status := Status ?new\<rparr>"
    unfolding st by (simp add: in_phase_def observed_def with_condition_def completed_at_def)
  show "wp (on_kube (GetCR (crs R) ns n)) (w\<lparr>kube := k1\<rparr>) (\<lambda>x t'. wp (on_kube (PatchStatus (crs R) x
         (in_phase (kclient R) PhaseCompleted ConditionTrue reason msg (fill (completed_at t x))))) t'
         (\<lambda>x t. wp (ret (Result 0)) t Q E) (\<lambda>e t. wp (fail e) t Q E)) (\<lambda>e t. wp (fail e) t Q E)"
    unfolding wp_on_kube
    apply (simp add: wp_GetCR [OF laws got] wp_on_kube wp_ret del: ret_apply)
    apply (rule wp_patch [OF laws])
       apply (simp_all only: base live)
      apply (simp_all add: got base live)
     apply (rule new)
    apply (rule post)
      apply (simp_all add: k1 base)
    done
qed

lemma wp_job_credentials:
  assumes "api_laws R objs secs srvs" and "secret_credentials (secs (kube w)) (cr_Namespace cr) name = Some up"
  shows "wp (job_credentials R cr name k) w Q E = wp (k up) w Q E"
  by (simp add: job_credentials_def wp_attempt wp_on_kube wp_getCredentialsFromSecret [OF assms])

lemma wp_open_job:
  assumes laws: "api_laws R objs secs srvs" and base: "objs (kube w) (ns, n) = Some cr" "request_of cr = (ns, n)"
    and todo: "\<not> finished cr" and server: "connects R (secs (kube w)) ns (server (Spec cr)) cl"
  shows "wp (open_job R ns n server what body) w Q E =
    wp (body cl cr) w (\<lambda>x w'. Q x (w'\<lparr>sql := CloseClient cl (sql w')\<rparr>)) (\<lambda>e w'. E e (w'\<lparr>sql := CloseClient cl (sql w')\<rparr>))"
proof -
  from server obtain u p where
    up: "secret_credentials (secs (kube w)) ns (CredentialsSecret (server (Spec cr))) = Some (u, p)" and
    cl: "connectToSQL (server (Spec cr)) u p (SQLClientFactory R) = Inr cl"
    by (auto simp: connects_def)
  have ns: "cr_Namespace cr = ns" using base(2) by (simp add: request_of_def)
  show ?thesis
    unfolding open_job_def fetch_def wp_attempt wp_on_kube wp_GetCR [OF laws base(1)]
    by (simp add: todo wp_job_credentials [OF laws, of w cr] up ns wp_connect_or_fail [OF cl])
qed

text \<open>An object that is finished is left as it is, for good.\<close>

lemma wp_open_finished:
  assumes "api_laws R objs secs srvs" and "objs (kube w) (ns, n) = Some cr" and "finished cr"
  shows "wp (open_job R ns n server what body) w Q E = Q (Result 0) w"
  unfolding open_job_def fetch_def wp_attempt wp_on_kube wp_GetCR [OF assms(1,2)] by (simp add: assms(3) wp_ret del: ret_apply)

text \<open>What is left of a job that was done, and of one that failed.\<close>

definition job_over ::
  "('k \<Rightarrow> string \<times> string \<Rightarrow> ('spec, 'a OneShotStatus_scheme) CR option) \<Rightarrow> ('spec, 'a OneShotStatus_scheme) CR
   \<Rightarrow> string \<Rightarrow> ConditionStatus \<Rightarrow> string \<Rightarrow> 'k \<Rightarrow> 'k \<Rightarrow> bool" where
  "job_over objs cr phase st reason k k' \<longleftrightarrow>
     (\<exists>st'. objs k' = (objs k)(request_of cr \<mapsto> cr\<lparr>Status := st'\<rparr>) \<and> Phase st' = phase
        \<and> ready_status (cr\<lparr>Status := st'\<rparr>) = Some (st, reason) \<and> ObservedGeneration st' = cr_Generation cr
        \<and> (Phase (Status cr) \<noteq> PhaseRunning \<longrightarrow> StartTime st' \<noteq> None)
        \<and> (phase = PhaseCompleted \<longrightarrow> CompletionTime st' \<noteq> None))"

lemma job_overI:
  assumes "started cr cr'" and "condition_laws K" and "objs k' = (objs k)(request_of cr \<mapsto> in_phase K phase st reason msg job)"
    and "job = cr'\<lparr>Status := jst\<rparr>" and "StartTime jst = StartTime (Status cr')" and "phase = PhaseCompleted \<Longrightarrow> CompletionTime jst \<noteq> None"
  shows "job_over objs cr phase st reason k k'"
proof -
  let ?st = "Status (in_phase K phase st reason msg job)"
  have eq: "in_phase K phase st reason msg job = cr\<lparr>Status := ?st\<rparr>"
    using assms(1,4) by (auto simp: started_def in_phase_def observed_def with_condition_def)
  have gen: "cr_Generation job = cr_Generation cr" using assms(1,4) by (auto simp: started_def)
  have ready: "ready_status (cr\<lparr>Status := ?st\<rparr>) = Some (st, reason)"
    by (subst eq [symmetric]) (rule in_phase_ready [OF assms(2)])
  have stored: "objs k' = (objs k)(request_of cr \<mapsto> cr\<lparr>Status := ?st\<rparr>)"
    by (subst eq [symmetric]) (rule assms(3))
  have "StartTime ?st = StartTime (Status cr')" using assms(4,5) by simp
  then have start: "Phase (Status cr) \<noteq> PhaseRunning \<longrightarrow> StartTime ?st \<noteq> None"
    using assms(1) unfolding started_def by (metis CR.select_convs(10) CR.surjective CR.update_convs(10))
  show ?thesis
    unfolding job_over_def
    by (rule exI [of _ ?st], intro conjI) (use stored ready start gen assms(4,6) in simp_all)
qed

lemma job_completed:
  assumes "started cr cr'" and "condition_laws K"
    and "objs k' = (objs k)(request_of cr \<mapsto> in_phase K PhaseCompleted st reason msg (completed_at t cr'))"
  shows "job_over objs cr PhaseCompleted st reason k k'"
  by (rule job_overI [OF assms, where jst = "(Status cr')\<lparr>CompletionTime := Some t\<rparr>"]) (simp_all add: completed_at_def)

lemma job_failed:
  assumes "started cr cr'" and "condition_laws K"
    and "objs k' = (objs k)(request_of cr \<mapsto> in_phase K PhaseFailed st reason msg cr')"
  shows "job_over objs cr PhaseFailed st reason k k'"
  by (rule job_overI [OF assms, where jst = "Status cr'"]) (simp_all add: PhaseFailed_def PhaseCompleted_def)

lemma job_over_silent:
  assumes "api_laws R objs secs srvs" and "job_over objs cr phase st reason k (kube w)" and "request_of cr = (ns, n)"
    and "phase = PhaseCompleted \<or> phase = PhaseFailed"
  shows "succeeds (open_job R ns n server what body) w (\<lambda>r w'. r = Result 0 \<and> w' = w)"
proof -
  from assms(2) obtain st' where st: "objs (kube w) = (objs k)(request_of cr \<mapsto> cr\<lparr>Status := st'\<rparr>)" "Phase st' = phase"
    unfolding job_over_def by blast
  then have "objs (kube w) (ns, n) = Some (cr\<lparr>Status := st'\<rparr>)" using assms(3) by simp
  from wp_open_finished [OF assms(1) this] st(2) assms(4) show ?thesis by (simp add: finished_def)
qed

lemma same_status [simp]: "\<exists>st. cr = cr\<lparr>Status := st\<rparr>"
  by (rule exI [of _ "Status cr"]) simp

section \<open>Servers that do the work\<close>

locale sql_session =
  fixes cl :: "'c SQLClient" and ok :: "'c \<Rightarrow> bool" and view :: "'c \<Rightarrow> 'v"
  assumes close_law: "ok c \<Longrightarrow> ok (CloseClient cl c) \<and> view (CloseClient cl c) = view c"

locale backup_server = sql_session cl ok view for cl :: "'c SQLClient" and ok and view :: "'c \<Rightarrow> 'v" +
  fixes backed_up :: "string \<Rightarrow> string \<Rightarrow> string \<Rightarrow> bool \<Rightarrow> 'v \<Rightarrow> 'v"
  assumes backup_law: "ok c \<Longrightarrow> writes ok view (BackupDatabase (backups cl) d f t z) c (backed_up d f t z (view c))"

locale restore_server = sql_session cl ok view for cl :: "'c SQLClient" and ok and view :: "'c \<Rightarrow> 'v" +
  fixes restored :: "(string \<times> string) list \<Rightarrow> RestoreSpec \<Rightarrow> 'v \<Rightarrow> 'v"
  assumes restore_law: "ok c \<Longrightarrow> writes ok view (run_restore order cl sp) c (restored (moves order (r_WithMove sp)) sp (view c))"

text \<open>The end of a pass whose work succeeded.\<close>

lemma wp_job_done:
  fixes w :: "('k, 'c) world"
  assumes laws: "api_laws R objs secs srvs" and clock: "clock_laws objs secs srvs clock"
    and base: "objs (kube w) (ns, n) = Some b" "request_of b = (ns, n)" and live: "\<not> cr_Deleting b"
    and run: "started b cr'" "objs k' = (objs (kube w))((ns, n) \<mapsto> cr')" "secs k' = secs (kube w)" "srvs k' = srvs (kube w)"
    and work: "writes ok view m (sql w) v"
    and fill: "fill = (\<lambda>cr. cr)"
    and post: "\<And>k'' c. ok c \<Longrightarrow> view c = v \<Longrightarrow> job_over objs b PhaseCompleted ConditionTrue reason (kube w) k'' \<Longrightarrow>
      Q (Result 0) (record_event ty ev text (w\<lparr>kube := k', sql := c\<rparr>)\<lparr>kube := k''\<rparr>)"
  shows "wp (attempt (on_sql m) h (\<lambda>_. effect (record_event ty ev text) (complete_job R clock ns n reason msg fill)))
    (w\<lparr>kube := k'\<rparr>) Q E"
  unfolding wp_attempt wp_on_sql wp_effect
proof (rule wp_writes)
  show "writes ok view m (sql (w\<lparr>kube := k'\<rparr>)) v" using work by simp
next
  fix c assume c: "ok c" "view c = v"
  note same = startedD [OF run(1)]
  show "wp (complete_job R clock ns n reason msg fill) (record_event ty ev text (w\<lparr>kube := k', sql := c\<rparr>)) Q E"
  proof (rule wp_complete_job [OF laws clock, where cr = cr'])
    fix t k'' assume k'': "objs k'' = (objs (kube (record_event ty ev text (w\<lparr>kube := k', sql := c\<rparr>))))((ns, n) \<mapsto>
        in_phase (kclient R) PhaseCompleted ConditionTrue reason msg (fill (completed_at t cr')))"
    have "job_over objs b PhaseCompleted ConditionTrue reason (kube w) k''"
      by (rule job_completed [OF run(1) api_lawsD(7) [OF laws]]) (use k'' run base fill in auto)
    then show "Q (Result 0) (record_event ty ev text (w\<lparr>kube := k', sql := c\<rparr>)\<lparr>kube := k''\<rparr>)"
      by (rule post [OF c])
  qed (use run base live same fill in simp_all)
qed

text \<open>The end of a pass whose work failed.\<close>

lemma wp_job_failed:
  fixes w :: "('k, 'c) world"
  assumes laws: "api_laws R objs secs srvs"
    and base: "objs (kube w) (ns, n) = Some b" "request_of b = (ns, n)" and live: "\<not> cr_Deleting b"
    and run: "started b cr'" "objs k' = (objs (kube w))((ns, n) \<mapsto> cr')" "secs k' = secs (kube w)" "srvs k' = srvs (kube w)"
    and work: "m (sql w) = (Inl e, c)"
    and post: "\<And>k''. job_over objs b PhaseFailed ConditionFalse reason (kube w) k'' \<Longrightarrow>
      Q (Result 0) (record_event ty ev (Error e) (w\<lparr>kube := k', sql := c\<rparr>)\<lparr>kube := k''\<rparr>)"
  shows "wp (attempt (on_sql m) (\<lambda>e. effect (record_event ty ev (Error e))
      (set_phase R cr' PhaseFailed ConditionFalse reason (text @ Error e))) k) (w\<lparr>kube := k'\<rparr>) Q E"
proof -
  note same = startedD [OF run(1)]
  have "wp (set_phase R cr' PhaseFailed ConditionFalse reason (text @ Error e))
      (record_event ty ev (Error e) (w\<lparr>kube := k', sql := c\<rparr>)) Q E"
  proof (rule wp_set_phase [OF laws])
    fix k'' assume k'': "objs k'' = (objs (kube (record_event ty ev (Error e) (w\<lparr>kube := k', sql := c\<rparr>))))(request_of cr' \<mapsto>
        in_phase (kclient R) PhaseFailed ConditionFalse reason (text @ Error e) cr')"
    have "job_over objs b PhaseFailed ConditionFalse reason (kube w) k''"
      by (rule job_failed [OF run(1) api_lawsD(7) [OF laws]]) (use k'' run base same in auto)
    then show "Q (Result 0) (record_event ty ev (Error e) (w\<lparr>kube := k', sql := c\<rparr>)\<lparr>kube := k''\<rparr>)" by (rule post)
  qed (use run base live same in simp_all)
  with work show ?thesis by (simp add: wp_attempt wp_on_sql wp_effect fails_eq)
qed

context backup_server
begin

lemma wp_backup:
  assumes laws: "api_laws R objs secs srvs" and clock: "clock_laws objs secs srvs clock"
    and base: "objs (kube w) (ns, n) = Some b" "request_of b = (ns, n)" and live: "\<not> cr_Deleting b" and todo: "\<not> finished b"
    and server: "connects R (secs (kube w)) ns (b_Server (Spec b)) cl" and c: "ok (sql w)"
  shows "succeeds (Backup_Reconcile R clock ns n) w (\<lambda>r w'. r = Result 0 \<and> ok (sql w') \<and>
    view (sql w') = backed_up (b_DatabaseName (Spec b)) (b_Destination (Spec b)) (b_Type (Spec b))
      (b_Compression (Spec b) = Some True) (view (sql w)) \<and>
    job_over objs b PhaseCompleted ConditionTrue ''BackupCompleted'' (kube w) (kube w') \<and>
    List.map ev_Reason (events w') = List.map ev_Reason (events w) @ [''BackupCompleted''])"
proof -
  have comp: "(case b_Compression (Spec b) of None \<Rightarrow> False | Some z \<Rightarrow> z) = (b_Compression (Spec b) = Some True)"
    by (auto split: option.split)
  show ?thesis
    unfolding Backup_Reconcile_def wp_open_job [where server = b_Server, OF laws base todo server] wp_attempt
    by (rule wp_start_job [OF laws clock base live], unfold Backup_execute_def Let_def,
        rule wp_job_done [OF laws clock base live _ _ _ _ backup_law [OF c] refl])
       (auto simp: startedD close_law comp fun_eq_iff)
qed

end

context restore_server
begin

lemma wp_restore:
  assumes laws: "api_laws R objs secs srvs" and clock: "clock_laws objs secs srvs clock"
    and base: "objs (kube w) (ns, n) = Some b" "request_of b = (ns, n)" and live: "\<not> cr_Deleting b" and todo: "\<not> finished b"
    and server: "connects R (secs (kube w)) ns (r_Server (Spec b)) cl" and c: "ok (sql w)"
  shows "succeeds (Restore_Reconcile R clock ns n) w (\<lambda>r w'. r = Result 0 \<and> ok (sql w') \<and>
    view (sql w') = restored (moves (range_order R) (r_WithMove (Spec b))) (Spec b) (view (sql w)) \<and>
    job_over objs b PhaseCompleted ConditionTrue ''RestoreCompleted'' (kube w) (kube w') \<and>
    List.map ev_Reason (events w') = List.map ev_Reason (events w) @ [''RestoreCompleted''])"
  unfolding Restore_Reconcile_def wp_open_job [where server = r_Server, OF laws base todo server] wp_attempt
  by (rule wp_start_job [OF laws clock base live], unfold Restore_execute_def Let_def,
      rule wp_job_done [OF laws clock base live _ _ _ _ restore_law [OF c] refl])
     (auto simp: startedD close_law fun_eq_iff)

end

section \<open>The client for SQL Server and the in-memory server do the work\<close>

text \<open>
  What is sent for a restore: \<open>STOPAT\<close> is honoured only together with a log backup, and moves only
  without them.
\<close>

definition restore_sqls :: "(string \<times> string) list \<Rightarrow> RestoreSpec \<Rightarrow> string list" where
  "restore_sqls mv sp =
     (let db = QuoteName (r_DatabaseName sp) in
      case (r_StopAt sp, r_LogSource sp) of
        (Some stopAt, Some logSource) \<Rightarrow>
         [''RESTORE DATABASE '' @ db @ '' FROM DISK = '' @ QuoteString (r_Source sp) @ '' WITH REPLACE, NORECOVERY'',
          ''RESTORE LOG '' @ db @ '' FROM DISK = '' @ QuoteString logSource @ '' WITH RECOVERY, STOPAT = '' @ QuoteString stopAt]
      | _ \<Rightarrow> if r_WithMove sp \<noteq> [] then [restore_move_sql (r_DatabaseName sp) (r_Source sp) mv]
             else [''RESTORE DATABASE '' @ db @ '' FROM DISK = '' @ QuoteString (r_Source sp) @ '' WITH REPLACE''])"

definition restore_tokens :: "(string \<times> string) list \<Rightarrow> RestoreSpec \<Rightarrow> token list list" where
  "restore_tokens mv sp =
     (let full = words [''RESTORE'', ''DATABASE''] @ [Ident (r_DatabaseName sp)] @ words [''FROM'', ''DISK''] @
        [Sym CHR ''='', Lit (r_Source sp)] @ words [''WITH'', ''REPLACE''] in
      case (r_StopAt sp, r_LogSource sp) of
        (Some stopAt, Some logSource) \<Rightarrow> [full @ [Sym CHR '',''] @ words [''NORECOVERY''],
          words [''RESTORE'', ''LOG''] @ [Ident (r_DatabaseName sp)] @ words [''FROM'', ''DISK''] @ [Sym CHR ''='', Lit logSource] @
          words [''WITH'', ''RECOVERY''] @ [Sym CHR '',''] @ words [''STOPAT''] @ [Sym CHR ''='', Lit stopAt]]
      | _ \<Rightarrow> if r_WithMove sp \<noteq> [] then
               [full @ concat (List.map (\<lambda>(l, p). [Sym CHR '',''] @ words [''MOVE''] @ [Lit l] @ words [''TO''] @ [Lit p]) mv)]
             else [full])"

definition move_parts :: "(string \<times> string) list \<Rightarrow> part list" where
  "move_parts mv = concat (List.map (\<lambda>(l, p). [Txt '', MOVE '', Str l, Txt '' TO '', Str p]) mv)"

lemma render_append [simp]: "render (ps @ qs) = render ps @ render qs"
  by (induction ps rule: render.induct) auto

lemma Join_Cons: "Join (x # xs) sep = x @ concat (List.map (\<lambda>y. sep @ y) xs)"
  by (induction xs arbitrary: x) simp_all

lemma render_moves:
  "concat (List.map (\<lambda>y. '', '' @ y) (List.map (\<lambda>(l, p). ''MOVE '' @ QuoteString l @ '' TO '' @ QuoteString p) mv)) = render (move_parts mv)"
  by (induction mv) (auto simp: move_parts_def)

lemma move_pieces:
  "tokenize '', MOVE '' = Some [Sym CHR '','', Word ''MOVE'']" "piece_ends '', MOVE ''"
  "tokenize '' TO '' = Some [Word ''TO'']" "piece_ends '' TO ''"
  by code_simp+

lemma well_spaced_moves: "well_spaced (move_parts mv) \<and> \<not> opens_with (CHR 0x27) (move_parts mv)"
proof (induction mv)
  case (Cons m mv)
  obtain l p where m: "m = (l, p)" by (cases m)
  have "move_parts (m # mv) = [Txt '', MOVE '', Str l, Txt '' TO '', Str p] @ move_parts mv" by (simp add: move_parts_def m)
  with Cons show ?case by (simp add: move_pieces del: append.simps(2)) (simp add: move_pieces)
qed (simp add: move_parts_def)

lemma tokens_moves:
  "concat (List.map part_tokens (move_parts mv)) =
     concat (List.map (\<lambda>(l, p). [Sym CHR '',''] @ words [''MOVE''] @ [Lit l] @ words [''TO''] @ [Lit p]) mv)"
  by (induction mv) (auto simp: move_parts_def move_pieces)

lemma restore_pieces:
  "tokenize ''RESTORE DATABASE '' = Some (words [''RESTORE'', ''DATABASE''])" "piece_ends ''RESTORE DATABASE ''"
  "tokenize '' FROM DISK = '' = Some (words [''FROM'', ''DISK''] @ [Sym CHR ''=''])" "piece_ends '' FROM DISK = ''"
  "tokenize '' WITH '' = Some [Word ''WITH'']" "piece_ends '' WITH ''" "plain_word ''REPLACE''"
  by code_simp+

lemma breaks_moves: "breaks (move_parts mv)"
proof (cases mv)
  case (Cons m mv')
  then show ?thesis by (cases m) (simp add: move_parts_def word_ends_def, code_simp)
qed (simp add: move_parts_def)

lemma restore_move_text:
  "tokenize (restore_move_sql d f mv) = Some (words [''RESTORE'', ''DATABASE''] @ [Ident d] @ words [''FROM'', ''DISK''] @
     [Sym CHR ''='', Lit f] @ words [''WITH'', ''REPLACE''] @
     concat (List.map (\<lambda>(l, p). [Sym CHR '',''] @ words [''MOVE''] @ [Lit l] @ words [''TO''] @ [Lit p]) mv))"
  (is "_ = Some ?ts")
proof (rule reads_back)
  let ?ps = "[Txt ''RESTORE DATABASE '', Nam d, Txt '' FROM DISK = '', Str f, Txt '' WITH '', Wrd ''REPLACE''] @ move_parts mv"
  show "restore_move_sql d f mv = render ?ps"
    unfolding restore_move_sql_def Join_Cons render_moves render_append by simp
  show "well_spaced ?ps"
    using well_spaced_moves [of mv] breaks_moves [of mv] by (simp add: restore_pieces)
  show "concat (List.map part_tokens ?ps) = ?ts"
    unfolding map_append concat_append tokens_moves by (simp add: restore_pieces)
qed

lemma restore_text [read_back]:
  "tokenize (''RESTORE DATABASE '' @ QuoteName d @ '' FROM DISK = '' @ QuoteString f @ '' WITH REPLACE'') =
     Some (words [''RESTORE'', ''DATABASE''] @ [Ident d] @ words [''FROM'', ''DISK''] @ [Sym CHR ''='', Lit f] @ words [''WITH'', ''REPLACE''])"
  by (rule reads_back [where ps = "[Txt ''RESTORE DATABASE '', Nam d, Txt '' FROM DISK = '', Str f, Txt '' WITH REPLACE'']"], simp, code_simp, code_simp)

lemma restore_norecovery_text [read_back]:
  "tokenize (''RESTORE DATABASE '' @ QuoteName d @ '' FROM DISK = '' @ QuoteString f @ '' WITH REPLACE, NORECOVERY'') =
     Some (words [''RESTORE'', ''DATABASE''] @ [Ident d] @ words [''FROM'', ''DISK''] @ [Sym CHR ''='', Lit f] @ words [''WITH'', ''REPLACE'']
       @ [Sym CHR '',''] @ words [''NORECOVERY''])"
  by (rule reads_back [where ps = "[Txt ''RESTORE DATABASE '', Nam d, Txt '' FROM DISK = '', Str f, Txt '' WITH REPLACE, NORECOVERY'']"], simp, code_simp, code_simp)

lemma restore_log_text [read_back]:
  "tokenize (''RESTORE LOG '' @ QuoteName d @ '' FROM DISK = '' @ QuoteString f @ '' WITH RECOVERY, STOPAT = '' @ QuoteString t) =
     Some (words [''RESTORE'', ''LOG''] @ [Ident d] @ words [''FROM'', ''DISK''] @ [Sym CHR ''='', Lit f] @ words [''WITH'', ''RECOVERY'']
       @ [Sym CHR '',''] @ words [''STOPAT''] @ [Sym CHR ''='', Lit t])"
  by (rule reads_back [where ps = "[Txt ''RESTORE LOG '', Nam d, Txt '' FROM DISK = '', Str f, Txt '' WITH RECOVERY, STOPAT = '', Str t]"],
      simp, code_simp, code_simp)

lemma restore_sqls_tokens: "List.map tokenize (restore_sqls mv sp) = List.map Some (restore_tokens mv sp)"
  by (auto simp: restore_sqls_def restore_tokens_def Let_def restore_move_text read_back split: option.split simp del: append.simps)

lemma mssql_backup_simps:
  "BackupDatabase (backups (mssql_client D)) = MSSQL_BackupDatabase D" "RestoreDatabase (backups (mssql_client D)) = MSSQL_RestoreDatabase D"
  "RestoreDatabasePIT (backups (mssql_client D)) = MSSQL_RestoreDatabasePIT D"
  "RestoreDatabaseWithMove (backups (mssql_client D)) = MSSQL_RestoreDatabaseWithMove D"
  "CloseClient (mssql_client D) = MSSQL_Close D"
  by (simp_all add: mssql_client_def)

interpretation recorded_backups: backup_server "mssql_client recorder" "\<lambda>_. True" id "\<lambda>d f t z ss. ss @ [backup_sql d f t z]"
  by (unfold_locales)
     (auto simp: mssql_backup_simps MSSQL_Close_def MSSQL_BackupDatabase_def writes_def exec_or_def or_fail_def attempt_def recorder_def)

interpretation recorded_restores: restore_server "mssql_client recorder" "\<lambda>_. True" id "\<lambda>mv sp ss. ss @ restore_sqls mv sp"
  by (unfold_locales)
     (auto simp: mssql_backup_simps MSSQL_Close_def MSSQL_RestoreDatabase_def MSSQL_RestoreDatabasePIT_def
        MSSQL_RestoreDatabaseWithMove_def run_restore_def restore_sqls_def Let_def
        writes_def exec_or_def or_fail_def attempt_def recorder_def split: option.split)

interpretation mock_backups: backup_server mock_client healthy content "\<lambda>d f t z v. v"
  by (unfold_locales) (auto simp: mock_client_def Mock_BackupDatabase_def Mock_Close_def writes_def)

interpretation mock_restores: restore_server mock_client healthy content "\<lambda>mv sp v. v"
  by (unfold_locales)
     (auto simp: mock_client_def Mock_RestoreDatabase_def Mock_RestoreDatabasePIT_def Mock_RestoreDatabaseWithMove_def
        run_restore_def Mock_Close_def writes_def split: option.split)

section \<open>Backups against a server\<close>

text \<open>
  C21. A \<open>Backup\<close> that is not finished is carried out by one reconciliation: exactly one \<open>BACKUP\<close>
  statement is sent, for the specified database, type, destination and compression, and the object
  ends \<open>Completed\<close> and ready, with its start and completion times. Every further reconciliation
  leaves the server and the object as they are.
\<close>

theorem Backup_runs_once:
  assumes "api_laws R objs secs srvs" and "clock_laws objs secs srvs clock"
    and "objs (kube w) (ns, n) = Some b" and "request_of b = (ns, n)" and "\<not> cr_Deleting b" and "\<not> finished b"
    and "connects R (secs (kube w)) ns (b_Server (Spec b)) (mssql_client recorder)"
  shows "succeeds (Backup_Reconcile R clock ns n) w (\<lambda>r w'. r = Result 0 \<and>
    sql w' = sql w @ [backup_sql (b_DatabaseName (Spec b)) (b_Destination (Spec b)) (b_Type (Spec b)) (b_Compression (Spec b) = Some True)] \<and>
    job_over objs b PhaseCompleted ConditionTrue ''BackupCompleted'' (kube w) (kube w') \<and>
    succeeds (Backup_Reconcile R clock ns n) w' (\<lambda>r w''. r = Result 0 \<and> w'' = w'))"
proof (rule wp_mono [OF recorded_backups.wp_backup [OF assms TrueI]], goal_cases)
  case (1 r w')
  with job_over_silent [OF assms(1) _ assms(4)] show ?case unfolding Backup_Reconcile_def by auto
qed simp

text \<open>
  C22. A \<open>Backup\<close> that the server refuses ends \<open>Failed\<close>, with the reason on the object and in a
  warning, and without an error of the reconciliation, so it is not tried again.
\<close>

theorem Backup_failure_is_final:
  assumes "api_laws R objs secs srvs" and "clock_laws objs secs srvs clock"
    and "objs (kube w) (ns, n) = Some b" and "request_of b = (ns, n)" and "\<not> cr_Deleting b" and "\<not> finished b"
    and "connects R (secs (kube w)) ns (b_Server (Spec b)) cl"
    and "BackupDatabase (backups cl) (b_DatabaseName (Spec b)) (b_Destination (Spec b)) (b_Type (Spec b))
           (b_Compression (Spec b) = Some True) (sql w) = (Inl e, c)"
  shows "succeeds (Backup_Reconcile R clock ns n) w (\<lambda>r w'. r = Result 0 \<and> sql w' = CloseClient cl c \<and>
    job_over objs b PhaseFailed ConditionFalse ''BackupFailed'' (kube w) (kube w') \<and>
    events w' = events w @ [\<lparr>ev_Type = ''Warning'', ev_Reason = ''BackupFailed'', ev_Message = Error e\<rparr>] \<and>
    succeeds (Backup_Reconcile R clock ns n) w' (\<lambda>r w''. r = Result 0 \<and> w'' = w'))" (is "wp _ _ ?Q _")
proof -
  have comp: "(case b_Compression (Spec b) of None \<Rightarrow> False | Some z \<Rightarrow> z) = (b_Compression (Spec b) = Some True)"
    by (auto split: option.split)
  show ?thesis
    unfolding Backup_Reconcile_def wp_open_job [where server = b_Server, OF assms(1,3,4,6,7)] wp_attempt
    apply (rule wp_start_job [OF assms(1-5)])
    apply (unfold Backup_execute_def Let_def setBackupStatus_def)
    apply (rule wp_job_failed [OF assms(1,3,4,5)])
         apply (assumption | simp add: startedD comp assms(8))+
    apply (auto simp: startedD intro!: job_over_silent [OF assms(1) _ assms(4)])
    done
qed

text \<open>
  C23. A \<open>Restore\<close> that is not finished is carried out by one reconciliation, and never again. What it
  sends reads back, token by token, as: with both a point in time and a log backup, the full backup
  restored without recovery and then the log up to that time; otherwise one restore, with the file
  moves if there are any, and a point in time alone is disregarded.
\<close>

theorem Restore_runs_once:
  assumes "api_laws R objs secs srvs" and "clock_laws objs secs srvs clock"
    and "objs (kube w) (ns, n) = Some b" and "request_of b = (ns, n)" and "\<not> cr_Deleting b" and "\<not> finished b"
    and "connects R (secs (kube w)) ns (r_Server (Spec b)) (mssql_client recorder)"
  shows "succeeds (Restore_Reconcile R clock ns n) w (\<lambda>r w'. r = Result 0 \<and>
    List.map tokenize (sql w') = List.map tokenize (sql w) @
      List.map Some (restore_tokens (moves (range_order R) (r_WithMove (Spec b))) (Spec b)) \<and>
    job_over objs b PhaseCompleted ConditionTrue ''RestoreCompleted'' (kube w) (kube w') \<and>
    succeeds (Restore_Reconcile R clock ns n) w' (\<lambda>r w''. r = Result 0 \<and> w'' = w'))"
proof (rule wp_mono [OF recorded_restores.wp_restore [OF assms TrueI]], goal_cases)
  case (1 r w')
  with job_over_silent [OF assms(1) _ assms(4)] show ?case
    unfolding Restore_Reconcile_def by (auto simp: restore_sqls_tokens)
qed simp

section \<open>Examples\<close>

definition ex_clock :: "'k clock" where
  "ex_clock k = (7, k)"

lemma ex_clock_laws: "clock_laws objs secs srvs ex_clock"
  by (simp add: clock_laws_def ex_clock_def)

definition ex_job :: OneShotStatus where
  "ex_job = \<lparr>Conditions = [], ObservedGeneration = 0, Phase = [], StartTime = None, CompletionTime = None\<rparr>"

lemma ex_job_todo [simp]: "\<not> finished (ex_cr sp ex_job)"
  by (simp add: finished_def ex_job_def PhaseCompleted_def PhaseFailed_def ex_cr_def)

definition ex_backup :: Backup where
  "ex_backup = ex_cr \<lparr>b_Server = ex_server, b_DatabaseName = ''db'', b_Type = ''Log'', b_Destination = ''f'', b_Compression = Some True\<rparr> ex_job"

definition ex_restore :: Restore where
  "ex_restore = ex_cr \<lparr>r_Server = ex_server, r_DatabaseName = ''db'', r_Source = ''f'', r_StopAt = Some ''12:00'', r_LogSource = Some ''l'',
     r_WithMove = []\<rparr> ex_job"

theorem Backup_runs_once_witness:
  "succeeds (Backup_Reconcile (ex_reconciler (mssql_client recorder)) ex_clock ''ns'' ''obj'') (ex_world ex_backup [])
     (\<lambda>r w'. sql w' = [''BACKUP LOG '' @ QuoteName ''db'' @ '' TO DISK = '' @ QuoteString ''f'' @ '' WITH COMPRESSION''])"
  by (rule wp_mono [OF Backup_runs_once [OF ex_api_laws ex_clock_laws, where b = ex_backup]])
     (simp_all add: ex_backup_def ex_connects backup_sql_def)

theorem Backup_failure_is_final_witness:
  "succeeds (Backup_Reconcile (ex_reconciler mock_client) ex_clock ''ns'' ''obj'')
     (ex_world ex_backup (NewMockClient\<lparr>MethodErrors := [''BackupDatabase'' \<mapsto> Errorf ''disk full'']\<rparr>))
     (\<lambda>r w'. map_option (\<lambda>b. Phase (Status b)) (st_objs (kube w') (''ns'', ''obj'')) = Some ''Failed'')"
proof -
  let ?s = "NewMockClient\<lparr>MethodErrors := [''BackupDatabase'' \<mapsto> Errorf ''disk full'']\<rparr>"
  have "BackupDatabase (backups mock_client) ''db'' ''f'' ''Log'' True ?s = (Inl (Errorf ''disk full''), track ''BackupDatabase'' ?s)"
    by (simp add: mock_client_def Mock_BackupDatabase_def guarded_method_error NewMockClient_def)
  then show ?thesis
    by (intro wp_mono [OF Backup_failure_is_final [OF ex_api_laws ex_clock_laws, where b = ex_backup and cl = mock_client]])
       (auto simp: ex_backup_def ex_connects job_over_def PhaseFailed_def)
qed

theorem Restore_runs_once_witness:
  "succeeds (Restore_Reconcile (ex_reconciler (mssql_client recorder)) ex_clock ''ns'' ''obj'') (ex_world ex_restore [])
     (\<lambda>r w'. length (sql w') = 2)"
  by (rule wp_mono [OF Restore_runs_once [OF ex_api_laws ex_clock_laws, where b = ex_restore]])
     (auto simp: ex_restore_def ex_connects restore_tokens_def Let_def dest: arg_cong [where f = length])

end
