(* ===== verification/AGFailover_Controller.thy ===== *)
theory AGFailover_Controller
  imports One_Shot
begin

text \<open>
  \<open>internal/controller/agfailover_controller.go\<close>: a planned or forced failover of an availability
  group to a named replica, carried out once.
\<close>

section \<open>The reconciler\<close>

definition setFailoverStatus ::
  "(AGFailover, 'k, 'c) Reconciler \<Rightarrow> AGFailover \<Rightarrow> string \<Rightarrow> ConditionStatus \<Rightarrow> string \<Rightarrow> string \<Rightarrow> (Result, ('k, 'c) world) op" where
  "setFailoverStatus = set_phase"

definition with_primaries :: "string \<Rightarrow> string \<Rightarrow> AGFailover \<Rightarrow> AGFailover" where
  "with_primaries previousPrimary newPrimary fo =
     fo\<lparr>Status := (Status fo)\<lparr>PreviousPrimary := previousPrimary, NewPrimary := newPrimary\<rparr>\<rparr>"

definition setFailoverCompleted ::
  "(AGFailover, 'k, 'c) Reconciler \<Rightarrow> 'k clock \<Rightarrow> AGFailover \<Rightarrow> string \<Rightarrow> string \<Rightarrow> string \<Rightarrow> (Result, ('k, 'c) world) op" where
  "setFailoverCompleted R clock fo previousPrimary newPrimary msg =
     complete_job R clock (cr_Namespace fo) (cr_Name fo) ''FailoverCompleted'' msg (with_primaries previousPrimary newPrimary)"

text \<open>The first other replica that is a secondary after the failover.\<close>

definition previous_primary :: "string \<Rightarrow> AGStatus \<Rightarrow> string" where
  "previous_primary target st =
     (case find (\<lambda>rs. rs_ServerName rs \<noteq> target \<and> rs_Role rs = ''SECONDARY'') (ags_Replicas st) of
        None \<Rightarrow> ''unknown'' | Some rs \<Rightarrow> rs_ServerName rs)"

definition AGFailover_execute ::
  "(AGFailover, 'k, 'c) Reconciler \<Rightarrow> 'k clock \<Rightarrow> 'c SQLClient \<Rightarrow> AGFailover \<Rightarrow> (Result, ('k, 'c) world) op" where
  "AGFailover_execute R clock cl fo =
     (let agName = fo_AGName (Spec fo); target = fo_TargetReplica (Spec fo);
          force = (case fo_Force (Spec fo) of None \<Rightarrow> False | Some b \<Rightarrow> b);
          eventMsg = ''AG '' @ agName @ '' failed over to '' @ target @ (if force then '' (forced, potential data loss)'' else [])
      in attempt (on_sql (if force then ForceFailoverAG (ags cl) agName else FailoverAG (ags cl) agName)) (\<lambda>e.
           effect (Warning ''FailoverFailed'' (Error e))
           (setFailoverStatus R fo PhaseFailed ConditionFalse ''FailoverFailed'' (''Failover failed: '' @ Error e))) (\<lambda>_.
         effect (Normal ''FailoverCompleted'' eventMsg)
         (attempt (on_sql (GetAGStatus (ags cl) agName))
            (\<lambda>_. setFailoverCompleted R clock fo ''unknown'' target eventMsg)
            (\<lambda>agStatus. setFailoverCompleted R clock fo (previous_primary target agStatus) target eventMsg))))"

definition AGFailover_Reconcile ::
  "(AGFailover, 'k, 'c) Reconciler \<Rightarrow> 'k clock \<Rightarrow> string \<Rightarrow> string \<Rightarrow> (Result, ('k, 'c) world) op" where
  "AGFailover_Reconcile R clock ns name =
     open_job R ns name fo_Server ''target replica'' (\<lambda>cl fo.
     let agName = fo_AGName (Spec fo); target = fo_TargetReplica (Spec fo) in
     or_fail ''failed to get replica role'' (on_sql (GetAGReplicaRole (ags cl) agName target)) (\<lambda>role.
     if role = ''PRIMARY'' then
       setFailoverCompleted R clock fo target target ''Target is already PRIMARY, no failover needed''
     else if role \<noteq> ''SECONDARY'' then
       setFailoverStatus R fo PhaseFailed ConditionFalse ''TargetNotSecondary''
         (''Target '' @ target @ '' has role '' @ role @ '', expected SECONDARY'')
     else attempt (start_job R clock ns name fo ''FailoverRunning''
         (''Failover of AG '' @ agName @ '' to '' @ target @ '' started'')) fail (\<lambda>fo.
       AGFailover_execute R clock cl fo)))"

section \<open>Servers that fail over\<close>

text \<open>
  What a group looks like from the target: each replica with its role, in the order in which they
  are reported; a failover to the target makes it the primary and the present primary a secondary.
\<close>

definition promote :: "string \<Rightarrow> (string \<times> string) list \<Rightarrow> (string \<times> string) list" where
  "promote target = List.map (\<lambda>(s, r). (s, if s = target then ''PRIMARY'' else if r = ''PRIMARY'' then ''SECONDARY'' else r))"

definition reported_roles :: "AGStatus \<Rightarrow> (string \<times> string) list" where
  "reported_roles st = List.map (\<lambda>r. (rs_ServerName r, rs_Role r)) (ags_Replicas st)"

locale failover_server = sql_session cl ok roles for cl :: "'c SQLClient" and ok and roles :: "'c \<Rightarrow> (string \<times> string) list" +
  fixes agn :: string and can_fail_over :: "string \<Rightarrow> (string \<times> string) list \<Rightarrow> bool"
  assumes role_law: "ok c \<Longrightarrow> map_of (roles c) s = Some r \<Longrightarrow> reads ok roles (GetAGReplicaRole (ags cl) agn s) c r"
    and failover_law: "ok c \<Longrightarrow> map_of (roles c) s = Some ''SECONDARY'' \<Longrightarrow> can_fail_over s (roles c) \<Longrightarrow>
      writes ok roles (FailoverAG (ags cl) agn) c (promote s (roles c))"
    and force_law: "ok c \<Longrightarrow> map_of (roles c) s = Some ''SECONDARY'' \<Longrightarrow> can_fail_over s (roles c) \<Longrightarrow>
      writes ok roles (ForceFailoverAG (ags cl) agn) c (promote s (roles c))"
    and status_law: "ok c \<Longrightarrow> \<exists>st. reads ok roles (GetAGStatus (ags cl) agn) c st \<and> reported_roles st = roles c"

text \<open>The previous primary that is recorded, read off the roles before the failover.\<close>

definition recorded_primary :: "string \<Rightarrow> (string \<times> string) list \<Rightarrow> string" where
  "recorded_primary target rs =
     (case find (\<lambda>(s, r). s \<noteq> target \<and> (r = ''PRIMARY'' \<or> r = ''SECONDARY'')) rs of None \<Rightarrow> ''unknown'' | Some (s, r) \<Rightarrow> s)"

lemma find_map: "find P (List.map f xs) = map_option f (find (P \<circ> f) xs)"
  by (induction xs) auto

lemma previous_primary_promoted:
  assumes "reported_roles st = promote target rs"
  shows "previous_primary target st = recorded_primary target rs"
proof -
  have "previous_primary target st =
      (case find (\<lambda>(s, r). s \<noteq> target \<and> r = ''SECONDARY'') (reported_roles st) of None \<Rightarrow> ''unknown'' | Some (s, r) \<Rightarrow> s)"
    by (auto simp: previous_primary_def reported_roles_def find_map comp_def split: option.split)
  also have "\<dots> = recorded_primary target rs"
    unfolding assms promote_def recorded_primary_def find_map
    by (induction rs) (auto simp: comp_def split: if_splits)
  finally show ?thesis .
qed

context failover_server
begin

lemma wp_failover:
  assumes laws: "api_laws R objs secs srvs" and clock: "clock_laws objs secs srvs clock"
    and base: "objs (kube w) (ns, n) = Some fo" "request_of fo = (ns, n)" and live: "\<not> cr_Deleting fo" and todo: "\<not> finished fo"
    and server: "connects R (secs (kube w)) ns (fo_Server (Spec fo)) cl" and c: "ok (sql w)"
    and agn: "fo_AGName (Spec fo) = agn" and target: "map_of (roles (sql w)) (fo_TargetReplica (Spec fo)) = Some ''SECONDARY''"
    and can: "can_fail_over (fo_TargetReplica (Spec fo)) (roles (sql w))"
  shows "succeeds (AGFailover_Reconcile R clock ns n) w (\<lambda>r w'. r = Result 0 \<and> ok (sql w') \<and>
    roles (sql w') = promote (fo_TargetReplica (Spec fo)) (roles (sql w)) \<and>
    job_over objs fo PhaseCompleted ConditionTrue ''FailoverCompleted'' (kube w) (kube w') \<and>
    (\<exists>fo'. objs (kube w') (ns, n) = Some fo' \<and> NewPrimary (Status fo') = fo_TargetReplica (Spec fo) \<and>
       PreviousPrimary (Status fo') = recorded_primary (fo_TargetReplica (Spec fo)) (roles (sql w))))"
proof -
  let ?t = "fo_TargetReplica (Spec fo)"
  have move: "writes ok roles (if force then ForceFailoverAG (ags cl) agn else FailoverAG (ags cl) agn) c' (promote ?t (roles c'))"
    if "ok c'" "roles c' = roles (sql w)" for force c'
    using failover_law [OF that(1)] force_law [OF that(1)] target can that(2) by simp
  show ?thesis
    unfolding AGFailover_Reconcile_def wp_open_job [where server = fo_Server, OF laws base todo server] Let_def wp_or_fail wp_on_sql agn
    apply (rule wp_reads [OF role_law [OF c target]])
    apply (simp add: wp_attempt)
    apply (rule wp_start_job [OF laws clock])
       apply (simp_all add: base live)
    subgoal premises p for c' fo' k'
    proof -
      note same = startedD [OF p(3)]
      have names: "Spec fo' = Spec fo" "cr_Namespace fo' = ns" "cr_Name fo' = n"
        using same base(2) by (auto simp: request_of_def)
      show ?thesis
        unfolding AGFailover_execute_def Let_def wp_attempt wp_on_sql wp_effect names agn
        apply (simp split del: if_split)
        apply (rule wp_writes [OF move [OF p(1,2)]])
        subgoal premises q for c1
        proof -
          from status_law [OF q(1)] obtain st where st: "reads ok roles (GetAGStatus (ags cl) agn) c1 st" "reported_roles st = roles c1"
            by blast
          have prev: "previous_primary ?t st = recorded_primary ?t (roles (sql w))"
            by (rule previous_primary_promoted) (use st(2) q(2) p(2) in simp)
          have over: "job_over objs fo PhaseCompleted ConditionTrue ''FailoverCompleted'' (kube w) k''"
            if "objs k'' = (objs k')((ns, n) \<mapsto> in_phase (kclient R) PhaseCompleted ConditionTrue ''FailoverCompleted'' msg
              (with_primaries a b (completed_at t fo')))" for k'' t msg a b
            by (rule job_overI [OF p(3) api_lawsD(7) [OF laws], where job = "with_primaries a b (completed_at t fo')"
                and jst = "Status (with_primaries a b (completed_at t fo'))"])
               (use that p(4) base in \<open>auto simp: with_primaries_def completed_at_def\<close>)
          show ?thesis
            apply (rule wp_reads [OF st(1)])
            apply (unfold setFailoverCompleted_def prev names)
            apply (rule wp_complete_job [OF laws clock, where cr = fo'])
                apply (simp_all add: p q base live same over close_law split del: if_split)
             apply (auto simp: with_primaries_def completed_at_def) [1]
            apply (simp add: with_primaries_def in_phase_def observed_def with_condition_def)
            done
        qed
        done
    qed
    done
qed

text \<open>A target that is primary already, or neither primary nor secondary, is left alone.\<close>

lemma wp_no_failover:
  assumes laws: "api_laws R objs secs srvs" and clock: "clock_laws objs secs srvs clock"
    and base: "objs (kube w) (ns, n) = Some fo" "request_of fo = (ns, n)" and live: "\<not> cr_Deleting fo" and todo: "\<not> finished fo"
    and server: "connects R (secs (kube w)) ns (fo_Server (Spec fo)) cl" and c: "ok (sql w)"
    and agn: "fo_AGName (Spec fo) = agn" and target: "map_of (roles (sql w)) (fo_TargetReplica (Spec fo)) = Some r" "r \<noteq> ''SECONDARY''"
  shows "succeeds (AGFailover_Reconcile R clock ns n) w (\<lambda>res w'. res = Result 0 \<and> ok (sql w') \<and> roles (sql w') = roles (sql w) \<and>
    events w' = events w \<and> (\<exists>fo'. objs (kube w') = (objs (kube w))((ns, n) \<mapsto> fo') \<and>
      (if r = ''PRIMARY'' then Phase (Status fo') = PhaseCompleted \<and> ready_status fo' = Some (ConditionTrue, ''FailoverCompleted'')
       else Phase (Status fo') = PhaseFailed \<and> ready_status fo' = Some (ConditionFalse, ''TargetNotSecondary''))))"
proof -
  have names: "cr_Namespace fo = ns" "cr_Name fo = n" using base(2) by (auto simp: request_of_def)
  note ready = in_phase_ready [OF api_lawsD(7) [OF laws]]
  have fill: "\<exists>st. with_primaries a b cr = cr\<lparr>Status := st\<rparr>" for a b cr by (auto simp: with_primaries_def)
  show ?thesis
    unfolding AGFailover_Reconcile_def wp_open_job [where server = fo_Server, OF laws base todo server] Let_def wp_or_fail wp_on_sql agn
    apply (rule wp_reads [OF role_law [OF c target(1)]])
    apply (cases "r = ''PRIMARY''")
     apply (simp add: setFailoverCompleted_def names)
     apply (rule wp_complete_job [OF laws clock, where cr = fo])
         apply (simp_all add: base live close_law fill target(2) setFailoverStatus_def)
     apply (rule exI, rule conjI, rule refl, simp add: ready)
    apply (rule wp_set_phase [OF laws])
      apply (simp_all add: base live close_law)
    apply (rule exI, rule conjI, rule refl, simp add: ready)
    done
qed

end

section \<open>The in-memory server fails over\<close>

text \<open>
  The in-memory server keeps the group of all replicas in one place; it fails over to the first
  secondary, so only that one can be asked for.
\<close>

definition group_roles :: "string \<Rightarrow> MockClient \<Rightarrow> (string \<times> string) list" where
  "group_roles agn s = (case mags s agn of None \<Rightarrow> []
     | Some ag \<Rightarrow> List.map (\<lambda>r. (rs_ServerName r, rs_Role r)) (ma_Replicas ag))"

definition sound_roles :: "(string \<times> string) list \<Rightarrow> bool" where
  "sound_roles rs \<longleftrightarrow> distinct (List.map fst rs) \<and> length (filter (\<lambda>(s, r). r = ''PRIMARY'') rs) \<le> 1"

definition group_ready :: "string \<Rightarrow> MockClient \<Rightarrow> bool" where
  "group_ready agn s \<longleftrightarrow> healthy s \<and> mags s agn \<noteq> None \<and> sound_roles (group_roles agn s)"

definition first_in_line :: "string \<Rightarrow> (string \<times> string) list \<Rightarrow> bool" where
  "first_in_line target rs \<longleftrightarrow> find (\<lambda>(s, r). r = ''SECONDARY'') rs = Some (target, ''SECONDARY'')"

lemma promote_names [simp]: "List.map fst (promote t rs) = List.map fst rs"
  by (induction rs) (auto simp: promote_def)

lemma promote_primaries:
  assumes "distinct (List.map fst rs)"
  shows "length (filter (\<lambda>(s, r). r = ''PRIMARY'') (promote t rs)) \<le> 1"
proof -
  have "length (filter (\<lambda>x. fst x = t) rs) \<le> (if t \<in> set (List.map fst rs) then 1 else 0)"
    using assms by (induction rs) (auto split: if_splits simp del: set_map)
  moreover have "length (filter (\<lambda>(s, r). r = ''PRIMARY'') (promote t rs)) = length (filter (\<lambda>x. fst x = t) rs)"
    by (induction rs) (auto simp: promote_def split: if_splits)
  ultimately show ?thesis by (auto split: if_splits)
qed

lemma sound_promote: "sound_roles rs \<Longrightarrow> sound_roles (promote t rs)"
  using promote_primaries [of rs t] by (auto simp: sound_roles_def)

lemma demote_first_all:
  "length (filter (\<lambda>r. rs_Role r = ''PRIMARY'') rs) \<le> 1 \<Longrightarrow>
   demote_first rs = List.map (\<lambda>r. if rs_Role r = ''PRIMARY'' then r\<lparr>rs_Role := ''SECONDARY''\<rparr> else r) rs"
proof (induction rs)
  case (Cons r rs)
  have "filter (\<lambda>r. rs_Role r = ''PRIMARY'') rs = [] \<Longrightarrow>
      List.map (\<lambda>r. if rs_Role r = ''PRIMARY'' then r\<lparr>rs_Role := ''SECONDARY''\<rparr> else r) rs = rs"
    by (induction rs) (auto split: if_splits)
  with Cons show ?case by (auto split: if_splits)
qed simp

lemma first_secondary_find:
  "find (\<lambda>r. rs_Role r = ''SECONDARY'') rs = Some x \<Longrightarrow> \<exists>i. first_secondary rs = Some i \<and> i < length rs \<and> rs ! i = x"
  by (induction rs) (auto split: if_splits)

lemma update_distinct:
  "distinct (List.map name rs) \<Longrightarrow> i < length rs \<Longrightarrow>
   (List.map f rs)[i := g] = List.map (\<lambda>r. if name r = name (rs ! i) then g else f r) rs"
  by (rule nth_equalityI) (auto simp: nth_list_update distinct_conv_nth)

lemma failover_promotes:
  assumes "sound_roles (List.map (\<lambda>r. (rs_ServerName r, rs_Role r)) (ma_Replicas ag))"
    and "first_in_line t (List.map (\<lambda>r. (rs_ServerName r, rs_Role r)) (ma_Replicas ag))"
  shows "List.map (\<lambda>r. (rs_ServerName r, rs_Role r)) (ma_Replicas (failover_ag ag)) =
    promote t (List.map (\<lambda>r. (rs_ServerName r, rs_Role r)) (ma_Replicas ag))"
proof -
  let ?rs = "ma_Replicas ag"
  have d: "distinct (List.map rs_ServerName ?rs)" and one: "length (filter (\<lambda>r. rs_Role r = ''PRIMARY'') ?rs) \<le> 1"
    using assms(1) by (simp_all add: sound_roles_def comp_def filter_map)
  from assms(2) obtain x where x: "find (\<lambda>r. rs_Role r = ''SECONDARY'') ?rs = Some x" "rs_ServerName x = t"
    by (auto simp: first_in_line_def find_map comp_def)
  then obtain i where i: "first_secondary ?rs = Some i" "i < length ?rs" "?rs ! i = x" using first_secondary_find by blast
  have "rs_Role x = ''SECONDARY''" using x(1) by (auto simp: find_Some_iff)
  then show ?thesis
    using i x(2) by (auto simp: failover_ag_def demote_first_all [OF one] promote_def Let_def update_distinct [OF d i(2)])
qed

lemma mock_group_simps:
  "GetAGReplicaRole (ags mock_client) = Mock_GetAGReplicaRole" "FailoverAG (ags mock_client) = Mock_FailoverAG"
  "ForceFailoverAG (ags mock_client) = Mock_ForceFailoverAG" "GetAGStatus (ags mock_client) = Mock_GetAGStatus"
  "CloseClient mock_client = Mock_Close"
  by (simp_all add: mock_client_def)

lemma group_roles_track [simp]: "group_roles agn (track m s) = group_roles agn s" "group_ready agn (track m s) = group_ready agn s"
  by (simp_all add: group_roles_def group_ready_def)

lemma group_roles_failover:
  assumes "group_ready agn s" and "first_in_line t (group_roles agn s)"
  shows "group_ready agn (update_ag agn failover_ag s)" "group_roles agn (update_ag agn failover_ag s) = promote t (group_roles agn s)"
proof -
  from assms(1) obtain ag where ag: "mags s agn = Some ag" by (auto simp: group_ready_def)
  show roles: "group_roles agn (update_ag agn failover_ag s) = promote t (group_roles agn s)"
    using failover_promotes [of ag t] assms by (simp add: group_ready_def group_roles_def ag update_ag_def)
  show "group_ready agn (update_ag agn failover_ag s)"
    using assms(1) sound_promote unfolding group_ready_def roles by (auto simp: update_ag_def ag)
qed

lemma find_role: "map_of (List.map (\<lambda>r. (rs_ServerName r, rs_Role r)) rs) s = map_option rs_Role (find (\<lambda>r. rs_ServerName r = s) rs)"
  by (induction rs) auto

interpretation mock_failovers: failover_server mock_client "group_ready agn" "group_roles agn" agn first_in_line for agn
proof (unfold_locales, unfold mock_group_simps)
  fix c assume c: "group_ready agn c"
  then show "group_ready agn (Mock_Close c) \<and> group_roles agn (Mock_Close c) = group_roles agn c"
    by (simp add: Mock_Close_def)
  from c obtain ag where ag: "mags c agn = Some ag" and h: "healthy c" by (auto simp: group_ready_def)
  show "\<exists>st. reads (group_ready agn) (group_roles agn) (Mock_GetAGStatus agn) c st \<and> reported_roles st = group_roles agn c"
    using c h ag by (auto simp: reads_def Mock_GetAGStatus_def reported_roles_def group_roles_def group_ready_def)
  fix s r assume "map_of (group_roles agn c) s = Some r"
  then show "reads (group_ready agn) (group_roles agn) (Mock_GetAGReplicaRole agn s) c r"
    using c h ag by (auto simp: reads_def Mock_GetAGReplicaRole_def group_roles_def group_ready_def find_role)
next
  fix c s assume c: "group_ready agn c" "map_of (group_roles agn c) s = Some ''SECONDARY''" "first_in_line s (group_roles agn c)"
  then have h: "healthy c" by (simp add: group_ready_def)
  note moved = group_roles_failover [of agn "track m c" s for m]
  show "writes (group_ready agn) (group_roles agn) (Mock_FailoverAG agn) c (promote s (group_roles agn c))"
    "writes (group_ready agn) (group_roles agn) (Mock_ForceFailoverAG agn) c (promote s (group_roles agn c))"
    using c h moved by (auto simp: writes_def Mock_FailoverAG_def Mock_ForceFailoverAG_def)
qed

section \<open>Failing over\<close>


text \<open>
  A replica that is primary already, or that is neither primary nor secondary, is never told to
  take over: no role changes, nothing is recorded, and the object ends \<open>Completed\<close> in the first case
  and \<open>Failed\<close> in the second.
\<close>

theorem AGFailover_only_to_secondaries:
  assumes "api_laws R objs secs srvs" and "clock_laws objs secs srvs clock"
    and "objs (kube w) (ns, n) = Some fo" and "request_of fo = (ns, n)" and "\<not> cr_Deleting fo" and "\<not> finished fo"
    and "connects R (secs (kube w)) ns (fo_Server (Spec fo)) mock_client" and "group_ready (fo_AGName (Spec fo)) (sql w)"
    and "map_of (group_roles (fo_AGName (Spec fo)) (sql w)) (fo_TargetReplica (Spec fo)) = Some r" and "r \<noteq> ''SECONDARY''"
  shows "succeeds (AGFailover_Reconcile R clock ns n) w (\<lambda>res w'. res = Result 0 \<and>
    group_roles (fo_AGName (Spec fo)) (sql w') = group_roles (fo_AGName (Spec fo)) (sql w) \<and> events w' = events w \<and>
    (\<exists>fo'. objs (kube w') = (objs (kube w))((ns, n) \<mapsto> fo') \<and>
      (if r = ''PRIMARY'' then Phase (Status fo') = PhaseCompleted \<and> ready_status fo' = Some (ConditionTrue, ''FailoverCompleted'')
       else Phase (Status fo') = PhaseFailed \<and> ready_status fo' = Some (ConditionFalse, ''TargetNotSecondary''))))"
  by (rule wp_mono [OF mock_failovers.wp_no_failover [OF assms(1-8) refl assms(9,10)]]) simp_all

section \<open>Examples\<close>

definition ex_failover :: AGFailover where
  "ex_failover = ex_cr \<lparr>fo_AGName = ''ag'', fo_TargetReplica = ''s1'', fo_Server = ex_server, fo_Force = Some True\<rparr>
     \<lparr>Conditions = [], ObservedGeneration = 0, Phase = [], StartTime = None, CompletionTime = None, PreviousPrimary = [], NewPrimary = []\<rparr>"

definition ex_failover_server :: "string \<Rightarrow> MockClient" where
  "ex_failover_server r = (let rep = (\<lambda>n r. \<lparr>rs_ServerName = n, rs_Role = r, rs_SynchronizationState = [], rs_Connected = True\<rparr>) in
     NewMockClient\<lparr>mags := [''ag'' \<mapsto> \<lparr>ma_Name = ''ag'', ma_PrimaryReplica = ''s3'',
       ma_Replicas = [rep ''s1'' r, rep ''s2'' ''SECONDARY'', rep ''s3'' ''PRIMARY''], ma_Databases = [], ma_HasListener = False\<rparr>]\<rparr>)"


theorem AGFailover_only_to_secondaries_witness:
  "succeeds (AGFailover_Reconcile (ex_reconciler mock_client) ex_clock ''ns'' ''obj'') (ex_world ex_failover (ex_failover_server ''RESOLVING''))
     (\<lambda>r w'. map_option (\<lambda>fo. Phase (Status fo)) (st_objs (kube w') (''ns'', ''obj'')) = Some ''Failed'')"
  by (rule wp_mono [OF AGFailover_only_to_secondaries [OF ex_api_laws ex_clock_laws, where fo = ex_failover and r = "''RESOLVING''"]])
     (auto simp: ex_failover_def ex_failover_server_def ex_connects group_ready_def group_roles_def sound_roles_def
       finished_def PhaseCompleted_def PhaseFailed_def Let_def healthy_def NewMockClient_def)

end
