(* ===== verification/Backup_Naming.thy ===== *)
theory Backup_Naming
  imports Prelude
begin

text \<open>
  How a scheduled backup gets its name and its destination (\<open>internal/controller/scheduledbackup_controller.go\<close>):
  \<open>now.Format("20060102-150405")\<close> of the standard library, and \<open>renderDestination\<close>, which runs a
  \<open>text/template\<close>. Of the template language this models literal text and the actions
  \<open>\{\{.Field\}\}\<close> the documentation of the API announces; every other template is left to a parameter.
\<close>

section \<open>Times as text\<close>

text \<open>Decimal numbers padded with zeros, as \<open>time\<close> prints its fields.\<close>

definition pad :: "nat \<Rightarrow> int \<Rightarrow> string" where
  "pad width n = (let s = digits_of (nat \<bar>n\<bar>) in
     (if n < 0 then ''-'' else []) @ replicate (width - length s) (CHR ''0'') @ s)"

text \<open>
  The proleptic Gregorian calendar: a day number (day 0 is 1 January of year 1) is split into
  cycles of 400, 100, 4 years and single years.
\<close>

definition year_yday :: "int \<Rightarrow> int \<times> int" where
  "year_yday d =
     (let n400 = d div 146097; d = d mod 146097;
          n100 = min 3 (d div 36524); d = d - 36524 * n100;
          n4 = d div 1461; d = d mod 1461;
          n1 = min 3 (d div 365); d = d - 365 * n1
      in (400 * n400 + 100 * n100 + 4 * n4 + n1 + 1, d))"

definition leap :: "int \<Rightarrow> bool" where
  "leap y \<longleftrightarrow> y mod 4 = 0 \<and> (y mod 100 \<noteq> 0 \<or> y mod 400 = 0)"

definition month_lengths :: "bool \<Rightarrow> int list" where
  "month_lengths l = [31, if l then 29 else 28, 31, 30, 31, 30, 31, 31, 30, 31, 30, 31]"

fun month_day :: "int list \<Rightarrow> int \<Rightarrow> int \<Rightarrow> int \<times> int" where
  "month_day [] m d = (m, d + 1)"
| "month_day (l # ls) m d = (if d < l then (m, d + 1) else month_day ls (m + 1) (d - l))"

text \<open>The text of a wall clock that shows \<open>w\<close> seconds since 1970.\<close>

definition wall_stamp :: "int \<Rightarrow> string" where
  "wall_stamp w =
     (let (y, yd) = year_yday (w div 86400 + 719162); (m, d) = month_day (month_lengths (leap y)) 1 yd; s = w mod 86400
      in pad 4 y @ pad 2 m @ pad 2 d @ ''-'' @ pad 2 (s div 3600) @ pad 2 (s div 60 mod 60) @ pad 2 (s mod 60))"

text \<open>\<open>zone\<close> gives the offset of the local time, in seconds, at a time in nanoseconds.\<close>

definition stamp :: "(int \<Rightarrow> int) \<Rightarrow> int \<Rightarrow> string" where
  "stamp zone t = wall_stamp (t div 1000000000 + zone t)"

section \<open>Templates\<close>

datatype template_part = Literal string | Field string

fun split_close :: "string \<Rightarrow> (string \<times> string) option" where
  "split_close [] = None"
| "split_close (c # cs) =
     (if take 2 (c # cs) = ''}}'' then Some ([], tl cs) else map_option (\<lambda>(a, b). (c # a, b)) (split_close cs))"

definition template_space :: "char \<Rightarrow> bool" where
  "template_space c \<longleftrightarrow> c \<in> {CHR 0x20, CHR 0x09, CHR 0x0A, CHR 0x0D}"

definition letter :: "char \<Rightarrow> bool" where
  "letter c \<longleftrightarrow> (let n = of_char c :: nat in 65 \<le> n \<and> n \<le> 90 \<or> 97 \<le> n \<and> n \<le> 122 \<or> n = 95)"

definition digit :: "char \<Rightarrow> bool" where
  "digit c \<longleftrightarrow> (let n = of_char c :: nat in 48 \<le> n \<and> n \<le> 57)"

text \<open>The inside of an action: a field between optional spaces, or something this model leaves out.\<close>

definition action_field :: "string \<Rightarrow> string option" where
  "action_field a =
     (let b = dropWhile template_space a; c = rev (dropWhile template_space (rev b)) in
      case c of
        d # e # es \<Rightarrow> if d = CHR ''.'' \<and> letter e \<and> (\<forall>f \<in> set es. letter f \<or> digit f) then Some (e # es) else None
      | _ \<Rightarrow> None)"

definition add_literal :: "char \<Rightarrow> template_part list \<Rightarrow> template_part list" where
  "add_literal c ps = (case ps of Literal s # qs \<Rightarrow> Literal (c # s) # qs | _ \<Rightarrow> Literal [c] # ps)"

lemma split_close_shorter: "split_close s = Some (a, b) \<Longrightarrow> length b < length s"
  by (induction s arbitrary: a b) (auto simp del: take_Suc_Cons split: if_splits simp: less_Suc_eq_le)

lemma split_tl_shorter [termination_simp]: "split_close (tl s) = Some (a, b) \<Longrightarrow> length b < Suc (length s)"
  using split_close_shorter [of "tl s"] by fastforce

fun parse_template :: "string \<Rightarrow> template_part list option" where
  "parse_template [] = Some []"
| "parse_template (c # cs) =
     (if take 2 (c # cs) = ''{{'' then
        (case split_close (tl cs) of
           None \<Rightarrow> None
         | Some (a, rest) \<Rightarrow>
             (case action_field a of
                None \<Rightarrow> None
              | Some f \<Rightarrow> map_option ((#) (Field f)) (parse_template rest)))
      else map_option (add_literal c) (parse_template cs))"

fun fill_template :: "(string \<rightharpoonup> string) \<Rightarrow> template_part list \<Rightarrow> string option" where
  "fill_template fields [] = Some []"
| "fill_template fields (Literal s # ps) = map_option ((@) s) (fill_template fields ps)"
| "fill_template fields (Field f # ps) =
     (case fields f of None \<Rightarrow> None | Some v \<Rightarrow> map_option ((@) v) (fill_template fields ps))"

text \<open>\<open>other\<close> is the template engine on everything else, its errors included.\<close>

definition renderDestination ::
  "(string \<Rightarrow> string \<times> string \<times> string \<Rightarrow> string res) \<Rightarrow> (int \<Rightarrow> int) \<Rightarrow> string \<Rightarrow> string \<Rightarrow> int \<Rightarrow> string \<Rightarrow> string res" where
  "renderDestination other zone tmpl dbName t backupType =
     (let timestamp = stamp zone t;
          fields = [''DatabaseName'' \<mapsto> dbName, ''Timestamp'' \<mapsto> timestamp, ''Type'' \<mapsto> backupType]
      in case Option.bind (parse_template tmpl) (fill_template fields) of
           Some s \<Rightarrow> Inr s
         | None \<Rightarrow> other tmpl (dbName, timestamp, backupType))"

lemma render_documented_example:
  "renderDestination other zone ''/backups/{{.DatabaseName}}-{{ .Timestamp }}.bak'' db t ty
   = Inr (''/backups/'' @ db @ ''-'' @ stamp zone t @ ''.bak'')"
proof -
  have "parse_template ''/backups/{{.DatabaseName}}-{{ .Timestamp }}.bak'' =
      Some [Literal ''/backups/'', Field ''DatabaseName'', Literal ''-'', Field ''Timestamp'', Literal ''.bak'']"
    by code_simp
  then show ?thesis by (simp add: renderDestination_def Let_def del: parse_template.simps)
qed

section \<open>Different seconds have different names\<close>

lemma number_zeros: "number (replicate k (CHR ''0'') @ s) = number s"
  by (induction k) simp_all

lemma length_digits_of: "0 < k \<Longrightarrow> n < 10 ^ k \<Longrightarrow> length (digits_of n) \<le> k"
proof (induction k arbitrary: n)
  case 0
  then show ?case by simp
next
  case (Suc k)
  show ?case
  proof (cases "n < 10")
    case True
    then show ?thesis by (simp add: digits_of.simps [of n])
  next
    case False
    with Suc.prems have "0 < k" by (cases k) auto
    moreover have "n div 10 < 10 ^ k" using Suc.prems by (simp add: less_mult_imp_div_less)
    ultimately show ?thesis using Suc.IH [of "n div 10"] False by (simp add: digits_of.simps [of n])
  qed
qed

lemma number_pad: "0 \<le> n \<Longrightarrow> int (number (pad k n)) = n"
  by (simp add: pad_def Let_def number_zeros number_digits_of)

lemma length_pad: "0 \<le> n \<Longrightarrow> n < 10 ^ k \<Longrightarrow> 0 < k \<Longrightarrow> length (pad k n) = k"
  using length_digits_of [of k "nat n"] by (simp add: pad_def Let_def nat_less_iff)

lemma pad_append_inject:
  assumes "0 \<le> a" "a < 10 ^ k" "0 \<le> b" "b < 10 ^ k" "0 < k"
  shows "pad k a @ s = pad k b @ t \<longleftrightarrow> a = b \<and> s = t"
proof -
  have "pad k a = pad k b \<longleftrightarrow> a = b" using assms number_pad by metis
  with assms show ?thesis by (simp add: length_pad append_eq_append_conv)
qed

lemma pad_inject: "0 \<le> a \<Longrightarrow> 0 \<le> b \<Longrightarrow> pad k a = pad k b \<longleftrightarrow> a = b"
  using number_pad by metis

lemma month_day_later: "m \<le> fst (month_day ls m d)"
  by (induction ls arbitrary: m d) (auto intro: order_trans [of m "m + 1" for m])

lemma month_day_inject:
  assumes "month_day ls m d = month_day ls m d'" and "0 \<le> d" and "0 \<le> d'" and "\<forall>l \<in> set ls. 0 \<le> l"
  shows "d = d'"
  using assms
proof (induction ls m d arbitrary: d' rule: month_day.induct)
  case (1 m d)
  then show ?case by simp
next
  case (2 l ls m d)
  have later: "month_day ls (m + 1) e \<noteq> (m, x)" for e x
    using month_day_later [of "m + 1" ls e] by auto
  show ?case
  proof (cases "d < l")
    case True
    with "2.prems" later [of "d' - l" "d + 1"] show ?thesis by (auto split: if_splits dest: sym)
  next
    case False
    with "2.prems" later [of "d - l" "d' + 1"] have "\<not> d' < l" by (auto split: if_splits)
    with False "2.prems" "2.IH" [OF False, of "d' - l"] show ?thesis by simp
  qed
qed

lemma month_day_fst: "fst (month_day ls m d) \<le> m + int (length ls)"
  by (induction ls m d rule: month_day.induct) auto

lemma month_day_snd:
  assumes "\<forall>l \<in> set ls. l \<le> 31" and "0 \<le> d" and "d < sum_list ls + 31"
  shows "snd (month_day ls m d) \<in> {1..31}"
  using assms by (induction ls m d rule: month_day.induct) auto

lemma month_day_bounds:
  assumes "0 \<le> d" and "d < 366"
  shows "fst (month_day (month_lengths lp) 1 d) \<in> {1..13}" and "snd (month_day (month_lengths lp) 1 d) \<in> {1..31}"
proof -
  show "fst (month_day (month_lengths lp) 1 d) \<in> {1..13}"
    using month_day_fst [of "month_lengths lp" 1 d] month_day_later [of 1 "month_lengths lp" d] by (simp add: month_lengths_def del: month_day.simps)
  show "snd (month_day (month_lengths lp) 1 d) \<in> {1..31}"
    by (rule month_day_snd) (use assms in \<open>simp_all add: month_lengths_def\<close>)
qed

text \<open>The parts of a day number, with their ranges.\<close>

lemma year_parts:
  obtains n400 n100 n4 n1 yd where "year_yday d = (400 * n400 + 100 * n100 + 4 * n4 + n1 + 1, yd)"
    "d = 146097 * n400 + 36524 * n100 + 1461 * n4 + 365 * n1 + yd"
    "n100 \<in> {0..3}" "n4 \<in> {0..24}" "n1 \<in> {0..3}" "yd \<in> {0..365}"
proof -
  define n400 r400 where "n400 = d div 146097" and "r400 = d mod 146097"
  have d: "d = 146097 * n400 + r400" "0 \<le> r400" "r400 < 146097" by (simp_all add: n400_def r400_def)
  define n100 r100 where "n100 = min 3 (r400 div 36524)" and "r100 = r400 - 36524 * n100"
  have "36524 * (r400 div 36524) \<le> r400" "r400 < 36524 * (r400 div 36524) + 36524" "0 \<le> r400 div 36524"
    using d pos_imp_zdiv_nonneg_iff [of 36524 r400] by linarith+
  then have h: "n100 \<in> {0..3}" "0 \<le> r100" "r100 \<le> 36524" using d by (auto simp: n100_def r100_def min_def)
  define n4 r4 where "n4 = r100 div 1461" and "r4 = r100 mod 1461"
  have f: "r100 = 1461 * n4 + r4" "0 \<le> r4" "r4 < 1461" by (simp_all add: n4_def r4_def)
  then have n4: "n4 \<in> {0..24}" using h by auto
  define n1 yd where "n1 = min 3 (r4 div 365)" and "yd = r4 - 365 * n1"
  have "365 * (r4 div 365) \<le> r4" "r4 < 365 * (r4 div 365) + 365" "0 \<le> r4 div 365"
    using f pos_imp_zdiv_nonneg_iff [of 365 r4] by linarith+
  then have n1: "n1 \<in> {0..3}" "yd \<in> {0..365}" using f by (auto simp: n1_def yd_def min_def)
  show thesis
  proof (rule that)
    show "year_yday d = (400 * n400 + 100 * n100 + 4 * n4 + n1 + 1, yd)"
      by (simp only: year_yday_def Let_def n400_def r400_def n100_def r100_def n4_def r4_def n1_def yd_def)
    show "d = 146097 * n400 + 36524 * n100 + 1461 * n4 + 365 * n1 + yd"
      using d f by (simp add: r100_def yd_def)
  qed (use h n4 n1 in blast)+
qed

lemma year_yday_bounds: "0 \<le> snd (year_yday d)" "snd (year_yday d) < 366"
  by (rule year_parts [of d]; simp)+

lemma year_yday_inject:
  assumes "year_yday a = year_yday b"
  shows "a = b"
proof -
  obtain a400 a100 a4 a1 ya where a: "year_yday a = (400 * a400 + 100 * a100 + 4 * a4 + a1 + 1, ya)"
    "a = 146097 * a400 + 36524 * a100 + 1461 * a4 + 365 * a1 + ya" "a100 \<in> {0..3}" "a4 \<in> {0..24}" "a1 \<in> {0..3}"
    by (rule year_parts [of a])
  obtain b400 b100 b4 b1 yb where b: "year_yday b = (400 * b400 + 100 * b100 + 4 * b4 + b1 + 1, yb)"
    "b = 146097 * b400 + 36524 * b100 + 1461 * b4 + 365 * b1 + yb" "b100 \<in> {0..3}" "b4 \<in> {0..24}" "b1 \<in> {0..3}"
    by (rule year_parts [of b])
  have y: "400 * a400 + 100 * a100 + 4 * a4 + a1 = 400 * b400 + 100 * b100 + 4 * b4 + b1" "ya = yb"
    using assms a b by simp_all
  then have "a400 = b400" using a(3-5) b(3-5) by auto
  moreover from this have "a100 = b100" using y a(3-5) b(3-5) by auto
  moreover from calculation have "a4 = b4" using y a(3-5) b(3-5) by auto
  ultimately show ?thesis using y a(2) b(2) by simp
qed

text \<open>Four digits are enough for the years up to 9999.\<close>

lemma year_range:
  assumes "0 \<le> d" and "d < 3652059"
  shows "0 \<le> fst (year_yday d)" "fst (year_yday d) < 10 ^ 4"
  by (rule year_parts [of d], use assms in auto)+

lemma clock_inject:
  fixes s t :: int
  assumes "s div 3600 = t div 3600" and "s div 60 mod 60 = t div 60 mod 60" and "s mod 60 = t mod 60"
  shows "s = t"
proof -
  have "s div 60 div 60 = t div 60 div 60" using assms(1) by (simp add: zdiv_zmult2_eq [symmetric])
  with assms(2) have "s div 60 = t div 60" by (metis mult_div_mod_eq)
  with assms(3) show ?thesis by (metis mult_div_mod_eq)
qed

definition stamp_text :: "int \<Rightarrow> int \<times> int \<Rightarrow> int \<times> int \<times> int \<Rightarrow> string" where
  "stamp_text y = (\<lambda>(m, d) (h, i, s). pad 4 y @ pad 2 m @ pad 2 d @ ''-'' @ pad 2 h @ pad 2 i @ pad 2 s)"

lemma stamp_text_inject:
  assumes "{y, y'} \<subseteq> {0..<10 ^ 4}" and "{m, m', d, d', h, h', i, i', s, s'} \<subseteq> {0..<10 ^ 2}"
    and "stamp_text y (m, d) (h, i, s) = stamp_text y' (m', d') (h', i', s')"
  shows "y = y' \<and> (m, d) = (m', d') \<and> h = h' \<and> i = i' \<and> s = s'"
  using assms by (simp add: stamp_text_def pad_append_inject pad_inject)

lemma wall_stamp_inject:
  assumes "0 \<le> a" "a < 253402300800" "0 \<le> b" "b < 253402300800" and "wall_stamp a = wall_stamp b"
  shows "a = b"
proof -
  define y yd where "y w = fst (year_yday (w div 86400 + 719162))" and "yd w = snd (year_yday (w div 86400 + 719162))" for w :: int
  define md where "md w = month_day (month_lengths (leap (y w))) 1 (yd w)" for w
  define h i s where "h w = w mod 86400 div 3600" and "i w = w mod 86400 div 60 mod 60" and "s w = w mod 86400 mod 60" for w :: int
  have stamp: "wall_stamp w = stamp_text (y w) (fst (md w), snd (md w)) (h w, i w, s w)" for w
    by (simp add: wall_stamp_def stamp_text_def Let_def md_def y_def yd_def h_def i_def s_def split: prod.split)
  have y: "y w \<in> {0..<10 ^ 4}" if "0 \<le> w" "w < 253402300800" for w
    using year_range [of "w div 86400 + 719162"] that by (simp add: y_def)
  have hms: "h w \<in> {0..<10 ^ 2}" "i w \<in> {0..<10 ^ 2}" "s w \<in> {0..<10 ^ 2}" for w
  proof -
    have "w mod 86400 < 86400" "0 \<le> w mod 86400" "w mod 86400 div 60 mod 60 < 60" "w mod 86400 mod 60 < 60" by simp_all
    then show "h w \<in> {0..<10 ^ 2}" "i w \<in> {0..<10 ^ 2}" "s w \<in> {0..<10 ^ 2}"
      by (auto simp: h_def i_def s_def pos_imp_zdiv_nonneg_iff)
  qed
  have yd: "0 \<le> yd w" "yd w < 366" for w
    unfolding yd_def by (rule year_yday_bounds)+
  have md: "fst (md w) \<in> {0..<10 ^ 2}" "snd (md w) \<in> {0..<10 ^ 2}" for w
    using month_day_bounds [OF yd, of "leap (y w)" w] by (simp_all add: md_def)
  have eq: "y a = y b \<and> (fst (md a), snd (md a)) = (fst (md b), snd (md b)) \<and> h a = h b \<and> i a = i b \<and> s a = s b"
  proof (rule stamp_text_inject)
    show "{y a, y b} \<subseteq> {0..<10 ^ 4}" using y assms(1-4) by blast
    show "{fst (md a), fst (md b), snd (md a), snd (md b), h a, h b, i a, i b, s a, s b} \<subseteq> {0..<10 ^ 2}"
      using md hms by blast
  qed (use assms(5) in \<open>simp only: stamp\<close>)
  then have "md a = md b" by (simp add: prod_eq_iff)
  with eq have "yd a = yd b"
    by (intro month_day_inject [of "month_lengths (leap (y a))" 1]) (simp_all add: yd month_lengths_def md_def)
  with eq have "year_yday (a div 86400 + 719162) = year_yday (b div 86400 + 719162)"
    by (simp add: prod_eq_iff y_def yd_def)
  then have "a div 86400 = b div 86400" using year_yday_inject by fastforce
  moreover have "a mod 86400 = b mod 86400"
  proof (rule clock_inject)
    from eq have "h a = h b" "i a = i b" "s a = s b" by blast+
    then show "a mod 86400 div 3600 = b mod 86400 div 3600" "a mod 86400 div 60 mod 60 = b mod 86400 div 60 mod 60"
      "a mod 86400 mod 60 = b mod 86400 mod 60"
      unfolding h_def i_def s_def .
  qed
  ultimately show ?thesis by (metis mult_div_mod_eq)
qed

end
