(* ===== verification/ScheduledBackup_Controller.thy ===== *)
theory ScheduledBackup_Controller
  imports One_Shot Backup_Naming "HOL-Library.Multiset"
begin

text \<open>
  \<open>internal/controller/scheduledbackup_controller.go\<close>: a schedule that creates \<open>Backup\<close> objects,
  follows the active one until it is finished, keeps a short history and deletes old backups. Only
  Kubernetes objects are touched; the SQL server is the business of the \<open>Backup\<close> controller.
\<close>

section \<open>External code\<close>

text \<open>
  The clock (\<open>r.now()\<close>), the cron parser of \<open>robfig/cron\<close> with the function it makes of a
  schedule (the next time after a given one, or the zero time if there is none within five years),
  \<open>Backup\<close> objects in the API server, listed by the label that names their schedule,
  \<open>controllerutil.SetControllerReference\<close> (owner references are not part of the metadata kept
  here), the template engine beyond the documented subset, the local time zone,
  \<open>time.ParseDuration\<close> and \<open>sort.Slice\<close>, which is not stable.
\<close>

record 'k BackupEnv =
  Clock :: "'k clock"
  ParseCron :: "string \<Rightarrow> (int \<Rightarrow> int) res"
  GetBackup :: "string \<Rightarrow> string \<Rightarrow> (Backup, 'k) op"
  ListScheduled :: "string \<Rightarrow> string \<Rightarrow> (Backup list, 'k) op"
  CreateBackup :: "Backup \<Rightarrow> (unit, 'k) op"
  DeleteBackup :: "Backup \<Rightarrow> (unit, 'k) op"
  SetControllerReference :: "ScheduledBackup \<Rightarrow> Backup \<Rightarrow> Backup res"
  TemplateEngine :: "string \<Rightarrow> string \<times> string \<times> string \<Rightarrow> string res"
  ZoneOffset :: "int \<Rightarrow> int"
  DurationOf :: "string \<Rightarrow> int option"
  SortSlice :: "(Backup \<Rightarrow> Backup \<Rightarrow> bool) \<Rightarrow> Backup list \<Rightarrow> Backup list"

type_synonym ('k, 'c) SBReconciler = "(ScheduledBackup, 'k, 'c) Reconciler"

definition maxHistoryLen :: nat where
  "maxHistoryLen = 10"

definition schedule_label :: string where
  "schedule_label = ''mssql.popul.io/scheduled-backup''"

text \<open>The zero \<open>time.Time\<close>, 1 January of year 1.\<close>

definition zero_time :: int where
  "zero_time = - 62135596800000000000"

section \<open>The status\<close>

definition SB_setCondition ::
  "('k, 'c) SBReconciler \<Rightarrow> ScheduledBackup \<Rightarrow> ConditionStatus \<Rightarrow> string \<Rightarrow> string \<Rightarrow> (Result, ('k, 'c) world) op" where
  "SB_setCondition R sb st reason msg =
     attempt (on_kube (PatchStatus (crs R) sb (observed (with_condition (kclient R) st reason msg sb)))) fail (\<lambda>_.
     ret (Result 0))"

definition without_active :: "ScheduledBackup \<Rightarrow> ScheduledBackup" where
  "without_active sb = sb\<lparr>Status := (Status sb)\<lparr>ActiveBackup := []\<rparr>\<rparr>"

definition clearActiveBackup :: "('k, 'c) SBReconciler \<Rightarrow> ScheduledBackup \<Rightarrow> (Result, ('k, 'c) world) op" where
  "clearActiveBackup R sb =
     attempt (on_kube (PatchStatus (crs R) sb (without_active sb))) fail (\<lambda>_. ret (Result (5 * second)))"

definition history_entry :: "Backup \<Rightarrow> ScheduledBackupHistory" where
  "history_entry bak = \<lparr>h_BackupName = cr_Name bak, h_StartTime = StartTime (Status bak),
     h_CompletionTime = CompletionTime (Status bak), h_Phase = Phase (Status bak), h_Destination = b_Destination (Spec bak)\<rparr>"

definition add_history :: "ScheduledBackupHistory list \<Rightarrow> ScheduledBackupHistory \<Rightarrow> ScheduledBackupHistory list" where
  "add_history h entry =
     (let h' = h @ [entry] in if length h' > maxHistoryLen then drop (length h' - maxHistoryLen) h' else h')"

definition completed_status :: "Backup \<Rightarrow> ScheduledBackupStatus \<Rightarrow> ScheduledBackupStatus" where
  "completed_status bak st = st\<lparr>ActiveBackup := [], LastSuccessfulBackup := cr_Name bak,
     SuccessfulBackups := wrap32 (SuccessfulBackups st + 1), History := add_history (History st) (history_entry bak)\<rparr>"

definition failed_status :: "Backup \<Rightarrow> ScheduledBackupStatus \<Rightarrow> ScheduledBackupStatus" where
  "failed_status bak st = st\<lparr>ActiveBackup := [],
     FailedBackups := wrap32 (FailedBackups st + 1), History := add_history (History st) (history_entry bak)\<rparr>"

section \<open>Retention\<close>

definition too_old :: "'k BackupEnv \<Rightarrow> RetentionPolicy \<Rightarrow> int \<Rightarrow> Backup \<Rightarrow> bool" where
  "too_old B pol t b =
     (case Option.bind (MaxAge pol) (DurationOf B) of
        None \<Rightarrow> False
      | Some maxAge \<Rightarrow> saturate64 (t - cr_CreationTimestamp b) > maxAge)"

definition excess :: "RetentionPolicy \<Rightarrow> Backup list \<Rightarrow> Backup list" where
  "excess pol completed =
     (case MaxCount pol of
        None \<Rightarrow> []
      | Some m \<Rightarrow> if m > 0 \<and> int (length completed) > m then take (length completed - nat m) completed else [])"

definition add_new :: "Backup \<Rightarrow> Backup list \<Rightarrow> Backup list" where
  "add_new b toDelete = (if \<exists>d \<in> set toDelete. cr_Name d = cr_Name b then toDelete else toDelete @ [b])"

definition to_delete :: "'k BackupEnv \<Rightarrow> RetentionPolicy \<Rightarrow> int \<Rightarrow> Backup list \<Rightarrow> Backup list" where
  "to_delete B pol t completed = fold add_new (excess pol completed) (filter (too_old B pol t) completed)"

definition delete_backup :: "'k BackupEnv \<Rightarrow> Backup \<Rightarrow> (unit, ('k, 'c) world) op" where
  "delete_backup B b =
     attempt (on_kube (DeleteBackup B b)) (\<lambda>e.
       if IsNotFound e then ret () else fail (Wrapf (''failed to delete old backup '' @ cr_Name b @ '': '') e)) ret"

definition older :: "Backup \<Rightarrow> Backup \<Rightarrow> bool" where
  "older x y \<longleftrightarrow> cr_CreationTimestamp x < cr_CreationTimestamp y"

definition completed_backups :: "'k BackupEnv \<Rightarrow> Backup list \<Rightarrow> Backup list" where
  "completed_backups B items = SortSlice B older (filter (\<lambda>b. Phase (Status b) = PhaseCompleted) items)"

definition cleanupRetention :: "'k BackupEnv \<Rightarrow> ScheduledBackup \<Rightarrow> (unit, ('k, 'c) world) op" where
  "cleanupRetention B sb =
     (case sb_Retention (Spec sb) of
        None \<Rightarrow> ret ()
      | Some pol \<Rightarrow>
          or_fail ''failed to list backups'' (on_kube (ListScheduled B (cr_Namespace sb) (cr_Name sb))) (\<lambda>items.
          attempt (now (Clock B)) fail (\<lambda>t.
          for_each (delete_backup B) (to_delete B pol t (completed_backups B items)))))"

section \<open>The end of a backup\<close>

definition onBackupCompleted ::
  "('k, 'c) SBReconciler \<Rightarrow> 'k BackupEnv \<Rightarrow> ScheduledBackup \<Rightarrow> Backup \<Rightarrow> (Result, ('k, 'c) world) op" where
  "onBackupCompleted R B sb bak =
     (let sb' = with_condition (kclient R) ConditionTrue ''BackupCompleted'' (''Last backup '' @ cr_Name bak @ '' completed successfully'')
                  (sb\<lparr>Status := completed_status bak (Status sb)\<rparr>)
      in attempt (on_kube (PatchStatus (crs R) sb sb')) fail (\<lambda>sb.
         attempt (cleanupRetention B sb) (\<lambda>_. ret (Result (30 * second))) (\<lambda>_. ret (Result (30 * second)))))"

definition onBackupFailed :: "('k, 'c) SBReconciler \<Rightarrow> ScheduledBackup \<Rightarrow> Backup \<Rightarrow> (Result, ('k, 'c) world) op" where
  "onBackupFailed R sb bak =
     (let sb' = with_condition (kclient R) ConditionFalse ''BackupFailed'' (''Last backup '' @ cr_Name bak @ '' failed'')
                  (sb\<lparr>Status := failed_status bak (Status sb)\<rparr>)
      in attempt (on_kube (PatchStatus (crs R) sb sb')) fail (\<lambda>_.
         effect (Warning ''BackupFailed'' (''Scheduled backup '' @ cr_Name bak @ '' failed'')) (ret (Result (30 * second)))))"

definition follow_active :: "('k, 'c) SBReconciler \<Rightarrow> 'k BackupEnv \<Rightarrow> ScheduledBackup \<Rightarrow> (Result, ('k, 'c) world) op" where
  "follow_active R B sb =
     attempt (on_kube (GetBackup B (cr_Namespace sb) (ActiveBackup (Status sb))))
       (\<lambda>e. if IsNotFound e then clearActiveBackup R sb else fail e) (\<lambda>activeBak.
     if Phase (Status activeBak) = PhaseCompleted then onBackupCompleted R B sb activeBak
     else if Phase (Status activeBak) = PhaseFailed then onBackupFailed R sb activeBak
     else ret (Result (10 * second)))"

section \<open>The start of a backup\<close>

definition last_schedule :: "ScheduledBackup \<Rightarrow> int" where
  "last_schedule sb = (case LastScheduleTime (Status sb) of Some t \<Rightarrow> t | None \<Rightarrow> cr_CreationTimestamp sb)"

definition record_next :: "('k, 'c) SBReconciler \<Rightarrow> ScheduledBackup \<Rightarrow> int \<Rightarrow> (ScheduledBackup, ('k, 'c) world) op" where
  "record_next R sb nextTime =
     (if NextScheduleTime (Status sb) \<noteq> Some nextTime then
        patch_ignored R sb (sb\<lparr>Status := (Status sb)\<lparr>NextScheduleTime := Some nextTime\<rparr>\<rparr>)
      else ret sb)"

definition backup_name :: "(int \<Rightarrow> int) \<Rightarrow> ScheduledBackup \<Rightarrow> int \<Rightarrow> string" where
  "backup_name zone sb t = cr_Name sb @ ''-'' @ stamp zone t"

definition new_backup :: "ScheduledBackup \<Rightarrow> string \<Rightarrow> string \<Rightarrow> Backup" where
  "new_backup sb backupName destination = \<lparr>cr_Name = backupName, cr_Namespace = cr_Namespace sb, cr_Generation = 0,
     cr_Finalizers = [], cr_Deleting = False, cr_Annotations = Map.empty, cr_Labels = [schedule_label \<mapsto> cr_Name sb],
     cr_CreationTimestamp = zero_time,
     Spec = \<lparr>b_Server = sb_Server (Spec sb), b_DatabaseName = sb_DatabaseName (Spec sb), b_Type = sb_Type (Spec sb),
       b_Destination = destination, b_Compression = sb_Compression (Spec sb)\<rparr>,
     Status = \<lparr>Conditions = [], ObservedGeneration = 0, Phase = [], StartTime = None, CompletionTime = None\<rparr>\<rparr>"

definition backup_started :: "string \<Rightarrow> int \<Rightarrow> ScheduledBackup \<Rightarrow> ScheduledBackup" where
  "backup_started backupName t sb = observed (sb\<lparr>Status := (Status sb)\<lparr>LastScheduleTime := Some t, ActiveBackup := backupName,
     TotalBackups := wrap32 (TotalBackups (Status sb) + 1)\<rparr>\<rparr>)"

definition create_backup ::
  "('k, 'c) SBReconciler \<Rightarrow> 'k BackupEnv \<Rightarrow> ScheduledBackup \<Rightarrow> int \<Rightarrow> (Result, ('k, 'c) world) op" where
  "create_backup R B sb t =
     (case renderDestination (TemplateEngine B) (ZoneOffset B) (sb_DestinationTemplate (Spec sb)) (sb_DatabaseName (Spec sb)) t
             (sb_Type (Spec sb)) of
        Inl e \<Rightarrow> SB_setCondition R sb ConditionFalse ''TemplateError'' (''failed to render destination template: '' @ Error e)
      | Inr destination \<Rightarrow>
          (let backupName = backup_name (ZoneOffset B) sb t in
           case SetControllerReference B sb (new_backup sb backupName destination) of
             Inl e \<Rightarrow> fail (Wrapf ''failed to set owner reference: '' e)
           | Inr backup \<Rightarrow>
               or_fail ''failed to create Backup CR'' (on_kube (CreateBackup B backup)) (\<lambda>_.
               effect (Normal ''BackupCreated'' (''Created Backup '' @ backupName @ '' for database '' @ sb_DatabaseName (Spec sb)))
               (attempt (on_kube (PatchStatus (crs R) sb (backup_started backupName t sb))) fail (\<lambda>_.
                ret (Result (10 * second)))))))"

definition follow_schedule ::
  "('k, 'c) SBReconciler \<Rightarrow> 'k BackupEnv \<Rightarrow> (int \<Rightarrow> int) \<Rightarrow> ScheduledBackup \<Rightarrow> (Result, ('k, 'c) world) op" where
  "follow_schedule R B sched sb =
     attempt (now (Clock B)) fail (\<lambda>t.
     let nextTime = sched (last_schedule sb) in
     attempt (record_next R sb nextTime) fail (\<lambda>sb.
     if t < nextTime then ret (Result (wrap64 (saturate64 (nextTime - t) + second)))
     else create_backup R B sb t))"

section \<open>Reconciliation\<close>

definition ScheduledBackup_Reconcile ::
  "('k, 'c) SBReconciler \<Rightarrow> 'k BackupEnv \<Rightarrow> string \<Rightarrow> string \<Rightarrow> (Result, ('k, 'c) world) op" where
  "ScheduledBackup_Reconcile R B ns name =
     fetch R ns name (\<lambda>sb.
     case ParseCron B (sb_Schedule (Spec sb)) of
       Inl e \<Rightarrow> SB_setCondition R sb ConditionFalse ''InvalidSchedule'' (''invalid cron expression: '' @ Error e)
     | Inr sched \<Rightarrow>
         if sb_Suspend (Spec sb) = Some True then
           SB_setCondition R sb ConditionTrue ''Suspended'' ''Schedule is suspended''
         else if ActiveBackup (Status sb) \<noteq> [] then follow_active R B sb
         else follow_schedule R B sched sb)"

text \<open>The watch on \<open>Backup\<close> objects.\<close>

definition mapBackupToScheduledBackup :: "Backup \<Rightarrow> Request list" where
  "mapBackupToScheduledBackup bak =
     (case cr_Labels bak schedule_label of None \<Rightarrow> [] | Some sbName \<Rightarrow> [(cr_Namespace bak, sbName)])"

section \<open>What the API server is assumed to do\<close>

definition same_world ::
  "('k \<Rightarrow> string \<times> string \<Rightarrow> ScheduledBackup option) \<Rightarrow> ('k \<Rightarrow> string \<times> string \<Rightarrow> Secret option)
   \<Rightarrow> ('k \<Rightarrow> string \<times> string \<Rightarrow> SQLServer option) \<Rightarrow> 'k \<Rightarrow> 'k \<Rightarrow> bool" where
  "same_world objs secs srvs k k' \<longleftrightarrow> objs k' = objs k \<and> secs k' = secs k \<and> srvs k' = srvs k"

definition backup_laws ::
  "('k, 'c) SBReconciler \<Rightarrow> 'k BackupEnv \<Rightarrow> ('k \<Rightarrow> string \<times> string \<Rightarrow> ScheduledBackup option)
   \<Rightarrow> ('k \<Rightarrow> string \<times> string \<Rightarrow> Secret option) \<Rightarrow> ('k \<Rightarrow> string \<times> string \<Rightarrow> SQLServer option)
   \<Rightarrow> ('k \<Rightarrow> string \<times> string \<Rightarrow> Backup option) \<Rightarrow> bool" where
  "backup_laws R B objs secs srvs baks \<longleftrightarrow>
     clock_laws objs secs srvs (Clock B) \<and>
     (\<forall>k. baks (snd (Clock B k)) = baks k) \<and>
     (\<forall>k base st. objs k (request_of base) = Some base \<longrightarrow>
        baks (snd (PatchStatus (crs R) base (base\<lparr>Status := st\<rparr>) k)) = baks k) \<and>
     (\<forall>k ns n b. baks k (ns, n) = Some b \<longrightarrow> request_of b = (ns, n)) \<and>
     (\<forall>k ns n. answers (baks k (ns, n)) k (GetBackup B ns n k)) \<and>
     (\<forall>k ns n. \<exists>bs. ListScheduled B ns n k = (Inr bs, k) \<and> distinct (List.map cr_Name bs) \<and>
        set bs = {b. cr_Namespace b = ns \<and> baks k (request_of b) = Some b \<and> cr_Labels b schedule_label = Some n}) \<and>
     (\<forall>k b. baks k (request_of b) = None \<longrightarrow> (\<exists>t k'. CreateBackup B b k = (Inr (), k') \<and> same_world objs secs srvs k k' \<and>
        baks k' = (baks k)(request_of b \<mapsto> b\<lparr>cr_CreationTimestamp := t, cr_Generation := 1\<rparr>))) \<and>
     (\<forall>k b. baks k (request_of b) \<noteq> None \<longrightarrow> (\<exists>k'. DeleteBackup B b k = (Inr (), k') \<and> same_world objs secs srvs k k' \<and>
        baks k' = (baks k)(request_of b := None))) \<and>
     (\<forall>sb b. cr_Namespace b = cr_Namespace sb \<longrightarrow> SetControllerReference B sb b = Inr b) \<and>
     (\<forall>bs. mset (SortSlice B older bs) = mset bs \<and> sorted_wrt (\<lambda>x y. \<not> older y x) (SortSlice B older bs))"

lemma backup_lawsD:
  assumes "backup_laws R B objs secs srvs baks"
  shows "clock_laws objs secs srvs (Clock B)" "baks (snd (Clock B k)) = baks k"
    "objs k (request_of base) = Some base \<Longrightarrow> baks (snd (PatchStatus (crs R) base (base\<lparr>Status := st\<rparr>) k)) = baks k"
    "baks k (ns, n) = Some b \<Longrightarrow> request_of b = (ns, n)"
    "answers (baks k (ns, n)) k (GetBackup B ns n k)"
    "\<exists>bs. ListScheduled B ns n k = (Inr bs, k) \<and> distinct (List.map cr_Name bs) \<and>
        set bs = {b. cr_Namespace b = ns \<and> baks k (request_of b) = Some b \<and> cr_Labels b schedule_label = Some n}"
    "baks k (request_of b) = None \<Longrightarrow> \<exists>t k'. CreateBackup B b k = (Inr (), k') \<and> same_world objs secs srvs k k' \<and>
        baks k' = (baks k)(request_of b \<mapsto> b\<lparr>cr_CreationTimestamp := t, cr_Generation := 1\<rparr>)"
    "baks k (request_of b) \<noteq> None \<Longrightarrow> \<exists>k'. DeleteBackup B b k = (Inr (), k') \<and> same_world objs secs srvs k k' \<and>
        baks k' = (baks k)(request_of b := None)"
    "cr_Namespace b = cr_Namespace sb \<Longrightarrow> SetControllerReference B sb b = Inr b"
    "mset (SortSlice B older bs) = mset bs" "sorted_wrt (\<lambda>x y. \<not> older y x) (SortSlice B older bs)"
  by (insert assms, unfold backup_laws_def, (elim conjE, simp only: simp_thms)+)

lemma same_world_refl [simp]: "same_world objs secs srvs k k"
  by (simp add: same_world_def)

lemma same_world_trans: "same_world objs secs srvs k k' \<Longrightarrow> same_world objs secs srvs k' k'' \<Longrightarrow> same_world objs secs srvs k k''"
  by (simp add: same_world_def)

lemma wp_clock:
  assumes "backup_laws R B objs secs srvs baks"
    and "\<And>k'. same_world objs secs srvs (kube w) k' \<Longrightarrow> baks k' = baks (kube w) \<Longrightarrow> Q (fst (Clock B (kube w))) (w\<lparr>kube := k'\<rparr>)"
  shows "wp (now (Clock B)) w Q E"
proof -
  from backup_lawsD(1) [OF assms(1)] have "same_world objs secs srvs (kube w) (snd (Clock B (kube w)))"
    by (simp add: same_world_def clock_laws_def)
  then show ?thesis
    using assms(2) [of "snd (Clock B (kube w))"] backup_lawsD(2) [OF assms(1), of "kube w"]
    by (cases "Clock B (kube w)") (auto simp: now_def wp_def)
qed

text \<open>A patch of the schedule's status.\<close>

lemma wp_SB_patch:
  assumes laws: "api_laws R objs secs srvs" and env: "backup_laws R B objs secs srvs baks"
    and base: "objs k (request_of sb) = Some sb" and live: "\<not> cr_Deleting sb"
    and post: "\<And>k'. objs k' = (objs k)(request_of sb \<mapsto> sb\<lparr>Status := st\<rparr>) \<Longrightarrow> baks k' = baks k \<Longrightarrow> Q (sb\<lparr>Status := st\<rparr>) k'"
  shows "wp (PatchStatus (crs R) sb (sb\<lparr>Status := st\<rparr>)) k Q E"
proof -
  have "wp (PatchStatus (crs R) sb (sb\<lparr>Status := st\<rparr>)) k
      (\<lambda>x k'. x = sb\<lparr>Status := st\<rparr> \<and> objs k' = (objs k)(request_of sb \<mapsto> sb\<lparr>Status := st\<rparr>)) (\<lambda>_ _. False)"
    by (rule wp_PatchStatus [OF laws base]) (simp add: stored_Some live)
  moreover have "always (PatchStatus (crs R) sb (sb\<lparr>Status := st\<rparr>)) k (\<lambda>k'. baks k' = baks k)"
    unfolding always_iff by (rule backup_lawsD(3) [OF env base])
  ultimately have "wp (PatchStatus (crs R) sb (sb\<lparr>Status := st\<rparr>)) k (\<lambda>x k'. (x = sb\<lparr>Status := st\<rparr> \<and>
      objs k' = (objs k)(request_of sb \<mapsto> sb\<lparr>Status := st\<rparr>)) \<and> baks k' = baks k) (\<lambda>e k'. False \<and> baks k' = baks k)"
    by (rule wp_conj)
  then show ?thesis by (rule wp_mono) (auto intro: post)
qed

lemma wp_GetBackup:
  assumes "backup_laws R B objs secs srvs baks" and "baks k (ns, n) = Some b"
  shows "wp (GetBackup B ns n) k Q E = Q b k"
  using answersE [where m = "GetBackup B ns n", OF backup_lawsD(5) [OF assms(1)]] assms(2) by simp

lemma wp_GetBackup_missing:
  assumes "backup_laws R B objs secs srvs baks" and "baks k (ns, n) = None" and "\<And>e. IsNotFound e \<Longrightarrow> E e k"
  shows "wp (GetBackup B ns n) k Q E"
  using backup_lawsD(5) [OF assms(1), of k ns n] assms(2,3)
  by (cases "GetBackup B ns n k") (auto simp: answers_def wp_def)

lemma wp_record_next:
  assumes "api_laws R objs secs srvs" and "backup_laws R B objs secs srvs baks"
    and "objs (kube w) (request_of sb) = Some sb" and "\<not> cr_Deleting sb"
    and "\<And>k'. objs k' = (objs (kube w))(request_of sb \<mapsto> sb\<lparr>Status := (Status sb)\<lparr>NextScheduleTime := Some t\<rparr>\<rparr>) \<Longrightarrow>
      baks k' = baks (kube w) \<Longrightarrow> Q (sb\<lparr>Status := (Status sb)\<lparr>NextScheduleTime := Some t\<rparr>\<rparr>) (w\<lparr>kube := k'\<rparr>)"
  shows "wp (record_next R sb t) w Q E"
proof (cases "NextScheduleTime (Status sb) = Some t")
  case True
  then have same: "sb\<lparr>Status := (Status sb)\<lparr>NextScheduleTime := Some t\<rparr>\<rparr> = sb" by simp
  have "Q sb w" using assms(5) [of "kube w", unfolded same] assms(3) by (simp add: fun_upd_idem)
  then show ?thesis using True by (simp add: record_next_def wp_ret del: ret_apply)
next
  case False
  then show ?thesis
    unfolding record_next_def patch_ignored_def
    by (simp add: wp_attempt wp_on_kube wp_ret del: ret_apply) (rule wp_SB_patch [OF assms(1-4)], rule assms(5))
qed

lemma in_store: "request_of sb = (ns, n) \<Longrightarrow> cr_Namespace sb = ns \<and> cr_Name sb = n"
  by (simp add: request_of_def)

lemma new_backup_simps [simp]:
  "request_of (new_backup sb nm d) = (cr_Namespace sb, nm)" "cr_Namespace (new_backup sb nm d) = cr_Namespace sb"
  "cr_Name (new_backup sb nm d) = nm" "Phase (Status (new_backup sb nm d)) = []"
  by (simp_all add: new_backup_def request_of_def)

lemma backup_name_not_Nil [simp]: "backup_name zone sb t \<noteq> []"
  by (simp add: backup_name_def)

text \<open>The part of a pass that decides what to do.\<close>

lemma wp_ScheduledBackup:
  assumes "api_laws R objs secs srvs" and "objs (kube w) (ns, n) = Some sb"
  shows "wp (ScheduledBackup_Reconcile R B ns n) w Q E =
    (case ParseCron B (sb_Schedule (Spec sb)) of
       Inl e \<Rightarrow> wp (SB_setCondition R sb ConditionFalse ''InvalidSchedule'' (''invalid cron expression: '' @ Error e)) w Q E
     | Inr sched \<Rightarrow>
         if sb_Suspend (Spec sb) = Some True then
           wp (SB_setCondition R sb ConditionTrue ''Suspended'' ''Schedule is suspended'') w Q E
         else if ActiveBackup (Status sb) \<noteq> [] then wp (follow_active R B sb) w Q E
         else wp (follow_schedule R B sched sb) w Q E)"
  unfolding ScheduledBackup_Reconcile_def fetch_def wp_attempt wp_on_kube wp_GetCR [OF assms]
  by (simp split: sum.split)

lemma wp_active_running:
  assumes "api_laws R objs secs srvs" and "backup_laws R B objs secs srvs baks"
    and "objs (kube w) (ns, n) = Some sb" and "request_of sb = (ns, n)"
    and "ParseCron B (sb_Schedule (Spec sb)) = Inr sched" and "sb_Suspend (Spec sb) \<noteq> Some True"
    and "ActiveBackup (Status sb) \<noteq> []" and "baks (kube w) (ns, ActiveBackup (Status sb)) = Some b" and "\<not> finished b"
  shows "wp (ScheduledBackup_Reconcile R B ns n) w Q E = Q (Result (10 * second)) w"
  using assms(5-9) in_store [OF assms(4)]
  by (simp add: wp_ScheduledBackup [OF assms(1,3)] follow_active_def wp_attempt wp_on_kube wp_GetBackup [OF assms(2)] finished_def
      wp_ret del: ret_apply)

text \<open>A pass that is due.\<close>

lemma wp_create_backup:
  fixes w :: "('k, 'c) world"
  assumes laws: "api_laws R objs secs srvs" and env: "backup_laws R B objs secs srvs baks"
    and base: "objs (kube w) (request_of sb) = Some sb" and live: "\<not> cr_Deleting sb"
    and dest: "renderDestination (TemplateEngine B) (ZoneOffset B) (sb_DestinationTemplate (Spec sb)) (sb_DatabaseName (Spec sb)) t
        (sb_Type (Spec sb)) = Inr destination"
    and name: "name = backup_name (ZoneOffset B) sb t" and free: "baks (kube w) (cr_Namespace sb, name) = None"
    and post: "\<And>c w'. sql w' = sql w \<Longrightarrow> objs (kube w') = (objs (kube w))(request_of sb \<mapsto> backup_started name t sb) \<Longrightarrow>
      baks (kube w') = (baks (kube w))((cr_Namespace sb, name) \<mapsto>
        (new_backup sb name destination)\<lparr>cr_CreationTimestamp := c, cr_Generation := 1\<rparr>) \<Longrightarrow> Q (Result (10 * second)) w'"
  shows "wp (create_backup R B sb t) w Q E"
proof -
  let ?b = "new_backup sb name destination"
  have owned: "SetControllerReference B sb ?b = Inr ?b" by (rule backup_lawsD(9) [OF env]) simp
  obtain c k' where made: "CreateBackup B ?b (kube w) = (Inr (), k')" and same: "same_world objs secs srvs (kube w) k'"
    and baks: "baks k' = (baks (kube w))((cr_Namespace sb, name) \<mapsto> ?b\<lparr>cr_CreationTimestamp := c, cr_Generation := 1\<rparr>)"
    using backup_lawsD(7) [OF env, of "kube w" ?b] free by auto
  obtain st where st: "backup_started name t sb = sb\<lparr>Status := st\<rparr>" by (simp add: backup_started_def observed_def)
  show ?thesis
    unfolding create_backup_def dest sum.case Let_def name [symmetric] owned wp_or_fail wp_on_kube succeeds_eq [where m = "CreateBackup B (new_backup sb name destination)", OF made] wp_effect wp_attempt
    unfolding st
  proof (rule wp_SB_patch [OF laws env _ live])
    fix k'' assume k'': "objs k'' = (objs (kube (Normal ''BackupCreated'' (''Created Backup '' @ name @ '' for database '' @
        sb_DatabaseName (Spec sb)) (w\<lparr>kube := k'\<rparr>))))(request_of sb \<mapsto> sb\<lparr>Status := st\<rparr>)"
      "baks k'' = baks (kube (Normal ''BackupCreated'' (''Created Backup '' @ name @ '' for database '' @
        sb_DatabaseName (Spec sb)) (w\<lparr>kube := k'\<rparr>)))"
    show "wp (ret (Result (10 * second))) (Normal ''BackupCreated'' (''Created Backup '' @ name @ '' for database '' @
        sb_DatabaseName (Spec sb)) (w\<lparr>kube := k'\<rparr>)\<lparr>kube := k''\<rparr>) Q E"
      unfolding wp_ret by (rule post [where c = c]) (use k'' same baks in \<open>simp_all add: same_world_def st record_event_def\<close>)
  qed (use same base in \<open>simp add: same_world_def\<close>)
qed

lemma wp_follow_schedule:
  fixes w :: "('k, 'c) world"
  assumes laws: "api_laws R objs secs srvs" and env: "backup_laws R B objs secs srvs baks"
    and base: "objs (kube w) (request_of sb) = Some sb" and live: "\<not> cr_Deleting sb" and t: "t = fst (Clock B (kube w))"
    and post: "\<And>k' sb'. sb' = sb\<lparr>Status := (Status sb)\<lparr>NextScheduleTime := Some (sched (last_schedule sb))\<rparr>\<rparr> \<Longrightarrow>
      objs k' = (objs (kube w))(request_of sb \<mapsto> sb') \<Longrightarrow> baks k' = baks (kube w) \<Longrightarrow>
      wp (if t < sched (last_schedule sb) then ret (Result (wrap64 (saturate64 (sched (last_schedule sb) - t) + second)))
          else create_backup R B sb' t) (w\<lparr>kube := k'\<rparr>) Q E"
  shows "wp (follow_schedule R B sched sb) w Q E"
  unfolding follow_schedule_def wp_attempt Let_def
  by (rule wp_clock [OF env], rule wp_record_next [OF laws env _ live]) (use base post t in \<open>auto simp: same_world_def\<close>)

section \<open>A due schedule creates one backup\<close>

text \<open>
  C25. When a schedule is due, one reconciliation creates exactly one \<open>Backup\<close>, named after the schedule
  and the second, with the server, database, type, destination and compression of the schedule;
  records it as active with the time of creation, and counts it. Until that backup is finished, a
  further reconciliation changes nothing.
\<close>

theorem ScheduledBackup_creates_one:
  assumes "api_laws R objs secs srvs" and "backup_laws R B objs secs srvs baks"
    and "objs (kube w) (ns, n) = Some sb" and "request_of sb = (ns, n)" and "\<not> cr_Deleting sb"
    and "ParseCron B (sb_Schedule (Spec sb)) = Inr sched" and "sb_Suspend (Spec sb) \<noteq> Some True" and "ActiveBackup (Status sb) = []"
    and "t = fst (Clock B (kube w))" and "sched (last_schedule sb) \<le> t"
    and "renderDestination (TemplateEngine B) (ZoneOffset B) (sb_DestinationTemplate (Spec sb)) (sb_DatabaseName (Spec sb)) t
        (sb_Type (Spec sb)) = Inr destination"
    and "name = backup_name (ZoneOffset B) sb t" and "baks (kube w) (ns, name) = None"
  shows "succeeds (ScheduledBackup_Reconcile R B ns n) w (\<lambda>r w'. r = Result (10 * second) \<and> sql w' = sql w \<and>
    (\<exists>c. baks (kube w') = (baks (kube w))((ns, name) \<mapsto>
       (new_backup sb name destination)\<lparr>cr_CreationTimestamp := c, cr_Generation := 1\<rparr>)) \<and>
    objs (kube w') = (objs (kube w))((ns, n) \<mapsto> sb\<lparr>Status := (Status sb)\<lparr>NextScheduleTime := Some (sched (last_schedule sb)),
       LastScheduleTime := Some t, ActiveBackup := name, TotalBackups := wrap32 (TotalBackups (Status sb) + 1),
       ObservedGeneration := cr_Generation sb\<rparr>\<rparr>) \<and>
    succeeds (ScheduledBackup_Reconcile R B ns n) w' (\<lambda>r w''. r = Result (10 * second) \<and> w'' = w'))"
proof -
  note ns = in_store [OF assms(4)]
  have due: "\<not> t < sched (last_schedule sb)" using assms(10) by simp
  show ?thesis
    unfolding wp_ScheduledBackup [OF assms(1,3)] assms(6) sum.case if_not_P [OF assms(7)] if_not_P [OF notnotD] assms(8)
  proof (simp only: simp_thms if_False, rule wp_follow_schedule [OF assms(1,2) _ assms(5,9)], simp only: assms(3,4), goal_cases)
    case (1 k' sb')
    have sb': "request_of sb' = (ns, n)" "cr_Namespace sb' = ns" "Spec sb' = Spec sb" "\<not> cr_Deleting sb'"
      "new_backup sb' = new_backup sb" "backup_name (ZoneOffset B) sb' = backup_name (ZoneOffset B) sb"
      using 1(1) assms(4,5) ns by (auto simp: fun_eq_iff new_backup_def backup_name_def)
    show ?case
      unfolding if_not_P [OF due]
    proof (rule wp_create_backup [OF assms(1,2), where name = name and destination = destination], goal_cases)
      case (6 c w')
      have last: "objs (kube w') (ns, n) = Some (backup_started name t sb')" using 6(2) sb'(1) by simp
      have "succeeds (ScheduledBackup_Reconcile R B ns n) w' (\<lambda>r w''. r = Result (10 * second) \<and> w'' = w')"
        by (subst wp_active_running [OF assms(1,2) last,
              where b = "(new_backup sb' name destination)\<lparr>cr_CreationTimestamp := c, cr_Generation := 1\<rparr>"])
           (use 6 sb' assms(6,7,12) in \<open>simp_all add: backup_started_def observed_def request_of_def finished_def PhaseCompleted_def PhaseFailed_def\<close>)
      moreover have "backup_started name t sb' = sb\<lparr>Status := (Status sb)\<lparr>NextScheduleTime := Some (sched (last_schedule sb)),
          LastScheduleTime := Some t, ActiveBackup := name, TotalBackups := wrap32 (TotalBackups (Status sb) + 1),
          ObservedGeneration := cr_Generation sb\<rparr>\<rparr>"
        unfolding 1(1) by (simp add: backup_started_def observed_def)
      ultimately show ?case using 6 1(2,3) sb' assms(4) by auto
    qed (use 1 sb' assms in auto)
  qed
qed

section \<open>Nothing to do\<close>

text \<open>
  C26. A pass that finds nothing to start or to finish leaves the \<open>Backup\<close> objects and the SQL server
  alone. An invalid or suspended schedule is reported; an active backup that is not finished is
  looked at again in ten seconds; one that somebody deleted is forgotten; otherwise the next pass is
  due one second after the next scheduled time, exactly, as long as that is less than 292 years away.
\<close>

theorem ScheduledBackup_idle:
  assumes "api_laws R objs secs srvs" and "backup_laws R B objs secs srvs baks"
    and "objs (kube w) (ns, n) = Some sb" and "request_of sb = (ns, n)" and "\<not> cr_Deleting sb"
    and "t = fst (Clock B (kube w))"
    and idle: "\<And>sched. ParseCron B (sb_Schedule (Spec sb)) = Inr sched \<Longrightarrow> sb_Suspend (Spec sb) \<noteq> Some True \<Longrightarrow>
      (if ActiveBackup (Status sb) = [] then t < sched (last_schedule sb) \<and> sched (last_schedule sb) - t < 2 ^ 63 - second
       else \<forall>b. baks (kube w) (ns, ActiveBackup (Status sb)) = Some b \<longrightarrow> \<not> finished b)"
  shows "succeeds (ScheduledBackup_Reconcile R B ns n) w (\<lambda>r w'. baks (kube w') = baks (kube w) \<and> sql w' = sql w \<and>
    events w' = events w \<and> (\<exists>st. objs (kube w') = (objs (kube w))((ns, n) \<mapsto> sb\<lparr>Status := st\<rparr>) \<and>
     (case ParseCron B (sb_Schedule (Spec sb)) of
        Inl _ \<Rightarrow> r = Result 0 \<and> ready_status (sb\<lparr>Status := st\<rparr>) = Some (ConditionFalse, ''InvalidSchedule'')
      | Inr sched \<Rightarrow>
          if sb_Suspend (Spec sb) = Some True then
            r = Result 0 \<and> ready_status (sb\<lparr>Status := st\<rparr>) = Some (ConditionTrue, ''Suspended'')
          else if ActiveBackup (Status sb) = [] then
            r = Result (sched (last_schedule sb) - t + second) \<and> NextScheduleTime st = Some (sched (last_schedule sb))
          else if baks (kube w) (ns, ActiveBackup (Status sb)) = None then r = Result (5 * second) \<and> ActiveBackup st = []
          else r = Result (10 * second) \<and> st = Status sb)))"
proof -
  note ns = in_store [OF assms(4)]
  have base: "objs (kube w) (request_of sb) = Some sb" using assms(3,4) by simp
  have told: "succeeds (SB_setCondition R sb st reason msg) w (\<lambda>r w'. baks (kube w') = baks (kube w) \<and> sql w' = sql w \<and>
      events w' = events w \<and> (\<exists>s. objs (kube w') = (objs (kube w))((ns, n) \<mapsto> sb\<lparr>Status := s\<rparr>) \<and> r = Result 0 \<and>
      ready_status (sb\<lparr>Status := s\<rparr>) = Some (st, reason)))" for st reason msg
  proof -
    obtain s where s: "observed (with_condition (kclient R) st reason msg sb) = sb\<lparr>Status := s\<rparr>"
      using observed_with_condition by blast
    from ready_status_with_condition [OF api_lawsD(7) [OF assms(1)], of st reason msg sb]
    have ready: "ready_status (sb\<lparr>Status := s\<rparr>) = Some (st, reason)" unfolding s .
    show ?thesis
      unfolding SB_setCondition_def wp_attempt wp_on_kube s
      by (rule wp_SB_patch [OF assms(1,2) base assms(5)]) (use ready assms(4) in \<open>auto simp: wp_ret simp del: ret_apply\<close>)
  qed
  show ?thesis
  proof (cases "ParseCron B (sb_Schedule (Spec sb))")
    case (Inl e)
    show ?thesis unfolding wp_ScheduledBackup [OF assms(1,3)] Inl sum.case by (rule told)
  next
    case (Inr sched)
    note todo = idle [OF Inr]
    consider (suspended) "sb_Suspend (Spec sb) = Some True"
      | (early) "sb_Suspend (Spec sb) \<noteq> Some True" "ActiveBackup (Status sb) = []"
      | (active) b where "sb_Suspend (Spec sb) \<noteq> Some True" "ActiveBackup (Status sb) \<noteq> []" "baks (kube w) (ns, ActiveBackup (Status sb)) = Some b"
      | (gone) "sb_Suspend (Spec sb) \<noteq> Some True" "ActiveBackup (Status sb) \<noteq> []" "baks (kube w) (ns, ActiveBackup (Status sb)) = None"
      by blast
    then show ?thesis
    proof cases
      case suspended
      show ?thesis unfolding wp_ScheduledBackup [OF assms(1,3)] Inr sum.case if_P [OF suspended] by (rule told)
    next
      case early
      with todo have t: "t < sched (last_schedule sb)" "sched (last_schedule sb) - t < 2 ^ 63 - second" by simp_all
      then have d: "wrap64 (saturate64 (sched (last_schedule sb) - t) + second) = sched (last_schedule sb) - t + second"
        by (simp add: saturate64_def second_def wrap64_id)
      show ?thesis
        unfolding wp_ScheduledBackup [OF assms(1,3)] Inr sum.case if_not_P [OF early(1)] early(2)
        by (simp only: simp_thms if_False if_True, rule wp_follow_schedule [OF assms(1,2) base assms(5,6)])
           (use t(1) d assms(4) in \<open>auto simp: wp_ret simp del: ret_apply\<close>)
    next
      case active
      with todo have "\<not> finished b" by simp
      with active show ?thesis
        using fun_upd_idem [where f = "objs (kube w)", OF assms(3)] by (subst wp_active_running [OF assms(1-4) Inr active]) (auto simp: Inr)
    next
      case gone
      show ?thesis
        unfolding wp_ScheduledBackup [OF assms(1,3)] Inr sum.case if_not_P [OF gone(1)] if_P [OF gone(2)] if_not_P [OF gone(2)] if_P [OF gone(3)]
          follow_active_def wp_attempt wp_on_kube conjunct1 [OF ns]
      proof (rule wp_GetBackup_missing [OF assms(2) gone(3)])
        fix e assume "IsNotFound e"
        then show "wp (if IsNotFound e then clearActiveBackup R sb else fail e) (w\<lparr>kube := kube w\<rparr>)
          (\<lambda>r w'. baks (kube w') = baks (kube w) \<and> sql w' = sql w \<and> events w' = events w \<and>
            (\<exists>st. objs (kube w') = (objs (kube w))((ns, n) \<mapsto> sb\<lparr>Status := st\<rparr>) \<and> r = Result (5 * second) \<and> ActiveBackup st = []))
          (\<lambda>_ _. False)"
          unfolding if_P [OF \<open>IsNotFound e\<close>] clearActiveBackup_def without_active_def wp_attempt wp_on_kube
          by (intro wp_SB_patch [OF assms(1,2) _ assms(5)]) (use base assms(4) in \<open>auto simp: wp_ret simp del: ret_apply\<close>)
      qed
    qed
  qed
qed

section \<open>Retention keeps the newest backups\<close>

definition newest :: "nat \<Rightarrow> 'a list \<Rightarrow> 'a list" where
  "newest k xs = rev (take k (rev xs))"

lemma add_history_newest: "add_history h e = newest 10 (h @ [e])"
  by (simp add: add_history_def newest_def maxHistoryLen_def Let_def take_rev)

text \<open>
  The completed backups of a schedule, and what a policy keeps of them at a time: nothing too old, no
  more than the maximal count, and a backup that is not too old goes only when as many at least as new
  as it are there, so that everything kept is at least as new.
\<close>

definition successful :: "(string \<times> string \<Rightarrow> Backup option) \<Rightarrow> string \<Rightarrow> string \<Rightarrow> Backup set" where
  "successful bs ns n = {b. cr_Namespace b = ns \<and> bs (request_of b) = Some b \<and> cr_Labels b schedule_label = Some n \<and>
     Phase (Status b) = PhaseCompleted}"

definition retains :: "'k BackupEnv \<Rightarrow> RetentionPolicy \<Rightarrow> int \<Rightarrow> Backup set \<Rightarrow> Backup set \<Rightarrow> bool" where
  "retains B pol t S K \<longleftrightarrow> K \<subseteq> S \<and> (\<forall>b \<in> K. \<not> too_old B pol t b) \<and>
     (\<forall>m > 0. MaxCount pol = Some m \<longrightarrow> int (card K) \<le> m) \<and>
     (\<forall>b \<in> S - K. \<not> too_old B pol t b \<longrightarrow> (\<exists>m > 0. MaxCount pol = Some m \<and> m \<le> int (card {c \<in> S - {b}. \<not> older c b})) \<and>
        (\<forall>c \<in> K. \<not> older c b))"

definition removed :: "(string \<times> string \<Rightarrow> Backup option) \<Rightarrow> Backup set \<Rightarrow> string \<times> string \<Rightarrow> Backup option" where
  "removed bs D i = (case bs i of None \<Rightarrow> None | Some b \<Rightarrow> if b \<in> D then None else Some b)"

lemma set_add_new:
  assumes "inj_on cr_Name (set xs \<union> set ys)"
  shows "set (fold add_new xs ys) = set ys \<union> set xs"
  using assms
proof (induction xs arbitrary: ys)
  case Nil
  then show ?case by simp
next
  case (Cons x xs)
  have "set (add_new x ys) = insert x (set ys)"
    using Cons.prems by (auto simp: add_new_def inj_on_def)
  with Cons show ?case by simp
qed

lemma distinct_add_new: "distinct (List.map cr_Name ys) \<Longrightarrow> distinct (List.map cr_Name (fold add_new xs ys))"
proof (induction xs arbitrary: ys)
  case Nil
  then show ?case by simp
next
  case (Cons x xs)
  then have "distinct (List.map cr_Name (add_new x ys))" by (auto simp: add_new_def)
  with Cons.IH show ?case by simp
qed

lemma excess_subset: "set (excess pol bs) \<subseteq> set bs"
  by (auto simp: excess_def dest: in_set_takeD split: option.split)

lemma to_delete_set:
  assumes "distinct (List.map cr_Name bs)"
  shows "set (to_delete B pol t bs) = {b \<in> set bs. too_old B pol t b} \<union> set (excess pol bs)"
    and "distinct (List.map cr_Name (to_delete B pol t bs))"
proof -
  have "inj_on cr_Name (set (excess pol bs) \<union> set (filter (too_old B pol t) bs))"
    by (rule inj_on_subset [OF distinct_map [THEN iffD1, THEN conjunct2, OF assms]]) (use excess_subset in auto)
  then show "set (to_delete B pol t bs) = {b \<in> set bs. too_old B pol t b} \<union> set (excess pol bs)"
    unfolding to_delete_def by (subst set_add_new) auto
  show "distinct (List.map cr_Name (to_delete B pol t bs))"
    unfolding to_delete_def by (rule distinct_add_new) (use assms in \<open>simp add: distinct_map_filter\<close>)
qed

lemma retains_to_delete:
  assumes "distinct bs" and "sorted_wrt (\<lambda>x y. \<not> older y x) bs"
  shows "retains B pol t (set bs) (set bs - ({b \<in> set bs. too_old B pol t b} \<union> set (excess pol bs)))"
    (is "retains B pol t ?S ?K")
proof -
  have split: "set bs = set (excess pol bs) \<union> set (drop (length bs - nat m) bs)" "int (length (drop (length bs - nat m) bs)) = m"
    "excess pol bs = take (length bs - nat m) bs"
    if "MaxCount pol = Some m" "0 < m" "m < int (length bs)" for m
    using that by (auto simp: excess_def simp flip: set_append)
  have few: "int (card ?K) \<le> m" if m: "MaxCount pol = Some m" "0 < m" for m
  proof (cases "m < int (length bs)")
    case True
    have "card ?K \<le> card (set (drop (length bs - nat m) bs))"
      by (rule card_mono) (use split(1) [OF m True] in auto)
    also have "\<dots> \<le> length (drop (length bs - nat m) bs)" by (rule card_length)
    finally show ?thesis using split(2) [OF m True] by linarith
  next
    case False
    have "card ?K \<le> card (set bs)" by (rule card_mono) auto
    also have "\<dots> \<le> length bs" by (rule card_length)
    finally show ?thesis using False by linarith
  qed
  have fresh: "(\<exists>m > 0. MaxCount pol = Some m \<and> m \<le> int (card {c \<in> ?S - {b}. \<not> older c b})) \<and> (\<forall>c \<in> ?K. \<not> older c b)"
    if b: "b \<in> ?S - ?K" "\<not> too_old B pol t b" for b
  proof -
    have ex: "b \<in> set (excess pol bs)" using b by auto
    then obtain m where m: "MaxCount pol = Some m" "0 < m" "m < int (length bs)"
      by (cases "MaxCount pol") (auto simp: excess_def split: if_splits)
    let ?new = "drop (length bs - nat m) bs"
    have order: "\<not> older c b" if "c \<in> set ?new" for c
      using assms(2) ex that unfolding split(3) [OF m]
      by (subst (asm) append_take_drop_id [of "length bs - nat m" bs, symmetric]) (auto simp only: sorted_wrt_append)
    have "set ?new \<subseteq> {c \<in> ?S - {b}. \<not> older c b}"
      using order ex assms(1) unfolding split(3) [OF m] by (auto dest: in_set_dropD set_take_disj_set_drop_if_distinct [of bs "length bs - nat m"
          "length bs - nat m", OF _ order_refl, THEN equals0D])
    then have "card (set ?new) \<le> card {c \<in> ?S - {b}. \<not> older c b}" by (intro card_mono) auto
    moreover have "card (set ?new) = length ?new" by (rule distinct_card) (use assms(1) in simp)
    ultimately have "m \<le> int (card {c \<in> ?S - {b}. \<not> older c b})" using split(2) [OF m] by linarith
    moreover have "?K \<subseteq> set ?new" using split(1) [OF m] by auto
    ultimately show ?thesis using m order by auto
  qed
  show ?thesis unfolding retains_def using few fresh by auto
qed

lemma wp_delete_all:
  fixes w :: "('k, 'c) world"
  assumes env: "backup_laws R B objs secs srvs baks"
    and "distinct (List.map request_of ds)" and "\<forall>d \<in> set ds. baks (kube w) (request_of d) \<noteq> None"
    and "\<And>k'. same_world objs secs srvs (kube w) k' \<Longrightarrow>
      baks k' = (\<lambda>i. if i \<in> request_of ` set ds then None else baks (kube w) i) \<Longrightarrow> Q () (w\<lparr>kube := k'\<rparr>)"
  shows "wp (for_each (delete_backup B) ds) w Q E"
  using assms(2-4)
proof (induction ds arbitrary: w)
  case Nil
  show ?case unfolding for_each.simps wp_ret using Nil(3) [of "kube w"] by simp
next
  case (Cons d ds)
  obtain k' where del: "DeleteBackup B d (kube w) = (Inr (), k')" and same: "same_world objs secs srvs (kube w) k'"
    and baks: "baks k' = (baks (kube w))(request_of d := None)"
    using backup_lawsD(8) [OF env, of "kube w" d] Cons.prems(2) by auto
  have "wp (for_each (delete_backup B) ds) (w\<lparr>kube := k'\<rparr>) Q E"
  proof (rule Cons.IH)
    fix k'' assume k'': "same_world objs secs srvs (kube (w\<lparr>kube := k'\<rparr>)) k''"
      "baks k'' = (\<lambda>i. if i \<in> request_of ` set ds then None else baks (kube (w\<lparr>kube := k'\<rparr>)) i)"
    have "baks k'' i = (if i \<in> request_of ` set (d # ds) then None else baks (kube w) i)" for i
      using fun_cong [OF k''(2), of i] fun_cong [OF baks, of i] by (cases "i = request_of d") auto
    then have "baks k'' = (\<lambda>i. if i \<in> request_of ` set (d # ds) then None else baks (kube w) i)" by (rule ext)
    with k''(1) same have "Q () (w\<lparr>kube := k''\<rparr>)"
      by (intro Cons.prems(3)) (auto elim: same_world_trans)
    then show "Q () (w\<lparr>kube := k', kube := k''\<rparr>)" by simp
  next
    have "baks k' (request_of x) = baks (kube w) (request_of x)" if "x \<in> set ds" for x
      using that Cons.prems(1) unfolding baks by (metis distinct.simps(2) fun_upd_other image_eqI list.simps(9) set_map)
    then show "\<forall>d \<in> set ds. baks (kube (w\<lparr>kube := k'\<rparr>)) (request_of d) \<noteq> None" using Cons.prems(2) by simp
  qed (use Cons.prems(1) in simp)
  then show ?case
    unfolding for_each.simps wp_andthen delete_backup_def wp_attempt wp_on_kube
      succeeds_eq [where m = "DeleteBackup B d", OF del] wp_ret .
qed

lemma wp_cleanupRetention:
  fixes w :: "('k, 'c) world"
  assumes env: "backup_laws R B objs secs srvs baks" and ns: "cr_Namespace sb = ns" "cr_Name sb = n"
    and pol: "sb_Retention (Spec sb) = Some pol"
    and post: "\<And>t k' K. same_world objs secs srvs (kube w) k' \<Longrightarrow> t \<in> range (\<lambda>k. fst (Clock B k)) \<Longrightarrow>
      retains B pol t (successful (baks (kube w)) ns n) K \<Longrightarrow>
      baks k' = removed (baks (kube w)) (successful (baks (kube w)) ns n - K) \<Longrightarrow> Q () (w\<lparr>kube := k'\<rparr>)"
  shows "wp (cleanupRetention B sb) w Q E"
proof -
  let ?S = "successful (baks (kube w)) ns n"
  obtain bs where listed: "ListScheduled B ns n (kube w) = (Inr bs, kube w)" and names: "distinct (List.map cr_Name bs)"
    and set: "set bs = {b. cr_Namespace b = ns \<and> baks (kube w) (request_of b) = Some b \<and> cr_Labels b schedule_label = Some n}"
    using backup_lawsD(6) [OF env] by blast
  let ?done = "completed_backups B bs"
  have perm: "mset ?done = mset (filter (\<lambda>b. Phase (Status b) = PhaseCompleted) bs)"
    unfolding completed_backups_def by (rule backup_lawsD(10) [OF env])
  have all: "set ?done = ?S"
    using set arg_cong [OF perm, of set_mset] by (auto simp: successful_def)
  have dn: "distinct (List.map cr_Name ?done)"
  proof -
    have "mset (List.map cr_Name ?done) = mset (List.map cr_Name (filter (\<lambda>b. Phase (Status b) = PhaseCompleted) bs))"
      using perm by simp
    moreover have "distinct (List.map cr_Name (filter (\<lambda>b. Phase (Status b) = PhaseCompleted) bs))"
      using names by (simp add: distinct_map_filter)
    ultimately show ?thesis by (metis mset_eq_imp_distinct_iff)
  qed
  have sorted: "sorted_wrt (\<lambda>x y. \<not> older y x) ?done"
    unfolding completed_backups_def by (rule backup_lawsD(11) [OF env])
  show ?thesis
    unfolding cleanupRetention_def pol option.case ns wp_or_fail wp_on_kube succeeds_eq [where m = "ListScheduled B ns n", OF listed] wp_attempt
  proof (rule wp_clock [OF env])
    fix k1 assume k1: "same_world objs secs srvs (kube (w\<lparr>kube := kube w\<rparr>)) k1" "baks k1 = baks (kube (w\<lparr>kube := kube w\<rparr>))"
    let ?t = "fst (Clock B (kube (w\<lparr>kube := kube w\<rparr>)))"
    let ?ds = "to_delete B pol ?t ?done"
    let ?K = "?S - set ?ds"
    note ds = to_delete_set [OF dn, of B pol ?t]
    have sub: "set ?ds \<subseteq> ?S" unfolding ds(1) using excess_subset [of pol ?done] all by auto
    have stored: "baks (kube w) (request_of d) = Some d" if "d \<in> set ?ds" for d
      using sub that unfolding successful_def by blast
    have kept: "retains B pol ?t ?S ?K"
      using retains_to_delete [OF distinct_map [THEN iffD1, THEN conjunct1, OF dn] sorted, of B pol ?t] unfolding ds(1) all .
    show "wp (for_each (delete_backup B) ?ds) (w\<lparr>kube := kube w, kube := k1\<rparr>) Q (\<lambda>e t. E e t)"
    proof (rule wp_delete_all [OF env])
      have "inj_on request_of (set ?ds)"
        using distinct_map [THEN iffD1, THEN conjunct2, OF ds(2)] by (auto simp: inj_on_def request_of_def)
      with ds(2) show "distinct (List.map request_of ?ds)" by (simp add: distinct_map)
      show "\<forall>d \<in> set ?ds. baks (kube (w\<lparr>kube := kube w, kube := k1\<rparr>)) (request_of d) \<noteq> None"
        using stored k1(2) by simp
      fix k' assume k': "same_world objs secs srvs (kube (w\<lparr>kube := kube w, kube := k1\<rparr>)) k'"
        "baks k' = (\<lambda>i. if i \<in> request_of ` set ?ds then None else baks (kube (w\<lparr>kube := kube w, kube := k1\<rparr>)) i)"
      have "baks k' i = removed (baks (kube w)) (?S - ?K) i" for i
      proof (cases "baks (kube w) i")
        case None
        then show ?thesis using k' k1 by (simp add: removed_def)
      next
        case (Some b)
        then have i: "request_of b = i" using backup_lawsD(4) [OF env, of "kube w" "fst i" "snd i" b] by simp
        have "i \<in> request_of ` set ?ds \<longleftrightarrow> b \<in> set ?ds"
        proof
          assume "i \<in> request_of ` set ?ds"
          then obtain d where d: "i = request_of d" "d \<in> set ?ds" by (rule imageE)
          from stored [OF d(2)] Some d(1) have "d = b" by simp
          with d(2) show "b \<in> set ?ds" by (simp only:)
        next
          assume "b \<in> set ?ds"
          then show "i \<in> request_of ` set ?ds" unfolding i [symmetric] by (rule imageI)
        qed
        moreover have "b \<in> ?S - ?K \<longleftrightarrow> b \<in> set ?ds" using sub by blast
        ultimately show ?thesis using Some fun_cong [OF k'(2), of i] k1(2) by (simp add: removed_def)
      qed
      then have "baks k' = removed (baks (kube w)) (?S - ?K)" by (rule ext)
      moreover have "same_world objs secs srvs (kube w) k'" using k1(1) k'(1) by (simp add: same_world_def)
      ultimately have "Q () (w\<lparr>kube := k'\<rparr>)" using post kept by blast
      then show "Q () (w\<lparr>kube := kube w, kube := k1, kube := k'\<rparr>)" by simp
    qed
  qed
qed

section \<open>A finished backup\<close>

text \<open>What a retention policy makes of the \<open>Backup\<close> objects.\<close>

definition pruned ::
  "'k BackupEnv \<Rightarrow> RetentionPolicy option \<Rightarrow> string \<Rightarrow> string \<Rightarrow> (string \<times> string \<Rightarrow> Backup option)
   \<Rightarrow> (string \<times> string \<Rightarrow> Backup option) \<Rightarrow> bool" where
  "pruned B pol ns n bs bs' \<longleftrightarrow>
     (case pol of
        None \<Rightarrow> bs' = bs
      | Some p \<Rightarrow> \<exists>t \<in> range (\<lambda>k. fst (Clock B k)). \<exists>K. retains B p t (successful bs ns n) K \<and>
          bs' = removed bs (successful bs ns n - K))"

lemma wp_onBackupCompleted:
  fixes w :: "('k, 'c) world"
  assumes laws: "api_laws R objs secs srvs" and env: "backup_laws R B objs secs srvs baks"
    and base: "objs (kube w) (request_of sb) = Some sb" and live: "\<not> cr_Deleting sb"
    and post: "\<And>st cs k'. st = (completed_status b (Status sb))\<lparr>Conditions := cs\<rparr> \<Longrightarrow>
      objs k' = (objs (kube w))(request_of sb \<mapsto> sb\<lparr>Status := st\<rparr>) \<Longrightarrow>
      ready_status (sb\<lparr>Status := st\<rparr>) = Some (ConditionTrue, ''BackupCompleted'') \<Longrightarrow>
      pruned B (sb_Retention (Spec sb)) (cr_Namespace sb) (cr_Name sb) (baks (kube w)) (baks k') \<Longrightarrow>
      Q (Result (30 * second)) (w\<lparr>kube := k'\<rparr>)"
  shows "wp (onBackupCompleted R B sb b) w Q E"
proof -
  let ?c = "ready_condition (cr_Generation sb) ConditionTrue ''BackupCompleted'' (''Last backup '' @ cr_Name b @ '' completed successfully'')"
  define st where "st = (completed_status b (Status sb))\<lparr>Conditions := SetStatusCondition (kclient R) (Conditions (Status sb)) ?c\<rparr>"
  have new: "with_condition (kclient R) ConditionTrue ''BackupCompleted'' (''Last backup '' @ cr_Name b @ '' completed successfully'')
      (sb\<lparr>Status := completed_status b (Status sb)\<rparr>) = sb\<lparr>Status := st\<rparr>"
    by (simp add: with_condition_def completed_status_def st_def)
  have ready: "ready_status (sb\<lparr>Status := st\<rparr>) = Some (ConditionTrue, ''BackupCompleted'')"
    using api_lawsD(7) [OF laws] by (simp add: ready_status_def condition_laws_def ready_condition_def st_def)
  show ?thesis
    unfolding onBackupCompleted_def Let_def new wp_attempt wp_on_kube wp_ret
  proof (rule wp_SB_patch [OF laws env base live])
    fix k1 assume k1: "objs k1 = (objs (kube w))(request_of sb \<mapsto> sb\<lparr>Status := st\<rparr>)" "baks k1 = baks (kube w)"
    have fin: "Q (Result (30 * second)) (w\<lparr>kube := k'\<rparr>)"
      if "objs k' = objs k1" "pruned B (sb_Retention (Spec sb)) (cr_Namespace sb) (cr_Name sb) (baks k1) (baks k')" for k'
      using post [OF st_def, of k'] that k1 ready by simp
    show "wp (cleanupRetention B (sb\<lparr>Status := st\<rparr>)) (w\<lparr>kube := k1\<rparr>) (\<lambda>_. Q (Result (30 * second))) (\<lambda>_. Q (Result (30 * second)))"
    proof (cases "sb_Retention (Spec sb)")
      case None
      then show ?thesis using fin [of k1] k1 by (simp add: cleanupRetention_def pruned_def wp_ret del: ret_apply)
    next
      case (Some pol)
      show ?thesis
        by (rule wp_cleanupRetention [OF env, where pol = pol], simp_all add: Some)
          (rule fin, use Some in \<open>auto simp: pruned_def same_world_def\<close>)
    qed
  qed
qed

lemma wp_onBackupFailed:
  fixes w :: "('k, 'c) world"
  assumes laws: "api_laws R objs secs srvs" and env: "backup_laws R B objs secs srvs baks"
    and base: "objs (kube w) (request_of sb) = Some sb" and live: "\<not> cr_Deleting sb"
    and post: "\<And>st cs w'. st = (failed_status b (Status sb))\<lparr>Conditions := cs\<rparr> \<Longrightarrow> sql w' = sql w \<Longrightarrow>
      objs (kube w') = (objs (kube w))(request_of sb \<mapsto> sb\<lparr>Status := st\<rparr>) \<Longrightarrow>
      ready_status (sb\<lparr>Status := st\<rparr>) = Some (ConditionFalse, ''BackupFailed'') \<Longrightarrow>
      baks (kube w') = baks (kube w) \<Longrightarrow> Q (Result (30 * second)) w'"
  shows "wp (onBackupFailed R sb b) w Q E"
proof -
  let ?c = "ready_condition (cr_Generation sb) ConditionFalse ''BackupFailed'' (''Last backup '' @ cr_Name b @ '' failed'')"
  define st where "st = (failed_status b (Status sb))\<lparr>Conditions := SetStatusCondition (kclient R) (Conditions (Status sb)) ?c\<rparr>"
  have new: "with_condition (kclient R) ConditionFalse ''BackupFailed'' (''Last backup '' @ cr_Name b @ '' failed'')
      (sb\<lparr>Status := failed_status b (Status sb)\<rparr>) = sb\<lparr>Status := st\<rparr>"
    by (simp add: with_condition_def failed_status_def st_def)
  have ready: "ready_status (sb\<lparr>Status := st\<rparr>) = Some (ConditionFalse, ''BackupFailed'')"
    using api_lawsD(7) [OF laws] by (simp add: ready_status_def condition_laws_def ready_condition_def st_def)
  show ?thesis
    unfolding onBackupFailed_def Let_def new wp_attempt wp_on_kube wp_effect wp_ret
    by (rule wp_SB_patch [OF laws env base live]) (rule post [OF st_def], use ready in simp_all)
qed

text \<open>
  C27. Once the active backup is finished, one reconciliation records it and makes room for the next
  one: it is no longer active, it ends the history of the last ten, the counter of its outcome goes
  up and the other stays, and the object says how it ended. After a success, and only then, the
  retention policy is applied to the completed backups of this schedule, and no other \<open>Backup\<close> is
  touched.
\<close>

theorem ScheduledBackup_finishes:
  assumes "api_laws R objs secs srvs" and "backup_laws R B objs secs srvs baks"
    and "objs (kube w) (ns, n) = Some sb" and "request_of sb = (ns, n)" and "\<not> cr_Deleting sb"
    and "ParseCron B (sb_Schedule (Spec sb)) = Inr sched" and "sb_Suspend (Spec sb) \<noteq> Some True"
    and "ActiveBackup (Status sb) \<noteq> []" and "baks (kube w) (ns, ActiveBackup (Status sb)) = Some b" and "finished b"
  shows "succeeds (ScheduledBackup_Reconcile R B ns n) w (\<lambda>r w'. r = Result (30 * second) \<and> sql w' = sql w \<and>
    (\<exists>st. objs (kube w') = (objs (kube w))((ns, n) \<mapsto> sb\<lparr>Status := st\<rparr>) \<and> ActiveBackup st = [] \<and>
       TotalBackups st = TotalBackups (Status sb) \<and> LastScheduleTime st = LastScheduleTime (Status sb) \<and>
       History st = newest 10 (History (Status sb) @ [history_entry b]) \<and>
       (if Phase (Status b) = PhaseCompleted then
          SuccessfulBackups st = wrap32 (SuccessfulBackups (Status sb) + 1) \<and> FailedBackups st = FailedBackups (Status sb) \<and>
          LastSuccessfulBackup st = cr_Name b \<and> ready_status (sb\<lparr>Status := st\<rparr>) = Some (ConditionTrue, ''BackupCompleted'')
        else
          FailedBackups st = wrap32 (FailedBackups (Status sb) + 1) \<and> SuccessfulBackups st = SuccessfulBackups (Status sb) \<and>
          LastSuccessfulBackup st = LastSuccessfulBackup (Status sb) \<and>
          ready_status (sb\<lparr>Status := st\<rparr>) = Some (ConditionFalse, ''BackupFailed''))) \<and>
    (if Phase (Status b) = PhaseCompleted then pruned B (sb_Retention (Spec sb)) ns n (baks (kube w)) (baks (kube w'))
     else baks (kube w') = baks (kube w)))"
proof -
  note ns = in_store [OF assms(4)]
  have base: "objs (kube w) (request_of sb) = Some sb" using assms(3,4) by simp
  have run: "wp (ScheduledBackup_Reconcile R B ns n) w Q E =
      (if Phase (Status b) = PhaseCompleted then wp (onBackupCompleted R B sb b) w Q E else wp (onBackupFailed R sb b) w Q E)" for Q E
    using assms(6-10) ns
    by (auto simp: wp_ScheduledBackup [OF assms(1,3)] follow_active_def wp_attempt wp_on_kube wp_GetBackup [OF assms(2)] finished_def)
  show ?thesis
  proof (cases "Phase (Status b) = PhaseCompleted")
    case True
    show ?thesis
      unfolding run if_P [OF True]
      by (rule wp_onBackupCompleted [OF assms(1,2) base assms(5)])
        (use assms(4) ns in \<open>auto simp: completed_status_def add_history_newest\<close>)
  next
    case False
    show ?thesis
      unfolding run if_not_P [OF False]
      by (rule wp_onBackupFailed [OF assms(1,2) base assms(5)])
        (use assms(4) in \<open>auto simp: failed_status_def add_history_newest\<close>)
  qed
qed

section \<open>The status stays well formed\<close>

text \<open>
  What every stored status satisfies: a history of at most ten entries, all of finished backups, and
  counters that fit their 32 bits.
\<close>

definition int32 :: "int \<Rightarrow> bool" where
  "int32 x \<longleftrightarrow> - (2 ^ 31) \<le> x \<and> x < 2 ^ 31"

definition status_ok :: "ScheduledBackupStatus \<Rightarrow> bool" where
  "status_ok st \<longleftrightarrow> length (History st) \<le> maxHistoryLen \<and>
     (\<forall>h \<in> set (History st). h_Phase h = PhaseCompleted \<or> h_Phase h = PhaseFailed) \<and>
     int32 (TotalBackups st) \<and> int32 (SuccessfulBackups st) \<and> int32 (FailedBackups st)"

text \<open>
  An API server of which nothing is known but that a read returns what is stored and that a patch,
  whether it is reported as failed or not, leaves the object, stores the new one, or removes it. All
  other calls may fail or lie.
\<close>

definition safe_api ::
  "('k, 'c) SBReconciler \<Rightarrow> 'k BackupEnv \<Rightarrow> ('k \<Rightarrow> string \<times> string \<Rightarrow> ScheduledBackup option) \<Rightarrow> bool" where
  "safe_api R B objs \<longleftrightarrow>
     (\<forall>k ns n. objs (snd (GetCR (crs R) ns n k)) = objs k \<and> (\<forall>cr. fst (GetCR (crs R) ns n k) = Inr cr \<longrightarrow> objs k (ns, n) = Some cr)) \<and>
     (\<forall>k base cr. objs (snd (PatchStatus (crs R) base cr k)) \<in> {objs k, (objs k)(request_of cr \<mapsto> cr), (objs k)(request_of cr := None)} \<and>
        (\<forall>x. fst (PatchStatus (crs R) base cr k) = Inr x \<longrightarrow> x = cr)) \<and>
     (\<forall>k. objs (snd (Clock B k)) = objs k) \<and>
     (\<forall>k ns n. objs (snd (GetBackup B ns n k)) = objs k) \<and>
     (\<forall>k ns n. objs (snd (ListScheduled B ns n k)) = objs k) \<and>
     (\<forall>k b. objs (snd (CreateBackup B b k)) = objs k) \<and>
     (\<forall>k b. objs (snd (DeleteBackup B b k)) = objs k)"

definition all_ok :: "('k \<Rightarrow> string \<times> string \<Rightarrow> ScheduledBackup option) \<Rightarrow> ('k, 'c) world \<Rightarrow> bool" where
  "all_ok objs w \<longleftrightarrow> (\<forall>i sb. objs (kube w) i = Some sb \<longrightarrow> status_ok (Status sb))"

lemma int32_wrap [simp]: "int32 (wrap32 x)"
  using pos_mod_bound [of "2 ^ 32" "x + 2 ^ 31"] pos_mod_sign [of "2 ^ 32" "x + 2 ^ 31"] by (simp add: int32_def wrap32_def)

lemma history_ok:
  "length (add_history h e) \<le> maxHistoryLen" "set (add_history h e) \<subseteq> insert e (set h)"
  by (auto simp: add_history_def Let_def dest: in_set_dropD)

lemma always_patch:
  assumes "safe_api R B objs" and "all_ok objs w" and "status_ok (Status cr)"
  shows "wp (on_kube (PatchStatus (crs R) base cr)) w (\<lambda>x w'. all_ok objs w' \<and> x = cr) (\<lambda>_. all_ok objs)"
proof -
  let ?k = "snd (PatchStatus (crs R) base cr (kube w))"
  have "objs ?k \<in> {objs (kube w), (objs (kube w))(request_of cr \<mapsto> cr), (objs (kube w))(request_of cr := None)}"
    using assms(1) unfolding safe_api_def by blast
  then consider "objs ?k = objs (kube w)" | "objs ?k = (objs (kube w))(request_of cr \<mapsto> cr)"
    | "objs ?k = (objs (kube w))(request_of cr := None)" by blast
  then have ok: "all_ok objs (w\<lparr>kube := ?k\<rparr>)"
    by cases (use assms(2,3) in \<open>auto simp: all_ok_def split: if_splits\<close>)
  have "x = cr" if "fst (PatchStatus (crs R) base cr (kube w)) = Inr x" for x
    using assms(1) that unfolding safe_api_def by blast
  with ok show ?thesis
    unfolding wp_on_kube by (cases "PatchStatus (crs R) base cr (kube w)") (auto simp: wp_def split: sum.split)
qed

lemma always_quiet:
  assumes "\<And>k. objs (snd (m k)) = objs k" and "all_ok objs w"
  shows "always (on_kube m) w (all_ok objs)"
  using assms unfolding always_iff on_kube_def all_ok_def by (simp split: prod.split) (metis snd_conv)

lemma always_attempt:
  assumes "wp m w Q E" and "\<And>x w'. Q x w' \<Longrightarrow> always (k x) w' P" and "\<And>e w'. E e w' \<Longrightarrow> always (h e) w' P"
  shows "always (attempt m h k) w P"
  unfolding wp_attempt using assms by (rule wp_mono)

lemma safe_apiD:
  assumes "safe_api R B objs"
  shows "objs (snd (GetBackup B ns n k)) = objs k" "objs (snd (ListScheduled B ns n k)) = objs k"
    "objs (snd (CreateBackup B b k)) = objs k" "objs (snd (DeleteBackup B b k)) = objs k" "objs (snd (Clock B k)) = objs k"
  using assms unfolding safe_api_def by blast+

lemma always_calls:
  assumes "safe_api R B objs" and "all_ok objs w"
  shows "always (on_kube (GetBackup B ns n)) w (all_ok objs)" "always (on_kube (ListScheduled B ns n)) w (all_ok objs)"
    "always (on_kube (CreateBackup B b)) w (all_ok objs)" "always (on_kube (DeleteBackup B b)) w (all_ok objs)"
  by (rule always_quiet [where m = "GetBackup B ns n", OF safe_apiD(1) [OF assms(1)] assms(2)]
      always_quiet [where m = "ListScheduled B ns n", OF safe_apiD(2) [OF assms(1)] assms(2)]
      always_quiet [where m = "CreateBackup B b", OF safe_apiD(3) [OF assms(1)] assms(2)]
      always_quiet [where m = "DeleteBackup B b", OF safe_apiD(4) [OF assms(1)] assms(2)])+

lemma always_clock:
  assumes "safe_api R B objs" and "all_ok objs w"
  shows "always (now (Clock B)) w (all_ok objs)"
  using assms(2) safe_apiD(5) [OF assms(1), of "kube w"] unfolding always_iff now_def all_ok_def by (simp split: prod.split) (metis snd_conv)

lemma always_ends:
  "always (ret x) w P = P w" "always (fail e) w P = P w" "always (Pair r) w P = P w" "all_ok objs (record_event ty reason msg w) = all_ok objs w"
  by (cases r) (simp_all add: wp_ret wp_fail wp_def all_ok_def)

lemma always_set_status:
  assumes "safe_api R B objs" and "all_ok objs w" and "status_ok (Status cr)" and "\<And>w'. all_ok objs w' \<Longrightarrow> always (k cr) w' (all_ok objs)"
  shows "always (attempt (on_kube (PatchStatus (crs R) base cr)) fail k) w (all_ok objs)"
  by (rule always_attempt [OF always_patch [OF assms(1-3)]]) (use assms(4) in \<open>auto simp: always_ends\<close>)

lemma always_cleanup:
  assumes "safe_api R B objs" and "all_ok objs w"
  shows "always (cleanupRetention B sb) w (all_ok objs)"
proof -
  have del: "always (for_each (delete_backup B) ds) w' (all_ok objs)" if "all_ok objs w'" for ds w'
    using that
  proof (induction ds arbitrary: w')
    case Nil
    then show ?case by (simp add: always_ends)
  next
    case (Cons d ds)
    have "always (delete_backup B d) w' (all_ok objs)"
      unfolding delete_backup_def by (rule always_attempt [OF always_calls(4) [OF assms(1) Cons.prems]]) (auto simp: always_ends)
    then show ?case unfolding for_each.simps andthen_def by (rule always_attempt) (auto simp: always_ends intro: Cons.IH)
  qed
  show ?thesis
  proof (cases "sb_Retention (Spec sb)")
    case None
    with assms(2) show ?thesis by (simp add: cleanupRetention_def always_ends)
  next
    case (Some pol)
    show ?thesis
      unfolding cleanupRetention_def Some option.case or_fail_def
      by (rule always_attempt [OF always_calls(2) [OF assms]], rule always_attempt [OF always_clock [OF assms(1)]]) (auto simp: always_ends intro: del)
  qed
qed

lemma status_ok_with_condition [simp]: "status_ok (Status (with_condition K st r m sb)) = status_ok (Status sb)"
  "status_ok (Status (observed sb)) = status_ok (Status sb)"
  by (simp_all add: with_condition_def observed_def status_ok_def)

lemma status_ok_steps:
  assumes "status_ok st"
  shows "status_ok (st\<lparr>ActiveBackup := a\<rparr>)" "status_ok (st\<lparr>NextScheduleTime := t\<rparr>)"
    "status_ok (st\<lparr>LastScheduleTime := t, ActiveBackup := a, TotalBackups := wrap32 x\<rparr>)"
    "finished b \<Longrightarrow> status_ok (completed_status b st)" "finished b \<Longrightarrow> status_ok (failed_status b st)"
  using assms history_ok [of "History st" "history_entry b"]
  by (auto simp: status_ok_def completed_status_def failed_status_def history_entry_def finished_def)

lemma always_follow_active:
  fixes w :: "('k, 'c) world"
  assumes "safe_api R B objs" and "all_ok objs w" and "status_ok (Status sb)"
  shows "always (follow_active R B sb) w (all_ok objs)"
  unfolding follow_active_def
proof (rule always_attempt [OF always_calls(1) [OF assms(1,2)]])
  fix e and w' :: "('k, 'c) world" assume ok: "all_ok objs w'"
  have "always (clearActiveBackup R sb) w' (all_ok objs)"
    unfolding clearActiveBackup_def without_active_def
    by (rule always_set_status [OF assms(1) ok]) (use status_ok_steps [OF assms(3)] in \<open>auto simp: always_ends\<close>)
  with ok show "always (if IsNotFound e then clearActiveBackup R sb else fail e) w' (all_ok objs)"
    by (simp add: always_ends)
next
  fix b :: Backup and w' :: "('k, 'c) world" assume ok: "all_ok objs w'"
  have "always (onBackupCompleted R B sb b) w' (all_ok objs)" if "finished b"
    unfolding onBackupCompleted_def Let_def
    by (rule always_set_status [OF assms(1) ok])
      (use that status_ok_steps [OF assms(3)] in \<open>auto simp: always_ends intro!: always_attempt [OF always_cleanup [OF assms(1)]]\<close>)
  moreover have "always (onBackupFailed R sb b) w' (all_ok objs)" if "finished b"
    unfolding onBackupFailed_def Let_def
    by (rule always_set_status [OF assms(1) ok]) (use that status_ok_steps [OF assms(3)] in \<open>auto simp: always_ends wp_effect\<close>)
  ultimately show "always (if Phase (Status b) = PhaseCompleted then onBackupCompleted R B sb b
      else if Phase (Status b) = PhaseFailed then onBackupFailed R sb b else ret (Result (10 * second))) w' (all_ok objs)"
    using ok by (simp add: always_ends finished_def)
qed

lemma always_follow_schedule:
  fixes w :: "('k, 'c) world"
  assumes "safe_api R B objs" and "all_ok objs w" and "status_ok (Status sb)"
  shows "always (follow_schedule R B sched sb) w (all_ok objs)"
proof -
  have create: "always (create_backup R B sb' t) w' (all_ok objs)"
    if ok: "all_ok objs w'" "status_ok (Status sb')" for sb' t and w' :: "('k, 'c) world"
  proof -
    have cond: "always (SB_setCondition R sb' st r m) w' (all_ok objs)" for st r m
      unfolding SB_setCondition_def by (rule always_set_status [OF assms(1)]) (use ok in \<open>auto simp: always_ends\<close>)
    have made: "always (or_fail e (on_kube (CreateBackup B b)) (\<lambda>_. effect (record_event ty r m)
        (attempt (on_kube (PatchStatus (crs R) sb' (backup_started name t sb'))) fail (\<lambda>_. ret x)))) w' (all_ok objs)" for e b ty r m name x
      unfolding or_fail_def
    proof (rule always_attempt [OF always_calls(3) [OF assms(1) ok(1)]])
      fix u and w1 :: "('k, 'c) world" assume "all_ok objs w1"
      then show "always (effect (record_event ty r m) (attempt (on_kube (PatchStatus (crs R) sb' (backup_started name t sb'))) fail
          (\<lambda>_. ret x))) w1 (all_ok objs)"
        unfolding wp_effect
        by (intro always_set_status [OF assms(1)])
          (use status_ok_steps(3) [OF ok(2)] in \<open>simp_all add: always_ends backup_started_def\<close>)
    qed (simp add: always_ends)
    show ?thesis
      unfolding create_backup_def Let_def
      by (split sum.split | intro conjI allI impI | rule cond made | simp only: always_ends ok(1))+
  qed
  have next_time: "wp (record_next R sb t) w' (\<lambda>sb' w''. all_ok objs w'' \<and> status_ok (Status sb')) (\<lambda>_. all_ok objs)"
    if ok: "all_ok objs w'" for t and w' :: "('k, 'c) world"
  proof -
    let ?sb = "sb\<lparr>Status := (Status sb)\<lparr>NextScheduleTime := Some t\<rparr>\<rparr>"
    have st: "status_ok (Status ?sb)" using status_ok_steps(2) [OF assms(3)] by simp
    then have "wp (patch_ignored R sb ?sb) w' (\<lambda>sb' w''. all_ok objs w'' \<and> status_ok (Status sb')) (\<lambda>_. all_ok objs)"
      unfolding patch_ignored_def wp_attempt
      by (rule wp_mono [OF always_patch [OF assms(1) ok]]) (simp_all only: wp_ret st simp_thms)
    then show ?thesis using ok assms(3) by (simp add: record_next_def wp_ret del: ret_apply)
  qed
  show ?thesis
    unfolding follow_schedule_def Let_def
    by (rule always_attempt [OF always_clock [OF assms(1,2)]], rule always_attempt [OF next_time])
      (auto simp: always_ends intro: create)
qed

text \<open>
  C28. Whatever the API server does, every pass leaves every stored status well formed.
\<close>

theorem ScheduledBackup_status_typed:
  fixes w :: "('k, 'c) world"
  assumes "safe_api R B objs" and "all_ok objs w"
  shows "all_ok objs (snd (ScheduledBackup_Reconcile R B ns n w))"
proof -
  have get: "wp (on_kube (GetCR (crs R) ns n)) w (\<lambda>sb w'. all_ok objs w' \<and> status_ok (Status sb)) (\<lambda>_. all_ok objs)"
  proof -
    have "objs (snd (GetCR (crs R) ns n (kube w))) = objs (kube w)"
      "\<And>cr. fst (GetCR (crs R) ns n (kube w)) = Inr cr \<Longrightarrow> objs (kube w) (ns, n) = Some cr"
      using assms(1) unfolding safe_api_def by blast+
    with assms(2) show ?thesis
      unfolding wp_on_kube by (cases "GetCR (crs R) ns n (kube w)") (auto simp: wp_def all_ok_def split: sum.split)
  qed
  show ?thesis
    unfolding always_iff [symmetric] ScheduledBackup_Reconcile_def fetch_def
  proof (rule always_attempt [OF get])
    show "always (if IsNotFound e then ret (Result 0) else fail e) w' (all_ok objs)" if "all_ok objs w'" for e w'
      using that by (simp add: wp_ret wp_fail del: ret_apply fail_apply)
  next
    fix sb :: ScheduledBackup and w' :: "('k, 'c) world" assume ok: "all_ok objs w' \<and> status_ok (Status sb)"
    have "always (SB_setCondition R sb st r m) w' (all_ok objs)" for st r m
      unfolding SB_setCondition_def by (rule always_set_status [OF assms(1)]) (use ok in \<open>auto simp: always_ends\<close>)
    with always_follow_active [OF assms(1)] always_follow_schedule [OF assms(1)] ok
    show "always (case ParseCron B (sb_Schedule (Spec sb)) of
       Inl e \<Rightarrow> SB_setCondition R sb ConditionFalse ''InvalidSchedule'' (''invalid cron expression: '' @ Error e)
     | Inr sched \<Rightarrow>
         if sb_Suspend (Spec sb) = Some True then SB_setCondition R sb ConditionTrue ''Suspended'' ''Schedule is suspended''
         else if ActiveBackup (Status sb) \<noteq> [] then follow_active R B sb
         else follow_schedule R B sched sb) w' (all_ok objs)"
      by (simp split: sum.split)
  qed
qed

section \<open>Names do not collide\<close>

text \<open>
  With the clock in UTC, a schedule never uses a name twice for backups of different seconds from
  1970 to 9999: the creation of a backup does not fail because of an earlier one.
\<close>

theorem backup_names_distinct:
  assumes "0 \<le> s" and "s < 253402300800 * second" and "0 \<le> t" and "t < 253402300800 * second"
    and "s div second \<noteq> t div second"
  shows "backup_name (\<lambda>_. 0) sb s \<noteq> backup_name (\<lambda>_. 0) sb t"
proof
  assume "backup_name (\<lambda>_. 0) sb s = backup_name (\<lambda>_. 0) sb t"
  then have "wall_stamp (s div second) = wall_stamp (t div second)"
    by (simp add: backup_name_def stamp_def second_def)
  then have "s div second = t div second"
    by (intro wall_stamp_inject)
      (use assms(1-4) in \<open>simp_all add: second_def pos_imp_zdiv_nonneg_iff div_less_iff_less_mult\<close>)
  with assms(5) show False ..
qed

end
