(* ===== verification/ScheduledBackup_Examples.thy ===== *)
theory ScheduledBackup_Examples
  imports ScheduledBackup_Controller
begin

text \<open>
  Schedules on an API server in memory: the properties of \<open>ScheduledBackup_Controller\<close> at concrete
  inputs, their hypotheses discharged.
\<close>

section \<open>Examples\<close>

text \<open>An API server in memory that also stores backups, in a list; the first one of a name counts.\<close>

definition beside :: "('a, 's) op \<Rightarrow> ('a, 's \<times> 'b) op" where
  "beside m k = (case m (fst k) of (r, s) \<Rightarrow> (r, (s, snd k)))"

definition reconciler_beside :: "('cr, 's, 'c) Reconciler \<Rightarrow> ('cr, 's \<times> 'b, 'c) Reconciler" where
  "reconciler_beside R =
     \<lparr>kclient = \<lparr>GetSecret = (\<lambda>ns n. beside (GetSecret (kclient R) ns n)), GetSQLServer = (\<lambda>ns n. beside (GetSQLServer (kclient R) ns n)),
        SetStatusCondition = SetStatusCondition (kclient R), ContainsFinalizer = ContainsFinalizer (kclient R),
        AddFinalizer = AddFinalizer (kclient R), RemoveFinalizer = RemoveFinalizer (kclient R)\<rparr>,
      crs = \<lparr>GetCR = (\<lambda>ns n. beside (GetCR (crs R) ns n)), UpdateCR = (\<lambda>cr. beside (UpdateCR (crs R) cr)),
        PatchStatus = (\<lambda>base cr. beside (PatchStatus (crs R) base cr))\<rparr>,
      SQLClientFactory = SQLClientFactory R, Int63n = Int63n R, range_order = range_order R\<rparr>"

lemma answers_beside: "answers x (s, b) (beside m (s, b)) = answers x s (m s)"
  by (auto simp: answers_def beside_def split: prod.split option.split)

lemma accepts_beside:
  "accepts (objs \<circ> fst) (secs \<circ> fst) (srvs \<circ> fst) cr (s, b) (beside m (s, b)) = accepts objs secs srvs cr s (m s)"
  by (auto simp: accepts_def beside_def split: prod.split)

lemma api_laws_beside:
  assumes "api_laws R objs secs srvs"
  shows "api_laws (reconciler_beside R) (objs \<circ> fst) (secs \<circ> fst) (srvs \<circ> fst)"
  using assms by (simp add: api_laws_def reconciler_beside_def answers_beside accepts_beside finalizer_laws_def condition_laws_def)

lemma beside_frame [simp]: "snd (snd (beside m k)) = snd k"
  by (simp add: beside_def split: prod.split)

definition stored_backup :: "Backup list \<Rightarrow> string \<times> string \<Rightarrow> Backup option" where
  "stored_backup bs i = find (\<lambda>b. request_of b = i) bs"

definition ex_backup_env :: "int \<Rightarrow> (int \<Rightarrow> int) \<Rightarrow> ('s \<times> Backup list) BackupEnv" where
  "ex_backup_env t next_after = \<lparr>Clock = (\<lambda>k. (t, k)), ParseCron = (\<lambda>_. Inr next_after),
     GetBackup = (\<lambda>ns n k. (case stored_backup (snd k) (ns, n) of Some b \<Rightarrow> (Inr b, k) | None \<Rightarrow> (Inl (GoErr True ''not found''), k))),
     ListScheduled = (\<lambda>ns n k. (Inr (filter (\<lambda>b. cr_Namespace b = ns \<and> stored_backup (snd k) (request_of b) = Some b \<and>
        cr_Labels b schedule_label = Some n) (remdups (snd k))), k)),
     CreateBackup = (\<lambda>b k. (Inr (), (fst k, b\<lparr>cr_CreationTimestamp := t, cr_Generation := 1\<rparr> # snd k))),
     DeleteBackup = (\<lambda>b k. (Inr (), (fst k, filter (\<lambda>d. request_of d \<noteq> request_of b) (snd k)))),
     SetControllerReference = (\<lambda>_ b. Inr b), TemplateEngine = (\<lambda>_ _. Inl (Errorf ''template'')), ZoneOffset = (\<lambda>_. 0),
     DurationOf = (\<lambda>_. None), SortSlice = (\<lambda>_. sort_key cr_CreationTimestamp)\<rparr>"

lemma stored_backup_some: "stored_backup bs i = Some b \<Longrightarrow> request_of b = i \<and> b \<in> set bs"
  by (auto simp: stored_backup_def find_Some_iff)

lemma stored_backup_Nil [simp]: "stored_backup [] i = None"
  by (simp add: stored_backup_def)

lemma stored_backup_changes:
  "stored_backup (b # bs) = (stored_backup bs)(request_of b \<mapsto> b)"
  "stored_backup (filter (\<lambda>d. request_of d \<noteq> i) bs) = (stored_backup bs)(i := None)"
proof -
  show "stored_backup (b # bs) = (stored_backup bs)(request_of b \<mapsto> b)"
    by (rule ext) (simp add: stored_backup_def)
  show "stored_backup (filter (\<lambda>d. request_of d \<noteq> i) bs) = (stored_backup bs)(i := None)"
    by (rule ext, induction bs) (auto simp: stored_backup_def)
qed

lemma sorted_by_creation: "sorted_wrt (\<lambda>x y. \<not> older y x) (sort_key cr_CreationTimestamp bs)"
proof -
  have "sorted (List.map cr_CreationTimestamp (sort_key cr_CreationTimestamp bs))" by (rule sorted_sort_key)
  then show ?thesis by (auto simp: sorted_wrt_map older_def not_less elim: sorted_wrt_mono_rel [rotated])
qed

lemma ex_listed:
  fixes bs :: "Backup list" and ns n :: string
  defines "listed \<equiv> filter (\<lambda>b. cr_Namespace b = ns \<and> stored_backup bs (request_of b) = Some b \<and> cr_Labels b schedule_label = Some n)
    (remdups bs)"
  shows "distinct (List.map cr_Name listed)"
    and "set listed = {b. cr_Namespace b = ns \<and> stored_backup bs (request_of b) = Some b \<and> cr_Labels b schedule_label = Some n}"
proof -
  have "inj_on cr_Name (set listed)"
  proof (rule inj_onI)
    fix x y assume xy: "x \<in> set listed" "y \<in> set listed" "cr_Name x = cr_Name y"
    have "stored_backup bs (request_of x) = Some x" "cr_Namespace x = ns" using xy(1) unfolding listed_def by simp_all
    moreover have "stored_backup bs (request_of y) = Some y" "cr_Namespace y = ns" using xy(2) unfolding listed_def by simp_all
    ultimately show "x = y" using xy(3) by (metis option.inject request_of_def)
  qed
  then show "distinct (List.map cr_Name listed)" by (simp add: distinct_map listed_def)
  show "set listed = {b. cr_Namespace b = ns \<and> stored_backup bs (request_of b) = Some b \<and> cr_Labels b schedule_label = Some n}"
    unfolding listed_def by (auto dest: stored_backup_some)
qed

lemma ex_backup_laws:
  "backup_laws (reconciler_beside (ex_reconciler cl)) (ex_backup_env t next_after) (st_objs \<circ> fst) (st_secs \<circ> fst) (st_srvs \<circ> fst)
     (stored_backup \<circ> snd)"
  unfolding backup_laws_def
proof (intro conjI allI impI, goal_cases)
  case (4 k ns n b)
  then show ?case using stored_backup_some by auto
next
  case (6 k ns n)
  show ?case using ex_listed [where bs = "snd k" and ns = ns and n = n] by (auto simp only: ex_backup_env_def BackupEnv.simps comp_apply)
next
  case (7 k b)
  show ?case
    by (rule exI [of _ t], rule exI [of _ "(fst k, b\<lparr>cr_CreationTimestamp := t, cr_Generation := 1\<rparr> # snd k)"])
      (simp add: ex_backup_env_def same_world_def stored_backup_changes request_of_def)
next
  case (8 k b)
  show ?case by (simp add: ex_backup_env_def same_world_def stored_backup_changes)
next
  case (11 bs)
  show ?case by (simp add: ex_backup_env_def sorted_by_creation)
qed (simp_all add: ex_backup_env_def clock_laws_def reconciler_beside_def answers_def split: option.split)

text \<open>
  A schedule that never fires, such as one for 30 February: its next time is the zero time, which is
  always over.
\<close>

definition ex_schedule :: "string \<Rightarrow> ScheduledBackup" where
  "ex_schedule active = ex_cr \<lparr>sb_Server = ex_server, sb_DatabaseName = ''db'', sb_Schedule = ''0 0 30 2 *'', sb_Type = ''Full'',
     sb_Compression = None, sb_DestinationTemplate = ''{{.DatabaseName}}.bak'',
     sb_Retention = Some \<lparr>MaxCount = Some 1, MaxAge = None\<rparr>, sb_Suspend = None\<rparr>
     \<lparr>Conditions = [], ObservedGeneration = 0, LastScheduleTime = None, NextScheduleTime = None, LastSuccessfulBackup = [],
      ActiveBackup = active, History = [], TotalBackups = 0, SuccessfulBackups = 0, FailedBackups = 0\<rparr>"

definition ex_old_backup :: "string \<Rightarrow> int \<Rightarrow> string \<Rightarrow> Backup" where
  "ex_old_backup name t phase = (new_backup (ex_schedule []) name ''f'')\<lparr>cr_CreationTimestamp := t,
     Status := \<lparr>Conditions = [], ObservedGeneration = 0, Phase = phase, StartTime = None, CompletionTime = None\<rparr>\<rparr>"

definition ex_schedule_world :: "string \<Rightarrow> Backup list \<Rightarrow> (ScheduledBackup store \<times> Backup list, MockClient) world" where
  "ex_schedule_world active bs = \<lparr>kube = (kube (ex_world (ex_schedule active) NewMockClient), bs), sql = NewMockClient, events = []\<rparr>"

definition ex_schedule_reconciler :: "(ScheduledBackup store \<times> Backup list, MockClient) SBReconciler" where
  "ex_schedule_reconciler = reconciler_beside (ex_reconciler mock_client)"

lemma ex_schedule_laws:
  "api_laws ex_schedule_reconciler (st_objs \<circ> fst) (st_secs \<circ> fst) (st_srvs \<circ> fst)"
  "backup_laws ex_schedule_reconciler (ex_backup_env t f) (st_objs \<circ> fst) (st_secs \<circ> fst) (st_srvs \<circ> fst) (stored_backup \<circ> snd)"
  unfolding ex_schedule_reconciler_def by (rule api_laws_beside [OF ex_api_laws], rule ex_backup_laws)

lemma ex_schedule_simps [simp]:
  "kube (ex_schedule_world a bs) = (kube (ex_world (ex_schedule a) NewMockClient), bs)"
  "cr_Namespace (ex_schedule a) = ''ns''" "cr_Name (ex_schedule a) = ''obj''"
  "request_of (ex_schedule a) = (''ns'', ''obj'')" "\<not> cr_Deleting (ex_schedule a)" "ActiveBackup (Status (ex_schedule a)) = a"
  "sb_Suspend (Spec (ex_schedule a)) = None" "ParseCron (ex_backup_env t f) s = Inr f" "Clock (ex_backup_env t f) k = (t, k)"
  "events (ex_schedule_world a bs) = []"
  by (simp_all add: ex_schedule_world_def ex_schedule_def ex_backup_env_def ex_cr_def request_of_def)

lemma ex_schedule_spec:
  "sb_DestinationTemplate (Spec (ex_schedule a)) = ''{{.DatabaseName}}.bak''" "sb_DatabaseName (Spec (ex_schedule a)) = ''db''"
  "sb_Retention (Spec (ex_schedule a)) = Some \<lparr>MaxCount = Some 1, MaxAge = None\<rparr>"
  by (simp_all add: ex_schedule_def)


lemma ex_destination: "renderDestination other zone ''{{.DatabaseName}}.bak'' db t ty = Inr (db @ ''.bak'')"
proof -
  have "parse_template ''{{.DatabaseName}}.bak'' = Some [Field ''DatabaseName'', Literal ''.bak'']" by code_simp
  then show ?thesis by (simp add: renderDestination_def Let_def del: parse_template.simps)
qed

lemma ex_stamp: "stamp (\<lambda>_. 0) 0 = ''19700101-000000''"
  by code_simp

theorem ScheduledBackup_creates_one_witness:
  "succeeds (ScheduledBackup_Reconcile ex_schedule_reconciler (ex_backup_env 0 (\<lambda>_. zero_time)) ''ns'' ''obj'') (ex_schedule_world [] [])
     (\<lambda>r w'. map_option (\<lambda>b. b_Destination (Spec b)) (stored_backup (snd (kube w')) (''ns'', ''obj-19700101-000000'')) = Some ''db.bak'')"
proof -
  have name: "''obj-19700101-000000'' = backup_name (ZoneOffset (ex_backup_env 0 (\<lambda>_. zero_time))) (ex_schedule []) 0"
    by (simp add: backup_name_def ex_backup_env_def ex_stamp)
  show ?thesis
    by (rule wp_mono [OF ScheduledBackup_creates_one [OF ex_schedule_laws, where sb = "ex_schedule []" and destination = "''db.bak''",
          OF _ _ _ _ _ _ _ _ _ name]])
       (auto simp: new_backup_def zero_time_def last_schedule_def ex_schedule_spec ex_destination)
qed

theorem ScheduledBackup_idle_witness:
  "succeeds (ScheduledBackup_Reconcile ex_schedule_reconciler (ex_backup_env 0 (\<lambda>_. 3600 * second)) ''ns'' ''obj'') (ex_schedule_world [] [])
     (\<lambda>r w'. r = Result (3601 * second) \<and> stored_backup (snd (kube w')) = stored_backup [])"
  by (rule wp_mono [OF ScheduledBackup_idle [OF ex_schedule_laws, where sb = "ex_schedule []" and t = 0]])
     (auto simp: second_def)

lemma ex_old_backup_simps [simp]:
  "request_of (ex_old_backup nm t ph) = (''ns'', nm)" "Phase (Status (ex_old_backup nm t ph)) = ph"
  "cr_Namespace (ex_old_backup nm t ph) = ''ns''" "cr_Name (ex_old_backup nm t ph) = nm"
  "cr_Labels (ex_old_backup nm t ph) schedule_label = Some ''obj''" "cr_CreationTimestamp (ex_old_backup nm t ph) = t"
  by (simp_all add: ex_old_backup_def new_backup_def request_of_def)

text \<open>Two backups were completed and one may be kept: the older one goes.\<close>

definition ex_backups :: "Backup list" where
  "ex_backups = [ex_old_backup ''new'' 2 PhaseCompleted, ex_old_backup ''old'' 1 PhaseCompleted]"

lemma ex_backups_differ: "ex_old_backup ''new'' t ph \<noteq> ex_old_backup ''old'' t' ph'"
  by (rule notI, drule arg_cong [where f = cr_Name]) simp

lemma ex_stored:
  "stored_backup ex_backups (''ns'', ''new'') = Some (ex_old_backup ''new'' 2 PhaseCompleted)"
  "stored_backup ex_backups (''ns'', ''old'') = Some (ex_old_backup ''old'' 1 PhaseCompleted)"
  by (simp_all add: ex_backups_def stored_backup_def)

lemma ex_successful: "successful (stored_backup ex_backups) ''ns'' ''obj'' = set ex_backups" (is "?S = _")
proof
  show "?S \<subseteq> set ex_backups" unfolding successful_def by (auto dest: stored_backup_some)
  show "set ex_backups \<subseteq> ?S" by (auto simp: ex_backups_def successful_def ex_stored [unfolded ex_backups_def])
qed

lemma ex_retained:
  assumes "retains (ex_backup_env 9 f) \<lparr>MaxCount = Some 1, MaxAge = None\<rparr> t {new, old} K" and "new \<noteq> old" and "older old new"
  shows "old \<notin> K"
proof
  assume old: "old \<in> K"
  have "new \<notin> K"
  proof
    assume "new \<in> K"
    with old have "{new, old} \<subseteq> K" by simp
    moreover have "finite K" using assms(1) by (auto simp: retains_def intro: finite_subset)
    ultimately have "card {new, old} \<le> card K" by (intro card_mono)
    with assms(1,2) show False by (auto simp: retains_def)
  qed
  with assms(1) old have "\<not> older old new" by (auto simp: retains_def too_old_def)
  with assms(3) show False by contradiction
qed

theorem ScheduledBackup_finishes_witness:
  "succeeds (ScheduledBackup_Reconcile ex_schedule_reconciler (ex_backup_env 9 (\<lambda>_. zero_time)) ''ns'' ''obj'')
     (ex_schedule_world ''new'' ex_backups) (\<lambda>r w'. stored_backup (snd (kube w')) (''ns'', ''old'') = None)"
proof (rule wp_mono [OF ScheduledBackup_finishes [OF ex_schedule_laws, where sb = "ex_schedule ''new''" and b = "ex_old_backup ''new'' 2 PhaseCompleted"]],
    goal_cases)
  case (9 r w')
  let ?S = "successful (stored_backup ex_backups) ''ns'' ''obj''"
  let ?B = "ex_backup_env 9 (\<lambda>_. zero_time) :: (ScheduledBackup store \<times> Backup list) BackupEnv"
  from 9 have "pruned ?B (Some \<lparr>MaxCount = Some 1, MaxAge = None\<rparr>) ''ns'' ''obj'' (stored_backup ex_backups) (stored_backup (snd (kube w')))"
    by (simp add: ex_schedule_spec)
  then obtain t K where K: "retains ?B \<lparr>MaxCount = Some 1, MaxAge = None\<rparr> t ?S K"
    and new: "stored_backup (snd (kube w')) = removed (stored_backup ex_backups) (?S - K)"
    unfolding pruned_def by auto
  have "ex_old_backup ''old'' 1 PhaseCompleted \<notin> K"
    using ex_retained [OF _ ex_backups_differ, of _ t 2 PhaseCompleted 1 PhaseCompleted K] K [unfolded ex_successful]
    by (auto simp: ex_backups_def older_def)
  then have "ex_old_backup ''old'' 1 PhaseCompleted \<in> ?S - K" unfolding ex_successful by (simp add: ex_backups_def)
  then show ?case unfolding new by (simp add: removed_def ex_stored)
qed (simp_all add: ex_stored finished_def)

theorem ScheduledBackup_status_typed_witness:
  "all_ok (st_objs \<circ> fst) (snd (ScheduledBackup_Reconcile ex_schedule_reconciler (ex_backup_env 0 (\<lambda>_. zero_time)) ''ns'' ''obj''
     (ex_schedule_world [] [])))"
proof (rule ScheduledBackup_status_typed)
  show "safe_api ex_schedule_reconciler (ex_backup_env 0 (\<lambda>_. zero_time)) (st_objs \<circ> fst)"
    by (auto simp: safe_api_def ex_schedule_reconciler_def reconciler_beside_def beside_def ex_reconciler_def memory_reconciler_def
        get_or_missing_def put_object_def stored_def ex_backup_env_def split: option.splits prod.splits if_splits)
  show "all_ok (st_objs \<circ> fst) (ex_schedule_world [] [])"
    by (simp add: all_ok_def ex_world_def status_ok_def ex_schedule_def int32_def maxHistoryLen_def)
qed

theorem backup_names_distinct_witness:
  "backup_name (\<lambda>_. 0) (ex_schedule []) 0 \<noteq> backup_name (\<lambda>_. 0) (ex_schedule []) (5 * second)"
  by (rule backup_names_distinct) (simp_all add: second_def)

end
