(* ===== verification/Webhooks.thy ===== *)
theory Webhooks
  imports Helpers
begin

text \<open>
  The admission webhooks of \<open>api/v1alpha1/*_webhook.go\<close>: for each kind, what \<open>Default\<close> fills in, what
  a new object has to satisfy and which fields an update may not change. An error is a list of field
  errors (\<open>field.ErrorList.ToAggregate\<close>), with its path, value and detail. \<open>old\<close> is always an object of
  the same kind here.
\<close>

section \<open>Field errors\<close>

datatype field_error =
    Required string string
  | Forbidden string string
  | Invalid string string string
  | Duplicate string string

definition aggregate :: "field_error list \<Rightarrow> field_error list + unit" where
  "aggregate allErrs = (if allErrs = [] then Inr () else Inl allErrs)"

definition require :: "bool \<Rightarrow> string \<Rightarrow> string \<Rightarrow> field_error list" where
  "require present path detail = (if present then [] else [Required path detail])"

definition forbid :: "bool \<Rightarrow> string \<Rightarrow> string \<Rightarrow> field_error list" where
  "forbid bad path detail = (if bad then [Forbidden path detail] else [])"

text \<open>\<open>field.NewPath(...).Index(i).Child(...)\<close>\<close>

definition indexed :: "string \<Rightarrow> nat \<Rightarrow> string \<Rightarrow> string" where
  "indexed path i child = path @ ''['' @ show_int (int i) @ ''].'' @ child"

definition stringPtrEqual :: "string option \<Rightarrow> string option \<Rightarrow> bool" where
  "stringPtrEqual a b = (case (a, b) of (None, None) \<Rightarrow> True | (Some x, Some y) \<Rightarrow> x = y | _ \<Rightarrow> False)"

definition int32PtrEqual :: "int option \<Rightarrow> int option \<Rightarrow> bool" where
  "int32PtrEqual a b = (case (a, b) of (None, None) \<Rightarrow> True | (Some x, Some y) \<Rightarrow> x = y | _ \<Rightarrow> False)"

definition boolPtrEqual :: "bool option \<Rightarrow> bool option \<Rightarrow> bool" where
  "boolPtrEqual a b = (case (a, b) of (None, None) \<Rightarrow> True | (Some x, Some y) \<Rightarrow> x = y | _ \<Rightarrow> False)"

definition boolValue :: "bool option \<Rightarrow> bool" where
  "boolValue b = (case b of None \<Rightarrow> False | Some x \<Rightarrow> x)"

section \<open>Parts the kinds share\<close>

definition or_default :: "'a option \<Rightarrow> 'a \<Rightarrow> 'a option" where
  "or_default x d = (case x of None \<Rightarrow> Some d | Some y \<Rightarrow> Some y)"

definition default_server :: "ServerReference \<Rightarrow> ServerReference" where
  "default_server s = s\<lparr>Port := or_default (Port s) 1433\<rparr>"

definition server_required :: "ServerReference \<Rightarrow> field_error list" where
  "server_required s =
     require (Host s \<noteq> []) ''spec.server.host'' ''server host is required'' @
     require (CredentialsSecret s \<noteq> []) ''spec.server.credentialsSecret.name'' ''credentialsSecret name is required''"

definition server_unchanged :: "ServerReference \<Rightarrow> ServerReference \<Rightarrow> field_error list" where
  "server_unchanged old new =
     forbid (Host new \<noteq> Host old) ''spec.server.host'' ''server host is immutable'' @
     forbid (\<not> int32PtrEqual (Port new) (Port old)) ''spec.server.port'' ''server port is immutable'' @
     forbid (\<not> boolPtrEqual (TLS new) (TLS old)) ''spec.server.tls'' ''server tls is immutable''"

definition immutable :: "string \<Rightarrow> string \<Rightarrow> string \<Rightarrow> field_error list" where
  "immutable field old new = forbid (new \<noteq> old) (''spec.'' @ field) (field @ '' is immutable after creation'')"

definition named :: "string \<Rightarrow> string \<Rightarrow> field_error list" where
  "named field v = require (v \<noteq> []) (''spec.'' @ field) (field @ '' is required'')"

text \<open>An update is checked for forbidden changes first; only then for what a new object needs.\<close>

definition unless_forbidden :: "field_error list \<Rightarrow> field_error list + unit \<Rightarrow> field_error list + unit" where
  "unless_forbidden allErrs valid = (if allErrs \<noteq> [] then aggregate allErrs else valid)"

section \<open>Database, Login, DatabaseUser, Schema\<close>

definition Database_Default :: "Database \<Rightarrow> Database" where
  "Database_Default r = r\<lparr>Spec := (Spec r)\<lparr>db_DeletionPolicy := or_default (db_DeletionPolicy (Spec r)) DeletionPolicyRetain,
     db_Server := default_server (db_Server (Spec r))\<rparr>\<rparr>"

definition validateDatabase :: "Database \<Rightarrow> field_error list + unit" where
  "validateDatabase r = aggregate (named ''databaseName'' (db_DatabaseName (Spec r)) @ server_required (db_Server (Spec r)))"

definition Database_ValidateCreate :: "Database \<Rightarrow> field_error list + unit" where
  "Database_ValidateCreate r = validateDatabase r"

definition Database_ValidateUpdate :: "Database \<Rightarrow> Database \<Rightarrow> field_error list + unit" where
  "Database_ValidateUpdate old r =
     unless_forbidden
       (immutable ''databaseName'' (db_DatabaseName (Spec old)) (db_DatabaseName (Spec r)) @
        forbid (\<not> stringPtrEqual (db_Collation (Spec r)) (db_Collation (Spec old))) ''spec.collation''
          ''collation is immutable after creation'' @
        server_unchanged (db_Server (Spec old)) (db_Server (Spec r)))
       (validateDatabase r)"

definition Database_ValidateDelete :: "Database \<Rightarrow> field_error list + unit" where
  "Database_ValidateDelete r = Inr ()"

definition Login_Default :: "Login \<Rightarrow> Login" where
  "Login_Default r = r\<lparr>Spec := (Spec r)\<lparr>l_DeletionPolicy := or_default (l_DeletionPolicy (Spec r)) DeletionPolicyRetain,
     l_Server := default_server (l_Server (Spec r))\<rparr>\<rparr>"

definition validateLogin :: "Login \<Rightarrow> field_error list + unit" where
  "validateLogin r = aggregate (named ''loginName'' (l_LoginName (Spec r)) @ server_required (l_Server (Spec r)) @
     require (l_PasswordSecret (Spec r) \<noteq> []) ''spec.passwordSecret.name'' ''passwordSecret name is required'')"

definition Login_ValidateCreate :: "Login \<Rightarrow> field_error list + unit" where
  "Login_ValidateCreate r = validateLogin r"

definition Login_ValidateUpdate :: "Login \<Rightarrow> Login \<Rightarrow> field_error list + unit" where
  "Login_ValidateUpdate old r =
     unless_forbidden
       (immutable ''loginName'' (l_LoginName (Spec old)) (l_LoginName (Spec r)) @ server_unchanged (l_Server (Spec old)) (l_Server (Spec r)))
       (validateLogin r)"

definition Login_ValidateDelete :: "Login \<Rightarrow> field_error list + unit" where
  "Login_ValidateDelete r = Inr ()"

definition DatabaseUser_Default :: "DatabaseUser \<Rightarrow> DatabaseUser" where
  "DatabaseUser_Default r = r\<lparr>Spec := (Spec r)\<lparr>u_Server := default_server (u_Server (Spec r))\<rparr>\<rparr>"

definition validateDatabaseUser :: "DatabaseUser \<Rightarrow> field_error list + unit" where
  "validateDatabaseUser r = aggregate (named ''userName'' (u_UserName (Spec r)) @ named ''databaseName'' (u_DatabaseName (Spec r)) @
     server_required (u_Server (Spec r)) @
     require (u_LoginRef (Spec r) \<noteq> []) ''spec.loginRef.name'' ''loginRef name is required'')"

definition DatabaseUser_ValidateCreate :: "DatabaseUser \<Rightarrow> field_error list + unit" where
  "DatabaseUser_ValidateCreate r = validateDatabaseUser r"

definition DatabaseUser_ValidateUpdate :: "DatabaseUser \<Rightarrow> DatabaseUser \<Rightarrow> field_error list + unit" where
  "DatabaseUser_ValidateUpdate old r =
     unless_forbidden
       (immutable ''userName'' (u_UserName (Spec old)) (u_UserName (Spec r)) @
        immutable ''databaseName'' (u_DatabaseName (Spec old)) (u_DatabaseName (Spec r)) @
        server_unchanged (u_Server (Spec old)) (u_Server (Spec r)) @
        forbid (u_LoginRef (Spec r) \<noteq> u_LoginRef (Spec old)) ''spec.loginRef.name'' ''loginRef is immutable after creation'')
       (validateDatabaseUser r)"

definition DatabaseUser_ValidateDelete :: "DatabaseUser \<Rightarrow> field_error list + unit" where
  "DatabaseUser_ValidateDelete r = Inr ()"

definition Schema_Default :: "Schema \<Rightarrow> Schema" where
  "Schema_Default r = r\<lparr>Spec := (Spec r)\<lparr>sch_DeletionPolicy := or_default (sch_DeletionPolicy (Spec r)) DeletionPolicyRetain,
     sch_Server := default_server (sch_Server (Spec r))\<rparr>\<rparr>"

definition validateSchema :: "Schema \<Rightarrow> field_error list + unit" where
  "validateSchema r = aggregate (named ''schemaName'' (sch_SchemaName (Spec r)) @ named ''databaseName'' (sch_DatabaseName (Spec r)) @
     server_required (sch_Server (Spec r)))"

definition Schema_ValidateCreate :: "Schema \<Rightarrow> field_error list + unit" where
  "Schema_ValidateCreate r = validateSchema r"

definition Schema_ValidateUpdate :: "Schema \<Rightarrow> Schema \<Rightarrow> field_error list + unit" where
  "Schema_ValidateUpdate old r =
     unless_forbidden
       (immutable ''schemaName'' (sch_SchemaName (Spec old)) (sch_SchemaName (Spec r)) @
        immutable ''databaseName'' (sch_DatabaseName (Spec old)) (sch_DatabaseName (Spec r)) @
        server_unchanged (sch_Server (Spec old)) (sch_Server (Spec r)))
       (validateSchema r)"

definition Schema_ValidateDelete :: "Schema \<Rightarrow> field_error list + unit" where
  "Schema_ValidateDelete r = Inr ()"

section \<open>Permission\<close>

definition Permission_Default :: "Permission \<Rightarrow> Permission" where
  "Permission_Default r = r\<lparr>Spec := (Spec r)\<lparr>p_Server := default_server (p_Server (Spec r))\<rparr>\<rparr>"

text \<open>\<open>for i, e := range entries\<close>\<close>

fun entry_errors :: "string \<Rightarrow> nat \<Rightarrow> PermissionEntry list \<Rightarrow> field_error list" where
  "entry_errors path i [] = []"
| "entry_errors path i (e # es) =
     require (pe_Permission e \<noteq> []) (indexed path i ''permission'') ''permission is required'' @
     require (pe_On e \<noteq> []) (indexed path i ''on'') ''on is required'' @ entry_errors path (Suc i) es"

definition validatePermission :: "Permission \<Rightarrow> field_error list + unit" where
  "validatePermission r = aggregate (named ''userName'' (p_UserName (Spec r)) @ named ''databaseName'' (p_DatabaseName (Spec r)) @
     server_required (p_Server (Spec r)) @ entry_errors ''spec.grants'' 0 (p_Grants (Spec r)) @
     entry_errors ''spec.denies'' 0 (p_Denies (Spec r)))"

definition Permission_ValidateCreate :: "Permission \<Rightarrow> field_error list + unit" where
  "Permission_ValidateCreate r = validatePermission r"

definition Permission_ValidateUpdate :: "Permission \<Rightarrow> Permission \<Rightarrow> field_error list + unit" where
  "Permission_ValidateUpdate old r =
     unless_forbidden
       (immutable ''userName'' (p_UserName (Spec old)) (p_UserName (Spec r)) @
        immutable ''databaseName'' (p_DatabaseName (Spec old)) (p_DatabaseName (Spec r)) @
        server_unchanged (p_Server (Spec old)) (p_Server (Spec r)))
       (validatePermission r)"

definition Permission_ValidateDelete :: "Permission \<Rightarrow> field_error list + unit" where
  "Permission_ValidateDelete r = Inr ()"

section \<open>Backup, Restore, ScheduledBackup\<close>

definition BackupTypeFull :: string where
  "BackupTypeFull = ''Full''"

definition Backup_Default :: "Backup \<Rightarrow> Backup" where
  "Backup_Default r = r\<lparr>Spec := (Spec r)\<lparr>b_Server := default_server (b_Server (Spec r)),
     b_Type := (if b_Type (Spec r) = [] then BackupTypeFull else b_Type (Spec r)),
     b_Compression := or_default (b_Compression (Spec r)) False\<rparr>\<rparr>"

definition validateBackup :: "Backup \<Rightarrow> field_error list + unit" where
  "validateBackup r = aggregate (named ''databaseName'' (b_DatabaseName (Spec r)) @ named ''destination'' (b_Destination (Spec r)) @
     server_required (b_Server (Spec r)))"

definition Backup_ValidateCreate :: "Backup \<Rightarrow> field_error list + unit" where
  "Backup_ValidateCreate r = validateBackup r"

definition spec_forbid :: "string \<Rightarrow> 'a \<Rightarrow> 'a \<Rightarrow> field_error list" where
  "spec_forbid field old new = forbid (new \<noteq> old) (''spec.'' @ field) ''spec is immutable after creation''"

definition Backup_ValidateUpdate :: "Backup \<Rightarrow> Backup \<Rightarrow> field_error list + unit" where
  "Backup_ValidateUpdate old r =
     aggregate (spec_forbid ''databaseName'' (b_DatabaseName (Spec old)) (b_DatabaseName (Spec r)) @
       spec_forbid ''destination'' (b_Destination (Spec old)) (b_Destination (Spec r)) @
       spec_forbid ''type'' (b_Type (Spec old)) (b_Type (Spec r)) @
       spec_forbid ''server.host'' (Host (b_Server (Spec old))) (Host (b_Server (Spec r))))"

definition Backup_ValidateDelete :: "Backup \<Rightarrow> field_error list + unit" where
  "Backup_ValidateDelete r = Inr ()"

definition Restore_Default :: "Restore \<Rightarrow> Restore" where
  "Restore_Default r = r\<lparr>Spec := (Spec r)\<lparr>r_Server := default_server (r_Server (Spec r))\<rparr>\<rparr>"

definition validateRestore :: "Restore \<Rightarrow> field_error list + unit" where
  "validateRestore r = aggregate (named ''databaseName'' (r_DatabaseName (Spec r)) @ named ''source'' (r_Source (Spec r)) @
     server_required (r_Server (Spec r)))"

definition Restore_ValidateCreate :: "Restore \<Rightarrow> field_error list + unit" where
  "Restore_ValidateCreate r = validateRestore r"

definition Restore_ValidateUpdate :: "Restore \<Rightarrow> Restore \<Rightarrow> field_error list + unit" where
  "Restore_ValidateUpdate old r =
     aggregate (spec_forbid ''databaseName'' (r_DatabaseName (Spec old)) (r_DatabaseName (Spec r)) @
       spec_forbid ''source'' (r_Source (Spec old)) (r_Source (Spec r)) @
       spec_forbid ''server.host'' (Host (r_Server (Spec old))) (Host (r_Server (Spec r))))"

definition Restore_ValidateDelete :: "Restore \<Rightarrow> field_error list + unit" where
  "Restore_ValidateDelete r = Inr ()"

definition ScheduledBackup_Default :: "ScheduledBackup \<Rightarrow> ScheduledBackup" where
  "ScheduledBackup_Default r = r\<lparr>Spec := (Spec r)\<lparr>sb_Server := default_server (sb_Server (Spec r)),
     sb_Type := (if sb_Type (Spec r) = [] then BackupTypeFull else sb_Type (Spec r)),
     sb_Compression := or_default (sb_Compression (Spec r)) False, sb_Suspend := or_default (sb_Suspend (Spec r)) False\<rparr>\<rparr>"

text \<open>\<open>parse\<close> is the cron parser, of which only the error counts.\<close>

definition ScheduledBackup_validate :: "(string \<Rightarrow> 'sched res) \<Rightarrow> ScheduledBackup \<Rightarrow> field_error list + unit" where
  "ScheduledBackup_validate parse r =
     (let schedule = sb_Schedule (Spec r) in
      aggregate (require (sb_DatabaseName (Spec r) \<noteq> []) ''spec.databaseName'' ''must be specified'' @
       (if schedule = [] then [Required ''spec.schedule'' ''must be specified'']
        else (case parse schedule of
                Inl e \<Rightarrow> [Invalid ''spec.schedule'' schedule (''invalid cron expression: '' @ Error e)]
              | Inr _ \<Rightarrow> [])) @
       require (sb_DestinationTemplate (Spec r) \<noteq> []) ''spec.destinationTemplate'' ''must be specified'' @
       require (\<not> (Host (sb_Server (Spec r)) = [] \<and> SQLServerRef (sb_Server (Spec r)) = None)) ''spec.server''
         ''must specify either server.host or server.sqlServerRef''))"

definition ScheduledBackup_ValidateCreate :: "(string \<Rightarrow> 'sched res) \<Rightarrow> ScheduledBackup \<Rightarrow> field_error list + unit" where
  "ScheduledBackup_ValidateCreate parse r = ScheduledBackup_validate parse r"

definition ScheduledBackup_ValidateUpdate ::
  "(string \<Rightarrow> 'sched res) \<Rightarrow> ScheduledBackup \<Rightarrow> ScheduledBackup \<Rightarrow> field_error list + unit" where
  "ScheduledBackup_ValidateUpdate parse old r =
     (case ScheduledBackup_validate parse r of
        Inl errs \<Rightarrow> Inl errs
      | Inr _ \<Rightarrow> aggregate (forbid (sb_DatabaseName (Spec r) \<noteq> sb_DatabaseName (Spec old)) ''spec.databaseName'' ''databaseName is immutable''))"

definition ScheduledBackup_ValidateDelete :: "ScheduledBackup \<Rightarrow> field_error list + unit" where
  "ScheduledBackup_ValidateDelete r = Inr ()"

section \<open>AGFailover\<close>

definition ConfirmDataLossAnnotation :: string where
  "ConfirmDataLossAnnotation = ''mssql.popul.io/confirm-data-loss''"

definition AGFailover_Default :: "AGFailover \<Rightarrow> AGFailover" where
  "AGFailover_Default r = r\<lparr>Spec := (Spec r)\<lparr>fo_Force := or_default (fo_Force (Spec r)) False,
     fo_Server := default_server (fo_Server (Spec r))\<rparr>\<rparr>"

definition validateAGFailover :: "AGFailover \<Rightarrow> field_error list + unit" where
  "validateAGFailover r =
     aggregate (named ''agName'' (fo_AGName (Spec r)) @ named ''targetReplica'' (fo_TargetReplica (Spec r)) @
       server_required (fo_Server (Spec r)) @
       (if fo_Force (Spec r) = Some True then
          require (cr_Annotations r ConfirmDataLossAnnotation = Some ''yes'') (''metadata.annotations.'' @ ConfirmDataLossAnnotation)
            ''force failover requires annotation mssql.popul.io/confirm-data-loss: \"yes\" to acknowledge potential data loss''
        else []))"

definition AGFailover_ValidateCreate :: "AGFailover \<Rightarrow> field_error list + unit" where
  "AGFailover_ValidateCreate r = validateAGFailover r"

definition AGFailover_ValidateUpdate :: "AGFailover \<Rightarrow> AGFailover \<Rightarrow> field_error list + unit" where
  "AGFailover_ValidateUpdate old r =
     aggregate (immutable ''agName'' (fo_AGName (Spec old)) (fo_AGName (Spec r)) @
       immutable ''targetReplica'' (fo_TargetReplica (Spec old)) (fo_TargetReplica (Spec r)) @
       forbid (Host (fo_Server (Spec r)) \<noteq> Host (fo_Server (Spec old))) ''spec.server.host'' ''server host is immutable after creation'' @
       forbid (boolValue (fo_Force (Spec r)) \<noteq> boolValue (fo_Force (Spec old))) ''spec.force'' ''force is immutable after creation'')"

definition AGFailover_ValidateDelete :: "AGFailover \<Rightarrow> field_error list + unit" where
  "AGFailover_ValidateDelete r = Inr ()"

section \<open>AvailabilityGroup\<close>

definition AvailabilityModeSynchronous :: string where
  "AvailabilityModeSynchronous = ''SynchronousCommit''"

definition AvailabilityModeAsynchronous :: string where
  "AvailabilityModeAsynchronous = ''AsynchronousCommit''"

definition FailoverModeAutomatic :: string where
  "FailoverModeAutomatic = ''Automatic''"

definition SeedingModeAutomatic :: string where
  "SeedingModeAutomatic = ''Automatic''"

definition SecondaryRoleNo :: string where
  "SecondaryRoleNo = ''No''"

definition or_text :: "string \<Rightarrow> string \<Rightarrow> string" where
  "or_text x d = (if x = [] then d else x)"

definition default_replica :: "AGReplicaSpec \<Rightarrow> AGReplicaSpec" where
  "default_replica p = p\<lparr>rep_AvailabilityMode := or_text (rep_AvailabilityMode p) AvailabilityModeSynchronous,
     rep_FailoverMode := or_text (rep_FailoverMode p) FailoverModeAutomatic,
     rep_SeedingMode := or_text (rep_SeedingMode p) SeedingModeAutomatic,
     rep_SecondaryRole := or_text (rep_SecondaryRole p) SecondaryRoleNo,
     rep_Server := default_server (rep_Server p)\<rparr>"

definition default_listener :: "AGListenerSpec \<Rightarrow> AGListenerSpec" where
  "default_listener l = l\<lparr>li_Port := or_default (li_Port l) 1433\<rparr>"

definition AvailabilityGroup_Default :: "AvailabilityGroup \<Rightarrow> AvailabilityGroup" where
  "AvailabilityGroup_Default r = r\<lparr>Spec := (Spec r)\<lparr>
     ag_AutomatedBackupPreference := or_default (ag_AutomatedBackupPreference (Spec r)) ''Secondary'',
     ag_DBFailover := or_default (ag_DBFailover (Spec r)) True,
     ag_Replicas := List.map default_replica (ag_Replicas (Spec r)),
     ag_Listener := map_option default_listener (ag_Listener (Spec r))\<rparr>\<rparr>"

text \<open>The loops over replicas and databases, with the map of the names seen so far.\<close>

fun replica_errors :: "(string \<Rightarrow> bool) \<Rightarrow> nat \<Rightarrow> AGReplicaSpec list \<Rightarrow> field_error list" where
  "replica_errors serverNames i [] = []"
| "replica_errors serverNames i (replica # rest) =
     require (rep_ServerName replica \<noteq> []) (indexed ''spec.replicas'' i ''serverName'') ''serverName is required'' @
     (if serverNames (rep_ServerName replica) then [Duplicate (indexed ''spec.replicas'' i ''serverName'') (rep_ServerName replica)] else []) @
     require (rep_EndpointURL replica \<noteq> []) (indexed ''spec.replicas'' i ''endpointURL'') ''endpointURL is required'' @
     require (Host (rep_Server replica) \<noteq> []) (indexed ''spec.replicas'' i ''server.host'') ''server host is required'' @
     require (CredentialsSecret (rep_Server replica) \<noteq> []) (indexed ''spec.replicas'' i ''server.credentialsSecret.name'')
       ''credentialsSecret name is required'' @
     (if rep_FailoverMode replica = FailoverModeAutomatic \<and> rep_AvailabilityMode replica = AvailabilityModeAsynchronous
      then [Invalid (indexed ''spec.replicas'' i ''failoverMode'') (rep_FailoverMode replica)
              ''Automatic failover requires SynchronousCommit availability mode'']
      else []) @
     replica_errors (serverNames(rep_ServerName replica := True)) (Suc i) rest"

fun database_errors :: "(string \<Rightarrow> bool) \<Rightarrow> nat \<Rightarrow> string list \<Rightarrow> field_error list" where
  "database_errors dbNames i [] = []"
| "database_errors dbNames i (db # rest) =
     require (db \<noteq> []) (indexed ''spec.databases'' i ''name'') ''database name is required'' @
     (if dbNames db then [Duplicate (indexed ''spec.databases'' i ''name'') db] else []) @
     database_errors (dbNames(db := True)) (Suc i) rest"

definition validateAG :: "AvailabilityGroup \<Rightarrow> field_error list + unit" where
  "validateAG r =
     aggregate (named ''agName'' (ag_AGName (Spec r)) @
       (if length (ag_Replicas (Spec r)) < 2
        then [Invalid ''spec.replicas'' (show_int (int (length (ag_Replicas (Spec r))))) ''at least 2 replicas are required'']
        else []) @
       replica_errors (\<lambda>_. False) 0 (ag_Replicas (Spec r)) @
       database_errors (\<lambda>_. False) 0 (ag_Databases (Spec r)) @
       (case ag_Listener (Spec r) of
          None \<Rightarrow> []
        | Some l \<Rightarrow> require (li_Name l \<noteq> []) ''spec.listener.name'' ''listener name is required''))"

definition AvailabilityGroup_ValidateCreate :: "AvailabilityGroup \<Rightarrow> field_error list + unit" where
  "AvailabilityGroup_ValidateCreate r = validateAG r"

definition AvailabilityGroup_ValidateUpdate :: "AvailabilityGroup \<Rightarrow> AvailabilityGroup \<Rightarrow> field_error list + unit" where
  "AvailabilityGroup_ValidateUpdate old r =
     unless_forbidden (immutable ''agName'' (ag_AGName (Spec old)) (ag_AGName (Spec r))) (validateAG r)"

definition AvailabilityGroup_ValidateDelete :: "AvailabilityGroup \<Rightarrow> field_error list + unit" where
  "AvailabilityGroup_ValidateDelete r = Inr ()"

section \<open>SQLServer\<close>

definition AuthSqlLogin :: string where
  "AuthSqlLogin = ''SqlLogin''"

definition AuthAzureAD :: string where
  "AuthAzureAD = ''AzureAD''"

definition CertificateModeSelfSigned :: string where
  "CertificateModeSelfSigned = ''SelfSigned''"

definition CertificateModeCertManager :: string where
  "CertificateModeCertManager = ''CertManager''"

definition default_certificates :: "CertificateSpec option \<Rightarrow> CertificateSpec" where
  "default_certificates c0 =
     (let c = (case c0 of None \<Rightarrow> \<lparr>cs_Mode = None, cs_IssuerRef = None, cs_Duration = None, cs_RenewBefore = None\<rparr> | Some c \<Rightarrow> c)
      in c\<lparr>cs_Mode := or_default (cs_Mode c) CertificateModeSelfSigned, cs_Duration := or_default (cs_Duration c) ''8760h'',
           cs_RenewBefore := or_default (cs_RenewBefore c) ''720h''\<rparr>)"

definition default_managed_ag :: "string \<Rightarrow> ManagedAGSpec option \<Rightarrow> ManagedAGSpec" where
  "default_managed_ag srvName ag0 =
     (let ag = (case ag0 of
          None \<Rightarrow> \<lparr>mag_AGName = None, mag_AvailabilityMode = None, mag_AutoFailover = None, mag_HealthCheckInterval = None,
            mag_FailoverCooldown = None, mag_Databases = []\<rparr>
        | Some ag \<Rightarrow> ag)
      in ag\<lparr>mag_AGName := or_default (mag_AGName ag) (srvName @ ''-ag''),
            mag_AvailabilityMode := or_default (mag_AvailabilityMode ag) ''SynchronousCommit'',
            mag_AutoFailover := or_default (mag_AutoFailover ag) True,
            mag_HealthCheckInterval := or_default (mag_HealthCheckInterval ag) ''10s'',
            mag_FailoverCooldown := or_default (mag_FailoverCooldown ag) ''60s''\<rparr>)"

definition default_instance :: "string \<Rightarrow> InstanceSpec \<Rightarrow> InstanceSpec" where
  "default_instance srvName inst0 =
     (let inst = inst0\<lparr>inst_Image := or_default (inst_Image inst0) ''mcr.microsoft.com/mssql/server:2022-latest'',
            inst_Edition := or_default (inst_Edition inst0) ''Developer'', inst_Replicas := or_default (inst_Replicas inst0) 1,
            inst_StorageSize := or_default (inst_StorageSize inst0) ''10Gi'', inst_ServiceType := or_default (inst_ServiceType inst0) ''ClusterIP''\<rparr>
      in if (case inst_Replicas inst of None \<Rightarrow> 0 | Some n \<Rightarrow> n) > 1 then
           inst\<lparr>inst_Certificates := Some (default_certificates (inst_Certificates inst)),
                inst_AvailabilityGroup := Some (default_managed_ag srvName (inst_AvailabilityGroup inst))\<rparr>
         else inst)"

definition SQLServer_Default :: "SQLServer \<Rightarrow> SQLServer" where
  "SQLServer_Default r = r\<lparr>Spec := (Spec r)\<lparr>srv_Port := or_default (srv_Port (Spec r)) 1433,
     srv_AuthMethod := or_text (srv_AuthMethod (Spec r)) AuthSqlLogin, srv_TLS := or_default (srv_TLS (Spec r)) False,
     srv_MaxConnections := or_default (srv_MaxConnections (Spec r)) 10,
     srv_ConnectionTimeout := or_default (srv_ConnectionTimeout (Spec r)) 30,
     srv_Instance := map_option (default_instance (cr_Name r)) (srv_Instance (Spec r))\<rparr>\<rparr>"

definition replica_count :: "InstanceSpec \<Rightarrow> int" where
  "replica_count inst = (case inst_Replicas inst of None \<Rightarrow> 1 | Some n \<Rightarrow> n)"

definition instance_errors :: "SQLServerSpec \<Rightarrow> InstanceSpec \<Rightarrow> field_error list" where
  "instance_errors sp inst =
     forbid (srv_Host sp \<noteq> []) ''spec.host'' ''host must not be set when instance is configured (managed mode)'' @
     require (inst_AcceptEULA inst) ''spec.instance.acceptEULA'' ''acceptEULA must be true to deploy SQL Server'' @
     require (inst_SAPasswordSecret inst \<noteq> []) ''spec.instance.saPasswordSecret.name'' ''saPasswordSecret is required'' @
     forbid (replica_count inst > 1 \<and> inst_Edition inst = Some ''Express'') ''spec.instance.edition''
       ''Express edition does not support Availability Groups'' @
     (case inst_Certificates inst of
        None \<Rightarrow> []
      | Some c \<Rightarrow>
          require (\<not> (replica_count inst > 1 \<and> cs_Mode c = Some CertificateModeCertManager \<and> cs_IssuerRef c = None))
            ''spec.instance.certificates.issuerRef'' ''issuerRef is required when certificate mode is CertManager'')"

definition external_errors :: "SQLServerSpec \<Rightarrow> field_error list" where
  "external_errors sp =
     require (srv_Host sp \<noteq> []) ''spec.host'' ''host is required when instance is not set'' @
     (if srv_AuthMethod sp = AuthSqlLogin then
        require (srv_CredentialsSecret sp \<noteq> None) ''spec.credentialsSecret'' ''credentialsSecret is required when authMethod is SqlLogin''
      else if srv_AuthMethod sp = AuthAzureAD then
        require (srv_AzureAD sp \<noteq> None) ''spec.azureAD'' ''azureAD is required when authMethod is AzureAD''
      else [])"

definition SQLServer_validate :: "SQLServer \<Rightarrow> field_error list + unit" where
  "SQLServer_validate r =
     aggregate (case srv_Instance (Spec r) of Some inst \<Rightarrow> instance_errors (Spec r) inst | None \<Rightarrow> external_errors (Spec r))"

definition SQLServer_ValidateCreate :: "SQLServer \<Rightarrow> field_error list + unit" where
  "SQLServer_ValidateCreate r = SQLServer_validate r"

definition instance_changes :: "InstanceSpec option \<Rightarrow> InstanceSpec option \<Rightarrow> field_error list" where
  "instance_changes old new =
     (case (old, new) of
        (Some o1, Some n1) \<Rightarrow>
          forbid (\<not> stringPtrEqual (inst_StorageClassName n1) (inst_StorageClassName o1)) ''spec.instance.storageClassName''
            ''storageClassName is immutable after creation'' @
          forbid ((replica_count o1 > 1) \<noteq> (replica_count n1 > 1)) ''spec.instance.replicas''
            ''cannot switch between standalone (1) and cluster (2+) mode after creation''
      | _ \<Rightarrow> [])"

definition SQLServer_ValidateUpdate :: "SQLServer \<Rightarrow> SQLServer \<Rightarrow> field_error list + unit" where
  "SQLServer_ValidateUpdate old r =
     (let allErrs =
        forbid (srv_Instance (Spec r) = None \<and> srv_Host (Spec r) \<noteq> srv_Host (Spec old)) ''spec.host'' ''host is immutable after creation'' @
        forbid ((srv_Instance (Spec r) = None) \<noteq> (srv_Instance (Spec old) = None)) ''spec.instance''
          ''cannot switch between managed and external mode after creation'' @
        instance_changes (srv_Instance (Spec old)) (srv_Instance (Spec r))
      in case SQLServer_validate r of Inl errs \<Rightarrow> Inl errs | Inr _ \<Rightarrow> aggregate allErrs)"

definition SQLServer_ValidateDelete :: "SQLServer \<Rightarrow> field_error list + unit" where
  "SQLServer_ValidateDelete r = Inr ()"

end
