(* ===== verification/Admission.thy ===== *)
theory Admission
  imports Webhooks Memory_API
begin

text \<open>
  What admission means for the objects the controllers see: an object's life is its creation and the
  updates that were accepted, and what the webhooks check at each of them adds up to invariants of
  the whole life.
\<close>

section \<open>Accepted objects\<close>

lemma aggregate_accepts [simp]: "aggregate es = Inr u \<longleftrightarrow> es = []"
  by (simp add: aggregate_def)

lemma require_none [simp]: "require p path d = [] \<longleftrightarrow> p"
  by (simp add: require_def)

lemma forbid_none [simp]: "forbid p path d = [] \<longleftrightarrow> \<not> p"
  by (simp add: forbid_def)

lemma unless_forbidden_accepts [simp]: "unless_forbidden es v = Inr u \<longleftrightarrow> es = [] \<and> v = Inr ()"
  by (auto simp: unless_forbidden_def)

lemma ptr_equal [simp]:
  "stringPtrEqual a b \<longleftrightarrow> a = b" "int32PtrEqual c d \<longleftrightarrow> c = d" "boolPtrEqual e f \<longleftrightarrow> e = f"
  by (auto simp: stringPtrEqual_def int32PtrEqual_def boolPtrEqual_def split: option.split)

text \<open>The server a reference names, as far as updates are concerned.\<close>

definition server_key :: "ServerReference \<Rightarrow> string \<times> int option \<times> bool option" where
  "server_key s = (Host s, Port s, TLS s)"

definition server_stated :: "ServerReference \<Rightarrow> bool" where
  "server_stated s \<longleftrightarrow> Host s \<noteq> [] \<and> CredentialsSecret s \<noteq> []"

lemma server_errors [simp]:
  "server_required s = [] \<longleftrightarrow> server_stated s" "server_unchanged old new = [] \<longleftrightarrow> server_key new = server_key old"
  "named field v = [] \<longleftrightarrow> v \<noteq> []" "immutable field a b = [] \<longleftrightarrow> b = a" "spec_forbid field x y = [] \<longleftrightarrow> y = x"
  by (auto simp: server_required_def server_stated_def server_unchanged_def server_key_def named_def immutable_def spec_forbid_def)

lemma entry_errors_none: "entry_errors path i es = [] \<longleftrightarrow> (\<forall>e \<in> set es. pe_Permission e \<noteq> [] \<and> pe_On e \<noteq> [])"
  by (induction es arbitrary: i) auto

definition replica_ok :: "AGReplicaSpec \<Rightarrow> bool" where
  "replica_ok p \<longleftrightarrow> rep_ServerName p \<noteq> [] \<and> rep_EndpointURL p \<noteq> [] \<and> server_stated (rep_Server p) \<and>
     \<not> (rep_FailoverMode p = ''Automatic'' \<and> rep_AvailabilityMode p = ''AsynchronousCommit'')"

lemma replica_step:
  "replica_errors seen i (p # ps) = [] \<longleftrightarrow>
     replica_ok p \<and> \<not> seen (rep_ServerName p) \<and> replica_errors (seen(rep_ServerName p := True)) (Suc i) ps = []"
  by (auto simp: replica_ok_def server_stated_def FailoverModeAutomatic_def AvailabilityModeAsynchronous_def)

lemma replica_errors_none:
  "replica_errors seen i ps = [] \<longleftrightarrow>
     (\<forall>p \<in> set ps. replica_ok p \<and> \<not> seen (rep_ServerName p)) \<and> distinct (List.map rep_ServerName ps)"
proof (induction ps arbitrary: seen i)
  case (Cons p ps)
  have "p' \<in> set ps \<Longrightarrow> rep_ServerName p' = rep_ServerName p \<Longrightarrow> rep_ServerName p \<in> rep_ServerName ` set ps" for p'
    by (metis imageI)
  then show ?case
    unfolding replica_step Cons.IH by auto
qed simp

lemma database_errors_none:
  "database_errors seen i xs = [] \<longleftrightarrow> (\<forall>d \<in> set xs. d \<noteq> [] \<and> \<not> seen d) \<and> distinct xs"
  by (induction xs arbitrary: seen i) auto

section \<open>The life of an object\<close>

inductive life :: "('cr \<Rightarrow> field_error list + unit) \<Rightarrow> ('cr \<Rightarrow> 'cr \<Rightarrow> field_error list + unit) \<Rightarrow> 'cr \<Rightarrow> 'cr \<Rightarrow> bool"
  for create update first where
    created: "create first = Inr () \<Longrightarrow> life create update first first"
  | updated: "life create update first old \<Longrightarrow> update old new = Inr () \<Longrightarrow> life create update first new"

inductive_cases life_cases: "life create update first r"

locale admission =
  fixes create :: "'cr \<Rightarrow> field_error list + unit" and update :: "'cr \<Rightarrow> 'cr \<Rightarrow> field_error list + unit"
    and key :: "'cr \<Rightarrow> 'id" and valid :: "'cr \<Rightarrow> bool"
  assumes create_valid: "create r = Inr () \<Longrightarrow> valid r"
    and update_valid: "valid old \<Longrightarrow> update old new = Inr () \<Longrightarrow> valid new"
    and update_key: "valid old \<Longrightarrow> update old new = Inr () \<Longrightarrow> key new = key old"
begin

lemma lasting: "life create update first r \<Longrightarrow> valid first \<and> valid r \<and> key r = key first"
  by (induction rule: life.induct) (auto simp: create_valid update_key intro: update_valid)

end

definition database_valid :: "Database \<Rightarrow> bool" where
  "database_valid r \<longleftrightarrow> db_DatabaseName (Spec r) \<noteq> [] \<and> server_stated (db_Server (Spec r))"

definition login_valid :: "Login \<Rightarrow> bool" where
  "login_valid r \<longleftrightarrow> l_LoginName (Spec r) \<noteq> [] \<and> server_stated (l_Server (Spec r)) \<and> l_PasswordSecret (Spec r) \<noteq> []"

definition user_valid :: "DatabaseUser \<Rightarrow> bool" where
  "user_valid r \<longleftrightarrow> u_UserName (Spec r) \<noteq> [] \<and> u_DatabaseName (Spec r) \<noteq> [] \<and> server_stated (u_Server (Spec r)) \<and> u_LoginRef (Spec r) \<noteq> []"

definition schema_valid :: "Schema \<Rightarrow> bool" where
  "schema_valid r \<longleftrightarrow> sch_SchemaName (Spec r) \<noteq> [] \<and> sch_DatabaseName (Spec r) \<noteq> [] \<and> server_stated (sch_Server (Spec r))"

definition permission_valid :: "Permission \<Rightarrow> bool" where
  "permission_valid r \<longleftrightarrow> p_UserName (Spec r) \<noteq> [] \<and> p_DatabaseName (Spec r) \<noteq> [] \<and> server_stated (p_Server (Spec r)) \<and>
     (\<forall>e \<in> set (p_Grants (Spec r) @ p_Denies (Spec r)). pe_Permission e \<noteq> [] \<and> pe_On e \<noteq> [])"

definition backup_valid :: "Backup \<Rightarrow> bool" where
  "backup_valid r \<longleftrightarrow> b_DatabaseName (Spec r) \<noteq> [] \<and> b_Destination (Spec r) \<noteq> [] \<and> Host (b_Server (Spec r)) \<noteq> []"

definition restore_valid :: "Restore \<Rightarrow> bool" where
  "restore_valid r \<longleftrightarrow> r_DatabaseName (Spec r) \<noteq> [] \<and> r_Source (Spec r) \<noteq> [] \<and> Host (r_Server (Spec r)) \<noteq> []"

definition group_valid :: "AvailabilityGroup \<Rightarrow> bool" where
  "group_valid r \<longleftrightarrow> ag_AGName (Spec r) \<noteq> [] \<and> 2 \<le> length (ag_Replicas (Spec r)) \<and> (\<forall>p \<in> set (ag_Replicas (Spec r)). replica_ok p) \<and>
     distinct (List.map rep_ServerName (ag_Replicas (Spec r))) \<and> [] \<notin> set (ag_Databases (Spec r)) \<and> distinct (ag_Databases (Spec r)) \<and>
     (case ag_Listener (Spec r) of None \<Rightarrow> True | Some l \<Rightarrow> li_Name l \<noteq> [])"

definition failover_valid :: "AGFailover \<Rightarrow> bool" where
  "failover_valid r \<longleftrightarrow> fo_AGName (Spec r) \<noteq> [] \<and> fo_TargetReplica (Spec r) \<noteq> [] \<and> Host (fo_Server (Spec r)) \<noteq> []"

definition schedule_valid :: "(string \<Rightarrow> 'sched res) \<Rightarrow> ScheduledBackup \<Rightarrow> bool" where
  "schedule_valid parse r \<longleftrightarrow> sb_DatabaseName (Spec r) \<noteq> [] \<and> (\<exists>sched. parse (sb_Schedule (Spec r)) = Inr sched) \<and>
     sb_Schedule (Spec r) \<noteq> [] \<and> sb_DestinationTemplate (Spec r) \<noteq> [] \<and>
     (Host (sb_Server (Spec r)) \<noteq> [] \<or> SQLServerRef (sb_Server (Spec r)) \<noteq> None)"

definition server_valid :: "SQLServer \<Rightarrow> bool" where
  "server_valid r \<longleftrightarrow>
     (case srv_Instance (Spec r) of
        Some inst \<Rightarrow> srv_Host (Spec r) = [] \<and> inst_AcceptEULA inst \<and> inst_SAPasswordSecret inst \<noteq> [] \<and>
          \<not> (replica_count inst > 1 \<and> inst_Edition inst = Some ''Express'')
      | None \<Rightarrow> srv_Host (Spec r) \<noteq> [] \<and> \<not> (srv_AuthMethod (Spec r) = ''SqlLogin'' \<and> srv_CredentialsSecret (Spec r) = None) \<and>
          \<not> (srv_AuthMethod (Spec r) = ''AzureAD'' \<and> srv_AzureAD (Spec r) = None))"

text \<open>What of a SQLServer cannot change: its mode, and within the mode the host, or the storage class and being a cluster.\<close>

definition server_mode :: "SQLServer \<Rightarrow> string + string option \<times> bool" where
  "server_mode r = (case srv_Instance (Spec r) of None \<Rightarrow> Inl (srv_Host (Spec r))
     | Some inst \<Rightarrow> Inr (inst_StorageClassName inst, replica_count inst > 1))"

section \<open>Every kind keeps its identity\<close>

interpretation databases_admitted: admission Database_ValidateCreate Database_ValidateUpdate
  "\<lambda>r. (db_DatabaseName (Spec r), db_Collation (Spec r), server_key (db_Server (Spec r)))" database_valid
  by unfold_locales
    (auto simp: Database_ValidateCreate_def Database_ValidateUpdate_def validateDatabase_def database_valid_def)

interpretation logins_admitted: admission Login_ValidateCreate Login_ValidateUpdate
  "\<lambda>r. (l_LoginName (Spec r), server_key (l_Server (Spec r)))" login_valid
  by unfold_locales (auto simp: Login_ValidateCreate_def Login_ValidateUpdate_def validateLogin_def login_valid_def)

interpretation users_admitted: admission DatabaseUser_ValidateCreate DatabaseUser_ValidateUpdate
  "\<lambda>r. (u_UserName (Spec r), u_DatabaseName (Spec r), u_LoginRef (Spec r), server_key (u_Server (Spec r)))" user_valid
  by unfold_locales (auto simp: DatabaseUser_ValidateCreate_def DatabaseUser_ValidateUpdate_def validateDatabaseUser_def user_valid_def)

interpretation schemas_admitted: admission Schema_ValidateCreate Schema_ValidateUpdate
  "\<lambda>r. (sch_SchemaName (Spec r), sch_DatabaseName (Spec r), server_key (sch_Server (Spec r)))" schema_valid
  by unfold_locales (auto simp: Schema_ValidateCreate_def Schema_ValidateUpdate_def validateSchema_def schema_valid_def)

interpretation permissions_admitted: admission Permission_ValidateCreate Permission_ValidateUpdate
  "\<lambda>r. (p_UserName (Spec r), p_DatabaseName (Spec r), server_key (p_Server (Spec r)))" permission_valid
  by unfold_locales
    (auto simp: Permission_ValidateCreate_def Permission_ValidateUpdate_def validatePermission_def permission_valid_def entry_errors_none)

interpretation backups_admitted: admission Backup_ValidateCreate Backup_ValidateUpdate
  "\<lambda>r. (b_DatabaseName (Spec r), b_Destination (Spec r), b_Type (Spec r), Host (b_Server (Spec r)))" backup_valid
  by unfold_locales
    (auto simp: Backup_ValidateCreate_def Backup_ValidateUpdate_def validateBackup_def backup_valid_def server_stated_def)

interpretation restores_admitted: admission Restore_ValidateCreate Restore_ValidateUpdate
  "\<lambda>r. (r_DatabaseName (Spec r), r_Source (Spec r), Host (r_Server (Spec r)))" restore_valid
  by unfold_locales
    (auto simp: Restore_ValidateCreate_def Restore_ValidateUpdate_def validateRestore_def restore_valid_def server_stated_def)

interpretation failovers_admitted: admission AGFailover_ValidateCreate AGFailover_ValidateUpdate
  "\<lambda>r. (fo_AGName (Spec r), fo_TargetReplica (Spec r), Host (fo_Server (Spec r)), fo_Force (Spec r) = Some True)" failover_valid
  by unfold_locales
    (auto simp: AGFailover_ValidateCreate_def AGFailover_ValidateUpdate_def validateAGFailover_def failover_valid_def server_stated_def
      boolValue_def split: option.splits)

lemma validateAG_valid: "validateAG r = Inr () \<longleftrightarrow> group_valid r"
  by (auto simp: validateAG_def group_valid_def replica_errors_none database_errors_none split: option.split)

interpretation groups_admitted: admission AvailabilityGroup_ValidateCreate AvailabilityGroup_ValidateUpdate
  "\<lambda>r. ag_AGName (Spec r)" group_valid
  by unfold_locales (auto simp: AvailabilityGroup_ValidateCreate_def AvailabilityGroup_ValidateUpdate_def validateAG_valid)

lemma schedule_validates: "ScheduledBackup_validate parse r = Inr () \<longleftrightarrow> schedule_valid parse r"
  by (auto simp: ScheduledBackup_validate_def schedule_valid_def Let_def split: sum.splits)

interpretation schedules_admitted: admission "ScheduledBackup_ValidateCreate parse" "ScheduledBackup_ValidateUpdate parse"
  "\<lambda>r. sb_DatabaseName (Spec r)" "schedule_valid parse" for parse :: "string \<Rightarrow> 'sched res"
  by unfold_locales
    (auto simp: ScheduledBackup_ValidateCreate_def ScheduledBackup_ValidateUpdate_def schedule_validates [symmetric] split: sum.splits)

interpretation servers_admitted: admission SQLServer_ValidateCreate SQLServer_ValidateUpdate server_mode server_valid
proof unfold_locales
  have valid: "server_valid r" if "SQLServer_validate r = Inr ()" for r
    using that
    by (cases "srv_Instance (Spec r)")
      (auto simp: SQLServer_validate_def server_valid_def instance_errors_def external_errors_def AuthSqlLogin_def AuthAzureAD_def
        split: if_splits)
  show "server_valid r" if "SQLServer_ValidateCreate r = Inr ()" for r
    using that valid by (simp add: SQLServer_ValidateCreate_def)
  show "server_valid new" if "SQLServer_ValidateUpdate old new = Inr ()" for old new
    using that valid by (auto simp: SQLServer_ValidateUpdate_def Let_def split: sum.splits)
  show "server_mode new = server_mode old" if "SQLServer_ValidateUpdate old new = Inr ()" for old new
    using that
    by (auto simp: SQLServer_ValidateUpdate_def Let_def server_mode_def instance_changes_def split: sum.splits option.splits)
qed

section \<open>Defaults\<close>

lemma default_server_idem [simp]: "default_server (default_server s) = default_server s"
  by (simp add: default_server_def or_default_def split: option.split)

lemma or_default_idem [simp]: "or_default (or_default x d) d = or_default x d"
  by (simp add: or_default_def split: option.split)

lemma or_text_idem [simp]: "d \<noteq> [] \<Longrightarrow> or_text (or_text x d) d = or_text x d"
  by (simp add: or_text_def)

text \<open>
  An asynchronous replica that leaves the failover mode out gets the default \<open>Automatic\<close>, which the
  validation then refuses: such a group needs \<open>Manual\<close> written out.
\<close>

lemma defaulted_asynchronous_rejected:
  assumes "p \<in> set (ag_Replicas (Spec r))" "rep_AvailabilityMode p = AvailabilityModeAsynchronous" "rep_FailoverMode p = []"
  shows "AvailabilityGroup_ValidateCreate (AvailabilityGroup_Default r) \<noteq> Inr ()"
proof -
  have "\<not> replica_ok (default_replica p)"
    using assms(2,3) by (simp add: replica_ok_def default_replica_def or_text_def FailoverModeAutomatic_def
      AvailabilityModeAsynchronous_def)
  moreover have "default_replica p \<in> set (ag_Replicas (Spec (AvailabilityGroup_Default r)))"
    using assms(1) by (simp add: AvailabilityGroup_Default_def)
  ultimately show ?thesis
    unfolding AvailabilityGroup_ValidateCreate_def validateAG_valid group_valid_def by blast
qed

text \<open>Of a Backup, whose specification is meant to be immutable, the compression can be changed.\<close>

lemma backup_compression_changes:
  "Backup_ValidateUpdate r (r\<lparr>Spec := (Spec r)\<lparr>b_Compression := c\<rparr>\<rparr>) = Inr ()"
  by (simp add: Backup_ValidateUpdate_def)

section \<open>Properties\<close>


definition ex_admitted_db :: "string option \<Rightarrow> Database" where
  "ex_admitted_db owner = ex_cr \<lparr>db_Server = ex_server, db_DatabaseName = ''app'', db_Collation = None, db_Owner = owner,
     db_RecoveryModel = None, db_CompatibilityLevel = None, db_Options = [], db_DeletionPolicy = None\<rparr> ex_status"

definition ex_admitted_login :: Login where
  "ex_admitted_login = ex_cr \<lparr>l_Server = ex_server, l_LoginName = ''app'', l_PasswordSecret = ''creds'', l_DefaultDatabase = None,
     l_ServerRoles = [], l_DeletionPolicy = None\<rparr> \<lparr>Conditions = [], ObservedGeneration = 0, PasswordSecretResourceVersion = []\<rparr>"

definition ex_admitted_user :: DatabaseUser where
  "ex_admitted_user = ex_cr \<lparr>u_Server = ex_server, u_DatabaseName = ''app'', u_UserName = ''u'', u_LoginRef = ''app'',
     u_DatabaseRoles = []\<rparr> ex_status"

definition ex_admitted_schema :: Schema where
  "ex_admitted_schema = ex_cr \<lparr>sch_Server = ex_server, sch_DatabaseName = ''app'', sch_SchemaName = ''s'', sch_Owner = None,
     sch_DeletionPolicy = None\<rparr> ex_status"

definition ex_admitted_permission :: Permission where
  "ex_admitted_permission = ex_cr \<lparr>p_Server = ex_server, p_DatabaseName = ''app'', p_UserName = ''u'',
     p_Grants = [\<lparr>pe_Permission = ''SELECT'', pe_On = ''SCHEMA::dbo''\<rparr>], p_Denies = []\<rparr> ex_status"

lemma ex_admitted:
  "life Database_ValidateCreate Database_ValidateUpdate (ex_admitted_db None) (ex_admitted_db (Some ''sa''))"
  "life Login_ValidateCreate Login_ValidateUpdate ex_admitted_login ex_admitted_login"
  "life DatabaseUser_ValidateCreate DatabaseUser_ValidateUpdate ex_admitted_user ex_admitted_user"
  "life Schema_ValidateCreate Schema_ValidateUpdate ex_admitted_schema ex_admitted_schema"
  "life Permission_ValidateCreate Permission_ValidateUpdate ex_admitted_permission ex_admitted_permission"
proof -
  have "life Database_ValidateCreate Database_ValidateUpdate (ex_admitted_db None) (ex_admitted_db None)"
    by (rule life.created) (simp add: Database_ValidateCreate_def validateDatabase_def ex_admitted_db_def server_stated_def ex_server_def)
  then show "life Database_ValidateCreate Database_ValidateUpdate (ex_admitted_db None) (ex_admitted_db (Some ''sa''))"
    by (rule life.updated) (simp add: Database_ValidateUpdate_def validateDatabase_def ex_admitted_db_def server_stated_def ex_server_def)
qed (rule life.created, simp add: Login_ValidateCreate_def validateLogin_def ex_admitted_login_def DatabaseUser_ValidateCreate_def
    validateDatabaseUser_def ex_admitted_user_def Schema_ValidateCreate_def validateSchema_def ex_admitted_schema_def
    Permission_ValidateCreate_def validatePermission_def ex_admitted_permission_def server_stated_def ex_server_def)+


text \<open>
  C32. An AvailabilityGroup is admitted exactly when it has a name, at least two replicas, each with a
  name of its own, an endpoint, a server and credentials, none of them asynchronous with automatic
  failover, databases with names of their own, and a named listener if any. In particular the group
  controller, which takes the first replica for the primary, never meets an empty list.
\<close>

theorem AvailabilityGroup_admission:
  "AvailabilityGroup_ValidateCreate r = Inr () \<longleftrightarrow>
     ag_AGName (Spec r) \<noteq> [] \<and> 2 \<le> length (ag_Replicas (Spec r)) \<and>
     (\<forall>p \<in> set (ag_Replicas (Spec r)). rep_ServerName p \<noteq> [] \<and> rep_EndpointURL p \<noteq> [] \<and> Host (rep_Server p) \<noteq> [] \<and>
        CredentialsSecret (rep_Server p) \<noteq> [] \<and>
        \<not> (rep_FailoverMode p = ''Automatic'' \<and> rep_AvailabilityMode p = ''AsynchronousCommit'')) \<and>
     distinct (List.map rep_ServerName (ag_Replicas (Spec r))) \<and> [] \<notin> set (ag_Databases (Spec r)) \<and>
     distinct (ag_Databases (Spec r)) \<and> (\<forall>l. ag_Listener (Spec r) = Some l \<longrightarrow> li_Name l \<noteq> [])"
  unfolding AvailabilityGroup_ValidateCreate_def validateAG_valid group_valid_def replica_ok_def server_stated_def
  by (auto split: option.split)

definition ex_admitted_group :: AvailabilityGroup where
  "ex_admitted_group = ex_cr \<lparr>ag_AGName = ''ag'', ag_Replicas = List.map (\<lambda>n. \<lparr>rep_ServerName = n, rep_EndpointURL = ''tcp://'' @ n,
       rep_AvailabilityMode = ''AsynchronousCommit'', rep_FailoverMode = ''Manual'', rep_SeedingMode = [], rep_SecondaryRole = [],
       rep_Server = ex_server\<rparr>) [''s1'', ''s2''], ag_Databases = [''app''], ag_Listener = None, ag_AutomatedBackupPreference = None,
       ag_DBFailover = None, ag_ClusterType = None, ag_AutoFailover = None, ag_HealthCheckInterval = None, ag_FailoverCooldown = None\<rparr>
     \<lparr>Conditions = [], ObservedGeneration = 0, PrimaryReplica = [], st_Replicas = [], st_Databases = [], LastAutoFailoverTime = None,
       AutoFailoverCount = 0, LastFencingTime = None, FencingCount = 0, ConsecutiveFencingCount = 0, LastFencedReplica = []\<rparr>"

theorem AvailabilityGroup_admission_witness: "AvailabilityGroup_ValidateCreate ex_admitted_group = Inr ()"
  using AvailabilityGroup_admission [of ex_admitted_group] by (simp add: ex_admitted_group_def ex_server_def)

text \<open>
  C30. A SQLServer never changes what it is: an external server keeps its host, an instance deployed by
  the operator keeps its storage class and stays a single server or a cluster, and neither becomes the
  other. An instance always has its license accepted and its password secret named, and a cluster is
  never the Express edition.
\<close>

theorem SQLServer_mode_is_fixed:
  assumes "life SQLServer_ValidateCreate SQLServer_ValidateUpdate first r"
  shows "case (srv_Instance (Spec first), srv_Instance (Spec r)) of
      (None, None) \<Rightarrow> srv_Host (Spec r) = srv_Host (Spec first) \<and> srv_Host (Spec r) \<noteq> []
    | (Some i, Some j) \<Rightarrow> inst_StorageClassName j = inst_StorageClassName i \<and> (replica_count j > 1 \<longleftrightarrow> replica_count i > 1) \<and>
        srv_Host (Spec r) = [] \<and> inst_AcceptEULA j \<and> inst_SAPasswordSecret j \<noteq> [] \<and>
        \<not> (replica_count j > 1 \<and> inst_Edition j = Some ''Express'')
    | _ \<Rightarrow> False"
  using servers_admitted.lasting [OF assms] by (auto simp: server_valid_def server_mode_def split: option.splits)

definition ex_instance :: "int option \<Rightarrow> InstanceSpec" where
  "ex_instance n = \<lparr>inst_Image = None, inst_SAPasswordSecret = ''creds'', inst_AcceptEULA = True, inst_Edition = None, inst_Replicas = n,
     inst_StorageSize = None, inst_StorageClassName = None, inst_Resources = None, inst_ServiceType = None,
     inst_NodeSelector = [], inst_Tolerations = [], inst_Affinity = None, inst_TopologySpreadConstraints = [], inst_Config = None,
     inst_Certificates = None, inst_AvailabilityGroup = None\<rparr>"

definition ex_sqlserver :: "int option \<Rightarrow> SQLServer" where
  "ex_sqlserver n = ex_cr \<lparr>srv_Host = [], srv_Port = None, srv_AuthMethod = [], srv_CredentialsSecret = None, srv_AzureAD = None,
       srv_ManagedIdentity = None, srv_TLS = None, srv_MaxConnections = None, srv_ConnectionTimeout = None,
       srv_Instance = Some (ex_instance n)\<rparr>
     \<lparr>Conditions = [], ObservedGeneration = 0, srv_st_ServerVersion = [], srv_st_Edition = [], srv_st_LastConnectedTime = None,
       srv_st_Host = [], srv_st_ReadyReplicas = None, srv_st_PrimaryReplica = [], srv_st_CertificatesReady = None\<rparr>"

theorem SQLServer_mode_is_fixed_witness:
  "replica_count (ex_instance (Some 3)) > 1 \<longleftrightarrow> replica_count (ex_instance (Some 2)) > 1"
proof -
  have "life SQLServer_ValidateCreate SQLServer_ValidateUpdate (ex_sqlserver (Some 2)) (ex_sqlserver (Some 2))"
    by (rule life.created)
      (simp add: SQLServer_ValidateCreate_def SQLServer_validate_def instance_errors_def ex_sqlserver_def ex_instance_def)
  then have "life SQLServer_ValidateCreate SQLServer_ValidateUpdate (ex_sqlserver (Some 2)) (ex_sqlserver (Some 3))"
    by (rule life.updated) (simp add: SQLServer_ValidateUpdate_def Let_def SQLServer_validate_def instance_errors_def
      instance_changes_def ex_sqlserver_def ex_instance_def replica_count_def
      aggregate_def forbid_def require_def)
  from SQLServer_mode_is_fixed [OF this] show ?thesis
    by (simp add: ex_sqlserver_def)
qed

text \<open>
  C31. A forced failover, which may lose data, was confirmed by its author: an AGFailover that is forced
  now was forced, with the annotation that confirms the loss, when it was created. Its group, target
  and server are those of the creation too.
\<close>

theorem Forced_failover_was_confirmed:
  assumes "life AGFailover_ValidateCreate AGFailover_ValidateUpdate first r" "fo_Force (Spec r) = Some True"
  shows "cr_Annotations first ''mssql.popul.io/confirm-data-loss'' = Some ''yes'' \<and> fo_Force (Spec first) = Some True \<and>
    fo_AGName (Spec r) = fo_AGName (Spec first) \<and> fo_TargetReplica (Spec r) = fo_TargetReplica (Spec first) \<and>
    Host (fo_Server (Spec r)) = Host (fo_Server (Spec first))"
proof -
  have key: "fo_AGName (Spec r) = fo_AGName (Spec first) \<and> fo_TargetReplica (Spec r) = fo_TargetReplica (Spec first) \<and>
      Host (fo_Server (Spec r)) = Host (fo_Server (Spec first)) \<and> fo_Force (Spec first) = Some True"
    using failovers_admitted.lasting [OF assms(1)] assms(2) by auto
  moreover have "AGFailover_ValidateCreate first = Inr ()"
    using assms(1) by (induction rule: life.induct)
  ultimately show ?thesis
    by (simp add: AGFailover_ValidateCreate_def validateAGFailover_def ConfirmDataLossAnnotation_def)
qed

definition ex_forced :: AGFailover where
  "ex_forced = (ex_cr \<lparr>fo_AGName = ''ag'', fo_TargetReplica = ''s2'', fo_Server = ex_server, fo_Force = Some True\<rparr>
     \<lparr>Conditions = [], ObservedGeneration = 0, Phase = [], StartTime = None, CompletionTime = None, PreviousPrimary = [], NewPrimary = []\<rparr>)
     \<lparr>cr_Annotations := [''mssql.popul.io/confirm-data-loss'' \<mapsto> ''yes'']\<rparr>"

theorem Forced_failover_was_confirmed_witness: "fo_Force (Spec ex_forced) = Some True \<and> cr_Annotations ex_forced ConfirmDataLossAnnotation = Some ''yes''"
proof -
  have "life AGFailover_ValidateCreate AGFailover_ValidateUpdate ex_forced ex_forced"
    by (rule life.created) (simp add: AGFailover_ValidateCreate_def validateAGFailover_def ConfirmDataLossAnnotation_def ex_forced_def
      server_stated_def ex_server_def)
  from Forced_failover_was_confirmed [OF this] show ?thesis
    by (simp add: ex_forced_def ConfirmDataLossAnnotation_def)
qed

end
