(* ===== verification/SQLServer_Objects.thy ===== *)
theory SQLServer_Objects
  imports Webhooks Pods
begin

text \<open>
  The Kubernetes objects an instance consists of (\<open>internal/controller/sqlserver_instance.go\<close>): their
  shapes, as far as the controller writes or reads them, and the functions that compute the desired
  ones from a SQLServer.
\<close>

section \<open>Objects\<close>

record ObjectMeta =
  m_Name :: string
  m_Namespace :: string
  m_Labels :: "string \<rightharpoonup> string"
  m_Owner :: "string option" \<comment> \<open>the controlling owner\<close>

record ConfigMap =
  cm_Meta :: ObjectMeta
  cm_Data :: "string \<rightharpoonup> string"

record ServicePort =
  port_Name :: string
  port_Port :: int
  port_TargetPort :: int

record Service =
  svc_Meta :: ObjectMeta
  svc_Type :: string
  svc_ClusterIP :: string
  svc_Selector :: "string \<rightharpoonup> string"
  svc_Ports :: "ServicePort list"

record EnvVar =
  env_Name :: string
  env_Value :: string
  env_SecretKeyRef :: "(string \<times> string) option" \<comment> \<open>secret and key\<close>

record VolumeMount =
  vm_Name :: string
  vm_MountPath :: string
  vm_SubPath :: string
  vm_ReadOnly :: bool

datatype VolumeSource = ConfigMapVolume string | SecretVolume string bool \<comment> \<open>name; name and optional\<close>

text \<open>Both probes open a TCP connection.\<close>

record Probe =
  pr_Port :: int
  pr_InitialDelaySeconds :: int
  pr_PeriodSeconds :: int

record Container =
  ct_Name :: string
  ct_Image :: string
  ct_Env :: "EnvVar list"
  ct_Ports :: "(string \<times> int) list"
  ct_VolumeMounts :: "VolumeMount list"
  ct_ReadinessProbe :: Probe
  ct_LivenessProbe :: Probe
  ct_Resources :: ResourceRequirements

record PodSpec =
  ps_Containers :: "Container list"
  ps_Volumes :: "(string \<times> VolumeSource) list"
  ps_NodeSelector :: "(string \<times> string) list"
  ps_Tolerations :: "string list"
  ps_Affinity :: "string option"
  ps_TopologySpreadConstraints :: "string list"

record VolumeClaim =
  vc_Name :: string
  vc_AccessModes :: "string list"
  vc_Storage :: string
  vc_StorageClassName :: "string option"

record StatefulSet =
  sts_Meta :: ObjectMeta
  sts_ServiceName :: string
  sts_Replicas :: "int option"
  sts_Selector :: "string \<rightharpoonup> string"
  sts_TemplateLabels :: "string \<rightharpoonup> string"
  sts_Pod :: PodSpec
  sts_VolumeClaims :: "VolumeClaim list"
  sts_ReadyReplicas :: int \<comment> \<open>of the status\<close>

definition no_resources :: ResourceRequirements where
  "no_resources = \<lparr>res_MemoryLimit = None, res_Other = []\<rparr>"

section \<open>Names\<close>

definition hadrEndpointPort :: int where
  "hadrEndpointPort = 5022"

definition sqlPort :: int where
  "sqlPort = 1433"

definition managedHost :: "SQLServer \<Rightarrow> string" where
  "managedHost srv = cr_Name srv @ ''.'' @ cr_Namespace srv @ ''.svc.cluster.local''"

definition pod_name :: "SQLServer \<Rightarrow> int \<Rightarrow> string" where
  "pod_name srv i = cr_Name srv @ ''-'' @ show_int i"

definition replicaHost :: "SQLServer \<Rightarrow> int \<Rightarrow> string" where
  "replicaHost srv index = pod_name srv index @ ''.'' @ cr_Name srv @ ''-headless.'' @ cr_Namespace srv @ ''.svc.cluster.local''"

definition instanceLabels :: "SQLServer \<Rightarrow> string \<rightharpoonup> string" where
  "instanceLabels srv = [''app.kubernetes.io/name'' \<mapsto> ''mssql'', ''app.kubernetes.io/instance'' \<mapsto> cr_Name srv,
     ''app.kubernetes.io/managed-by'' \<mapsto> ''mssql-operator'']"

definition instance_meta :: "SQLServer \<Rightarrow> string \<Rightarrow> ObjectMeta" where
  "instance_meta srv name = \<lparr>m_Name = name, m_Namespace = cr_Namespace srv, m_Labels = instanceLabels srv, m_Owner = None\<rparr>"

section \<open>The configuration file\<close>

text \<open>\<open>strings.Contains\<close>\<close>

fun Contains :: "string \<Rightarrow> string \<Rightarrow> bool" where
  "Contains [] p \<longleftrightarrow> p = []"
| "Contains (c # cs) p \<longleftrightarrow> take (length p) (c # cs) = p \<or> Contains cs p"

definition line_end :: string where
  "line_end = [CHR 0x0A]"

definition memory_limit :: "int \<Rightarrow> int" where
  "memory_limit memLimit = go_div (wrap64 (go_div memLimit (1024 * 1024) * 80)) 100"

definition buildMSSQLConf :: "InstanceSpec \<Rightarrow> string" where
  "buildMSSQLConf inst =
     (let conf = (case inst_Config inst of None \<Rightarrow> [] | Some c \<Rightarrow> c) in
      case (Contains conf ''memorylimitmb'', inst_Resources inst) of
        (False, Some resources) \<Rightarrow>
          (case res_MemoryLimit resources of
             None \<Rightarrow> conf
           | Some memLimit \<Rightarrow>
               (let autoLimit = memory_limit memLimit in
                if autoLimit > 0 then
                  (if \<not> Contains conf ''[memory]'' then conf @ line_end @ ''[memory]'' @ line_end else conf) @
                  ''memorylimitmb = '' @ show_int autoLimit @ line_end
                else conf))
      | _ \<Rightarrow> conf)"

definition desiredConfigMap :: "SQLServer \<Rightarrow> InstanceSpec \<Rightarrow> ConfigMap" where
  "desiredConfigMap srv inst = \<lparr>cm_Meta = instance_meta srv (cr_Name srv @ ''-config''),
     cm_Data = [''mssql.conf'' \<mapsto> buildMSSQLConf inst]\<rparr>"

section \<open>The services\<close>

definition sql_service_port :: ServicePort where
  "sql_service_port = \<lparr>port_Name = ''sql'', port_Port = sqlPort, port_TargetPort = sqlPort\<rparr>"

definition desiredHeadlessService :: "SQLServer \<Rightarrow> InstanceSpec \<Rightarrow> Service" where
  "desiredHeadlessService srv inst =
     \<lparr>svc_Meta = instance_meta srv (cr_Name srv @ ''-headless''), svc_Type = [], svc_ClusterIP = ''None'',
      svc_Selector = instanceLabels srv,
      svc_Ports = sql_service_port # (if replica_count inst > 1
        then [\<lparr>port_Name = ''hadr'', port_Port = hadrEndpointPort, port_TargetPort = hadrEndpointPort\<rparr>] else [])\<rparr>"

definition service_type :: "InstanceSpec \<Rightarrow> string" where
  "service_type inst = (case inst_ServiceType inst of None \<Rightarrow> ''ClusterIP'' | Some t \<Rightarrow> t)"

definition desiredClientService :: "SQLServer \<Rightarrow> InstanceSpec \<Rightarrow> Service" where
  "desiredClientService srv inst =
     \<lparr>svc_Meta = instance_meta srv (cr_Name srv), svc_Type = service_type inst, svc_ClusterIP = [],
      svc_Selector = (if replica_count inst > 1 then (instanceLabels srv)(LabelRole \<mapsto> RolePrimary) else instanceLabels srv),
      svc_Ports = [sql_service_port]\<rparr>"

definition desiredReadOnlyService :: "SQLServer \<Rightarrow> InstanceSpec \<Rightarrow> Service" where
  "desiredReadOnlyService srv inst =
     \<lparr>svc_Meta = instance_meta srv (cr_Name srv @ ''-readonly''), svc_Type = service_type inst, svc_ClusterIP = [],
      svc_Selector = (instanceLabels srv)(LabelRole \<mapsto> RoleSecondary), svc_Ports = [sql_service_port]\<rparr>"

section \<open>The stateful set\<close>

definition env_vars :: "InstanceSpec \<Rightarrow> EnvVar list" where
  "env_vars inst =
     [\<lparr>env_Name = ''ACCEPT_EULA'', env_Value = ''Y'', env_SecretKeyRef = None\<rparr>,
      \<lparr>env_Name = ''MSSQL_SA_PASSWORD'', env_Value = [], env_SecretKeyRef = Some (inst_SAPasswordSecret inst, ''MSSQL_SA_PASSWORD'')\<rparr>] @
     (case inst_Edition inst of
        None \<Rightarrow> []
      | Some edition \<Rightarrow> if edition = ''Developer'' then []
          else [\<lparr>env_Name = ''MSSQL_PID'', env_Value = edition, env_SecretKeyRef = None\<rparr>]) @
     (if replica_count inst > 1 then [\<lparr>env_Name = ''MSSQL_ENABLE_HADR'', env_Value = ''1'', env_SecretKeyRef = None\<rparr>] else [])"

definition cert_secret :: "SQLServer \<Rightarrow> int \<Rightarrow> string" where
  "cert_secret srv i = cr_Name srv @ ''-cert-'' @ show_int i"

definition cert_volume :: "SQLServer \<Rightarrow> int \<Rightarrow> string \<times> VolumeSource" where
  "cert_volume srv i = (''cert-'' @ show_int i, SecretVolume (cert_secret srv i) True)"

definition cert_mount :: "int \<Rightarrow> VolumeMount" where
  "cert_mount i = \<lparr>vm_Name = ''cert-'' @ show_int i, vm_MountPath = ''/var/opt/mssql/certs/'' @ show_int i, vm_SubPath = [],
     vm_ReadOnly = True\<rparr>"

definition desired_container :: "InstanceSpec \<Rightarrow> Container" where
  "desired_container inst =
     (let cluster = replica_count inst > 1 in
      \<lparr>ct_Name = ''mssql'',
       ct_Image = (case inst_Image inst of None \<Rightarrow> ''mcr.microsoft.com/mssql/server:2022-latest'' | Some i \<Rightarrow> i),
       ct_Env = env_vars inst,
       ct_Ports = (''sql'', sqlPort) # (if cluster then [(''hadr'', hadrEndpointPort)] else []),
       ct_VolumeMounts =
         [\<lparr>vm_Name = ''mssql-data'', vm_MountPath = ''/var/opt/mssql'', vm_SubPath = [], vm_ReadOnly = False\<rparr>,
          \<lparr>vm_Name = ''mssql-config'', vm_MountPath = ''/var/opt/mssql/mssql.conf'', vm_SubPath = ''mssql.conf'', vm_ReadOnly = True\<rparr>] @
         (if cluster then List.map cert_mount (replica_range (replica_count inst)) else []),
       ct_ReadinessProbe = \<lparr>pr_Port = sqlPort, pr_InitialDelaySeconds = 20, pr_PeriodSeconds = 10\<rparr>,
       ct_LivenessProbe = \<lparr>pr_Port = sqlPort, pr_InitialDelaySeconds = 30, pr_PeriodSeconds = 15\<rparr>,
       ct_Resources = (case inst_Resources inst of None \<Rightarrow> no_resources | Some r \<Rightarrow> r)\<rparr>)"

definition desired_volumes :: "SQLServer \<Rightarrow> InstanceSpec \<Rightarrow> (string \<times> VolumeSource) list" where
  "desired_volumes srv inst =
     (''mssql-config'', ConfigMapVolume (cr_Name srv @ ''-config'')) #
     (if replica_count inst > 1 then List.map (cert_volume srv) (replica_range (replica_count inst)) else [])"

text \<open>\<open>resource.MustParse\<close> panics on a size that \<open>parse\<close> refuses: \<open>None\<close>.\<close>

definition desiredStatefulSet :: "(string \<Rightarrow> string option) \<Rightarrow> SQLServer \<Rightarrow> InstanceSpec \<Rightarrow> StatefulSet option" where
  "desiredStatefulSet parse srv inst =
     map_option (\<lambda>size.
       \<lparr>sts_Meta = instance_meta srv (cr_Name srv), sts_ServiceName = cr_Name srv @ ''-headless'',
        sts_Replicas = Some (replica_count inst), sts_Selector = instanceLabels srv, sts_TemplateLabels = instanceLabels srv,
        sts_Pod = \<lparr>ps_Containers = [desired_container inst], ps_Volumes = desired_volumes srv inst,
          ps_NodeSelector = inst_NodeSelector inst, ps_Tolerations = inst_Tolerations inst, ps_Affinity = inst_Affinity inst,
          ps_TopologySpreadConstraints = inst_TopologySpreadConstraints inst\<rparr>,
        sts_VolumeClaims = [\<lparr>vc_Name = ''mssql-data'', vc_AccessModes = [''ReadWriteOnce''], vc_Storage = size,
          vc_StorageClassName = inst_StorageClassName inst\<rparr>],
        sts_ReadyReplicas = 0\<rparr>)
       (parse (case inst_StorageSize inst of None \<Rightarrow> ''10Gi'' | Some s \<Rightarrow> s))"

end
