(* ===== verification/SQLServer_Instance.thy ===== *)
theory SQLServer_Instance
  imports SQLServer_Objects Call_Logic
begin

text \<open>
  \<open>internal/controller/sqlserver_instance.go\<close>: bringing the objects of an instance to their desired
  state, and the role labels of its pods. Each kind of object is created when it is missing and
  otherwise updated in the fields the controller manages; one locale states what that pattern
  promises, and every kind interprets it.
\<close>

section \<open>What the controller uses besides the common parts\<close>

text \<open>
  Reading, creating and updating objects of one kind; creating a Secret from its metadata and data;
  pods; \<open>controllerutil.SetControllerReference\<close>, which makes the SQLServer the owner; the parser behind
  \<open>resource.MustParse\<close>; the clock.
\<close>

record ('o, 'k) ObjClient =
  GetObj :: "string \<Rightarrow> string \<Rightarrow> ('o, 'k) op"
  CreateObj :: "'o \<Rightarrow> (unit, 'k) op"
  UpdateObj :: "'o \<Rightarrow> (unit, 'k) op"

record 'k SrvEnv =
  ConfigMaps :: "(ConfigMap, 'k) ObjClient"
  Services :: "(Service, 'k) ObjClient"
  StatefulSets :: "(StatefulSet, 'k) ObjClient"
  Groups :: "(AvailabilityGroup, 'k) ObjClient"
  CreateSecret :: "ObjectMeta \<Rightarrow> (string \<rightharpoonup> string) \<Rightarrow> (unit, 'k) op"
  srv_GetPod :: "string \<Rightarrow> string \<Rightarrow> (Pod, 'k) op"
  srv_PatchPod :: "Pod \<Rightarrow> Pod \<Rightarrow> (Pod, 'k) op"
  SetControllerReference :: "SQLServer \<Rightarrow> ObjectMeta \<Rightarrow> ObjectMeta res"
  ParseQuantity :: "string \<Rightarrow> string option"
  srv_Now :: "'k \<Rightarrow> int \<times> 'k"

section \<open>Creating or updating one object\<close>

text \<open>
  The code of every \<open>reconcile...\<close> function after the desired object has its owner: get, create when
  not found, and otherwise apply \<open>change\<close>, which says what the update would write, if anything.
\<close>

definition create_or_update ::
  "('o, 'k) ObjClient \<Rightarrow> ('o \<Rightarrow> ObjectMeta) \<Rightarrow> ('o \<Rightarrow> 'o \<Rightarrow> 'o option) \<Rightarrow> 'o \<Rightarrow> (unit, 'k) op" where
  "create_or_update C meta change desired =
     attempt (GetObj C (m_Namespace (meta desired)) (m_Name (meta desired)))
       (\<lambda>e. if IsNotFound e then CreateObj C desired else fail e)
       (\<lambda>existing. case change desired existing of None \<Rightarrow> ret () | Some u \<Rightarrow> UpdateObj C u)"

text \<open>\<open>if err := controllerutil.SetControllerReference(srv, desired, r.Scheme); err != nil { ... }\<close>\<close>

definition with_owner_reference ::
  "'k SrvEnv \<Rightarrow> SQLServer \<Rightarrow> ObjectMeta \<Rightarrow> (go_error \<Rightarrow> go_error) \<Rightarrow> (ObjectMeta \<Rightarrow> (unit, 'k) op) \<Rightarrow> (unit, 'k) op" where
  "with_owner_reference A srv meta wrap k =
     (case SetControllerReference A srv meta of Inl e \<Rightarrow> fail (wrap e) | Inr m \<Rightarrow> k m)"

definition change_config_map :: "ConfigMap \<Rightarrow> ConfigMap \<Rightarrow> ConfigMap option" where
  "change_config_map desired existing =
     (if lookup (cm_Data existing) ''mssql.conf'' \<noteq> lookup (cm_Data desired) ''mssql.conf''
      then Some (existing\<lparr>cm_Data := cm_Data desired\<rparr>) else None)"

definition reconcileConfigMap :: "'k SrvEnv \<Rightarrow> SQLServer \<Rightarrow> InstanceSpec \<Rightarrow> (unit, 'k) op" where
  "reconcileConfigMap A srv inst =
     (let desired = desiredConfigMap srv inst in
      with_owner_reference A srv (cm_Meta desired) (\<lambda>e. e) (\<lambda>m.
        create_or_update (ConfigMaps A) cm_Meta change_config_map (desired\<lparr>cm_Meta := m\<rparr>)))"

text \<open>The headless service is only created; the two others follow the service type and the role they route to.\<close>

definition change_nothing :: "Service \<Rightarrow> Service \<Rightarrow> Service option" where
  "change_nothing desired existing = None"

definition change_service :: "Service \<Rightarrow> Service \<Rightarrow> Service option" where
  "change_service desired existing =
     (let typeDiffers = svc_Type existing \<noteq> svc_Type desired;
          e1 = (if typeDiffers then existing\<lparr>svc_Type := svc_Type desired\<rparr> else existing);
          roleDiffers = lookup (svc_Selector existing) LabelRole \<noteq> lookup (svc_Selector desired) LabelRole;
          e2 = (if roleDiffers then e1\<lparr>svc_Selector := svc_Selector desired\<rparr> else e1)
      in if typeDiffers \<or> roleDiffers then Some e2 else None)"

definition reconcile_service ::
  "'k SrvEnv \<Rightarrow> SQLServer \<Rightarrow> string \<Rightarrow> (Service \<Rightarrow> Service \<Rightarrow> Service option) \<Rightarrow> Service \<Rightarrow> (unit, 'k) op" where
  "reconcile_service A srv what change desired =
     with_owner_reference A srv (svc_Meta desired) (Wrapf (''failed to set owner reference on '' @ what @ '' Service: '')) (\<lambda>m.
       create_or_update (Services A) svc_Meta change (desired\<lparr>svc_Meta := m\<rparr>))"

definition reconcileHeadlessService :: "'k SrvEnv \<Rightarrow> SQLServer \<Rightarrow> InstanceSpec \<Rightarrow> (unit, 'k) op" where
  "reconcileHeadlessService A srv inst =
     reconcile_service A srv ''headless'' change_nothing (desiredHeadlessService srv inst)"

definition reconcileClientService :: "'k SrvEnv \<Rightarrow> SQLServer \<Rightarrow> InstanceSpec \<Rightarrow> (unit, 'k) op" where
  "reconcileClientService A srv inst =
     reconcile_service A srv ''client'' change_service (desiredClientService srv inst)"

definition reconcileReadOnlyService :: "'k SrvEnv \<Rightarrow> SQLServer \<Rightarrow> InstanceSpec \<Rightarrow> (unit, 'k) op" where
  "reconcileReadOnlyService A srv inst =
     reconcile_service A srv ''read-only'' change_service (desiredReadOnlyService srv inst)"

text \<open>
  The stateful set: replicas, image, environment and resources of the container, and scheduling.
  Resources are only compared when the instance states them. Ports, mounts and volumes are left.
\<close>

definition change_container :: "ResourceRequirements option \<Rightarrow> Container \<Rightarrow> Container \<Rightarrow> Container" where
  "change_container resources desired existing =
     existing\<lparr>ct_Image := ct_Image desired, ct_Env := ct_Env desired,
       ct_Resources := (case resources of None \<Rightarrow> ct_Resources existing | Some r \<Rightarrow> r)\<rparr>"

definition change_pod :: "ResourceRequirements option \<Rightarrow> PodSpec \<Rightarrow> PodSpec \<Rightarrow> PodSpec" where
  "change_pod resources desired existing =
     (case (ps_Containers existing, ps_Containers desired) of
        ([], _) \<Rightarrow> desired
      | (c # cs, d # ds) \<Rightarrow>
          existing\<lparr>ps_Containers := change_container resources d c # cs, ps_NodeSelector := ps_NodeSelector desired,
            ps_Tolerations := ps_Tolerations desired, ps_Affinity := ps_Affinity desired,
            ps_TopologySpreadConstraints := ps_TopologySpreadConstraints desired\<rparr>
      | (c # cs, []) \<Rightarrow>
          existing\<lparr>ps_NodeSelector := ps_NodeSelector desired, ps_Tolerations := ps_Tolerations desired,
            ps_Affinity := ps_Affinity desired, ps_TopologySpreadConstraints := ps_TopologySpreadConstraints desired\<rparr>)"

definition change_stateful_set :: "ResourceRequirements option \<Rightarrow> StatefulSet \<Rightarrow> StatefulSet \<Rightarrow> StatefulSet option" where
  "change_stateful_set resources desired existing =
     (let pod = change_pod resources (sts_Pod desired) (sts_Pod existing);
          needsUpdate = (sts_Replicas existing \<noteq> sts_Replicas desired \<or> ps_Containers (sts_Pod existing) = [] \<or> sts_Pod existing \<noteq> pod)
      in if needsUpdate
         then Some (existing\<lparr>sts_Replicas := sts_Replicas desired, sts_Pod := pod,
           sts_TemplateLabels := (if ps_Containers (sts_Pod existing) = [] then sts_TemplateLabels desired else sts_TemplateLabels existing)\<rparr>)
         else None)"

definition parse_panic :: go_error where
  "parse_panic = Errorf ''panic: cannot parse quantity''"

definition reconcileStatefulSet :: "'k SrvEnv \<Rightarrow> SQLServer \<Rightarrow> InstanceSpec \<Rightarrow> (unit, 'k) op" where
  "reconcileStatefulSet A srv inst =
     (case desiredStatefulSet (ParseQuantity A) srv inst of
        None \<Rightarrow> fail parse_panic
      | Some desired \<Rightarrow>
          with_owner_reference A srv (sts_Meta desired) (Wrapf ''failed to set owner reference on StatefulSet: '') (\<lambda>m.
            create_or_update (StatefulSets A) sts_Meta (change_stateful_set (inst_Resources inst)) (desired\<lparr>sts_Meta := m\<rparr>)))"

definition isStatefulSetReady :: "'k SrvEnv \<Rightarrow> SQLServer \<Rightarrow> InstanceSpec \<Rightarrow> (bool \<times> int, 'k) op" where
  "isStatefulSetReady A srv inst =
     attempt (GetObj (StatefulSets A) (cr_Namespace srv) (cr_Name srv)) fail (\<lambda>sts.
       ret (sts_ReadyReplicas sts \<ge> replica_count inst, sts_ReadyReplicas sts))"

section \<open>Role labels of the pods\<close>

text \<open>\<open>strings.Index(primaryReplica, ".")\<close>; a name that starts with a dot is kept whole.\<close>

definition short_name :: "string \<Rightarrow> string" where
  "short_name primaryReplica =
     (let short = takeWhile (\<lambda>c. c \<noteq> CHR ''.'') primaryReplica in
      if length short < length primaryReplica \<and> short \<noteq> [] then short else primaryReplica)"

definition label_pod :: "'k SrvEnv \<Rightarrow> SQLServer \<Rightarrow> string \<Rightarrow> int \<Rightarrow> (unit, 'k) op" where
  "label_pod A srv primaryPodName i =
     attempt (srv_GetPod A (cr_Namespace srv) (pod_name srv i)) (\<lambda>_. ret ()) (\<lambda>pod.
       let desiredRole = (if pod_name srv i = primaryPodName then RolePrimary else RoleSecondary) in
       if label_of pod LabelRole = desiredRole then ret ()
       else attempt (srv_PatchPod A pod (pod\<lparr>pod_Labels := (pod_Labels pod)(LabelRole \<mapsto> desiredRole)\<rparr>))
         (\<lambda>e. fail (Wrapf (''failed to label pod '' @ pod_name srv i @ '' with role '' @ desiredRole @ '': '') e)) (\<lambda>_. ret ()))"

definition reconcileReplicaRoleLabels :: "'k SrvEnv \<Rightarrow> SQLServer \<Rightarrow> InstanceSpec \<Rightarrow> string \<Rightarrow> (unit, 'k) op" where
  "reconcileReplicaRoleLabels A srv inst primaryReplica =
     for_each (label_pod A srv (short_name primaryReplica)) (replica_range (replica_count inst))"

section \<open>What is assumed of the API server\<close>

text \<open>The content of the API server, as far as a SQLServer is concerned, by namespace and name.\<close>

type_synonym 'o objects = "string \<times> string \<Rightarrow> 'o option"

record SrvStore =
  st_ConfigMaps :: "ConfigMap objects"
  st_Services :: "Service objects"
  st_StatefulSets :: "StatefulSet objects"
  st_Groups :: "AvailabilityGroup objects"
  st_Pods :: "Pod objects"
  st_Secrets :: "Secret objects"
  st_SQLServers :: "SQLServer objects"

definition meta_key :: "ObjectMeta \<Rightarrow> string \<times> string" where
  "meta_key m = (m_Namespace m, m_Name m)"

text \<open>
  A part of the store that can be read and replaced.
\<close>

definition part_of :: "('s \<Rightarrow> 'p) \<Rightarrow> (('p \<Rightarrow> 'p) \<Rightarrow> 's \<Rightarrow> 's) \<Rightarrow> bool" where
  "part_of get upd \<longleftrightarrow> (\<forall>f s. get (upd f s) = f (get s)) \<and> (\<forall>f s. f (get s) = get s \<longrightarrow> upd f s = s)"

text \<open>
  Reading gives the stored object; creating and updating store it, possibly with defaults filled in
  that the controller does not manage: whatever the object agreed with, it still agrees with.
\<close>

definition stored_as :: "('o \<Rightarrow> 'm) \<Rightarrow> ('o \<Rightarrow> 'o \<Rightarrow> bool) \<Rightarrow> 'o \<Rightarrow> 'o \<Rightarrow> bool" where
  "stored_as meta agrees obj obj' \<longleftrightarrow> meta obj' = meta obj \<and> (\<forall>d. agrees d obj \<longrightarrow> agrees d obj')"

definition object_laws ::
  "('o, 'k) ObjClient \<Rightarrow> ('o \<Rightarrow> ObjectMeta) \<Rightarrow> ('o \<Rightarrow> 'o \<Rightarrow> bool) \<Rightarrow> ('k \<Rightarrow> 's) \<Rightarrow> ('s \<Rightarrow> 'o objects)
   \<Rightarrow> (('o objects \<Rightarrow> 'o objects) \<Rightarrow> 's \<Rightarrow> 's) \<Rightarrow> bool" where
  "object_laws C meta agrees store get upd \<longleftrightarrow> part_of get upd \<and>
     (\<forall>k ns n. answers (get (store k) (ns, n)) k (GetObj C ns n k)) \<and>
     (\<forall>k obj. get (store k) (meta_key (meta obj)) = None \<longrightarrow> succeeds (CreateObj C obj) k (\<lambda>_ k'.
        \<exists>obj'. stored_as meta agrees obj obj' \<and> store k' = upd (\<lambda>m. m(meta_key (meta obj) \<mapsto> obj')) (store k))) \<and>
     (\<forall>k obj. get (store k) (meta_key (meta obj)) \<noteq> None \<longrightarrow> succeeds (UpdateObj C obj) k (\<lambda>_ k'.
        \<exists>obj'. stored_as meta agrees obj obj' \<and> store k' = upd (\<lambda>m. m(meta_key (meta obj) \<mapsto> obj')) (store k)))"

lemma object_laws_update:
  assumes "object_laws C meta agrees store get upd" "get (store k) (meta_key (meta obj)) = Some e"
  shows "succeeds (UpdateObj C obj) k (\<lambda>_ k'.
    \<exists>obj'. stored_as meta agrees obj obj' \<and> store k' = upd (\<lambda>m. m(meta_key (meta obj) \<mapsto> obj')) (store k))"
proof -
  have "get (store k) (meta_key (meta obj)) \<noteq> None" using assms(2) by simp
  then show ?thesis
    using assms(1) [unfolded object_laws_def, THEN conjunct2, THEN conjunct2, THEN conjunct2, rule_format] by blast
qed

lemma object_laws_weaken:
  assumes "object_laws C meta agrees store get upd"
  shows "object_laws C meta (\<lambda>_ _. True) store get upd"
proof -
  have weaker: "succeeds m k (\<lambda>_ k'. \<exists>obj'. stored_as meta agrees obj obj' \<and> P obj' k') \<Longrightarrow>
      succeeds m k (\<lambda>_ k'. \<exists>obj'. stored_as meta (\<lambda>_ _. True) obj obj' \<and> P obj' k')" for m :: "(unit, 'b) op" and k obj P
    by (erule wp_mono) (auto simp: stored_as_def)
  show ?thesis
    unfolding object_laws_def
  proof (intro conjI allI impI)
    show "part_of get upd" "answers (get (store k) (ns, n)) k (GetObj C ns n k)" for k ns n
      using assms by (simp_all add: object_laws_def)
  qed (rule weaker, use assms in \<open>simp add: object_laws_def\<close>)+
qed

section \<open>The promise of create-or-update\<close>

locale managed_object =
  fixes meta :: "'o \<Rightarrow> ObjectMeta" and change :: "'o \<Rightarrow> 'o \<Rightarrow> 'o option" and agrees :: "'o \<Rightarrow> 'o \<Rightarrow> bool"
    and wanted :: "'o \<Rightarrow> bool"
  assumes created: "wanted d \<Longrightarrow> agrees d d"
    and unchanged: "wanted d \<Longrightarrow> change d e = None \<longleftrightarrow> agrees d e"
    and changed: "wanted d \<Longrightarrow> change d e = Some u \<Longrightarrow> agrees d u \<and> meta u = meta e"
begin

text \<open>Afterwards the stored object agrees with the desired one; an object that agreed before is not written.\<close>

lemma settles:
  assumes laws: "object_laws C meta agrees store get upd" and d: "wanted d"
    and stored: "\<And>e. get (store k) (meta_key (meta d)) = Some e \<Longrightarrow> meta_key (meta e) = meta_key (meta d)"
    and post: "\<And>k' obj. agrees d obj \<Longrightarrow> store k' = upd (\<lambda>m. m(meta_key (meta d) \<mapsto> obj)) (store k) \<Longrightarrow>
      meta_key (meta obj) = meta_key (meta d) \<Longrightarrow>
      (\<forall>e. get (store k) (meta_key (meta d)) = Some e \<and> agrees d e \<longrightarrow> k' = k) \<Longrightarrow> Q () k'"
  shows "wp (create_or_update C meta change d) k Q E"
proof -
  have get: "answers (get (store k) (meta_key (meta d))) k (GetObj C (m_Namespace (meta d)) (m_Name (meta d)) k)"
    using laws by (simp add: object_laws_def meta_key_def)
  have post_stored: "Q u k'"
    if "store k' = upd (\<lambda>m. m(meta_key (meta d) \<mapsto> obj)) (store k)" "agrees d obj" "meta_key (meta obj) = meta_key (meta d)"
      "\<And>e. get (store k) (meta_key (meta d)) = Some e \<Longrightarrow> \<not> agrees d e" for u k' obj
    using that by (cases u) (auto intro!: post [of obj k'])
  show ?thesis
  proof (cases "get (store k) (meta_key (meta d))")
    case None
    then obtain e where e: "GetObj C (m_Namespace (meta d)) (m_Name (meta d)) k = (Inl e, k)" "IsNotFound e"
      using get by (cases "GetObj C (m_Namespace (meta d)) (m_Name (meta d)) k") (auto simp: answers_def)
    have "succeeds (CreateObj C d) k (\<lambda>_ k'. \<exists>obj'. stored_as meta agrees d obj' \<and>
        store k' = upd (\<lambda>m. m(meta_key (meta d) \<mapsto> obj')) (store k))"
      using laws None by (simp add: object_laws_def)
    then have "wp (CreateObj C d) k Q E"
      by (rule wp_mono) (use None d in \<open>auto simp: stored_as_def created intro!: post_stored\<close>)
    with e show ?thesis by (simp add: create_or_update_def wp_attempt fails_eq)
  next
    case (Some e)
    then have e: "GetObj C (m_Namespace (meta d)) (m_Name (meta d)) k = (Inr e, k)"
      using get by (cases "GetObj C (m_Namespace (meta d)) (m_Name (meta d)) k") (auto simp: answers_def)
    have same: "meta_key (meta e) = meta_key (meta d)" by (rule stored [OF Some])
    show ?thesis
    proof (cases "change d e")
      case None
      have "get (store k) = (get (store k))(meta_key (meta d) \<mapsto> e)" using Some by (auto simp: fun_eq_iff)
      then have "store k = upd (\<lambda>m. m(meta_key (meta d) \<mapsto> e)) (store k)"
        using laws by (simp add: object_laws_def part_of_def)
      then have "Q () k" using None d unchanged same by (intro post [of e]) auto
      with None e show ?thesis by (simp add: create_or_update_def wp_attempt succeeds_eq wp_ret)
    next
      case (Some u)
      have u: "agrees d u" "meta_key (meta u) = meta_key (meta d)" using changed [OF d Some] same by auto
      have "succeeds (UpdateObj C u) k (\<lambda>_ k'. \<exists>obj'. stored_as meta agrees u obj' \<and>
          store k' = upd (\<lambda>m. m(meta_key (meta u) \<mapsto> obj')) (store k))"
        by (rule object_laws_update [OF laws]) (simp add: u(2) \<open>get (store k) (meta_key (meta d)) = Some e\<close>)
      then have "wp (UpdateObj C u) k Q E"
        by (rule wp_mono) (use u Some d unchanged [OF d, of e] in \<open>auto simp: stored_as_def \<open>get (store k) (meta_key (meta d)) = Some e\<close> intro!: post_stored\<close>)
      with Some e show ?thesis by (simp add: create_or_update_def wp_attempt succeeds_eq)
    qed
  qed
qed

end

definition config_map_agrees :: "ConfigMap \<Rightarrow> ConfigMap \<Rightarrow> bool" where
  "config_map_agrees desired existing \<longleftrightarrow> lookup (cm_Data existing) ''mssql.conf'' = lookup (cm_Data desired) ''mssql.conf''"

definition service_agrees :: "Service \<Rightarrow> Service \<Rightarrow> bool" where
  "service_agrees desired existing \<longleftrightarrow>
     svc_Type existing = svc_Type desired \<and> lookup (svc_Selector existing) LabelRole = lookup (svc_Selector desired) LabelRole"

definition stateful_set_agrees :: "ResourceRequirements option \<Rightarrow> StatefulSet \<Rightarrow> StatefulSet \<Rightarrow> bool" where
  "stateful_set_agrees resources desired existing \<longleftrightarrow>
     sts_Replicas existing = sts_Replicas desired \<and>
     (case (ps_Containers (sts_Pod existing), ps_Containers (sts_Pod desired)) of
        (c # _, d # _) \<Rightarrow> ct_Image c = ct_Image d \<and> ct_Env c = ct_Env d \<and> (\<forall>r. resources = Some r \<longrightarrow> ct_Resources c = r)
      | _ \<Rightarrow> False) \<and>
     ps_NodeSelector (sts_Pod existing) = ps_NodeSelector (sts_Pod desired) \<and>
     ps_Tolerations (sts_Pod existing) = ps_Tolerations (sts_Pod desired) \<and>
     ps_Affinity (sts_Pod existing) = ps_Affinity (sts_Pod desired) \<and>
     ps_TopologySpreadConstraints (sts_Pod existing) = ps_TopologySpreadConstraints (sts_Pod desired)"

definition one_container :: "ResourceRequirements option \<Rightarrow> StatefulSet \<Rightarrow> bool" where
  "one_container resources d \<longleftrightarrow> (\<exists>c. ps_Containers (sts_Pod d) = [c] \<and> (\<forall>r. resources = Some r \<longrightarrow> ct_Resources c = r))"

interpretation config_maps: managed_object cm_Meta change_config_map config_map_agrees "\<lambda>_. True"
  by unfold_locales (auto simp: change_config_map_def config_map_agrees_def split: if_splits)

interpretation created_services: managed_object svc_Meta change_nothing "\<lambda>_ _. True" "\<lambda>_. True"
  by unfold_locales (auto simp: change_nothing_def)

interpretation routed_services: managed_object svc_Meta change_service service_agrees "\<lambda>_. True"
  by unfold_locales (auto simp: change_service_def service_agrees_def Let_def split: if_splits)

lemma container_unchanged:
  "change_container resources d c = c \<longleftrightarrow>
     ct_Image c = ct_Image d \<and> ct_Env c = ct_Env d \<and> (\<forall>r. resources = Some r \<longrightarrow> ct_Resources c = r)"
  by (cases c) (auto simp: change_container_def split: option.split)

lemma pod_unchanged:
  assumes "ps_Containers e = c # cs" "ps_Containers d = [x]"
  shows "change_pod resources d e = e \<longleftrightarrow> change_container resources x c = c \<and> ps_NodeSelector e = ps_NodeSelector d \<and>
    ps_Tolerations e = ps_Tolerations d \<and> ps_Affinity e = ps_Affinity d \<and> ps_TopologySpreadConstraints e = ps_TopologySpreadConstraints d"
  using assms by (cases e) (auto simp: change_pod_def)

interpretation stateful_sets: managed_object sts_Meta "change_stateful_set resources" "stateful_set_agrees resources" "one_container resources"
  for resources
proof unfold_locales
  fix d e u :: StatefulSet
  assume d: "one_container resources d"
  then obtain x where x: "ps_Containers (sts_Pod d) = [x]" "\<And>r. resources = Some r \<Longrightarrow> ct_Resources x = r"
    by (auto simp: one_container_def)
  then show "stateful_set_agrees resources d d"
    by (simp add: stateful_set_agrees_def)
  show "change_stateful_set resources d e = None \<longleftrightarrow> stateful_set_agrees resources d e"
  proof (cases "ps_Containers (sts_Pod e)")
    case (Cons c cs)
    have "change_stateful_set resources d e = None \<longleftrightarrow> sts_Replicas e = sts_Replicas d \<and> change_pod resources (sts_Pod d) (sts_Pod e) = sts_Pod e"
      using Cons by (auto simp: change_stateful_set_def Let_def)
    then show ?thesis
      using Cons x(1) by (auto simp: pod_unchanged [OF Cons x(1)] container_unchanged stateful_set_agrees_def)
  qed (simp add: change_stateful_set_def stateful_set_agrees_def Let_def)
  assume u: "change_stateful_set resources d e = Some u"
  have "sts_Replicas u = sts_Replicas d" "sts_Meta u = sts_Meta e" "sts_Pod u = change_pod resources (sts_Pod d) (sts_Pod e)"
    using u by (auto simp: change_stateful_set_def Let_def split: if_splits)
  then show "stateful_set_agrees resources d u \<and> sts_Meta u = sts_Meta e"
    using x by (cases "ps_Containers (sts_Pod e)")
      (auto simp: stateful_set_agrees_def change_pod_def change_container_def)
qed

section \<open>What the labelling of the pods does\<close>

definition pod_laws :: "'k SrvEnv \<Rightarrow> ('k \<Rightarrow> SrvStore) \<Rightarrow> bool" where
  "pod_laws A store \<longleftrightarrow>
     (\<forall>k ns n. answers (st_Pods (store k) (ns, n)) k (srv_GetPod A ns n k)) \<and>
     (\<forall>k pod labels. st_Pods (store k) (pod_Namespace pod, pod_Name pod) = Some pod \<longrightarrow>
        succeeds (srv_PatchPod A pod (pod\<lparr>pod_Labels := labels\<rparr>)) k (\<lambda>_ k'. store k' = (store k)\<lparr>st_Pods :=
          (st_Pods (store k))((pod_Namespace pod, pod_Name pod) \<mapsto> pod\<lparr>pod_Labels := labels\<rparr>)\<rparr>))"

lemma pod_lawsD:
  assumes "pod_laws A store"
  shows "answers (st_Pods (store k) (ns, n)) k (srv_GetPod A ns n k)"
    "st_Pods (store k) (pod_Namespace pod, pod_Name pod) = Some pod \<Longrightarrow>
      succeeds (srv_PatchPod A pod (pod\<lparr>pod_Labels := labels\<rparr>)) k (\<lambda>_ k'. store k' = (store k)\<lparr>st_Pods :=
        (st_Pods (store k))((pod_Namespace pod, pod_Name pod) \<mapsto> pod\<lparr>pod_Labels := labels\<rparr>)\<rparr>)"
  using assms unfolding pod_laws_def by blast+

text \<open>Every pod is stored under its own namespace and name.\<close>

definition keyed_pods :: "Pod objects \<Rightarrow> bool" where
  "keyed_pods pods \<longleftrightarrow> (\<forall>ns n pod. pods (ns, n) = Some pod \<longrightarrow> pod_Namespace pod = ns \<and> pod_Name pod = n)"

definition role_of :: "string \<Rightarrow> string \<Rightarrow> string" where
  "role_of primary n = (if n = primary then RolePrimary else RoleSecondary)"

text \<open>The pods after those named in \<open>names\<close> have got their roles; pods that do not exist are not made.\<close>

definition role_labelled :: "string \<Rightarrow> string \<Rightarrow> string set \<Rightarrow> Pod objects \<Rightarrow> Pod objects" where
  "role_labelled ns primary names pods = (\<lambda>(ns', n).
     if ns' = ns \<and> n \<in> names
     then map_option (\<lambda>pod. pod\<lparr>pod_Labels := (pod_Labels pod)(LabelRole \<mapsto> role_of primary n)\<rparr>) (pods (ns', n)) else pods (ns', n))"

lemma role_labelled_insert:
  "role_labelled ns primary names (role_labelled ns primary {n} pods) = role_labelled ns primary (insert n names) pods"
  by (rule ext) (auto simp: role_labelled_def option.map_comp comp_def)

lemma role_labelled_settled:
  assumes "role_labelled ns primary (insert n names) pods = pods"
  shows "role_labelled ns primary {n} pods = pods" "role_labelled ns primary names pods = pods"
proof -
  have "map_option (\<lambda>pod. pod\<lparr>pod_Labels := (pod_Labels pod)(LabelRole \<mapsto> role_of primary b)\<rparr>) (pods (ns, b)) = pods (ns, b)"
    if "b \<in> insert n names" for b
    using fun_cong [OF assms, of "(ns, b)"] that by (simp add: role_labelled_def)
  then show "role_labelled ns primary {n} pods = pods" "role_labelled ns primary names pods = pods"
    by (auto simp: role_labelled_def fun_eq_iff)
qed

lemma keyed_role_labelled [simp]: "keyed_pods (role_labelled ns primary names pods) = keyed_pods pods"
proof -
  let ?own = "map_option (\<lambda>pod. (pod_Namespace pod, pod_Name pod))"
  have keyed: "keyed_pods q \<longleftrightarrow> (\<forall>a b. \<forall>own. ?own (q (a, b)) = Some own \<longrightarrow> own = (a, b))" for q
    by (simp add: keyed_pods_def) blast
  have "?own (role_labelled ns primary names pods (a, b)) = ?own (pods (a, b))" for a b
    by (simp add: role_labelled_def option.map_comp comp_def)
  then show ?thesis unfolding keyed by simp
qed

lemma role_not_Nil [simp]: "role_of primary n \<noteq> []"
  by (simp add: role_of_def RolePrimary_def RoleSecondary_def)

lemma label_of_role: "role_of primary n = label_of pod LabelRole \<longleftrightarrow> pod_Labels pod LabelRole = Some (role_of primary n)"
  by (auto simp: label_of_def lookup_def split: option.split)

lemma wp_label_pod:
  assumes laws: "pod_laws A store" and keyed: "keyed_pods (st_Pods (store k))"
    and post: "\<And>k'. store k' = (store k)\<lparr>st_Pods := role_labelled (cr_Namespace srv) primary {pod_name srv i} (st_Pods (store k))\<rparr> \<Longrightarrow>
      (role_labelled (cr_Namespace srv) primary {pod_name srv i} (st_Pods (store k)) = st_Pods (store k) \<longrightarrow> k' = k) \<Longrightarrow> Q () k'"
  shows "wp (label_pod A srv primary i) k Q E"
proof -
  let ?key = "(cr_Namespace srv, pod_name srv i)" and ?role = "role_of primary (pod_name srv i)"
  let ?get = "srv_GetPod A (cr_Namespace srv) (pod_name srv i)"
  let ?after = "role_labelled (cr_Namespace srv) primary {pod_name srv i} (st_Pods (store k))"
  have get: "answers (st_Pods (store k) ?key) k (?get k)" by (rule pod_lawsD(1) [OF laws])
  show ?thesis
  proof (cases "st_Pods (store k) ?key")
    case None
    then obtain e where "?get k = (Inl e, k)" using get by (cases "?get k") (auto simp: answers_def)
    moreover have "?after = st_Pods (store k)" using None by (auto simp: role_labelled_def fun_eq_iff)
    then have "Q () k" by (intro post) simp_all
    ultimately show ?thesis by (simp add: label_pod_def wp_attempt fails_eq wp_ret)
  next
    case (Some pod)
    then have got: "?get k = (Inr pod, k)" using get by (cases "?get k") (auto simp: answers_def)
    have pod: "pod_Namespace pod = cr_Namespace srv" "pod_Name pod = pod_name srv i" using keyed Some by (auto simp: keyed_pods_def)
    show ?thesis
    proof (cases "pod_Labels pod LabelRole = Some ?role")
      case True
      then have "pod\<lparr>pod_Labels := (pod_Labels pod)(LabelRole \<mapsto> ?role)\<rparr> = pod" by (cases pod) (auto simp: fun_eq_iff)
      then have "?after = st_Pods (store k)" using Some by (auto simp: role_labelled_def fun_eq_iff)
      then have "Q () k" by (intro post) simp_all
      with got True show ?thesis
        by (simp add: label_pod_def wp_attempt succeeds_eq wp_ret Let_def label_of_def lookup_def flip: role_of_def)
    next
      case False
      let ?new = "pod\<lparr>pod_Labels := (pod_Labels pod)(LabelRole \<mapsto> ?role)\<rparr>"
      have after: "?after = (st_Pods (store k))(?key \<mapsto> ?new)" using Some by (auto simp: role_labelled_def fun_eq_iff)
      have differs: "?after \<noteq> st_Pods (store k)"
      proof
        assume "?after = st_Pods (store k)"
        then have "Some ?new = Some pod" using after Some by (metis fun_upd_same)
        then have "pod_Labels ?new = pod_Labels pod" by simp
        then show False using False by (metis Pod.select_convs(3) Pod.update_convs(3) Pod.surjective fun_upd_same)
      qed
      have "succeeds (srv_PatchPod A pod ?new) k (\<lambda>_ k'. store k' = (store k)\<lparr>st_Pods :=
          (st_Pods (store k))((pod_Namespace pod, pod_Name pod) \<mapsto> ?new)\<rparr>)"
        by (rule pod_lawsD(2) [OF laws]) (simp add: Some pod)
      then have "wp (srv_PatchPod A pod ?new) k (\<lambda>_. Q ()) (\<lambda>e. E (Wrapf (''failed to label pod '' @ pod_name srv i @ '' with role '' @ ?role @ '': '') e))"
        by (rule wp_mono) (use differs after pod in \<open>auto intro!: post\<close>)
      moreover have "label_of pod LabelRole \<noteq> ?role" using False by (metis label_of_role)
      ultimately show ?thesis
        using got by (simp add: label_pod_def wp_attempt succeeds_eq wp_ret wp_fail Let_def flip: role_of_def)
    qed
  qed
qed

lemma wp_label_pods:
  assumes laws: "pod_laws A store" and keyed: "keyed_pods (st_Pods (store k))"
    and post: "\<And>k'. store k' = (store k)\<lparr>st_Pods := role_labelled (cr_Namespace srv) primary (pod_name srv ` set is) (st_Pods (store k))\<rparr> \<Longrightarrow>
      (role_labelled (cr_Namespace srv) primary (pod_name srv ` set is) (st_Pods (store k)) = st_Pods (store k) \<longrightarrow> k' = k) \<Longrightarrow> Q () k'"
  shows "wp (for_each (label_pod A srv primary) is) k Q E"
  using keyed post
proof (induction "is" arbitrary: k)
  case Nil
  have "role_labelled ns primary {} pods = pods" for ns pods by (auto simp: role_labelled_def fun_eq_iff)
  then show ?case unfolding for_each.simps wp_ret by (intro Nil.prems(2)) simp_all
next
  case (Cons i "is")
  show ?case
    unfolding for_each.simps wp_andthen
  proof (rule wp_label_pod [OF laws Cons.prems(1)], rule Cons.IH)
    fix k' :: 'a
    assume "store k' = (store k)\<lparr>st_Pods := role_labelled (cr_Namespace srv) primary {pod_name srv i} (st_Pods (store k))\<rparr>"
    then show "keyed_pods (st_Pods (store k'))" using Cons.prems(1) by simp
  next
    fix k' k'' :: 'a
    let ?one = "role_labelled (cr_Namespace srv) primary {pod_name srv i} (st_Pods (store k))"
    let ?all = "role_labelled (cr_Namespace srv) primary (pod_name srv ` set (i # is)) (st_Pods (store k))"
    assume k': "store k' = (store k)\<lparr>st_Pods := ?one\<rparr>" "?one = st_Pods (store k) \<longrightarrow> k' = k"
      and k'': "store k'' = (store k')\<lparr>st_Pods := role_labelled (cr_Namespace srv) primary (pod_name srv ` set is) (st_Pods (store k'))\<rparr>"
        "role_labelled (cr_Namespace srv) primary (pod_name srv ` set is) (st_Pods (store k')) = st_Pods (store k') \<longrightarrow> k'' = k'"
    show "Q () k''"
    proof (rule Cons.prems(2))
      show "store k'' = (store k)\<lparr>st_Pods := ?all\<rparr>"
        using k'(1) k''(1) by (simp add: role_labelled_insert)
      show "?all = st_Pods (store k) \<longrightarrow> k'' = k"
        using k'(2) k''(2) role_labelled_settled [of "cr_Namespace srv" primary "pod_name srv i" "pod_name srv ` set is" "st_Pods (store k)"]
        by auto
    qed
  qed
qed

text \<open>A service routes to the pods whose labels include its selector.\<close>

definition selects :: "Service \<Rightarrow> Pod \<Rightarrow> bool" where
  "selects svc pod \<longleftrightarrow> svc_Selector svc \<subseteq>\<^sub>m pod_Labels pod"

lemma pod_name_inject: "0 \<le> i \<Longrightarrow> 0 \<le> j \<Longrightarrow> pod_name srv i = pod_name srv j \<longleftrightarrow> i = j"
  by (simp add: pod_name_def show_int_inject)

lemma role_labelled_idem:
  "role_labelled ns primary names (role_labelled ns primary names pods) = role_labelled ns primary names pods"
  by (rule ext) (auto simp: role_labelled_def option.map_comp comp_def)

lemma dom_role_labelled: "dom (role_labelled ns primary names pods) = dom pods"
  by (auto simp: role_labelled_def dom_def split: if_splits)

text \<open>A pod name and the host name of the pod give the same short name.\<close>

lemma digits_no_dot: "CHR ''.'' \<notin> set (digits_of n)"
proof (induction n rule: digits_of.induct)
  case (1 n)
  have "char_of (48 + m) \<noteq> CHR ''.''" if "m < 10" for m :: nat
  proof
    assume "char_of (48 + m) = CHR ''.''"
    then have "of_char (char_of (48 + m) :: char) = (of_char CHR ''.'' :: nat)" by simp
    then show False using that by simp
  qed
  from this [of n] this [of "n mod 10"] 1 show ?case by (subst digits_of.simps) auto
qed

lemma short_name_append:
  assumes "CHR ''.'' \<notin> set s"
  shows "short_name s = s" "s \<noteq> [] \<Longrightarrow> short_name (s @ CHR ''.'' # rest) = s"
proof -
  have "takeWhile (\<lambda>c. c \<noteq> CHR ''.'') s = s" using assms by (subst takeWhile_eq_all_conv) auto
  then show "short_name s = s" unfolding short_name_def Let_def by simp
  have "takeWhile (\<lambda>c. c \<noteq> CHR ''.'') (s @ CHR ''.'' # rest) = s" using assms by (subst takeWhile_append2) auto
  then show "s \<noteq> [] \<Longrightarrow> short_name (s @ CHR ''.'' # rest) = s" unfolding short_name_def Let_def by simp
qed

lemma short_name_pod:
  assumes "primary = pod_name srv i \<or> primary = replicaHost srv i" "CHR ''.'' \<notin> set (cr_Name srv)"
  shows "short_name primary = pod_name srv i"
proof -
  have none: "CHR ''.'' \<notin> set (pod_name srv i)" and some: "pod_name srv i \<noteq> []"
    using assms(2) digits_no_dot by (auto simp: pod_name_def show_int_def)
  have "replicaHost srv i = pod_name srv i @ CHR ''.'' # (cr_Name srv @ ''-headless.'' @ cr_Namespace srv @ ''.svc.cluster.local'')"
    by (simp add: replicaHost_def)
  then show ?thesis
    using assms(1) short_name_append [OF none] some by metis
qed

text \<open>What the two services of a cluster make of a pod with a role.\<close>

lemma selects_role:
  assumes "instanceLabels srv \<subseteq>\<^sub>m pod_Labels pod" "1 < replica_count inst"
  shows "selects (desiredClientService srv inst) (pod\<lparr>pod_Labels := (pod_Labels pod)(LabelRole \<mapsto> role_of primary n)\<rparr>) \<longleftrightarrow> n = primary"
    "selects (desiredReadOnlyService srv inst) (pod\<lparr>pod_Labels := (pod_Labels pod)(LabelRole \<mapsto> role_of primary n)\<rparr>) \<longleftrightarrow> n \<noteq> primary"
proof -
  have upd: "(instanceLabels srv)(LabelRole \<mapsto> r) \<subseteq>\<^sub>m (pod_Labels pod)(LabelRole \<mapsto> r') \<longleftrightarrow> r = r'" for r r'
    using assms(1) by (auto simp: map_le_def dom_def split: if_splits)
  show "selects (desiredClientService srv inst) (pod\<lparr>pod_Labels := (pod_Labels pod)(LabelRole \<mapsto> role_of primary n)\<rparr>) \<longleftrightarrow> n = primary"
    "selects (desiredReadOnlyService srv inst) (pod\<lparr>pod_Labels := (pod_Labels pod)(LabelRole \<mapsto> role_of primary n)\<rparr>) \<longleftrightarrow> n \<noteq> primary"
    using assms(2) by (simp_all add: selects_def desiredClientService_def desiredReadOnlyService_def upd)
      (auto simp: role_of_def RolePrimary_def RoleSecondary_def)
qed

end
