(* ===== verification/SQLServer_Certificates.thy ===== *)
theory SQLServer_Certificates
  imports SQLServer_Instance
begin

text \<open>
  \<open>internal/controller/sqlserver_certificates.go\<close>: the certificates of a cluster. The operator keeps
  one certificate per replica in Secrets, self-signed or made by cert-manager, and gives every SQL
  Server a certificate of its own, an endpoint that authenticates with it, and a login for the
  certificate of each peer.
\<close>

section \<open>Cryptography and clocks\<close>

text \<open>
  \<open>crypto/ecdsa\<close>, \<open>crypto/x509\<close> and \<open>encoding/pem\<close>: keys and parsed certificates are of the library's
  types. \<open>SignCert template None subject signer\<close> is a certificate that is its own parent.
\<close>

record CertTemplate =
  x_SerialNumber :: int
  x_CommonName :: string
  x_DNSNames :: "string list"
  x_NotBefore :: int
  x_NotAfter :: int
  x_IsCA :: bool
  x_KeyUsage :: "string list"
  x_ExtKeyUsage :: "string list"
  x_MaxPathLen :: int
  x_BasicConstraintsValid :: bool

record ('key, 'crt, 'k) Crypto =
  GenerateKey :: "('key, 'k) op"
  SignCert :: "CertTemplate \<Rightarrow> 'crt option \<Rightarrow> 'key \<Rightarrow> 'key \<Rightarrow> (string, 'k) op"
  ParseCert :: "string \<Rightarrow> 'crt res"
  ParseKey :: "string \<Rightarrow> 'key res"
  MarshalKey :: "'key \<Rightarrow> string res"
  PemEncode :: "string \<Rightarrow> string \<Rightarrow> string"
  PemDecode :: "string \<Rightarrow> string option"

definition certPasswordKey :: string where
  "certPasswordKey = ''password''"

definition certCertKey :: string where
  "certCertKey = ''tls.crt''"

definition certKeyKey :: string where
  "certKeyKey = ''tls.key''"

definition clock_now :: "'k SrvEnv \<Rightarrow> (int, 'k) op" where
  "clock_now A k = (case srv_Now A k of (t, k') \<Rightarrow> (Inr t, k'))"

definition day :: int where
  "day = 24 * 3600 * second"

text \<open>A value computed without touching the world, with an error that is wrapped.\<close>

definition checked :: "string \<Rightarrow> 'a res \<Rightarrow> ('a \<Rightarrow> ('b, 's) op) \<Rightarrow> ('b, 's) op" where
  "checked msg r k = (case r of Inl e \<Rightarrow> fail (Wrapf (msg @ '': '') e) | Inr x \<Rightarrow> k x)"

text \<open>A template is made with two readings of the clock.\<close>

definition with_validity :: "'k SrvEnv \<Rightarrow> int \<Rightarrow> (int \<Rightarrow> int \<Rightarrow> ('a, 'k) op) \<Rightarrow> ('a, 'k) op" where
  "with_validity A d k = attempt (clock_now A) fail (\<lambda>t1. attempt (clock_now A) fail (\<lambda>t2. k t1 (t2 + d)))"

definition create_owned_secret :: "'k SrvEnv \<Rightarrow> SQLServer \<Rightarrow> string \<Rightarrow> (string \<rightharpoonup> string) \<Rightarrow> (go_error \<Rightarrow> go_error) \<Rightarrow> (unit, 'k) op" where
  "create_owned_secret A srv name data wrap =
     (case SetControllerReference A srv (instance_meta srv name) of
        Inl e \<Rightarrow> fail e
      | Inr m \<Rightarrow> attempt (CreateSecret A m data) (\<lambda>e. fail (wrap e)) ret)"

section \<open>Self-signed certificates\<close>

definition data_of :: "Secret \<Rightarrow> string \<Rightarrow> string" where
  "data_of secret key = lookup (Data secret) key"

definition parse_ca :: "('key, 'crt, 'k) Crypto \<Rightarrow> Secret \<Rightarrow> ('key \<times> 'crt, 'k) op" where
  "parse_ca X existing =
     (case PemDecode X (data_of existing certKeyKey) of
        None \<Rightarrow> fail (Errorf ''failed to decode CA private key PEM'')
      | Some keyDER \<Rightarrow> checked ''failed to parse CA private key'' (ParseKey X keyDER) (\<lambda>caKey.
          case PemDecode X (data_of existing certCertKey) of
            None \<Rightarrow> fail (Errorf ''failed to decode CA certificate PEM'')
          | Some certDER \<Rightarrow> checked ''failed to parse CA certificate'' (ParseCert X certDER) (\<lambda>caCert. ret (caKey, caCert))))"

definition ca_template :: "SQLServer \<Rightarrow> int \<Rightarrow> int \<Rightarrow> CertTemplate" where
  "ca_template srv notBefore notAfter =
     \<lparr>x_SerialNumber = 1, x_CommonName = cr_Name srv @ ''-ca'', x_DNSNames = [], x_NotBefore = notBefore, x_NotAfter = notAfter,
      x_IsCA = True, x_KeyUsage = [''CertSign'', ''CRLSign''], x_ExtKeyUsage = [], x_MaxPathLen = 1, x_BasicConstraintsValid = True\<rparr>"

definition create_ca :: "'k SrvEnv \<Rightarrow> ('key, 'crt, 'k) Crypto \<Rightarrow> SQLServer \<Rightarrow> string \<Rightarrow> ('key \<times> 'crt, 'k) op" where
  "create_ca A X srv name =
     or_fail ''failed to generate CA key'' (GenerateKey X) (\<lambda>caKey.
     with_validity A (10 * 365 * day) (\<lambda>notBefore notAfter.
     or_fail ''failed to create CA certificate'' (SignCert X (ca_template srv notBefore notAfter) None caKey caKey) (\<lambda>caCertDER.
     checked ''failed to parse CA certificate'' (ParseCert X caCertDER) (\<lambda>caCert.
     checked ''failed to marshal CA key'' (MarshalKey X caKey) (\<lambda>keyDER.
     andthen (create_owned_secret A srv name
         [certCertKey \<mapsto> PemEncode X ''CERTIFICATE'' caCertDER, certKeyKey \<mapsto> PemEncode X ''EC PRIVATE KEY'' keyDER]
         (Wrapf ''failed to create CA secret: ''))
       (ret (caKey, caCert)))))))"

definition ensureCASecret :: "'k KubeClient \<Rightarrow> 'k SrvEnv \<Rightarrow> ('key, 'crt, 'k) Crypto \<Rightarrow> SQLServer \<Rightarrow> string \<Rightarrow> ('key \<times> 'crt, 'k) op" where
  "ensureCASecret K A X srv name =
     attempt (GetSecret K (cr_Namespace srv) name)
       (\<lambda>e. if IsNotFound e then create_ca A X srv name else fail e) (parse_ca X)"

definition replica_template :: "SQLServer \<Rightarrow> int \<Rightarrow> int \<Rightarrow> int \<Rightarrow> CertTemplate" where
  "replica_template srv i notBefore notAfter =
     \<lparr>x_SerialNumber = i + 2, x_CommonName = replicaHost srv i, x_DNSNames = [replicaHost srv i, pod_name srv i],
      x_NotBefore = notBefore, x_NotAfter = notAfter, x_IsCA = False, x_KeyUsage = [''DigitalSignature'', ''KeyEncipherment''],
      x_ExtKeyUsage = [''ServerAuth'', ''ClientAuth''], x_MaxPathLen = 0, x_BasicConstraintsValid = True\<rparr>"

definition numbered :: "string \<Rightarrow> int \<Rightarrow> string \<Rightarrow> string" where
  "numbered before i after = before @ show_int i @ after"

definition issue_cert :: "'k SrvEnv \<Rightarrow> ('key, 'crt, 'k) Crypto \<Rightarrow> SQLServer \<Rightarrow> 'key \<Rightarrow> 'crt \<Rightarrow> int \<Rightarrow> (unit, 'k) op" where
  "issue_cert A X srv caKey caCert i =
     or_fail (numbered ''failed to generate replica '' i '' key'') (GenerateKey X) (\<lambda>replicaKey.
     with_validity A (365 * day) (\<lambda>notBefore notAfter.
     or_fail (numbered ''failed to create replica '' i '' certificate'')
       (SignCert X (replica_template srv i notBefore notAfter) (Some caCert) replicaKey caKey) (\<lambda>certDER.
     checked (numbered ''failed to marshal replica '' i '' key'') (MarshalKey X replicaKey) (\<lambda>keyDER.
     create_owned_secret A srv (cert_secret srv i)
       [certCertKey \<mapsto> PemEncode X ''CERTIFICATE'' certDER, certKeyKey \<mapsto> PemEncode X ''EC PRIVATE KEY'' keyDER,
        certPasswordKey \<mapsto> numbered ''CertP@ss'' i ''!'']
       (Wrapf (numbered ''failed to create cert secret for replica '' i '': ''))))))"

definition ensure_cert :: "'k KubeClient \<Rightarrow> 'k SrvEnv \<Rightarrow> ('key, 'crt, 'k) Crypto \<Rightarrow> SQLServer \<Rightarrow> 'key \<Rightarrow> 'crt \<Rightarrow> int \<Rightarrow> (unit, 'k) op" where
  "ensure_cert K A X srv caKey caCert i =
     attempt (GetSecret K (cr_Namespace srv) (cert_secret srv i))
       (\<lambda>e. if IsNotFound e then issue_cert A X srv caKey caCert i else fail e) (\<lambda>_. ret ())"

definition reconcileSelfSignedCerts ::
  "'k KubeClient \<Rightarrow> 'k SrvEnv \<Rightarrow> ('key, 'crt, 'k) Crypto \<Rightarrow> SQLServer \<Rightarrow> int \<Rightarrow> (bool, 'k) op" where
  "reconcileSelfSignedCerts K A X srv replicas =
     or_fail ''failed to ensure CA secret'' (ensureCASecret K A X srv (cr_Name srv @ ''-ca'')) (\<lambda>(caKey, caCert).
     andthen (for_each (ensure_cert K A X srv caKey caCert) (replica_range replicas)) (ret True))"

section \<open>Certificates from cert-manager\<close>

text \<open>The certificate object is built and dropped: the replica counts as not ready until somebody else makes its Secret.\<close>

definition reconcileCertManagerCerts :: "'k KubeClient \<Rightarrow> SQLServer \<Rightarrow> CertificateSpec \<Rightarrow> int \<Rightarrow> (bool, 'k) op" where
  "reconcileCertManagerCerts K srv cspec replicas =
     (case cs_IssuerRef cspec of
        None \<Rightarrow> fail (Errorf ''issuerRef is required for CertManager mode'')
      | Some _ \<Rightarrow>
          fold_op (\<lambda>i allReady.
            attempt (GetSecret K (cr_Namespace srv) (cert_secret srv i))
              (\<lambda>e. if IsNotFound e then ret False else fail e)
              (\<lambda>secret. ret (if data_of secret certCertKey \<noteq> [] then allReady else False)))
            (replica_range replicas) True)"

definition cert_mode :: "InstanceSpec \<Rightarrow> string" where
  "cert_mode inst = (case inst_Certificates inst of
     None \<Rightarrow> CertificateModeSelfSigned
   | Some c \<Rightarrow> (case cs_Mode c of None \<Rightarrow> CertificateModeSelfSigned | Some m \<Rightarrow> m))"

definition reconcileCertificates ::
  "'k KubeClient \<Rightarrow> 'k SrvEnv \<Rightarrow> ('key, 'crt, 'k) Crypto \<Rightarrow> SQLServer \<Rightarrow> InstanceSpec \<Rightarrow> (bool, 'k) op" where
  "reconcileCertificates K A X srv inst =
     (let replicas = replica_count inst; mode = cert_mode inst in
      if replicas \<le> 1 then ret True
      else if mode = CertificateModeSelfSigned then reconcileSelfSignedCerts K A X srv replicas
      else if mode = CertificateModeCertManager then
        (case inst_Certificates inst of
           None \<Rightarrow> fail panic_error
         | Some c \<Rightarrow> reconcileCertManagerCerts K srv c replicas)
      else fail (Errorf (''unsupported certificate mode: '' @ mode)))"

section \<open>Certificates on the SQL Servers\<close>

definition cert_name :: "int \<Rightarrow> string" where
  "cert_name i = ''ag_cert_'' @ show_int i"

definition cert_login :: "int \<Rightarrow> string" where
  "cert_login i = ''ag_login_'' @ show_int i"

text \<open>\<open>if !exists { if err := create(); err != nil { ... } }\<close>\<close>

definition unless_exists :: "string \<Rightarrow> (bool, 's) op \<Rightarrow> string \<Rightarrow> (unit, 's) op \<Rightarrow> (unit, 's) op \<Rightarrow> (unit, 's) op" where
  "unless_exists checkMsg exists createMsg create k =
     or_fail checkMsg exists (\<lambda>there. if there then k else or_fail createMsg create (\<lambda>_. k))"

definition setupReplicaCertificates :: "'c SQLClient \<Rightarrow> SQLServer \<Rightarrow> int \<Rightarrow> (unit, 'c) op" where
  "setupReplicaCertificates conn srv replicaIndex =
     unless_exists ''failed to check master key'' (MasterKeyExists (certs conn))
       ''failed to create master key'' (CreateMasterKey (certs conn) (''MasterKey'' @ cr_Name srv @ ''P@ss!''))
     (unless_exists ''failed to check certificate'' (CertificateExists (certs conn) (cert_name replicaIndex))
       ''failed to create certificate''
       (CreateCertificate (certs conn) (cert_name replicaIndex) (pod_name srv replicaIndex @ '' cert'') ''2030-01-01'')
     (unless_exists ''failed to check endpoint'' (HADREndpointExists (ags conn))
       ''failed to create HADR endpoint'' (CreateHADREndpointWithCert (certs conn) hadrEndpointPort (cert_name replicaIndex))
     (ret ())))"

text \<open>The credentials both passes connect with.\<close>

definition distribution_credentials :: "'k KubeClient \<Rightarrow> SQLServer \<Rightarrow> InstanceSpec \<Rightarrow> (string \<times> string, 'k) op" where
  "distribution_credentials K srv inst =
     (case srv_CredentialsSecret (Spec srv) of
        Some (name, ns) \<Rightarrow> or_fail ''failed to read credentials''
          (getCredentialsFromSecret K (case ns of None \<Rightarrow> cr_Namespace srv | Some n \<Rightarrow> n) name) ret
      | None \<Rightarrow>
          if inst_SAPasswordSecret inst \<noteq> [] then or_fail ''failed to read credentials''
            (getCredentialsFromSAPasswordSecret K (cr_Namespace srv) (inst_SAPasswordSecret inst)) ret
          else fail (Errorf ''no credentials available: set credentialsSecret or saPasswordSecret''))"

text \<open>A connection to a replica, closed on every path.\<close>

definition connect_replica ::
  "(SQLServer, 'k, 'c) Reconciler \<Rightarrow> SQLServer \<Rightarrow> string \<times> string \<Rightarrow> int \<Rightarrow> string
   \<Rightarrow> ('c SQLClient \<Rightarrow> ('a, ('k, 'c) world) op) \<Rightarrow> ('a, ('k, 'c) world) op" where
  "connect_replica R srv up i msg body =
     (let port = (case srv_Port (Spec srv) of None \<Rightarrow> sqlPort | Some p \<Rightarrow> p); tlsEnabled = (srv_TLS (Spec srv) = Some True) in
      case SQLClientFactory R (replicaHost srv i) port (fst up) (snd up) tlsEnabled of
        Inl e \<Rightarrow> fail (Wrapf (msg @ '': '') e)
      | Inr conn \<Rightarrow> deferred (\<lambda>w. w\<lparr>sql := CloseClient conn (sql w)\<rparr>) (body conn))"

text \<open>Pass 1: the certificate and endpoint of each replica; its public part is collected.\<close>

definition own_certificate ::
  "(SQLServer, 'k, 'c) Reconciler \<Rightarrow> SQLServer \<Rightarrow> string \<times> string \<Rightarrow> int \<Rightarrow> (int \<rightharpoonup> nat list)
   \<Rightarrow> (int \<rightharpoonup> nat list, ('k, 'c) world) op" where
  "own_certificate R srv up i certBinaries =
     connect_replica R srv up i (''failed to connect to replica '' @ show_int i @ '' ('' @ replicaHost srv i @ '')'') (\<lambda>conn.
       or_fail (numbered ''failed to setup certificates on replica '' i []) (on_sql (setupReplicaCertificates conn srv i)) (\<lambda>_.
       or_fail (numbered ''failed to get cert binary from replica '' i []) (on_sql (GetCertificateBinary (certs conn) (cert_name i))) (\<lambda>certDER.
       ret (certBinaries(i \<mapsto> certDER)))))"

text \<open>Pass 2: the certificates of the peers; \<open>certBinaries[j]\<close> is nil for a key that is missing.\<close>

definition import_peer :: "'c SQLClient \<Rightarrow> (int \<rightharpoonup> nat list) \<Rightarrow> int \<Rightarrow> int \<Rightarrow> (unit, 'c) op" where
  "import_peer conn certBinaries i j =
     (if j = i then ret ()
      else or_fail (''failed to check peer cert '' @ cert_name j @ '' on replica '' @ show_int i) (CertificateExists (certs conn) (cert_name j)) (\<lambda>peerExists.
        if peerExists then ret ()
        else or_fail (''failed to import peer cert '' @ cert_name j @ '' on replica '' @ show_int i)
            (CreateCertificateFromBinary (certs conn) (cert_name j) (case certBinaries j of None \<Rightarrow> [] | Some der \<Rightarrow> der)) (\<lambda>_.
          or_fail (numbered ''failed to create login from peer cert on replica '' i [])
            (CreateLoginFromCertificate (certs conn) (cert_login j) (cert_name j)) (\<lambda>_.
          or_fail (numbered ''failed to grant endpoint connect on replica '' i [])
            (GrantEndpointConnect (certs conn) ''hadr_endpoint'' (cert_login j)) ret))))"

definition import_peers ::
  "(SQLServer, 'k, 'c) Reconciler \<Rightarrow> SQLServer \<Rightarrow> string \<times> string \<Rightarrow> int list \<Rightarrow> (int \<rightharpoonup> nat list) \<Rightarrow> int \<Rightarrow> (unit, ('k, 'c) world) op" where
  "import_peers R srv up all certBinaries i =
     connect_replica R srv up i (numbered ''failed to reconnect to replica '' i []) (\<lambda>conn.
       for_each (\<lambda>j. on_sql (import_peer conn certBinaries i j)) all)"

definition distributeCertificatesToSQL ::
  "(SQLServer, 'k, 'c) Reconciler \<Rightarrow> SQLServer \<Rightarrow> InstanceSpec \<Rightarrow> (unit, ('k, 'c) world) op" where
  "distributeCertificatesToSQL R srv inst =
     (let replicas = replica_range (replica_count inst) in
      attempt (on_kube (distribution_credentials (kclient R) srv inst)) fail (\<lambda>up.
      attempt (fold_op (own_certificate R srv up) replicas Map.empty) fail (\<lambda>certBinaries.
      for_each (import_peers R srv up replicas certBinaries) replicas)))"

end
