(* ===== verification/SQLServer_ManagedAG.thy ===== *)
theory SQLServer_ManagedAG
  imports SQLServer_Instance
begin

text \<open>
  \<open>internal/controller/sqlserver_managed_ag.go\<close>: a cluster gets an AvailabilityGroup object, which the
  AvailabilityGroup controller then works on; later reconciliations read the primary from its status.
\<close>

definition FailoverModeManual :: string where
  "FailoverModeManual = ''Manual''"

definition SecondaryRoleAllowAll :: string where
  "SecondaryRoleAllowAll = ''AllowAllConnections''"

definition containsDot :: "string \<Rightarrow> bool" where
  "containsDot s = Contains s ''.''"

definition ensureSACredentialsSecret :: "'k KubeClient \<Rightarrow> 'k SrvEnv \<Rightarrow> SQLServer \<Rightarrow> InstanceSpec \<Rightarrow> string \<Rightarrow> (unit, 'k) op" where
  "ensureSACredentialsSecret K A srv inst secretName =
     attempt (GetSecret K (cr_Namespace srv) secretName)
       (\<lambda>e. if IsNotFound e then
          or_fail ''failed to read SA password'' (getCredentialsFromSAPasswordSecret K (cr_Namespace srv) (inst_SAPasswordSecret inst))
            (\<lambda>(_, password).
              case SetControllerReference A srv (instance_meta srv secretName) of
                Inl e \<Rightarrow> fail e
              | Inr m \<Rightarrow> CreateSecret A m [''username'' \<mapsto> ''sa'', ''password'' \<mapsto> password])
          else fail e)
       (\<lambda>_. ret ())"

text \<open>The status of the group's object, with a pod name made into a host name.\<close>

definition primary_host :: "SQLServer \<Rightarrow> string \<Rightarrow> string" where
  "primary_host srv primary =
     (if containsDot primary then primary
      else primary @ ''.'' @ cr_Name srv @ ''-headless.'' @ cr_Namespace srv @ ''.svc.cluster.local'')"

definition take_primary :: "SQLServer \<Rightarrow> AvailabilityGroup \<Rightarrow> SQLServer" where
  "take_primary srv existingAG =
     (let p = PrimaryReplica (Status existingAG) in
      if p \<noteq> [] then srv\<lparr>Status := (Status srv)\<lparr>srv_st_PrimaryReplica := primary_host srv p\<rparr>\<rparr> else srv)"

definition managed_replica :: "SQLServer \<Rightarrow> string \<Rightarrow> string \<Rightarrow> int \<Rightarrow> AGReplicaSpec" where
  "managed_replica srv availabilityMode credsSecretName i =
     \<lparr>rep_ServerName = pod_name srv i, rep_EndpointURL = ''TCP://'' @ replicaHost srv i @ '':'' @ show_int hadrEndpointPort,
      rep_AvailabilityMode = availabilityMode, rep_FailoverMode = FailoverModeManual, rep_SeedingMode = SeedingModeAutomatic,
      rep_SecondaryRole = SecondaryRoleAllowAll,
      rep_Server = \<lparr>Host = replicaHost srv i, Port = srv_Port (Spec srv), CredentialsSecret = credsSecretName, TLS = None,
        SQLServerRef = None\<rparr>\<rparr>"

definition managed_group :: "SQLServer \<Rightarrow> InstanceSpec \<Rightarrow> ManagedAGSpec \<Rightarrow> string \<Rightarrow> AvailabilityGroup" where
  "managed_group srv inst ag credsSecretName =
     (let availabilityMode = (if mag_AvailabilityMode ag = Some ''AsynchronousCommit'' then AvailabilityModeAsynchronous
            else AvailabilityModeSynchronous)
      in \<lparr>cr_Name = cr_Name srv @ ''-ag'', cr_Namespace = cr_Namespace srv, cr_Generation = 0, cr_Finalizers = [], cr_Deleting = False,
          cr_Annotations = Map.empty, cr_Labels = Map.empty, cr_CreationTimestamp = 0,
          Spec = \<lparr>ag_AGName = (case mag_AGName ag of None \<Rightarrow> cr_Name srv @ ''-ag'' | Some n \<Rightarrow> n),
            ag_Replicas = List.map (managed_replica srv availabilityMode credsSecretName) (replica_range (replica_count inst)),
            ag_Databases = [], ag_Listener = None, ag_AutomatedBackupPreference = Some ''Secondary'', ag_DBFailover = Some False,
            ag_ClusterType = Some ''None'', ag_AutoFailover = mag_AutoFailover ag, ag_HealthCheckInterval = mag_HealthCheckInterval ag,
            ag_FailoverCooldown = mag_FailoverCooldown ag\<rparr>,
          Status = \<lparr>Conditions = [], ObservedGeneration = 0, PrimaryReplica = [], st_Replicas = [], st_Databases = [],
            LastAutoFailoverTime = None, AutoFailoverCount = 0, LastFencingTime = None, FencingCount = 0,
            ConsecutiveFencingCount = 0, LastFencedReplica = []\<rparr>\<rparr>)"

text \<open>The secret the group's replicas name; only its name is passed on, not its namespace.\<close>

definition group_credentials :: "'k KubeClient \<Rightarrow> 'k SrvEnv \<Rightarrow> SQLServer \<Rightarrow> InstanceSpec \<Rightarrow> (string, 'k) op" where
  "group_credentials K A srv inst =
     (case srv_CredentialsSecret (Spec srv) of
        Some (name, _) \<Rightarrow> ret name
      | None \<Rightarrow>
          if inst_SAPasswordSecret inst \<noteq> [] then
            or_fail ''failed to ensure SA credentials secret''
              (ensureSACredentialsSecret K A srv inst (cr_Name srv @ ''-sa-credentials'')) (\<lambda>_. ret (cr_Name srv @ ''-sa-credentials''))
          else ret [])"

text \<open>
  Owner references of the group's object are not represented: only the failure to set one is.
\<close>

definition create_group ::
  "(SQLServer, 'k, 'c) Reconciler \<Rightarrow> 'k SrvEnv \<Rightarrow> SQLServer \<Rightarrow> InstanceSpec \<Rightarrow> ManagedAGSpec \<Rightarrow> (unit, ('k, 'c) world) op" where
  "create_group R A srv inst ag =
     attempt (on_kube (group_credentials (kclient R) A srv inst)) fail (\<lambda>credsSecretName.
     let agCR = managed_group srv inst ag credsSecretName in
     case SetControllerReference A srv \<lparr>m_Name = cr_Name agCR, m_Namespace = cr_Namespace agCR, m_Labels = Map.empty, m_Owner = None\<rparr> of
       Inl e \<Rightarrow> fail (Wrapf ''failed to set owner reference on AG CRD: '' e)
     | Inr _ \<Rightarrow>
         or_fail ''failed to create AvailabilityGroup CRD'' (on_kube (CreateObj (Groups A) agCR)) (\<lambda>_.
         effect (Normal ''AGCRDCreated'' (''AvailabilityGroup CRD '' @ cr_Name agCR @ '' created for managed cluster'')) (ret ())))"

text \<open>\<open>srv\<close> is changed in place: the new value is returned.\<close>

definition reconcileManagedAG ::
  "(SQLServer, 'k, 'c) Reconciler \<Rightarrow> 'k SrvEnv \<Rightarrow> SQLServer \<Rightarrow> InstanceSpec \<Rightarrow> (SQLServer, ('k, 'c) world) op" where
  "reconcileManagedAG R A srv inst =
     (if replica_count inst \<le> 1 then ret srv
      else case inst_AvailabilityGroup inst of
        None \<Rightarrow> ret srv
      | Some ag \<Rightarrow>
          attempt (on_kube (GetObj (Groups A) (cr_Namespace srv) (cr_Name srv @ ''-ag'')))
            (\<lambda>e. if IsNotFound e then andthen (create_group R A srv inst ag) (ret srv)
               else fail (Wrapf ''failed to check AG CRD: '' e))
            (\<lambda>existingAG. ret (take_primary srv existingAG)))"

end
