(* ===== verification/SQLServer_Controller.thy ===== *)
theory SQLServer_Controller
  imports SQLServer_Certificates SQLServer_ManagedAG
begin

text \<open>
  \<open>internal/controller/sqlserver_controller.go\<close>: the reconciliation of a SQLServer, external or managed.
  A managed one goes through phases: its objects, their readiness, certificates, the availability
  group, role labels, and the probe of the server that an external one consists of.
\<close>

definition ReasonDeploymentProvisioning :: string where
  "ReasonDeploymentProvisioning = ''DeploymentProvisioning''"

definition ReasonCertificatesProvisioning :: string where
  "ReasonCertificatesProvisioning = ''CertificatesProvisioning''"

definition ReasonAGProvisioning :: string where
  "ReasonAGProvisioning = ''AGProvisioning''"

section \<open>The probe\<close>

text \<open>
  \<open>setConditionAndReturn\<close> computes its patch from the object as it is then: changes made to it before
  are not part of the patch.
\<close>

definition SQLServer_setConditionAndReturn ::
  "(SQLServer, 'k, 'c) Reconciler \<Rightarrow> SQLServer \<Rightarrow> ConditionStatus \<Rightarrow> string \<Rightarrow> string \<Rightarrow> (Result, ('k, 'c) world) op" where
  "SQLServer_setConditionAndReturn R srv st reason msg =
     attempt (on_kube (PatchStatus (crs R) srv (observed (with_condition (kclient R) st reason msg srv)))) fail (\<lambda>_. ret (Result 0))"

definition probe_credentials :: "'k KubeClient \<Rightarrow> SQLServer \<Rightarrow> (string \<times> string, 'k) op option" where
  "probe_credentials K srv =
     (case srv_CredentialsSecret (Spec srv) of
        Some (name, ns) \<Rightarrow> Some (getCredentialsFromSecret K (case ns of None \<Rightarrow> cr_Namespace srv | Some n \<Rightarrow> n) name)
      | None \<Rightarrow>
          (case srv_Instance (Spec srv) of
             Some inst \<Rightarrow> Some (getCredentialsFromSAPasswordSecret K (cr_Namespace srv) (inst_SAPasswordSecret inst))
           | None \<Rightarrow> None))"

text \<open>\<open>version, _ := ...\<close>: a failure leaves the empty string.\<close>

definition or_empty :: "(string, 's) op \<Rightarrow> (string \<Rightarrow> ('a, 's) op) \<Rightarrow> ('a, 's) op" where
  "or_empty m k = attempt m (\<lambda>_. k []) k"

definition probed :: "'k KubeClient \<Rightarrow> string \<Rightarrow> string \<Rightarrow> string \<Rightarrow> int \<Rightarrow> SQLServer \<Rightarrow> SQLServer" where
  "probed K host version edition now srv =
     with_condition K ConditionTrue ReasonReady (''Connected to '' @ host @ '' ('' @ version @ '')'')
       (srv\<lparr>Status := (Status srv)\<lparr>srv_st_ServerVersion := version, srv_st_Edition := edition, srv_st_LastConnectedTime := Some now,
          ObservedGeneration := cr_Generation srv\<rparr>\<rparr>)"

definition minute :: int where
  "minute = 60 * second"

definition probe_connection ::
  "(SQLServer, 'k, 'c) Reconciler \<Rightarrow> 'k SrvEnv \<Rightarrow> SQLServer \<Rightarrow> SQLServer \<Rightarrow> string \<Rightarrow> 'c SQLClient \<Rightarrow> (Result, ('k, 'c) world) op" where
  "probe_connection R A base srv host sqlConn =
     attempt (on_sql (Ping sqlConn))
       (\<lambda>e. effect (Warning ReasonConnectionFailed (Error e)) (fail (Wrapf ''failed to ping SQL Server: '' e))) (\<lambda>_.
     or_empty (on_sql (GetServerVersion sqlConn)) (\<lambda>version.
     or_empty (on_sql (GetServerEdition sqlConn)) (\<lambda>edition.
     attempt (on_kube (clock_now A)) fail (\<lambda>now.
     attempt (on_kube (PatchStatus (crs R) base (probed (kclient R) host version edition now srv))) fail (\<lambda>_.
     requeue_jitter (Int63n R) minute)))))"

definition probeAndUpdateStatus ::
  "(SQLServer, 'k, 'c) Reconciler \<Rightarrow> 'k SrvEnv \<Rightarrow> SQLServer \<Rightarrow> SQLServer \<Rightarrow> string \<Rightarrow> (Result, ('k, 'c) world) op" where
  "probeAndUpdateStatus R A base srv host =
     (case probe_credentials (kclient R) srv of
        None \<Rightarrow> SQLServer_setConditionAndReturn R srv ConditionFalse ReasonSecretNotFound
          ''credentialsSecret is required for SqlLogin auth in external mode''
      | Some credentials \<Rightarrow>
          attempt (on_kube credentials)
            (\<lambda>e. SQLServer_setConditionAndReturn R srv ConditionFalse
               (if IsNotFound e then ReasonSecretNotFound else ReasonInvalidCredentialsSecret) (Error e))
            (\<lambda>(username, password).
          let port = (case srv_Port (Spec srv) of None \<Rightarrow> 1433 | Some p \<Rightarrow> p); tlsEnabled = (srv_TLS (Spec srv) = Some True) in
          case SQLClientFactory R host port username password tlsEnabled of
            Inl e \<Rightarrow> effect (Warning ReasonConnectionFailed (Error e)) (fail (Wrapf ''failed to connect to SQL Server: '' e))
          | Inr sqlConn \<Rightarrow> deferred (\<lambda>w. w\<lparr>sql := CloseClient sqlConn (sql w)\<rparr>) (probe_connection R A base srv host sqlConn)))"

section \<open>External servers\<close>

definition with_host :: "string \<Rightarrow> SQLServer \<Rightarrow> SQLServer" where
  "with_host host srv = srv\<lparr>Status := (Status srv)\<lparr>srv_st_Host := host\<rparr>\<rparr>"

definition reconcileExternal ::
  "(SQLServer, 'k, 'c) Reconciler \<Rightarrow> 'k SrvEnv \<Rightarrow> SQLServer \<Rightarrow> (Result, ('k, 'c) world) op" where
  "reconcileExternal R A srv =
     (let auth = srv_AuthMethod (Spec srv) in
      if auth \<noteq> AuthSqlLogin \<and> auth \<noteq> [] then
        SQLServer_setConditionAndReturn R srv ConditionFalse ''UnsupportedAuthMethod''
          (''Authentication method '' @ auth @ '' is not yet supported'')
      else probeAndUpdateStatus R A srv (with_host (srv_Host (Spec srv)) srv) (srv_Host (Spec srv)))"

section \<open>Managed instances\<close>

text \<open>Phase 1: the objects, in order; the first failure ends the reconciliation.\<close>

definition reconcile_objects :: "'k SrvEnv \<Rightarrow> SQLServer \<Rightarrow> InstanceSpec \<Rightarrow> (unit, 'k) op" where
  "reconcile_objects A srv inst =
     or_fail ''failed to reconcile config'' (reconcileConfigMap A srv inst) (\<lambda>_.
     or_fail ''failed to reconcile headless service'' (reconcileHeadlessService A srv inst) (\<lambda>_.
     or_fail ''failed to reconcile client service'' (reconcileClientService A srv inst) (\<lambda>_.
     andthen (if replica_count inst > 1
         then or_fail ''failed to reconcile read-only service'' (reconcileReadOnlyService A srv inst) ret else ret ())
     (or_fail ''failed to reconcile statefulset'' (reconcileStatefulSet A srv inst) ret))))"

text \<open>A phase that is not finished: the condition says so, and the object is looked at again after a delay.\<close>

definition not_yet ::
  "(SQLServer, 'k, 'c) Reconciler \<Rightarrow> SQLServer \<Rightarrow> SQLServer \<Rightarrow> string \<Rightarrow> string \<Rightarrow> int \<Rightarrow> (Result, ('k, 'c) world) op" where
  "not_yet R base srv reason msg delay =
     attempt (on_kube (PatchStatus (crs R) base (observed (with_condition (kclient R) ConditionFalse reason msg srv)))) fail (\<lambda>_.
       ret (Result delay))"

definition with_readiness :: "int \<Rightarrow> SQLServer \<Rightarrow> SQLServer" where
  "with_readiness readyReplicas srv =
     srv\<lparr>Status := (Status srv)\<lparr>srv_st_ReadyReplicas := Some readyReplicas, srv_st_Host := managedHost srv\<rparr>\<rparr>"

definition with_certificates :: "bool \<Rightarrow> SQLServer \<Rightarrow> SQLServer" where
  "with_certificates certsReady srv = srv\<lparr>Status := (Status srv)\<lparr>srv_st_CertificatesReady := Some certsReady\<rparr>\<rparr>"

text \<open>A nil pointer that the code dereferences.\<close>

definition nil_panic :: go_error where
  "nil_panic = Errorf ''panic: invalid memory address or nil pointer dereference''"

text \<open>Phases 4 and 5: the known primary is stored and the pods are labelled; then the server is probed.
  The object is the one the patch returned from then on.\<close>

definition label_and_probe ::
  "(SQLServer, 'k, 'c) Reconciler \<Rightarrow> 'k SrvEnv \<Rightarrow> InstanceSpec \<Rightarrow> SQLServer \<Rightarrow> SQLServer \<Rightarrow> (Result, ('k, 'c) world) op" where
  "label_and_probe R A inst base srv =
     (let primary = srv_st_PrimaryReplica (Status srv);
          host = (\<lambda>s. if replica_count inst > 1 then
              (if srv_st_PrimaryReplica (Status s) \<noteq> [] then srv_st_PrimaryReplica (Status s) else replicaHost s 0)
            else managedHost s)
      in if primary \<noteq> [] then
           attempt (on_kube (PatchStatus (crs R) base srv)) fail (\<lambda>srv'.
           case srv_Instance (Spec srv') of
             None \<Rightarrow> fail nil_panic
           | Some inst' \<Rightarrow>
               attempt (on_kube (reconcileReplicaRoleLabels A srv' inst' (srv_st_PrimaryReplica (Status srv'))))
                 (\<lambda>_. probeAndUpdateStatus R A srv' srv' (host srv')) (\<lambda>_. probeAndUpdateStatus R A srv' srv' (host srv')))
         else probeAndUpdateStatus R A base srv (host srv))"

text \<open>Phases 2 and 3, for clusters: certificates, their distribution, and the availability group.\<close>

definition cluster_phases ::
  "(SQLServer, 'k, 'c) Reconciler \<Rightarrow> 'k SrvEnv \<Rightarrow> ('key, 'crt, 'k) Crypto \<Rightarrow> InstanceSpec \<Rightarrow> SQLServer \<Rightarrow> SQLServer
   \<Rightarrow> (Result, ('k, 'c) world) op" where
  "cluster_phases R A X inst base srv =
     or_fail ''failed to reconcile certificates'' (on_kube (reconcileCertificates (kclient R) A X srv inst)) (\<lambda>certsReady.
     let srv1 = with_certificates certsReady srv in
     if \<not> certsReady then not_yet R base srv1 ReasonCertificatesProvisioning ''Waiting for HADR certificates'' (5 * second)
     else attempt (distributeCertificatesToSQL R srv1 inst) (\<lambda>_. ret (Result (10 * second))) (\<lambda>_.
       attempt (reconcileManagedAG R A srv1 inst)
         (\<lambda>e. not_yet R base srv1 ReasonAGProvisioning (''AG provisioning: '' @ Error e) (10 * second))
         (label_and_probe R A inst base)))"

text \<open>The message of an instance that is not ready reads \<open>*srv.Spec.Instance.Replicas\<close>, a panic when it is nil.\<close>

definition instance_phases ::
  "(SQLServer, 'k, 'c) Reconciler \<Rightarrow> 'k SrvEnv \<Rightarrow> ('key, 'crt, 'k) Crypto \<Rightarrow> InstanceSpec \<Rightarrow> SQLServer \<Rightarrow> (Result, ('k, 'c) world) op" where
  "instance_phases R A X inst base =
     andthen (on_kube (reconcile_objects A base inst))
     (or_fail ''failed to check statefulset readiness'' (on_kube (isStatefulSetReady A base inst)) (\<lambda>(ready, readyReplicas).
     let srv = with_readiness readyReplicas base in
     if \<not> ready then
       (case inst_Replicas inst of
          None \<Rightarrow> fail nil_panic
        | Some n \<Rightarrow> not_yet R base srv ReasonDeploymentProvisioning
            (''StatefulSet not ready: '' @ show_int readyReplicas @ ''/'' @ show_int n @ '' replicas'') (5 * second))
     else if replica_count inst > 1 then cluster_phases R A X inst base srv
     else label_and_probe R A inst base srv))"

text \<open>\<open>ctrl.Result\{Requeue: true\}\<close> or \<open>ctrl.Result\{RequeueAfter: d\}\<close>\<close>

datatype reply = Requeue | After Result

definition reply_after :: "(Result, 's) op \<Rightarrow> (reply, 's) op" where
  "reply_after m = attempt m fail (\<lambda>r. ret (After r))"

definition reconcileManaged ::
  "(SQLServer, 'k, 'c) Reconciler \<Rightarrow> 'k SrvEnv \<Rightarrow> ('key, 'crt, 'k) Crypto \<Rightarrow> SQLServer \<Rightarrow> InstanceSpec \<Rightarrow> (reply, ('k, 'c) world) op" where
  "reconcileManaged R A X srv inst =
     (if \<not> ContainsFinalizer (kclient R) (cr_Finalizers srv) Finalizer then
        attempt (on_kube (UpdateCR (crs R) (srv\<lparr>cr_Finalizers := AddFinalizer (kclient R) (cr_Finalizers srv) Finalizer\<rparr>))) fail
          (\<lambda>_. ret Requeue)
      else if cr_Deleting srv then reply_after (remove_finalizer R srv)
      else reply_after (instance_phases R A X inst srv))"

definition SQLServer_Reconcile ::
  "(SQLServer, 'k, 'c) Reconciler \<Rightarrow> 'k SrvEnv \<Rightarrow> ('key, 'crt, 'k) Crypto \<Rightarrow> string \<Rightarrow> string \<Rightarrow> (reply, ('k, 'c) world) op" where
  "SQLServer_Reconcile R A X ns name =
     attempt (on_kube (GetCR (crs R) ns name)) (\<lambda>e. if IsNotFound e then ret (After (Result 0)) else fail e) (\<lambda>srv.
       case srv_Instance (Spec srv) of
         Some inst \<Rightarrow> reconcileManaged R A X srv inst
       | None \<Rightarrow> reply_after (reconcileExternal R A srv))"

text \<open>The requests of a Secret: the SQLServers that name it, in the namespace they name or else their own.\<close>

definition mapSecretToSQLServers :: "SQLServer list res \<Rightarrow> string \<Rightarrow> string \<Rightarrow> Request list" where
  "mapSecretToSQLServers listed secretNS secretName =
     requests_for listed (\<lambda>x. case srv_CredentialsSecret (Spec x) of
       None \<Rightarrow> False
     | Some (name, ns) \<Rightarrow> name = secretName \<and> (case ns of None \<Rightarrow> cr_Namespace x | Some n \<Rightarrow> n) = secretNS)"

end
