(* ===== verification/SQLServer_Laws.thy ===== *)
theory SQLServer_Laws
  imports SQLServer_Controller Memory_API
begin

text \<open>
  What the SQLServer controller relies on of the API server, as a whole: reads, status patches,
  updates of the object, and the objects of an instance; and an API server kept in memory that
  satisfies it.
\<close>

section \<open>Status patches\<close>

text \<open>
  A merge patch carries the fields that differ between its base and the new object; every other field
  keeps the stored value. The list of conditions is one field.
\<close>

definition merged :: "'a \<Rightarrow> 'a \<Rightarrow> 'a \<Rightarrow> 'a" where
  "merged base new cur = (if new = base then cur else new)"

definition merge_status :: "SQLServerStatus \<Rightarrow> SQLServerStatus \<Rightarrow> SQLServerStatus \<Rightarrow> SQLServerStatus" where
  "merge_status base new cur =
     \<lparr>Conditions = merged (Conditions base) (Conditions new) (Conditions cur),
      ObservedGeneration = merged (ObservedGeneration base) (ObservedGeneration new) (ObservedGeneration cur),
      srv_st_ServerVersion = merged (srv_st_ServerVersion base) (srv_st_ServerVersion new) (srv_st_ServerVersion cur),
      srv_st_Edition = merged (srv_st_Edition base) (srv_st_Edition new) (srv_st_Edition cur),
      srv_st_LastConnectedTime = merged (srv_st_LastConnectedTime base) (srv_st_LastConnectedTime new) (srv_st_LastConnectedTime cur),
      srv_st_Host = merged (srv_st_Host base) (srv_st_Host new) (srv_st_Host cur),
      srv_st_ReadyReplicas = merged (srv_st_ReadyReplicas base) (srv_st_ReadyReplicas new) (srv_st_ReadyReplicas cur),
      srv_st_PrimaryReplica = merged (srv_st_PrimaryReplica base) (srv_st_PrimaryReplica new) (srv_st_PrimaryReplica cur),
      srv_st_CertificatesReady = merged (srv_st_CertificatesReady base) (srv_st_CertificatesReady new) (srv_st_CertificatesReady cur)\<rparr>"

lemma merge_status_own [simp]: "merge_status base new base = new"
  by (simp add: merge_status_def merged_def)

section \<open>The assumptions\<close>

definition patch_laws :: "(SQLServer, 'k, 'c) Reconciler \<Rightarrow> ('k \<Rightarrow> SrvStore) \<Rightarrow> bool" where
  "patch_laws R store \<longleftrightarrow> (\<forall>k base new cur. request_of new = request_of base \<longrightarrow>
     st_SQLServers (store k) (request_of base) = Some cur \<longrightarrow>
     succeeds (PatchStatus (crs R) base new) k (\<lambda>x k'. x = cur\<lparr>Status := merge_status (Status base) (Status new) (Status cur)\<rparr> \<and>
       store k' = (store k)\<lparr>st_SQLServers := (st_SQLServers (store k))(request_of base \<mapsto> x)\<rparr>))"

definition update_laws :: "(SQLServer, 'k, 'c) Reconciler \<Rightarrow> ('k \<Rightarrow> SrvStore) \<Rightarrow> bool" where
  "update_laws R store \<longleftrightarrow> (\<forall>k cr. st_SQLServers (store k) (request_of cr) \<noteq> None \<longrightarrow>
     succeeds (UpdateCR (crs R) cr) k (\<lambda>x k'. x = cr \<and>
       store k' = (store k)\<lparr>st_SQLServers := (st_SQLServers (store k))(request_of cr := stored cr)\<rparr>))"

definition owner_laws :: "'k SrvEnv \<Rightarrow> bool" where
  "owner_laws A \<longleftrightarrow> (\<forall>srv m. m_Owner m = None \<longrightarrow> SetControllerReference A srv m = Inr (m\<lparr>m_Owner := Some (cr_Name srv)\<rparr>))"

definition group_meta :: "AvailabilityGroup \<Rightarrow> ObjectMeta" where
  "group_meta ag = \<lparr>m_Name = cr_Name ag, m_Namespace = cr_Namespace ag, m_Labels = cr_Labels ag, m_Owner = None\<rparr>"

definition instance_laws :: "'k SrvEnv \<Rightarrow> ('k \<Rightarrow> SrvStore) \<Rightarrow> bool" where
  "instance_laws A store \<longleftrightarrow>
     object_laws (ConfigMaps A) cm_Meta config_map_agrees store st_ConfigMaps st_ConfigMaps_update \<and>
     object_laws (Services A) svc_Meta service_agrees store st_Services st_Services_update \<and>
     (\<forall>resources. object_laws (StatefulSets A) sts_Meta (stateful_set_agrees resources) store st_StatefulSets st_StatefulSets_update) \<and>
     object_laws (Groups A) group_meta (=) store st_Groups st_Groups_update \<and>
     pod_laws A store \<and> owner_laws A"

definition secret_laws :: "'k SrvEnv \<Rightarrow> ('k \<Rightarrow> SrvStore) \<Rightarrow> bool" where
  "secret_laws A store \<longleftrightarrow> (\<forall>k m data. st_Secrets (store k) (meta_key m) = None \<longrightarrow>
     succeeds (CreateSecret A m data) k (\<lambda>_ k'. \<exists>v. store k' = (store k)\<lparr>st_Secrets :=
       (st_Secrets (store k))(meta_key m \<mapsto> \<lparr>Data = data, ResourceVersion = v\<rparr>)\<rparr>))"

definition sqlserver_laws :: "(SQLServer, 'k, 'c) Reconciler \<Rightarrow> 'k SrvEnv \<Rightarrow> ('k \<Rightarrow> SrvStore) \<Rightarrow> bool" where
  "sqlserver_laws R A store \<longleftrightarrow>
     (\<forall>k ns n. answers (st_SQLServers (store k) (ns, n)) k (GetCR (crs R) ns n k)) \<and>
     (\<forall>k ns n. answers (st_Secrets (store k) (ns, n)) k (GetSecret (kclient R) ns n k)) \<and>
     patch_laws R store \<and> update_laws R store \<and> instance_laws A store \<and> secret_laws A store \<and>
     (\<forall>k. store (snd (srv_Now A k)) = store k) \<and>
     finalizer_laws (kclient R) \<and> condition_laws (kclient R) \<and> rand_laws (Int63n R)"

lemma sqlserver_lawsD:
  assumes "sqlserver_laws R A store"
  shows "answers (st_SQLServers (store k) (ns, n)) k (GetCR (crs R) ns n k)"
    "answers (st_Secrets (store k) (ns, n)) k (GetSecret (kclient R) ns n k)"
    "patch_laws R store" "update_laws R store" "instance_laws A store" "secret_laws A store"
    "store (snd (srv_Now A k)) = store k"
    "finalizer_laws (kclient R)" "condition_laws (kclient R)" "rand_laws (Int63n R)"
  using assms unfolding sqlserver_laws_def by blast+

section \<open>Calls under the assumptions\<close>

lemma wp_get_server:
  assumes "sqlserver_laws R A store" "st_SQLServers (store k) (ns, n) = Some srv"
  shows "wp (GetCR (crs R) ns n) k Q E = Q srv k"
  using answersE [where m = "GetCR (crs R) ns n", OF sqlserver_lawsD(1) [OF assms(1)]] assms(2) by simp

lemma wp_server_secret:
  assumes "sqlserver_laws R A store"
  shows "wp (GetSecret (kclient R) ns n) k Q E = (case st_Secrets (store k) (ns, n) of
    Some s \<Rightarrow> Q s k | None \<Rightarrow> (\<exists>e. GetSecret (kclient R) ns n k = (Inl e, k) \<and> IsNotFound e \<and> E e k))"
  by (rule answersE [where m = "GetSecret (kclient R) ns n", OF sqlserver_lawsD(2) [OF assms]])

lemma wp_patch_server:
  assumes laws: "sqlserver_laws R A store" and cur: "st_SQLServers (store k) (request_of base) = Some cur"
    and new: "request_of new = request_of base"
    and post: "\<And>k'. store k' = (store k)\<lparr>st_SQLServers := (st_SQLServers (store k))(request_of base \<mapsto>
      cur\<lparr>Status := merge_status (Status base) (Status new) (Status cur)\<rparr>)\<rparr> \<Longrightarrow>
      Q (cur\<lparr>Status := merge_status (Status base) (Status new) (Status cur)\<rparr>) k'"
  shows "wp (PatchStatus (crs R) base new) k Q E"
proof -
  have "succeeds (PatchStatus (crs R) base new) k (\<lambda>x k'. x = cur\<lparr>Status := merge_status (Status base) (Status new) (Status cur)\<rparr> \<and>
       store k' = (store k)\<lparr>st_SQLServers := (st_SQLServers (store k))(request_of base \<mapsto> x)\<rparr>)"
    using sqlserver_lawsD(3) [OF laws] cur new unfolding patch_laws_def by blast
  then show ?thesis by (rule wp_mono) (auto intro: post)
qed

lemma wp_update_server:
  assumes laws: "sqlserver_laws R A store" and "st_SQLServers (store k) (request_of cr) \<noteq> None"
    and post: "\<And>k'. store k' = (store k)\<lparr>st_SQLServers := (st_SQLServers (store k))(request_of cr := stored cr)\<rparr> \<Longrightarrow> Q cr k'"
  shows "wp (UpdateCR (crs R) cr) k Q E"
proof -
  have "succeeds (UpdateCR (crs R) cr) k (\<lambda>x k'. x = cr \<and>
       store k' = (store k)\<lparr>st_SQLServers := (st_SQLServers (store k))(request_of cr := stored cr)\<rparr>)"
    using sqlserver_lawsD(4) [OF laws] assms(2) unfolding update_laws_def by blast
  then show ?thesis by (rule wp_mono) (auto intro: post)
qed

lemma wp_server_clock:
  assumes "sqlserver_laws R A store" "\<And>t k'. store k' = store k \<Longrightarrow> Q t k'"
  shows "wp (clock_now A) k Q E"
  using sqlserver_lawsD(7) [OF assms(1), of k] assms(2) by (auto simp: clock_now_def wp_def split: prod.split)

section \<open>An API server in memory\<close>

definition memory_objects :: "('s \<Rightarrow> 'o objects) \<Rightarrow> (('o objects \<Rightarrow> 'o objects) \<Rightarrow> 's \<Rightarrow> 's) \<Rightarrow> ('o \<Rightarrow> ObjectMeta) \<Rightarrow> ('o, 's) ObjClient" where
  "memory_objects get upd meta = \<lparr>GetObj = get_or_missing get,
     CreateObj = (\<lambda>obj s. (Inr (), upd (\<lambda>m. m(meta_key (meta obj) \<mapsto> obj)) s)),
     UpdateObj = (\<lambda>obj s. (Inr (), upd (\<lambda>m. m(meta_key (meta obj) \<mapsto> obj)) s))\<rparr>"

definition memory_srv_env :: "SrvStore SrvEnv" where
  "memory_srv_env = \<lparr>ConfigMaps = memory_objects st_ConfigMaps st_ConfigMaps_update cm_Meta,
     Services = memory_objects st_Services st_Services_update svc_Meta,
     StatefulSets = memory_objects st_StatefulSets st_StatefulSets_update sts_Meta,
     Groups = memory_objects st_Groups st_Groups_update group_meta,
     CreateSecret = (\<lambda>m data s. (Inr (), s\<lparr>st_Secrets := (st_Secrets s)(meta_key m \<mapsto> \<lparr>Data = data, ResourceVersion = ''1''\<rparr>)\<rparr>)),
     srv_GetPod = get_or_missing st_Pods,
     srv_PatchPod = (\<lambda>base pod s. (Inr pod, s\<lparr>st_Pods := (st_Pods s)((pod_Namespace base, pod_Name base) \<mapsto> pod)\<rparr>)),
     SetControllerReference = (\<lambda>srv m. Inr (m\<lparr>m_Owner := Some (cr_Name srv)\<rparr>)),
     ParseQuantity = Some, srv_Now = (\<lambda>s. (0, s))\<rparr>"

definition patch_server :: "SQLServer \<Rightarrow> SQLServer \<Rightarrow> (SQLServer, SrvStore) op" where
  "patch_server base new s =
     (case st_SQLServers s (request_of base) of
        None \<Rightarrow> (Inl (GoErr True ''not found''), s)
      | Some cur \<Rightarrow> (let x = cur\<lparr>Status := merge_status (Status base) (Status new) (Status cur)\<rparr>
          in (Inr x, s\<lparr>st_SQLServers := (st_SQLServers s)(request_of base \<mapsto> x)\<rparr>)))"

definition memory_srv_reconciler :: "'c ClientFactory \<Rightarrow> (SQLServer, SrvStore, 'c) Reconciler" where
  "memory_srv_reconciler factory = \<lparr>kclient = \<lparr>GetSecret = get_or_missing st_Secrets, GetSQLServer = get_or_missing st_SQLServers,
       SetStatusCondition = set_condition, ContainsFinalizer = (\<lambda>fs f. f \<in> set fs),
       AddFinalizer = (\<lambda>fs f. fs @ [f]), RemoveFinalizer = (\<lambda>fs f. filter (\<lambda>g. g \<noteq> f) fs)\<rparr>,
     crs = \<lparr>GetCR = get_or_missing st_SQLServers,
       UpdateCR = (\<lambda>cr s. (Inr cr, s\<lparr>st_SQLServers := (st_SQLServers s)(request_of cr := stored cr)\<rparr>)),
       PatchStatus = patch_server\<rparr>,
     SQLClientFactory = factory, Int63n = (\<lambda>n. n div 2), range_order = remdups\<rparr>"

lemma memory_object_laws:
  assumes "part_of get upd"
  shows "object_laws (memory_objects get upd meta) meta agrees (\<lambda>s. s) get upd"
  using assms by (simp add: object_laws_def memory_objects_def answers_memory wp_def stored_as_def) blast

lemma store_parts:
  "part_of st_ConfigMaps st_ConfigMaps_update" "part_of st_Services st_Services_update"
  "part_of st_StatefulSets st_StatefulSets_update" "part_of st_Groups st_Groups_update"
  by (simp_all add: part_of_def)

lemma memory_instance_laws: "instance_laws memory_srv_env (\<lambda>s. s)"
  unfolding instance_laws_def memory_srv_env_def
  by (simp add: memory_object_laws store_parts pod_laws_def answers_memory wp_def owner_laws_def)

lemma memory_sqlserver_laws: "sqlserver_laws (memory_srv_reconciler factory) memory_srv_env (\<lambda>s. s)"
  unfolding sqlserver_laws_def memory_srv_reconciler_def
  by (simp add: memory_instance_laws [unfolded memory_srv_env_def] answers_memory patch_laws_def update_laws_def secret_laws_def patch_server_def memory_srv_env_def
      wp_def Let_def finalizer_laws_def condition_laws_def set_condition_laws rand_laws_def) auto

lemma memory_srv_factory [simp]: "SQLClientFactory (memory_srv_reconciler f) = f"
  by (simp add: memory_srv_reconciler_def)

end
