(* ===== verification/Managed_Objects.thy ===== *)
theory Managed_Objects
  imports SQLServer_Laws Admission
begin

text \<open>
  What the first phase of a managed SQLServer achieves, whatever objects were there: they agree with
  the specification, a second pass writes nothing, and the services route to the pods they should.
\<close>

section \<open>The loop over the replicas\<close>

text \<open>
  C35. The loop over the replicas ends for every 32-bit bound and visits each index below it exactly once,
  in order: its counter never wraps around, not even when the bound is the largest 32-bit integer; a
  bound of zero or below visits none.
\<close>

theorem replica_loop_terminates:
  "List.map sint (replica_indices 0 replicas) = [0..sint replicas - 1] \<and>
     distinct (replica_indices 0 replicas) \<and> int (length (replica_indices 0 replicas)) = max 0 (sint replicas)"
proof -
  have loop: "List.map sint (replica_indices 0 replicas) = [0..sint replicas - 1]"
    using replica_indices_upto [of 0 replicas] by simp
  then have "length (replica_indices 0 replicas) = nat (sint replicas)" by (metis length_map length_upto diff_add_cancel diff_zero)
  then show ?thesis using loop distinct_upto by (metis distinct_map int_nat_eq max.absorb2 max.absorb1 nat_less_le not_le linorder_le_cases)
qed

section \<open>The configuration file\<close>

lemma memory_limit_facts:
  assumes "0 \<le> m" "m < 2 ^ 63"
  shows "0 < memory_limit m \<longleftrightarrow> 2097152 \<le> m" (is ?pos)
    and "memory_limit m * 100 \<le> (m div 1048576) * 80" (is ?lower)
    and "(m div 1048576) * 80 < (memory_limit m + 1) * 100" (is ?upper)
    and "memory_limit m * 1048576 * 100 \<le> m * 80" (is ?share)
proof -
  define q where "q = m div 1048576"
  have q: "q * 1048576 \<le> m" "m < q * 1048576 + 1048576"
    unfolding q_def using div_mult_mod_eq [of m 1048576] pos_mod_bound [of 1048576 m] pos_mod_sign [of 1048576 m] by linarith+
  have "0 \<le> q" "q < 2 ^ 43" using assms unfolding q_def by auto
  then have limit: "memory_limit m = q * 80 div 100"
    using assms by (simp add: memory_limit_def q_def go_div_pos wrap64_id)
  have r: "memory_limit m * 100 \<le> q * 80" "q * 80 < memory_limit m * 100 + 100"
    unfolding limit using div_mult_mod_eq [of "q * 80" 100] pos_mod_bound [of 100 "q * 80"] pos_mod_sign [of 100 "q * 80"] by linarith+
  have "2 \<le> q" if "0 < memory_limit m"
  proof -
    from that r(1) have "100 \<le> q * 80" by linarith
    then show ?thesis by linarith
  qed
  moreover have "0 < memory_limit m" if "2097152 \<le> m"
  proof -
    from that q(2) have "2 \<le> q" by linarith
    then show ?thesis using r(2) by linarith
  qed
  ultimately show ?pos using q(1) by (intro iffI) linarith+
  show ?lower ?upper using r by (simp_all add: q_def)
  show ?share using q r by linarith
qed

text \<open>
  The line is appended at the end of the file: after a configuration whose \<open>[memory]\<close> section is not the
  last one it lands in another section, and a file without a final newline gets it on its last line.
\<close>

lemma memory_limit_misplaced:
  "buildMSSQLConf (ex_instance None\<lparr>inst_Resources := Some \<lparr>res_MemoryLimit = Some 1073741824, res_Other = []\<rparr>,
     inst_Config := Some (''[memory]'' @ line_end @ ''[network]'')\<rparr>) =
   ''[memory]'' @ line_end @ ''[network]memorylimitmb = 819'' @ line_end"
  by code_simp

text \<open>
  The memory limit written for SQL Server is at most four fifths of the container's: an instance
  with a limit of m bytes and no \<open>memorylimitmb\<close> of its own gets the largest number of megabytes that does
  not exceed 80 percent of the whole megabytes of m, and its own configuration stays a prefix of the file.
  Without a limit, or with one below two megabytes, or when it sets the limit itself, nothing is added.
\<close>

theorem memory_limit_bounded:
  assumes "inst_Resources inst = Some resources" "res_MemoryLimit resources = Some m" "0 \<le> m" "m < 2 ^ 63"
  shows "\<exists>added. buildMSSQLConf inst = (case inst_Config inst of None \<Rightarrow> [] | Some c \<Rightarrow> c) @ added \<and>
     (added \<noteq> [] \<longleftrightarrow> 2097152 \<le> m \<and> \<not> Contains (case inst_Config inst of None \<Rightarrow> [] | Some c \<Rightarrow> c) ''memorylimitmb'') \<and>
     (added \<noteq> [] \<longrightarrow> (\<exists>before mb. added = before @ ''memorylimitmb = '' @ show_int mb @ line_end \<and>
        mb * 100 \<le> (m div 1048576) * 80 \<and> (m div 1048576) * 80 < (mb + 1) * 100 \<and> mb * 1048576 * 100 \<le> m * 80))"
proof -
  define conf where "conf = (case inst_Config inst of None \<Rightarrow> [] | Some c \<Rightarrow> c)"
  note facts = memory_limit_facts [OF assms(3,4)]
  have whole: "buildMSSQLConf inst =
      (if \<not> Contains conf ''memorylimitmb'' \<and> 0 < memory_limit m
       then conf @ (if Contains conf ''[memory]'' then [] else line_end @ ''[memory]'' @ line_end) @
         ''memorylimitmb = '' @ show_int (memory_limit m) @ line_end
       else conf)"
    using assms(1,2) unfolding buildMSSQLConf_def conf_def [symmetric] by (simp add: Let_def split: bool.split)
  show ?thesis
  proof (cases "\<not> Contains conf ''memorylimitmb'' \<and> 0 < memory_limit m")
    case True
    then show ?thesis
      unfolding conf_def [symmetric] whole if_P [OF True] using facts
      by (intro exI [of _ "(if Contains conf ''[memory]'' then [] else line_end @ ''[memory]'' @ line_end) @
         ''memorylimitmb = '' @ show_int (memory_limit m) @ line_end"]) (intro conjI; blast intro: append.assoc | simp)
  next
    case False
    then show ?thesis
      unfolding conf_def [symmetric] whole if_not_P [OF False] using facts(1) by (intro exI [of _ "[]"]) auto
  qed
qed

theorem memory_limit_bounded_witness:
  "buildMSSQLConf (ex_instance None\<lparr>inst_Resources := Some \<lparr>res_MemoryLimit = Some 1073741824, res_Other = []\<rparr>\<rparr>) \<noteq> []"
  using memory_limit_bounded [of "ex_instance None\<lparr>inst_Resources := Some \<lparr>res_MemoryLimit = Some 1073741824, res_Other = []\<rparr>\<rparr>"
    "\<lparr>res_MemoryLimit = Some 1073741824, res_Other = []\<rparr>" 1073741824]
  by (auto simp: ex_instance_def)

section \<open>Routing\<close>

text \<open>
  C34. In a cluster the services route by role: once the role labels are reconciled for a primary among
  the instance's pods, given by its name or its full host name, the client service selects that pod and
  none of the others, and the read-only service selects exactly the others. Nothing but the pods has
  changed, and a second pass writes nothing.
\<close>

theorem Role_labels_route:
  assumes laws: "pod_laws A store" and keyed: "keyed_pods (st_Pods (store k))" and size: "is_int32 (replica_count inst)" "1 < replica_count inst"
    and p: "0 \<le> p" "p < replica_count inst" "primary = pod_name srv p \<or> primary = replicaHost srv p"
    and dots: "CHR ''.'' \<notin> set (cr_Name srv)"
    and labelled: "\<And>i pod. 0 \<le> i \<Longrightarrow> i < replica_count inst \<Longrightarrow> st_Pods (store k) (cr_Namespace srv, pod_name srv i) = Some pod \<Longrightarrow>
      instanceLabels srv \<subseteq>\<^sub>m pod_Labels pod"
  shows "succeeds (reconcileReplicaRoleLabels A srv inst primary) k (\<lambda>_ k'.
     (\<forall>i pod. 0 \<le> i \<and> i < replica_count inst \<and> st_Pods (store k') (cr_Namespace srv, pod_name srv i) = Some pod \<longrightarrow>
        (selects (desiredClientService srv inst) pod \<longleftrightarrow> i = p) \<and> (selects (desiredReadOnlyService srv inst) pod \<longleftrightarrow> i \<noteq> p)) \<and>
     store k' = (store k)\<lparr>st_Pods := st_Pods (store k')\<rparr> \<and> dom (st_Pods (store k')) = dom (st_Pods (store k)) \<and>
     reconcileReplicaRoleLabels A srv inst primary k' = (Inr (), k'))"
proof -
  let ?names = "pod_name srv ` set (replica_range (replica_count inst))"
  let ?after = "\<lambda>k. role_labelled (cr_Namespace srv) (pod_name srv p) ?names (st_Pods (store k))"
  have short: "short_name primary = pod_name srv p"
    using p(3) dots by (rule short_name_pod)
  have run: "wp (reconcileReplicaRoleLabels A srv inst primary) k Q E"
    if "keyed_pods (st_Pods (store k))"
      "\<And>k'. store k' = (store k)\<lparr>st_Pods := ?after k\<rparr> \<Longrightarrow> (?after k = st_Pods (store k) \<longrightarrow> k' = k) \<Longrightarrow> Q () k'" for k Q E
    unfolding reconcileReplicaRoleLabels_def short by (rule wp_label_pods [OF laws that(1)]) (rule that(2))
  show ?thesis
  proof (rule run [OF keyed])
    fix k' assume k': "store k' = (store k)\<lparr>st_Pods := ?after k\<rparr>"
    have pods: "st_Pods (store k') = ?after k" using k' by simp
    have again: "reconcileReplicaRoleLabels A srv inst primary k' = (Inr (), k')"
    proof -
      have "?after k' = st_Pods (store k')" unfolding pods by (rule role_labelled_idem)
      then have "succeeds (reconcileReplicaRoleLabels A srv inst primary) k' (\<lambda>_ k''. k'' = k')" by (intro run) (simp_all add: pods keyed)
      then show ?thesis by (auto elim: succeedsD)
    qed
    have routed: "(selects (desiredClientService srv inst) pod \<longleftrightarrow> i = p) \<and> (selects (desiredReadOnlyService srv inst) pod \<longleftrightarrow> i \<noteq> p)"
      if i: "0 \<le> i" "i < replica_count inst" "st_Pods (store k') (cr_Namespace srv, pod_name srv i) = Some pod" for i pod
    proof -
      have "pod_name srv i \<in> ?names" using i(1,2) size by simp
      then obtain old where old: "st_Pods (store k) (cr_Namespace srv, pod_name srv i) = Some old"
        "pod = old\<lparr>pod_Labels := (pod_Labels old)(LabelRole \<mapsto> role_of (pod_name srv p) (pod_name srv i))\<rparr>"
        using i(3) by (auto simp: pods role_labelled_def)
      then show ?thesis
        using labelled [OF i(1,2) old(1)] size(2) pod_name_inject [OF i(1) p(1), of srv] by (simp add: selects_role)
    qed
    show "(\<forall>i pod. 0 \<le> i \<and> i < replica_count inst \<and> st_Pods (store k') (cr_Namespace srv, pod_name srv i) = Some pod \<longrightarrow>
        (selects (desiredClientService srv inst) pod \<longleftrightarrow> i = p) \<and> (selects (desiredReadOnlyService srv inst) pod \<longleftrightarrow> i \<noteq> p)) \<and>
      store k' = (store k)\<lparr>st_Pods := st_Pods (store k')\<rparr> \<and> dom (st_Pods (store k')) = dom (st_Pods (store k)) \<and>
      reconcileReplicaRoleLabels A srv inst primary k' = (Inr (), k')"
      using routed again k' by (auto simp: dom_role_labelled)
  qed
qed

section \<open>The objects of an instance settle\<close>

definition keyed_objects :: "('o \<Rightarrow> ObjectMeta) \<Rightarrow> 'o objects \<Rightarrow> bool" where
  "keyed_objects meta objs \<longleftrightarrow> (\<forall>key e. objs key = Some e \<longrightarrow> meta_key (meta e) = key)"

definition keyed_store :: "SrvStore \<Rightarrow> bool" where
  "keyed_store s \<longleftrightarrow> keyed_objects cm_Meta (st_ConfigMaps s) \<and> keyed_objects svc_Meta (st_Services s) \<and>
     keyed_objects sts_Meta (st_StatefulSets s)"

text \<open>The specification of the first phase: which objects there are, and what they agree with.\<close>

definition agreeing :: "('o \<Rightarrow> ObjectMeta) \<Rightarrow> ('o \<Rightarrow> 'o \<Rightarrow> bool) \<Rightarrow> 'o objects \<Rightarrow> 'o \<Rightarrow> bool" where
  "agreeing meta agrees objs d \<longleftrightarrow> (\<exists>e. objs (meta_key (meta d)) = Some e \<and> agrees d e)"

definition objects_agree :: "(string \<Rightarrow> string option) \<Rightarrow> SQLServer \<Rightarrow> InstanceSpec \<Rightarrow> SrvStore \<Rightarrow> bool" where
  "objects_agree parse srv inst s \<longleftrightarrow>
     agreeing cm_Meta config_map_agrees (st_ConfigMaps s) (desiredConfigMap srv inst) \<and>
     agreeing svc_Meta (\<lambda>_ _. True) (st_Services s) (desiredHeadlessService srv inst) \<and>
     agreeing svc_Meta service_agrees (st_Services s) (desiredClientService srv inst) \<and>
     (replica_count inst > 1 \<longrightarrow> agreeing svc_Meta service_agrees (st_Services s) (desiredReadOnlyService srv inst)) \<and>
     (\<forall>d. desiredStatefulSet parse srv inst = Some d \<longrightarrow>
        agreeing sts_Meta (stateful_set_agrees (inst_Resources inst)) (st_StatefulSets s) d)"

lemma keyed_objectsD: "keyed_objects meta objs \<Longrightarrow> objs key = Some e \<Longrightarrow> meta_key (meta e) = key"
  by (cases key) (simp add: keyed_objects_def)

lemma keyed_objects_upd: "keyed_objects meta objs \<Longrightarrow> meta_key (meta e) = key \<Longrightarrow> keyed_objects meta (objs(key \<mapsto> e))"
  by (simp add: keyed_objects_def)

lemma agreeing_upd: "meta_key (meta d) \<noteq> key \<Longrightarrow> agreeing meta agrees (objs(key \<mapsto> e)) d = agreeing meta agrees objs d"
  by (simp add: agreeing_def)

lemma agreeing_new: "agrees d e \<Longrightarrow> agreeing meta agrees (objs(meta_key (meta d) \<mapsto> e)) d"
  by (simp add: agreeing_def)

lemma owned: "owner_laws A \<Longrightarrow> with_owner_reference A srv (instance_meta srv n) wrap f = f (instance_meta srv n\<lparr>m_Owner := Some (cr_Name srv)\<rparr>)"
  by (simp add: with_owner_reference_def owner_laws_def instance_meta_def)

lemma instance_lawsD:
  assumes "instance_laws A store"
  shows "object_laws (ConfigMaps A) cm_Meta config_map_agrees store st_ConfigMaps st_ConfigMaps_update"
    "object_laws (Services A) svc_Meta service_agrees store st_Services st_Services_update"
    "object_laws (StatefulSets A) sts_Meta (stateful_set_agrees resources) store st_StatefulSets st_StatefulSets_update"
    "object_laws (Groups A) group_meta (=) store st_Groups st_Groups_update" "pod_laws A store" "owner_laws A"
  using assms unfolding instance_laws_def by blast+

lemma wp_reconcileConfigMap:
  assumes laws: "instance_laws A store" and keyed: "keyed_objects cm_Meta (st_ConfigMaps (store k))"
    and post: "\<And>k' e. config_map_agrees (desiredConfigMap srv inst) e \<Longrightarrow>
      store k' = st_ConfigMaps_update (\<lambda>m. m(meta_key (cm_Meta (desiredConfigMap srv inst)) \<mapsto> e)) (store k) \<Longrightarrow>
      meta_key (cm_Meta e) = meta_key (cm_Meta (desiredConfigMap srv inst)) \<Longrightarrow>
      (agreeing cm_Meta config_map_agrees (st_ConfigMaps (store k)) (desiredConfigMap srv inst) \<longrightarrow> k' = k) \<Longrightarrow> Q () k'"
  shows "wp (reconcileConfigMap A srv inst) k Q E"
proof -
  let ?d = "desiredConfigMap srv inst" and ?m = "instance_meta srv (cr_Name srv @ ''-config'')\<lparr>m_Owner := Some (cr_Name srv)\<rparr>"
  have key: "meta_key (cm_Meta (?d\<lparr>cm_Meta := ?m\<rparr>)) = meta_key (cm_Meta ?d)"
    by (simp add: desiredConfigMap_def meta_key_def)
  have agree: "config_map_agrees (?d\<lparr>cm_Meta := ?m\<rparr>) = config_map_agrees ?d" by (simp add: config_map_agrees_def fun_eq_iff)
  have run: "reconcileConfigMap A srv inst = create_or_update (ConfigMaps A) cm_Meta change_config_map (?d\<lparr>cm_Meta := ?m\<rparr>)"
    using owned [OF instance_lawsD(6) [OF laws]] by (simp add: reconcileConfigMap_def Let_def desiredConfigMap_def)
  show ?thesis
    unfolding run
    by (rule config_maps.settles [OF instance_lawsD(1) [OF laws] TrueI], unfold key agree)
      (use keyed in \<open>auto simp: agreeing_def dest: keyed_objectsD intro!: post\<close>)
qed

lemma wp_reconcile_service:
  assumes laws: "owner_laws A" "object_laws (Services A) svc_Meta agrees store st_Services st_Services_update"
    and managed: "managed_object svc_Meta change agrees (\<lambda>_. True)" and agree: "\<And>m e. agrees (d\<lparr>svc_Meta := m\<rparr>) e = agrees d e"
    and d: "svc_Meta d = instance_meta srv n" and keyed: "keyed_objects svc_Meta (st_Services (store k))"
    and post: "\<And>k' e. agrees d e \<Longrightarrow> store k' = st_Services_update (\<lambda>m. m(meta_key (svc_Meta d) \<mapsto> e)) (store k) \<Longrightarrow>
      meta_key (svc_Meta e) = meta_key (svc_Meta d) \<Longrightarrow>
      (agreeing svc_Meta agrees (st_Services (store k)) d \<longrightarrow> k' = k) \<Longrightarrow> Q () k'"
  shows "wp (reconcile_service A srv what change d) k Q E"
proof -
  let ?m = "instance_meta srv n\<lparr>m_Owner := Some (cr_Name srv)\<rparr>"
  have key: "meta_key (svc_Meta (d\<lparr>svc_Meta := ?m\<rparr>)) = meta_key (svc_Meta d)" by (simp add: d meta_key_def)
  have run: "reconcile_service A srv what change d = create_or_update (Services A) svc_Meta change (d\<lparr>svc_Meta := ?m\<rparr>)"
    by (simp add: reconcile_service_def d owned [OF laws(1)])
  show ?thesis
    unfolding run
    by (rule managed_object.settles [OF managed laws(2) TrueI], unfold key agree)
      (use keyed in \<open>auto simp: agreeing_def dest: keyed_objectsD intro!: post\<close>)
qed

lemma service_agrees_meta: "service_agrees (d\<lparr>svc_Meta := m\<rparr>) e = service_agrees d e"
  by (simp add: service_agrees_def)

lemma wp_reconcileStatefulSet:
  assumes laws: "instance_laws A store" and d: "desiredStatefulSet (ParseQuantity A) srv inst = Some d"
    and keyed: "keyed_objects sts_Meta (st_StatefulSets (store k))"
    and post: "\<And>k' e. stateful_set_agrees (inst_Resources inst) d e \<Longrightarrow>
      store k' = st_StatefulSets_update (\<lambda>m. m(meta_key (sts_Meta d) \<mapsto> e)) (store k) \<Longrightarrow>
      meta_key (sts_Meta e) = meta_key (sts_Meta d) \<Longrightarrow>
      (agreeing sts_Meta (stateful_set_agrees (inst_Resources inst)) (st_StatefulSets (store k)) d \<longrightarrow> k' = k) \<Longrightarrow> Q () k'"
  shows "wp (reconcileStatefulSet A srv inst) k Q E"
proof -
  let ?m = "instance_meta srv (cr_Name srv)\<lparr>m_Owner := Some (cr_Name srv)\<rparr>"
  have meta: "sts_Meta d = instance_meta srv (cr_Name srv)" and pod: "ps_Containers (sts_Pod d) = [desired_container inst]"
    using d by (auto simp: desiredStatefulSet_def)
  have one: "one_container (inst_Resources inst) (d\<lparr>sts_Meta := ?m\<rparr>)"
    by (simp add: one_container_def pod desired_container_def Let_def)
  have key: "meta_key (sts_Meta (d\<lparr>sts_Meta := ?m\<rparr>)) = meta_key (sts_Meta d)" by (simp add: meta meta_key_def)
  have agree: "stateful_set_agrees r (d\<lparr>sts_Meta := ?m\<rparr>) = stateful_set_agrees r d" for r by (simp add: stateful_set_agrees_def fun_eq_iff)
  have run: "reconcileStatefulSet A srv inst =
      create_or_update (StatefulSets A) sts_Meta (change_stateful_set (inst_Resources inst)) (d\<lparr>sts_Meta := ?m\<rparr>)"
    by (simp add: reconcileStatefulSet_def d meta owned [OF instance_lawsD(6) [OF laws]])
  show ?thesis
    unfolding run
    by (rule stateful_sets.settles [OF instance_lawsD(3) [OF laws] one], unfold key agree)
      (use keyed in \<open>auto simp: agreeing_def dest: keyed_objectsD intro!: post\<close>)
qed

lemma desired_keys:
  "meta_key (cm_Meta (desiredConfigMap srv inst)) = (cr_Namespace srv, cr_Name srv @ ''-config'')"
  "meta_key (svc_Meta (desiredHeadlessService srv inst)) = (cr_Namespace srv, cr_Name srv @ ''-headless'')"
  "meta_key (svc_Meta (desiredClientService srv inst)) = (cr_Namespace srv, cr_Name srv)"
  "meta_key (svc_Meta (desiredReadOnlyService srv inst)) = (cr_Namespace srv, cr_Name srv @ ''-readonly'')"
  "svc_Meta (desiredHeadlessService srv inst) = instance_meta srv (cr_Name srv @ ''-headless'')"
  "svc_Meta (desiredClientService srv inst) = instance_meta srv (cr_Name srv)"
  "svc_Meta (desiredReadOnlyService srv inst) = instance_meta srv (cr_Name srv @ ''-readonly'')"
  by (simp_all add: desiredConfigMap_def desiredHeadlessService_def desiredClientService_def desiredReadOnlyService_def
      instance_meta_def meta_key_def)

lemma instance_key [simp]: "meta_key (instance_meta srv n) = (cr_Namespace srv, n)"
  by (simp add: instance_meta_def meta_key_def)

definition only_objects :: "SrvStore \<Rightarrow> SrvStore \<Rightarrow> bool" where
  "only_objects s s' \<longleftrightarrow> s' = s\<lparr>st_ConfigMaps := st_ConfigMaps s', st_Services := st_Services s', st_StatefulSets := st_StatefulSets s'\<rparr>"

lemma wp_reconcile_objects:
  assumes laws: "instance_laws A store" and size: "desiredStatefulSet (ParseQuantity A) srv inst = Some d"
    and keyed: "keyed_store (store k)"
    and post: "\<And>k'. objects_agree (ParseQuantity A) srv inst (store k') \<Longrightarrow> keyed_store (store k') \<Longrightarrow> only_objects (store k) (store k') \<Longrightarrow>
      (objects_agree (ParseQuantity A) srv inst (store k) \<longrightarrow> k' = k) \<Longrightarrow> Q () k'"
  shows "wp (reconcile_objects A srv inst) k Q E"
proof -
  let ?cm = "desiredConfigMap srv inst" and ?headless = "desiredHeadlessService srv inst" and ?client = "desiredClientService srv inst"
    and ?ro = "desiredReadOnlyService srv inst" and ?sts = "stateful_set_agrees (inst_Resources inst)"
  let ?last = "\<lambda>t. wp (reconcileStatefulSet A srv inst) t (\<lambda>x t. wp (ret x) t Q E)
    (\<lambda>e. E (Wrapf (''failed to reconcile statefulset'' @ '': '') e))"
  note cm = wp_reconcileConfigMap [OF laws]
  note headless = wp_reconcile_service [OF instance_lawsD(6) [OF laws] object_laws_weaken [OF instance_lawsD(2) [OF laws]]
      created_services.managed_object_axioms refl desired_keys(5)]
  note routed = wp_reconcile_service [OF instance_lawsD(6) [OF laws] instance_lawsD(2) [OF laws] routed_services.managed_object_axioms
      service_agrees_meta]
  note sts = wp_reconcileStatefulSet [OF laws size]
  have K: "keyed_objects cm_Meta (st_ConfigMaps (store k))" "keyed_objects svc_Meta (st_Services (store k))"
    "keyed_objects sts_Meta (st_StatefulSets (store k))"
    using keyed by (simp_all add: keyed_store_def)
  show ?thesis
    unfolding reconcile_objects_def wp_or_fail wp_andthen reconcileHeadlessService_def reconcileClientService_def
  proof (rule cm [OF K(1)], rule headless)
    fix k1 c assume k1: "config_map_agrees ?cm c" "store k1 = st_ConfigMaps_update (\<lambda>m. m(meta_key (cm_Meta ?cm) \<mapsto> c)) (store k)"
      "meta_key (cm_Meta c) = meta_key (cm_Meta ?cm)"
      "agreeing cm_Meta config_map_agrees (st_ConfigMaps (store k)) ?cm \<longrightarrow> k1 = k"
    show "keyed_objects svc_Meta (st_Services (store k1))" using K(2) by (simp add: k1(2))
    fix k2 h assume k2: "store k2 = st_Services_update (\<lambda>m. m(meta_key (svc_Meta ?headless) \<mapsto> h)) (store k1)"
      "meta_key (svc_Meta h) = meta_key (svc_Meta ?headless)"
      "agreeing svc_Meta (\<lambda>_ _. True) (st_Services (store k1)) ?headless \<longrightarrow> k2 = k1"
    have keyed2: "keyed_objects svc_Meta (st_Services (store k2))"
      using K(2) k2(2) by (simp add: k1(2) k2(1) keyed_objects_upd)
    show "wp (reconcile_service A srv ''client'' change_service ?client) k2
      (\<lambda>x t. wp (if 1 < replica_count inst then or_fail ''failed to reconcile read-only service'' (reconcileReadOnlyService A srv inst) ret
          else ret ()) t (\<lambda>_ t. ?last t) E)
      (\<lambda>e. E (Wrapf (''failed to reconcile client service'' @ '': '') e))"
    proof (rule routed [OF desired_keys(6) keyed2])
      fix k3 s assume k3: "service_agrees ?client s" "store k3 = st_Services_update (\<lambda>m. m(meta_key (svc_Meta ?client) \<mapsto> s)) (store k2)"
        "meta_key (svc_Meta s) = meta_key (svc_Meta ?client)"
        "agreeing svc_Meta service_agrees (st_Services (store k2)) ?client \<longrightarrow> k3 = k2"
      have keyed3: "keyed_objects svc_Meta (st_Services (store k3))"
        using keyed2 k3(3) by (simp add: k3(2) keyed_objects_upd)
      have last: "?last k4"
        if k4: "\<exists>f. store k4 = st_Services_update f (store k3) \<and> f (st_Services (store k3)) (cr_Namespace srv, cr_Name srv) = st_Services (store k3) (cr_Namespace srv, cr_Name srv) \<and>
            f (st_Services (store k3)) (cr_Namespace srv, cr_Name srv @ ''-headless'') = st_Services (store k3) (cr_Namespace srv, cr_Name srv @ ''-headless'')"
          "keyed_objects svc_Meta (st_Services (store k4))"
          "1 < replica_count inst \<longrightarrow> agreeing svc_Meta service_agrees (st_Services (store k4)) ?ro"
          "(1 < replica_count inst \<longrightarrow> agreeing svc_Meta service_agrees (st_Services (store k3)) ?ro) \<longrightarrow> k4 = k3" for k4
      proof -
        from k4(1) obtain f where f: "store k4 = st_Services_update f (store k3)"
          "f (st_Services (store k3)) (cr_Namespace srv, cr_Name srv) = st_Services (store k3) (cr_Namespace srv, cr_Name srv)"
          "f (st_Services (store k3)) (cr_Namespace srv, cr_Name srv @ ''-headless'') = st_Services (store k3) (cr_Namespace srv, cr_Name srv @ ''-headless'')"
          by blast
        have keyed4: "keyed_objects sts_Meta (st_StatefulSets (store k4))" using K(3) by (simp add: f(1) k3(2) k2(1) k1(2))
        show ?thesis
          unfolding wp_ret
        proof (rule sts [OF keyed4], rule post)
          fix k5 e assume k5: "?sts d e" "store k5 = st_StatefulSets_update (\<lambda>m. m(meta_key (sts_Meta d) \<mapsto> e)) (store k4)"
            "meta_key (sts_Meta e) = meta_key (sts_Meta d)"
            "agreeing sts_Meta ?sts (st_StatefulSets (store k4)) d \<longrightarrow> k5 = k4"
          show "objects_agree (ParseQuantity A) srv inst (store k5)"
            using k1(1) k3(1) k4(3) k5(1) f
            by (simp add: objects_agree_def size agreeing_def k5(2) f(1) k3(2) k2(1) k1(2) desired_keys)
          show "keyed_store (store k5)"
            using K k4(2) k1(3) k5(3) keyed4
            by (simp add: keyed_store_def k5(2) f(1) k3(2) k2(1) k1(2) keyed_objects_upd)
          show "only_objects (store k) (store k5)"
            by (simp add: only_objects_def k5(2) f(1) k3(2) k2(1) k1(2))
          show "objects_agree (ParseQuantity A) srv inst (store k) \<longrightarrow> k5 = k"
            using k1(4) k2(3) k3(4) k4(4) k5(4) size by (auto simp: objects_agree_def)
        qed
      qed
      show "wp (if 1 < replica_count inst then or_fail ''failed to reconcile read-only service'' (reconcileReadOnlyService A srv inst) ret
          else ret ()) k3 (\<lambda>_ t. ?last t) E"
      proof (cases "1 < replica_count inst")
        case True
        have "wp (reconcile_service A srv ''read-only'' change_service ?ro) k3
            (\<lambda>_ t. ?last t)
            (\<lambda>e. E (Wrapf (''failed to reconcile read-only service'' @ '': '') e))"
        proof (rule routed [OF desired_keys(7) keyed3])
          fix k4 e assume k4: "service_agrees ?ro e" "store k4 = st_Services_update (\<lambda>m. m(meta_key (svc_Meta ?ro) \<mapsto> e)) (store k3)"
            "meta_key (svc_Meta e) = meta_key (svc_Meta ?ro)"
            "agreeing svc_Meta service_agrees (st_Services (store k3)) ?ro \<longrightarrow> k4 = k3"
          show "?last k4"
            by (rule last, rule exI [of _ "\<lambda>m. m(meta_key (svc_Meta ?ro) \<mapsto> e)"])
              (use k4 keyed3 True in \<open>auto simp: desired_keys agreeing_def keyed_objects_upd\<close>)
        qed
        with True show ?thesis by (simp add: wp_or_fail wp_ret reconcileReadOnlyService_def del: ret_apply)
      next
        case False
        then have "?last k3"
          by (intro last) (auto intro!: exI [of _ "\<lambda>m. m"] keyed3)
        with False show ?thesis by (simp add: wp_ret del: ret_apply)
      qed
    qed
  qed
qed


section \<open>Examples\<close>

definition ex_empty_store :: SrvStore where
  "ex_empty_store = \<lparr>st_ConfigMaps = Map.empty, st_Services = Map.empty, st_StatefulSets = Map.empty, st_Groups = Map.empty,
     st_Pods = Map.empty, st_Secrets = Map.empty, st_SQLServers = Map.empty\<rparr>"


definition ex_pod :: "string \<Rightarrow> Pod" where
  "ex_pod n = \<lparr>pod_Name = n, pod_Namespace = ''ns'', pod_Labels = instanceLabels (ex_sqlserver (Some 2))\<rparr>"

definition ex_pods :: SrvStore where
  "ex_pods = ex_empty_store\<lparr>st_Pods := [(''ns'', ''obj-0'') \<mapsto> ex_pod ''obj-0'', (''ns'', ''obj-1'') \<mapsto> ex_pod ''obj-1'']\<rparr>"

theorem Role_labels_route_witness:
  "succeeds (reconcileReplicaRoleLabels memory_srv_env (ex_sqlserver (Some 2)) (ex_instance (Some 2)) ''obj-1'') ex_pods (\<lambda>_ k'.
     \<exists>pod. st_Pods k' (''ns'', ''obj-1'') = Some pod \<and> selects (desiredClientService (ex_sqlserver (Some 2)) (ex_instance (Some 2))) pod)"
proof -
  have names: "cr_Namespace (ex_sqlserver (Some 2)) = ''ns''" "cr_Name (ex_sqlserver (Some 2)) = ''obj''"
    by (simp_all add: ex_sqlserver_def ex_cr_def)
  have one: "pod_name (ex_sqlserver (Some 2)) 1 = ''obj-1''" by code_simp
  have size: "replica_count (ex_instance (Some 2)) = 2" by (simp add: replica_count_def ex_instance_def)
  have keyed: "keyed_pods (st_Pods ex_pods)" by (auto simp: keyed_pods_def ex_pods_def ex_pod_def split: if_splits)
  have labels: "instanceLabels (ex_sqlserver (Some 2)) \<subseteq>\<^sub>m pod_Labels pod" if "st_Pods ex_pods (''ns'', n) = Some pod" for n pod
    using that by (auto simp: ex_pods_def ex_pod_def ex_empty_store_def split: if_splits)
  have dots: "CHR ''.'' \<notin> set (cr_Name (ex_sqlserver (Some 2)))" by (simp add: names)
  have pod: "''obj-1'' = pod_name (ex_sqlserver (Some 2)) 1 \<or> ''obj-1'' = replicaHost (ex_sqlserver (Some 2)) 1" by (simp add: one)
  have routed: "succeeds (reconcileReplicaRoleLabels memory_srv_env (ex_sqlserver (Some 2)) (ex_instance (Some 2)) ''obj-1'') ex_pods (\<lambda>_ k'.
     (\<forall>i pod. 0 \<le> i \<and> i < replica_count (ex_instance (Some 2)) \<and>
        st_Pods k' (cr_Namespace (ex_sqlserver (Some 2)), pod_name (ex_sqlserver (Some 2)) i) = Some pod \<longrightarrow>
        (selects (desiredClientService (ex_sqlserver (Some 2)) (ex_instance (Some 2))) pod \<longleftrightarrow> i = 1) \<and>
        (selects (desiredReadOnlyService (ex_sqlserver (Some 2)) (ex_instance (Some 2))) pod \<longleftrightarrow> i \<noteq> 1)) \<and>
     k' = ex_pods\<lparr>st_Pods := st_Pods k'\<rparr> \<and> dom (st_Pods k') = dom (st_Pods ex_pods) \<and>
     reconcileReplicaRoleLabels memory_srv_env (ex_sqlserver (Some 2)) (ex_instance (Some 2)) ''obj-1'' k' = (Inr (), k'))"
    by (rule Role_labels_route [OF instance_lawsD(5) [OF memory_instance_laws] keyed _ _ _ _ pod dots])
      (use labels in \<open>simp_all add: size is_int32_def names\<close>)
  then show ?thesis
  proof (rule wp_mono)
    fix x k'
    assume k': "(\<forall>i pod. 0 \<le> i \<and> i < replica_count (ex_instance (Some 2)) \<and>
        st_Pods k' (cr_Namespace (ex_sqlserver (Some 2)), pod_name (ex_sqlserver (Some 2)) i) = Some pod \<longrightarrow>
        (selects (desiredClientService (ex_sqlserver (Some 2)) (ex_instance (Some 2))) pod \<longleftrightarrow> i = 1) \<and>
        (selects (desiredReadOnlyService (ex_sqlserver (Some 2)) (ex_instance (Some 2))) pod \<longleftrightarrow> i \<noteq> 1)) \<and>
     k' = ex_pods\<lparr>st_Pods := st_Pods k'\<rparr> \<and> dom (st_Pods k') = dom (st_Pods ex_pods) \<and>
     reconcileReplicaRoleLabels memory_srv_env (ex_sqlserver (Some 2)) (ex_instance (Some 2)) ''obj-1'' k' = (Inr (), k')"
    then have "(''ns'', ''obj-1'') \<in> dom (st_Pods k')" by (simp add: ex_pods_def)
    then obtain pod' where pod': "st_Pods k' (''ns'', ''obj-1'') = Some pod'" by blast
    with conjunct1 [OF k', rule_format, of 1 pod'] show "\<exists>pod. st_Pods k' (''ns'', ''obj-1'') = Some pod \<and>
        selects (desiredClientService (ex_sqlserver (Some 2)) (ex_instance (Some 2))) pod"
      by (simp add: size names one)
  qed simp
qed

end
