(* ===== verification/Server_Probe.thy ===== *)
theory Server_Probe
  imports SQLServer_Laws Managed_Objects Mock_Client
begin

text \<open>
  The reconciliation of a SQLServer up to its end, for an external server and for an instance of one
  replica: which credentials are used, what is asked of the server, and what the status says
  afterwards on every path.
\<close>

section \<open>Storing a status\<close>

definition server_reported :: "SQLServer \<Rightarrow> ConditionStatus \<Rightarrow> string \<Rightarrow> SQLServerStatus \<Rightarrow> SrvStore \<Rightarrow> SrvStore \<Rightarrow> bool" where
  "server_reported srv st reason status' s s' \<longleftrightarrow>
     s' = s\<lparr>st_SQLServers := (st_SQLServers s)(request_of srv \<mapsto> srv\<lparr>Status := status'\<rparr>)\<rparr> \<and>
     ready_status (srv\<lparr>Status := status'\<rparr>) = Some (st, reason) \<and> ObservedGeneration status' = cr_Generation srv"

lemma wp_store_status:
  assumes laws: "sqlserver_laws R A store" and cur: "st_SQLServers (store k) (request_of base) = Some base"
    and new: "new = base\<lparr>Status := status'\<rparr>"
    and post: "\<And>k'. store k' = (store k)\<lparr>st_SQLServers := (st_SQLServers (store k))(request_of base \<mapsto> new)\<rparr> \<Longrightarrow> Q new k'"
  shows "wp (PatchStatus (crs R) base new) k Q E"
  by (rule wp_patch_server [OF laws cur]) (use new post in \<open>simp_all\<close>)

text \<open>
  A condition set by \<open>setConditionAndReturn\<close> on an object whose status was changed in memory before,
  other than in its conditions and generation: only these two are stored.
\<close>

lemma wp_server_condition:
  assumes laws: "sqlserver_laws R A store" and cur: "st_SQLServers (store (kube w)) (request_of base) = Some base"
    and srv: "srv = base\<lparr>Status := st0\<rparr>" "Conditions st0 = Conditions (Status base)" "ObservedGeneration st0 = ObservedGeneration (Status base)"
    and post: "\<And>k' status'. server_reported base st reason status' (store (kube w)) (store k') \<Longrightarrow>
      status' = (Status base)\<lparr>Conditions := Conditions status', ObservedGeneration := cr_Generation base\<rparr> \<Longrightarrow>
      Q (Result 0) (w\<lparr>kube := k'\<rparr>)"
  shows "wp (SQLServer_setConditionAndReturn R srv st reason msg) w Q E"
proof -
  let ?new = "observed (with_condition (kclient R) st reason msg srv)"
  let ?st = "merge_status (Status srv) (Status ?new) (Status base)"
  have st: "?st = (Status base)\<lparr>Conditions := Conditions (Status ?new), ObservedGeneration := cr_Generation base\<rparr>"
    using srv(2,3) by (auto simp: merge_status_def merged_def observed_def with_condition_def srv(1))
  have ready: "ready_status (base\<lparr>Status := ?st\<rparr>) = Some (st, reason)"
    using ready_status_with_condition [OF sqlserver_lawsD(9) [OF laws], of st reason msg srv] unfolding st by (simp add: ready_status_def)
  have same: "request_of ?new = request_of srv" "request_of srv = request_of base" by (simp_all add: srv(1))
  show ?thesis
    unfolding SQLServer_setConditionAndReturn_def wp_attempt wp_on_kube wp_ret wp_fail
  proof (rule wp_patch_server [OF laws _ same(1)])
    show "st_SQLServers (store (kube w)) (request_of srv) = Some base" by (simp add: same(2) cur)
    fix k'
    assume k': "store k' = (store (kube w))\<lparr>st_SQLServers := (st_SQLServers (store (kube w)))(request_of srv \<mapsto> base\<lparr>Status := ?st\<rparr>)\<rparr>"
    show "Q (Result 0) (w\<lparr>kube := k'\<rparr>)"
      by (rule post [of ?st]) (use k' same(2) ready st in \<open>simp_all add: server_reported_def\<close>)
  qed
qed

section \<open>Credentials\<close>

text \<open>The credentials of a server, or the reason there are none.\<close>

definition secret_login :: "Secret option \<Rightarrow> string + string \<times> string" where
  "secret_login found = (case found of
     None \<Rightarrow> Inl ReasonSecretNotFound
   | Some secret \<Rightarrow> (case (Data secret ''username'', Data secret ''password'') of
       (Some u, Some p) \<Rightarrow> Inr (u, p)
     | _ \<Rightarrow> Inl ReasonInvalidCredentialsSecret))"

definition secret_sa :: "Secret option \<Rightarrow> string + string \<times> string" where
  "secret_sa found = (case found of
     None \<Rightarrow> Inl ReasonSecretNotFound
   | Some secret \<Rightarrow> (case Data secret ''MSSQL_SA_PASSWORD'' of Some p \<Rightarrow> Inr (''sa'', p) | None \<Rightarrow> Inl ReasonInvalidCredentialsSecret))"

definition server_login :: "SrvStore \<Rightarrow> SQLServer \<Rightarrow> string + string \<times> string" where
  "server_login s srv = (case srv_CredentialsSecret (Spec srv) of
     Some (name, ns) \<Rightarrow> secret_login (st_Secrets s (case ns of None \<Rightarrow> cr_Namespace srv | Some n \<Rightarrow> n, name))
   | None \<Rightarrow> (case srv_Instance (Spec srv) of
       None \<Rightarrow> Inl ReasonSecretNotFound
     | Some inst \<Rightarrow> secret_sa (st_Secrets s (cr_Namespace srv, inst_SAPasswordSecret inst))))"

lemma server_login_cong: "st_Secrets s = st_Secrets s' \<Longrightarrow> server_login s srv = server_login s' srv"
  by (simp add: server_login_def split: option.split)

text \<open>The reason a failed read of the credentials is reported with.\<close>

definition read_reason :: "go_error \<Rightarrow> string" where
  "read_reason e = (if IsNotFound e then ReasonSecretNotFound else ReasonInvalidCredentialsSecret)"

lemma secret_login_run:
  assumes laws: "sqlserver_laws R A store"
  shows "case secret_login (st_Secrets (store k) (ns, c)) of
      Inr up \<Rightarrow> getCredentialsFromSecret (kclient R) ns c k = (Inr up, k)
    | Inl reason \<Rightarrow> \<exists>e. getCredentialsFromSecret (kclient R) ns c k = (Inl e, k) \<and> read_reason e = reason"
    "case secret_sa (st_Secrets (store k) (ns, c)) of
      Inr up \<Rightarrow> getCredentialsFromSAPasswordSecret (kclient R) ns c k = (Inr up, k)
    | Inl reason \<Rightarrow> \<exists>e. getCredentialsFromSAPasswordSecret (kclient R) ns c k = (Inl e, k) \<and> read_reason e = reason"
proof -
  have "answers (st_Secrets (store k) (ns, c)) k (GetSecret (kclient R) ns c k)" by (rule sqlserver_lawsD(2) [OF laws])
  then have get: "case st_Secrets (store k) (ns, c) of
      Some x \<Rightarrow> GetSecret (kclient R) ns c k = (Inr x, k) | None \<Rightarrow> \<exists>e. GetSecret (kclient R) ns c k = (Inl e, k) \<and> IsNotFound e"
    by (cases "GetSecret (kclient R) ns c k") (auto simp: answers_def split: option.splits)
  show "case secret_login (st_Secrets (store k) (ns, c)) of
      Inr up \<Rightarrow> getCredentialsFromSecret (kclient R) ns c k = (Inr up, k)
    | Inl reason \<Rightarrow> \<exists>e. getCredentialsFromSecret (kclient R) ns c k = (Inl e, k) \<and> read_reason e = reason"
    using get by (auto simp: getCredentialsFromSecret_def attempt_def secret_login_def read_reason_def missing_key_def split: option.splits)
  show "case secret_sa (st_Secrets (store k) (ns, c)) of
      Inr up \<Rightarrow> getCredentialsFromSAPasswordSecret (kclient R) ns c k = (Inr up, k)
    | Inl reason \<Rightarrow> \<exists>e. getCredentialsFromSAPasswordSecret (kclient R) ns c k = (Inl e, k) \<and> read_reason e = reason"
    using get by (auto simp: getCredentialsFromSAPasswordSecret_def attempt_def secret_sa_def read_reason_def missing_key_def split: option.splits)
qed

lemma probe_credentials_run:
  assumes laws: "sqlserver_laws R A store"
  shows "case probe_credentials (kclient R) srv of
      None \<Rightarrow> server_login (store k) srv = Inl ReasonSecretNotFound
    | Some m \<Rightarrow> (case server_login (store k) srv of
        Inr up \<Rightarrow> m k = (Inr up, k) | Inl reason \<Rightarrow> \<exists>e. m k = (Inl e, k) \<and> read_reason e = reason)"
  using secret_login_run [OF laws, where k = k] by (auto simp: probe_credentials_def server_login_def split: option.split)

section \<open>The probe\<close>

definition server_port :: "SQLServer \<Rightarrow> int" where
  "server_port srv = (case srv_Port (Spec srv) of None \<Rightarrow> 1433 | Some p \<Rightarrow> p)"

text \<open>How the client factory is called for a server.\<close>

definition dial :: "(SQLServer, 'k, 'c) Reconciler \<Rightarrow> SQLServer \<Rightarrow> string \<Rightarrow> string \<times> string \<Rightarrow> 'c SQLClient res" where
  "dial R srv host up = SQLClientFactory R host (server_port srv) (fst up) (snd up) (srv_TLS (Spec srv) = Some True)"

definition text_of :: "string res \<Rightarrow> string" where
  "text_of r = (case r of Inl _ \<Rightarrow> [] | Inr x \<Rightarrow> x)"

lemma requeue_minute:
  assumes "rand_laws rnd"
  shows "\<exists>d. requeueWithJitter rnd minute = Some d \<and> 48 * second \<le> d \<and> d < 72 * second"
proof -
  have n: "go_div (wrap64 (minute * 2)) 5 = 24 * second"
    by (simp add: minute_def second_def wrap64_id go_div_pos)
  from assms have "0 \<le> rnd (24 * second)" "rnd (24 * second) < 24 * second"
    by (simp_all add: rand_laws_def second_def)
  then show ?thesis
    unfolding requeueWithJitter_def Let_def n by (simp add: minute_def second_def go_div_pos wrap64_id)
qed

lemma wp_or_empty:
  assumes "m s = (r, t)" shows "wp (or_empty m k) s Q E = wp (k (text_of r)) t Q E"
  using assms by (cases r) (simp_all add: or_empty_def wp_attempt succeeds_eq fails_eq text_of_def)

lemma wp_probe_connection:
  assumes laws: "sqlserver_laws R A store" and cur: "st_SQLServers (store (kube w)) (request_of base) = Some base"
    and srv: "srv = base\<lparr>Status := st0\<rparr>"
    and no_ping: "\<And>e c e'. Ping conn (sql w) = (Inl e, c) \<Longrightarrow> E e' (Warning ReasonConnectionFailed (Error e) (w\<lparr>sql := c\<rparr>))"
    and connected: "\<And>c1 rv c2 re c3 k' d status'. Ping conn (sql w) = (Inr (), c1) \<Longrightarrow> GetServerVersion conn c1 = (rv, c2) \<Longrightarrow>
      GetServerEdition conn c2 = (re, c3) \<Longrightarrow> server_reported base ConditionTrue ReasonReady status' (store (kube w)) (store k') \<Longrightarrow>
      srv_st_ServerVersion status' = text_of rv \<Longrightarrow> srv_st_Edition status' = text_of re \<Longrightarrow>
      srv_st_LastConnectedTime status' \<noteq> None \<Longrightarrow> srv_st_Host status' = srv_st_Host st0 \<Longrightarrow>
      48 * second \<le> d \<Longrightarrow> d < 72 * second \<Longrightarrow> Q (Result d) (w\<lparr>sql := c3, kube := k'\<rparr>)"
  shows "wp (probe_connection R A base srv host conn) w Q E"
proof (cases "Ping conn (sql w)")
  case (Pair r c1)
  show ?thesis
  proof (cases r)
    case (Inl e)
    with Pair show ?thesis
      by (simp add: probe_connection_def wp_attempt wp_on_sql fails_eq wp_effect wp_fail no_ping del: fail_apply)
  next
    case (Inr u)
    obtain rv c2 re c3 where sql: "GetServerVersion conn c1 = (rv, c2)" "GetServerEdition conn c2 = (re, c3)" by (metis surj_pair)
    have rest: "wp (attempt (on_kube (clock_now A)) fail (\<lambda>now.
        attempt (on_kube (PatchStatus (crs R) base (probed (kclient R) host (text_of rv) (text_of re) now srv))) fail (\<lambda>_.
        requeue_jitter (Int63n R) minute))) (w\<lparr>sql := c3\<rparr>) Q E"
      unfolding wp_attempt wp_on_kube wp_fail
    proof (rule wp_server_clock [OF laws])
      fix now k1
      assume k1: "store k1 = store (kube (w\<lparr>sql := c3\<rparr>))"
      let ?new = "probed (kclient R) host (text_of rv) (text_of re) now srv"
      have new: "?new = base\<lparr>Status := Status ?new\<rparr>" by (simp add: probed_def with_condition_def srv)
      obtain d where d: "requeueWithJitter (Int63n R) minute = Some d" "48 * second \<le> d" "d < 72 * second"
        using requeue_minute [OF sqlserver_lawsD(10) [OF laws]] by blast
      have ready: "ready_status ?new = Some (ConditionTrue, ReasonReady)"
        using sqlserver_lawsD(9) [OF laws] by (simp add: ready_status_def probed_def with_condition_def condition_laws_def ready_condition_def)
      show "wp (PatchStatus (crs R) base ?new) (kube (w\<lparr>sql := c3, kube := k1\<rparr>))
          (\<lambda>x k. wp (requeue_jitter (Int63n R) minute) (w\<lparr>sql := c3, kube := k1, kube := k\<rparr>) Q E)
          (\<lambda>e k. E e (w\<lparr>sql := c3, kube := k1, kube := k\<rparr>))"
      proof (rule wp_store_status [OF laws _ new])
        show "st_SQLServers (store (kube (w\<lparr>sql := c3, kube := k1\<rparr>))) (request_of base) = Some base" using cur k1 by simp
        fix k'
        assume k': "store k' = (store (kube (w\<lparr>sql := c3, kube := k1\<rparr>)))\<lparr>st_SQLServers :=
          (st_SQLServers (store (kube (w\<lparr>sql := c3, kube := k1\<rparr>))))(request_of base \<mapsto> ?new)\<rparr>"
        have "Q (Result d) (w\<lparr>sql := c3, kube := k'\<rparr>)"
        proof (rule connected [of c1 rv c2 re c3 "Status ?new" k' d])
          show "server_reported base ConditionTrue ReasonReady (Status ?new) (store (kube w)) (store k')"
            using k' k1 ready new by (simp add: server_reported_def probed_def with_condition_def srv)
        qed (use Pair Inr sql d in \<open>simp_all add: probed_def with_condition_def srv\<close>)
        then show "wp (requeue_jitter (Int63n R) minute) (w\<lparr>sql := c3, kube := k1, kube := k'\<rparr>) Q E"
          by (simp add: requeue_jitter_def d(1) wp_ret del: ret_apply)
      qed
    qed
    have run: "on_sql (GetServerVersion conn) (w\<lparr>sql := c1\<rparr>) = (rv, w\<lparr>sql := c2\<rparr>)"
      "on_sql (GetServerEdition conn) (w\<lparr>sql := c2\<rparr>) = (re, w\<lparr>sql := c3\<rparr>)"
      by (simp_all add: on_sql_def sql)
    show ?thesis
      using rest Pair Inr
      by (simp add: probe_connection_def wp_attempt [of "on_sql (Ping conn)"] wp_on_sql [of "Ping conn"] succeeds_eq
          wp_or_empty [where m = "on_sql (GetServerVersion conn)", OF run(1)] wp_or_empty [where m = "on_sql (GetServerEdition conn)", OF run(2)])
  qed
qed

text \<open>The whole probe, with the credentials read first and the connection closed on every path.\<close>

lemma wp_probeAndUpdateStatus:
  assumes laws: "sqlserver_laws R A store" and cur: "st_SQLServers (store (kube w)) (request_of base) = Some base"
    and srv: "srv = base\<lparr>Status := st0\<rparr>" "Conditions st0 = Conditions (Status base)" "ObservedGeneration st0 = ObservedGeneration (Status base)"
    and refused: "\<And>reason k' status'. server_login (store (kube w)) base = Inl reason \<Longrightarrow>
      server_reported base ConditionFalse reason status' (store (kube w)) (store k') \<Longrightarrow>
      status' = (Status base)\<lparr>Conditions := Conditions status', ObservedGeneration := cr_Generation base\<rparr> \<Longrightarrow> Q (Result 0) (w\<lparr>kube := k'\<rparr>)"
    and unreachable: "\<And>up e e'. server_login (store (kube w)) base = Inr up \<Longrightarrow> dial R base host up = Inl e \<Longrightarrow>
      E e' (Warning ReasonConnectionFailed (Error e) w)"
    and no_ping: "\<And>up conn e c e'. server_login (store (kube w)) base = Inr up \<Longrightarrow> dial R base host up = Inr conn \<Longrightarrow>
      Ping conn (sql w) = (Inl e, c) \<Longrightarrow> E e' (Warning ReasonConnectionFailed (Error e) (w\<lparr>sql := CloseClient conn c\<rparr>))"
    and connected: "\<And>up conn c1 rv c2 re c3 k' d status'. server_login (store (kube w)) base = Inr up \<Longrightarrow> dial R base host up = Inr conn \<Longrightarrow>
      Ping conn (sql w) = (Inr (), c1) \<Longrightarrow> GetServerVersion conn c1 = (rv, c2) \<Longrightarrow>
      GetServerEdition conn c2 = (re, c3) \<Longrightarrow> server_reported base ConditionTrue ReasonReady status' (store (kube w)) (store k') \<Longrightarrow>
      srv_st_ServerVersion status' = text_of rv \<Longrightarrow> srv_st_Edition status' = text_of re \<Longrightarrow>
      srv_st_LastConnectedTime status' \<noteq> None \<Longrightarrow> srv_st_Host status' = srv_st_Host st0 \<Longrightarrow>
      48 * second \<le> d \<Longrightarrow> d < 72 * second \<Longrightarrow> Q (Result d) (w\<lparr>sql := CloseClient conn c3, kube := k'\<rparr>)"
  shows "wp (probeAndUpdateStatus R A base srv host) w Q E"
proof -
  have login: "server_login s srv = server_login s base" "probe_credentials K srv = probe_credentials K base" for s K
    by (simp_all add: server_login_def probe_credentials_def srv(1) split: option.split)
  have spec: "Spec srv = Spec base" by (simp add: srv(1))
  have report: "wp (SQLServer_setConditionAndReturn R srv ConditionFalse reason msg) w Q E"
    if "server_login (store (kube w)) base = Inl reason" for reason msg
    by (rule wp_server_condition [OF laws cur srv]) (rule refused [OF that])
  note creds = probe_credentials_run [OF laws, where srv = base and k = "kube w"]
  show ?thesis
  proof (cases "probe_credentials (kclient R) base")
    case None
    with creds show ?thesis by (simp add: probeAndUpdateStatus_def login report)
  next
    case (Some m)
    show ?thesis
    proof (cases "server_login (store (kube w)) base")
      case (Inl reason)
      with creds Some obtain e where e: "m (kube w) = (Inl e, kube w)" "read_reason e = reason" by auto
      then have "on_kube m w = (Inl e, w)" by (simp add: on_kube_def)
      then have "wp (probeAndUpdateStatus R A base srv host) w Q E =
          wp (SQLServer_setConditionAndReturn R srv ConditionFalse (read_reason e) (Error e)) w Q E"
        by (simp add: probeAndUpdateStatus_def login Some wp_attempt fails_eq read_reason_def)
      with report Inl e(2) show ?thesis by simp
    next
      case (Inr up)
      with creds Some have "m (kube w) = (Inr up, kube w)" by simp
      then have ran: "on_kube m w = (Inr up, w)" by (simp add: on_kube_def)
      have body: "wp (probeAndUpdateStatus R A base srv host) w Q E =
          wp (case dial R base host up of
            Inl e \<Rightarrow> effect (Warning ReasonConnectionFailed (Error e)) (fail (Wrapf ''failed to connect to SQL Server: '' e))
          | Inr conn \<Rightarrow> deferred (\<lambda>w. w\<lparr>sql := CloseClient conn (sql w)\<rparr>) (probe_connection R A base srv host conn)) w Q E"
        by (cases up) (simp add: probeAndUpdateStatus_def login Some wp_attempt succeeds_eq [where m = "on_kube m", OF ran] dial_def server_port_def Let_def spec)
      show ?thesis
        unfolding body
      proof (cases "dial R base host up")
        case (Inl e)
        then show "wp (case dial R base host up of
            Inl e \<Rightarrow> effect (Warning ReasonConnectionFailed (Error e)) (fail (Wrapf ''failed to connect to SQL Server: '' e))
          | Inr conn \<Rightarrow> deferred (\<lambda>w. w\<lparr>sql := CloseClient conn (sql w)\<rparr>) (probe_connection R A base srv host conn)) w Q E"
          using unreachable [OF Inr] by (simp add: wp_effect wp_fail del: fail_apply)
      next
        case dialled: (Inr conn)
        have "wp (probe_connection R A base srv host conn) w (\<lambda>x t. Q x (t\<lparr>sql := CloseClient conn (sql t)\<rparr>))
            (\<lambda>e t. E e (t\<lparr>sql := CloseClient conn (sql t)\<rparr>))"
        proof (rule wp_probe_connection [OF laws cur srv(1)])
          fix e c e'
          assume "Ping conn (sql w) = (Inl e, c)"
          from no_ping [OF Inr dialled this] show "E e' ((Warning ReasonConnectionFailed (Error e) (w\<lparr>sql := c\<rparr>))
              \<lparr>sql := CloseClient conn (sql (Warning ReasonConnectionFailed (Error e) (w\<lparr>sql := c\<rparr>)))\<rparr>)"
            by (cases w) (simp add: record_event_def)
        next
          fix c1 rv c2 re c3 k' d status'
          assume step: "Ping conn (sql w) = (Inr (), c1)" "GetServerVersion conn c1 = (rv, c2)" "GetServerEdition conn c2 = (re, c3)"
            "server_reported base ConditionTrue ReasonReady status' (store (kube w)) (store k')"
            "srv_st_ServerVersion status' = text_of rv" "srv_st_Edition status' = text_of re"
            "srv_st_LastConnectedTime status' \<noteq> None" "srv_st_Host status' = srv_st_Host st0" "48 * second \<le> d" "d < 72 * second"
          from connected [OF Inr dialled step] show "Q (Result d) (w\<lparr>sql := c3, kube := k'\<rparr>
              \<lparr>sql := CloseClient conn (sql (w\<lparr>sql := c3, kube := k'\<rparr>))\<rparr>)" by (cases w) simp
        qed
        with dialled show "wp (case dial R base host up of
            Inl e \<Rightarrow> effect (Warning ReasonConnectionFailed (Error e)) (fail (Wrapf ''failed to connect to SQL Server: '' e))
          | Inr conn \<Rightarrow> deferred (\<lambda>w. w\<lparr>sql := CloseClient conn (sql w)\<rparr>) (probe_connection R A base srv host conn)) w Q E"
          by (simp add: wp_deferred)
      qed
    qed
  qed
qed

section \<open>External servers\<close>

text \<open>
  C37. A pass over an external SQLServer with SQL authentication, on every path. When its credentials cannot
  be read, the reason is stored and the pass ends; the server is not contacted, and the host that the pass
  put into the status is not stored with the condition. When the server cannot be reached or does not answer
  a ping, the pass fails with a warning event and the status is left as it was. Otherwise the object is
  Ready, its status names the host, the version and the edition that the server told (or nothing, where it
  did not tell), and the next pass is due in 48 to 72 seconds. The connection is closed whenever there is one.
\<close>

theorem SQLServer_external_reconcile:
  assumes laws: "sqlserver_laws R A store" and stored: "st_SQLServers (store (kube w)) (ns, n) = Some srv"
    and key: "request_of srv = (ns, n)" and external: "srv_Instance (Spec srv) = None"
    and auth: "srv_AuthMethod (Spec srv) = ''SqlLogin'' \<or> srv_AuthMethod (Spec srv) = []"
  shows "case server_login (store (kube w)) srv of
      Inl reason \<Rightarrow> succeeds (SQLServer_Reconcile R A X ns n) w (\<lambda>r w'. r = After (Result 0) \<and> sql w' = sql w \<and> events w' = events w \<and>
        (\<exists>status'. server_reported srv ConditionFalse reason status' (store (kube w)) (store (kube w')) \<and>
           status' = (Status srv)\<lparr>Conditions := Conditions status', ObservedGeneration := cr_Generation srv\<rparr>))
    | Inr up \<Rightarrow> (case dial R srv (srv_Host (Spec srv)) up of
        Inl e \<Rightarrow> wp (SQLServer_Reconcile R A X ns n) w (\<lambda>_ _. False) (\<lambda>_ w'. w' = Warning ReasonConnectionFailed (Error e) w)
      | Inr conn \<Rightarrow> (case Ping conn (sql w) of
          (Inl e, c) \<Rightarrow> wp (SQLServer_Reconcile R A X ns n) w (\<lambda>_ _. False)
            (\<lambda>_ w'. w' = Warning ReasonConnectionFailed (Error e) (w\<lparr>sql := CloseClient conn c\<rparr>))
        | (Inr _, c1) \<Rightarrow> (case GetServerVersion conn c1 of (version, c2) \<Rightarrow> case GetServerEdition conn c2 of (edition, c3) \<Rightarrow>
            succeeds (SQLServer_Reconcile R A X ns n) w (\<lambda>r w'. sql w' = CloseClient conn c3 \<and> events w' = events w \<and>
              (\<exists>d. r = After (Result d) \<and> 48 * second \<le> d \<and> d < 72 * second) \<and>
              (\<exists>status'. server_reported srv ConditionTrue ReasonReady status' (store (kube w)) (store (kube w')) \<and>
                 srv_st_Host status' = srv_Host (Spec srv) \<and> srv_st_ServerVersion status' = text_of version \<and>
                 srv_st_Edition status' = text_of edition \<and> srv_st_LastConnectedTime status' \<noteq> None)))))"
proof -
  let ?srv = "with_host (srv_Host (Spec srv)) srv"
  have srv: "?srv = srv\<lparr>Status := (Status srv)\<lparr>srv_st_Host := srv_Host (Spec srv)\<rparr>\<rparr>" by (simp add: with_host_def)
  have cur: "st_SQLServers (store (kube w)) (request_of srv) = Some srv" by (simp add: key stored)
  have run: "wp (SQLServer_Reconcile R A X ns n) w Q E =
      wp (probeAndUpdateStatus R A srv ?srv (srv_Host (Spec srv))) w (\<lambda>r. Q (After r)) E" for Q E
    using auth external
    by (auto simp: SQLServer_Reconcile_def wp_attempt wp_on_kube wp_get_server [OF laws stored] reply_after_def wp_ret wp_fail
        reconcileExternal_def Let_def AuthSqlLogin_def simp del: ret_apply fail_apply)
  show ?thesis
  proof (cases "server_login (store (kube w)) srv")
    case (Inl reason)
    then show ?thesis
      unfolding Inl sum.case run
      by (intro wp_probeAndUpdateStatus [OF laws cur srv]) (use Inl in auto)
  next
    case (Inr up)
    show ?thesis
    proof (cases "dial R srv (srv_Host (Spec srv)) up")
      case (Inl e)
      then show ?thesis
        unfolding Inr Inl sum.case run
        by (intro wp_probeAndUpdateStatus [OF laws cur srv]) (use Inr Inl in auto)
    next
      case dialled: (Inr conn)
      obtain r c1 where ping: "Ping conn (sql w) = (r, c1)" by force
      obtain version c2 where version: "GetServerVersion conn c1 = (version, c2)" by force
      obtain edition c3 where edition: "GetServerEdition conn c2 = (edition, c3)" by force
      show ?thesis
      proof (cases r)
        case (Inl e)
        show ?thesis
          unfolding Inr dialled ping Inl sum.case prod.case run
          by (rule wp_probeAndUpdateStatus [OF laws cur srv]) (use Inr dialled ping Inl in auto)
      next
        case (Inr u)
        show ?thesis
          unfolding \<open>server_login (store (kube w)) srv = Inr up\<close> dialled ping Inr version edition sum.case prod.case run
          by (rule wp_probeAndUpdateStatus [OF laws cur srv])
            (use \<open>server_login (store (kube w)) srv = Inr up\<close> dialled ping Inr version edition in auto)
      qed
    qed
  qed
qed

section \<open>Instances\<close>

lemma only_objectsD:
  assumes "only_objects s s'"
  shows "st_SQLServers s' = st_SQLServers s" "st_Secrets s' = st_Secrets s" "st_Groups s' = st_Groups s" "st_Pods s' = st_Pods s"
  using arg_cong [OF assms [unfolded only_objects_def], of st_SQLServers] arg_cong [OF assms [unfolded only_objects_def], of st_Secrets]
    arg_cong [OF assms [unfolded only_objects_def], of st_Groups] arg_cong [OF assms [unfolded only_objects_def], of st_Pods]
  by simp_all

text \<open>The first phase of an instance, and the stateful set whose readiness is asked for then.\<close>

lemma objects_phase:
  assumes laws: "sqlserver_laws R A store" and size: "desiredStatefulSet (ParseQuantity A) srv inst = Some d" and keyed: "keyed_store (store k)"
  obtains k1 s where "reconcile_objects A srv inst k = (Inr (), k1)" "objects_agree (ParseQuantity A) srv inst (store k1)"
    "only_objects (store k) (store k1)" "st_StatefulSets (store k1) (cr_Namespace srv, cr_Name srv) = Some s"
    "isStatefulSetReady A srv inst k1 = (Inr (replica_count inst \<le> sts_ReadyReplicas s, sts_ReadyReplicas s), k1)"
proof -
  have "succeeds (reconcile_objects A srv inst) k (\<lambda>_ k1. objects_agree (ParseQuantity A) srv inst (store k1) \<and> only_objects (store k) (store k1))"
    by (rule wp_reconcile_objects [OF sqlserver_lawsD(5) [OF laws] size keyed]) simp
  then obtain k1 where k1: "reconcile_objects A srv inst k = (Inr (), k1)" "objects_agree (ParseQuantity A) srv inst (store k1)"
    "only_objects (store k) (store k1)"
    by (auto elim: succeedsD)
  have "meta_key (sts_Meta d) = (cr_Namespace srv, cr_Name srv)"
    using size by (auto simp: desiredStatefulSet_def instance_meta_def meta_key_def)
  then obtain s where s: "st_StatefulSets (store k1) (cr_Namespace srv, cr_Name srv) = Some s"
    using k1(2) size by (auto simp: objects_agree_def agreeing_def)
  have "answers (st_StatefulSets (store k1) (cr_Namespace srv, cr_Name srv)) k1 (GetObj (StatefulSets A) (cr_Namespace srv) (cr_Name srv) k1)"
    using instance_lawsD(3) [OF sqlserver_lawsD(5) [OF laws]] by (simp add: object_laws_def)
  then have "GetObj (StatefulSets A) (cr_Namespace srv) (cr_Name srv) k1 = (Inr s, k1)"
    using s by (cases "GetObj (StatefulSets A) (cr_Namespace srv) (cr_Name srv) k1") (auto simp: answers_def)
  then have "isStatefulSetReady A srv inst k1 = (Inr (replica_count inst \<le> sts_ReadyReplicas s, sts_ReadyReplicas s), k1)"
    by (simp add: isStatefulSetReady_def attempt_def)
  with k1 s that show thesis by blast
qed

text \<open>A managed SQLServer that has its finalizer and is not being deleted goes through the phases.\<close>

lemma wp_managed:
  assumes laws: "sqlserver_laws R A store" and stored: "st_SQLServers (store (kube w)) (ns, n) = Some srv"
    and managed: "srv_Instance (Spec srv) = Some inst" and live: "ContainsFinalizer (kclient R) (cr_Finalizers srv) Finalizer" "\<not> cr_Deleting srv"
  shows "wp (SQLServer_Reconcile R A X ns n) w Q E = wp (instance_phases R A X inst srv) w (\<lambda>r. Q (After r)) E"
  using managed live
  by (auto simp: SQLServer_Reconcile_def wp_attempt wp_on_kube wp_get_server [OF laws stored] reply_after_def wp_ret wp_fail
      reconcileManaged_def simp del: ret_apply fail_apply)

text \<open>A phase that is not finished.\<close>

lemma wp_not_yet:
  assumes laws: "sqlserver_laws R A store" and cur: "st_SQLServers (store (kube w)) (request_of base) = Some base"
    and srv: "srv = base\<lparr>Status := st0\<rparr>"
    and post: "\<And>k' status'. server_reported base ConditionFalse reason status' (store (kube w)) (store k') \<Longrightarrow>
      srv_st_Host status' = srv_st_Host st0 \<Longrightarrow> srv_st_ReadyReplicas status' = srv_st_ReadyReplicas st0 \<Longrightarrow>
      srv_st_CertificatesReady status' = srv_st_CertificatesReady st0 \<Longrightarrow> Q (Result delay) (w\<lparr>kube := k'\<rparr>)"
  shows "wp (not_yet R base srv reason msg delay) w Q E"
proof -
  let ?new = "observed (with_condition (kclient R) ConditionFalse reason msg srv)"
  have new: "?new = base\<lparr>Status := Status ?new\<rparr>" by (simp add: observed_def with_condition_def srv)
  have ready: "ready_status ?new = Some (ConditionFalse, reason)"
    by (rule ready_status_with_condition [OF sqlserver_lawsD(9) [OF laws]])
  show ?thesis
    unfolding not_yet_def wp_attempt wp_on_kube wp_ret wp_fail
    by (rule wp_store_status [OF laws cur new], rule post [where status' = "Status ?new"])
      (use ready new in \<open>simp_all add: server_reported_def observed_def with_condition_def srv\<close>)
qed


section \<open>Examples\<close>

definition ex_server_store :: "SQLServer \<Rightarrow> SrvStore" where
  "ex_server_store srv = ex_empty_store\<lparr>st_SQLServers := [(''ns'', ''obj'') \<mapsto> srv],
     st_Secrets := [(''ns'', ''creds'') \<mapsto> \<lparr>Data = [''username'' \<mapsto> ''sa'', ''password'' \<mapsto> ''x'', ''MSSQL_SA_PASSWORD'' \<mapsto> ''y''],
        ResourceVersion = ''1''\<rparr>]\<rparr>"

definition ex_server_world :: "SQLServer \<Rightarrow> (SrvStore, MockClient) world" where
  "ex_server_world srv = \<lparr>kube = ex_server_store srv, sql = NewMockClient, events = []\<rparr>"

definition ex_external :: SQLServer where
  "ex_external = (ex_sqlserver None)\<lparr>Spec := (Spec (ex_sqlserver None))\<lparr>srv_Host := ''db.example'', srv_CredentialsSecret := Some (''creds'', None),
     srv_Instance := None\<rparr>\<rparr>"

abbreviation ex_srv_reconciler :: "(SQLServer, SrvStore, MockClient) Reconciler" where
  "ex_srv_reconciler \<equiv> memory_srv_reconciler (\<lambda>_ _ _ _ _. Inr mock_client)"

definition ex_crypto :: "(string, string, SrvStore) Crypto" where
  "ex_crypto = \<lparr>GenerateKey = (\<lambda>k. (Inr ''key'', k)), SignCert = (\<lambda>t p pub key k. (Inr (x_CommonName t @ pub @ key), k)),
     ParseCert = Inr, ParseKey = Inr, MarshalKey = Inr, PemEncode = (\<lambda>t der. der), PemDecode = Some\<rparr>"

theorem SQLServer_external_reconcile_witness:
  "succeeds (SQLServer_Reconcile ex_srv_reconciler memory_srv_env ex_crypto ''ns'' ''obj'') (ex_server_world ex_external) (\<lambda>r w'.
     \<exists>status'. server_reported ex_external ConditionTrue ReasonReady status' (ex_server_store ex_external) (kube w') \<and>
       srv_st_Host status' = ''db.example'' \<and> srv_st_ServerVersion status' = ''2022 (16.0.4135.4)'')"
proof -
  note eval = ex_server_world_def ex_server_store_def ex_external_def ex_sqlserver_def ex_cr_def
  have stored: "st_SQLServers (kube (ex_server_world ex_external)) (''ns'', ''obj'') = Some ex_external"
    and key: "request_of ex_external = (''ns'', ''obj'')" and external: "srv_Instance (Spec ex_external) = None"
    and auth: "srv_AuthMethod (Spec ex_external) = ''SqlLogin'' \<or> srv_AuthMethod (Spec ex_external) = []"
    and login: "server_login (kube (ex_server_world ex_external)) ex_external = Inr (''sa'', ''x'')"
    and host: "srv_Host (Spec ex_external) = ''db.example''"
    by (simp_all add: eval request_of_def server_login_def secret_login_def)
  have mock: "Ping mock_client NewMockClient = (Inr (), c1) \<Longrightarrow> GetServerVersion mock_client c1 = (v, c2) \<Longrightarrow> v = Inr ''2022 (16.0.4135.4)''"
    for c1 v c2
    by (auto simp: mock_client_def Mock_Ping_def Mock_GetServerVersion_def guarded_def connected_def track_def checkConnect_def
        checkMethodError_def NewMockClient_def Let_def)
  obtain c1 where ping: "Ping mock_client (sql (ex_server_world ex_external)) = (Inr (), c1)"
    by (simp add: ex_server_world_def mock_client_def Mock_Ping_def track_def checkConnect_def NewMockClient_def Let_def)
  obtain v c2 where version: "GetServerVersion mock_client c1 = (v, c2)" by force
  obtain ed c3 where edition: "GetServerEdition mock_client c2 = (ed, c3)" by force
  have v: "v = Inr ''2022 (16.0.4135.4)''" by (rule mock [OF _ version]) (use ping in \<open>simp add: ex_server_world_def\<close>)
  have dialled: "dial ex_srv_reconciler ex_external (srv_Host (Spec ex_external)) (''sa'', ''x'') = Inr mock_client" by (simp add: dial_def)
  have "kube (ex_server_world ex_external) = ex_server_store ex_external" by (simp add: ex_server_world_def)
  with SQLServer_external_reconcile [OF memory_sqlserver_laws, of "ex_server_world ex_external" "''ns''" "''obj''" ex_external "\<lambda>_ _ _ _ _. Inr mock_client" ex_crypto,
      OF stored key external auth]
  show ?thesis
    unfolding login dialled ping version edition sum.case prod.case by (auto elim!: wp_mono simp: host v text_of_def)
qed


end
