(* ===== verification/Managed_Cluster.thy ===== *)
theory Managed_Cluster
  imports Server_Probe
begin

text \<open>
  What the controller makes for a cluster besides its objects: the AvailabilityGroup, with the secret its
  controller connects with, and the certificates of the replicas.
\<close>

section \<open>The availability group\<close>

text \<open>The secret that the replicas of the group name.\<close>

definition group_secret :: "SQLServer \<Rightarrow> string" where
  "group_secret srv = (case srv_CredentialsSecret (Spec srv) of Some (name, _) \<Rightarrow> name | None \<Rightarrow> cr_Name srv @ ''-sa-credentials'')"

text \<open>The API server after a secret with this data was created, or as it was when there is none to create.\<close>

definition with_secret :: "string \<times> string \<Rightarrow> (string \<rightharpoonup> string) \<Rightarrow> SrvStore \<Rightarrow> SrvStore \<Rightarrow> bool" where
  "with_secret key data s s' \<longleftrightarrow> (\<exists>v. s' = s\<lparr>st_Secrets := (st_Secrets s)(key \<mapsto> \<lparr>Data = data, ResourceVersion = v\<rparr>)\<rparr>)"

lemma owner_set:
  assumes "sqlserver_laws R A store"
  shows "SetControllerReference A srv (instance_meta srv n) = Inr (instance_meta srv n\<lparr>m_Owner := Some (cr_Name srv)\<rparr>)"
  using instance_lawsD(6) [OF sqlserver_lawsD(5) [OF assms]] by (simp add: owner_laws_def instance_meta_def)

lemma wp_CreateSecret:
  assumes "sqlserver_laws R A store" "st_Secrets (store k) (meta_key m) = None"
    "\<And>k'. with_secret (meta_key m) data (store k) (store k') \<Longrightarrow> Q () k'"
  shows "wp (CreateSecret A m data) k Q E"
proof -
  have "succeeds (CreateSecret A m data) k (\<lambda>_ k'. with_secret (meta_key m) data (store k) (store k'))"
    using sqlserver_lawsD(6) [OF assms(1)] assms(2) unfolding secret_laws_def with_secret_def by blast
  then show ?thesis by (rule wp_mono) (auto intro: assms(3))
qed

lemma wp_ensureSACredentialsSecret:
  assumes laws: "sqlserver_laws R A store" and none: "st_Secrets (store k) (cr_Namespace srv, name) = None"
    and sa: "secret_sa (st_Secrets (store k) (cr_Namespace srv, inst_SAPasswordSecret inst)) = Inr (u, p)"
    and post: "\<And>k'. with_secret (cr_Namespace srv, name) [''username'' \<mapsto> ''sa'', ''password'' \<mapsto> p] (store k) (store k') \<Longrightarrow> Q () k'"
  shows "wp (ensureSACredentialsSecret (kclient R) A srv inst name) k Q E"
proof -
  have "answers (st_Secrets (store k) (cr_Namespace srv, name)) k (GetSecret (kclient R) (cr_Namespace srv) name k)"
    by (rule sqlserver_lawsD(2) [OF laws])
  then obtain e where e: "GetSecret (kclient R) (cr_Namespace srv) name k = (Inl e, k)" "IsNotFound e"
    using none by (cases "GetSecret (kclient R) (cr_Namespace srv) name k") (auto simp: answers_def)
  have read: "getCredentialsFromSAPasswordSecret (kclient R) (cr_Namespace srv) (inst_SAPasswordSecret inst) k = (Inr (u, p), k)"
    using secret_login_run(2) [OF laws, where k = k and ns = "cr_Namespace srv" and c = "inst_SAPasswordSecret inst"] sa by simp
  have owner: "SetControllerReference A srv (instance_meta srv name) = Inr (instance_meta srv name\<lparr>m_Owner := Some (cr_Name srv)\<rparr>)"
    by (rule owner_set [OF laws])
  have key: "meta_key (instance_meta srv name\<lparr>m_Owner := Some (cr_Name srv)\<rparr>) = (cr_Namespace srv, name)"
    by (simp add: meta_key_def instance_meta_def)
  have "wp (CreateSecret A (instance_meta srv name\<lparr>m_Owner := Some (cr_Name srv)\<rparr>) [''username'' \<mapsto> ''sa'', ''password'' \<mapsto> p]) k Q E'" for E'
    by (rule wp_CreateSecret [OF laws]) (use none post key in simp_all)
  then show ?thesis
    by (simp add: ensureSACredentialsSecret_def wp_attempt wp_or_fail fails_eq [where m = "GetSecret (kclient R) (cr_Namespace srv) name", OF e(1)] e(2)
        succeeds_eq [where m = "getCredentialsFromSAPasswordSecret (kclient R) (cr_Namespace srv) (inst_SAPasswordSecret inst)", OF read] owner)
qed

text \<open>The group that is made is one the webhook of AvailabilityGroups would accept.\<close>

lemma managed_group_valid:
  assumes size: "is_int32 (replica_count inst)" "1 < replica_count inst" and name: "mag_AGName ag \<noteq> Some []" and creds: "creds \<noteq> []"
  shows "validateAG (managed_group srv inst ag creds) = Inr ()"
proof -
  let ?g = "managed_group srv inst ag creds"
  define mode where "mode = (if mag_AvailabilityMode ag = Some ''AsynchronousCommit'' then AvailabilityModeAsynchronous else AvailabilityModeSynchronous)"
  have reps: "ag_Replicas (Spec ?g) = List.map (managed_replica srv mode creds) [0..replica_count inst - 1]"
    using size(1) by (simp add: managed_group_def Let_def mode_def)
  have "2 \<le> length (ag_Replicas (Spec ?g))" unfolding reps using size(2) by simp
  moreover have "\<forall>p \<in> set (ag_Replicas (Spec ?g)). replica_ok p"
    unfolding reps using creds
    by (auto simp: managed_replica_def replica_ok_def server_stated_def pod_name_def replicaHost_def FailoverModeManual_def)
  moreover have "distinct (List.map rep_ServerName (ag_Replicas (Spec ?g)))"
    unfolding reps by (auto simp: distinct_map inj_on_def managed_replica_def pod_name_inject)
  moreover have "ag_AGName (Spec ?g) \<noteq> []" using name by (auto simp: managed_group_def Let_def split: option.split)
  ultimately show ?thesis unfolding validateAG_valid group_valid_def by (simp add: managed_group_def Let_def)
qed

definition credentials_at_hand :: "SQLServer \<Rightarrow> InstanceSpec \<Rightarrow> string \<Rightarrow> SrvStore \<Rightarrow> bool" where
  "credentials_at_hand srv inst p s \<longleftrightarrow> (case srv_CredentialsSecret (Spec srv) of
     Some (name, _) \<Rightarrow> name \<noteq> []
   | None \<Rightarrow> inst_SAPasswordSecret inst \<noteq> [] \<and> st_Secrets s (cr_Namespace srv, group_secret srv) = None \<and>
       secret_sa (st_Secrets s (cr_Namespace srv, inst_SAPasswordSecret inst)) = Inr (''sa'', p))"

lemma wp_group_credentials:
  assumes laws: "sqlserver_laws R A store" and creds: "credentials_at_hand srv inst p (store k)"
    and own: "srv_CredentialsSecret (Spec srv) \<noteq> None \<Longrightarrow> Q (group_secret srv) k"
    and made: "\<And>k'. srv_CredentialsSecret (Spec srv) = None \<Longrightarrow>
      with_secret (cr_Namespace srv, group_secret srv) [''username'' \<mapsto> ''sa'', ''password'' \<mapsto> p] (store k) (store k') \<Longrightarrow> Q (group_secret srv) k'"
  shows "wp (group_credentials (kclient R) A srv inst) k Q E"
proof (cases "srv_CredentialsSecret (Spec srv)")
  case None
  then have secret: "group_secret srv = cr_Name srv @ ''-sa-credentials''" and there: "inst_SAPasswordSecret inst \<noteq> []"
    and none: "st_Secrets (store k) (cr_Namespace srv, cr_Name srv @ ''-sa-credentials'') = None"
    and sa: "secret_sa (st_Secrets (store k) (cr_Namespace srv, inst_SAPasswordSecret inst)) = Inr (''sa'', p)"
    using creds by (simp_all add: credentials_at_hand_def group_secret_def)
  show ?thesis
    unfolding group_credentials_def None option.case if_P [OF there] wp_or_fail wp_ret secret [symmetric]
    by (rule wp_ensureSACredentialsSecret [OF laws none [folded secret] sa]) (rule made [OF None])
next
  case (Some c)
  with own show ?thesis by (cases c) (simp add: group_credentials_def wp_ret group_secret_def del: ret_apply)
qed

lemma object_laws_create:
  assumes "object_laws C meta agrees store get upd" "get (store k) (meta_key (meta obj)) = None"
  shows "succeeds (CreateObj C obj) k (\<lambda>_ k'.
    \<exists>obj'. stored_as meta agrees obj obj' \<and> store k' = upd (\<lambda>m. m(meta_key (meta obj) \<mapsto> obj')) (store k))"
  using assms(1) [unfolded object_laws_def, THEN conjunct2, THEN conjunct2, THEN conjunct1, rule_format, OF assms(2)] .

lemma wp_create_managed_group:
  assumes laws: "sqlserver_laws R A store" and none: "st_Groups (store k) (cr_Namespace srv, cr_Name srv @ ''-ag'') = None"
    and post: "\<And>k'. store k' = (store k)\<lparr>st_Groups := (st_Groups (store k))((cr_Namespace srv, cr_Name srv @ ''-ag'') \<mapsto> managed_group srv inst ag c)\<rparr> \<Longrightarrow> Q () k'"
  shows "wp (CreateObj (Groups A) (managed_group srv inst ag c)) k Q E"
proof -
  let ?g = "managed_group srv inst ag c" and ?key = "(cr_Namespace srv, cr_Name srv @ ''-ag'')"
  have key: "meta_key (group_meta ?g) = ?key" by (simp add: meta_key_def group_meta_def managed_group_def Let_def)
  have "succeeds (CreateObj (Groups A) ?g) k (\<lambda>_ k'. \<exists>g'. stored_as group_meta (=) ?g g' \<and>
      store k' = st_Groups_update (\<lambda>m. m(meta_key (group_meta ?g) \<mapsto> g')) (store k))"
    by (rule object_laws_create [OF instance_lawsD(4) [OF sqlserver_lawsD(5) [OF laws]]]) (simp only: key none)
  then show ?thesis by (rule wp_mono) (auto simp: stored_as_def key intro!: post)
qed


section \<open>The certificates of the replicas\<close>

text \<open>
  What is relied on of the cryptographic libraries: with enough entropy keys are made and certificates
  signed, without touching the API server; what was written in PEM and DER is read back.
\<close>

definition crypto_laws :: "('key, 'crt, 'k) Crypto \<Rightarrow> ('k \<Rightarrow> SrvStore) \<Rightarrow> bool" where
  "crypto_laws X store \<longleftrightarrow>
     (\<forall>k. succeeds (GenerateKey X) k (\<lambda>_ k'. store k' = store k)) \<and>
     (\<forall>k t p pub key. succeeds (SignCert X t p pub key) k (\<lambda>der k'. store k' = store k \<and> (\<exists>crt. ParseCert X der = Inr crt))) \<and>
     (\<forall>key. \<exists>der. MarshalKey X key = Inr der \<and> ParseKey X der = Inr key) \<and>
     (\<forall>t der. PemDecode X (PemEncode X t der) = Some der)"

text \<open>A certificate that the authority signed for the replica.\<close>

definition issued_for :: "('key, 'crt, 'k) Crypto \<Rightarrow> SQLServer \<Rightarrow> int \<Rightarrow> 'key \<Rightarrow> 'crt \<Rightarrow> string \<Rightarrow> bool" where
  "issued_for X srv i caKey caCert der \<longleftrightarrow>
     (\<exists>notBefore notAfter pub k. fst (SignCert X (replica_template srv i notBefore notAfter) (Some caCert) pub caKey k) = Inr der)"

lemma wp_GenerateKey:
  assumes "crypto_laws X store" "\<And>key k'. store k' = store k \<Longrightarrow> Q key k'"
  shows "wp (GenerateKey X) k Q E"
proof -
  have "succeeds (GenerateKey X) k (\<lambda>_ k'. store k' = store k)" using assms(1) by (simp add: crypto_laws_def)
  then show ?thesis by (rule wp_mono) (auto intro: assms(2))
qed

lemma wp_SignCert:
  assumes "crypto_laws X store"
    "\<And>der k' crt. store k' = store k \<Longrightarrow> ParseCert X der = Inr crt \<Longrightarrow> fst (SignCert X t p pub key k) = Inr der \<Longrightarrow> Q der k'"
  shows "wp (SignCert X t p pub key) k Q E"
proof -
  have "succeeds (SignCert X t p pub key) k (\<lambda>der k'. store k' = store k \<and> (\<exists>crt. ParseCert X der = Inr crt))"
    using assms(1) by (simp add: crypto_laws_def)
  then obtain der k' where "SignCert X t p pub key k = (Inr der, k')" "store k' = store k" "\<exists>crt. ParseCert X der = Inr crt"
    by (auto elim: succeedsD)
  then show ?thesis using assms(2) by (auto simp: wp_def)
qed

lemma wp_with_validity:
  assumes "sqlserver_laws R A store" "\<And>t1 t2 k'. store k' = store k \<Longrightarrow> wp (f t1 t2) k' Q E"
  shows "wp (with_validity A d f) k Q E"
  unfolding with_validity_def wp_attempt
  by (rule wp_server_clock [OF assms(1)], rule wp_server_clock [OF assms(1)]) (simp add: assms(2))

lemma wp_create_owned_secret:
  assumes laws: "sqlserver_laws R A store" and none: "st_Secrets (store k) (cr_Namespace srv, name) = None"
    and post: "\<And>k'. with_secret (cr_Namespace srv, name) data (store k) (store k') \<Longrightarrow> Q () k'"
  shows "wp (create_owned_secret A srv name data wrap) k Q E"
proof -
  have key: "meta_key (instance_meta srv name\<lparr>m_Owner := Some (cr_Name srv)\<rparr>) = (cr_Namespace srv, name)"
    by (simp add: meta_key_def instance_meta_def)
  show ?thesis
    unfolding create_owned_secret_def owner_set [OF laws] sum.case wp_attempt wp_ret
    by (rule wp_CreateSecret [OF laws]) (use none post key in simp_all)
qed

lemma wp_issue_cert:
  assumes laws: "sqlserver_laws R A store" and crypto: "crypto_laws X store"
    and none: "st_Secrets (store k) (cr_Namespace srv, cert_secret srv i) = None"
    and post: "\<And>k' data der. with_secret (cr_Namespace srv, cert_secret srv i) data (store k) (store k') \<Longrightarrow>
      data certCertKey = Some (PemEncode X ''CERTIFICATE'' der) \<Longrightarrow> issued_for X srv i caKey caCert der \<Longrightarrow> Q () k'"
  shows "wp (issue_cert A X srv caKey caCert i) k Q E"
  unfolding issue_cert_def wp_or_fail
proof (rule wp_GenerateKey [OF crypto], rule wp_with_validity [OF laws], unfold wp_or_fail, rule wp_SignCert [OF crypto])
  fix replicaKey k1 t1 t2 k2 certDER k3
  assume k: "store k1 = store k" "store k2 = store k1" "store k3 = store k2"
    and signed: "fst (SignCert X (replica_template srv i t1 t2) (Some caCert) replicaKey caKey k2) = Inr certDER"
  obtain keyDER where keyDER: "MarshalKey X replicaKey = Inr keyDER" using crypto unfolding crypto_laws_def by blast
  show "wp (checked (numbered ''failed to marshal replica '' i '' key'') (MarshalKey X replicaKey) (\<lambda>keyDER.
     create_owned_secret A srv (cert_secret srv i)
       [certCertKey \<mapsto> PemEncode X ''CERTIFICATE'' certDER, certKeyKey \<mapsto> PemEncode X ''EC PRIVATE KEY'' keyDER,
        certPasswordKey \<mapsto> numbered ''CertP@ss'' i ''!'']
       (Wrapf (numbered ''failed to create cert secret for replica '' i '': '')))) k3 Q E"
    unfolding checked_def keyDER sum.case
  proof (rule wp_create_owned_secret [OF laws])
    show "st_Secrets (store k3) (cr_Namespace srv, cert_secret srv i) = None" using none k by simp
    fix k'
    assume "with_secret (cr_Namespace srv, cert_secret srv i)
      [certCertKey \<mapsto> PemEncode X ''CERTIFICATE'' certDER, certKeyKey \<mapsto> PemEncode X ''EC PRIVATE KEY'' keyDER,
       certPasswordKey \<mapsto> numbered ''CertP@ss'' i ''!''] (store k3) (store k')"
    then show "Q () k'"
      using k by (intro post, simp) (use signed in \<open>auto simp: certCertKey_def certKeyKey_def certPasswordKey_def issued_for_def\<close>)
  qed
qed

text \<open>The secrets after certificates for some replicas have been made, and none has been touched.\<close>

definition certs_added ::
  "('key, 'crt, 'k) Crypto \<Rightarrow> SQLServer \<Rightarrow> 'key \<Rightarrow> 'crt \<Rightarrow> int set \<Rightarrow> SrvStore \<Rightarrow> SrvStore \<Rightarrow> bool" where
  "certs_added X srv caKey caCert is s s' \<longleftrightarrow> (\<exists>secrets. s' = s\<lparr>st_Secrets := secrets\<rparr> \<and>
     (\<forall>key. key \<notin> (\<lambda>i. (cr_Namespace srv, cert_secret srv i)) ` is \<or> st_Secrets s key \<noteq> None \<longrightarrow> secrets key = st_Secrets s key) \<and>
     (\<forall>i \<in> is. st_Secrets s (cr_Namespace srv, cert_secret srv i) = None \<longrightarrow>
        (\<exists>v der. secrets (cr_Namespace srv, cert_secret srv i) = Some v \<and> Data v certCertKey = Some (PemEncode X ''CERTIFICATE'' der) \<and>
           issued_for X srv i caKey caCert der)))"

lemma certs_added_none: "certs_added X srv caKey caCert {} s s"
  by (auto simp: certs_added_def intro!: exI [of _ "st_Secrets s"])

lemma cert_secret_inject: "0 \<le> i \<Longrightarrow> 0 \<le> j \<Longrightarrow> cert_secret srv i = cert_secret srv j \<longleftrightarrow> i = j"
  by (simp add: cert_secret_def show_int_inject)

lemma ensure_cert_there:
  assumes "sqlserver_laws R A store" "st_Secrets (store k) (cr_Namespace srv, cert_secret srv i) = Some v"
  shows "ensure_cert (kclient R) A X srv caKey caCert i k = (Inr (), k)"
proof -
  have "GetSecret (kclient R) (cr_Namespace srv) (cert_secret srv i) k = (Inr v, k)"
    using sqlserver_lawsD(2) [OF assms(1), of k "cr_Namespace srv" "cert_secret srv i"] assms(2)
    by (cases "GetSecret (kclient R) (cr_Namespace srv) (cert_secret srv i) k") (auto simp: answers_def)
  then show ?thesis by (simp add: ensure_cert_def attempt_def)
qed

lemma wp_ensure_cert:
  assumes laws: "sqlserver_laws R A store" and crypto: "crypto_laws X store" and i: "0 \<le> i" "\<forall>j \<in> is. 0 \<le> j" "i \<notin> is"
    and before: "certs_added X srv caKey caCert is s (store k)"
    and post: "\<And>k'. certs_added X srv caKey caCert (insert i is) s (store k') \<Longrightarrow> Q () k'"
  shows "wp (ensure_cert (kclient R) A X srv caKey caCert i) k Q E"
proof -
  let ?key = "(cr_Namespace srv, cert_secret srv i)"
  obtain secrets where secrets: "store k = s\<lparr>st_Secrets := secrets\<rparr>"
    "\<And>key. key \<notin> (\<lambda>i. (cr_Namespace srv, cert_secret srv i)) ` is \<or> st_Secrets s key \<noteq> None \<Longrightarrow> secrets key = st_Secrets s key"
    "\<And>i. i \<in> is \<Longrightarrow> st_Secrets s (cr_Namespace srv, cert_secret srv i) = None \<Longrightarrow>
        \<exists>v der. secrets (cr_Namespace srv, cert_secret srv i) = Some v \<and> Data v certCertKey = Some (PemEncode X ''CERTIFICATE'' der) \<and>
           issued_for X srv i caKey caCert der"
    using before unfolding certs_added_def by blast
  have fresh: "?key \<notin> (\<lambda>i. (cr_Namespace srv, cert_secret srv i)) ` is" using i by (auto simp: cert_secret_inject)
  then have same: "st_Secrets (store k) ?key = st_Secrets s ?key" using secrets(1,2) by simp
  show ?thesis
  proof (cases "st_Secrets s ?key")
    case (Some v)
    have "certs_added X srv caKey caCert (insert i is) s (store k)"
      using secrets Some unfolding certs_added_def by (intro exI [of _ secrets]) auto
    then show ?thesis
      using post Some same by (simp add: succeeds_eq [where m = "ensure_cert (kclient R) A X srv caKey caCert i", OF ensure_cert_there [OF laws]])
  next
    case None
    have "answers (st_Secrets (store k) ?key) k (GetSecret (kclient R) (cr_Namespace srv) (cert_secret srv i) k)"
      by (rule sqlserver_lawsD(2) [OF laws])
    then obtain e where e: "GetSecret (kclient R) (cr_Namespace srv) (cert_secret srv i) k = (Inl e, k)" "IsNotFound e"
      using None same by (cases "GetSecret (kclient R) (cr_Namespace srv) (cert_secret srv i) k") (auto simp: answers_def)
    have "wp (issue_cert A X srv caKey caCert i) k Q E"
    proof (rule wp_issue_cert [OF laws crypto])
      show "st_Secrets (store k) ?key = None" using None same by simp
      fix k' data der
      assume k': "with_secret ?key data (store k) (store k')" "data certCertKey = Some (PemEncode X ''CERTIFICATE'' der)"
        "issued_for X srv i caKey caCert der"
      then obtain v where v: "store k' = (store k)\<lparr>st_Secrets := (st_Secrets (store k))(?key \<mapsto> \<lparr>Data = data, ResourceVersion = v\<rparr>)\<rparr>"
        by (auto simp: with_secret_def)
      let ?new = "secrets(?key \<mapsto> \<lparr>Data = data, ResourceVersion = v\<rparr>)"
      have other: "(cr_Namespace srv, cert_secret srv j) \<noteq> ?key" if "j \<in> is" for j using i that by (auto simp: cert_secret_inject)
      have "certs_added X srv caKey caCert (insert i is) s (store k')"
        unfolding certs_added_def
      proof (intro exI [of _ ?new] conjI allI ballI impI)
        show "store k' = s\<lparr>st_Secrets := ?new\<rparr>" by (simp add: v secrets(1))
        fix key
        assume "key \<notin> (\<lambda>i. (cr_Namespace srv, cert_secret srv i)) ` insert i is \<or> st_Secrets s key \<noteq> None"
        then show "?new key = st_Secrets s key" using None secrets(2) [of key] by (cases "key = ?key") auto
      next
        fix j assume "j \<in> insert i is" "st_Secrets s (cr_Namespace srv, cert_secret srv j) = None"
        then show "\<exists>v der. ?new (cr_Namespace srv, cert_secret srv j) = Some v \<and> Data v certCertKey = Some (PemEncode X ''CERTIFICATE'' der) \<and>
            issued_for X srv j caKey caCert der"
          using k'(2,3) secrets(3) other by (cases "j = i") auto
      qed
      then show "Q () k'" by (rule post)
    qed
    then show ?thesis
      by (simp add: ensure_cert_def wp_attempt fails_eq [where m = "GetSecret (kclient R) (cr_Namespace srv) (cert_secret srv i)", OF e(1)] e(2))
  qed
qed

lemma wp_ensure_certs:
  assumes laws: "sqlserver_laws R A store" and crypto: "crypto_laws X store" and post: "\<And>k'. certs_added X srv caKey caCert {0..<n} (store k) (store k') \<Longrightarrow> Q () k'"
  shows "wp (for_each (ensure_cert (kclient R) A X srv caKey caCert) [0..n - 1]) k Q E"
proof (rule wp_for_each_prefix [where I = "\<lambda>ys k'. certs_added X srv caKey caCert (set ys) (store k) (store k')"])
  fix ys x zs k'
  assume split: "[0..n - 1] = ys @ x # zs" and ys: "certs_added X srv caKey caCert (set ys) (store k) (store k')"
  have "distinct (ys @ x # zs)" "\<forall>j \<in> set (ys @ x # zs). 0 \<le> j"
    using distinct_upto [of 0 "n - 1"] unfolding split [symmetric] by auto
  then show "wp (ensure_cert (kclient R) A X srv caKey caCert x) k' (\<lambda>_ k'. certs_added X srv caKey caCert (set (ys @ [x])) (store k) (store k')) E"
    by (intro wp_ensure_cert [OF laws crypto _ _ _ ys]) auto
qed (use post in \<open>simp_all add: certs_added_none atLeastLessThan_def atLeastAtMost_def greaterThanLessThan_def lessThan_def atMost_def atLeast_def\<close>)

lemma ensure_certs_there:
  assumes "sqlserver_laws R A store" "\<And>i. i \<in> set is \<Longrightarrow> st_Secrets (store k) (cr_Namespace srv, cert_secret srv i) \<noteq> None"
  shows "for_each (ensure_cert (kclient R) A X srv caKey caCert) is k = (Inr (), k)"
  using assms(2)
proof (induction "is")
  case (Cons i "is")
  then obtain v where "st_Secrets (store k) (cr_Namespace srv, cert_secret srv i) = Some v" by auto
  from ensure_cert_there [OF assms(1) this, of X caKey caCert] Cons show ?case by (simp add: andthen_def attempt_def)
qed simp

text \<open>The authority: read from its secret, or made and stored so that it can be read.\<close>

definition ca_secret :: "SQLServer \<Rightarrow> string \<times> string" where
  "ca_secret srv = (cr_Namespace srv, cr_Name srv @ ''-ca'')"

lemma parse_ca_any:
  assumes "parse_ca X s k = (Inr x, k)" shows "parse_ca X s k' = (Inr x, k')"
  using assms by (auto simp: parse_ca_def checked_def split: option.splits sum.splits)

lemma wp_ensureCASecret:
  assumes laws: "sqlserver_laws R A store" and crypto: "crypto_laws X store"
    and ca: "\<And>s. st_Secrets (store k) (ca_secret srv) = Some s \<Longrightarrow> \<exists>x. parse_ca X s k = (Inr x, k)"
    and post: "\<And>x s k' secrets. st_Secrets (store k') (ca_secret srv) = Some s \<Longrightarrow> (\<And>k. parse_ca X s k = (Inr x, k)) \<Longrightarrow>
      store k' = (store k)\<lparr>st_Secrets := secrets\<rparr> \<Longrightarrow>
      (\<And>key. key \<noteq> ca_secret srv \<or> st_Secrets (store k) key \<noteq> None \<Longrightarrow> secrets key = st_Secrets (store k) key) \<Longrightarrow> Q x k'"
  shows "wp (ensureCASecret (kclient R) A X srv (cr_Name srv @ ''-ca'')) k Q E"
proof -
  let ?get = "GetSecret (kclient R) (cr_Namespace srv) (cr_Name srv @ ''-ca'')"
  have get: "answers (st_Secrets (store k) (ca_secret srv)) k (?get k)"
    unfolding ca_secret_def by (rule sqlserver_lawsD(2) [OF laws])
  show ?thesis
  proof (cases "st_Secrets (store k) (ca_secret srv)")
    case (Some s)
    then obtain x where x: "parse_ca X s k = (Inr x, k)" using ca by blast
    have "?get k = (Inr s, k)" using get Some by (cases "?get k") (auto simp: answers_def)
    moreover have "Q x k" by (rule post [OF Some parse_ca_any [OF x], of "st_Secrets (store k)"]) simp_all
    ultimately show ?thesis
      by (simp add: ensureCASecret_def wp_attempt succeeds_eq [where m = ?get] succeeds_eq [where m = "parse_ca X s", OF x])
  next
    case None
    then obtain e where e: "?get k = (Inl e, k)" "IsNotFound e" using get by (cases "?get k") (auto simp: answers_def)
    have "wp (create_ca A X srv (cr_Name srv @ ''-ca'')) k Q E"
      unfolding create_ca_def wp_or_fail
    proof (rule wp_GenerateKey [OF crypto], rule wp_with_validity [OF laws], unfold wp_or_fail, rule wp_SignCert [OF crypto])
      fix caKey k1 t1 t2 k2 der k3 crt
      assume k: "store k1 = store k" "store k2 = store k1" "store k3 = store k2" and crt: "ParseCert X der = Inr crt"
      obtain keyDER where keyDER: "MarshalKey X caKey = Inr keyDER" "ParseKey X keyDER = Inr caKey"
        using crypto unfolding crypto_laws_def by blast
      have pem: "PemDecode X (PemEncode X t der) = Some der" for t der using crypto by (simp add: crypto_laws_def)
      let ?data = "[certCertKey \<mapsto> PemEncode X ''CERTIFICATE'' der, certKeyKey \<mapsto> PemEncode X ''EC PRIVATE KEY'' keyDER]"
      show "wp (checked ''failed to parse CA certificate'' (ParseCert X der) (\<lambda>caCert.
          checked ''failed to marshal CA key'' (MarshalKey X caKey) (\<lambda>keyDER.
          andthen (create_owned_secret A srv (cr_Name srv @ ''-ca'')
              [certCertKey \<mapsto> PemEncode X ''CERTIFICATE'' der, certKeyKey \<mapsto> PemEncode X ''EC PRIVATE KEY'' keyDER]
              (Wrapf ''failed to create CA secret: '')) (ret (caKey, caCert))))) k3 Q E"
        unfolding checked_def crt keyDER(1) sum.case wp_andthen wp_ret
      proof (rule wp_create_owned_secret [OF laws])
        show "st_Secrets (store k3) (cr_Namespace srv, cr_Name srv @ ''-ca'') = None" using None k by (simp add: ca_secret_def)
        fix k'
        assume "with_secret (cr_Namespace srv, cr_Name srv @ ''-ca'') ?data (store k3) (store k')"
        then obtain v where v: "store k' = (store k)\<lparr>st_Secrets := (st_Secrets (store k))(ca_secret srv \<mapsto> \<lparr>Data = ?data, ResourceVersion = v\<rparr>)\<rparr>"
          using k by (auto simp: with_secret_def ca_secret_def)
        show "Q (caKey, crt) k'"
        proof (rule post [of k' "\<lparr>Data = ?data, ResourceVersion = v\<rparr>"])
          show "store k' = (store k)\<lparr>st_Secrets := (st_Secrets (store k))(ca_secret srv \<mapsto> \<lparr>Data = ?data, ResourceVersion = v\<rparr>)\<rparr>" by (rule v)
          show "parse_ca X \<lparr>Data = ?data, ResourceVersion = v\<rparr> k = (Inr (caKey, crt), k)" for k
            by (simp add: parse_ca_def data_of_def lookup_def certCertKey_def certKeyKey_def pem keyDER crt checked_def)
        qed (use v None in auto)
      qed
    qed
    with e show ?thesis by (simp add: ensureCASecret_def wp_attempt fails_eq [where m = ?get])
  qed
qed

text \<open>A pass over secrets that are all there.\<close>

lemma certificates_there:
  assumes laws: "sqlserver_laws R A store" and mode: "cert_mode inst = ''SelfSigned''"
    and size: "is_int32 (replica_count inst)" "1 < replica_count inst"
    and ca: "st_Secrets (store k) (ca_secret srv) = Some s" "parse_ca X s k = (Inr x, k)"
    and certs: "\<And>i. 0 \<le> i \<Longrightarrow> i < replica_count inst \<Longrightarrow> st_Secrets (store k) (cr_Namespace srv, cert_secret srv i) \<noteq> None"
  shows "reconcileCertificates (kclient R) A X srv inst k = (Inr True, k)"
proof -
  have "GetSecret (kclient R) (cr_Namespace srv) (cr_Name srv @ ''-ca'') k = (Inr s, k)"
    using sqlserver_lawsD(2) [OF laws, of k "cr_Namespace srv" "cr_Name srv @ ''-ca''"] ca(1)
    by (cases "GetSecret (kclient R) (cr_Namespace srv) (cr_Name srv @ ''-ca'') k") (auto simp: answers_def ca_secret_def)
  then have "ensureCASecret (kclient R) A X srv (cr_Name srv @ ''-ca'') k = (Inr x, k)"
    by (simp add: ensureCASecret_def attempt_def ca(2))
  moreover have "for_each (ensure_cert (kclient R) A X srv (fst x) (snd x)) [0..replica_count inst - 1] k = (Inr (), k)"
    by (rule ensure_certs_there [OF laws certs]) auto
  ultimately show ?thesis
    using size by (cases x) (simp add: reconcileCertificates_def mode CertificateModeSelfSigned_def reconcileSelfSignedCerts_def or_fail_def
        attempt_def andthen_def)
qed


section \<open>Examples\<close>

lemma ex_crypto_laws: "crypto_laws ex_crypto (\<lambda>s. s)"
  by (simp add: crypto_laws_def ex_crypto_def wp_def)


definition ex_cluster :: InstanceSpec where
  "ex_cluster = (ex_instance (Some 2))\<lparr>inst_AvailabilityGroup := Some \<lparr>mag_AGName = None, mag_AvailabilityMode = None, mag_AutoFailover = None,
     mag_HealthCheckInterval = None, mag_FailoverCooldown = None, mag_Databases = []\<rparr>\<rparr>"


end
