(* ===== verification/Cert_Distribution.thy ===== *)
theory Cert_Distribution
  imports Managed_Cluster
begin

text \<open>
  The certificates on the SQL Servers of a cluster: what \<open>distributeCertificatesToSQL\<close> makes of a fleet of
  servers that keep the contract of certificate operations.
\<close>

section \<open>The contract\<close>

text \<open>
  What a server holds: a master key, certificates by name, logins made from certificates, the endpoint of
  the availability group and the logins that may connect to it.
\<close>

record CertView =
  v_MasterKey :: bool
  v_Certs :: "string \<Rightarrow> nat list option"
  v_CertLogins :: "string set"
  v_HadrEndpoint :: bool
  v_Connects :: "string set"

text \<open>
  A fleet of servers, reached by host name. A certificate that is made is a new one; an exported one can be
  imported into a server that does not have it yet, under any name.
\<close>

locale cert_fleet =
  fixes conns :: "string \<Rightarrow> 'c SQLClient" and ok :: "'c \<Rightarrow> bool" and view :: "'c \<Rightarrow> string \<Rightarrow> CertView"
  assumes key_exists: "ok s \<Longrightarrow> reads ok view (MasterKeyExists (certs (conns h))) s (v_MasterKey (view s h))"
    and key_create: "ok s \<Longrightarrow> \<not> v_MasterKey (view s h) \<Longrightarrow>
      writes ok view (CreateMasterKey (certs (conns h)) (''MasterKey'' @ name @ ''P@ss!'')) s ((view s)(h := (view s h)\<lparr>v_MasterKey := True\<rparr>))"
    and cert_exists: "ok s \<Longrightarrow> reads ok view (CertificateExists (certs (conns h)) (cert_name i)) s (v_Certs (view s h) (cert_name i) \<noteq> None)"
    and cert_create: "ok s \<Longrightarrow> v_MasterKey (view s h) \<Longrightarrow> v_Certs (view s h) (cert_name i) = None \<Longrightarrow>
      \<exists>der. (\<forall>h' m. v_Certs (view s h') m \<noteq> Some der) \<and>
        writes ok view (CreateCertificate (certs (conns h)) (cert_name i) subject ''2030-01-01'') s
          ((view s)(h := (view s h)\<lparr>v_Certs := (v_Certs (view s h))(cert_name i \<mapsto> der)\<rparr>))"
    and endpoint_exists: "ok s \<Longrightarrow> reads ok view (HADREndpointExists (ags (conns h))) s (v_HadrEndpoint (view s h))"
    and endpoint_create: "ok s \<Longrightarrow> \<not> v_HadrEndpoint (view s h) \<Longrightarrow> v_Certs (view s h) (cert_name i) \<noteq> None \<Longrightarrow>
      writes ok view (CreateHADREndpointWithCert (certs (conns h)) hadrEndpointPort (cert_name i)) s
        ((view s)(h := (view s h)\<lparr>v_HadrEndpoint := True\<rparr>))"
    and cert_binary: "ok s \<Longrightarrow> v_Certs (view s h) (cert_name i) = Some der \<Longrightarrow>
      reads ok view (GetCertificateBinary (certs (conns h)) (cert_name i)) s der"
    and cert_import: "ok s \<Longrightarrow> v_Certs (view s h) (cert_name i) = None \<Longrightarrow> v_Certs (view s h') m = Some der \<Longrightarrow>
      (\<And>m. v_Certs (view s h) m \<noteq> Some der) \<Longrightarrow>
      writes ok view (CreateCertificateFromBinary (certs (conns h)) (cert_name i) der) s
        ((view s)(h := (view s h)\<lparr>v_Certs := (v_Certs (view s h))(cert_name i \<mapsto> der)\<rparr>))"
    and login_create: "ok s \<Longrightarrow> cert_login i \<notin> v_CertLogins (view s h) \<Longrightarrow> v_Certs (view s h) (cert_name i) \<noteq> None \<Longrightarrow>
      writes ok view (CreateLoginFromCertificate (certs (conns h)) (cert_login i) (cert_name i)) s
        ((view s)(h := (view s h)\<lparr>v_CertLogins := insert (cert_login i) (v_CertLogins (view s h))\<rparr>))"
    and connect_grant: "ok s \<Longrightarrow> cert_login i \<in> v_CertLogins (view s h) \<Longrightarrow> v_HadrEndpoint (view s h) \<Longrightarrow>
      writes ok view (GrantEndpointConnect (certs (conns h)) ''hadr_endpoint'' (cert_login i)) s
        ((view s)(h := (view s h)\<lparr>v_Connects := insert (cert_login i) (v_Connects (view s h))\<rparr>))"
    and close_conn: "ok s \<Longrightarrow> ok (CloseClient (conns h) s) \<and> view (CloseClient (conns h) s) = view s"

section \<open>Names\<close>

lemma cert_name_inject: "0 \<le> i \<Longrightarrow> 0 \<le> j \<Longrightarrow> cert_name i = cert_name j \<longleftrightarrow> i = j"
  by (simp add: cert_name_def show_int_inject)

lemma cert_login_inject: "0 \<le> i \<Longrightarrow> 0 \<le> j \<Longrightarrow> cert_login i = cert_login j \<longleftrightarrow> i = j"
  by (simp add: cert_login_def show_int_inject)

lemma replicaHost_inject: "0 \<le> i \<Longrightarrow> 0 \<le> j \<Longrightarrow> replicaHost srv i = replicaHost srv j \<longleftrightarrow> i = j"
  using pod_name_inject [of i j srv] by (simp add: replicaHost_def)

section \<open>The state between the steps\<close>

text \<open>The certificate and the endpoint of one replica.\<close>

definition own_view :: "int \<Rightarrow> nat list \<Rightarrow> CertView \<Rightarrow> CertView" where
  "own_view i der v = v\<lparr>v_MasterKey := True, v_Certs := (v_Certs v)(cert_name i \<mapsto> der), v_HadrEndpoint := True\<rparr>"

text \<open>The certificate of a peer with its login.\<close>

definition import_view :: "int \<Rightarrow> nat list \<Rightarrow> CertView \<Rightarrow> CertView" where
  "import_view j der v = (if v_Certs v (cert_name j) \<noteq> None then v
     else v\<lparr>v_Certs := (v_Certs v)(cert_name j \<mapsto> der), v_CertLogins := insert (cert_login j) (v_CertLogins v),
            v_Connects := insert (cert_login j) (v_Connects v)\<rparr>)"

text \<open>Nobody holds the certificate of another replica under a name that is not that replica's.\<close>

definition well_named :: "SQLServer \<Rightarrow> int \<Rightarrow> (string \<Rightarrow> CertView) \<Rightarrow> bool" where
  "well_named srv n v \<longleftrightarrow> (\<forall>i \<in> {0..<n}. \<forall>j \<in> {0..<n} - {i}. \<forall>m der.
     v_Certs (v (replicaHost srv j)) (cert_name j) = Some der \<and> v_Certs (v (replicaHost srv i)) m = Some der \<longrightarrow> m = cert_name j)"

text \<open>Where the certificate of a peer is missing, so is its login.\<close>

definition logins_match :: "SQLServer \<Rightarrow> int \<Rightarrow> (string \<Rightarrow> CertView) \<Rightarrow> bool" where
  "logins_match srv n v \<longleftrightarrow> (\<forall>i \<in> {0..<n}. \<forall>j \<in> {0..<n} - {i}.
     v_Certs (v (replicaHost srv i)) (cert_name j) = None \<longrightarrow> cert_login j \<notin> v_CertLogins (v (replicaHost srv i)))"

lemma well_named_own:
  assumes wn: "well_named srv n v" and i: "i \<in> {0..<n}"
    and der: "v_Certs (v (replicaHost srv i)) (cert_name i) = Some der \<or> (\<forall>h m. v_Certs (v h) m \<noteq> Some der)"
  shows "well_named srv n (v(replicaHost srv i := own_view i der (v (replicaHost srv i))))"
proof (cases "v_Certs (v (replicaHost srv i)) (cert_name i) = Some der")
  case True
  then have "v_Certs (own_view i der (v (replicaHost srv i))) = v_Certs (v (replicaHost srv i))" by (auto simp: own_view_def)
  with wn show ?thesis by (simp add: well_named_def)
next
  case False
  with der have fresh: "v_Certs (v h) m \<noteq> Some der" for h m by blast
  show ?thesis
    unfolding well_named_def
  proof (intro ballI allI impI)
    fix k j m d
    assume k: "k \<in> {0..<n}" and j: "j \<in> {0..<n} - {k}"
      and both: "v_Certs ((v(replicaHost srv i := own_view i der (v (replicaHost srv i)))) (replicaHost srv j)) (cert_name j) = Some d \<and>
        v_Certs ((v(replicaHost srv i := own_view i der (v (replicaHost srv i)))) (replicaHost srv k)) m = Some d"
    show "m = cert_name j"
    proof (cases "j = i")
      case True
      then have "replicaHost srv k \<noteq> replicaHost srv i" using j k i by (simp add: replicaHost_inject)
      then show ?thesis using both True fresh by (simp add: own_view_def)
    next
      case j_i: False
      then have hj: "replicaHost srv j \<noteq> replicaHost srv i" "cert_name j \<noteq> cert_name i" using j i by (simp_all add: replicaHost_inject cert_name_inject)
      show ?thesis
      proof (cases "k = i")
        case True
        then show ?thesis using both hj fresh wn k j by (auto simp: own_view_def well_named_def split: if_splits)
      next
        case False
        then have "replicaHost srv k \<noteq> replicaHost srv i" using k i by (simp add: replicaHost_inject)
        then show ?thesis using both hj wn k j by (simp add: well_named_def)
      qed
    qed
  qed
qed

lemma logins_match_own:
  assumes "logins_match srv n v" "i \<in> {0..<n}"
  shows "logins_match srv n (v(replicaHost srv i := own_view i der (v (replicaHost srv i))))"
  using assms by (auto simp: logins_match_def own_view_def split: if_splits)

text \<open>Between the passes: every replica has its certificate and endpoint.\<close>

definition ready_to_import :: "SQLServer \<Rightarrow> int \<Rightarrow> (int \<Rightarrow> nat list option) \<Rightarrow> (string \<Rightarrow> CertView) \<Rightarrow> bool" where
  "ready_to_import srv n b v \<longleftrightarrow> well_named srv n v \<and> logins_match srv n v \<and>
     (\<forall>j \<in> {0..<n}. b j \<noteq> None \<and> v_Certs (v (replicaHost srv j)) (cert_name j) = b j \<and> v_HadrEndpoint (v (replicaHost srv j)))"

lemma ready_import:
  assumes ready: "ready_to_import srv n b v" and i: "i \<in> {0..<n}" and j: "j \<in> {0..<n}" "j \<noteq> i"
  shows "ready_to_import srv n b (v(replicaHost srv i := import_view j (the (b j)) (v (replicaHost srv i))))"
proof (cases "v_Certs (v (replicaHost srv i)) (cert_name j)")
  case (Some der)
  then have "import_view j (the (b j)) (v (replicaHost srv i)) = v (replicaHost srv i)" by (simp add: import_view_def)
  with ready show ?thesis by simp
next
  case None
  let ?v = "v(replicaHost srv i := import_view j (the (b j)) (v (replicaHost srv i)))"
  have wn: "m = cert_name k'" if "k \<in> {0..<n}" "k' \<in> {0..<n}" "k' \<noteq> k" "v_Certs (v (replicaHost srv k')) (cert_name k') = Some d"
    "v_Certs (v (replicaHost srv k)) m = Some d" for k k' m d
    using ready that unfolding ready_to_import_def well_named_def by blast
  have own: "b k \<noteq> None" "v_Certs (v (replicaHost srv k)) (cert_name k) = b k" "v_HadrEndpoint (v (replicaHost srv k))"
    if "k \<in> {0..<n}" for k
    using ready that by (auto simp: ready_to_import_def)
  obtain dj where dj: "b j = Some dj" using own(1) [OF j(1)] by blast
  have hosts: "replicaHost srv k = replicaHost srv k' \<longleftrightarrow> k = k'" "cert_name k = cert_name k' \<longleftrightarrow> k = k'" "cert_login k = cert_login k' \<longleftrightarrow> k = k'"
    if "k \<in> {0..<n}" "k' \<in> {0..<n}" for k k'
    using that by (simp_all add: replicaHost_inject cert_name_inject cert_login_inject)
  have certs: "v_Certs (?v (replicaHost srv k)) m = (if k = i \<and> m = cert_name j then Some dj else v_Certs (v (replicaHost srv k)) m)"
    if "k \<in> {0..<n}" for k m
    using None hosts(1) [OF that i] by (simp add: import_view_def dj)
  have "well_named srv n ?v"
    unfolding well_named_def
  proof (intro ballI allI impI)
    fix k k' m d
    assume k: "k \<in> {0..<n}" and k': "k' \<in> {0..<n} - {k}"
      and both: "v_Certs (?v (replicaHost srv k')) (cert_name k') = Some d \<and> v_Certs (?v (replicaHost srv k)) m = Some d"
    have "\<not> (k' = i \<and> cert_name k' = cert_name j)" using hosts(2) [OF i j(1)] j(2) by auto
    then have d: "v_Certs (v (replicaHost srv k')) (cert_name k') = Some d" using both k' certs [of k' "cert_name k'"] by (auto split: if_splits)
    show "m = cert_name k'"
    proof (cases "k = i \<and> m = cert_name j")
      case True
      then have "d = dj" using both k certs [of k m] by simp
      then have "v_Certs (v (replicaHost srv j)) (cert_name j) = Some d" using own(2) [OF j(1)] dj by simp
      with wn [where k = k' and k' = j and m = "cert_name k'" and d = d] d k' j have "k' = j \<or> cert_name k' = cert_name j" by auto
      with True show ?thesis by auto
    next
      case False
      then have "v_Certs (v (replicaHost srv k)) m = Some d" using both k certs [of k m] by auto
      then show ?thesis using wn [OF k _ _ d] k' by simp
    qed
  qed
  moreover have "logins_match srv n ?v"
    unfolding logins_match_def
  proof (intro ballI impI)
    fix k k'
    assume k: "k \<in> {0..<n}" and k': "k' \<in> {0..<n} - {k}" and none: "v_Certs (?v (replicaHost srv k)) (cert_name k') = None"
    have old: "v_Certs (v (replicaHost srv k)) (cert_name k') = None" and new: "\<not> (k = i \<and> k' = j)"
      using none certs [OF k, of "cert_name k'"] by (auto split: if_splits)
    from old k k' ready have login: "cert_login k' \<notin> v_CertLogins (v (replicaHost srv k))"
      by (auto simp: ready_to_import_def logins_match_def)
    show "cert_login k' \<notin> v_CertLogins (?v (replicaHost srv k))"
      using login new hosts(1) [OF k i] hosts(3) [of k' j] k' j by (auto simp: import_view_def)
  qed
  moreover have "\<forall>k \<in> {0..<n}. b k \<noteq> None \<and> v_Certs (?v (replicaHost srv k)) (cert_name k) = b k \<and> v_HadrEndpoint (?v (replicaHost srv k))"
  proof
    fix k assume k: "k \<in> {0..<n}"
    have "\<not> (k = i \<and> cert_name k = cert_name j)" using hosts(2) [OF i j(1)] j(2) by auto
    then show "b k \<noteq> None \<and> v_Certs (?v (replicaHost srv k)) (cert_name k) = b k \<and> v_HadrEndpoint (?v (replicaHost srv k))"
      using own [OF k] certs [OF k, of "cert_name k"] own(3) [OF i] by (auto simp: import_view_def)
  qed
  ultimately show ?thesis by (simp add: ready_to_import_def)
qed


section \<open>Pass 1\<close>

lemma wp_unless_exists:
  assumes "reads ok view there s b"
    and "\<And>c. \<not> b \<Longrightarrow> ok c \<Longrightarrow> view c = view s \<Longrightarrow> \<exists>v. P v \<and> writes ok view create c v"
    and "b \<Longrightarrow> P (view s)" and "\<And>c. ok c \<Longrightarrow> P (view c) \<Longrightarrow> wp k c Q E"
  shows "wp (unless_exists m1 there m2 create k) s Q E"
  unfolding unless_exists_def wp_or_fail
proof (rule wp_reads [OF assms(1)])
  fix c assume c: "ok c" "view c = view s"
  show "wp (if b then k else or_fail m2 create (\<lambda>_. k)) c Q E"
  proof (cases b)
    case True
    with assms(3,4) c show ?thesis by simp
  next
    case False
    then obtain v where v: "P v" "writes ok view create c v" using assms(2) c by blast
    have "wp create c (\<lambda>_ t. wp k t Q E) (\<lambda>e. E (Wrapf (m2 @ '': '') e))" by (rule wp_writes [OF v(2)]) (simp add: assms(4) v(1))
    then show ?thesis using False by (simp add: wp_or_fail)
  qed
qed

text \<open>The certificate a server had, or one that nobody had.\<close>

definition own_or_fresh :: "string \<Rightarrow> int \<Rightarrow> (string \<Rightarrow> CertView) \<Rightarrow> nat list \<Rightarrow> bool" where
  "own_or_fresh h i v der \<longleftrightarrow> v_Certs (v h) (cert_name i) = Some der \<or>
     v_Certs (v h) (cert_name i) = None \<and> (\<forall>h' m. v_Certs (v h') m \<noteq> Some der)"

context cert_fleet
begin

lemma wp_setup:
  assumes "ok s" and post: "\<And>c der. ok c \<Longrightarrow> own_or_fresh h i (view s) der \<Longrightarrow> view c = (view s)(h := own_view i der (view s h)) \<Longrightarrow> Q () c"
  shows "wp (setupReplicaCertificates (conns h) srv i) s Q E"
  unfolding setupReplicaCertificates_def
proof (rule wp_unless_exists [OF key_exists [OF assms(1)], where P = "\<lambda>v. v = (view s)(h := (view s h)\<lparr>v_MasterKey := True\<rparr>)"])
  fix c assume "\<not> v_MasterKey (view s h)" "ok c" "view c = view s"
  then show "\<exists>v. v = (view s)(h := (view s h)\<lparr>v_MasterKey := True\<rparr>) \<and> writes ok view (CreateMasterKey (certs (conns h)) (''MasterKey'' @ cr_Name srv @ ''P@ss!'')) c v"
    using key_create [of c h] by simp
next
  assume "v_MasterKey (view s h)"
  then have "(view s h)\<lparr>v_MasterKey := True\<rparr> = view s h" by simp
  then show "view s = (view s)(h := (view s h)\<lparr>v_MasterKey := True\<rparr>)" by simp
next
  fix c1 assume c1: "ok c1" "view c1 = (view s)(h := (view s h)\<lparr>v_MasterKey := True\<rparr>)"
  let ?P = "\<lambda>v. \<exists>der. own_or_fresh h i (view s) der \<and>
    v = (view s)(h := (view s h)\<lparr>v_MasterKey := True, v_Certs := (v_Certs (view s h))(cert_name i \<mapsto> der)\<rparr>)"
  show "wp (unless_exists ''failed to check certificate'' (CertificateExists (certs (conns h)) (cert_name i)) ''failed to create certificate''
      (CreateCertificate (certs (conns h)) (cert_name i) (pod_name srv i @ '' cert'') ''2030-01-01'')
      (unless_exists ''failed to check endpoint'' (HADREndpointExists (ags (conns h))) ''failed to create HADR endpoint''
         (CreateHADREndpointWithCert (certs (conns h)) hadrEndpointPort (cert_name i)) (ret ()))) c1 Q E"
  proof (rule wp_unless_exists [OF cert_exists [OF c1(1)], where P = ?P])
    fix c assume c: "\<not> v_Certs (view c1 h) (cert_name i) \<noteq> None" "ok c" "view c = view c1"
    have key: "v_MasterKey (view c h)" and none: "v_Certs (view c h) (cert_name i) = None" using c c1 by simp_all
    obtain der where der: "\<forall>h' m. v_Certs (view c h') m \<noteq> Some der"
      "writes ok view (CreateCertificate (certs (conns h)) (cert_name i) (pod_name srv i @ '' cert'') ''2030-01-01'') c
         ((view c)(h := (view c h)\<lparr>v_Certs := (v_Certs (view c h))(cert_name i \<mapsto> der)\<rparr>))"
      using cert_create [OF c(2) key none] by blast
    have "v_Certs (view s h') m \<noteq> Some der" for h' m
      using der(1) [rule_format, of h' m] c(3) c1(2) by (auto split: if_splits)
    then have "own_or_fresh h i (view s) der" using none c(3) c1(2) by (simp add: own_or_fresh_def)
    then show "\<exists>v. ?P v \<and> writes ok view (CreateCertificate (certs (conns h)) (cert_name i) (pod_name srv i @ '' cert'') ''2030-01-01'') c v"
      using der(2) c(3) c1(2) by (auto intro!: exI [of _ der])
  next
    assume "v_Certs (view c1 h) (cert_name i) \<noteq> None"
    then obtain der where "v_Certs (view s h) (cert_name i) = Some der" using c1(2) by auto
    then show "?P (view c1)" using c1(2) by (auto simp: own_or_fresh_def fun_upd_idem intro!: exI [of _ der])
  next
    fix c2 assume c2: "ok c2" "?P (view c2)"
    then obtain der where der: "own_or_fresh h i (view s) der"
      "view c2 = (view s)(h := (view s h)\<lparr>v_MasterKey := True, v_Certs := (v_Certs (view s h))(cert_name i \<mapsto> der)\<rparr>)" by blast
    show "wp (unless_exists ''failed to check endpoint'' (HADREndpointExists (ags (conns h))) ''failed to create HADR endpoint''
         (CreateHADREndpointWithCert (certs (conns h)) hadrEndpointPort (cert_name i)) (ret ())) c2 Q E"
    proof (rule wp_unless_exists [OF endpoint_exists [OF c2(1)], where P = "\<lambda>v. v = (view s)(h := own_view i der (view s h))"])
      fix c assume c: "\<not> v_HadrEndpoint (view c2 h)" "ok c" "view c = view c2"
      have "writes ok view (CreateHADREndpointWithCert (certs (conns h)) hadrEndpointPort (cert_name i)) c
          ((view c)(h := (view c h)\<lparr>v_HadrEndpoint := True\<rparr>))"
        by (rule endpoint_create [OF c(2)]) (use c der in simp_all)
      then show "\<exists>v. v = (view s)(h := own_view i der (view s h)) \<and>
          writes ok view (CreateHADREndpointWithCert (certs (conns h)) hadrEndpointPort (cert_name i)) c v"
        by (simp add: c(3) der(2) own_view_def)
    next
      assume "v_HadrEndpoint (view c2 h)"
      then have "v_HadrEndpoint (view s h)" by (simp add: der(2))
      then have "own_view i der (view s h) = (view s h)\<lparr>v_MasterKey := True, v_Certs := (v_Certs (view s h))(cert_name i \<mapsto> der)\<rparr>"
        by (simp add: own_view_def)
      then show "view c2 = (view s)(h := own_view i der (view s h))" by (simp add: der(2))
    next
      fix c assume "ok c" "view c = (view s)(h := own_view i der (view s h))"
      then show "wp (ret ()) c Q E" unfolding wp_ret by (rule post [OF _ der(1)])
    qed
  qed
qed

end

text \<open>The servers after the first pass over the replicas \<open>ys\<close>.\<close>

definition own_done ::
  "SQLServer \<Rightarrow> int \<Rightarrow> (string \<Rightarrow> CertView) \<Rightarrow> int list \<Rightarrow> (int \<Rightarrow> nat list option) \<Rightarrow> (string \<Rightarrow> CertView) \<Rightarrow> bool" where
  "own_done srv n v0 ys b v \<longleftrightarrow> well_named srv n v \<and> logins_match srv n v \<and>
     (\<forall>j \<in> set ys. \<exists>der. b j = Some der \<and> v (replicaHost srv j) = own_view j der (v0 (replicaHost srv j)) \<and>
        (\<forall>d. v_Certs (v0 (replicaHost srv j)) (cert_name j) = Some d \<longrightarrow> d = der)) \<and>
     (\<forall>h. h \<notin> replicaHost srv ` set ys \<longrightarrow> v h = v0 h)"

lemma own_done_step:
  assumes before: "own_done srv n v0 ys b v" and i: "i \<in> {0..<n}" "i \<notin> set ys" and ys: "set ys \<subseteq> {0..<n}"
    and der: "own_or_fresh (replicaHost srv i) i v der"
  shows "own_done srv n v0 (ys @ [i]) (b(i \<mapsto> der)) (v(replicaHost srv i := own_view i der (v (replicaHost srv i))))"
proof -
  have away: "replicaHost srv j \<noteq> replicaHost srv i" if "j \<in> set ys" for j
    using that i ys by (auto simp: replicaHost_inject)
  then have "replicaHost srv i \<notin> replicaHost srv ` set ys" by (metis image_iff)
  then have old: "v (replicaHost srv i) = v0 (replicaHost srv i)" using before by (simp add: own_done_def)
  have "well_named srv n (v(replicaHost srv i := own_view i der (v (replicaHost srv i))))"
    by (rule well_named_own [OF _ i(1)]) (use before der in \<open>auto simp: own_done_def own_or_fresh_def\<close>)
  moreover have "logins_match srv n (v(replicaHost srv i := own_view i der (v (replicaHost srv i))))"
    by (rule logins_match_own [OF _ i(1)]) (use before in \<open>simp add: own_done_def\<close>)
  moreover have "\<exists>d. (b(i \<mapsto> der)) j = Some d \<and>
      (v(replicaHost srv i := own_view i der (v (replicaHost srv i)))) (replicaHost srv j) = own_view j d (v0 (replicaHost srv j)) \<and>
      (\<forall>d'. v_Certs (v0 (replicaHost srv j)) (cert_name j) = Some d' \<longrightarrow> d' = d)" if "j \<in> set (ys @ [i])" for j
  proof (cases "j = i")
    case True
    then show ?thesis using der old by (auto simp: own_or_fresh_def)
  next
    case False
    then have j: "j \<in> set ys" using that by simp
    then obtain d where "b j = Some d \<and> v (replicaHost srv j) = own_view j d (v0 (replicaHost srv j)) \<and>
        (\<forall>d'. v_Certs (v0 (replicaHost srv j)) (cert_name j) = Some d' \<longrightarrow> d' = d)"
      using before unfolding own_done_def by blast
    then show ?thesis using False away [OF j] by (intro exI [of _ d]) simp
  qed
  moreover have "(v(replicaHost srv i := own_view i der (v (replicaHost srv i)))) h = v0 h" if "h \<notin> replicaHost srv ` set (ys @ [i])" for h
    using before that by (simp add: own_done_def)
  ultimately show ?thesis unfolding own_done_def by blast
qed

lemma own_done_ready:
  assumes "own_done srv n v0 [0..n - 1] b v"
  shows "ready_to_import srv n b v"
proof -
  have "b j \<noteq> None \<and> v_Certs (v (replicaHost srv j)) (cert_name j) = b j \<and> v_HadrEndpoint (v (replicaHost srv j))" if j: "j \<in> {0..<n}" for j
  proof -
    from j have "j \<in> set [0..n - 1]" by simp
    then obtain der where "b j = Some der" "v (replicaHost srv j) = own_view j der (v0 (replicaHost srv j))"
      using assms unfolding own_done_def by blast
    then show ?thesis by (simp add: own_view_def)
  qed
  with assms show ?thesis by (simp add: own_done_def ready_to_import_def)
qed

lemma wp_connect_replica:
  assumes "dial R srv (replicaHost srv i) up = Inr conn"
    and "wp (body conn) w (\<lambda>x t. Q x (t\<lparr>sql := CloseClient conn (sql t)\<rparr>)) (\<lambda>e t. E e (t\<lparr>sql := CloseClient conn (sql t)\<rparr>))"
  shows "wp (connect_replica R srv up i msg body) w Q E"
proof -
  have "SQLClientFactory R (replicaHost srv i) (case srv_Port (Spec srv) of None \<Rightarrow> sqlPort | Some p \<Rightarrow> p) (fst up) (snd up)
      (srv_TLS (Spec srv) = Some True) = Inr conn"
    using assms(1) by (simp add: dial_def server_port_def sqlPort_def split: option.splits)
  then show ?thesis using assms(2) by (simp add: connect_replica_def Let_def wp_deferred)
qed

context cert_fleet
begin

lemma wp_own_certificate:
  fixes w :: "('k, 'c) world"
  assumes "ok (sql w)" and up: "dial R srv (replicaHost srv i) up = Inr (conns (replicaHost srv i))"
    and post: "\<And>c der. ok c \<Longrightarrow> own_or_fresh (replicaHost srv i) i (view (sql w)) der \<Longrightarrow>
      view c = (view (sql w))(replicaHost srv i := own_view i der (view (sql w) (replicaHost srv i))) \<Longrightarrow> Q (b(i \<mapsto> der)) (w\<lparr>sql := c\<rparr>)"
  shows "wp (own_certificate R srv up i b) w Q E"
  unfolding own_certificate_def
proof (rule wp_connect_replica [OF up], unfold wp_or_fail wp_on_sql, rule wp_setup [OF assms(1)])
  fix c der
  assume c: "ok c" "own_or_fresh (replicaHost srv i) i (view (sql w)) der"
    "view c = (view (sql w))(replicaHost srv i := own_view i der (view (sql w) (replicaHost srv i)))"
  have there: "v_Certs (view c (replicaHost srv i)) (cert_name i) = Some der" by (simp add: c(3) own_view_def)
  have closed: "Q (b(i \<mapsto> der)) (w\<lparr>sql := CloseClient (conns (replicaHost srv i)) c'\<rparr>)" if "ok c'" "view c' = view c" for c'
    using post [OF _ c(2)] close_conn [OF that(1)] that(2) c(3) by simp
  show "wp (GetCertificateBinary (certs (conns (replicaHost srv i))) (cert_name i)) (sql (w\<lparr>sql := c\<rparr>))
      (\<lambda>x c'. wp (ret (b(i \<mapsto> x))) (w\<lparr>sql := c, sql := c'\<rparr>)
         (\<lambda>x t. Q x (t\<lparr>sql := CloseClient (conns (replicaHost srv i)) (sql t)\<rparr>)) (\<lambda>e t. E e (t\<lparr>sql := CloseClient (conns (replicaHost srv i)) (sql t)\<rparr>)))
      (\<lambda>e c'. E (Wrapf (numbered ''failed to get cert binary from replica '' i [] @ '': '') e)
         (w\<lparr>sql := c, sql := c'\<rparr>\<lparr>sql := CloseClient (conns (replicaHost srv i)) (sql (w\<lparr>sql := c, sql := c'\<rparr>))\<rparr>))"
    by (rule wp_reads [where ok = ok and view = view and x = der]) (use cert_binary [OF c(1) there] closed in \<open>simp_all add: wp_ret del: ret_apply\<close>)
qed

lemma wp_own_certificates:
  fixes w :: "('k, 'c) world"
  assumes w: "ok (sql w)" and names: "well_named srv n (view (sql w))" "logins_match srv n (view (sql w))"
    and up: "\<And>i. 0 \<le> i \<Longrightarrow> i < n \<Longrightarrow> dial R srv (replicaHost srv i) up = Inr (conns (replicaHost srv i))"
    and post: "\<And>b c. ok c \<Longrightarrow> own_done srv n (view (sql w)) [0..n - 1] b (view c) \<Longrightarrow> Q b (w\<lparr>sql := c\<rparr>)"
  shows "wp (fold_op (own_certificate R srv up) [0..n - 1] Map.empty) w Q E"
proof (rule wp_fold_op_prefix [where I = "\<lambda>ys b w'. ok (sql w') \<and> w' = w\<lparr>sql := sql w'\<rparr> \<and> own_done srv n (view (sql w)) ys b (view (sql w'))"])
  fix ys i zs b and w' :: "('k, 'c) world"
  assume split: "[0..n - 1] = ys @ i # zs" and w': "ok (sql w') \<and> w' = w\<lparr>sql := sql w'\<rparr> \<and> own_done srv n (view (sql w)) ys b (view (sql w'))"
  have elems: "set (ys @ i # zs) = {0..<n}" unfolding split [symmetric] by auto
  have dist: "distinct (ys @ i # zs)" unfolding split [symmetric] by simp
  have i: "i \<in> {0..<n}" "i \<notin> set ys" "set ys \<subseteq> {0..<n}" using elems dist by auto
  show "wp (own_certificate R srv up i b) w' (\<lambda>b w'. ok (sql w') \<and> w' = w\<lparr>sql := sql w'\<rparr> \<and> own_done srv n (view (sql w)) (ys @ [i]) b (view (sql w'))) E"
  proof (rule wp_own_certificate [OF conjunct1 [OF w'] up])
    show "0 \<le> i" "i < n" using i by simp_all
    fix c der
    assume c: "ok c" "own_or_fresh (replicaHost srv i) i (view (sql w')) der"
      "view c = (view (sql w'))(replicaHost srv i := own_view i der (view (sql w') (replicaHost srv i)))"
    have "own_done srv n (view (sql w)) (ys @ [i]) (b(i \<mapsto> der)) (view c)"
      unfolding c(3) by (rule own_done_step [OF _ i c(2)]) (use w' in simp)
    moreover have "w'\<lparr>sql := c\<rparr> = w\<lparr>sql := c\<rparr>" using w' by (metis world.update_convs(2) world.surjective world.select_convs(2))
    ultimately show "ok (sql (w'\<lparr>sql := c\<rparr>)) \<and> w'\<lparr>sql := c\<rparr> = w\<lparr>sql := sql (w'\<lparr>sql := c\<rparr>)\<rparr> \<and>
        own_done srv n (view (sql w)) (ys @ [i]) (b(i \<mapsto> der)) (view (sql (w'\<lparr>sql := c\<rparr>)))"
      using c(1) by simp
  qed
next
  show "ok (sql w) \<and> w = w\<lparr>sql := sql w\<rparr> \<and> own_done srv n (view (sql w)) [] Map.empty (view (sql w))"
    using w names by (simp add: own_done_def)
next
  fix b and w' :: "('k, 'c) world"
  assume "ok (sql w') \<and> w' = w\<lparr>sql := sql w'\<rparr> \<and> own_done srv n (view (sql w)) [0..n - 1] b (view (sql w'))"
  then show "Q b w'" using post [of "sql w'" b] by metis
qed

end

section \<open>Pass 2\<close>

text \<open>What the second pass makes of the server of replica \<open>i\<close>.\<close>

definition import_all :: "int \<Rightarrow> (int \<Rightarrow> nat list option) \<Rightarrow> int list \<Rightarrow> CertView \<Rightarrow> CertView" where
  "import_all i b js v = fold (\<lambda>j v. if j = i then v else import_view j (the (b j)) v) js v"

text \<open>A peer's certificate that was missing is there with its login, one that was there is as it was.\<close>

definition peer_settled :: "int \<Rightarrow> nat list option \<Rightarrow> CertView \<Rightarrow> CertView \<Rightarrow> bool" where
  "peer_settled j der v v' \<longleftrightarrow>
     (if v_Certs v (cert_name j) = None
      then v_Certs v' (cert_name j) = der \<and> cert_login j \<in> v_CertLogins v' \<and> cert_login j \<in> v_Connects v'
      else v_Certs v' (cert_name j) = v_Certs v (cert_name j) \<and>
        (cert_login j \<in> v_CertLogins v' \<longleftrightarrow> cert_login j \<in> v_CertLogins v) \<and> (cert_login j \<in> v_Connects v' \<longleftrightarrow> cert_login j \<in> v_Connects v))"

definition same_peer :: "int \<Rightarrow> CertView \<Rightarrow> CertView \<Rightarrow> bool" where
  "same_peer j v v' \<longleftrightarrow> v_Certs v' (cert_name j) = v_Certs v (cert_name j) \<and>
     (cert_login j \<in> v_CertLogins v' \<longleftrightarrow> cert_login j \<in> v_CertLogins v) \<and> (cert_login j \<in> v_Connects v' \<longleftrightarrow> cert_login j \<in> v_Connects v)"

lemma import_view_other: "0 \<le> j \<Longrightarrow> 0 \<le> k \<Longrightarrow> j \<noteq> k \<Longrightarrow> same_peer k v (import_view j der v)"
  by (simp add: same_peer_def import_view_def cert_name_inject cert_login_inject)

lemma import_view_own: "peer_settled j (Some der) v (import_view j der v)"
  by (simp add: peer_settled_def import_view_def)

lemma same_peer_trans: "same_peer j u v \<Longrightarrow> same_peer j v w \<Longrightarrow> same_peer j u w"
  by (simp add: same_peer_def)

lemma peer_settled_same:
  "same_peer j u v \<Longrightarrow> peer_settled j d v w \<Longrightarrow> peer_settled j d u w"
  "peer_settled j d u v \<Longrightarrow> same_peer j v w \<Longrightarrow> peer_settled j d u w"
  by (auto simp: same_peer_def peer_settled_def split: if_splits)

lemma import_all_other:
  assumes "\<forall>j \<in> set js. 0 \<le> j" and "0 \<le> k" and "k \<in> set js \<longrightarrow> k = i"
  shows "same_peer k v (import_all i b js v)"
  using assms
proof (induction js arbitrary: v)
  case Nil
  show ?case by (simp add: same_peer_def import_all_def)
next
  case (Cons j js)
  let ?v = "if j = i then v else import_view j (the (b j)) v"
  have "same_peer k v ?v" using Cons.prems import_view_other [of j k v] by (auto simp: same_peer_def)
  moreover have "same_peer k ?v (import_all i b js ?v)" by (rule Cons.IH) (use Cons.prems in auto)
  ultimately show ?case by (auto simp: import_all_def dest: same_peer_trans)
qed

lemma import_all_peer:
  assumes "\<forall>j \<in> set js. 0 \<le> j \<and> b j \<noteq> None" and "distinct js" and "j \<in> set js" "j \<noteq> i"
  shows "peer_settled j (b j) v (import_all i b js v)"
  using assms
proof (induction js arbitrary: v)
  case Nil
  then show ?case by simp
next
  case (Cons k js)
  let ?v = "if k = i then v else import_view k (the (b k)) v"
  have step: "import_all i b (k # js) v = import_all i b js ?v" by (simp add: import_all_def)
  show ?case
  proof (cases "k = j")
    case True
    then have "peer_settled j (b j) v ?v" using Cons.prems import_view_own [of j "the (b j)" v] by auto
    moreover have "same_peer j ?v (import_all i b js ?v)" by (rule import_all_other) (use Cons.prems True in auto)
    ultimately show ?thesis unfolding step by (rule peer_settled_same(2))
  next
    case False
    then have "same_peer j v ?v" using Cons.prems import_view_other [of k j v] by (auto simp: same_peer_def)
    moreover have "peer_settled j (b j) ?v (import_all i b js ?v)" by (rule Cons.IH) (use Cons.prems False in auto)
    ultimately show ?thesis unfolding step by (rule peer_settled_same(1))
  qed
qed

lemma import_all_rest:
  "v_MasterKey (import_all i b js v) = v_MasterKey v \<and> v_HadrEndpoint (import_all i b js v) = v_HadrEndpoint v"
  by (induction js arbitrary: v) (simp_all add: import_all_def import_view_def)

text \<open>Between two imports: the replicas of \<open>ys\<close> are finished, the others as after the first pass.\<close>

definition imported :: "SQLServer \<Rightarrow> int list \<Rightarrow> (int \<Rightarrow> nat list option) \<Rightarrow> (string \<Rightarrow> CertView) \<Rightarrow> int list \<Rightarrow> (string \<Rightarrow> CertView) \<Rightarrow> bool" where
  "imported srv js b v1 ys v \<longleftrightarrow>
     (\<forall>i \<in> set ys. v (replicaHost srv i) = import_all i b js (v1 (replicaHost srv i))) \<and>
     (\<forall>h. h \<notin> replicaHost srv ` set ys \<longrightarrow> v h = v1 h)"

lemma imported_step:
  assumes "imported srv js b v1 ys v" and "\<forall>j \<in> set ys. 0 \<le> j \<and> j \<noteq> i" and "0 \<le> i"
  shows "imported srv js b v1 (ys @ [i]) (v(replicaHost srv i := import_all i b js (v (replicaHost srv i))))"
proof -
  have away: "replicaHost srv j \<noteq> replicaHost srv i" if "j \<in> set ys" for j using that assms(2,3) by (simp add: replicaHost_inject)
  then have "replicaHost srv i \<notin> replicaHost srv ` set ys" by (metis image_iff)
  then have "v (replicaHost srv i) = v1 (replicaHost srv i)" using assms(1) by (simp add: imported_def)
  with assms(1) away show ?thesis by (simp add: imported_def)
qed

lemma world_sql: "w' = w\<lparr>sql := sql w'\<rparr> \<Longrightarrow> w'\<lparr>sql := c\<rparr> = w\<lparr>sql := c\<rparr>" for w w' :: "('k, 'c) world"
  by (cases w, cases w') simp

context cert_fleet
begin

lemma wp_import_peer:
  assumes ready: "ok s" "ready_to_import srv n b (view s)" and i: "i \<in> {0..<n}" and j: "j \<in> {0..<n}"
    and post: "\<And>c. ok c \<Longrightarrow> view c = (view s)(replicaHost srv i := (if j = i then view s (replicaHost srv i)
      else import_view j (the (b j)) (view s (replicaHost srv i)))) \<Longrightarrow> Q () c"
  shows "wp (import_peer (conns (replicaHost srv i)) b i j) s Q E"
proof (cases "j = i")
  case True
  then show ?thesis using post [OF ready(1)] by (simp add: import_peer_def wp_ret del: ret_apply)
next
  case False
  let ?h = "replicaHost srv i" and ?n = "cert_name j" and ?l = "cert_login j"
  have import: "CreateCertificateFromBinary (certs (conns ?h)) ?n (case b j of None \<Rightarrow> [] | Some der \<Rightarrow> der) = CreateCertificateFromBinary (certs (conns ?h)) ?n (the (b j))"
  proof -
    obtain der where "b j = Some der" using ready(2) j unfolding ready_to_import_def by blast
    then show ?thesis by simp
  qed
  show ?thesis
    unfolding import_peer_def import if_not_P [OF False] wp_or_fail
  proof (rule wp_reads [OF cert_exists [OF ready(1)]])
    fix c assume c: "ok c" "view c = view s"
    show "wp (if v_Certs (view s ?h) ?n \<noteq> None then ret ()
        else or_fail (''failed to import peer cert '' @ ?n @ '' on replica '' @ show_int i)
            (CreateCertificateFromBinary (certs (conns ?h)) ?n (the (b j))) (\<lambda>_.
          or_fail (numbered ''failed to create login from peer cert on replica '' i []) (CreateLoginFromCertificate (certs (conns ?h)) ?l ?n) (\<lambda>_.
          or_fail (numbered ''failed to grant endpoint connect on replica '' i []) (GrantEndpointConnect (certs (conns ?h)) ''hadr_endpoint'' ?l) ret))) c Q E"
    proof (cases "v_Certs (view s ?h) ?n")
      case (Some d)
      then show ?thesis using post [OF c(1)] c(2) False by (simp add: wp_ret import_view_def del: ret_apply)
    next
      case None
      have known: "b j \<noteq> None \<and> v_Certs (view s (replicaHost srv j)) ?n = b j" using ready(2) j unfolding ready_to_import_def by blast
      then obtain der where der: "b j = Some der" "v_Certs (view s (replicaHost srv j)) ?n = Some der" by auto
      have unknown: "v_Certs (view s ?h) m \<noteq> Some der" for m
      proof
        assume m: "v_Certs (view s ?h) m = Some der"
        have "well_named srv n (view s)" using ready(2) by (simp add: ready_to_import_def)
        then have "m = ?n" using i j False der(2) m unfolding well_named_def by blast
        with m None show False by simp
      qed
      have login: "?l \<notin> v_CertLogins (view s ?h)" using ready(2) i j False None by (auto simp: ready_to_import_def logins_match_def)
      have endpoint: "v_HadrEndpoint (view s ?h)" using ready(2) i by (simp add: ready_to_import_def)
      have "wp (CreateCertificateFromBinary (certs (conns ?h)) ?n der) c
          (\<lambda>_ c1. wp (CreateLoginFromCertificate (certs (conns ?h)) ?l ?n) c1
             (\<lambda>_ c2. wp (GrantEndpointConnect (certs (conns ?h)) ''hadr_endpoint'' ?l) c2 (\<lambda>x t. wp (ret x) t Q E) E3) E2) E1" for E1 E2 E3
      proof (rule wp_writes [OF cert_import [OF c(1), where h' = "replicaHost srv j" and m = ?n]])
        fix c1 assume c1: "ok c1" "view c1 = (view c)(?h := (view c ?h)\<lparr>v_Certs := (v_Certs (view c ?h))(?n \<mapsto> der)\<rparr>)"
        show "wp (CreateLoginFromCertificate (certs (conns ?h)) ?l ?n) c1
             (\<lambda>_ c2. wp (GrantEndpointConnect (certs (conns ?h)) ''hadr_endpoint'' ?l) c2 (\<lambda>x t. wp (ret x) t Q E) E3) E2"
        proof (rule wp_writes [OF login_create [OF c1(1)]])
          fix c2 assume c2: "ok c2" "view c2 = (view c1)(?h := (view c1 ?h)\<lparr>v_CertLogins := insert ?l (v_CertLogins (view c1 ?h))\<rparr>)"
          show "wp (GrantEndpointConnect (certs (conns ?h)) ''hadr_endpoint'' ?l) c2 (\<lambda>x t. wp (ret x) t Q E) E3"
            unfolding wp_ret
          proof (rule wp_writes [OF connect_grant [OF c2(1)]])
            fix c3 assume c3: "ok c3" "view c3 = (view c2)(?h := (view c2 ?h)\<lparr>v_Connects := insert ?l (v_Connects (view c2 ?h))\<rparr>)"
            show "Q () c3" by (rule post [OF c3(1)]) (simp add: c3(2) c2(2) c1(2) c(2) import_view_def None False der(1))
          qed (simp_all add: c2(2) c1(2) c(2) endpoint)
        qed (simp_all add: c1(2) c(2) login)
      qed (use None der unknown c(2) in simp_all)
      then show ?thesis using None der(1) by (simp add: wp_or_fail)
    qed
  qed
qed

lemma wp_import_peers:
  fixes w :: "('k, 'c) world"
  assumes ready: "ok (sql w)" "ready_to_import srv n b (view (sql w))" and i: "i \<in> {0..<n}"
    and up: "dial R srv (replicaHost srv i) up = Inr (conns (replicaHost srv i))"
    and post: "\<And>c. ok c \<Longrightarrow> ready_to_import srv n b (view c) \<Longrightarrow>
      view c = (view (sql w))(replicaHost srv i := import_all i b [0..n - 1] (view (sql w) (replicaHost srv i))) \<Longrightarrow> Q () (w\<lparr>sql := c\<rparr>)"
  shows "wp (import_peers R srv up [0..n - 1] b i) w Q E"
  unfolding import_peers_def
proof (rule wp_connect_replica [OF up], rule wp_for_each_prefix [where I = "\<lambda>ys w'. ok (sql w') \<and> w' = w\<lparr>sql := sql w'\<rparr> \<and>
    ready_to_import srv n b (view (sql w')) \<and>
    view (sql w') = (view (sql w))(replicaHost srv i := import_all i b ys (view (sql w) (replicaHost srv i)))"])
  fix ys j zs and w' :: "('k, 'c) world"
  assume split: "[0..n - 1] = ys @ j # zs" and w': "ok (sql w') \<and> w' = w\<lparr>sql := sql w'\<rparr> \<and> ready_to_import srv n b (view (sql w')) \<and>
    view (sql w') = (view (sql w))(replicaHost srv i := import_all i b ys (view (sql w) (replicaHost srv i)))"
  have "j \<in> set [0..n - 1]" unfolding split by simp
  then have j: "j \<in> {0..<n}" by simp
  show "wp (on_sql (import_peer (conns (replicaHost srv i)) b i j)) w' (\<lambda>_ w'. ok (sql w') \<and> w' = w\<lparr>sql := sql w'\<rparr> \<and>
      ready_to_import srv n b (view (sql w')) \<and>
      view (sql w') = (view (sql w))(replicaHost srv i := import_all i b (ys @ [j]) (view (sql w) (replicaHost srv i)))) E'" for E'
    unfolding wp_on_sql
  proof (rule wp_import_peer [OF _ _ i j, where b = b])
    show "ok (sql w')" "ready_to_import srv n b (view (sql w'))" using w' by blast+
    fix c assume c: "ok c" "view c = (view (sql w'))(replicaHost srv i := (if j = i then view (sql w') (replicaHost srv i)
      else import_view j (the (b j)) (view (sql w') (replicaHost srv i))))"
    have "ready_to_import srv n b (view c)"
      using ready_import [of srv n b "view (sql w')" i j] i j w' by (auto simp: c(2))
    moreover have "view c = (view (sql w))(replicaHost srv i := import_all i b (ys @ [j]) (view (sql w) (replicaHost srv i)))"
      using w' by (simp add: c(2) import_all_def)
    moreover have "w'\<lparr>sql := c\<rparr> = w\<lparr>sql := c\<rparr>" by (rule world_sql) (use w' in simp)
    ultimately show "ok (sql (w'\<lparr>sql := c\<rparr>)) \<and> w'\<lparr>sql := c\<rparr> = w\<lparr>sql := sql (w'\<lparr>sql := c\<rparr>)\<rparr> \<and> ready_to_import srv n b (view (sql (w'\<lparr>sql := c\<rparr>))) \<and>
        view (sql (w'\<lparr>sql := c\<rparr>)) = (view (sql w))(replicaHost srv i := import_all i b (ys @ [j]) (view (sql w) (replicaHost srv i)))"
      using c(1) by simp
  qed
next
  show "ok (sql w) \<and> w = w\<lparr>sql := sql w\<rparr> \<and> ready_to_import srv n b (view (sql w)) \<and>
    view (sql w) = (view (sql w))(replicaHost srv i := import_all i b [] (view (sql w) (replicaHost srv i)))"
    using ready by (simp add: import_all_def)
next
  fix w' :: "('k, 'c) world"
  assume w': "ok (sql w') \<and> w' = w\<lparr>sql := sql w'\<rparr> \<and> ready_to_import srv n b (view (sql w')) \<and>
    view (sql w') = (view (sql w))(replicaHost srv i := import_all i b [0..n - 1] (view (sql w) (replicaHost srv i)))"
  let ?c = "CloseClient (conns (replicaHost srv i)) (sql w')"
  have c: "ok ?c" "view ?c = view (sql w')" using close_conn w' by blast+
  have "Q () (w\<lparr>sql := ?c\<rparr>)"
  proof (rule post [OF c(1)])
    show "ready_to_import srv n b (view ?c)" unfolding c(2) using w' by blast
    show "view ?c = (view (sql w))(replicaHost srv i := import_all i b [0..n - 1] (view (sql w) (replicaHost srv i)))"
      unfolding c(2) using w' by blast
  qed
  moreover have "w'\<lparr>sql := ?c\<rparr> = w\<lparr>sql := ?c\<rparr>" by (rule world_sql) (use w' in simp)
  ultimately show "Q () (w'\<lparr>sql := ?c\<rparr>)" by simp
qed

lemma wp_all_imports:
  fixes w :: "('k, 'c) world"
  assumes ready: "ok (sql w)" "ready_to_import srv n b (view (sql w))"
    and up: "\<And>i. 0 \<le> i \<Longrightarrow> i < n \<Longrightarrow> dial R srv (replicaHost srv i) up = Inr (conns (replicaHost srv i))"
    and post: "\<And>c. ok c \<Longrightarrow> imported srv [0..n - 1] b (view (sql w)) [0..n - 1] (view c) \<Longrightarrow> Q () (w\<lparr>sql := c\<rparr>)"
  shows "wp (for_each (import_peers R srv up [0..n - 1] b) [0..n - 1]) w Q E"
proof (rule wp_for_each_prefix [where I = "\<lambda>ys w'. ok (sql w') \<and> w' = w\<lparr>sql := sql w'\<rparr> \<and>
    ready_to_import srv n b (view (sql w')) \<and> imported srv [0..n - 1] b (view (sql w)) ys (view (sql w'))"])
  fix ys i zs and w' :: "('k, 'c) world"
  assume split: "[0..n - 1] = ys @ i # zs" and w': "ok (sql w') \<and> w' = w\<lparr>sql := sql w'\<rparr> \<and>
    ready_to_import srv n b (view (sql w')) \<and> imported srv [0..n - 1] b (view (sql w)) ys (view (sql w'))"
  have elems: "set (ys @ i # zs) = {0..<n}" unfolding split [symmetric] by auto
  have dist: "distinct (ys @ i # zs)" unfolding split [symmetric] by simp
  have i: "i \<in> {0..<n}" and ys: "\<forall>j \<in> set ys. 0 \<le> j \<and> j \<noteq> i" using elems dist by auto
  show "wp (import_peers R srv up [0..n - 1] b i) w' (\<lambda>_ w'. ok (sql w') \<and> w' = w\<lparr>sql := sql w'\<rparr> \<and>
      ready_to_import srv n b (view (sql w')) \<and> imported srv [0..n - 1] b (view (sql w)) (ys @ [i]) (view (sql w'))) E"
  proof (rule wp_import_peers [OF _ _ i up])
    show "ok (sql w')" "ready_to_import srv n b (view (sql w'))" "0 \<le> i" "i < n" using w' i by simp_all
    fix c assume c: "ok c" "ready_to_import srv n b (view c)"
      "view c = (view (sql w'))(replicaHost srv i := import_all i b [0..n - 1] (view (sql w') (replicaHost srv i)))"
    have "imported srv [0..n - 1] b (view (sql w)) (ys @ [i]) (view c)"
      unfolding c(3) by (rule imported_step [OF _ ys]) (use w' i in simp_all)
    moreover have "w'\<lparr>sql := c\<rparr> = w\<lparr>sql := c\<rparr>" by (rule world_sql) (use w' in simp)
    ultimately show "ok (sql (w'\<lparr>sql := c\<rparr>)) \<and> w'\<lparr>sql := c\<rparr> = w\<lparr>sql := sql (w'\<lparr>sql := c\<rparr>)\<rparr> \<and>
        ready_to_import srv n b (view (sql (w'\<lparr>sql := c\<rparr>))) \<and> imported srv [0..n - 1] b (view (sql w)) (ys @ [i]) (view (sql (w'\<lparr>sql := c\<rparr>)))"
      using c(1,2) by simp
  qed
next
  show "ok (sql w) \<and> w = w\<lparr>sql := sql w\<rparr> \<and> ready_to_import srv n b (view (sql w)) \<and> imported srv [0..n - 1] b (view (sql w)) [] (view (sql w))"
    using ready by (simp add: imported_def)
next
  fix w' :: "('k, 'c) world"
  assume "ok (sql w') \<and> w' = w\<lparr>sql := sql w'\<rparr> \<and> ready_to_import srv n b (view (sql w')) \<and> imported srv [0..n - 1] b (view (sql w)) [0..n - 1] (view (sql w'))"
  then show "Q () w'" using post [of "sql w'"] by metis
qed

end

lemma import_all_certs: "m \<notin> cert_name ` set js \<Longrightarrow> v_Certs (import_all i b js v) m = v_Certs v m"
  by (induction js arbitrary: v) (auto simp: import_all_def import_view_def)

lemma import_all_logins:
  "\<forall>j \<in> set js - {i}. l \<noteq> cert_login j \<Longrightarrow> (l \<in> v_CertLogins (import_all i b js v) \<longleftrightarrow> l \<in> v_CertLogins v) \<and>
     (l \<in> v_Connects (import_all i b js v) \<longleftrightarrow> l \<in> v_Connects v)"
  by (induction js arbitrary: v) (simp_all add: import_all_def import_view_def insert_Diff_if)

section \<open>The distribution\<close>

text \<open>
  What a run leaves: every replica has a master key, an endpoint and a certificate of its own, which is
  the one it had if it had one; of every peer whose certificate it lacked it has the one that peer holds,
  with a login that may connect to the endpoint. No other certificate, login or permission changes, and no
  other server.
\<close>

definition unrelated_kept :: "int \<Rightarrow> int \<Rightarrow> CertView \<Rightarrow> CertView \<Rightarrow> bool" where
  "unrelated_kept n i v v' \<longleftrightarrow> (\<forall>m. m \<notin> cert_name ` {0..<n} \<longrightarrow> v_Certs v' m = v_Certs v m) \<and>
     (\<forall>l. l \<notin> cert_login ` ({0..<n} - {i}) \<longrightarrow>
        (l \<in> v_CertLogins v' \<longleftrightarrow> l \<in> v_CertLogins v) \<and> (l \<in> v_Connects v' \<longleftrightarrow> l \<in> v_Connects v))"

definition exchanged :: "SQLServer \<Rightarrow> int \<Rightarrow> (string \<Rightarrow> CertView) \<Rightarrow> (string \<Rightarrow> CertView) \<Rightarrow> bool" where
  "exchanged srv n v v' \<longleftrightarrow>
     (\<forall>i \<in> {0..<n}. v_MasterKey (v' (replicaHost srv i)) \<and> v_HadrEndpoint (v' (replicaHost srv i)) \<and>
        v_Certs (v' (replicaHost srv i)) (cert_name i) \<noteq> None \<and>
        (\<forall>der. v_Certs (v (replicaHost srv i)) (cert_name i) = Some der \<longrightarrow> v_Certs (v' (replicaHost srv i)) (cert_name i) = Some der) \<and>
        (\<forall>j \<in> {0..<n} - {i}. peer_settled j (v_Certs (v' (replicaHost srv j)) (cert_name j)) (v (replicaHost srv i)) (v' (replicaHost srv i))) \<and>
        unrelated_kept n i (v (replicaHost srv i)) (v' (replicaHost srv i))) \<and>
     (\<forall>h. h \<notin> replicaHost srv ` {0..<n} \<longrightarrow> v' h = v h)"

lemma own_view_other: "0 \<le> i \<Longrightarrow> 0 \<le> j \<Longrightarrow> i \<noteq> j \<Longrightarrow> same_peer j v (own_view i der v)"
  by (simp add: same_peer_def own_view_def cert_name_inject)

lemma imported_exchanged:
  assumes own: "own_done srv n v0 [0..n - 1] b v1" and imp: "imported srv [0..n - 1] b v1 [0..n - 1] v2"
  shows "exchanged srv n v0 v2"
proof -
  have range: "set [0..n - 1] = {0..<n}" by auto
  have passes: "\<exists>der. b i = Some der \<and> v2 (replicaHost srv i) = import_all i b [0..n - 1] (own_view i der (v0 (replicaHost srv i))) \<and>
      (\<forall>d. v_Certs (v0 (replicaHost srv i)) (cert_name i) = Some d \<longrightarrow> d = der)" if i: "i \<in> {0..<n}" for i
  proof -
    have "i \<in> set [0..n - 1]" using i by simp
    moreover from this imp have "v2 (replicaHost srv i) = import_all i b [0..n - 1] (v1 (replicaHost srv i))"
      unfolding imported_def by blast
    ultimately show ?thesis using own unfolding own_done_def by fastforce
  qed
  have bytes: "\<forall>j \<in> set [0..n - 1]. 0 \<le> j \<and> b j \<noteq> None" using passes by fastforce
  have mine: "v_Certs (v2 (replicaHost srv i)) (cert_name i) = b i" if i: "i \<in> {0..<n}" for i
  proof -
    obtain der where der: "b i = Some der" "v2 (replicaHost srv i) = import_all i b [0..n - 1] (own_view i der (v0 (replicaHost srv i)))"
      using passes [OF i] by blast
    have "same_peer i (own_view i der (v0 (replicaHost srv i))) (v2 (replicaHost srv i))"
      unfolding der(2) by (rule import_all_other) (use i bytes in auto)
    then show ?thesis by (simp add: same_peer_def own_view_def der(1))
  qed
  have peers: "peer_settled j (b j) (v0 (replicaHost srv i)) (v2 (replicaHost srv i))" if i: "i \<in> {0..<n}" and j: "j \<in> {0..<n} - {i}" for i j
  proof -
    obtain der where der: "v2 (replicaHost srv i) = import_all i b [0..n - 1] (own_view i der (v0 (replicaHost srv i)))"
      using passes [OF i] by blast
    have "peer_settled j (b j) (own_view i der (v0 (replicaHost srv i))) (v2 (replicaHost srv i))"
      unfolding der by (rule import_all_peer [OF bytes]) (use j in auto)
    moreover have "same_peer j (v0 (replicaHost srv i)) (own_view i der (v0 (replicaHost srv i)))"
      by (rule own_view_other) (use i j in auto)
    ultimately show ?thesis by (rule peer_settled_same(1) [rotated])
  qed
  have "v_MasterKey (v2 (replicaHost srv i)) \<and> v_HadrEndpoint (v2 (replicaHost srv i)) \<and> v_Certs (v2 (replicaHost srv i)) (cert_name i) \<noteq> None \<and>
      (\<forall>der. v_Certs (v0 (replicaHost srv i)) (cert_name i) = Some der \<longrightarrow> v_Certs (v2 (replicaHost srv i)) (cert_name i) = Some der)"
    if i: "i \<in> {0..<n}" for i
    using passes [OF i] mine [OF i] by (auto simp: import_all_rest own_view_def)
  moreover have "v2 h = v0 h" if "h \<notin> replicaHost srv ` {0..<n}" for h
    using own imp that unfolding own_done_def imported_def range by simp
  moreover have "peer_settled j (v_Certs (v2 (replicaHost srv j)) (cert_name j)) (v0 (replicaHost srv i)) (v2 (replicaHost srv i))"
    if "i \<in> {0..<n}" and "j \<in> {0..<n} - {i}" for i j
    using peers [OF that] mine [of j] that by simp
  moreover have "unrelated_kept n i (v0 (replicaHost srv i)) (v2 (replicaHost srv i))" if i: "i \<in> {0..<n}" for i
  proof -
    obtain der where der: "v2 (replicaHost srv i) = import_all i b [0..n - 1] (own_view i der (v0 (replicaHost srv i)))"
      using passes [OF i] by blast
    have "v_Certs (v2 (replicaHost srv i)) m = v_Certs (v0 (replicaHost srv i)) m" if "m \<notin> cert_name ` {0..<n}" for m
      using import_all_certs [of m "[0..n - 1]"] that i unfolding der range by (auto simp: own_view_def)
    moreover have "(l \<in> v_CertLogins (v2 (replicaHost srv i)) \<longleftrightarrow> l \<in> v_CertLogins (v0 (replicaHost srv i))) \<and>
        (l \<in> v_Connects (v2 (replicaHost srv i)) \<longleftrightarrow> l \<in> v_Connects (v0 (replicaHost srv i)))" if "l \<notin> cert_login ` ({0..<n} - {i})" for l
    proof -
      have "\<forall>j \<in> set [0..n - 1] - {i}. l \<noteq> cert_login j" using that unfolding range by blast
      from import_all_logins [OF this] show ?thesis unfolding der by (simp add: own_view_def)
    qed
    ultimately show ?thesis by (simp add: unrelated_kept_def)
  qed
  ultimately show ?thesis unfolding exchanged_def by blast
qed

lemma distribution_credentials_run:
  assumes laws: "sqlserver_laws R A store" and inst: "srv_Instance (Spec srv) = Some inst"
    and sa: "srv_CredentialsSecret (Spec srv) = None \<Longrightarrow> inst_SAPasswordSecret inst \<noteq> []"
    and login: "server_login (store k) srv = Inr up"
  shows "distribution_credentials (kclient R) srv inst k = (Inr up, k)"
proof (cases "srv_CredentialsSecret (Spec srv)")
  case None
  with login inst have "secret_sa (st_Secrets (store k) (cr_Namespace srv, inst_SAPasswordSecret inst)) = Inr up" by (simp add: server_login_def)
  then show ?thesis
    using secret_login_run(2) [OF laws, where k = k and ns = "cr_Namespace srv" and c = "inst_SAPasswordSecret inst"] None sa
    by (simp add: distribution_credentials_def or_fail_def attempt_def)
next
  case (Some c)
  then obtain name ns where c: "srv_CredentialsSecret (Spec srv) = Some (name, ns)" by (cases c) simp
  let ?ns = "case ns of None \<Rightarrow> cr_Namespace srv | Some n \<Rightarrow> n"
  have "secret_login (st_Secrets (store k) (?ns, name)) = Inr up" using login c by (simp add: server_login_def)
  then show ?thesis
    using secret_login_run(1) [OF laws, where k = k and ns = ?ns and c = name] c
    by (simp add: distribution_credentials_def or_fail_def attempt_def)
qed

context cert_fleet
begin

lemma distributed:
  fixes w :: "('k, 'c) world"
  assumes creds: "distribution_credentials (kclient R) srv inst (kube w) = (Inr up, kube w)"
    and up: "\<And>i. 0 \<le> i \<Longrightarrow> i < replica_count inst \<Longrightarrow> dial R srv (replicaHost srv i) up = Inr (conns (replicaHost srv i))"
    and size: "is_int32 (replica_count inst)" and w: "ok (sql w)"
    and names: "well_named srv (replica_count inst) (view (sql w))" "logins_match srv (replica_count inst) (view (sql w))"
  shows "succeeds (distributeCertificatesToSQL R srv inst) w
    (\<lambda>_ w'. kube w' = kube w \<and> ok (sql w') \<and> exchanged srv (replica_count inst) (view (sql w)) (view (sql w')))"
proof -
  let ?n = "replica_count inst"
  have range: "replica_range ?n = [0..?n - 1]" using size by simp
  show ?thesis
    unfolding distributeCertificatesToSQL_def Let_def range wp_attempt wp_on_kube
      succeeds_eq [where m = "distribution_credentials (kclient R) srv inst", OF creds]
  proof (rule wp_own_certificates)
    show "ok (sql (w\<lparr>kube := kube w\<rparr>))" "well_named srv ?n (view (sql (w\<lparr>kube := kube w\<rparr>)))" "logins_match srv ?n (view (sql (w\<lparr>kube := kube w\<rparr>)))"
      using w names by simp_all
    fix b c assume c: "ok c" "own_done srv ?n (view (sql (w\<lparr>kube := kube w\<rparr>))) [0..?n - 1] b (view c)"
    show "succeeds (for_each (import_peers R srv up [0..?n - 1] b) [0..?n - 1]) (w\<lparr>kube := kube w\<rparr>\<lparr>sql := c\<rparr>)
        (\<lambda>_ w'. kube w' = kube w \<and> ok (sql w') \<and> exchanged srv ?n (view (sql w)) (view (sql w')))"
    proof (rule wp_all_imports)
      show "ok (sql (w\<lparr>kube := kube w\<rparr>\<lparr>sql := c\<rparr>))" "ready_to_import srv ?n b (view (sql (w\<lparr>kube := kube w\<rparr>\<lparr>sql := c\<rparr>)))"
        using c own_done_ready by simp_all
      fix c' assume c': "ok c'" "imported srv [0..?n - 1] b (view (sql (w\<lparr>kube := kube w\<rparr>\<lparr>sql := c\<rparr>))) [0..?n - 1] (view c')"
      have "exchanged srv ?n (view (sql w)) (view c')" by (rule imported_exchanged [where b = b and ?v1.0 = "view c"]) (use c c' in simp_all)
      with c'(1) show "kube (w\<lparr>kube := kube w\<rparr>\<lparr>sql := c\<rparr>\<lparr>sql := c'\<rparr>) = kube w \<and> ok (sql (w\<lparr>kube := kube w\<rparr>\<lparr>sql := c\<rparr>\<lparr>sql := c'\<rparr>)) \<and>
          exchanged srv ?n (view (sql w)) (view (sql (w\<lparr>kube := kube w\<rparr>\<lparr>sql := c\<rparr>\<lparr>sql := c'\<rparr>)))"
        by simp
    qed (rule up)
  qed (rule up)
qed

end

end
