(* ===== verification/MSSQL_Certificates.thy ===== *)
theory MSSQL_Certificates
  imports MSSQL_Schemas Cert_Distribution
begin

text \<open>
  The client of \<open>internal/sql/client.go\<close> keeps the promises of \<open>cert_fleet\<close> when the servers of a cluster
  execute T-SQL about certificates, logins and endpoints as documented; so a run of
  \<open>distributeCertificatesToSQL\<close> gives every replica the certificates of its peers.
\<close>

section \<open>The statements\<close>

lemma hex_word: "(\<And>b. b \<in> set bs \<Longrightarrow> b < 256) \<Longrightarrow> c \<in> set (hex_bytes bs) \<Longrightarrow> is_wordchar c"
proof -
  have digit: "is_wordchar (hex_digit n)" if "n < 16" for n
    using that by (auto simp: hex_digit_def is_wordchar_def Let_def)
  have half: "b div 16 < 16" if "b < 256" for b :: nat using that by (simp add: div_less_iff_less_mult)
  show "(\<And>b. b \<in> set bs \<Longrightarrow> b < 256) \<Longrightarrow> c \<in> set (hex_bytes bs) \<Longrightarrow> is_wordchar c"
    using half by (auto simp: hex_bytes_def intro!: digit)
qed

definition bytes :: "nat list \<Rightarrow> bool" where
  "bytes bs \<longleftrightarrow> (\<forall>b \<in> set bs. b < 256)"

definition import_tokens :: "string \<Rightarrow> string \<Rightarrow> token list" where
  "import_tokens n w = words [''CREATE'', ''CERTIFICATE''] @ [Ident n] @ words [''FROM'', ''BINARY''] @ [Sym CHR ''='', Word w]"

lemma CreateCertificateFromBinary_text:
  assumes "bytes bs"
  shows "tokenize (''CREATE CERTIFICATE '' @ QuoteName n @ '' FROM BINARY = 0x'' @ hex_bytes bs) = Some (import_tokens n (''0x'' @ hex_bytes bs))"
proof (rule reads_back [where ps = "[Txt ''CREATE CERTIFICATE '', Nam n, Txt '' FROM BINARY = '', Wrd (''0x'' @ hex_bytes bs)]"])
  have "plain_word (''0x'' @ hex_bytes bs)"
    using assms hex_word [of bs] by (auto simp: plain_word_def bytes_def is_wordchar_def)
  moreover have "tokenize ''CREATE CERTIFICATE '' = Some (words [''CREATE'', ''CERTIFICATE''])" "piece_ends ''CREATE CERTIFICATE ''"
    "tokenize '' FROM BINARY = '' = Some (words [''FROM'', ''BINARY''] @ [Sym CHR ''=''])" "piece_ends '' FROM BINARY = ''"
    by code_simp+
  ultimately show "well_spaced [Txt ''CREATE CERTIFICATE '', Nam n, Txt '' FROM BINARY = '', Wrd (''0x'' @ hex_bytes bs)]"
    and "concat (List.map part_tokens [Txt ''CREATE CERTIFICATE '', Nam n, Txt '' FROM BINARY = '', Wrd (''0x'' @ hex_bytes bs)]) =
      import_tokens n (''0x'' @ hex_bytes bs)"
    by (simp_all add: import_tokens_def del: append.simps)
qed simp

definition endpoint_tokens :: "string \<Rightarrow> token list" where
  "endpoint_tokens n =
     words [''CREATE'', ''ENDPOINT'', ''hadr_endpoint'', ''STATE''] @ [Sym CHR ''=''] @ words [''STARTED'', ''AS'', ''TCP''] @ [Sym CHR ''(''] @
     words [''LISTENER_PORT''] @ [Sym CHR ''=''] @ words [''5022''] @ [Sym CHR '')''] @ words [''FOR'', ''DATABASE_MIRRORING''] @ [Sym CHR ''(''] @
     words [''ROLE''] @ [Sym CHR ''=''] @ words [''ALL''] @ [Sym CHR '',''] @ words [''AUTHENTICATION''] @ [Sym CHR ''=''] @ words [''CERTIFICATE''] @
     [Ident n, Sym CHR '',''] @ words [''ENCRYPTION''] @ [Sym CHR ''=''] @ words [''DISABLED''] @ [Sym CHR '')'']"

lemma CreateHADREndpointWithCert_text:
  "tokenize (''CREATE ENDPOINT hadr_endpoint'' @ newline @ ''    STATE = STARTED'' @ newline @
     ''    AS TCP (LISTENER_PORT = '' @ show_int hadrEndpointPort @ '')'' @ newline @ ''    FOR DATABASE_MIRRORING ('' @ newline @
     ''        ROLE = ALL,'' @ newline @ ''        AUTHENTICATION = CERTIFICATE '' @ QuoteName n @ '','' @ newline @
     ''        ENCRYPTION = DISABLED'' @ newline @ ''    )'') = Some (endpoint_tokens n)"
proof -
  let ?before = "''CREATE ENDPOINT hadr_endpoint'' @ newline @ ''    STATE = STARTED'' @ newline @
     ''    AS TCP (LISTENER_PORT = 5022)'' @ newline @ ''    FOR DATABASE_MIRRORING ('' @ newline @
     ''        ROLE = ALL,'' @ newline @ ''        AUTHENTICATION = CERTIFICATE ''"
  let ?after = "'','' @ newline @ ''        ENCRYPTION = DISABLED'' @ newline @ ''    )''"
  have "char_of (53 :: nat) = CHR ''5''" "char_of (48 :: nat) = CHR ''0''" "char_of (50 :: nat) = CHR ''2''" by code_simp+
  then have port: "show_int hadrEndpointPort = ''5022''"
    by (simp add: show_int_def hadrEndpointPort_def digits_of.simps [of 5022] digits_of.simps [of 502] digits_of.simps [of 50] digits_of.simps [of 5])
  have pieces: "tokenize (?before) = Some (words [''CREATE'', ''ENDPOINT'', ''hadr_endpoint'', ''STATE''] @ [Sym CHR ''=''] @
       words [''STARTED'', ''AS'', ''TCP''] @ [Sym CHR ''(''] @ words [''LISTENER_PORT''] @ [Sym CHR ''=''] @ words [''5022''] @ [Sym CHR '')''] @
       words [''FOR'', ''DATABASE_MIRRORING''] @ [Sym CHR ''(''] @ words [''ROLE''] @ [Sym CHR ''=''] @ words [''ALL''] @ [Sym CHR '',''] @
       words [''AUTHENTICATION''] @ [Sym CHR ''=''] @ words [''CERTIFICATE''])"
    by code_simp
  have ends: "piece_ends (?before)" by code_simp
  have rest: "tokenize (?after) = Some ([Sym CHR '',''] @ words [''ENCRYPTION''] @ [Sym CHR ''=''] @ words [''DISABLED''] @ [Sym CHR '')''])"
    by code_simp
  have opens: "\<not> opens_with CHR '']'' [Txt ?after]" by code_simp
  have texts: "well_spaced [Txt ?before, Nam n, Txt ?after]" "concat (List.map part_tokens [Txt ?before, Nam n, Txt ?after]) = endpoint_tokens n"
    using pieces ends rest opens by (simp_all add: endpoint_tokens_def del: append.simps)
  show ?thesis by (rule reads_back [OF _ texts]) (simp add: port)
qed

definition binary_tokens :: "string \<Rightarrow> token list" where
  "binary_tokens n = words [''SELECT'', ''CERTENCODED''] @ [Sym CHR ''(''] @ words [''CERT_ID''] @ [Sym CHR ''('', Lit n, Sym CHR '')'', Sym CHR '')'']"

lemma GetCertificateBinary_text:
  "tokenize (''SELECT CERTENCODED(CERT_ID('' @ QuoteString n @ ''))'') = Some (binary_tokens n)"
  by (rule reads_back [where ps = "[Txt ''SELECT CERTENCODED(CERT_ID('', Str n, Txt ''))'']"], simp, code_simp, code_simp)

section \<open>What the servers do with them\<close>

definition master_key_query :: string where
  "master_key_query = ''SELECT CASE WHEN EXISTS (SELECT 1 FROM sys.symmetric_keys WHERE name = '' @ sq_text ''##MS_DatabaseMasterKey##'' @
     '') THEN 1 ELSE 0 END''"

definition endpoint_query :: string where
  "endpoint_query = ''SELECT CASE WHEN EXISTS (SELECT 1 FROM sys.database_mirroring_endpoints) THEN 1 ELSE 0 END''"

definition cert_query :: string where
  "cert_query = ''SELECT CASE WHEN EXISTS (SELECT 1 FROM sys.certificates WHERE name = @p1) THEN 1 ELSE 0 END''"

definition yes_no :: "bool \<Rightarrow> sql_rows" where
  "yes_no b = ([[SqlInt (if b then 1 else 0)]], None)"

text \<open>\<open>D h\<close> is the database handle of the server with host name \<open>h\<close>; \<open>view s h\<close> is what that server holds.\<close>

definition tsql_cert_queries :: "(string \<Rightarrow> 'd Driver) \<Rightarrow> ('d \<Rightarrow> bool) \<Rightarrow> ('d \<Rightarrow> string \<Rightarrow> CertView) \<Rightarrow> bool" where
  "tsql_cert_queries D ok view \<longleftrightarrow>
     (\<forall>s h. ok s \<longrightarrow>
        reads ok view (Query (D h) master_key_query []) s (yes_no (v_MasterKey (view s h))) \<and>
        reads ok view (Query (D h) endpoint_query []) s (yes_no (v_HadrEndpoint (view s h))) \<and>
        (\<forall>n. reads ok view (Query (D h) cert_query [n]) s (yes_no (v_Certs (view s h) n \<noteq> None))) \<and>
        (\<forall>q n der. tokenize q = Some (binary_tokens n) \<longrightarrow> v_Certs (view s h) n = Some der \<longrightarrow>
           reads ok view (Query (D h) q []) s ([[SqlBytes der]], None)) \<and>
        (\<forall>n der. v_Certs (view s h) n = Some der \<longrightarrow> bytes der) \<and>
        ok (CloseDB (D h) s) \<and> view (CloseDB (D h) s) = view s)"

definition tsql_cert_statements :: "(string \<Rightarrow> 'd Driver) \<Rightarrow> ('d \<Rightarrow> bool) \<Rightarrow> ('d \<Rightarrow> string \<Rightarrow> CertView) \<Rightarrow> bool" where
  "tsql_cert_statements D ok view \<longleftrightarrow>
     (\<forall>s h q i. ok s \<longrightarrow>
        (\<forall>x. tokenize q = Some (words [''CREATE'', ''MASTER'', ''KEY'', ''ENCRYPTION'', ''BY'', ''PASSWORD''] @ [Sym CHR ''='', Lit (''MasterKey'' @ x @ ''P@ss!'')]) \<longrightarrow>
           \<not> v_MasterKey (view s h) \<longrightarrow> writes ok view (Exec (D h) q) s ((view s)(h := (view s h)\<lparr>v_MasterKey := True\<rparr>))) \<and>
        (\<forall>x. tokenize q = Some (words [''CREATE'', ''CERTIFICATE''] @ [Ident (cert_name i)] @ words [''WITH'', ''SUBJECT''] @
             [Sym CHR ''='', Lit x, Sym CHR '',''] @ words [''EXPIRY_DATE''] @ [Sym CHR ''='', Lit ''2030-01-01'']) \<longrightarrow>
           v_MasterKey (view s h) \<longrightarrow> v_Certs (view s h) (cert_name i) = None \<longrightarrow>
           (\<exists>der. (\<forall>h' m. v_Certs (view s h') m \<noteq> Some der) \<and>
              writes ok view (Exec (D h) q) s ((view s)(h := (view s h)\<lparr>v_Certs := (v_Certs (view s h))(cert_name i \<mapsto> der)\<rparr>)))) \<and>
        (tokenize q = Some (endpoint_tokens (cert_name i)) \<longrightarrow> \<not> v_HadrEndpoint (view s h) \<longrightarrow> v_Certs (view s h) (cert_name i) \<noteq> None \<longrightarrow>
           writes ok view (Exec (D h) q) s ((view s)(h := (view s h)\<lparr>v_HadrEndpoint := True\<rparr>))) \<and>
        (\<forall>h' m der. tokenize q = Some (import_tokens (cert_name i) (''0x'' @ hex_bytes der)) \<longrightarrow> v_Certs (view s h) (cert_name i) = None \<longrightarrow>
           v_Certs (view s h') m = Some der \<longrightarrow> (\<forall>m. v_Certs (view s h) m \<noteq> Some der) \<longrightarrow>
           writes ok view (Exec (D h) q) s ((view s)(h := (view s h)\<lparr>v_Certs := (v_Certs (view s h))(cert_name i \<mapsto> der)\<rparr>))) \<and>
        (tokenize q = Some (words [''CREATE'', ''LOGIN''] @ [Ident (cert_login i)] @ words [''FROM'', ''CERTIFICATE''] @ [Ident (cert_name i)]) \<longrightarrow>
           cert_login i \<notin> v_CertLogins (view s h) \<longrightarrow> v_Certs (view s h) (cert_name i) \<noteq> None \<longrightarrow>
           writes ok view (Exec (D h) q) s ((view s)(h := (view s h)\<lparr>v_CertLogins := insert (cert_login i) (v_CertLogins (view s h))\<rparr>))) \<and>
        (tokenize q = Some (words [''GRANT'', ''CONNECT'', ''ON'', ''ENDPOINT''] @ [Sym CHR '':'', Sym CHR '':'', Ident ''hadr_endpoint''] @
             words [''TO''] @ [Ident (cert_login i)]) \<longrightarrow>
           cert_login i \<in> v_CertLogins (view s h) \<longrightarrow> v_HadrEndpoint (view s h) \<longrightarrow>
           writes ok view (Exec (D h) q) s ((view s)(h := (view s h)\<lparr>v_Connects := insert (cert_login i) (v_Connects (view s h))\<rparr>))))"

lemmas tsql_cert_queriesD = tsql_cert_queries_def [THEN iffD1, rule_format]
lemmas tsql_cert_statementsD = tsql_cert_statements_def [THEN iffD1, rule_format]

section \<open>The client keeps the contract\<close>

lemma exec_or_writes: "writes ok view (Exec D q) s v \<Longrightarrow> writes ok view (exec_or D msg q) s v"
  by (auto simp: writes_def exec_or_def or_fail_def attempt_def)

lemma query_row_reads:
  "reads ok view (Query D q args) s ([row], None) \<Longrightarrow> scan row = Inr x \<Longrightarrow> reads ok view (query_row D q args scan) s x"
  by (auto simp: reads_def query_row_def attempt_def first_row_def from_res_def)

lemma yes_no_reads:
  "reads ok view (Query D q args) s (yes_no b) \<Longrightarrow> reads ok view (query_row D q args (scan1 scan_bool)) s b"
  unfolding yes_no_def by (erule query_row_reads) (simp add: scan1_def)

lemma mssql_certs_simps:
  "MasterKeyExists (certs (mssql_client D)) = MSSQL_MasterKeyExists D" "CreateMasterKey (certs (mssql_client D)) = MSSQL_CreateMasterKey D"
  "CertificateExists (certs (mssql_client D)) = MSSQL_CertificateExists D" "CreateCertificate (certs (mssql_client D)) = MSSQL_CreateCertificate D"
  "HADREndpointExists (ags (mssql_client D)) = MSSQL_HADREndpointExists D"
  "CreateHADREndpointWithCert (certs (mssql_client D)) = MSSQL_CreateHADREndpointWithCert D"
  "GetCertificateBinary (certs (mssql_client D)) = MSSQL_GetCertificateBinary D"
  "CreateCertificateFromBinary (certs (mssql_client D)) = MSSQL_CreateCertificateFromBinary D"
  "CreateLoginFromCertificate (certs (mssql_client D)) = MSSQL_CreateLoginFromCertificate D"
  "GrantEndpointConnect (certs (mssql_client D)) = MSSQL_GrantEndpointConnect D" "CloseClient (mssql_client D) = MSSQL_Close D"
  by (simp_all add: mssql_client_def)

lemma mssql_cert_fleet:
  assumes q: "tsql_cert_queries D ok view" and st: "tsql_cert_statements D ok view"
  shows "cert_fleet (\<lambda>h. mssql_client (D h)) ok view"
proof (unfold_locales, unfold mssql_certs_simps)
  fix s h assume s: "ok s"
  note queries = tsql_cert_queriesD [OF q s]
  show "reads ok view (MSSQL_MasterKeyExists (D h)) s (v_MasterKey (view s h))"
    unfolding MSSQL_MasterKeyExists_def master_key_query_def [symmetric] by (rule yes_no_reads) (use queries in blast)
  show "reads ok view (MSSQL_HADREndpointExists (D h)) s (v_HadrEndpoint (view s h))"
    unfolding MSSQL_HADREndpointExists_def endpoint_query_def [symmetric] by (rule yes_no_reads) (use queries in blast)
  show "reads ok view (MSSQL_CertificateExists (D h) (cert_name i)) s (v_Certs (view s h) (cert_name i) \<noteq> None)" for i
    unfolding MSSQL_CertificateExists_def cert_query_def [symmetric] by (rule yes_no_reads) (use queries in blast)
  show "ok (MSSQL_Close (D h) s) \<and> view (MSSQL_Close (D h) s) = view s"
    unfolding MSSQL_Close_def using queries by blast
  show "reads ok view (MSSQL_GetCertificateBinary (D h) (cert_name i)) s der" if "v_Certs (view s h) (cert_name i) = Some der" for i der
    unfolding MSSQL_GetCertificateBinary_def
    by (rule or_fail_reads [where f = "\<lambda>x. x"], rule query_row_reads [where row = "[SqlBytes der]"])
       (use queries GetCertificateBinary_text that in blast, simp add: scan1_def)
next
  fix s h name assume s: "ok s" and none: "\<not> v_MasterKey (view s h)"
  show "writes ok view (MSSQL_CreateMasterKey (D h) (''MasterKey'' @ name @ ''P@ss!'')) s ((view s)(h := (view s h)\<lparr>v_MasterKey := True\<rparr>))"
    unfolding MSSQL_CreateMasterKey_def
    by (rule exec_or_writes) (use tsql_cert_statementsD [OF st s] CreateMasterKey_text none in blast)
next
  fix s h i subject assume s: "ok s" and pre: "v_MasterKey (view s h)" "v_Certs (view s h) (cert_name i) = None"
  show "\<exists>der. (\<forall>h' m. v_Certs (view s h') m \<noteq> Some der) \<and>
      writes ok view (MSSQL_CreateCertificate (D h) (cert_name i) subject ''2030-01-01'') s
        ((view s)(h := (view s h)\<lparr>v_Certs := (v_Certs (view s h))(cert_name i \<mapsto> der)\<rparr>))"
    unfolding MSSQL_CreateCertificate_def using tsql_cert_statementsD [OF st s] CreateCertificate_text pre by (blast intro: exec_or_writes)
next
  fix s h i assume s: "ok s" and pre: "\<not> v_HadrEndpoint (view s h)" "v_Certs (view s h) (cert_name i) \<noteq> None"
  show "writes ok view (MSSQL_CreateHADREndpointWithCert (D h) hadrEndpointPort (cert_name i)) s ((view s)(h := (view s h)\<lparr>v_HadrEndpoint := True\<rparr>))"
    unfolding MSSQL_CreateHADREndpointWithCert_def
    by (rule exec_or_writes) (use tsql_cert_statementsD [OF st s] CreateHADREndpointWithCert_text pre in blast)
next
  fix s h i h' m der
  assume s: "ok s" and pre: "v_Certs (view s h) (cert_name i) = None" "v_Certs (view s h') m = Some der" "\<And>m. v_Certs (view s h) m \<noteq> Some der"
  have "bytes der" using tsql_cert_queriesD [OF q s] pre(2) by blast
  then show "writes ok view (MSSQL_CreateCertificateFromBinary (D h) (cert_name i) der) s
      ((view s)(h := (view s h)\<lparr>v_Certs := (v_Certs (view s h))(cert_name i \<mapsto> der)\<rparr>))"
    unfolding MSSQL_CreateCertificateFromBinary_def
    by (intro exec_or_writes) (use tsql_cert_statementsD [OF st s] CreateCertificateFromBinary_text pre in blast)
next
  fix s h i assume s: "ok s" and pre: "cert_login i \<notin> v_CertLogins (view s h)" "v_Certs (view s h) (cert_name i) \<noteq> None"
  show "writes ok view (MSSQL_CreateLoginFromCertificate (D h) (cert_login i) (cert_name i)) s
      ((view s)(h := (view s h)\<lparr>v_CertLogins := insert (cert_login i) (v_CertLogins (view s h))\<rparr>))"
    unfolding MSSQL_CreateLoginFromCertificate_def
    by (rule exec_or_writes) (use tsql_cert_statementsD [OF st s] CreateLoginFromCertificate_text pre in blast)
next
  fix s h i assume s: "ok s" and pre: "cert_login i \<in> v_CertLogins (view s h)" "v_HadrEndpoint (view s h)"
  show "writes ok view (MSSQL_GrantEndpointConnect (D h) ''hadr_endpoint'' (cert_login i)) s
      ((view s)(h := (view s h)\<lparr>v_Connects := insert (cert_login i) (v_Connects (view s h))\<rparr>))"
    unfolding MSSQL_GrantEndpointConnect_def
    by (rule exec_or_writes) (use tsql_cert_statementsD [OF st s] GrantEndpointConnect_text pre in blast)
qed


section \<open>Servers that do\<close>

text \<open>
  An example of such servers: the statements are executed on what the servers hold. The number counts the
  certificates made so far; a new one is longer than every one there is.
\<close>

type_synonym cert_engine = "nat \<times> (string \<Rightarrow> CertView)"

definition engine_ok :: "cert_engine \<Rightarrow> bool" where
  "engine_ok s \<longleftrightarrow> (\<forall>h m der. v_Certs (snd s h) m = Some der \<longrightarrow> length der < fst s \<and> bytes der)"

definition hex_value :: "char \<Rightarrow> nat" where
  "hex_value c = (let n = of_char c in if n < 58 then n - 48 else n - 87) mod 16"

fun read_hex :: "string \<Rightarrow> nat list" where
  "read_hex (c # d # cs) = (16 * hex_value c + hex_value d) # read_hex cs"
| "read_hex _ = []"

lemma hex_value_digit: "n < 16 \<Longrightarrow> hex_value (hex_digit n) = n"
  by (auto simp: hex_value_def hex_digit_def)

lemma bytes_Cons [simp]: "bytes [] \<and> (bytes (b # bs) \<longleftrightarrow> b < 256 \<and> bytes bs)"
  by (simp add: bytes_def)

lemma read_hex_bytes: "bytes bs \<Longrightarrow> read_hex (hex_bytes bs) = bs"
proof (induction bs)
  case (Cons b bs)
  have "b div 16 < 16" using Cons.prems by (simp add: div_less_iff_less_mult)
  then have "hex_value (hex_digit (b div 16)) = b div 16" "hex_value (hex_digit (b mod 16)) = b mod 16" by (simp_all add: hex_value_digit)
  then show ?case using Cons by (simp add: hex_bytes_def)
qed (simp add: hex_bytes_def)

lemma bytes_read_hex: "bytes (read_hex cs)"
proof (induction cs rule: read_hex.induct)
  case (1 c d cs)
  have "hex_value x < 16" for x by (simp add: hex_value_def)
  from this [of c] this [of d] show ?case using 1 by simp
qed simp_all

definition hex_of :: "token list \<Rightarrow> nat list" where
  "hex_of ts = (case rev ts of Word w # _ \<Rightarrow> read_hex (drop 2 w) | _ \<Rightarrow> [])"

lemma hex_of_import: "hex_of (import_tokens n w) = read_hex (drop 2 w)"
  by (simp add: hex_of_def import_tokens_def)

definition master_tokens :: "string \<Rightarrow> token list" where
  "master_tokens p = words [''CREATE'', ''MASTER'', ''KEY'', ''ENCRYPTION'', ''BY'', ''PASSWORD''] @ [Sym CHR ''='', Lit p]"

definition create_tokens :: "string \<Rightarrow> string \<Rightarrow> string \<Rightarrow> token list" where
  "create_tokens n x e = words [''CREATE'', ''CERTIFICATE''] @ [Ident n] @ words [''WITH'', ''SUBJECT''] @ [Sym CHR ''='', Lit x, Sym CHR '',''] @
     words [''EXPIRY_DATE''] @ [Sym CHR ''='', Lit e]"

definition login_tokens :: "string \<Rightarrow> string \<Rightarrow> token list" where
  "login_tokens l n = words [''CREATE'', ''LOGIN''] @ [Ident l] @ words [''FROM'', ''CERTIFICATE''] @ [Ident n]"

definition grant_tokens :: "string \<Rightarrow> string \<Rightarrow> token list" where
  "grant_tokens x l = words [''GRANT'', ''CONNECT'', ''ON'', ''ENDPOINT''] @ [Sym CHR '':'', Sym CHR '':'', Ident x] @ words [''TO''] @ [Ident l]"

fun names_in :: "token list \<Rightarrow> string list \<times> string list" where
  "names_in [] = ([], [])"
| "names_in (t # ts) = (case names_in ts of (ns, ls) \<Rightarrow> case t of Ident n \<Rightarrow> (n # ns, ls) | Lit l \<Rightarrow> (ns, l # ls) | _ \<Rightarrow> (ns, ls))"

lemmas cert_tokens = master_tokens_def create_tokens_def endpoint_tokens_def import_tokens_def login_tokens_def grant_tokens_def binary_tokens_def

definition cert_change :: "token list \<Rightarrow> nat \<Rightarrow> CertView \<Rightarrow> (nat \<times> CertView) option" where
  "cert_change ts k v =
     (case names_in ts of
        ([], [p]) \<Rightarrow> if ts = master_tokens p \<and> \<not> v_MasterKey v then Some (k, v\<lparr>v_MasterKey := True\<rparr>) else None
      | ([n], [x, e]) \<Rightarrow>
          if ts = create_tokens n x e \<and> v_MasterKey v \<and> v_Certs v n = None then
            Some (Suc k, v\<lparr>v_Certs := (v_Certs v)(n \<mapsto> replicate k 0)\<rparr>)
          else None
      | ([n], []) \<Rightarrow>
          if ts = endpoint_tokens n \<and> \<not> v_HadrEndpoint v \<and> v_Certs v n \<noteq> None then Some (k, v\<lparr>v_HadrEndpoint := True\<rparr>)
          else if take 6 ts = take 6 (import_tokens n []) \<and> v_Certs v n = None \<and> length (hex_of ts) < k then
            Some (k, v\<lparr>v_Certs := (v_Certs v)(n \<mapsto> hex_of ts)\<rparr>)
          else None
      | ([l, n], []) \<Rightarrow>
          if ts = login_tokens l n \<and> l \<notin> v_CertLogins v \<and> v_Certs v n \<noteq> None then Some (k, v\<lparr>v_CertLogins := insert l (v_CertLogins v)\<rparr>)
          else if ts = grant_tokens l n \<and> n \<in> v_CertLogins v \<and> v_HadrEndpoint v then Some (k, v\<lparr>v_Connects := insert n (v_Connects v)\<rparr>)
          else None
      | _ \<Rightarrow> None)"

definition cert_rows :: "string \<Rightarrow> string list \<Rightarrow> CertView \<Rightarrow> sql_rows" where
  "cert_rows q args v =
     (if q = master_key_query then yes_no (v_MasterKey v)
      else if q = endpoint_query then yes_no (v_HadrEndpoint v)
      else case args of
        n # _ \<Rightarrow> yes_no (v_Certs v n \<noteq> None)
      | [] \<Rightarrow> (case map_option names_in (tokenize q) of
          Some (_, [n]) \<Rightarrow> ([[case v_Certs v n of None \<Rightarrow> SqlNull | Some der \<Rightarrow> SqlBytes der]], None)
        | _ \<Rightarrow> ([], None)))"

definition cert_driver :: "string \<Rightarrow> cert_engine Driver" where
  "cert_driver h =
     \<lparr>Exec = (\<lambda>q s. case tokenize q of None \<Rightarrow> (Inl (Errorf q), s)
         | Some ts \<Rightarrow> (case cert_change ts (fst s) (snd s h) of None \<Rightarrow> (Inl (Errorf q), s) | Some (k, v) \<Rightarrow> (Inr (), (k, (snd s)(h := v))))),
      Query = (\<lambda>q args s. (Inr (cert_rows q args (snd s h)), s)), OpenConn = ret (),
      ConnExec = (\<lambda>q. fail (Errorf q)), ConnQuery = (\<lambda>q args. fail (Errorf q)), CloseConn = (\<lambda>s. s), PingDB = ret (), CloseDB = (\<lambda>s. s)\<rparr>"

lemma cert_driver_exec:
  assumes "tokenize q = Some ts" "cert_change ts (fst s) (snd s h) = Some (k, v)" "engine_ok (k, (snd s)(h := v))"
  shows "writes engine_ok snd (Exec (cert_driver h) q) s ((snd s)(h := v))"
  using assms by (simp add: writes_def cert_driver_def)

lemma engine_ok_same:
  assumes "engine_ok s" "v_Certs v = v_Certs (snd s h)"
  shows "engine_ok (fst s, (snd s)(h := v))"
  using assms by (simp add: engine_ok_def)

lemma engine_ok_cert:
  assumes "engine_ok s" "length der < k" "bytes der" "fst s \<le> k"
  shows "engine_ok (k, (snd s)(h := (snd s h)\<lparr>v_Certs := (v_Certs (snd s h))(n \<mapsto> der)\<rparr>))"
  using assms by (fastforce simp: engine_ok_def split: if_splits)

lemma cert_driver_statements: "tsql_cert_statements cert_driver engine_ok snd"
  unfolding tsql_cert_statements_def
proof (intro allI impI conjI)
  fix s :: cert_engine and h q i assume s: "engine_ok s"
  let ?v = "snd s h" and ?n = "cert_name i" and ?l = "cert_login i"
  {
    fix x assume t: "tokenize q = Some (words [''CREATE'', ''MASTER'', ''KEY'', ''ENCRYPTION'', ''BY'', ''PASSWORD''] @ [Sym CHR ''='', Lit (''MasterKey'' @ x @ ''P@ss!'')])"
      and pre: "\<not> v_MasterKey ?v"
    show "writes engine_ok snd (Exec (cert_driver h) q) s ((snd s)(h := ?v\<lparr>v_MasterKey := True\<rparr>))"
      by (rule cert_driver_exec [OF t _ engine_ok_same [OF s]]) (use pre in \<open>simp_all add: cert_change_def cert_tokens\<close>)
  next
    fix x assume t: "tokenize q = Some (words [''CREATE'', ''CERTIFICATE''] @ [Ident ?n] @ words [''WITH'', ''SUBJECT''] @
        [Sym CHR ''='', Lit x, Sym CHR '',''] @ words [''EXPIRY_DATE''] @ [Sym CHR ''='', Lit ''2030-01-01''])"
      and pre: "v_MasterKey ?v" "v_Certs ?v ?n = None"
    let ?der = "replicate (fst s) 0 :: nat list"
    have "v_Certs (snd s h') m \<noteq> Some ?der" for h' m using s by (fastforce simp: engine_ok_def)
    moreover have "writes engine_ok snd (Exec (cert_driver h) q) s ((snd s)(h := ?v\<lparr>v_Certs := (v_Certs ?v)(?n \<mapsto> ?der)\<rparr>))"
      by (rule cert_driver_exec [OF t _ engine_ok_cert [OF s, where k = "Suc (fst s)"]])
         (use pre in \<open>simp_all add: cert_change_def cert_tokens bytes_def\<close>)
    ultimately show "\<exists>der. (\<forall>h' m. v_Certs (snd s h') m \<noteq> Some der) \<and>
        writes engine_ok snd (Exec (cert_driver h) q) s ((snd s)(h := ?v\<lparr>v_Certs := (v_Certs ?v)(?n \<mapsto> der)\<rparr>))"
      by blast
  next
    assume t: "tokenize q = Some (endpoint_tokens ?n)" and pre: "\<not> v_HadrEndpoint ?v" "v_Certs ?v ?n \<noteq> None"
    show "writes engine_ok snd (Exec (cert_driver h) q) s ((snd s)(h := ?v\<lparr>v_HadrEndpoint := True\<rparr>))"
      by (rule cert_driver_exec [OF t _ engine_ok_same [OF s]]) (use pre in \<open>auto simp: cert_change_def cert_tokens\<close>)
  next
    fix h' m der
    assume t: "tokenize q = Some (import_tokens ?n (''0x'' @ hex_bytes der))" and pre: "v_Certs ?v ?n = None" "v_Certs (snd s h') m = Some der"
    have der: "length der < fst s" "bytes der" using s pre(2) by (auto simp: engine_ok_def)
    have hex: "hex_of (import_tokens ?n (''0x'' @ hex_bytes der)) = der" using der(2) by (simp add: hex_of_import read_hex_bytes)
    have "names_in (import_tokens ?n (''0x'' @ hex_bytes der)) = ([?n], [])"
      "take 6 (import_tokens ?n (''0x'' @ hex_bytes der)) = take 6 (import_tokens ?n [])" "import_tokens ?n (''0x'' @ hex_bytes der) \<noteq> endpoint_tokens ?n"
      by (simp_all add: cert_tokens)
    then have "cert_change (import_tokens ?n (''0x'' @ hex_bytes der)) (fst s) ?v = Some (fst s, ?v\<lparr>v_Certs := (v_Certs ?v)(?n \<mapsto> der)\<rparr>)"
      using pre(1) der(1) hex by (simp add: cert_change_def)
    then show "writes engine_ok snd (Exec (cert_driver h) q) s ((snd s)(h := ?v\<lparr>v_Certs := (v_Certs ?v)(?n \<mapsto> der)\<rparr>))"
      by (rule cert_driver_exec [OF t _ engine_ok_cert [OF s der]]) simp
  next
    assume t: "tokenize q = Some (words [''CREATE'', ''LOGIN''] @ [Ident ?l] @ words [''FROM'', ''CERTIFICATE''] @ [Ident ?n])"
      and pre: "?l \<notin> v_CertLogins ?v" "v_Certs ?v ?n \<noteq> None"
    show "writes engine_ok snd (Exec (cert_driver h) q) s ((snd s)(h := ?v\<lparr>v_CertLogins := insert ?l (v_CertLogins ?v)\<rparr>))"
      by (rule cert_driver_exec [OF t _ engine_ok_same [OF s]]) (use pre in \<open>simp_all add: cert_change_def cert_tokens\<close>)
  next
    assume t: "tokenize q = Some (words [''GRANT'', ''CONNECT'', ''ON'', ''ENDPOINT''] @ [Sym CHR '':'', Sym CHR '':'', Ident ''hadr_endpoint''] @ words [''TO''] @ [Ident ?l])"
      and pre: "?l \<in> v_CertLogins ?v" "v_HadrEndpoint ?v"
    show "writes engine_ok snd (Exec (cert_driver h) q) s ((snd s)(h := ?v\<lparr>v_Connects := insert ?l (v_Connects ?v)\<rparr>))"
      by (rule cert_driver_exec [OF t _ engine_ok_same [OF s]]) (use pre in \<open>simp_all add: cert_change_def cert_tokens\<close>)
  }
qed

lemma cert_driver_queries: "tsql_cert_queries cert_driver engine_ok snd"
proof -
  have different: "endpoint_query \<noteq> master_key_query" "cert_query \<noteq> master_key_query" "cert_query \<noteq> endpoint_query"
    by (simp_all add: endpoint_query_def master_key_query_def cert_query_def)
  have other: "q \<noteq> master_key_query \<and> q \<noteq> endpoint_query" if "tokenize q = Some (binary_tokens n)" for q n
  proof -
    have "names_in (binary_tokens n) = ([], [n])" by (simp add: cert_tokens)
    moreover have "map_option (\<lambda>ts. take 2 ts) (tokenize master_key_query) = Some (words [''SELECT'', ''CASE''])" by code_simp
    moreover have "map_option (\<lambda>ts. take 2 ts) (tokenize endpoint_query) = Some (words [''SELECT'', ''CASE''])" by code_simp
    moreover have "take 2 (binary_tokens n) = words [''SELECT'', ''CERTENCODED'']" by (simp add: cert_tokens)
    ultimately show ?thesis using that by auto
  qed
  have names: "names_in (binary_tokens n) = ([], [n])" for n by (simp add: cert_tokens)
  show ?thesis
    unfolding tsql_cert_queries_def
  proof (intro allI impI conjI)
    fix s :: cert_engine and h assume s: "engine_ok s"
    have query: "reads engine_ok snd (Query (cert_driver h) q args) s (cert_rows q args (snd s h))" for q args
      using s by (simp add: reads_def cert_driver_def)
    show "reads engine_ok snd (Query (cert_driver h) master_key_query []) s (yes_no (v_MasterKey (snd s h)))"
      "reads engine_ok snd (Query (cert_driver h) endpoint_query []) s (yes_no (v_HadrEndpoint (snd s h)))"
      using query [of master_key_query "[]"] query [of endpoint_query "[]"] different by (simp_all add: cert_rows_def)
    show "reads engine_ok snd (Query (cert_driver h) cert_query [n]) s (yes_no (v_Certs (snd s h) n \<noteq> None))" for n
      using query [of cert_query "[n]"] different by (simp add: cert_rows_def)
    show "reads engine_ok snd (Query (cert_driver h) q []) s ([[SqlBytes der]], None)"
      if "tokenize q = Some (binary_tokens n)" "v_Certs (snd s h) n = Some der" for q n der
      using query [of q "[]"] other [OF that(1)] that by (simp add: cert_rows_def names)
    show "bytes der" if "v_Certs (snd s h) n = Some der" for n der using s that by (simp add: engine_ok_def)
    show "engine_ok (CloseDB (cert_driver h) s)" "snd (CloseDB (cert_driver h) s) = snd s" using s by (simp_all add: cert_driver_def)
  qed
qed

interpretation example_fleet: cert_fleet "\<lambda>h. mssql_client (cert_driver h)" engine_ok snd
  by (rule mssql_cert_fleet [OF cert_driver_queries cert_driver_statements])


section \<open>Distributing certificates\<close>

text \<open>
  C40. A run of the certificate distribution over a cluster whose servers execute T-SQL as documented succeeds:
  every replica then has a master key, an endpoint and its own certificate, kept if it had one; each peer
  certificate it lacked is now the one that peer holds, with a login that may connect to its endpoint, and the
  Kubernetes objects, other certificates, logins and permissions, and other servers are as they were. Where a
  peer certificate was already there nothing is done for it, not even when its login or its permission is
  missing. The servers may hold anything beforehand, as long as no replica holds the certificate of a peer
  under a foreign name and no login is left whose certificate is gone.
\<close>

theorem Certificates_exchanged:
  fixes w :: "('k, 'd) world"
  assumes laws: "sqlserver_laws R A store" and inst: "srv_Instance (Spec srv) = Some inst"
    and sa: "srv_CredentialsSecret (Spec srv) = None \<Longrightarrow> inst_SAPasswordSecret inst \<noteq> []"
    and login: "server_login (store (kube w)) srv = Inr up" and size: "is_int32 (replica_count inst)"
    and servers: "tsql_cert_queries D ok view" "tsql_cert_statements D ok view"
    and dialled: "\<And>i. 0 \<le> i \<Longrightarrow> i < replica_count inst \<Longrightarrow> dial R srv (replicaHost srv i) up = Inr (mssql_client (D (replicaHost srv i)))"
    and w: "ok (sql w)" "well_named srv (replica_count inst) (view (sql w))" "logins_match srv (replica_count inst) (view (sql w))"
  shows "succeeds (distributeCertificatesToSQL R srv inst) w
    (\<lambda>_ w'. kube w' = kube w \<and> ok (sql w') \<and> exchanged srv (replica_count inst) (view (sql w)) (view (sql w')))"
  by (rule cert_fleet.distributed [OF mssql_cert_fleet [OF servers] distribution_credentials_run [OF laws inst sa login] dialled size w])

text \<open>A new cluster of two replicas.\<close>

definition ex_cert_world :: "(SrvStore, cert_engine) world" where
  "ex_cert_world = \<lparr>kube = ex_server_store (ex_sqlserver (Some 2)),
     sql = (0, \<lambda>_. \<lparr>v_MasterKey = False, v_Certs = Map.empty, v_CertLogins = {}, v_HadrEndpoint = False, v_Connects = {}\<rparr>), events = []\<rparr>"

theorem Certificates_exchanged_witness:
  "succeeds (distributeCertificatesToSQL (memory_srv_reconciler (\<lambda>h _ _ _ _. Inr (mssql_client (cert_driver h))))
       (ex_sqlserver (Some 2)) (ex_instance (Some 2))) ex_cert_world
     (\<lambda>_ w'. let v0 = snd (sql w') (replicaHost (ex_sqlserver (Some 2)) 0); v1 = snd (sql w') (replicaHost (ex_sqlserver (Some 2)) 1) in
        v_Certs v0 (cert_name 0) \<noteq> None \<and> v_Certs v1 (cert_name 0) = v_Certs v0 (cert_name 0) \<and> cert_login 0 \<in> v_Connects v1 \<and>
        v_Certs v1 (cert_name 1) \<noteq> None \<and> v_Certs v0 (cert_name 1) = v_Certs v1 (cert_name 1) \<and> cert_login 1 \<in> v_Connects v0)"
proof -
  let ?srv = "ex_sqlserver (Some 2)" and ?inst = "ex_instance (Some 2)"
  let ?R = "memory_srv_reconciler (\<lambda>h _ _ _ _. Inr (mssql_client (cert_driver h)))"
  have count: "replica_count ?inst = 2" and sa: "inst_SAPasswordSecret ?inst \<noteq> []" by (simp_all add: replica_count_def ex_instance_def)
  have inst: "srv_Instance (Spec ?srv) = Some ?inst" by (simp add: ex_sqlserver_def)
  have login: "server_login (kube ex_cert_world) ?srv = Inr (''sa'', ''y'')"
    by (simp add: ex_cert_world_def server_login_def secret_sa_def ex_server_store_def ex_sqlserver_def ex_cr_def ex_instance_def)
  have empty: "v_Certs (snd (sql ex_cert_world) h) m = None" "l \<notin> v_CertLogins (snd (sql ex_cert_world) h)" for h m l
    by (simp_all add: ex_cert_world_def)
  have start: "engine_ok (sql ex_cert_world)" "well_named ?srv 2 (snd (sql ex_cert_world))" "logins_match ?srv 2 (snd (sql ex_cert_world))"
    by (simp_all add: engine_ok_def well_named_def logins_match_def empty)
  have run: "succeeds (distributeCertificatesToSQL ?R ?srv ?inst) ex_cert_world
      (\<lambda>_ w'. kube w' = kube ex_cert_world \<and> engine_ok (sql w') \<and> exchanged ?srv (replica_count ?inst) (snd (sql ex_cert_world)) (snd (sql w')))"
    by (rule Certificates_exchanged [OF memory_sqlserver_laws inst sa login _ cert_driver_queries cert_driver_statements])
       (simp_all add: count is_int32_def dial_def start)
  have two: "{0..<2} = {0, 1 :: int}" by auto
  show ?thesis
    by (rule wp_mono [OF run]) (simp_all add: exchanged_def count two peer_settled_def empty Let_def)
qed

end
