(* ===== verification/Spec2Isabelle.thy ===== *)
theory Spec2Isabelle
  imports Quoting Mock_Laws Database_Controller Login_Controller DatabaseUser_Controller Schema_Controller Permission_Controller
    AG_Sync Lease_Race MSSQL_Schemas AGFailover_Controller ScheduledBackup_Examples Admission MSSQL_Certificates
begin

text \<open>
  A Kubernetes operator for Microsoft SQL Server, written in Go. Eleven kinds of custom resources (a SQLServer,
  external or deployed by the operator; databases, logins, users, schemas, permissions; backups, restores and
  backup schedules; availability groups and failovers) each have a controller under \<open>internal/controller\<close>,
  whose \<open>Reconcile\<close> function is called again and again with the name of an object and brings
  the world to what the object says. A controller acts on two outside systems: the Kubernetes API server
  (reading objects and secrets, patching status, creating objects) and SQL Server, through one interface,
  \<open>SQLClient\<close> (\<open>internal/sql/interface.go\<close>), that has two implementations: the real one, which sends T-SQL
  (\<open>client.go\<close>), and one in memory for the tests (\<open>mock_client.go\<close>). Webhooks (\<open>api/v1alpha1/*_webhook.go\<close>)
  fill in defaults and validate objects before the controllers see them.

  How the program is represented. A fallible Go call is an \<open>('a, 's) op\<close>: a function from a state to an error
  or a value, and the new state. A controller runs in a \<open>world\<close>: the state of the API server, the state
  of the SQL Server, and the events recorded. The clients of both systems, the random numbers, the clock,
  the order in which Go visits a map, the cron parser and the cryptographic libraries are parameters (records of
  operations); what is relied on of them are named hypotheses: \<open>api_laws\<close> (reads answer what is stored, status patches and
  updates store it), \<open>sqlserver_laws\<close>, \<open>lease_laws\<close>, \<open>backup_laws\<close>, \<open>crypto_laws\<close> and so on. Each has an instance in
  memory, on which the examples at the end of the theories run. \<open>int32\<close> and \<open>int64\<close> arithmetic is written out where it
  may overflow. A panic is an error of the reconciliation in which it happens. Times are in nanoseconds; the API
  server keeps whole seconds, which no theorem depends on.

  The theories, in the order of the program's layers:

  \<^item> \<open>Prelude\<close>: errors, operations and their combinators, decimal numerals, machine integers.
  \<^item> \<open>Quoting\<close> (\<open>quotename.go\<close>): the quoting of identifiers and strings, and a lexer for T-SQL that
    shows what the server reads back.
  \<^item> \<open>SQL_Interface\<close> (\<open>interface.go\<close>), \<open>Mock_Client\<close> (\<open>mock_client.go\<close>), \<open>Mock_Laws\<close>: the interface as a record,
    the server in memory, the invariant of all its reachable states, and its part of every contract below.
  \<^item> \<open>MSSQL_Client\<close>, \<open>MSSQL_Statements\<close>, \<open>MSSQL_Schemas\<close> (\<open>client.go\<close>): every method as the statements it sends and the
    rows it scans; the statements read back as what was meant, for all names and passwords; a refinement for schemas.
  \<^item> \<open>API_Types\<close> (\<open>*_types.go\<close>), \<open>Helpers\<close> (\<open>helpers.go\<close> and the idioms of all controllers), \<open>Call_Logic\<close>
    (weakest preconditions of calls, contracts, the laws of the API server), \<open>Memory_API\<close>, \<open>Pods\<close>.
  \<^item> \<open>Role_Reconciliation\<close>, \<open>Database_Controller\<close>, \<open>Login_Controller\<close>, \<open>DatabaseUser_Controller\<close>, \<open>Schema_Controller\<close>,
    \<open>Permission_Controller\<close>: the controllers of objects inside a server. Each states as a locale what it
    needs of a server (reads and writes of an abstract view), proves the effect of \<open>Reconcile\<close> and of deletion
    once there, and interprets the locale on the server in memory, \<open>MSSQL_Schemas\<close> also on the real client.
  \<^item> \<open>AG_Fencing\<close> (\<open>ag_fencing.go\<close>), \<open>AG_Controller\<close>, \<open>AG_Sync\<close>, \<open>AG_Failover\<close> (\<open>availabilitygroup_controller.go\<close>),
    \<open>Server_Fleet\<close>, \<open>Lease_Race\<close>: availability groups over a fleet of servers: what is reconciled, split brains and
    fencing, automatic failover, and the lease that operators compete for, as a step relation over
    all interleavings of their API calls.
  \<^item> \<open>One_Shot\<close>, \<open>AGFailover_Controller\<close> (\<open>backup_controller.go\<close>, \<open>restore_controller.go\<close>, \<open>agfailover_controller.go\<close>):
    objects that are carried out once.
  \<^item> \<open>Backup_Naming\<close>, \<open>ScheduledBackup_Controller\<close>, \<open>ScheduledBackup_Examples\<close> (\<open>scheduledbackup_controller.go\<close>): schedules,
    their history and the retention of old backups, the names and destinations of backups.
  \<^item> \<open>Webhooks\<close>, \<open>Admission\<close> (\<open>*_webhook.go\<close>): defaulting and validation of every kind, and what an object
    can have become over its life of accepted updates.
  \<^item> \<open>SQLServer_Objects\<close>, \<open>SQLServer_Instance\<close> (\<open>sqlserver_instance.go\<close>), \<open>SQLServer_Certificates\<close>
    (\<open>sqlserver_certificates.go\<close>), \<open>SQLServer_ManagedAG\<close> (\<open>sqlserver_managed_ag.go\<close>), \<open>SQLServer_Controller\<close>
    (\<open>sqlserver_controller.go\<close>), \<open>SQLServer_Laws\<close>, \<open>Managed_Objects\<close>, \<open>Server_Probe\<close>, \<open>Managed_Cluster\<close>: a
    SQLServer, external or deployed: its Kubernetes objects and the fixed point they reach, the routing of
    its services, the probe, the certificates, and the availability group it creates, which ends in the hands of the
    controller above and is accepted by its webhook.
  \<^item> \<open>Cert_Distribution\<close>, \<open>MSSQL_Certificates\<close> (\<open>sqlserver_certificates.go\<close>, \<open>client.go\<close>): the exchange of certificates
    between the servers of a cluster, over a locale of what a fleet of servers promises, which the real client keeps
    when its statements are executed as documented.

  What the groups of lemmas show. For every controller: the exact effect of a pass on the server (what is changed,
  and that nothing else is), on the status and the events, on the success and error paths; which passes are silent;
  that repeated passes reach what the object says, or where they do not; that deletion releases
  the object. For the cluster parts: safety over all interleavings and failures. For the code that only computes
  (quoting, validation, naming, retention): equivalence with a declarative description, round trips and bounds.
  Some theorems state behaviour that is not what one would want; it is described in their texts.

  Bounds and fuel. All definitions are total: loops run over lists, the lexer and the loop over the replicas
  have termination proofs, the latter in 32-bit arithmetic for every bound. No fuel is used.

  Not modelled: \<open>cmd/main.go\<close> (flags and wiring), the registration of watches (\<open>SetupWithManager\<close>) and of webhooks,
  metrics and log lines, which do not act on the state; generated deep copies, values being immutable here;
  connection strings and drivers (\<open>azuread.go\<close> and the factory of \<open>client.go\<close>), which only call libraries; the execution of
  T-SQL by the server beyond schemas and the certificates of a cluster, which is not in the repository: for
  the other statements it is shown what is sent. Contexts and deadlines appear as calls that may fail at any point.
\<close>

end
